(* ===== verification/Prelude.thy ===== *)
theory Prelude
  imports Main "HOL-Library.Word" "HOL-Library.Char_ord" "HOL-Library.List_Lexorder"
    "HOL-Library.Sublist"
begin

text \<open>
  The shared vocabulary of the development: machine integers and byte strings, results with a
  short-circuiting bind, actions that thread a state and may fail, ordered maps and sets as the
  sorted lists a \<open>BTreeMap\<close> or \<open>BTreeSet\<close> iterates over, and the string operations of the Rust
  standard library the sources use.

  A Rust \<open>String\<close> is its UTF-8 byte sequence, and a HOL \<open>char\<close> is one byte, so \<open>String\<close>, \<open>&str\<close>
  and \<open>Vec<u8>\<close> are all \<open>string\<close>; the order on them is the byte-wise lexicographic order Rust
  uses. \<open>u64\<close> and \<open>u32\<close> are words; lengths (\<open>usize\<close>) are \<open>nat\<close>.
\<close>

type_synonym bytes = string
type_synonym u64 = "64 word"
type_synonym u32 = "32 word"

named_theorems result_simps \<open>how results and actions compose\<close>
named_theorems moves_intro \<open>frame rules: what a state relation an action stays within\<close>

section \<open>Results\<close>

text \<open>\<open>Result<T, E>\<close> is \<open>'e + 'a\<close>; \<open>res_bind\<close> is the \<open>?\<close> operator.\<close>

definition res_bind :: "('e + 'a) \<Rightarrow> ('a \<Rightarrow> 'e + 'b) \<Rightarrow> 'e + 'b" where
  "res_bind r f = (case r of Inl e \<Rightarrow> Inl e | Inr a \<Rightarrow> f a)"

definition map_err :: "('e \<Rightarrow> 'g) \<Rightarrow> ('e + 'a) \<Rightarrow> 'g + 'a" where
  "map_err h r = (case r of Inl e \<Rightarrow> Inl (h e) | Inr a \<Rightarrow> Inr a)"

definition ok_or :: "'e \<Rightarrow> 'a option \<Rightarrow> 'e + 'a" where
  "ok_or e x = (case x of None \<Rightarrow> Inl e | Some a \<Rightarrow> Inr a)"

definition res_ok :: "('e + 'a) \<Rightarrow> 'a option" where
  "res_ok r = (case r of Inl _ \<Rightarrow> None | Inr a \<Rightarrow> Some a)"

text \<open>\<open>iter().map(f).collect::<Result<Vec<_>, _>>()\<close>, and a \<open>for\<close> loop whose body may return.\<close>

fun res_collect :: "('a \<Rightarrow> 'e + 'b) \<Rightarrow> 'a list \<Rightarrow> 'e + 'b list" where
  "res_collect f [] = Inr []"
| "res_collect f (x # xs) =
     res_bind (f x) (\<lambda>y. res_bind (res_collect f xs) (\<lambda>ys. Inr (y # ys)))"

fun res_fold :: "('a \<Rightarrow> 's \<Rightarrow> 'e + 's) \<Rightarrow> 'a list \<Rightarrow> 's \<Rightarrow> 'e + 's" where
  "res_fold f [] s = Inr s"
| "res_fold f (x # xs) s = res_bind (f x s) (res_fold f xs)"

lemma res_bind_simps [simp, result_simps]:
  "res_bind (Inl e) f = Inl e" "res_bind (Inr a) f = f a"
  by (simp_all add: res_bind_def)

lemma res_bind_Inr_iff [result_simps]:
  "res_bind r f = Inr b \<longleftrightarrow> (\<exists>a. r = Inr a \<and> f a = Inr b)"
  by (cases r) simp_all

lemma res_bind_Inl_iff [result_simps]:
  "res_bind r f = Inl e \<longleftrightarrow> r = Inl e \<or> (\<exists>a. r = Inr a \<and> f a = Inl e)"
  by (cases r) simp_all

lemma map_err_simps [simp, result_simps]:
  "map_err h (Inl e) = Inl (h e)" "map_err h (Inr a) = Inr a"
  by (simp_all add: map_err_def)

lemma map_err_Inr_iff [simp, result_simps]: "map_err h r = Inr a \<longleftrightarrow> r = Inr a"
  by (cases r) simp_all

lemma map_err_Inl_iff [result_simps]: "map_err h r = Inl e \<longleftrightarrow> (\<exists>d. r = Inl d \<and> e = h d)"
  by (cases r) auto

lemma ok_or_simps [simp, result_simps]: "ok_or e None = Inl e" "ok_or e (Some a) = Inr a"
  by (simp_all add: ok_or_def)

lemma ok_or_Inr_iff [simp, result_simps]: "ok_or e x = Inr a \<longleftrightarrow> x = Some a"
  by (cases x) simp_all

lemma res_ok_simps [simp, result_simps]: "res_ok (Inl e) = None" "res_ok (Inr a) = Some a"
  by (simp_all add: res_ok_def)

lemma res_collect_Inr_iff:
  "res_collect f xs = Inr ys \<longleftrightarrow> list_all2 (\<lambda>x y. f x = Inr y) xs ys"
  by (induction xs arbitrary: ys) (auto simp: res_bind_Inr_iff list_all2_Cons1)

section \<open>Actions\<close>

text \<open>
  Code that reads and changes a state and may fail is an action: it returns its result and the
  state it leaves, which a failure keeps as well (a Rust function that returns \<open>Err\<close> has already
  made the changes before it).
\<close>

type_synonym ('s, 'e, 'a) act = "'s \<Rightarrow> ('e + 'a) \<times> 's"

definition act_return :: "'a \<Rightarrow> ('s, 'e, 'a) act" where
  "act_return a s = (Inr a, s)"

definition act_fail :: "'e \<Rightarrow> ('s, 'e, 'a) act" where
  "act_fail e s = (Inl e, s)"

definition act_lift :: "('e + 'a) \<Rightarrow> ('s, 'e, 'a) act" where
  "act_lift r s = (r, s)"

definition act_gets :: "('s \<Rightarrow> 'a) \<Rightarrow> ('s, 'e, 'a) act" where
  "act_gets f s = (Inr (f s), s)"

definition act_modify :: "('s \<Rightarrow> 's) \<Rightarrow> ('s, 'e, unit) act" where
  "act_modify f s = (Inr (), f s)"

definition act_bind :: "('s, 'e, 'a) act \<Rightarrow> ('a \<Rightarrow> ('s, 'e, 'b) act) \<Rightarrow> ('s, 'e, 'b) act" where
  "act_bind m f s = (case m s of (Inl e, t) \<Rightarrow> (Inl e, t) | (Inr a, t) \<Rightarrow> f a t)"

text \<open>\<open>map_err\<close> with a handler that changes the state, and one that does not.\<close>

definition act_catch :: "('s, 'e, 'a) act \<Rightarrow> ('e \<Rightarrow> ('s, 'g, 'a) act) \<Rightarrow> ('s, 'g, 'a) act" where
  "act_catch m h s = (case m s of (Inl e, t) \<Rightarrow> h e t | (Inr a, t) \<Rightarrow> (Inr a, t))"

definition act_map_err :: "('e \<Rightarrow> 'g) \<Rightarrow> ('s, 'e, 'a) act \<Rightarrow> ('s, 'g, 'a) act" where
  "act_map_err h m s = (case m s of (r, t) \<Rightarrow> (map_err h r, t))"

text \<open>What an action gave, as a value: \<open>.ok()\<close> and \<open>match\<close> on a \<open>Result\<close>.\<close>

definition act_result :: "('s, 'e, 'a) act \<Rightarrow> ('s, 'g, 'e + 'a) act" where
  "act_result m s = (case m s of (r, t) \<Rightarrow> (Inr r, t))"

text \<open>A \<open>for\<close> loop whose body may fail, and one that collects what its body returns.\<close>

fun act_for :: "('a \<Rightarrow> ('s, 'e, unit) act) \<Rightarrow> 'a list \<Rightarrow> ('s, 'e, unit) act" where
  "act_for f [] s = (Inr (), s)"
| "act_for f (x # xs) s = act_bind (f x) (\<lambda>_. act_for f xs) s"

fun act_collect :: "('a \<Rightarrow> ('s, 'e, 'b) act) \<Rightarrow> 'a list \<Rightarrow> ('s, 'e, 'b list) act" where
  "act_collect f [] s = (Inr [], s)"
| "act_collect f (x # xs) s =
     act_bind (f x) (\<lambda>y. act_bind (act_collect f xs) (\<lambda>ys. act_return (y # ys))) s"

text \<open>Congruence rules, so that a recursive call below a bind or a loop is seen where it stands.\<close>

lemma res_bind_cong [fundef_cong]:
  "r = r' \<Longrightarrow> (\<And>a. r' = Inr a \<Longrightarrow> f a = g a) \<Longrightarrow> res_bind r f = res_bind r' g"
  by (cases r') simp_all

lemma res_fold_cong [fundef_cong]:
  "xs = ys \<Longrightarrow> s = t \<Longrightarrow> (\<And>x u. x \<in> set ys \<Longrightarrow> f x u = g x u) \<Longrightarrow> res_fold f xs s = res_fold g ys t"
  by (induction ys arbitrary: xs s t) (auto simp: res_bind_def split: sum.splits)

lemma res_collect_cong [fundef_cong]:
  "xs = ys \<Longrightarrow> (\<And>x. x \<in> set ys \<Longrightarrow> f x = g x) \<Longrightarrow> res_collect f xs = res_collect g ys"
  by (induction ys arbitrary: xs) auto

lemma act_bind_cong [fundef_cong]:
  "m s = m' s' \<Longrightarrow> (\<And>a t. m' s' = (Inr a, t) \<Longrightarrow> f a t = g a t) \<Longrightarrow>
   act_bind m f s = act_bind m' g s'"
  by (auto simp: act_bind_def split: prod.splits sum.splits)

lemma act_for_cong [fundef_cong]:
  "xs = ys \<Longrightarrow> s = t \<Longrightarrow> (\<And>x u. x \<in> set ys \<Longrightarrow> f x u = g x u) \<Longrightarrow> act_for f xs s = act_for g ys t"
proof (induction ys arbitrary: xs s t)
  case (Cons y ys)
  then have "f y t = g y t" "\<And>u. act_for f ys u = act_for g ys u" by simp_all
  with Cons.prems(1,2) show ?case by (auto simp: act_bind_def split: prod.splits sum.splits)
qed simp

lemma act_simps [simp, result_simps]:
  "act_return a s = (Inr a, s)"
  "act_fail e s = (Inl e, s)"
  "act_lift r s = (r, s)"
  "act_gets f s = (Inr (f s), s)"
  "act_modify g s = (Inr (), g s)"
  by (simp_all add: act_return_def act_fail_def act_lift_def act_gets_def act_modify_def)

lemma act_bind_Inr_iff [result_simps]:
  "act_bind m f s = (Inr b, u) \<longleftrightarrow> (\<exists>a t. m s = (Inr a, t) \<and> f a t = (Inr b, u))"
  by (auto simp: act_bind_def split: prod.splits sum.splits)

lemma act_bind_Inl_iff [result_simps]:
  "act_bind m f s = (Inl e, u) \<longleftrightarrow>
     m s = (Inl e, u) \<or> (\<exists>a t. m s = (Inr a, t) \<and> f a t = (Inl e, u))"
  by (auto simp: act_bind_def split: prod.splits sum.splits)

lemma act_bind_run:
  "m s = (Inr a, t) \<Longrightarrow> act_bind m f s = f a t"
  "m s = (Inl e, t) \<Longrightarrow> act_bind m f s = (Inl e, t)"
  by (simp_all add: act_bind_def)

lemma act_bind_pure [simp, result_simps]:
  "act_bind (act_return a) f s = f a s"
  "act_bind (act_fail e) f s = (Inl e, s)"
  "act_bind (act_gets g) f s = f (g s) s"
  "act_bind (act_modify h) k s = k () (h s)"
  "act_bind (act_lift (Inr a)) f s = f a s"
  "act_bind (act_lift (Inl e)) f s = (Inl e, s)"
  by (simp_all add: act_bind_def)

lemma act_catch_Inr_iff [result_simps]:
  "act_catch m h s = (Inr a, u) \<longleftrightarrow>
     m s = (Inr a, u) \<or> (\<exists>e t. m s = (Inl e, t) \<and> h e t = (Inr a, u))"
  by (auto simp: act_catch_def split: prod.splits sum.splits)

lemma act_catch_Inl_iff [result_simps]:
  "act_catch m h s = (Inl d, u) \<longleftrightarrow> (\<exists>e t. m s = (Inl e, t) \<and> h e t = (Inl d, u))"
  by (auto simp: act_catch_def split: prod.splits sum.splits)

lemma act_map_err_Inr_iff [result_simps]:
  "act_map_err h m s = (Inr a, t) \<longleftrightarrow> m s = (Inr a, t)"
  by (auto simp: act_map_err_def split: prod.splits)

lemma act_map_err_Inl_iff [result_simps]:
  "act_map_err h m s = (Inl d, t) \<longleftrightarrow> (\<exists>e. m s = (Inl e, t) \<and> d = h e)"
  by (auto simp: act_map_err_def map_err_Inl_iff split: prod.splits)

lemma act_result_iff [result_simps]:
  "act_result m s = (Inr r, t) \<longleftrightarrow> m s = (r, t)" "act_result m s \<noteq> (Inl e, t)"
  by (auto simp: act_result_def split: prod.splits)

subsection \<open>What an action may change\<close>

text \<open>
  \<open>moves R m\<close>: whatever state \<open>m\<close> starts in, it leaves one \<open>R\<close> relates it to, whether it returns
  or fails. For a preorder \<open>R\<close> this composes along binds, so a frame property of a long handler
  is the frame property of the primitive operations it calls.
\<close>

definition moves :: "('s \<Rightarrow> 's \<Rightarrow> bool) \<Rightarrow> ('s, 'e, 'a) act \<Rightarrow> bool" where
  "moves R m \<longleftrightarrow> (\<forall>s. R s (snd (m s)))"

lemma movesD: "moves R m \<Longrightarrow> m s = (r, t) \<Longrightarrow> R s t"
  by (metis moves_def snd_conv)

lemma moves_pure [moves_intro]:
  assumes "reflp R"
  shows "moves R (act_return a)" "moves R (act_fail e)" "moves R (act_lift r)"
    "moves R (act_gets f)"
  using assms by (simp_all add: moves_def reflpD)

lemma moves_modify [moves_intro]: "(\<And>s. R s (f s)) \<Longrightarrow> moves R (act_modify f)"
  by (simp add: moves_def)

lemma moves_bind [moves_intro]:
  assumes "transp R" and "moves R m" and "\<And>a. moves R (f a)"
  shows "moves R (act_bind m f)"
  unfolding moves_def
proof
  fix s
  obtain r t where m: "m s = (r, t)" by fastforce
  then have st: "R s t" using assms(2) by (rule movesD[rotated])
  show "R s (snd (act_bind m f s))"
  proof (cases r)
    case (Inl e)
    with m st show ?thesis by (simp add: act_bind_run)
  next
    case (Inr a)
    have "R t (snd (f a t))" using assms(3) by (simp add: moves_def)
    with st m Inr assms(1) show ?thesis by (auto simp: act_bind_run dest: transpD)
  qed
qed

lemma moves_catch [moves_intro]:
  assumes "transp R" and "moves R m" and "\<And>e. moves R (h e)"
  shows "moves R (act_catch m h)"
  unfolding moves_def
proof
  fix s
  obtain r t where m: "m s = (r, t)" by fastforce
  then have st: "R s t" using assms(2) by (rule movesD[rotated])
  show "R s (snd (act_catch m h s))"
  proof (cases r)
    case (Inl e)
    have "R t (snd (h e t))" using assms(3) by (simp add: moves_def)
    with st m Inl assms(1) show ?thesis by (auto simp: act_catch_def dest: transpD)
  next
    case (Inr a)
    with m st show ?thesis by (simp add: act_catch_def)
  qed
qed

lemma moves_map_err [moves_intro]: "moves R m \<Longrightarrow> moves R (act_map_err h m)"
  by (auto simp: moves_def act_map_err_def split: prod.splits) (metis snd_conv)

lemma moves_result [moves_intro]: "moves R m \<Longrightarrow> moves R (act_result m)"
  by (auto simp: moves_def act_result_def split: prod.splits) (metis snd_conv)

lemma moves_for [moves_intro]:
  assumes "reflp R" and "transp R" and "\<And>x. moves R (f x)"
  shows "moves R (act_for f xs)"
proof (induction xs)
  case Nil
  show ?case using assms(1) by (simp add: moves_def reflpD)
next
  case (Cons x xs)
  have "moves R (act_bind (f x) (\<lambda>_. act_for f xs))" using assms Cons by (intro moves_bind)
  then show ?case by (simp add: moves_def)
qed

lemma moves_collect [moves_intro]:
  assumes "reflp R" and "transp R" and "\<And>x. moves R (f x)"
  shows "moves R (act_collect f xs)"
proof (induction xs)
  case Nil
  show ?case using assms(1) by (simp add: moves_def reflpD)
next
  case (Cons x xs)
  have "moves R (act_bind (f x) (\<lambda>y. act_bind (act_collect f xs) (\<lambda>ys. act_return (y # ys))))"
    using assms Cons by (intro moves_bind moves_pure)
  then show ?case by (simp add: moves_def)
qed

lemma moves_if [moves_intro]: "moves R m \<Longrightarrow> moves R n \<Longrightarrow> moves R (if b then m else n)"
  by simp

lemma moves_option [moves_intro]:
  "moves R m \<Longrightarrow> (\<And>a. moves R (f a)) \<Longrightarrow> moves R (case x of None \<Rightarrow> m | Some a \<Rightarrow> f a)"
  by (cases x) simp_all

lemma moves_sum [moves_intro]:
  "(\<And>a. moves R (f a)) \<Longrightarrow> (\<And>b. moves R (g b)) \<Longrightarrow>
   moves R (case x of Inl a \<Rightarrow> f a | Inr b \<Rightarrow> g b)"
  by (cases x) simp_all

section \<open>Saturating arithmetic\<close>

definition sat_inc :: "u64 \<Rightarrow> u64" where
  "sat_inc w = (if w = - 1 then w else w + 1)"

definition sat_dec :: "u64 \<Rightarrow> u64" where
  "sat_dec w = (if w = 0 then 0 else w - 1)"

lemma unat_sat_inc: "unat (sat_inc w) = min (unat w + 1) (2 ^ 64 - 1)"
proof (cases "w = - 1")
  case True
  have "unat (- 1 :: u64) = 2 ^ 64 - 1" by (simp add: unsigned_minus_1_eq_mask mask_eq_exp_minus_1)
  with True show ?thesis by (simp add: sat_inc_def)
next
  case False
  then have "1 + w \<noteq> 0" by (simp add: add_eq_0_iff)
  then have "unat (w + 1) = unat w + 1" by (simp add: unatSuc add.commute)
  moreover have "unat (w + 1) < 2 ^ LENGTH(64)" by (rule unsigned_less)
  ultimately show ?thesis using False by (simp add: sat_inc_def)
qed

lemma unat_sat_dec: "unat (sat_dec w) = unat w - 1"
  by (simp add: sat_dec_def unat_minus_one)

section \<open>Strings\<close>

text \<open>Decimal, as \<open>to_string\<close> prints an unsigned integer.\<close>

definition digit :: "nat \<Rightarrow> char" where
  "digit n = char_of (48 + n)"

fun dec :: "nat \<Rightarrow> string" where
  "dec n = (if n < 10 then [digit n] else dec (n div 10) @ [digit (n mod 10)])"

declare dec.simps [simp del]

definition undec :: "string \<Rightarrow> nat" where
  "undec s = foldl (\<lambda>n c. 10 * n + (of_char c - 48)) 0 s"

lemma of_char_digit: "n < 10 \<Longrightarrow> (of_char (digit n) :: nat) = 48 + n"
  by (simp add: digit_def)

lemma undec_dec [simp]: "undec (dec n) = n"
proof (induction n rule: dec.induct)
  case (1 n)
  show ?case
  proof (cases "n < 10")
    case True
    then show ?thesis by (simp add: dec.simps[of n] undec_def of_char_digit)
  next
    case False
    with "1" have "undec (dec (n div 10)) = n div 10" by simp
    with False show ?thesis
      by (simp add: dec.simps[of n] undec_def of_char_digit)
  qed
qed

lemma dec_inject [simp]: "dec m = dec n \<longleftrightarrow> m = n"
  by (metis undec_dec)

text \<open>A byte as two lower-case hexadecimal digits (\<open>{byte:02x}\<close>).\<close>

definition hex_digit :: "nat \<Rightarrow> char" where
  "hex_digit n = (if n < 10 then char_of (48 + n) else char_of (87 + n))"

definition hex_byte :: "char \<Rightarrow> string" where
  "hex_byte c = (let n = of_char c in [hex_digit (n div 16), hex_digit (n mod 16)])"

text \<open>
  \<open>s.trim().is_empty()\<close>: every character of \<open>s\<close> is white space. The patterns are the UTF-8
  encodings of the code points with the Unicode property \<open>White_Space\<close>.
\<close>

definition ascii_space :: "char \<Rightarrow> bool" where
  "ascii_space c \<longleftrightarrow> (let n = (of_char c :: nat) in n = 32 \<or> (9 \<le> n \<and> n \<le> 13))"

definition space2 :: "char \<Rightarrow> char \<Rightarrow> bool" where
  "space2 a b \<longleftrightarrow> (of_char a :: nat) = 194 \<and> (of_char b :: nat) \<in> {133, 160}"

definition space3 :: "char \<Rightarrow> char \<Rightarrow> char \<Rightarrow> bool" where
  "space3 a b c \<longleftrightarrow> (let x = (of_char a :: nat); y = (of_char b :: nat); z = (of_char c :: nat) in
     (x = 225 \<and> y = 154 \<and> z = 128)
     \<or> (x = 226 \<and> y = 128 \<and> (128 \<le> z \<and> z \<le> 138 \<or> z \<in> {168, 169, 175}))
     \<or> (x = 226 \<and> y = 129 \<and> z = 159)
     \<or> (x = 227 \<and> y = 128 \<and> z = 128))"

fun blank :: "string \<Rightarrow> bool" where
  "blank [] = True"
| "blank (a # s) =
     (ascii_space a \<and> blank s
      \<or> (case s of [] \<Rightarrow> False
         | b # s' \<Rightarrow> space2 a b \<and> blank s'
            \<or> (case s' of [] \<Rightarrow> False | c # s'' \<Rightarrow> space3 a b c \<and> blank s'')))"

text \<open>\<open>split('.')\<close> on a separator byte, and \<open>split_once\<close> on a separator string.\<close>

fun split_on :: "char \<Rightarrow> string \<Rightarrow> string list" where
  "split_on c [] = [[]]"
| "split_on c (x # xs) =
     (if x = c then [] # split_on c xs
      else (case split_on c xs of [] \<Rightarrow> [[x]] | w # ws \<Rightarrow> (x # w) # ws))"

fun split_once :: "string \<Rightarrow> string \<Rightarrow> (string \<times> string) option" where
  "split_once sep s =
     (if prefix sep s then Some ([], drop (length sep) s)
      else (case s of [] \<Rightarrow> None
            | x # xs \<Rightarrow> map_option (\<lambda>(a, b). (x # a, b)) (split_once sep xs)))"

declare split_once.simps [simp del]

lemma split_once_Some:
  "split_once sep s = Some (a, b) \<Longrightarrow> s = a @ sep @ b"
proof (induction sep s arbitrary: a rule: split_once.induct)
  case (1 sep s)
  show ?case
  proof (cases "prefix sep s")
    case True
    with "1.prems" show ?thesis by (auto simp: split_once.simps[of sep s] prefix_def)
  next
    case False
    with "1.prems" obtain x xs a' where "s = x # xs" "a = x # a'" "split_once sep xs = Some (a', b)"
      by (auto simp: split_once.simps[of sep s] split: list.splits)
    with "1.IH"[OF False] show ?thesis by simp
  qed
qed

lemma split_once_None: "split_once sep s = None \<Longrightarrow> \<not> sublist sep s"
proof (induction sep s rule: split_once.induct)
  case (1 sep s)
  have np: "\<not> prefix sep s" using "1.prems" by (auto simp: split_once.simps[of sep s])
  show ?case
  proof (cases s)
    case Nil
    with np show ?thesis by (auto simp: sublist_Nil_right)
  next
    case (Cons x xs)
    with "1.prems" np have "split_once sep xs = None"
      by (simp add: split_once.simps[of sep "x # xs"])
    with "1.IH"[OF np Cons] np Cons show ?thesis by (simp add: sublist_Cons_right)
  qed
qed

text \<open>\<open>s.contains(sep)\<close>.\<close>

definition contains_str :: "string \<Rightarrow> string \<Rightarrow> bool" where
  "contains_str sep s \<longleftrightarrow> split_once sep s \<noteq> None"

definition strip_prefix :: "string \<Rightarrow> string \<Rightarrow> string option" where
  "strip_prefix p s = (if prefix p s then Some (drop (length p) s) else None)"

text \<open>\<open>rsplit_once('.')\<close>: at the last occurrence of a byte.\<close>

definition rsplit_once :: "char \<Rightarrow> string \<Rightarrow> (string \<times> string) option" where
  "rsplit_once c s =
     (if c \<in> set s
      then Some (rev (tl (dropWhile (\<lambda>x. x \<noteq> c) (rev s))), rev (takeWhile (\<lambda>x. x \<noteq> c) (rev s)))
      else None)"

fun join :: "string \<Rightarrow> string list \<Rightarrow> string" where
  "join sep [] = []"
| "join sep [x] = x"
| "join sep (x # xs) = x @ sep @ join sep xs"

section \<open>Ordered maps and sets\<close>

text \<open>
  A \<open>BTreeMap\<close> (and \<open>serde_json::Map\<close>, which is one) is the list of its entries in key order;
  \<open>map_of\<close> is its lookup.
\<close>

type_synonym ('k, 'v) bmap = "('k \<times> 'v) list"

definition bmap_ok :: "('k::linorder, 'v) bmap \<Rightarrow> bool" where
  "bmap_ok m \<longleftrightarrow> sorted_wrt (<) (map fst m)"

fun bmap_insert :: "'k::linorder \<Rightarrow> 'v \<Rightarrow> ('k, 'v) bmap \<Rightarrow> ('k, 'v) bmap" where
  "bmap_insert k v [] = [(k, v)]"
| "bmap_insert k v ((k', v') # m) =
     (if k < k' then (k, v) # (k', v') # m
      else if k = k' then (k, v) # m
      else (k', v') # bmap_insert k v m)"

definition bmap_remove :: "'k \<Rightarrow> ('k, 'v) bmap \<Rightarrow> ('k, 'v) bmap" where
  "bmap_remove k m = filter (\<lambda>e. fst e \<noteq> k) m"

text \<open>\<open>entry(k).or_insert(v)\<close>.\<close>

definition bmap_or_insert :: "'k::linorder \<Rightarrow> 'v \<Rightarrow> ('k, 'v) bmap \<Rightarrow> ('k, 'v) bmap" where
  "bmap_or_insert k v m = (case map_of m k of None \<Rightarrow> bmap_insert k v m | Some _ \<Rightarrow> m)"

definition bmap_of :: "('k::linorder \<times> 'v) list \<Rightarrow> ('k, 'v) bmap" where
  "bmap_of xs = foldl (\<lambda>m (k, v). bmap_insert k v m) [] xs"

lemma map_of_bmap_insert [simp]: "map_of (bmap_insert k v m) = (map_of m)(k \<mapsto> v)"
  by (induction k v m rule: bmap_insert.induct) auto

lemma map_of_bmap_remove [simp]: "map_of (bmap_remove k m) = (map_of m)(k := None)"
  by (induction m) (auto simp: bmap_remove_def)

lemma map_of_bmap_or_insert [simp]:
  "map_of (bmap_or_insert k v m) k' =
     (if k' = k \<and> map_of m k = None then Some v else map_of m k')"
  by (simp add: bmap_or_insert_def split: option.splits)

lemma fst_set_bmap_insert [simp]: "fst ` set (bmap_insert k v m) = insert k (fst ` set m)"
  by (metis dom_fun_upd dom_map_of_conv_image_fst map_of_bmap_insert option.distinct(1))

lemma bmap_ok_Nil [simp]: "bmap_ok []"
  by (simp add: bmap_ok_def)

lemma bmap_ok_insert [simp]: "bmap_ok m \<Longrightarrow> bmap_ok (bmap_insert k v m)"
proof (induction k v m rule: bmap_insert.induct)
  case (2 k v k' v' m)
  then have IH: "bmap_ok (bmap_insert k v m)" if "\<not> k < k'" "k \<noteq> k'"
    using that by (simp add: bmap_ok_def)
  have "x \<in> insert k (fst ` set m)" if "x \<in> set (map fst (bmap_insert k v m))" for x
    using that fst_set_bmap_insert[of k v m] by (metis list.set_map)
  with 2 IH show ?case by (auto simp: bmap_ok_def)
qed (simp add: bmap_ok_def)

lemma bmap_ok_remove [simp]: "bmap_ok m \<Longrightarrow> bmap_ok (bmap_remove k m)"
  by (induction m) (auto simp: bmap_ok_def bmap_remove_def)

lemma bmap_ok_or_insert [simp]: "bmap_ok m \<Longrightarrow> bmap_ok (bmap_or_insert k v m)"
  by (simp add: bmap_or_insert_def split: option.splits)

lemma bmap_ok_distinct: "bmap_ok m \<Longrightarrow> distinct (map fst m)"
  by (simp add: bmap_ok_def strict_sorted_iff)

text \<open>Two ordered maps with the same entries are the same list: \<open>==\<close> on them is \<open>=\<close>.\<close>

lemma bmap_rebuild:
  assumes "distinct (map fst m)"
  shows "map (\<lambda>k. (k, the (map_of m k))) (map fst m) = m"
proof (rule nth_equalityI)
  fix i assume "i < length (map (\<lambda>k. (k, the (map_of m k))) (map fst m))"
  then have i: "i < length m" by simp
  then have "map_of m (fst (m ! i)) = Some (snd (m ! i))" using assms by simp
  with i show "map (\<lambda>k. (k, the (map_of m k))) (map fst m) ! i = m ! i" by simp
qed simp

lemma bmap_ext:
  assumes "bmap_ok m" and "bmap_ok n" and "map_of m = map_of n"
  shows "m = n"
proof -
  have "set (map fst m) = set (map fst n)"
    using assms(3) by (metis dom_map_of_conv_image_fst list.set_map)
  then have "map fst m = map fst n"
    using assms(1,2) by (metis bmap_ok_def strict_sorted_equal)
  then show ?thesis
    using assms bmap_rebuild[of m] bmap_rebuild[of n] by (metis bmap_ok_distinct)
qed

text \<open>A \<open>BTreeSet\<close> is the sorted list of its elements.\<close>

definition bset_of :: "'a::linorder list \<Rightarrow> 'a list" where
  "bset_of xs = foldr insort_insert xs []"

lemma set_bset_of [simp]: "set (bset_of xs) = set xs"
  by (induction xs) (simp_all add: bset_of_def set_insort_insert)

lemma sorted_bset_of [simp]: "sorted (bset_of xs)"
  by (induction xs) (simp_all add: bset_of_def sorted_insort_insert)

lemma distinct_bset_of [simp]: "distinct (bset_of xs)"
  by (induction xs) (simp_all add: bset_of_def distinct_insort_insert)

lemma bset_of_empty_iff [simp]: "bset_of xs = [] \<longleftrightarrow> xs = []"
  by (metis set_bset_of set_empty)

end
