(* ===== verification/Events.thy ===== *)
theory Events
  imports Prelude
begin

text \<open>
  \<open>crates/clerkenwell-events/src/lib.rs\<close>: principals, the change event and the in-process feed.

  A listener is a closure the application passes; what it hears is the list of events it was
  called with, so the feed keeps one such list per listener, in the order they were added.
  \<open>is_heard\<close> and \<open>announce\<close> read the listeners under a lock for the length of one call.
\<close>

datatype actor_kind = Human | Agent | Service | System

record principal =
  principal_id :: string
  principal_kind :: actor_kind

definition principal_new :: "string \<Rightarrow> actor_kind \<Rightarrow> principal" where
  "principal_new i k = \<lparr>principal_id = i, principal_kind = k\<rparr>"

datatype change_kind = Committed | Deleted

record change_data =
  cd_entity :: string
  cd_resource_id :: string
  cd_etag_before :: "string option"
  cd_etag_after :: "string option"
  cd_frontier_before :: "string option"
  cd_frontier_after :: "string option"
  cd_operation_id :: "string option"

record change_event =
  ce_specversion :: string
  ce_id :: string
  ce_source :: string
  ce_kind :: change_kind
  ce_subject :: string
  ce_time :: string
  ce_datacontenttype :: string
  ce_generation :: "u64 option"
  ce_actorid :: string
  ce_actorkind :: actor_kind
  ce_intent :: "string option"
  ce_proposalstate :: "string option"
  ce_traceparent :: "string option"
  ce_data :: change_data

definition spec_version :: string where
  "spec_version = ''1.0''"

definition data_content_type :: string where
  "data_content_type = ''application/json''"

definition change_event_new ::
  "string \<Rightarrow> string \<Rightarrow> change_kind \<Rightarrow> string \<Rightarrow> u64 option \<Rightarrow> principal \<Rightarrow> change_data \<Rightarrow> change_event"
where
  "change_event_new i src kind time generation actor d =
     \<lparr>ce_specversion = spec_version, ce_id = i, ce_source = src, ce_kind = kind,
      ce_subject = cd_entity d @ ''/'' @ cd_resource_id d, ce_time = time,
      ce_datacontenttype = data_content_type, ce_generation = generation,
      ce_actorid = principal_id actor, ce_actorkind = principal_kind actor,
      ce_intent = None, ce_proposalstate = None, ce_traceparent = None, ce_data = d\<rparr>"

type_synonym change_feed = "change_event list list"

definition feed_listen :: "change_feed \<Rightarrow> change_feed" where
  "feed_listen feed = feed @ [[]]"

definition feed_is_heard :: "change_feed \<Rightarrow> bool" where
  "feed_is_heard feed \<longleftrightarrow> feed \<noteq> []"

definition feed_announce :: "change_event \<Rightarrow> change_feed \<Rightarrow> change_feed" where
  "feed_announce event feed = map (\<lambda>log. log @ [event]) feed"

lemma feed_announce_all:
  "foldl (\<lambda>feed e. feed_announce e feed) feed es = map (\<lambda>log. log @ es) feed"
  by (induction es arbitrary: feed) (auto simp: feed_announce_def)

text \<open>A listener hears exactly the events announced after it was added, in their order.\<close>

lemma feed_listen_announce:
  "last (foldl (\<lambda>feed e. feed_announce e feed) (feed_listen feed) es) = es"
  by (simp add: feed_announce_all feed_listen_def)

end
