(* ===== verification/Json.thy ===== *)
theory Json
  imports Prelude Complex_Main
begin

text \<open>
  \<open>serde_json::Value\<close> as the sources use it: its six constructors, the accessors \<open>get\<close>, indexing
  by a member name, \<open>as_str\<close>, \<open>as_array\<close>, \<open>as_object\<close>, \<open>as_bool\<close>, \<open>as_i64\<close>, and dotted paths.
  The crate is built without \<open>preserve_order\<close>, so an object is an ordered map of its members.
  A number holds an unsigned, a negative or a finite floating-point value, as the crate's own
  number does; a finite double is the rational it denotes.
\<close>

datatype json_number = PosInt nat | NegInt int | Float rat

datatype json =
    JNull
  | JBool bool
  | JNumber json_number
  | JString string
  | JArray "json list"
  | JObject "(string \<times> json) list"

text \<open>\<open>json!({ ... })\<close>.\<close>

definition jobj :: "(string \<times> json) list \<Rightarrow> json" where
  "jobj members = JObject (bmap_of members)"

fun json_get :: "json \<Rightarrow> string \<Rightarrow> json option" where
  "json_get (JObject m) k = map_of m k"
| "json_get _ k = None"

text \<open>\<open>value["k"]\<close>: null when the value is no object or has no such member.\<close>

definition json_index :: "json \<Rightarrow> string \<Rightarrow> json" where
  "json_index v k = (case json_get v k of None \<Rightarrow> JNull | Some x \<Rightarrow> x)"

fun as_str :: "json \<Rightarrow> string option" where
  "as_str (JString s) = Some s"
| "as_str _ = None"

fun as_array :: "json \<Rightarrow> json list option" where
  "as_array (JArray xs) = Some xs"
| "as_array _ = None"

fun as_object :: "json \<Rightarrow> (string \<times> json) list option" where
  "as_object (JObject m) = Some m"
| "as_object _ = None"

fun as_bool :: "json \<Rightarrow> bool option" where
  "as_bool (JBool b) = Some b"
| "as_bool _ = None"

fun as_i64 :: "json \<Rightarrow> int option" where
  "as_i64 (JNumber (PosInt n)) = (if n < 2 ^ 63 then Some (int n) else None)"
| "as_i64 (JNumber (NegInt i)) = Some i"
| "as_i64 _ = None"

fun is_number :: "json \<Rightarrow> bool" where
  "is_number (JNumber _) = True"
| "is_number _ = False"

text \<open>\<open>path.split('.').try_fold(value, |current, segment| current.get(segment))\<close>.\<close>

fun json_walk :: "json \<Rightarrow> string list \<Rightarrow> json option" where
  "json_walk v [] = Some v"
| "json_walk v (k # ks) = Option.bind (json_get v k) (\<lambda>w. json_walk w ks)"

text \<open>A value whose objects all list their members in key order, as every decoded value does.\<close>

fun json_ok :: "json \<Rightarrow> bool" where
  "json_ok (JArray xs) = list_all json_ok xs"
| "json_ok (JObject m) = (bmap_ok m \<and> list_all (\<lambda>e. json_ok (snd e)) m)"
| "json_ok _ = True"

lemma map_of_bmap_of: "map_of (bmap_of xs) = map_of (rev xs)"
proof -
  have "map_of (foldl (\<lambda>m (k, v). bmap_insert k v m) m xs) = map_of m ++ map_of (rev xs)" for m
    by (induction xs arbitrary: m) (auto simp: map_add_def fun_eq_iff split: option.splits)
  from this[of "[]"] show ?thesis by (simp add: bmap_of_def)
qed

lemma json_get_jobj [simp]: "json_get (jobj ms) k = map_of (rev ms) k"
  by (simp add: jobj_def map_of_bmap_of)

lemma as_str_eq_Some [simp]: "as_str v = Some s \<longleftrightarrow> v = JString s"
  by (cases v) simp_all

lemma as_array_eq_Some [simp]: "as_array v = Some xs \<longleftrightarrow> v = JArray xs"
  by (cases v) simp_all

lemma as_object_eq_Some [simp]: "as_object v = Some m \<longleftrightarrow> v = JObject m"
  by (cases v) simp_all

lemma json_walk_append: "json_walk v (ks @ ls) = Option.bind (json_walk v ks) (\<lambda>w. json_walk w ls)"
  by (induction ks arbitrary: v) (simp_all split: Option.bind_splits)

end
