(* ===== verification/Schema.thy ===== *)
theory Schema
  imports Events Json
begin

text \<open>
  \<open>crates/clerkenwell-schema/src\<close>: the plan types generated bindings instantiate (\<open>lib.rs\<close>) and
  the authoring state every collaborative entity's projection delivers (\<open>authoring.rs\<close>).
\<close>

datatype authoring_policy_kind = OptimisticDocument | Collaborative | CommandOwned | ReadOnly

record entity_authoring_spec =
  ea_entity :: string
  ea_kind :: authoring_policy_kind
  ea_mutations :: "string list"
  ea_planning_mutations :: "string list"

datatype snapshot_mode = SnapshotPatch | SnapshotField string

datatype remove_mode = NullSnapshot | NullField string

datatype materialization_plan =
    KeyedCollection string string string string
  | SequencedText string string string string string string string string
  | ReplaceOrRemove snapshot_mode "string list" remove_mode "(string \<times> string) option"
  | ReplaceWhole snapshot_mode "string list"
  | ResetPlan

record projection_spec =
  ps_name :: string
  ps_description :: string
  ps_depends_on :: "string list"
  ps_materialization :: materialization_plan
  ps_params_schema :: string
  ps_snapshot_schema :: string

record mutation_spec =
  ms_name :: string
  ms_description :: string
  ms_touches :: "string list"
  ms_params_schema :: string
  ms_result_schema :: string

record command_spec =
  cs_name :: string
  cs_description :: string
  cs_touches :: "string list"
  cs_params_schema :: string
  cs_result_schema :: string

datatype storage_kind =
    Scalar | Text | OrderedList | StructuredList | StructuredMap | StructuredDocument
  | DerivedIdentity | DerivedRevision | KeyedSequence

datatype value_codec =
    CIntegerV | CNumberV | COptionalNumber | CBoolean | CString | COptionalString | CPropertyText
  | CStringList | CStructuredJson | CIdentity | CKeyedSequence

datatype conflict_policy = Immutable | Explicit | Merge | LastWriterWins

record writer_conflict_spec =
  wc_kind :: actor_kind
  wc_conflict :: conflict_policy

record field_spec =
  field_path :: string
  field_storage_kind :: storage_kind
  field_container :: "string option"
  field_container_template :: "string option"
  field_key :: "string option"
  field_identity_path :: "string option"
  field_identity_variable :: "string option"
  field_order_container :: "string option"
  field_item_container_template :: "string option"
  field_metadata_container :: "string option"
  field_metadata_container_template :: "string option"
  field_metadata_key :: "string option"
  field_codec :: value_codec
  field_value_schema :: "string option"
  field_required :: bool
  field_required_in_parent :: bool
  field_conflict :: conflict_policy
  field_writers :: "writer_conflict_spec list"

definition writer_conflict :: "field_spec \<Rightarrow> actor_kind \<Rightarrow> conflict_policy option" where
  "writer_conflict f kind = map_option wc_conflict (find (\<lambda>w. wc_kind w = kind) (field_writers f))"

definition conflict_for :: "field_spec \<Rightarrow> actor_kind \<Rightarrow> conflict_policy" where
  "conflict_for f kind = (case writer_conflict f kind of None \<Rightarrow> field_conflict f | Some c \<Rightarrow> c)"

record entity_spec =
  plan_name :: string
  plan_id_field :: string
  plan_schema_version :: u32
  plan_authoring_projection :: string
  plan_authoring_document :: "string option"
  plan_authoring_store_params :: "string list"
  plan_import_mutation :: string
  plan_root_container :: string
  plan_fields :: "field_spec list"

datatype exchange_mode = Incremental | Bootstrap

record authoring_peer_block =
  apb_nonce :: string
  apb_base :: string
  apb_index_bits :: nat

record authoring_state =
  as_schema_version :: u32
  as_accepted_frontier_base64 :: string
  as_update_base64 :: string
  as_etag :: string
  as_exchange_modes :: "exchange_mode list"
  as_peer_block :: authoring_peer_block
  as_replaces_held :: bool

datatype authoring_patch_kind = PatchReplace | PatchRemove

record authoring_state_patch =
  asp_kind :: authoring_patch_kind
  asp_state :: "authoring_state option"

definition patch_replace :: "authoring_state \<Rightarrow> authoring_state_patch" where
  "patch_replace st = \<lparr>asp_kind = PatchReplace, asp_state = Some st\<rparr>"

definition patch_remove :: authoring_state_patch where
  "patch_remove = \<lparr>asp_kind = PatchRemove, asp_state = None\<rparr>"

end
