(* ===== verification/Loro.thy ===== *)
theory Loro
  imports Json
begin

text \<open>
  The interface of the Loro CRDT library (crate \<open>loro\<close>), of the \<open>base64\<close> crate and of the diff of
  the crate \<open>similar\<close>, as \<open>crates/clerkenwell-doc\<close> calls them. None of this code is in the
  repository: the operations are the components of a record the replica's definitions take as an
  argument. A document is of a type \<open>'d\<close>, a frontier of a type \<open>'f\<close>.

  A root container is named by a string; reading one gives its present contents as a tree of values
  and nested containers, and writing one goes through a handle: the root's name and the keys that
  lead from it to a nested container. Operations that can fail return the library's error text.
  A new document's peer id, which the library draws at random, is not modelled: \<open>loro_new\<close> is one
  document, and every writer sets its peer before it writes.
\<close>

type_synonym version_vector = "(u64 \<times> int) list"

datatype cmp_ordering = Less | Equal | Greater

datatype loro_value =
    LNull
  | LBool bool
  | LDouble rat
  | LI64 int
  | LBinary bytes
  | LString string
  | LList "loro_value list"
  | LMap "(string \<times> loro_value) list"
  | LContainer string

datatype loro_node =
    NValue loro_value
  | NText string
  | NMap "(string \<times> loro_node) list"
  | NList loro_value
  | NMovableList loro_value
  | NOther

type_synonym handle = "string \<times> string list"

datatype diff_op =
    DiffEqual nat
  | DiffDelete nat
  | DiffInsert nat nat
  | DiffReplace nat nat nat

record ('d, 'f) loro =
  loro_new :: 'd
  loro_set_peer :: "'d \<Rightarrow> u64 \<Rightarrow> string + 'd"
  loro_import :: "'d \<Rightarrow> bytes \<Rightarrow> string + ('d \<times> bool)"
  loro_export_all :: "'d \<Rightarrow> string + bytes"
  loro_export_from :: "'d \<Rightarrow> version_vector \<Rightarrow> string + bytes"
  loro_decode_meta :: "bytes \<Rightarrow> string + version_vector"
  loro_oplog_vv :: "'d \<Rightarrow> version_vector"
  loro_vv_includes :: "version_vector \<Rightarrow> u64 \<Rightarrow> int \<Rightarrow> bool"
  loro_vv_merge :: "version_vector \<Rightarrow> version_vector \<Rightarrow> version_vector"
  loro_vv_partial_cmp :: "version_vector \<Rightarrow> version_vector \<Rightarrow> cmp_ordering option"
  loro_change_deps :: "'d \<Rightarrow> u64 \<Rightarrow> int \<Rightarrow> 'f option"
  loro_oplog_frontiers :: "'d \<Rightarrow> 'f"
  loro_frontiers_is_empty :: "'f \<Rightarrow> bool"
  loro_frontiers_encode :: "'f \<Rightarrow> bytes"
  loro_frontiers_decode :: "bytes \<Rightarrow> string + 'f"
  loro_frontiers_to_vv :: "'d \<Rightarrow> 'f \<Rightarrow> version_vector option"
  loro_fork_at :: "'d \<Rightarrow> 'f \<Rightarrow> string + 'd"
  loro_fork :: "'d \<Rightarrow> 'd"
  loro_commit :: "'d \<Rightarrow> 'd"
  loro_peer_id :: "'d \<Rightarrow> string"
  loro_debug_vv :: "'d \<Rightarrow> string"
  loro_debug_state_frontiers :: "'d \<Rightarrow> string"
  loro_text :: "'d \<Rightarrow> string \<Rightarrow> string"
  loro_list :: "'d \<Rightarrow> string \<Rightarrow> loro_value list"
  loro_map :: "'d \<Rightarrow> string \<Rightarrow> (string \<times> loro_node) list"
  loro_node_deep :: "loro_node \<Rightarrow> loro_value"
  loro_to_json :: "loro_value \<Rightarrow> json"
  loro_entry :: "'d \<Rightarrow> handle \<Rightarrow> string \<Rightarrow> loro_node option"
  loro_map_insert :: "'d \<Rightarrow> handle \<Rightarrow> string \<Rightarrow> loro_value \<Rightarrow> string + 'd"
  loro_map_delete :: "'d \<Rightarrow> handle \<Rightarrow> string \<Rightarrow> string + 'd"
  loro_ensure_map :: "'d \<Rightarrow> handle \<Rightarrow> string \<Rightarrow> string + 'd"
  loro_ensure_text :: "'d \<Rightarrow> handle \<Rightarrow> string \<Rightarrow> string + 'd"
  loro_ensure_list :: "'d \<Rightarrow> handle \<Rightarrow> string \<Rightarrow> string + 'd"
  loro_update_text :: "'d \<Rightarrow> handle \<Rightarrow> string \<Rightarrow> 'd option"
  loro_text_delete :: "'d \<Rightarrow> handle \<Rightarrow> nat \<Rightarrow> nat \<Rightarrow> string + 'd"
  loro_text_insert :: "'d \<Rightarrow> handle \<Rightarrow> nat \<Rightarrow> string \<Rightarrow> string + 'd"
  loro_list_at :: "'d \<Rightarrow> handle \<Rightarrow> loro_value list"
  loro_list_delete :: "'d \<Rightarrow> handle \<Rightarrow> nat \<Rightarrow> nat \<Rightarrow> string + 'd"
  loro_list_insert :: "'d \<Rightarrow> handle \<Rightarrow> nat \<Rightarrow> loro_value \<Rightarrow> string + 'd"
  b64_encode :: "bytes \<Rightarrow> string"
  b64_decode :: "string \<Rightarrow> string + bytes"
  myers_diff :: "loro_value list \<Rightarrow> loro_value list \<Rightarrow> diff_op list"

text \<open>The BASE64 law the sources rely on: decoding an encoding gives the bytes back.\<close>

definition b64_law :: "('d, 'f) loro \<Rightarrow> bool" where
  "b64_law L \<longleftrightarrow> (\<forall>bs. b64_decode L (b64_encode L bs) = Inr bs)"

text \<open>
  The list container's documented behaviour: \<open>delete\<close> and \<open>insert\<close> change the list they are called
  on as the operations on a vector would, and succeed within its bounds.
\<close>

definition list_law :: "('d, 'f) loro \<Rightarrow> bool" where
  "list_law L \<longleftrightarrow>
     (\<forall>d h i n. i + n \<le> length (loro_list_at L d h) \<longrightarrow>
        (\<exists>d'. loro_list_delete L d h i n = Inr d'
           \<and> loro_list_at L d' h = take i (loro_list_at L d h) @ drop (i + n) (loro_list_at L d h)))
   \<and> (\<forall>d h i v. i \<le> length (loro_list_at L d h) \<longrightarrow>
        (\<exists>d'. loro_list_insert L d h i v = Inr d'
           \<and> loro_list_at L d' h = take i (loro_list_at L d h) @ v # drop i (loro_list_at L d h)))"

text \<open>
  An edit script from \<open>old\<close> to \<open>new\<close>, read from the front of both: what it keeps is equal in both,
  what it deletes is at the front of the old list and what it inserts is the slice of the new one
  it names.
\<close>

fun script_ok :: "diff_op list \<Rightarrow> 'a list \<Rightarrow> nat \<Rightarrow> 'a list \<Rightarrow> bool" where
  "script_ok [] old j new = (old = [] \<and> j = length new)"
| "script_ok (DiffEqual n # es) old j new =
     (n \<le> length old \<and> j + n \<le> length new \<and> take n old = take n (drop j new)
      \<and> script_ok es (drop n old) (j + n) new)"
| "script_ok (DiffDelete n # es) old j new =
     (n \<le> length old \<and> script_ok es (drop n old) j new)"
| "script_ok (DiffInsert i n # es) old j new =
     (i = j \<and> j + n \<le> length new \<and> script_ok es old (j + n) new)"
| "script_ok (DiffReplace m i n # es) old j new =
     (m \<le> length old \<and> i = j \<and> j + n \<le> length new \<and> script_ok es (drop m old) (j + n) new)"

definition diff_law :: "('d, 'f) loro \<Rightarrow> bool" where
  "diff_law L \<longleftrightarrow> (\<forall>old new. script_ok (myers_diff L old new) old 0 new)"

end
