(* ===== verification/Substrate.thy ===== *)
theory Substrate
  imports Schema Loro
begin

text \<open>
  \<open>crates/clerkenwell-doc/src/substrate.rs\<close>: how a plan lays a document out in containers. It
  validates a document against the plan's fields, reads the document the containers hold
  (\<open>materialize_document\<close>) and writes the operations between two documents
  (\<open>write_document_changes\<close>).

  A write threads the Loro document, which a failure leaves as the writes before it made it. The
  identity context, a \<open>HashMap\<close>, is an association list; iterating it visits the list's entries in
  order. Recursion into child sequences ends because a child's path is longer than its parent's
  and is one of the plan's.
\<close>

section \<open>Errors and paths\<close>

datatype replica_error =
    InvalidBase64 string
  | UpdateError string
  | EncodeError string
  | InvalidField string string
  | UnsupportedSchemaVersion string u32 u32
  | UnknownFrontier
  | InvalidVersion u64 u64
  | MissingDependency
  | UnrelatedHistory
  | TextCaptureMismatch
  | Panicked

text \<open>\<open>Panicked\<close> stands for a panic of the thread (\<open>expect\<close> on a plan that names no identity).\<close>

type_synonym 'a replica_result = "replica_error + 'a"

type_synonym identity_context = "(string \<times> string) list"

definition structured_map_presence :: string where
  "structured_map_presence = ''collaboration.structured_map_presence''"

definition keyed_sequence_presence :: string where
  "keyed_sequence_presence = ''collaboration.keyed_sequence_presence''"

definition context_insert :: "string \<Rightarrow> string \<Rightarrow> identity_context \<Rightarrow> identity_context" where
  "context_insert k v ctx = (k, v) # filter (\<lambda>e. fst e \<noteq> k) ctx"

definition value_at_path :: "json \<Rightarrow> string \<Rightarrow> json option" where
  "value_at_path v path = json_walk v (split_on (CHR ''.'') path)"

text \<open>\<open>value_at_path_mut\<close>: a change to the value a path addresses, if there is one.\<close>

fun json_modify :: "string list \<Rightarrow> (json \<Rightarrow> json) \<Rightarrow> json \<Rightarrow> json" where
  "json_modify [] f v = f v"
| "json_modify (k # ks) f (JObject m) =
     JObject (map (\<lambda>(k', w). if k' = k then (k', json_modify ks f w) else (k', w)) m)"
| "json_modify (k # ks) f v = v"

definition remove_member :: "string \<Rightarrow> json \<Rightarrow> json" where
  "remove_member key v = (case v of JObject m \<Rightarrow> JObject (bmap_remove key m) | _ \<Rightarrow> v)"

definition remove_value_at_path :: "json \<Rightarrow> string \<Rightarrow> json" where
  "remove_value_at_path v path =
     (case rsplit_once (CHR ''.'') path of
        Some (parent, key) \<Rightarrow> json_modify (split_on (CHR ''.'') parent) (remove_member key) v
      | None \<Rightarrow> remove_member path v)"

fun set_segments :: "json \<Rightarrow> string list \<Rightarrow> json \<Rightarrow> json option" where
  "set_segments (JObject m) [k] v = Some (JObject (bmap_insert k v m))"
| "set_segments (JObject m) (k # ks) v =
     map_option (\<lambda>child. JObject (bmap_insert k child m))
       (set_segments (case map_of m k of None \<Rightarrow> JObject [] | Some child \<Rightarrow> child) ks v)"
| "set_segments _ _ _ = None"

definition set_value_at_path :: "json \<Rightarrow> string \<Rightarrow> json \<Rightarrow> json replica_result" where
  "set_value_at_path rt path v =
     ok_or (InvalidField path ''an object path'') (set_segments rt (split_on (CHR ''.'') path) v)"

section \<open>The plan's sequences\<close>

definition star :: string where
  "star = ''.*.''"

definition is_derived :: "field_spec \<Rightarrow> bool" where
  "is_derived f \<longleftrightarrow> field_storage_kind f = DerivedIdentity \<or> field_storage_kind f = DerivedRevision"

definition is_object_storage_kind :: "storage_kind \<Rightarrow> bool" where
  "is_object_storage_kind k \<longleftrightarrow> k = StructuredMap \<or> k = StructuredDocument"

definition direct_child_sequences :: "entity_spec \<Rightarrow> string option \<Rightarrow> field_spec list" where
  "direct_child_sequences plan parent =
     filter (\<lambda>f. field_storage_kind f = KeyedSequence
       \<and> (case parent of
            None \<Rightarrow> \<not> contains_str star (field_path f)
          | Some p \<Rightarrow> (let pre = p @ star in
              prefix pre (field_path f) \<and> \<not> contains_str star (drop (length pre) (field_path f)))))
       (plan_fields plan)"

definition direct_sequence_item_fields :: "entity_spec \<Rightarrow> field_spec \<Rightarrow> field_spec list" where
  "direct_sequence_item_fields plan sequence =
     (let pre = field_path sequence @ star in
      filter (\<lambda>f. field_storage_kind f \<noteq> KeyedSequence
        \<and> prefix pre (field_path f) \<and> \<not> contains_str star (drop (length pre) (field_path f)))
        (plan_fields plan))"

definition parent_sequence_path :: "entity_spec \<Rightarrow> string \<Rightarrow> string option" where
  "parent_sequence_path plan sequence_path =
     foldl (\<lambda>best f. case best of
           None \<Rightarrow> Some (field_path f)
         | Some p \<Rightarrow> if length p \<le> length (field_path f) then Some (field_path f) else Some p)
       None
       (filter (\<lambda>f. field_storage_kind f = KeyedSequence
          \<and> prefix (field_path f @ star) sequence_path) (plan_fields plan))"

definition sequence_relative_path :: "entity_spec \<Rightarrow> field_spec \<Rightarrow> string" where
  "sequence_relative_path plan sequence =
     (case parent_sequence_path plan (field_path sequence) of
        None \<Rightarrow> field_path sequence
      | Some parent \<Rightarrow> drop (length parent + length star) (field_path sequence))"

definition identity_variable :: "field_spec \<Rightarrow> string replica_result" where
  "identity_variable sequence =
     ok_or Panicked (case field_identity_variable sequence of
         Some v \<Rightarrow> Some v | None \<Rightarrow> field_identity_path sequence)"

text \<open>The measure of the recursion into child sequences.\<close>

definition plan_depth :: "entity_spec \<Rightarrow> nat" where
  "plan_depth plan = foldr (\<lambda>f n. max (length (field_path f)) n) (plan_fields plan) 0"

definition sequence_rank :: "entity_spec \<Rightarrow> field_spec option \<Rightarrow> nat" where
  "sequence_rank plan s = (case s of None \<Rightarrow> Suc (plan_depth plan)
     | Some f \<Rightarrow> plan_depth plan - length (field_path f))"

lemma plan_depth_ge: "f \<in> set (plan_fields plan) \<Longrightarrow> length (field_path f) \<le> plan_depth plan"
proof -
  have "f \<in> set fs \<Longrightarrow> length (field_path f) \<le> foldr (\<lambda>f n. max (length (field_path f)) n) fs 0" for fs
    by (induction fs) auto
  then show "f \<in> set (plan_fields plan) \<Longrightarrow> length (field_path f) \<le> plan_depth plan"
    by (simp add: plan_depth_def)
qed

lemma child_sequence_rank:
  assumes "child \<in> set (direct_child_sequences plan (map_option field_path s))"
  shows "sequence_rank plan (Some child) < sequence_rank plan s"
proof (cases s)
  case None
  then show ?thesis by (simp add: sequence_rank_def)
next
  case (Some f)
  with assms have "prefix (field_path f @ star) (field_path child)" "child \<in> set (plan_fields plan)"
    by (auto simp: direct_child_sequences_def Let_def)
  then have "length (field_path f) < length (field_path child)"
      "length (field_path child) \<le> plan_depth plan"
    by (auto simp: star_def plan_depth_ge prefix_def)
  then show ?thesis using Some by (simp add: sequence_rank_def)
qed

lemma child_sequence_rank_Some:
  "child \<in> set (direct_child_sequences plan (Some (field_path f))) \<Longrightarrow>
   sequence_rank plan (Some child) < sequence_rank plan (Some f)"
  using child_sequence_rank[of child plan "Some f"] by simp

section \<open>Validation\<close>

definition property_text :: "field_spec \<Rightarrow> json option \<Rightarrow> (string \<times> string) replica_result" where
  "property_text f v =
     res_bind (ok_or (InvalidField (field_path f) ''a text property value'') v) (\<lambda>v.
     res_bind (ok_or (InvalidField (field_path f) ''a text property MIME'')
       (case Option.bind (json_get v ''$mime'') as_str of
          Some mime \<Rightarrow> if prefix ''text/'' mime then Some mime else None | None \<Rightarrow> None)) (\<lambda>mime.
     res_bind (ok_or (InvalidField (field_path f) ''a text property string value'')
       (Option.bind (json_get v ''value'') as_str)) (\<lambda>txt.
     Inr (mime, txt))))"

definition string_array :: "json option \<Rightarrow> string \<Rightarrow> bool \<Rightarrow> string list replica_result" where
  "string_array v path required =
     (if v = None \<and> \<not> required then Inr []
      else res_bind (ok_or (InvalidField path ''an array of strings'') (Option.bind v as_array))
        (res_collect (\<lambda>e. ok_or (InvalidField path ''an array of strings'') (as_str e))))"

definition validate_field_value :: "field_spec \<Rightarrow> json option \<Rightarrow> unit replica_result" where
  "validate_field_value f v =
     (let bad = (\<lambda>expected. Inl (InvalidField (field_path f) expected)) in
      case field_codec f of
        CIntegerV \<Rightarrow> if Option.bind v as_i64 = None then bad ''an integer'' else Inr ()
      | CNumberV \<Rightarrow> if v = None \<or> \<not> is_number (the v) then bad ''a number'' else Inr ()
      | COptionalNumber \<Rightarrow> if v = None \<or> \<not> is_number (the v) then bad ''a number'' else Inr ()
      | CBoolean \<Rightarrow> if Option.bind v as_bool = None then bad ''a boolean'' else Inr ()
      | CString \<Rightarrow> if Option.bind v as_str = None then bad ''a string'' else Inr ()
      | COptionalString \<Rightarrow> if Option.bind v as_str = None then bad ''a string'' else Inr ()
      | CIdentity \<Rightarrow> if Option.bind v as_str = None then bad ''a string'' else Inr ()
      | CPropertyText \<Rightarrow> res_bind (property_text f v) (\<lambda>_. Inr ())
      | CStringList \<Rightarrow>
          (case string_array v (field_path f) (field_required f) of
             Inl _ \<Rightarrow> bad ''an array of strings'' | Inr _ \<Rightarrow> Inr ())
      | CStructuredJson \<Rightarrow>
          if is_object_storage_kind (field_storage_kind f)
          then (if Option.bind v as_object = None then bad ''an object'' else Inr ())
          else (if Option.bind v as_array = None then bad ''an array'' else Inr ())
      | CKeyedSequence \<Rightarrow>
          if \<not> is_object_storage_kind (field_storage_kind f) \<and> Option.bind v as_array = None
          then bad ''an array'' else Inr ())"

definition validate_declared_value :: "field_spec \<Rightarrow> json option \<Rightarrow> unit replica_result" where
  "validate_declared_value f v =
     (if (v = None \<or> v = Some JNull) \<and> \<not> field_required f then Inr () else validate_field_value f v)"

definition sequence_items :: "entity_spec \<Rightarrow> json \<Rightarrow> field_spec \<Rightarrow> json list replica_result" where
  "sequence_items plan parent sequence =
     (case value_at_path parent (sequence_relative_path plan sequence) of
        Some v \<Rightarrow> ok_or (InvalidField (field_path sequence) ''an array'') (as_array v)
      | None \<Rightarrow> if \<not> field_required sequence then Inr []
                else Inl (InvalidField (field_path sequence) ''an array''))"

definition item_identity :: "string \<Rightarrow> json \<Rightarrow> string replica_result" where
  "item_identity identity_path item =
     ok_or (InvalidField identity_path ''a string'')
       (Option.bind (value_at_path item identity_path) as_str)"

definition validate_item_fields :: "entity_spec \<Rightarrow> field_spec \<Rightarrow> json \<Rightarrow> unit replica_result" where
  "validate_item_fields plan sequence item =
     res_fold (\<lambda>f _. if is_derived f then Inr ()
         else validate_declared_value f
           (value_at_path item (drop (length (field_path sequence @ star)) (field_path f))))
       (direct_sequence_item_fields plan sequence) ()"

function validate_sequence :: "entity_spec \<Rightarrow> json \<Rightarrow> field_spec \<Rightarrow> unit replica_result" where
  "validate_sequence plan parent sequence =
     res_bind (sequence_items plan parent sequence) (\<lambda>items.
     res_bind (ok_or (InvalidField (field_path sequence) ''an identity path'')
       (field_identity_path sequence)) (\<lambda>identity_path.
     res_bind (res_fold (\<lambda>item seen.
         res_bind (item_identity identity_path item) (\<lambda>identity.
         if identity = [] \<or> identity \<in> set seen
         then Inl (InvalidField (field_path sequence) ''items with unique non-empty identities'')
         else res_bind (validate_item_fields plan sequence item) (\<lambda>_.
              res_bind (res_fold (\<lambda>child _. validate_sequence plan item child)
                (direct_child_sequences plan (Some (field_path sequence))) ()) (\<lambda>_.
              Inr (identity # seen)))))
       items []) (\<lambda>_. Inr ())))"
  by pat_completeness auto
termination
  by (relation "measure (\<lambda>(plan, _, sequence). sequence_rank plan (Some sequence))")
    (auto intro: child_sequence_rank_Some)

declare validate_sequence.simps [simp del]

definition validate_document :: "entity_spec \<Rightarrow> json \<Rightarrow> unit replica_result" where
  "validate_document plan document =
     res_bind (ok_or (InvalidField ''$'' ''an object'') (as_object document)) (\<lambda>_.
     res_bind (res_fold (\<lambda>f _.
         if contains_str star (field_path f) \<or> is_derived f \<or> field_storage_kind f = KeyedSequence
         then Inr ()
         else validate_declared_value f (value_at_path document (field_path f)))
       (plan_fields plan) ()) (\<lambda>_.
     res_fold (\<lambda>sequence _. validate_sequence plan document sequence)
       (direct_child_sequences plan None) ()))"

section \<open>Null and absence\<close>

definition fields_in_scope :: "entity_spec \<Rightarrow> field_spec option \<Rightarrow> (field_spec \<times> string) list" where
  "fields_in_scope plan sequence =
     (case sequence of
        None \<Rightarrow> map (\<lambda>f. (f, field_path f))
          (filter (\<lambda>f. \<not> contains_str star (field_path f)) (plan_fields plan))
      | Some s \<Rightarrow> map (\<lambda>f. (f, drop (length (field_path s) + length star) (field_path f)))
          (direct_sequence_item_fields plan s @ direct_child_sequences plan (Some (field_path s))))"

definition drop_null_fields :: "(field_spec \<times> string) list \<Rightarrow> json \<Rightarrow> json" where
  "drop_null_fields fs scope =
     foldl (\<lambda>v (f, relative).
         if \<not> field_required f \<and> value_at_path v relative = Some JNull
         then remove_value_at_path v relative else v) scope fs"

function remove_null_optionals :: "entity_spec \<Rightarrow> json \<Rightarrow> field_spec option \<Rightarrow> json" where
  "remove_null_optionals plan scope sequence =
     foldl (\<lambda>v child.
         json_modify (split_on (CHR ''.'') (sequence_relative_path plan child))
           (\<lambda>w. case w of
              JArray items \<Rightarrow> JArray (map (\<lambda>item. remove_null_optionals plan item (Some child)) items)
            | _ \<Rightarrow> w) v)
       (drop_null_fields (fields_in_scope plan sequence) scope)
       (direct_child_sequences plan (map_option field_path sequence))"
  by pat_completeness auto
termination
  by (relation "measure (\<lambda>(plan, _, sequence). sequence_rank plan sequence)")
    (auto intro: child_sequence_rank)

declare remove_null_optionals.simps [simp del]

definition without_null_optionals :: "entity_spec \<Rightarrow> json \<Rightarrow> json" where
  "without_null_optionals plan document = remove_null_optionals plan document None"

section \<open>Containers\<close>

text \<open>\<open>str::replace\<close>.\<close>

function replace_all :: "string \<Rightarrow> string \<Rightarrow> string \<Rightarrow> string" where
  "replace_all pat to [] = (if pat = [] then to else [])"
| "replace_all pat to (c # s) =
     (if pat = [] then to @ c # replace_all pat to s
      else if prefix pat (c # s) then to @ replace_all pat to (drop (length pat) (c # s))
      else c # replace_all pat to s)"
  by pat_completeness auto
termination
  by (relation "measure (\<lambda>(_, _, s). length s)") (auto simp: diff_less_Suc neq_Nil_conv)

definition resolve_template :: "string \<Rightarrow> string \<Rightarrow> identity_context \<Rightarrow> string replica_result" where
  "resolve_template path template ctx =
     (let resolved = foldl (\<lambda>r (name, v). replace_all (''{'' @ name @ ''}'') v r) template ctx in
      if CHR ''{'' \<in> set resolved then Inl (InvalidField path ''resolved container identities'')
      else Inr resolved)"

definition resolve_container :: "field_spec \<Rightarrow> identity_context \<Rightarrow> string replica_result" where
  "resolve_container f ctx =
     res_bind (ok_or (InvalidField (field_path f) ''a container'')
       (case field_container f of Some c \<Rightarrow> Some c | None \<Rightarrow> field_container_template f)) (\<lambda>template.
     resolve_template (field_path f) template ctx)"

definition resolve_metadata :: "field_spec \<Rightarrow> identity_context \<Rightarrow> (string \<times> string) replica_result" where
  "resolve_metadata f ctx =
     res_bind (ok_or (InvalidField (field_path f) ''a MIME metadata container'')
       (case field_metadata_container f of Some c \<Rightarrow> Some c
        | None \<Rightarrow> field_metadata_container_template f)) (\<lambda>template.
     res_bind (ok_or (InvalidField (field_path f) ''a MIME metadata key'') (field_metadata_key f)) (\<lambda>key.
     res_bind (resolve_template (field_path f) template ctx) (\<lambda>resolved.
     Inr (resolved, key))))"

definition resolve_order :: "field_spec \<Rightarrow> identity_context \<Rightarrow> string replica_result" where
  "resolve_order sequence ctx =
     res_bind (ok_or (InvalidField (field_path sequence) ''an order container'')
       (field_order_container sequence)) (\<lambda>template.
     resolve_template (field_path sequence) template ctx)"

fun loro_identity :: "loro_value \<Rightarrow> string option" where
  "loro_identity (LString s) = Some s"
| "loro_identity (LI64 i) = Some (if i < 0 then ''-'' @ dec (nat (- i)) else dec (nat i))"
| "loro_identity _ = None"

fun unique_from :: "string list \<Rightarrow> string list \<Rightarrow> string list" where
  "unique_from seen [] = []"
| "unique_from seen (x # xs) =
     (if x \<noteq> [] \<and> x \<notin> set seen then x # unique_from (x # seen) xs else unique_from seen xs)"

definition unique_loro_string_list :: "loro_value list \<Rightarrow> string list" where
  "unique_loro_string_list vs = unique_from [] (List.map_filter loro_identity vs)"

definition declared_text ::
  "('d, 'f) loro \<Rightarrow> entity_spec \<Rightarrow> 'd \<Rightarrow> string \<Rightarrow> identity_context \<Rightarrow> string replica_result"
where
  "declared_text L plan d path ctx =
     res_bind (ok_or (InvalidField path ''a declared collaborative text field'')
       (case find (\<lambda>f. field_path f = path) (plan_fields plan) of
          Some f \<Rightarrow> if field_storage_kind f = Text then Some f else None | None \<Rightarrow> None)) (\<lambda>f.
     res_bind (res_fold (\<lambda>sequence _.
         res_bind (identity_variable sequence) (\<lambda>variable.
         res_bind (ok_or (InvalidField path ''resolved record identities'') (map_of ctx variable))
           (\<lambda>identity.
         res_bind (resolve_order sequence ctx) (\<lambda>order.
         if identity \<notin> set (unique_loro_string_list (loro_list L d order))
         then Inl (InvalidField path ''an existing record'') else Inr ()))))
       (filter (\<lambda>c. field_storage_kind c = KeyedSequence \<and> prefix (field_path c @ star) path)
         (plan_fields plan)) ()) (\<lambda>_.
     resolve_container f ctx))"

section \<open>Reading\<close>

text \<open>
  Reserved keys of an identity-keyed list inside a structured document. A map container is read as
  the list of its entries; \<open>for_each\<close> visits them in the order the list has, which does not show
  in what is read, since the members are gathered in an ordered map.
\<close>

definition keyed_list_marker :: string where
  "keyed_list_marker = ''$keyedBy''"

definition keyed_list_order :: string where
  "keyed_list_order = ''$order''"

definition keyed_list_items :: string where
  "keyed_list_items = ''$items''"

definition keyed_list_identities :: "string list" where
  "keyed_list_identities = [''id'', ''uid'']"

lemma size_node_entry: "(k, n) \<in> set m \<Longrightarrow> size n < size (NMap m)"
proof -
  assume "(k, n) \<in> set m"
  then have "size_prod (\<lambda>_. 0) size (k, n) \<le> size_list (size_prod (\<lambda>_. 0) size) m"
    by (rule size_list_estimation') simp
  then show ?thesis by simp
qed

lemma size_node_lookup: "map_of m k = Some n \<Longrightarrow> size n < size (NMap m)"
  by (rule size_node_entry, rule map_of_SomeD)

definition keyed_list_keys :: "('d, 'f) loro \<Rightarrow> (string \<times> loro_node) list \<Rightarrow> (string \<times> loro_node) list \<Rightarrow> string list" where
  "keyed_list_keys L m items =
     (let order = (case map_of m keyed_list_order of
            Some (NList v) \<Rightarrow>
              (case as_array (loro_to_json L v) of
                 Some vs \<Rightarrow> List.map_filter as_str vs | None \<Rightarrow> [])
          | _ \<Rightarrow> []) in
      rev (fold (\<lambda>key seen. if key \<in> set seen then seen else key # seen)
        (order @ sort (map fst items)) []))"

definition node_plain :: "('d, 'f) loro \<Rightarrow> loro_node \<Rightarrow> json" where
  "node_plain L n =
     (case n of
        NText s \<Rightarrow> JString s
      | NList v \<Rightarrow> loro_to_json L v
      | NMovableList v \<Rightarrow> loro_to_json L v
      | NValue v \<Rightarrow> loro_to_json L v
      | _ \<Rightarrow> JNull)"

definition set_identity :: "string \<Rightarrow> string \<Rightarrow> json \<Rightarrow> json" where
  "set_identity identity key v =
     (case v of JObject m \<Rightarrow> JObject (bmap_insert identity (JString key) m) | _ \<Rightarrow> v)"

text \<open>
  One level of a structured document, and an identity-keyed list: the order first, then the items
  the order lost.
\<close>

function read_structured_document ::
    "('d, 'f) loro \<Rightarrow> (string \<times> loro_node) list \<Rightarrow> json replica_result"
  and read_keyed_list :: "('d, 'f) loro \<Rightarrow> (string \<times> loro_node) list \<Rightarrow> json replica_result"
where
  "read_structured_document L m =
     res_bind (res_fold (\<lambda>key values.
         case map_of m key of
           None \<Rightarrow> Inr values
         | Some (NMap child) \<Rightarrow>
             res_bind (if map_of child keyed_list_marker \<noteq> None then read_keyed_list L child
                       else read_structured_document L child) (\<lambda>v.
             Inr (bmap_insert key v values))
         | Some n \<Rightarrow> Inr (bmap_insert key (node_plain L n) values))
       (map fst m) []) (\<lambda>values. Inr (JObject values))"
| "read_keyed_list L m =
     res_bind (ok_or (InvalidField keyed_list_marker ''a stored identity key'')
       (Option.bind (map_of m keyed_list_marker) (\<lambda>n. as_str (loro_to_json L (loro_node_deep L n)))))
     (\<lambda>identity.
     case map_of m keyed_list_items of
       Some (NMap items) \<Rightarrow>
         res_bind (res_fold (\<lambda>key ordered.
             case map_of items key of
               Some (NMap child) \<Rightarrow>
                 res_bind (read_structured_document L child) (\<lambda>v.
                 Inr (ordered @ [set_identity identity key v]))
             | _ \<Rightarrow> Inr ordered)
           (keyed_list_keys L m items) []) (\<lambda>ordered. Inr (JArray ordered))
     | _ \<Rightarrow> Inr (JArray []))"
  by pat_completeness auto
termination
  by (relation "measure (\<lambda>x. case x of Inl (_, m) \<Rightarrow> size (NMap m) | Inr (_, m) \<Rightarrow> size (NMap m))")
    (auto dest!: size_node_lookup simp del: loro_node.size)

declare read_structured_document.simps [simp del] read_keyed_list.simps [simp del]

text \<open>
  Whether an object field's container is marked as present, and the value an object field reads:
  absent when it is optional, unmarked and empty.
\<close>

definition presence_marked :: "('d, 'f) loro \<Rightarrow> 'd \<Rightarrow> string \<Rightarrow> bool" where
  "presence_marked L d container \<longleftrightarrow> map_of (loro_map L d structured_map_presence) container \<noteq> None"

definition present_object :: "('d, 'f) loro \<Rightarrow> 'd \<Rightarrow> field_spec \<Rightarrow> string \<Rightarrow> json \<Rightarrow> json option" where
  "present_object L d f container v =
     (if field_required f \<or> presence_marked L d container
         \<or> (case as_object v of Some m \<Rightarrow> m \<noteq> [] | None \<Rightarrow> False)
      then Some v else None)"

definition read_text ::
  "('d, 'f) loro \<Rightarrow> 'd \<Rightarrow> field_spec \<Rightarrow> identity_context \<Rightarrow> string \<Rightarrow> json option replica_result"
where
  "read_text L d f ctx container =
     (let txt = loro_text L d container in
      if field_codec f = COptionalString \<and> txt = [] then Inr None
      else if field_codec f = CPropertyText then
        res_bind (resolve_metadata f ctx) (\<lambda>(metadata_container, metadata_key).
        res_bind (ok_or (InvalidField (field_path f) ''a stored MIME value'')
          (Option.bind (map_of (loro_map L d metadata_container) metadata_key)
            (\<lambda>n. as_str (loro_to_json L (loro_node_deep L n))))) (\<lambda>mime.
        Inr (Some (jobj [(''$mime'', JString mime), (''value'', JString txt)]))))
      else Inr (Some (JString txt)))"

definition read_field ::
  "('d, 'f) loro \<Rightarrow> 'd \<Rightarrow> field_spec \<Rightarrow> identity_context \<Rightarrow> json option replica_result"
where
  "read_field L d f ctx =
     res_bind (resolve_container f ctx) (\<lambda>container.
     case field_storage_kind f of
       Scalar \<Rightarrow>
         res_bind (ok_or (InvalidField (field_path f) ''a scalar key'') (field_key f)) (\<lambda>key.
         Inr (map_option (\<lambda>n. loro_to_json L (loro_node_deep L n)) (map_of (loro_map L d container) key)))
     | Text \<Rightarrow> read_text L d f ctx container
     | OrderedList \<Rightarrow> Inr (Some (loro_to_json L (LList (loro_list L d container))))
     | StructuredList \<Rightarrow> Inr (Some (loro_to_json L (LList (loro_list L d container))))
     | StructuredMap \<Rightarrow>
         Inr (present_object L d f container
           (loro_to_json L (loro_node_deep L (NMap (loro_map L d container)))))
     | StructuredDocument \<Rightarrow>
         res_bind (read_structured_document L (loro_map L d container)) (\<lambda>v.
         Inr (present_object L d f container v))
     | _ \<Rightarrow> Inr None)"

definition is_empty_optional_value :: "json \<Rightarrow> bool" where
  "is_empty_optional_value v \<longleftrightarrow> v = JArray [] \<or> v = JObject [] \<or> v = JString [] \<or> v = JNull"

text \<open>The member a field's reading sets: none for an empty optional value that is no object field's.\<close>

definition set_read_value :: "field_spec \<Rightarrow> string \<Rightarrow> json option \<Rightarrow> json \<Rightarrow> json replica_result" where
  "set_read_value f path v document =
     (case v of
        None \<Rightarrow> Inr document
      | Some v \<Rightarrow>
          if is_empty_optional_value v \<and> \<not> field_required f
             \<and> \<not> is_object_storage_kind (field_storage_kind f)
          then Inr document else set_value_at_path document path v)"

definition sequence_is_explicitly_present ::
  "('d, 'f) loro \<Rightarrow> 'd \<Rightarrow> field_spec \<Rightarrow> identity_context \<Rightarrow> bool replica_result"
where
  "sequence_is_explicitly_present L d sequence ctx =
     res_bind (resolve_order sequence ctx) (\<lambda>order_container.
     Inr (map_of (loro_map L d keyed_sequence_presence) order_container \<noteq> None))"

definition empty_form :: "field_spec \<Rightarrow> json option" where
  "empty_form f =
     (case field_codec f of
        CString \<Rightarrow> Some (JString [])
      | COptionalString \<Rightarrow> Some (JString [])
      | CStringList \<Rightarrow> Some (JArray [])
      | CKeyedSequence \<Rightarrow> Some (JArray [])
      | CStructuredJson \<Rightarrow>
          if is_object_storage_kind (field_storage_kind f) then None else Some (JArray [])
      | _ \<Rightarrow> None)"

definition complete_member :: "string \<Rightarrow> field_spec \<Rightarrow> json \<Rightarrow> json replica_result" where
  "complete_member pre f node =
     (let path = drop (length pre) (field_path f) in
      if value_at_path node path \<noteq> None then Inr node
      else if (case rsplit_once (CHR ''.'') path of
                 Some (parent, _) \<Rightarrow> value_at_path node parent = None | None \<Rightarrow> False)
      then Inr node
      else (case empty_form f of None \<Rightarrow> Inr node | Some v \<Rightarrow> set_value_at_path node path v))"

definition complete_required_members :: "field_spec list \<Rightarrow> string \<Rightarrow> json \<Rightarrow> json replica_result" where
  "complete_required_members members pre node =
     res_fold (complete_member pre)
       (filter (\<lambda>f. field_required_in_parent f \<and> \<not> field_required f) members) node"

definition materialize_item_field ::
  "('d, 'f) loro \<Rightarrow> 'd \<Rightarrow> field_spec \<Rightarrow> identity_context \<Rightarrow> field_spec \<Rightarrow> json \<Rightarrow> json replica_result"
where
  "materialize_item_field L d sequence ctx f item =
     (let item_path = drop (length (field_path sequence @ star)) (field_path f) in
      case field_storage_kind f of
        DerivedIdentity \<Rightarrow>
          res_bind (case field_identity_variable f of Some v \<Rightarrow> Inr v
                    | None \<Rightarrow> (case field_identity_path f of Some v \<Rightarrow> Inr v
                              | None \<Rightarrow> identity_variable sequence)) (\<lambda>variable.
          res_bind (ok_or (InvalidField (field_path f) ''a resolved identity'') (map_of ctx variable))
            (\<lambda>v. set_value_at_path item item_path (JString v)))
      | DerivedRevision \<Rightarrow> Inr item
      | _ \<Rightarrow> res_bind (read_field L d f ctx) (\<lambda>v. set_read_value f item_path v item))"

function materialize_sequence ::
  "('d, 'f) loro \<Rightarrow> entity_spec \<Rightarrow> 'd \<Rightarrow> field_spec \<Rightarrow> identity_context \<Rightarrow> json list replica_result"
where
  "materialize_sequence L plan d sequence ctx =
     res_bind (resolve_order sequence ctx) (\<lambda>order_container.
     res_collect (\<lambda>identity.
         res_bind (identity_variable sequence) (\<lambda>variable.
         let item_ctx = context_insert variable identity ctx;
             pre = field_path sequence @ star in
         res_bind (res_fold (materialize_item_field L d sequence item_ctx)
           (direct_sequence_item_fields plan sequence) (JObject [])) (\<lambda>item.
         res_bind (res_fold (\<lambda>child item.
             res_bind (materialize_sequence L plan d child item_ctx) (\<lambda>child_items.
             res_bind (if field_required child \<or> child_items \<noteq> [] then Inr True
                       else sequence_is_explicitly_present L d child item_ctx) (\<lambda>present.
             if present
             then set_value_at_path item (drop (length pre) (field_path child)) (JArray child_items)
             else Inr item)))
           (direct_child_sequences plan (Some (field_path sequence))) item) (\<lambda>item.
         complete_required_members
           (direct_sequence_item_fields plan sequence
            @ direct_child_sequences plan (Some (field_path sequence))) pre item))))
       (unique_loro_string_list (loro_list L d order_container)))"
  by pat_completeness auto
termination
  by (relation "measure (\<lambda>(_, plan, _, sequence, _). sequence_rank plan (Some sequence))")
    (auto intro: child_sequence_rank_Some)

declare materialize_sequence.simps [simp del]

definition materialize_field ::
  "('d, 'f) loro \<Rightarrow> 'd \<Rightarrow> string \<Rightarrow> field_spec \<Rightarrow> json \<Rightarrow> json replica_result"
where
  "materialize_field L d revision f document =
     (if contains_str star (field_path f) \<or> field_storage_kind f = KeyedSequence then Inr document
      else (case field_storage_kind f of
              DerivedIdentity \<Rightarrow> Inr document
            | DerivedRevision \<Rightarrow> set_value_at_path document (field_path f) (JString revision)
            | _ \<Rightarrow> res_bind (read_field L d f []) (\<lambda>v. set_read_value f (field_path f) v document)))"

definition materialize_top_sequence ::
  "('d, 'f) loro \<Rightarrow> entity_spec \<Rightarrow> 'd \<Rightarrow> field_spec \<Rightarrow> json \<Rightarrow> json replica_result"
where
  "materialize_top_sequence L plan d sequence document =
     res_bind (materialize_sequence L plan d sequence []) (\<lambda>items.
     res_bind (if field_required sequence \<or> items \<noteq> [] then Inr True
               else sequence_is_explicitly_present L d sequence []) (\<lambda>present.
     if present then set_value_at_path document (field_path sequence) (JArray items)
     else Inr document))"

definition materialize_document ::
  "('d, 'f) loro \<Rightarrow> entity_spec \<Rightarrow> 'd \<Rightarrow> string \<Rightarrow> json replica_result"
where
  "materialize_document L plan d revision =
     res_bind (res_fold (materialize_field L d revision) (plan_fields plan) (JObject [])) (\<lambda>document.
     res_bind (res_fold (materialize_top_sequence L plan d) (direct_child_sequences plan None) document)
       (\<lambda>document.
     res_bind (complete_required_members
       (filter (\<lambda>f. \<not> contains_str star (field_path f)) (plan_fields plan)) [] document) (\<lambda>document.
     res_bind (validate_document plan document) (\<lambda>_. Inr document))))"

end
