(* ===== verification/Writing.thy ===== *)
theory Writing
  imports Substrate
begin

text \<open>
  The write half of \<open>crates/clerkenwell-doc/src/substrate.rs\<close>: the operations that turn one
  document into another. A writer is an action on the Loro document; one that fails leaves the
  operations it made before. A container is written through its handle, the root container's name
  and the keys from it.
\<close>

type_synonym ('d, 'a) writer = "('d, replica_error, 'a) act"

definition loro_act :: "('d \<Rightarrow> string + 'd) \<Rightarrow> ('d, unit) writer" where
  "loro_act f d = (case f d of Inl e \<Rightarrow> (Inl (UpdateError e), d) | Inr d' \<Rightarrow> (Inr (), d'))"

section \<open>Values\<close>

text \<open>
  \<open>as_f64\<close>: an integer that does not fit the 53 bits of a double's significand is rounded to the
  nearest double, a tie to the even one.
\<close>

fun bit_length :: "nat \<Rightarrow> nat" where
  "bit_length n = (if n = 0 then 0 else Suc (bit_length (n div 2)))"

declare bit_length.simps [simp del]

definition f64_of_nat :: "nat \<Rightarrow> rat" where
  "f64_of_nat n =
     (let k = bit_length n - 53; q = n div 2 ^ k; r = n mod 2 ^ k;
          up = (2 * r > 2 ^ k \<or> 2 * r = 2 ^ k \<and> odd q) in
      of_nat ((if up then q + 1 else q) * 2 ^ k))"

fun as_f64 :: "json \<Rightarrow> rat option" where
  "as_f64 (JNumber (PosInt n)) = Some (f64_of_nat n)"
| "as_f64 (JNumber (NegInt i)) = Some (- f64_of_nat (nat (- i)))"
| "as_f64 (JNumber (Float q)) = Some q"
| "as_f64 _ = None"

function json_to_loro :: "json \<Rightarrow> loro_value replica_result" where
  "json_to_loro JNull = Inr LNull"
| "json_to_loro (JBool b) = Inr (LBool b)"
| "json_to_loro (JNumber n) =
     (case as_i64 (JNumber n) of
        Some i \<Rightarrow> Inr (LI64 i)
      | None \<Rightarrow> res_bind (ok_or (InvalidField ''$'' ''a finite number'') (as_f64 (JNumber n)))
          (\<lambda>q. Inr (LDouble q)))"
| "json_to_loro (JString s) = Inr (LString s)"
| "json_to_loro (JArray vs) = res_bind (res_collect json_to_loro vs) (\<lambda>ls. Inr (LList ls))"
| "json_to_loro (JObject m) =
     res_bind (res_collect (\<lambda>e. res_bind (json_to_loro (snd e)) (\<lambda>l. Inr (fst e, l))) m)
       (\<lambda>ls. Inr (LMap ls))"
  by pat_completeness auto

lemma size_json_member: "(k, v) \<in> set m \<Longrightarrow> size v < size (JObject m)"
proof -
  assume "(k, v) \<in> set m"
  then have "size_prod (\<lambda>_. 0) size (k, v) \<le> size_list (size_prod (\<lambda>_. 0) size) m"
    by (rule size_list_estimation') simp
  then show ?thesis by simp
qed

lemma size_json_entry: "e \<in> set m \<Longrightarrow> snd e = v \<Longrightarrow> size v < size (JObject m)"
  by (cases e) (simp add: size_json_member del: json.size)

lemma size_json_element: "v \<in> set vs \<Longrightarrow> size v < size (JArray vs)"
  by (induction vs) auto

termination json_to_loro
  by (relation "measure size") (auto simp del: json.size intro: size_json_element size_json_member)

text \<open>Every value has a Loro form: the error branch of a number is never taken.\<close>

lemma json_to_loro_total: "\<exists>l. json_to_loro v = Inr l"
proof (induction v rule: json_to_loro.induct)
  case (3 n)
  then show ?case by (cases n) auto
next
  case (5 vs)
  then have "\<exists>ls. res_collect json_to_loro vs = Inr ls"
    by (induction vs) (auto, fastforce)
  then show ?case by auto
next
  case (6 m)
  then have "\<exists>ls. res_collect (\<lambda>e. res_bind (json_to_loro (snd e)) (\<lambda>l. Inr (fst e, l))) m = Inr ls"
    by (induction m) (auto, fastforce)
  then show ?case by auto
qed auto

section \<open>Lists and text\<close>

text \<open>
  \<open>write_list\<close>: the deletions and insertions of an edit script at a running position. An insertion
  puts \<open>desired[inserted]\<close> one value after the other.
\<close>

fun insert_values :: "('d, 'f) loro \<Rightarrow> handle \<Rightarrow> nat \<Rightarrow> loro_value list \<Rightarrow> ('d, nat) writer" where
  "insert_values L h position [] d = (Inr position, d)"
| "insert_values L h position (v # vs) d =
     act_bind (loro_act (\<lambda>d. loro_list_insert L d h position v)) (\<lambda>_.
       insert_values L h (Suc position) vs) d"

definition apply_edit ::
  "('d, 'f) loro \<Rightarrow> handle \<Rightarrow> loro_value list \<Rightarrow> nat \<Rightarrow> nat \<Rightarrow> nat \<Rightarrow> nat \<Rightarrow> ('d, nat) writer"
where
  "apply_edit L h desired position deleted i n =
     act_bind (if deleted > 0 then loro_act (\<lambda>d. loro_list_delete L d h position deleted)
               else act_return ()) (\<lambda>_.
     insert_values L h position (take n (drop i desired)))"

fun apply_edits ::
  "('d, 'f) loro \<Rightarrow> handle \<Rightarrow> loro_value list \<Rightarrow> nat \<Rightarrow> diff_op list \<Rightarrow> ('d, unit) writer"
where
  "apply_edits L h desired position [] d = (Inr (), d)"
| "apply_edits L h desired position (DiffEqual n # es) d =
     apply_edits L h desired (position + n) es d"
| "apply_edits L h desired position (DiffDelete n # es) d =
     act_bind (apply_edit L h desired position n 0 0) (\<lambda>p. apply_edits L h desired p es) d"
| "apply_edits L h desired position (DiffInsert i n # es) d =
     act_bind (apply_edit L h desired position 0 i n) (\<lambda>p. apply_edits L h desired p es) d"
| "apply_edits L h desired position (DiffReplace m i n # es) d =
     act_bind (apply_edit L h desired position m i n) (\<lambda>p. apply_edits L h desired p es) d"

definition write_list :: "('d, 'f) loro \<Rightarrow> handle \<Rightarrow> loro_value list \<Rightarrow> ('d, unit) writer" where
  "write_list L h desired d =
     apply_edits L h desired 0 (myers_diff L (loro_list_at L d h) desired) d"

definition write_string_list :: "('d, 'f) loro \<Rightarrow> handle \<Rightarrow> string list \<Rightarrow> ('d, unit) writer" where
  "write_string_list L h values = write_list L h (map LString values)"

definition write_text :: "('d, 'f) loro \<Rightarrow> handle \<Rightarrow> string \<Rightarrow> string \<Rightarrow> ('d, unit) writer" where
  "write_text L h path txt d =
     (case loro_update_text L d h txt of
        None \<Rightarrow> (Inl (InvalidField path ''a text update within the time budget''), d)
      | Some d' \<Rightarrow> (Inr (), d'))"

text \<open>\<open>replace_all_text\<close>: every byte out, then the new text in. It gives the library's error.\<close>

definition replace_all_text :: "('d, 'f) loro \<Rightarrow> string \<Rightarrow> string \<Rightarrow> ('d, unit) writer" where
  "replace_all_text L container txt =
     act_bind (act_gets (\<lambda>d. length (loro_text L d container))) (\<lambda>len.
     act_bind (if len > 0 then loro_act (\<lambda>d. loro_text_delete L d (container, []) 0 len)
               else act_return ()) (\<lambda>_.
     if txt \<noteq> [] then loro_act (\<lambda>d. loro_text_insert L d (container, []) 0 txt) else act_return ()))"

lemma loro_act_Inr_iff [result_simps]: "loro_act f d = (Inr u, d') \<longleftrightarrow> f d = Inr d'"
  by (auto simp: loro_act_def split: sum.splits)

lemma insert_values_ok:
  assumes "list_law L"
  shows "position \<le> length (loro_list_at L d h) \<Longrightarrow>
    \<exists>d'. insert_values L h position vs d = (Inr (position + length vs), d')
      \<and> loro_list_at L d' h =
          take position (loro_list_at L d h) @ vs @ drop position (loro_list_at L d h)"
proof (induction vs arbitrary: position d)
  case (Cons v vs)
  obtain d1 where d1: "loro_list_insert L d h position v = Inr d1"
      "loro_list_at L d1 h = take position (loro_list_at L d h) @ v # drop position (loro_list_at L d h)"
    using assms Cons.prems unfolding list_law_def by blast
  have "Suc position \<le> length (loro_list_at L d1 h)" using d1(2) Cons.prems by simp
  from Cons.IH[OF this] d1 Cons.prems show ?case
    by (auto simp: act_bind_def loro_act_def)
qed simp

lemma apply_edit_ok:
  assumes "list_law L" and at: "loro_list_at L d h = front @ gone @ rest"
  shows "\<exists>d'. apply_edit L h desired (length front) (length gone) i n d
      = (Inr (length front + length (take n (drop i desired))), d')
    \<and> loro_list_at L d' h = front @ take n (drop i desired) @ rest"
proof -
  define del where "del = (if length gone > 0
    then loro_act (\<lambda>d. loro_list_delete L d h (length front) (length gone)) else act_return ())"
  have "\<exists>d1. del d = (Inr (), d1) \<and> loro_list_at L d1 h = front @ rest"
  proof (cases "gone = []")
    case True
    then show ?thesis using at by (simp add: del_def)
  next
    case False
    have "length front + length gone \<le> length (loro_list_at L d h)" using at by simp
    then obtain d1 where "loro_list_delete L d h (length front) (length gone) = Inr d1"
        "loro_list_at L d1 h = take (length front) (loro_list_at L d h)
           @ drop (length front + length gone) (loro_list_at L d h)"
      using assms(1) unfolding list_law_def by blast
    then have "loro_list_delete L d h (length front) (length gone) = Inr d1"
        "loro_list_at L d1 h = front @ rest" by (simp_all add: at)
    then show ?thesis using False by (auto simp: del_def loro_act_def)
  qed
  then obtain d1 where d1: "del d = (Inr (), d1)" "loro_list_at L d1 h = front @ rest" by blast
  have "length front \<le> length (loro_list_at L d1 h)" using d1(2) by simp
  moreover have "apply_edit L h desired (length front) (length gone) i n d
      = insert_values L h (length front) (take n (drop i desired)) d1"
    unfolding apply_edit_def del_def[symmetric] by (rule act_bind_run(1)) (rule d1(1))
  ultimately show ?thesis
    using insert_values_ok[OF assms(1), of "length front" d1 h "take n (drop i desired)"] d1(2)
    by simp
qed

lemma apply_edits_ok:
  assumes "list_law L" and "script_ok es old j desired" and "j \<le> length desired"
    and "loro_list_at L d h = take j desired @ old"
  shows "\<exists>d'. apply_edits L h desired j es d = (Inr (), d') \<and> loro_list_at L d' h = desired"
  using assms(2-)
proof (induction es arbitrary: old j d)
  case (Cons e es)
  show ?case
  proof (cases e)
    case (DiffEqual n)
    with Cons.prems have "take (j + n) desired = take j desired @ take n old" by (simp add: take_add)
    then have "loro_list_at L d h = take (j + n) desired @ drop n old"
      using Cons.prems(3) by (metis append.assoc append_take_drop_id)
    with Cons.IH[of "drop n old" "j + n" d] Cons.prems DiffEqual show ?thesis by simp
  next
    case (DiffDelete n)
    with Cons.prems apply_edit_ok[OF assms(1), of d h "take j desired" "take n old" "drop n old" desired 0 0]
    obtain d' where "apply_edit L h desired j n 0 0 d = (Inr j, d')"
        "loro_list_at L d' h = take j desired @ drop n old" by (auto simp: min_absorb2)
    with Cons.IH[of "drop n old" j d'] Cons.prems DiffDelete show ?thesis by (simp add: act_bind_def)
  next
    case (DiffInsert i n)
    with Cons.prems apply_edit_ok[OF assms(1), of d h "take j desired" "[]" old desired j n]
    obtain d' where "apply_edit L h desired j 0 j n d = (Inr (j + n), d')"
        "loro_list_at L d' h = take (j + n) desired @ old" by (auto simp: min_absorb2 take_add)
    with Cons.IH[of old "j + n" d'] Cons.prems DiffInsert show ?thesis by (simp add: act_bind_def)
  next
    case (DiffReplace m i n)
    with Cons.prems
      apply_edit_ok[OF assms(1), of d h "take j desired" "take m old" "drop m old" desired j n]
    obtain d' where "apply_edit L h desired j m j n d = (Inr (j + n), d')"
        "loro_list_at L d' h = take (j + n) desired @ drop m old" by (auto simp: min_absorb2 take_add)
    with Cons.IH[of "drop m old" "j + n" d'] Cons.prems DiffReplace show ?thesis
      by (simp add: act_bind_def)
  qed
qed simp

lemma write_list_ok:
  assumes "list_law L" and "diff_law L"
  shows "\<exists>d'. write_list L h desired d = (Inr (), d') \<and> loro_list_at L d' h = desired"
  unfolding write_list_def
  by (rule apply_edits_ok[OF assms(1), of _ "loro_list_at L d h"])
    (use assms(2) in \<open>simp_all add: diff_law_def\<close>)

section \<open>Structured values\<close>

text \<open>The handle of a nested container, and the calls that make sure it is one.\<close>

definition child_of :: "handle \<Rightarrow> string \<Rightarrow> handle" where
  "child_of h key = (fst h, snd h @ [key])"

definition map_insert :: "('d, 'f) loro \<Rightarrow> handle \<Rightarrow> string \<Rightarrow> loro_value \<Rightarrow> ('d, unit) writer" where
  "map_insert L h key v = loro_act (\<lambda>d. loro_map_insert L d h key v)"

definition map_delete :: "('d, 'f) loro \<Rightarrow> handle \<Rightarrow> string \<Rightarrow> ('d, unit) writer" where
  "map_delete L h key = loro_act (\<lambda>d. loro_map_delete L d h key)"

definition ensure_structured_map_child ::
  "('d, 'f) loro \<Rightarrow> handle \<Rightarrow> string \<Rightarrow> ('d, handle) writer"
where
  "ensure_structured_map_child L h key =
     act_bind (act_gets (\<lambda>d. case loro_entry L d h key of
         None \<Rightarrow> True | Some (NMap _) \<Rightarrow> True | Some _ \<Rightarrow> False)) (\<lambda>fits.
     act_bind (if fits then act_return () else map_delete L h key) (\<lambda>_.
     act_bind (loro_act (\<lambda>d. loro_ensure_map L d h key)) (\<lambda>_.
     act_return (child_of h key))))"

definition ensure_structured_document_text ::
  "('d, 'f) loro \<Rightarrow> handle \<Rightarrow> string \<Rightarrow> ('d, handle) writer"
where
  "ensure_structured_document_text L h key =
     act_bind (act_gets (\<lambda>d. case loro_entry L d h key of
         None \<Rightarrow> True | Some (NText _) \<Rightarrow> True | Some _ \<Rightarrow> False)) (\<lambda>fits.
     act_bind (if fits then act_return () else map_delete L h key) (\<lambda>_.
     act_bind (loro_act (\<lambda>d. loro_ensure_text L d h key)) (\<lambda>_.
     act_return (child_of h key))))"

definition insert_json :: "('d, 'f) loro \<Rightarrow> handle \<Rightarrow> string \<Rightarrow> json \<Rightarrow> ('d, unit) writer" where
  "insert_json L h key v = act_bind (act_lift (json_to_loro v)) (map_insert L h key)"

definition delete_missing ::
  "('d, 'f) loro \<Rightarrow> handle \<Rightarrow> (string \<times> json) list \<Rightarrow> (string \<times> json) list \<Rightarrow> ('d, unit) writer"
where
  "delete_missing L h previous next =
     act_for (map_delete L h) (filter (\<lambda>key. map_of next key = None) (map fst previous))"

text \<open>\<open>previous_value.and_then(Value::as_object).cloned().unwrap_or_default()\<close>.\<close>

definition object_or_empty :: "json option \<Rightarrow> (string \<times> json) list" where
  "object_or_empty v = (case Option.bind v as_object of Some m \<Rightarrow> m | None \<Rightarrow> [])"

function write_structured_map_changes ::
  "('d, 'f) loro \<Rightarrow> handle \<Rightarrow> (string \<times> json) list \<Rightarrow> (string \<times> json) list \<Rightarrow> ('d, unit) writer"
where
  "write_structured_map_changes L h previous next d =
     act_bind (delete_missing L h previous next) (\<lambda>_ d.
     act_for (\<lambda>e d.
         if map_of previous (fst e) = Some (snd e) then (Inr (), d)
         else (case snd e of
             JObject next_values \<Rightarrow>
               act_bind (ensure_structured_map_child L h (fst e)) (\<lambda>child d.
                 write_structured_map_changes L child
                   (object_or_empty (map_of previous (fst e))) next_values d) d
           | _ \<Rightarrow> insert_json L h (fst e) (snd e) d))
       next d) d"
  by pat_completeness auto
termination
  by (relation "measure (\<lambda>(_, _, _, next, _). size (JObject next))")
    (auto intro: size_json_entry simp del: json.size)

declare write_structured_map_changes.simps [simp del]

text \<open>
  The identity key a list of objects can be keyed by: every element carries it as a unique
  non-empty string and none carries the reserved marker.
\<close>

definition identity_key_of :: "string \<Rightarrow> json \<Rightarrow> string option" where
  "identity_key_of identity v =
     (case as_object v of
        Some m \<Rightarrow>
          if map_of m keyed_list_marker \<noteq> None then None
          else (case Option.bind (map_of m identity) as_str of
                  Some key \<Rightarrow> if key = [] then None else Some key
                | None \<Rightarrow> None)
      | None \<Rightarrow> None)"

definition keys_every_element :: "json list \<Rightarrow> string \<Rightarrow> bool" where
  "keys_every_element vs identity \<longleftrightarrow>
     (let keys = map (identity_key_of identity) vs in None \<notin> set keys \<and> distinct keys)"

definition keyed_list_identity :: "json list \<Rightarrow> string option" where
  "keyed_list_identity vs =
     (if vs = [] then None else find (keys_every_element vs) keyed_list_identities)"

definition list_by_identity :: "json list \<Rightarrow> string \<Rightarrow> (string \<times> json) list" where
  "list_by_identity vs identity =
     bmap_of (List.map_filter (\<lambda>v.
       map_option (\<lambda>key. (key, v)) (Option.bind (json_get v identity) as_str)) vs)"

lemma set_bmap_insert: "set (bmap_insert k v m) \<subseteq> insert (k, v) (set m)"
  by (induction k v m rule: bmap_insert.induct) auto

lemma set_bmap_of: "set (bmap_of xs) \<subseteq> set xs"
proof -
  have "set (foldl (\<lambda>m (k, v). bmap_insert k v m) m xs) \<subseteq> set m \<union> set xs" for m
  proof (induction xs arbitrary: m)
    case (Cons x xs)
    then show ?case using set_bmap_insert[of "fst x" "snd x" m]
      by (auto split: prod.splits dest!: subsetD[OF Cons])
  qed simp
  from this[of "[]"] show ?thesis by (simp add: bmap_of_def)
qed

lemma list_by_identity_element: "(key, v) \<in> set (list_by_identity vs identity) \<Longrightarrow> v \<in> set vs"
  using set_bmap_of unfolding list_by_identity_def
  by (fastforce simp: map_filter_def)

lemma size_json_item:
  "e \<in> set (list_by_identity vs identity) \<Longrightarrow> snd e = v \<Longrightarrow> size v < size (JArray vs)"
  by (cases e) (simp add: size_json_element list_by_identity_element del: json.size)

function write_structured_document_changes ::
    "('d, 'f) loro \<Rightarrow> handle \<Rightarrow> (string \<times> json) list \<Rightarrow> (string \<times> json) list \<Rightarrow> ('d, unit) writer"
  and write_keyed_list_changes ::
    "('d, 'f) loro \<Rightarrow> handle \<Rightarrow> string \<Rightarrow> json list \<Rightarrow> json list \<Rightarrow> ('d, unit) writer"
where
  "write_structured_document_changes L h previous next d =
     act_bind (delete_missing L h previous next) (\<lambda>_ d.
     act_for (\<lambda>e d.
         if map_of previous (fst e) = Some (snd e) then (Inr (), d)
         else (case snd e of
             JString txt \<Rightarrow>
               act_bind (ensure_structured_document_text L h (fst e)) (\<lambda>container.
                 write_text L container (fst e) txt) d
           | JObject next_values \<Rightarrow>
               if map_of next_values keyed_list_marker \<noteq> None then insert_json L h (fst e) (snd e) d
               else act_bind (ensure_structured_map_child L h (fst e)) (\<lambda>child d.
                 write_structured_document_changes L child
                   (object_or_empty (map_of previous (fst e))) next_values d) d
           | JArray values \<Rightarrow>
               (case keyed_list_identity values of
                  Some identity \<Rightarrow>
                    act_bind (ensure_structured_map_child L h (fst e)) (\<lambda>child d.
                      write_keyed_list_changes L child identity
                        (case Option.bind (map_of previous (fst e)) as_array of
                           Some vs \<Rightarrow> vs | None \<Rightarrow> []) values d) d
                | None \<Rightarrow> insert_json L h (fst e) (snd e) d)
           | _ \<Rightarrow> insert_json L h (fst e) (snd e) d))
       next d) d"
| "write_keyed_list_changes L h identity previous next d =
     act_bind (map_insert L h keyed_list_marker (LString identity)) (\<lambda>_ d.
     act_bind (ensure_structured_map_child L h keyed_list_items) (\<lambda>items d.
     act_bind (delete_missing L items (list_by_identity previous identity)
       (list_by_identity next identity)) (\<lambda>_ d.
     act_bind (act_for (\<lambda>e d.
         act_bind (ensure_structured_map_child L items (fst e)) (\<lambda>child d.
           case snd e of
             JObject next_values \<Rightarrow>
               write_structured_document_changes L child
                 (object_or_empty (map_of (list_by_identity previous identity) (fst e)))
                 next_values d
           | _ \<Rightarrow> (Inl (InvalidField (fst e) ''an object''), d)) d)
       (list_by_identity next identity)) (\<lambda>_ d.
     act_bind (loro_act (\<lambda>d. loro_ensure_list L d h keyed_list_order)) (\<lambda>_.
     write_string_list L (child_of h keyed_list_order)
       (List.map_filter (\<lambda>v. Option.bind (json_get v identity) as_str) next)) d) d) d) d) d"
  by pat_completeness auto
termination
  by (relation "measure (\<lambda>x. case x of
      Inl (_, _, _, next, _) \<Rightarrow> size (JObject next) | Inr (_, _, _, _, next, _) \<Rightarrow> size (JArray next))")
    (auto intro: size_json_entry size_json_item simp del: json.size)

declare write_structured_document_changes.simps [simp del] write_keyed_list_changes.simps [simp del]

section \<open>Fields\<close>

definition root_handle :: "string \<Rightarrow> handle" where
  "root_handle container = (container, [])"

definition write_scalar ::
  "('d, 'f) loro \<Rightarrow> field_spec \<Rightarrow> string \<Rightarrow> json option \<Rightarrow> ('d, unit) writer"
where
  "write_scalar L f container next =
     act_bind (act_lift (ok_or (InvalidField (field_path f) ''a scalar key'') (field_key f))) (\<lambda>key.
     let h = root_handle container in
     if next = None \<or> next = Some JNull then map_delete L h key
     else (case field_codec f of
         CIntegerV \<Rightarrow>
           act_bind (act_lift (ok_or (InvalidField (field_path f) ''an integer'') (Option.bind next as_i64)))
             (\<lambda>i. map_insert L h key (LI64 i))
       | CNumberV \<Rightarrow>
           act_bind (act_lift (ok_or (InvalidField (field_path f) ''a number'') (Option.bind next as_f64)))
             (\<lambda>q. map_insert L h key (LDouble q))
       | COptionalNumber \<Rightarrow>
           (case Option.bind next as_f64 of
              Some q \<Rightarrow> map_insert L h key (LDouble q) | None \<Rightarrow> map_delete L h key)
       | CBoolean \<Rightarrow>
           act_bind (act_lift (ok_or (InvalidField (field_path f) ''a boolean'') (Option.bind next as_bool)))
             (\<lambda>b. map_insert L h key (LBool b))
       | CString \<Rightarrow>
           act_bind (act_lift (ok_or (InvalidField (field_path f) ''a string'') (Option.bind next as_str)))
             (\<lambda>s. map_insert L h key (LString s))
       | COptionalString \<Rightarrow>
           (case Option.bind next as_str of
              Some s \<Rightarrow> if s \<noteq> [] then map_insert L h key (LString s) else map_delete L h key
            | None \<Rightarrow> map_delete L h key)
       | _ \<Rightarrow> act_fail (InvalidField (field_path f) ''a scalar-compatible codec'')))"

definition write_text_field ::
  "('d, 'f) loro \<Rightarrow> field_spec \<Rightarrow> string \<Rightarrow> json option \<Rightarrow> identity_context \<Rightarrow> ('d, unit) writer"
where
  "write_text_field L f container next ctx =
     (let h = root_handle container in
      if next = None \<or> next = Some JNull then
        act_bind (write_text L h (field_path f) []) (\<lambda>_.
        if field_codec f = CPropertyText then
          act_bind (act_lift (resolve_metadata f ctx)) (\<lambda>(metadata_container, metadata_key).
          map_delete L (root_handle metadata_container) metadata_key)
        else act_return ())
      else
        act_bind (act_lift (case field_codec f of
            CString \<Rightarrow> ok_or (InvalidField (field_path f) ''a string'') (Option.bind next as_str)
          | COptionalString \<Rightarrow>
              Inr (case Option.bind next as_str of Some s \<Rightarrow> s | None \<Rightarrow> [])
          | CPropertyText \<Rightarrow> res_bind (property_text f next) (\<lambda>(_, txt). Inr txt)
          | _ \<Rightarrow> Inl (InvalidField (field_path f) ''a text-compatible codec''))) (\<lambda>txt.
        act_bind (write_text L h (field_path f) txt) (\<lambda>_.
        if field_codec f = CPropertyText then
          act_bind (act_lift (property_text f next)) (\<lambda>(mime, _).
          act_bind (act_lift (resolve_metadata f ctx)) (\<lambda>(metadata_container, metadata_key).
          map_insert L (root_handle metadata_container) metadata_key (LString mime)))
        else act_return ())))"

text \<open>
  An object field: the container is written by \<open>write\<close> and marked present; an optional one left
  out is emptied and its mark removed.
\<close>

definition write_object_field ::
  "('d, 'f) loro \<Rightarrow>
   (handle \<Rightarrow> (string \<times> json) list \<Rightarrow> (string \<times> json) list \<Rightarrow> ('d, unit) writer) \<Rightarrow>
   field_spec \<Rightarrow> string \<Rightarrow> json option \<Rightarrow> json option \<Rightarrow> ('d, unit) writer"
where
  "write_object_field L write_changes f container previous next =
     (case next of
        Some (JObject values) \<Rightarrow>
          act_bind (write_changes (root_handle container) (object_or_empty previous) values) (\<lambda>_.
          map_insert L (root_handle structured_map_presence) container (LBool True))
      | None \<Rightarrow>
          if field_required f then act_fail (InvalidField (field_path f) ''an object'')
          else
            act_bind (act_gets (\<lambda>d. map fst (loro_map L d container))) (\<lambda>keys.
            act_bind (act_for (map_delete L (root_handle container)) keys) (\<lambda>_.
            map_delete L (root_handle structured_map_presence) container))
      | _ \<Rightarrow> act_fail (InvalidField (field_path f) ''an object''))"

definition write_field_if_changed ::
  "('d, 'f) loro \<Rightarrow> field_spec \<Rightarrow> json option \<Rightarrow> json option \<Rightarrow> identity_context \<Rightarrow> ('d, unit) writer"
where
  "write_field_if_changed L f previous next ctx =
     (if previous = next then act_return ()
      else
        act_bind (if field_required f then act_lift (validate_field_value f next) else act_return ())
          (\<lambda>_.
        act_bind (act_lift (resolve_container f ctx)) (\<lambda>container.
        case field_storage_kind f of
          Scalar \<Rightarrow> write_scalar L f container next
        | Text \<Rightarrow> write_text_field L f container next ctx
        | OrderedList \<Rightarrow>
            act_bind (act_lift (string_array next (field_path f) (field_required f)))
              (write_string_list L (root_handle container))
        | StructuredList \<Rightarrow>
            act_bind (act_lift (ok_or (InvalidField (field_path f) ''an array'')
              (Option.bind next as_array))) (\<lambda>vs.
            act_bind (act_lift (res_collect json_to_loro vs)) (write_list L (root_handle container)))
        | StructuredMap \<Rightarrow>
            write_object_field L (write_structured_map_changes L) f container previous next
        | StructuredDocument \<Rightarrow>
            write_object_field L (write_structured_document_changes L) f container previous next
        | _ \<Rightarrow> act_return ())))"

section \<open>Sequences and documents\<close>

definition keyed_items :: "json \<Rightarrow> string \<Rightarrow> string \<Rightarrow> (string \<times> json) list replica_result" where
  "keyed_items document path identity_path =
     res_collect (\<lambda>item. res_bind (item_identity identity_path item) (\<lambda>identity. Inr (identity, item)))
       (case Option.bind (value_at_path document path) as_array of Some vs \<Rightarrow> vs | None \<Rightarrow> [])"

definition write_sequence_presence ::
  "('d, 'f) loro \<Rightarrow> field_spec \<Rightarrow> string \<Rightarrow> bool \<Rightarrow> ('d, unit) writer"
where
  "write_sequence_presence L sequence order_container next_is_present =
     (let presence = root_handle keyed_sequence_presence in
      if next_is_present \<or> field_required sequence
      then map_insert L presence order_container (LBool True)
      else act_bind (act_gets (\<lambda>d. map_of (loro_map L d keyed_sequence_presence) order_container)) (\<lambda>mark.
        if mark \<noteq> None then map_delete L presence order_container else act_return ()))"

definition write_item_fields ::
  "('d, 'f) loro \<Rightarrow> entity_spec \<Rightarrow> field_spec \<Rightarrow> json option \<Rightarrow> json \<Rightarrow> identity_context \<Rightarrow> ('d, unit) writer"
where
  "write_item_fields L plan sequence previous_item next_item ctx =
     act_for (\<lambda>f.
         if is_derived f then act_return ()
         else (let item_path = drop (length (field_path sequence @ star)) (field_path f) in
           write_field_if_changed L f
             (Option.bind previous_item (\<lambda>item. value_at_path item item_path))
             (value_at_path next_item item_path) ctx))
       (direct_sequence_item_fields plan sequence)"

text \<open>\<open>previous_items.into_iter().collect::<HashMap<_, _>>()\<close>: a later item replaces an earlier one.\<close>

definition previous_item :: "(string \<times> json) list \<Rightarrow> string \<Rightarrow> json option" where
  "previous_item items identity = map_of (rev items) identity"

function write_sequence_changes ::
  "('d, 'f) loro \<Rightarrow> entity_spec \<Rightarrow> field_spec \<Rightarrow> json \<Rightarrow> json \<Rightarrow> identity_context \<Rightarrow> ('d, unit) writer"
where
  "write_sequence_changes L plan sequence previous_parent next_parent ctx d =
     act_bind (act_lift (ok_or (InvalidField (field_path sequence) ''an identity path'')
       (field_identity_path sequence))) (\<lambda>identity_path d.
     act_bind (act_lift (keyed_items previous_parent (sequence_relative_path plan sequence) identity_path))
       (\<lambda>previous_items d.
     act_bind (act_lift (keyed_items next_parent (sequence_relative_path plan sequence) identity_path))
       (\<lambda>next_items d.
     act_bind (act_lift (resolve_order sequence ctx)) (\<lambda>order_container d.
     act_bind (write_sequence_presence L sequence order_container
       (value_at_path next_parent (sequence_relative_path plan sequence) \<noteq> None)) (\<lambda>_ d.
     act_bind (if map fst previous_items \<noteq> map fst next_items
               then write_string_list L (root_handle order_container) (map fst next_items)
               else act_return ()) (\<lambda>_ d.
     act_for (\<lambda>e d.
         act_bind (act_lift (identity_variable sequence)) (\<lambda>variable d.
         act_bind (write_item_fields L plan sequence (previous_item previous_items (fst e)) (snd e)
           (context_insert variable (fst e) ctx)) (\<lambda>_ d.
         act_for (\<lambda>child d.
             write_sequence_changes L plan child
               (case previous_item previous_items (fst e) of None \<Rightarrow> JNull | Some item \<Rightarrow> item)
               (snd e) (context_insert variable (fst e) ctx) d)
           (direct_child_sequences plan (Some (field_path sequence))) d) d) d)
       next_items d) d) d) d) d) d) d"
  by pat_completeness auto
termination
  by (relation "measure (\<lambda>(_, plan, sequence, _, _, _, _). sequence_rank plan (Some sequence))")
    (auto intro: child_sequence_rank_Some)

declare write_sequence_changes.simps [simp del]

definition write_document_changes ::
  "('d, 'f) loro \<Rightarrow> entity_spec \<Rightarrow> json \<Rightarrow> json \<Rightarrow> ('d, unit) writer"
where
  "write_document_changes L plan previous next =
     act_bind (act_lift (validate_document plan next)) (\<lambda>_.
     act_bind (act_for (\<lambda>f.
         if contains_str star (field_path f) \<or> is_derived f \<or> field_storage_kind f = KeyedSequence
         then act_return ()
         else write_field_if_changed L f (value_at_path previous (field_path f))
           (value_at_path next (field_path f)) [])
       (plan_fields plan)) (\<lambda>_.
     act_for (\<lambda>sequence. write_sequence_changes L plan sequence previous next [])
       (direct_child_sequences plan None)))"

end
