(* ===== verification/Policy.thy ===== *)
theory Policy
  imports Schema
begin

text \<open>
  \<open>crates/clerkenwell-doc/src/policy.rs\<close>: field conflict policy evaluation over materialised
  documents. \<open>collect_field_values\<close> descends through keyed sequences; \<open>judged_field_paths\<close>
  compares the values a field holds in the base, the client's and the current document.
  The lemmas give its meaning without the traversal: a path is reported exactly when some
  declared field judged by \<open>Explicit\<close> or \<open>Immutable\<close> holds conflicting values there.
\<close>

section \<open>The code\<close>

definition policy_value_at_path :: "json \<Rightarrow> string \<Rightarrow> json option" where
  "policy_value_at_path v path =
     json_walk v (filter (\<lambda>segment. segment \<noteq> []) (split_on (CHR ''.'') path))"

definition keyed_identity_path :: "entity_spec \<Rightarrow> string \<Rightarrow> string option" where
  "keyed_identity_path plan sequence_path =
     Option.bind
       (find (\<lambda>f. field_path f = sequence_path \<and> field_storage_kind f = KeyedSequence)
         (plan_fields plan))
       field_identity_path"

function collect_field_values ::
  "entity_spec \<Rightarrow> string \<Rightarrow> string \<Rightarrow> json \<Rightarrow> string \<Rightarrow> (string, json) bmap \<Rightarrow> (string, json) bmap"
where
  "collect_field_values plan declared_prefix relative scope key_prefix values =
     (case split_once ''.*.'' relative of
        None \<Rightarrow>
          bmap_insert (key_prefix @ relative)
            (case policy_value_at_path scope relative of None \<Rightarrow> JNull | Some v \<Rightarrow> v) values
      | Some (sequence_relative, rest) \<Rightarrow>
          (case (keyed_identity_path plan (declared_prefix @ sequence_relative),
                 Option.bind (policy_value_at_path scope sequence_relative) as_array) of
             (Some identity_path, Some items) \<Rightarrow>
               foldl (\<lambda>vals item.
                   case Option.bind (policy_value_at_path item identity_path) as_str of
                     None \<Rightarrow> vals
                   | Some identity \<Rightarrow>
                       collect_field_values plan (declared_prefix @ sequence_relative @ ''.*.'') rest
                         item (key_prefix @ sequence_relative @ ''['' @ identity @ ''].'') vals)
                 values items
           | _ \<Rightarrow> values))"
  by pat_completeness auto
termination
  by (relation "measure (\<lambda>(_, _, relative, _). length relative)")
    (auto dest: split_once_Some)

declare collect_field_values.simps [simp del]

definition field_values :: "entity_spec \<Rightarrow> field_spec \<Rightarrow> json \<Rightarrow> (string, json) bmap" where
  "field_values plan f document = collect_field_values plan '''' (field_path f) document '''' []"

definition value_or_null :: "(string, json) bmap \<Rightarrow> string \<Rightarrow> json" where
  "value_or_null values key = (case map_of values key of None \<Rightarrow> JNull | Some v \<Rightarrow> v)"

fun values_conflict :: "conflict_policy \<Rightarrow> json \<Rightarrow> json \<Rightarrow> json \<Rightarrow> bool" where
  "values_conflict Immutable base client current = (client \<noteq> base)"
| "values_conflict Explicit base client current =
     (client \<noteq> base \<and> current \<noteq> base \<and> client \<noteq> current)"
| "values_conflict Merge base client current = False"
| "values_conflict LastWriterWins base client current = False"

definition judged_field :: "field_spec \<Rightarrow> conflict_policy \<Rightarrow> bool" where
  "judged_field f conflict \<longleftrightarrow>
     (conflict = Explicit \<or> conflict = Immutable)
     \<and> field_storage_kind f \<noteq> DerivedIdentity \<and> field_storage_kind f \<noteq> DerivedRevision"

definition conflicting_keys ::
  "entity_spec \<Rightarrow> json \<Rightarrow> json \<Rightarrow> json \<Rightarrow> field_spec \<Rightarrow> conflict_policy \<Rightarrow> string list"
where
  "conflicting_keys plan base client current f conflict =
     (if \<not> judged_field f conflict then []
      else (let base_values = field_values plan f base;
                client_values = field_values plan f client;
                current_values = field_values plan f current;
                keys = bset_of (map fst base_values @ map fst client_values
                                @ map fst current_values)
            in filter (\<lambda>key. values_conflict conflict (value_or_null base_values key)
                         (value_or_null client_values key) (value_or_null current_values key))
                 keys))"

definition judged_field_paths ::
  "entity_spec \<Rightarrow> json \<Rightarrow> json \<Rightarrow> json \<Rightarrow> (field_spec \<Rightarrow> conflict_policy option) \<Rightarrow> string list"
where
  "judged_field_paths plan base client current policy =
     bset_of (concat (map (\<lambda>f.
       case policy f of None \<Rightarrow> [] | Some conflict \<Rightarrow> conflicting_keys plan base client current f conflict)
       (plan_fields plan)))"

definition conflicting_field_paths ::
  "entity_spec \<Rightarrow> json \<Rightarrow> json \<Rightarrow> json \<Rightarrow> actor_kind \<Rightarrow> string list"
where
  "conflicting_field_paths plan base client current kind =
     judged_field_paths plan base client current (\<lambda>f. Some (conflict_for f kind))"

definition creation_conflicting_field_paths :: "entity_spec \<Rightarrow> json \<Rightarrow> actor_kind \<Rightarrow> string list" where
  "creation_conflicting_field_paths plan created kind =
     judged_field_paths plan JNull created JNull (\<lambda>f. writer_conflict f kind)"

section \<open>What the traversal collects\<close>

text \<open>
  The entries of a field, one per address, without the accumulator: the path itself outside
  keyed sequences, and one entry per item with a string identity inside them.
\<close>

function field_entries ::
  "entity_spec \<Rightarrow> string \<Rightarrow> string \<Rightarrow> json \<Rightarrow> string \<Rightarrow> (string \<times> json) list"
where
  "field_entries plan dp rel scope kp =
     (case split_once ''.*.'' rel of
        None \<Rightarrow> [(kp @ rel, case policy_value_at_path scope rel of None \<Rightarrow> JNull | Some v \<Rightarrow> v)]
      | Some (sr, rest) \<Rightarrow>
          (case (keyed_identity_path plan (dp @ sr),
                 Option.bind (policy_value_at_path scope sr) as_array) of
             (Some ip, Some items) \<Rightarrow>
               concat (map (\<lambda>item.
                   case Option.bind (policy_value_at_path item ip) as_str of
                     None \<Rightarrow> []
                   | Some i \<Rightarrow> field_entries plan (dp @ sr @ ''.*.'') rest item
                                (kp @ sr @ ''['' @ i @ ''].''))
                 items)
           | _ \<Rightarrow> []))"
  by pat_completeness auto
termination
  by (relation "measure (\<lambda>(_, _, rel, _). length rel)") (auto dest: split_once_Some)

declare field_entries.simps [simp del]

abbreviation insert_all :: "(string, json) bmap \<Rightarrow> (string \<times> json) list \<Rightarrow> (string, json) bmap" where
  "insert_all \<equiv> foldl (\<lambda>m (k, v). bmap_insert k v m)"

lemma collect_field_values_eq:
  "collect_field_values plan dp rel scope kp vals = insert_all vals (field_entries plan dp rel scope kp)"
proof (induction plan dp rel scope kp vals rule: collect_field_values.induct)
  case (1 plan dp rel scope kp vals)
  show ?case
  proof (cases "split_once ''.*.'' rel")
    case None
    then show ?thesis
      by (simp add: collect_field_values.simps[of plan dp rel] field_entries.simps[of plan dp rel])
  next
    case (Some p)
    obtain sr rest where p: "p = (sr, rest)" by fastforce
    show ?thesis
    proof (cases "keyed_identity_path plan (dp @ sr)")
      case None
      with Some p show ?thesis
        by (simp add: collect_field_values.simps[of plan dp rel] field_entries.simps[of plan dp rel])
    next
      case (Some ip)
      note ip = this
      show ?thesis
      proof (cases "Option.bind (policy_value_at_path scope sr) as_array")
        case None
        with ip \<open>split_once ''.*.'' rel = Some p\<close> p show ?thesis
          by (simp add: collect_field_values.simps[of plan dp rel] field_entries.simps[of plan dp rel])
      next
        case (Some items)
        let ?step = "\<lambda>vals item.
            case Option.bind (policy_value_at_path item ip) as_str of None \<Rightarrow> vals
            | Some i \<Rightarrow> collect_field_values plan (dp @ sr @ ''.*.'') rest item
                (kp @ sr @ ''['' @ i @ ''].'') vals"
        let ?ents = "\<lambda>item.
            case Option.bind (policy_value_at_path item ip) as_str of None \<Rightarrow> []
            | Some i \<Rightarrow> field_entries plan (dp @ sr @ ''.*.'') rest item
                (kp @ sr @ ''['' @ i @ ''].'')"
        have step: "?step w item = insert_all w (?ents item)" if "item \<in> set items" for w item
          using "1.IH"[OF \<open>split_once ''.*.'' rel = Some p\<close> p[symmetric] refl ip Some that]
          by (simp split: option.split)
        have "set js \<subseteq> set items \<Longrightarrow>
            foldl ?step w js = insert_all w (concat (map ?ents js))" for js w
          by (induction js arbitrary: w) (simp_all add: step del: Option.bind_eq_Some_conv)
        from this[of items vals] show ?thesis
          using ip Some \<open>split_once ''.*.'' rel = Some p\<close> p
          by (simp add: collect_field_values.simps[of plan dp rel] field_entries.simps[of plan dp rel])
      qed
    qed
  qed
qed

lemma map_of_insert_all: "map_of (insert_all m xs) = map_of m ++ map_of (rev xs)"
  by (induction xs arbitrary: m) (auto simp: map_add_def fun_eq_iff split: option.splits)

lemma map_of_field_values:
  "map_of (field_values plan f doc) = map_of (rev (field_entries plan '''' (field_path f) doc ''''))"
  by (simp add: field_values_def collect_field_values_eq map_of_insert_all)

text \<open>A field outside keyed sequences has one address, its path.\<close>

lemma field_values_plain:
  assumes "\<not> sublist ''.*.'' (field_path f)"
  shows "value_or_null (field_values plan f doc) key =
     (if key = field_path f
      then (case policy_value_at_path doc (field_path f) of None \<Rightarrow> JNull | Some v \<Rightarrow> v) else JNull)"
proof -
  have "split_once ''.*.'' (field_path f) = None"
    using assms split_once_Some[of "''.*.''" "field_path f"] by (cases "split_once ''.*.'' (field_path f)")
      (auto simp: sublist_def)
  then show ?thesis
    by (simp add: value_or_null_def map_of_field_values field_entries.simps)
qed

text \<open>Inside a keyed sequence, an address names the item by its identity.\<close>

lemma field_entries_item_keys:
  assumes "split_once ''.*.'' rel = Some (sr, rest)"
    and "(k, v) \<in> set (field_entries plan dp rel scope kp)"
  shows "\<exists>ip items item i t. keyed_identity_path plan (dp @ sr) = Some ip
      \<and> Option.bind (policy_value_at_path scope sr) as_array = Some items \<and> item \<in> set items
      \<and> Option.bind (policy_value_at_path item ip) as_str = Some i
      \<and> (k, v) \<in> set (field_entries plan (dp @ sr @ ''.*.'') rest item (kp @ sr @ ''['' @ i @ ''].''))"
proof -
  from assms obtain ip items where ii: "keyed_identity_path plan (dp @ sr) = Some ip"
      "Option.bind (policy_value_at_path scope sr) as_array = Some items"
    by (fastforce simp: field_entries.simps[of plan dp rel] split: option.splits)
  with assms obtain item where item: "item \<in> set items"
      "(k, v) \<in> set (case Option.bind (policy_value_at_path item ip) as_str of None \<Rightarrow> []
            | Some i \<Rightarrow> field_entries plan (dp @ sr @ ''.*.'') rest item (kp @ sr @ ''['' @ i @ ''].''))"
    by (auto simp: field_entries.simps[of plan dp rel] simp del: Option.bind_eq_Some_conv)
  then obtain i where "Option.bind (policy_value_at_path item ip) as_str = Some i"
      "(k, v) \<in> set (field_entries plan (dp @ sr @ ''.*.'') rest item (kp @ sr @ ''['' @ i @ ''].''))"
    by (cases "Option.bind (policy_value_at_path item ip) as_str") auto
  with ii item(1) show ?thesis by blast
qed

section \<open>What is reported\<close>

text \<open>An address no document holds reads as null in all three, which no policy refuses.\<close>

lemma values_conflict_null [simp]: "\<not> values_conflict c JNull JNull JNull"
  by (cases c) simp_all

lemma values_conflict_same [simp]: "\<not> values_conflict c b b u"
  by (cases c) simp_all

lemma value_or_null_outside: "key \<notin> fst ` set vals \<Longrightarrow> value_or_null vals key = JNull"
  by (metis map_of_eq_None_iff option.simps(4) value_or_null_def)

lemma conflicting_keys_iff:
  "key \<in> set (conflicting_keys plan base client current f c) \<longleftrightarrow>
     judged_field f c
     \<and> values_conflict c (value_or_null (field_values plan f base) key)
         (value_or_null (field_values plan f client) key)
         (value_or_null (field_values plan f current) key)"
  (is "_ = (_ \<and> ?conflict)")
proof -
  have "key \<in> fst ` set (field_values plan f base) \<or> key \<in> fst ` set (field_values plan f client)
      \<or> key \<in> fst ` set (field_values plan f current)" if ?conflict
  proof (rule ccontr)
    assume "\<not> ?thesis"
    then have "value_or_null (field_values plan f d) key = JNull" if "d \<in> {base, client, current}" for d
      using that by (auto intro!: value_or_null_outside)
    with that show False by simp
  qed
  then show ?thesis by (auto simp: conflicting_keys_def Let_def)
qed

lemma judged_field_paths_iff:
  "key \<in> set (judged_field_paths plan base client current policy) \<longleftrightarrow>
     (\<exists>f c. f \<in> set (plan_fields plan) \<and> policy f = Some c \<and> judged_field f c
        \<and> values_conflict c (value_or_null (field_values plan f base) key)
            (value_or_null (field_values plan f client) key)
            (value_or_null (field_values plan f current) key))"
proof -
  have "key \<in> set (judged_field_paths plan base client current policy) \<longleftrightarrow>
      (\<exists>f c. f \<in> set (plan_fields plan) \<and> policy f = Some c
         \<and> key \<in> set (conflicting_keys plan base client current f c))"
    by (force simp: judged_field_paths_def split: option.splits)
  then show ?thesis by (simp add: conflicting_keys_iff)
qed

lemma judged_field_paths_order:
  "sorted (judged_field_paths plan b c u p)" "distinct (judged_field_paths plan b c u p)"
  by (simp_all add: judged_field_paths_def)

end
