(* ===== verification/Replica.thy ===== *)
theory Replica
  imports Writing Policy
begin

text \<open>
  \<open>crates/clerkenwell-doc/src/lib.rs\<close>: a replica of one document executing one plan. A method that
  takes \<open>&mut self\<close> is an action on the replica, which a failure leaves changed the way the code
  leaves it: \<open>replace_document\<close> takes the baseline before it can fail. A method that takes \<open>&self\<close>
  is a function of the replica.
\<close>

record 'd replica =
  rep_plan :: entity_spec
  rep_doc :: 'd
  rep_baseline :: "json option"

type_synonym ('d, 'a) replica_act = "('d replica, replica_error, 'a) act"

definition replica_revision :: string where
  "replica_revision = ''replica:materialized''"

definition policy_revision :: string where
  "policy_revision = ''replica:policy''"

section \<open>Encodings\<close>

definition decode_base64 :: "('d, 'f) loro \<Rightarrow> string \<Rightarrow> bytes replica_result" where
  "decode_base64 L s = map_err InvalidBase64 (b64_decode L s)"

definition decode_frontier :: "('d, 'f) loro \<Rightarrow> string \<Rightarrow> 'f replica_result" where
  "decode_frontier L s =
     res_bind (decode_base64 L s) (\<lambda>bs. map_err UpdateError (loro_frontiers_decode L bs))"

definition frontier_version :: "('d, 'f) loro \<Rightarrow> 'd \<Rightarrow> string \<Rightarrow> version_vector replica_result" where
  "frontier_version L d s =
     res_bind (decode_frontier L s) (\<lambda>frontier.
     ok_or UnknownFrontier (loro_frontiers_to_vv L d frontier))"

definition import_update :: "('d, 'f) loro \<Rightarrow> 'd \<Rightarrow> string \<Rightarrow> ('d \<times> bool) replica_result" where
  "import_update L d update_base64 =
     res_bind (decode_base64 L update_base64) (\<lambda>bs. map_err UpdateError (loro_import L d bs))"

definition export_since :: "('d, 'f) loro \<Rightarrow> 'd \<Rightarrow> version_vector \<Rightarrow> string replica_result" where
  "export_since L d version =
     res_bind (map_err EncodeError (loro_export_from L d version)) (\<lambda>bs. Inr (b64_encode L bs))"

definition require_supported_schema_version :: "entity_spec \<Rightarrow> u32 \<Rightarrow> unit replica_result" where
  "require_supported_schema_version plan schema_version =
     (if schema_version \<noteq> plan_schema_version plan
      then Inl (UnsupportedSchemaVersion (plan_name plan) schema_version (plan_schema_version plan))
      else Inr ())"

definition update_end_version :: "('d, 'f) loro \<Rightarrow> string \<Rightarrow> version_vector replica_result" where
  "update_end_version L update_base64 =
     res_bind (decode_base64 L update_base64) (\<lambda>bs. map_err UpdateError (loro_decode_meta L bs))"

section \<open>Construction and edits\<close>

definition from_document ::
  "('d, 'f) loro \<Rightarrow> entity_spec \<Rightarrow> json \<Rightarrow> u64 \<Rightarrow> 'd replica replica_result"
where
  "from_document L plan document peer =
     (let document = without_null_optionals plan document in
      res_bind (validate_document plan document) (\<lambda>_.
      res_bind (map_err UpdateError (loro_set_peer L (loro_new L) peer)) (\<lambda>d.
      case write_document_changes L plan JNull document d of
        (Inl e, _) \<Rightarrow> Inl e
      | (Inr _, d') \<Rightarrow> Inr \<lparr>rep_plan = plan, rep_doc = d', rep_baseline = Some document\<rparr>)))"

definition from_versioned_update_base64 ::
  "('d, 'f) loro \<Rightarrow> entity_spec \<Rightarrow> u32 \<Rightarrow> string \<Rightarrow> 'd replica replica_result"
where
  "from_versioned_update_base64 L plan schema_version update_base64 =
     res_bind (require_supported_schema_version plan schema_version) (\<lambda>_.
     res_bind (import_update L (loro_new L) update_base64) (\<lambda>(d, pending).
     if pending then Inl MissingDependency
     else res_bind (materialize_document L plan d replica_revision) (\<lambda>document.
       Inr \<lparr>rep_plan = plan, rep_doc = d, rep_baseline = Some document\<rparr>)))"

definition on_doc :: "('d, 'a) writer \<Rightarrow> ('d, 'a) replica_act" where
  "on_doc w r = (case w (rep_doc r) of (res, d) \<Rightarrow> (res, r\<lparr>rep_doc := d\<rparr>))"

definition replace_document :: "('d, 'f) loro \<Rightarrow> json \<Rightarrow> ('d, unit) replica_act" where
  "replace_document L document r =
     (let document = without_null_optionals (rep_plan r) document in
      act_bind (act_gets rep_baseline) (\<lambda>taken.
      act_bind (act_modify (\<lambda>r. r\<lparr>rep_baseline := None\<rparr>)) (\<lambda>_.
      act_bind (case taken of
          Some baseline \<Rightarrow> act_return baseline
        | None \<Rightarrow> act_lift (materialize_document L (rep_plan r) (rep_doc r) replica_revision)) (\<lambda>baseline.
      act_bind (on_doc (write_document_changes L (rep_plan r) baseline document)) (\<lambda>_.
      act_modify (\<lambda>r. r\<lparr>rep_baseline := Some document\<rparr>))))) r)"

text \<open>
  A root: a change that depends on nothing. It lands in an empty document even when the rest of
  the update waits on operations held elsewhere.
\<close>

definition require_related_history :: "('d, 'f) loro \<Rightarrow> 'd replica \<Rightarrow> string \<Rightarrow> unit replica_result" where
  "require_related_history L r update_base64 =
     res_bind (import_update L (loro_new L) update_base64) (\<lambda>(scratch, _).
     if list_ex (\<lambda>(peer, _).
          (case loro_change_deps L scratch peer 0 of
             Some deps \<Rightarrow> loro_frontiers_is_empty L deps | None \<Rightarrow> False)
          \<and> \<not> loro_vv_includes L (loro_oplog_vv L (rep_doc r)) peer 0)
        (loro_oplog_vv L scratch)
     then Inl UnrelatedHistory else Inr ())"

definition adopt_versioned_update_base64 ::
  "('d, 'f) loro \<Rightarrow> u32 \<Rightarrow> string \<Rightarrow> ('d, unit) replica_act"
where
  "adopt_versioned_update_base64 L schema_version update_base64 r =
     (case res_bind (require_supported_schema_version (rep_plan r) schema_version) (\<lambda>_.
           res_bind (require_related_history L r update_base64) (\<lambda>_.
           import_update L (rep_doc r) update_base64)) of
        Inl e \<Rightarrow> (Inl e, r)
      | Inr (d, pending) \<Rightarrow>
          if pending then (Inl MissingDependency, r\<lparr>rep_doc := d\<rparr>)
          else (Inr (), r\<lparr>rep_doc := d, rep_baseline := None\<rparr>))"

definition set_peer :: "('d, 'f) loro \<Rightarrow> u64 \<Rightarrow> ('d, unit) replica_act" where
  "set_peer L peer = on_doc (loro_act (\<lambda>d. loro_set_peer L d peer))"

section \<open>Versions\<close>

definition dec_int :: "int \<Rightarrow> string" where
  "dec_int i = (if i < 0 then ''-'' @ dec (nat (- i)) else dec (nat i))"

definition version_of_update :: "('d, 'f) loro \<Rightarrow> string \<Rightarrow> (u64 \<times> u64) list replica_result" where
  "version_of_update L update_base64 =
     res_bind (update_end_version L update_base64) (\<lambda>vv.
     res_bind (res_collect (\<lambda>(peer, counter_end).
         if counter_end < 0
         then Inl (UpdateError (''peer '' @ dec (unat peer) @ '' ends at counter '' @ dec_int counter_end))
         else Inr (peer, word_of_int counter_end)) vv) (\<lambda>entries.
     Inr (bmap_of entries)))"

definition peers_in_update :: "('d, 'f) loro \<Rightarrow> string \<Rightarrow> u64 list replica_result" where
  "peers_in_update L update_base64 =
     res_bind (version_of_update L update_base64) (\<lambda>version. Inr (map fst version))"

definition held_counter :: "version_vector \<Rightarrow> u64 \<Rightarrow> int" where
  "held_counter held peer = (case map_of held peer of Some c \<Rightarrow> c | None \<Rightarrow> 0)"

definition peers_with_new_operations ::
  "('d, 'f) loro \<Rightarrow> 'd replica \<Rightarrow> string \<Rightarrow> u64 list replica_result"
where
  "peers_with_new_operations L r update_base64 =
     res_bind (update_end_version L update_base64) (\<lambda>vv.
     Inr (sort (map fst (filter (\<lambda>(peer, counter_end).
       counter_end > held_counter (loro_oplog_vv L (rep_doc r)) peer) vv))))"

definition export_update_base64 :: "('d, 'f) loro \<Rightarrow> 'd replica \<Rightarrow> string replica_result" where
  "export_update_base64 L r =
     res_bind (map_err EncodeError (loro_export_all L (rep_doc r))) (\<lambda>bs. Inr (b64_encode L bs))"

definition export_incremental_update_base64 ::
  "('d, 'f) loro \<Rightarrow> 'd replica \<Rightarrow> string \<Rightarrow> string replica_result"
where
  "export_incremental_update_base64 L r frontier_base64 =
     res_bind (frontier_version L (rep_doc r) frontier_base64) (export_since L (rep_doc r))"

definition export_update_since_version_base64 ::
  "('d, 'f) loro \<Rightarrow> 'd replica \<Rightarrow> (u64 \<times> u64) list \<Rightarrow> string replica_result"
where
  "export_update_since_version_base64 L r version =
     res_bind (res_collect (\<lambda>(peer, counter).
         if unat counter < 2 ^ 31 then Inr (peer, int (unat counter))
         else Inl (InvalidVersion peer counter)) version) (export_since L (rep_doc r))"

definition missing_update_base64 ::
  "('d, 'f) loro \<Rightarrow> 'd replica \<Rightarrow> string option \<Rightarrow> string \<Rightarrow> string replica_result"
where
  "missing_update_base64 L r base_frontier_base64 update_base64 =
     res_bind (case base_frontier_base64 of
         Some encoded \<Rightarrow> frontier_version L (rep_doc r) encoded | None \<Rightarrow> Inr []) (\<lambda>known.
     res_bind (update_end_version L update_base64) (\<lambda>sent.
     export_since L (rep_doc r) (loro_vv_merge L known sent)))"

definition accepted_frontier_base64 :: "('d, 'f) loro \<Rightarrow> 'd replica \<Rightarrow> string" where
  "accepted_frontier_base64 L r =
     b64_encode L (loro_frontiers_encode L (loro_oplog_frontiers L (rep_doc r)))"

definition require_frontier_base64 :: "('d, 'f) loro \<Rightarrow> 'd replica \<Rightarrow> string \<Rightarrow> unit replica_result" where
  "require_frontier_base64 L r frontier_base64 =
     res_bind (frontier_version L (rep_doc r) frontier_base64) (\<lambda>_. Inr ())"

definition frontier_includes ::
  "('d, 'f) loro \<Rightarrow> 'd replica \<Rightarrow> string \<Rightarrow> string \<Rightarrow> bool replica_result"
where
  "frontier_includes L r capture_base64 required_base64 =
     res_bind (frontier_version L (rep_doc r) capture_base64) (\<lambda>capture.
     res_bind (frontier_version L (rep_doc r) required_base64) (\<lambda>required.
     Inr (loro_vv_partial_cmp L capture required \<in> {Some Equal, Some Greater})))"

section \<open>Text at a captured frontier\<close>

definition fork_at_frontier ::
  "('d, 'f) loro \<Rightarrow> 'd replica \<Rightarrow> string \<Rightarrow> u64 option \<Rightarrow> 'd replica_result"
where
  "fork_at_frontier L r frontier_base64 peer =
     res_bind (decode_frontier L frontier_base64) (\<lambda>frontier.
     res_bind (map_err (\<lambda>_. UnknownFrontier) (loro_fork_at L (rep_doc r) frontier)) (\<lambda>branch.
     case peer of None \<Rightarrow> Inr branch | Some p \<Rightarrow> map_err UpdateError (loro_set_peer L branch p)))"

definition text_at_frontier ::
  "('d, 'f) loro \<Rightarrow> 'd replica \<Rightarrow> string \<Rightarrow> identity_context \<Rightarrow> string \<Rightarrow> string replica_result"
where
  "text_at_frontier L r path identities frontier_base64 =
     res_bind (fork_at_frontier L r frontier_base64 None) (\<lambda>branch.
     res_bind (declared_text L (rep_plan r) branch path identities) (\<lambda>container.
     Inr (loro_text L branch container)))"

text \<open>
  What both preparations share: the text is read on a branch at the captured frontier, the record
  must still exist at the live head, the captured text must be the expected one, and the result is
  what the edit adds to the branch.
\<close>

definition prepare_text_edit ::
  "('d, 'f) loro \<Rightarrow> 'd replica \<Rightarrow> (string \<Rightarrow> ('d, unit) writer) \<Rightarrow> string \<Rightarrow> identity_context \<Rightarrow>
   string \<Rightarrow> string \<Rightarrow> u64 \<Rightarrow> string replica_result"
where
  "prepare_text_edit L r edit path identities frontier_base64 expected peer =
     res_bind (fork_at_frontier L r frontier_base64 (Some peer)) (\<lambda>branch.
     res_bind (declared_text L (rep_plan r) branch path identities) (\<lambda>container.
     res_bind (declared_text L (rep_plan r) (rep_doc r) path identities) (\<lambda>_.
     if loro_text L branch container \<noteq> expected then Inl TextCaptureMismatch
     else (case edit container branch of
         (Inl e, _) \<Rightarrow> Inl e
       | (Inr _, edited) \<Rightarrow> export_since L (loro_commit L edited) (loro_oplog_vv L branch)))))"

definition prepare_text_replacement_at_frontier ::
  "('d, 'f) loro \<Rightarrow> 'd replica \<Rightarrow> string \<Rightarrow> identity_context \<Rightarrow> string \<Rightarrow> string \<Rightarrow> string \<Rightarrow> u64 \<Rightarrow>
   string replica_result"
where
  "prepare_text_replacement_at_frontier L r path identities frontier_base64 expected replacement peer =
     prepare_text_edit L r (\<lambda>container. replace_all_text L container replacement)
       path identities frontier_base64 expected peer"

definition prepare_text_prefix_at_frontier ::
  "('d, 'f) loro \<Rightarrow> 'd replica \<Rightarrow> string \<Rightarrow> identity_context \<Rightarrow> string \<Rightarrow> string \<Rightarrow> string \<Rightarrow> u64 \<Rightarrow>
   string replica_result"
where
  "prepare_text_prefix_at_frontier L r path identities frontier_base64 expected pre peer =
     prepare_text_edit L r
       (\<lambda>container. loro_act (\<lambda>d. loro_text_insert L d (root_handle container) 0 pre))
       path identities frontier_base64 expected peer"

section \<open>Documents and policy\<close>

definition materialized_document :: "('d, 'f) loro \<Rightarrow> 'd replica \<Rightarrow> string \<Rightarrow> json replica_result" where
  "materialized_document L r revision = materialize_document L (rep_plan r) (rep_doc r) revision"

definition materialized_documents_for_incremental_update ::
  "('d, 'f) loro \<Rightarrow> 'd replica \<Rightarrow> string \<Rightarrow> u32 \<Rightarrow> string \<Rightarrow> string \<Rightarrow> (json \<times> json) replica_result"
where
  "materialized_documents_for_incremental_update L r frontier_base64 schema_version update_base64
     revision =
     res_bind (require_supported_schema_version (rep_plan r) schema_version) (\<lambda>_.
     res_bind (decode_frontier L frontier_base64) (\<lambda>frontier.
     res_bind (map_err (\<lambda>_. UnknownFrontier) (loro_fork_at L (rep_doc r) frontier)) (\<lambda>base.
     res_bind (import_update L (loro_fork L base) update_base64) (\<lambda>(client, pending).
     if pending then Inl MissingDependency
     else res_bind (materialize_document L (rep_plan r) base revision) (\<lambda>base_document.
       res_bind (materialize_document L (rep_plan r) client revision) (\<lambda>client_document.
       Inr (base_document, client_document)))))))"

definition policy_conflicts_for_incremental_update ::
  "('d, 'f) loro \<Rightarrow> 'd replica \<Rightarrow> string \<Rightarrow> u32 \<Rightarrow> string \<Rightarrow> actor_kind \<Rightarrow> string list replica_result"
where
  "policy_conflicts_for_incremental_update L r base_frontier_base64 schema_version update_base64 kind =
     res_bind (materialized_documents_for_incremental_update L r base_frontier_base64 schema_version
       update_base64 policy_revision) (\<lambda>(base, client).
     res_bind (materialized_document L r policy_revision) (\<lambda>current.
     Inr (conflicting_field_paths (rep_plan r) base client current kind)))"

definition policy_conflicts_for_creation ::
  "('d, 'f) loro \<Rightarrow> 'd replica \<Rightarrow> actor_kind \<Rightarrow> string list replica_result"
where
  "policy_conflicts_for_creation L r kind =
     res_bind (materialized_document L r policy_revision) (\<lambda>created.
     Inr (creation_conflicting_field_paths (rep_plan r) created kind))"

record replica_debug =
  dbg_peer_id :: string
  dbg_oplog_version :: string
  dbg_state_frontiers :: string

definition debug :: "('d, 'f) loro \<Rightarrow> 'd replica \<Rightarrow> replica_debug" where
  "debug L r = \<lparr>dbg_peer_id = loro_peer_id L (rep_doc r), dbg_oplog_version = loro_debug_vv L (rep_doc r),
     dbg_state_frontiers = loro_debug_state_frontiers L (rep_doc r)\<rparr>"

end
