(* ===== verification/Versions.thy ===== *)
theory Versions
  imports Prelude
begin

text \<open>
  \<open>crates/clerkenwell-store/src/version.rs\<close>: which history a document holds, and how far into it.
  The lemmas show that \<open>covers\<close> is the inclusion of the operations two versions name, and an order
  within one incarnation.
\<close>

record collaboration_version =
  cv_incarnation :: string
  cv_peers :: "(u64, u64) bmap"

definition covers :: "collaboration_version \<Rightarrow> collaboration_version \<Rightarrow> bool" where
  "covers self other \<longleftrightarrow>
     cv_incarnation self = cv_incarnation other
     \<and> list_all (\<lambda>(peer, counter).
         case map_of (cv_peers self) peer of None \<Rightarrow> False | Some held \<Rightarrow> counter \<le> held)
         (cv_peers other)"

datatype collaboration_held = HeldFrontier string | HeldVersion collaboration_version

text \<open>The operations a version holds: those of each peer below the peer's counter.\<close>

definition version_ops :: "collaboration_version \<Rightarrow> (u64 \<times> u64) set" where
  "version_ops v = {(p, c). \<exists>end. map_of (cv_peers v) p = Some end \<and> c < end}"

lemma covers_lookup:
  assumes "bmap_ok (cv_peers b)"
  shows "covers a b \<longleftrightarrow> cv_incarnation a = cv_incarnation b
    \<and> (\<forall>p c. map_of (cv_peers b) p = Some c \<longrightarrow> (\<exists>h. map_of (cv_peers a) p = Some h \<and> c \<le> h))"
  using assms unfolding covers_def list_all_iff
  by (force simp: bmap_ok_distinct map_of_eq_Some_iff split: option.splits)

text \<open>
  (C39) A version covers another exactly when both are of one incarnation and every operation the
  other holds is held (a version names a peer only once it has an operation of it).
\<close>

theorem covers_iff_ops:
  assumes "bmap_ok (cv_peers b)" and "\<forall>c \<in> snd ` set (cv_peers b). c \<noteq> 0"
  shows "covers a b \<longleftrightarrow> cv_incarnation a = cv_incarnation b \<and> version_ops b \<subseteq> version_ops a"
proof -
  have "(\<exists>h. map_of (cv_peers a) p = Some h \<and> c \<le> h) \<longleftrightarrow>
      (\<forall>x < c. \<exists>h. map_of (cv_peers a) p = Some h \<and> x < h)" if "map_of (cv_peers b) p = Some c" for p c
  proof -
    have "c \<noteq> 0" using that assms(2) by (force dest: map_of_SomeD)
    then have pred: "c - 1 < c" and le: "c - 1 < h \<Longrightarrow> c \<le> h" for h
      by (auto simp: word_less_nat_alt word_le_nat_alt unat_minus_one unat_gt_0)
    show ?thesis using pred le by (metis (no_types, lifting) order_less_le_trans option.inject)
  qed
  then show ?thesis
    unfolding covers_lookup[OF assms(1)] version_ops_def by fastforce
qed

theorem covers_iff_ops_witness:
  "covers \<lparr>cv_incarnation = ''one'', cv_peers = [(1, 4), (2, 5), (3, 1)]\<rparr>
          \<lparr>cv_incarnation = ''one'', cv_peers = [(1, 3), (2, 5)]\<rparr>
   \<and> version_ops \<lparr>cv_incarnation = ''one'', cv_peers = [(1, 3), (2, 5)]\<rparr>
     \<subseteq> version_ops \<lparr>cv_incarnation = ''one'', cv_peers = [(1, 4), (2, 5), (3, 1)]\<rparr>"
proof -
  let ?a = "\<lparr>cv_incarnation = ''one'', cv_peers = [(1, 4), (2, 5), (3, 1)]\<rparr>"
  let ?b = "\<lparr>cv_incarnation = ''one'', cv_peers = [(1, 3), (2, 5)]\<rparr>"
  have "covers ?a ?b" by (simp add: covers_def)
  moreover have "covers ?a ?b \<longleftrightarrow> cv_incarnation ?a = cv_incarnation ?b \<and> version_ops ?b \<subseteq> version_ops ?a"
    by (rule covers_iff_ops) (simp_all add: bmap_ok_def)
  ultimately show ?thesis by blast
qed

lemma covers_order_parts:
  assumes "bmap_ok (cv_peers a)" and "bmap_ok (cv_peers b)" and "bmap_ok (cv_peers c)"
  shows "covers a a" and "covers a b \<Longrightarrow> covers b c \<Longrightarrow> covers a c"
    and "covers a b \<Longrightarrow> covers b a \<Longrightarrow> a = b"
proof -
  show "covers a a" using assms by (simp add: covers_lookup)
  show "covers a b \<Longrightarrow> covers b c \<Longrightarrow> covers a c"
    using assms by (simp add: covers_lookup) (meson order_trans)
  assume ab: "covers a b" and ba: "covers b a"
  have "map_of (cv_peers a) p = map_of (cv_peers b) p" for p
    using ab ba assms by (cases "map_of (cv_peers a) p"; cases "map_of (cv_peers b) p")
      (fastforce simp: covers_lookup)+
  then have "cv_peers a = cv_peers b" using assms by (blast intro: bmap_ext)
  with ab show "a = b" by (simp add: covers_def)
qed

text \<open>
  Within well-formed versions \<open>covers\<close> is a partial order: reflexive, transitive and
  antisymmetric, so two versions that cover each other are the same version.
\<close>

theorem covers_order:
  assumes "bmap_ok (cv_peers a)" and "bmap_ok (cv_peers b)" and "bmap_ok (cv_peers c)"
  shows "covers a a \<and> (covers a b \<longrightarrow> covers b c \<longrightarrow> covers a c) \<and> (covers a b \<longrightarrow> covers b a \<longrightarrow> a = b)"
  using covers_order_parts[OF assms] by blast

theorem covers_order_witness:
  "covers \<lparr>cv_incarnation = ''one'', cv_peers = [(1, 3)]\<rparr>
          \<lparr>cv_incarnation = ''one'', cv_peers = [(1, 3)]\<rparr>
   \<and> covers \<lparr>cv_incarnation = ''one'', cv_peers = [(1, 3)]\<rparr>
          \<lparr>cv_incarnation = ''one'', cv_peers = []\<rparr>"
proof -
  let ?a = "\<lparr>cv_incarnation = ''one'', cv_peers = [(1, 3)]\<rparr>"
  let ?b = "\<lparr>cv_incarnation = ''one'', cv_peers = [(1, 2)]\<rparr>"
  let ?c = "\<lparr>cv_incarnation = ''one'', cv_peers = []\<rparr>"
  have ok: "bmap_ok (cv_peers ?a)" "bmap_ok (cv_peers ?b)" "bmap_ok (cv_peers ?c)"
    by (simp_all add: bmap_ok_def)
  have "covers ?a ?b" "covers ?b ?c" by (simp_all add: covers_def)
  with covers_order[OF ok] show ?thesis by blast
qed

end
