(* ===== verification/StoreError.thy ===== *)
theory StoreError
  imports Json
begin

text \<open>
  \<open>crates/clerkenwell-store/src/error.rs\<close>, and the identity of a document from \<open>lib.rs\<close>.
  An error keeps what a caller can branch on: its kind and its structured data. The message, which
  is prose that no code reads, is left out.
\<close>

record document_id =
  doc_entity :: string
  doc_resource_id :: string

definition document_id_new :: "string \<Rightarrow> string \<Rightarrow> document_id" where
  "document_id_new e r = \<lparr>doc_entity = e, doc_resource_id = r\<rparr>"

datatype store_error_kind = NotFound | InvalidRequest | Conflict | Internal

record store_error =
  err_kind :: store_error_kind
  err_data :: "json option"

type_synonym 'a store_result = "store_error + 'a"

definition not_found :: store_error where
  "not_found = \<lparr>err_kind = NotFound, err_data = None\<rparr>"

definition invalid_request :: store_error where
  "invalid_request = \<lparr>err_kind = InvalidRequest, err_data = None\<rparr>"

definition conflict :: store_error where
  "conflict = \<lparr>err_kind = Conflict, err_data = None\<rparr>"

definition internal :: store_error where
  "internal = \<lparr>err_kind = Internal, err_data = None\<rparr>"

definition with_data :: "store_error \<Rightarrow> json \<Rightarrow> store_error" where
  "with_data e d = e\<lparr>err_data := Some d\<rparr>"

text \<open>The code an error's data names: \<open>data["code"].as_str()\<close>.\<close>

definition err_code :: "store_error \<Rightarrow> string option" where
  "err_code e = Option.bind (err_data e) (\<lambda>d. as_str (json_index d ''code''))"

lemma err_kind_simps [simp]:
  "err_kind not_found = NotFound" "err_kind invalid_request = InvalidRequest"
  "err_kind conflict = Conflict" "err_kind internal = Internal"
  "err_kind (with_data e d) = err_kind e" "err_data (with_data e d) = Some d"
  by (simp_all add: not_found_def invalid_request_def conflict_def internal_def with_data_def)

lemma err_data_plain [simp]:
  "err_data not_found = None" "err_data invalid_request = None"
  "err_data conflict = None" "err_data internal = None"
  by (simp_all add: not_found_def invalid_request_def conflict_def internal_def)

end
