(* ===== verification/Peers.thy ===== *)
theory Peers
  imports StoreError Events
begin

text \<open>
  \<open>crates/clerkenwell-store/src/peers.rs\<close>: the blocks of peers a principal may write under.
  HMAC-SHA256 (crate \<open>hmac\<close>) is the argument \<open>hmac\<close>, from the key and the message to the 32 bytes
  of the code. The lemmas show that a base leaves the low bits to the writer and the top bit clear,
  that \<open>block_of\<close> finds the base back, and that the message names its principal, document and
  nonce unambiguously.
\<close>

definition peer_index_bits :: nat where
  "peer_index_bits = 16"

definition derived_bits :: nat where
  "derived_bits = 63 - peer_index_bits"

definition peer_key_min_bytes :: nat where
  "peer_key_min_bytes = 32"

text \<open>\<open>PeerKey::new\<close>: a key holds at least \<open>PEER_KEY_MIN_BYTES\<close>.\<close>

definition peer_key_new :: "bytes \<Rightarrow> bytes store_result" where
  "peer_key_new secret =
     (if length secret < peer_key_min_bytes
      then Inl (with_data invalid_request (jobj
             [(''code'', JString ''invalid_peer_key''),
              (''min_bytes'', JNumber (PosInt peer_key_min_bytes))]))
      else Inr secret)"

fun kind_name :: "actor_kind \<Rightarrow> string" where
  "kind_name Human = ''human''"
| "kind_name Agent = ''agent''"
| "kind_name Service = ''service''"
| "kind_name System = ''system''"

text \<open>\<open>(field.len() as u64).to_be_bytes()\<close> and \<open>u64::from_be_bytes\<close>.\<close>

definition be_bytes :: "nat \<Rightarrow> bytes" where
  "be_bytes n = map (\<lambda>i. char_of (n div 256 ^ i)) [7, 6, 5, 4, 3, 2, 1, 0]"

definition from_be_bytes :: "bytes \<Rightarrow> u64" where
  "from_be_bytes bs = word_of_nat (foldl (\<lambda>n c. 256 * n + of_char c) 0 bs)"

definition framed :: "string list \<Rightarrow> bytes" where
  "framed fs = concat (map (\<lambda>f. be_bytes (length f) @ f) fs)"

definition mac_message :: "principal \<Rightarrow> document_id \<Rightarrow> string \<Rightarrow> bytes" where
  "mac_message p d nonce =
     framed [kind_name (principal_kind p), principal_id p, doc_entity d, doc_resource_id d, nonce]"

definition peer_base :: "(bytes \<Rightarrow> bytes \<Rightarrow> bytes) \<Rightarrow> bytes \<Rightarrow> principal \<Rightarrow> document_id \<Rightarrow> string \<Rightarrow> u64" where
  "peer_base hmac key p d nonce =
     push_bit peer_index_bits (drop_bit (64 - derived_bits)
       (from_be_bytes (take 8 (hmac key (mac_message p d nonce)))))"

record peer_block =
  pb_nonce :: string
  pb_base :: u64

definition allocate :: "(bytes \<Rightarrow> bytes \<Rightarrow> bytes) \<Rightarrow> bytes \<Rightarrow> principal \<Rightarrow> document_id \<Rightarrow> string \<Rightarrow> peer_block" where
  "allocate hmac key p d nonce = \<lparr>pb_nonce = nonce, pb_base = peer_base hmac key p d nonce\<rparr>"

definition block_of :: "u64 \<Rightarrow> u64" where
  "block_of peer = push_bit peer_index_bits (drop_bit peer_index_bits peer)"

section \<open>Blocks\<close>

lemma bit_peer_base:
  "bit (peer_base hmac key p d nonce) n \<longleftrightarrow>
     16 \<le> n \<and> n < 64
     \<and> bit (from_be_bytes (take 8 (hmac key (mac_message p d nonce)))) (n + 1)"
  by (auto simp: peer_base_def peer_index_bits_def derived_bits_def bit_push_bit_iff bit_drop_bit_eq
      bit_imp_le_length add.commute)

lemma bit_block_of: "bit (block_of peer) n \<longleftrightarrow> 16 \<le> n \<and> bit peer n"
  by (auto simp: block_of_def peer_index_bits_def bit_push_bit_iff bit_drop_bit_eq
      dest: bit_imp_le_length)

lemma allocated_peer_block_parts:
  fixes index :: u64
  assumes "index < 2 ^ peer_index_bits"
    and peer_def: "peer = or (pb_base (allocate hmac key p d nonce)) index"
  shows "block_of peer = pb_base (allocate hmac key p d nonce)"
    and "\<not> bit peer 63" and "peer \<noteq> - 1" and "and peer (mask peer_index_bits) = index"
proof -
  have low: "bit index n \<Longrightarrow> n < 16" for n
  proof -
    assume b: "bit index n"
    have "unat index < 2 ^ 16"
      using assms(1) by (simp add: peer_index_bits_def word_less_nat_alt)
    then have "unat (take_bit 16 index) = unat index"
      by (simp add: unsigned_take_bit_eq take_bit_nat_eq_self)
    then have "take_bit 16 index = index" by (rule word_unat_eq_iff[THEN iffD2])
    then show "n < 16" using b by (metis bit_take_bit_iff)
  qed
  have base: "bit (pb_base (allocate hmac key p d nonce)) n \<longleftrightarrow> 16 \<le> n \<and> n < 64
     \<and> bit (from_be_bytes (take 8 (hmac key (mac_message p d nonce)))) (n + 1)" for n
    by (simp add: allocate_def bit_peer_base)
  show "block_of peer = pb_base (allocate hmac key p d nonce)"
    by (rule bit_word_eqI) (use low in \<open>force simp: peer_def bit_block_of bit_or_iff base\<close>)
  show top: "\<not> bit peer 63"
    using low[of 63] by (auto simp: peer_def bit_or_iff base bit_imp_le_length dest: bit_imp_le_length)
  show "peer \<noteq> - 1"
  proof
    assume "peer = - 1"
    with top show False by simp
  qed
  show "and peer (mask peer_index_bits) = index"
    by (rule bit_word_eqI)
      (use low in \<open>auto simp: peer_def bit_and_iff bit_or_iff base bit_mask_iff peer_index_bits_def\<close>)
qed

text \<open>
  Every peer of an allocated block leads back to the block's base: combining the base with any
  index below \<open>2 ^ PEER_INDEX_BITS\<close> gives a peer whose \<open>block_of\<close> is the base, whose top bit is
  clear (so it is never the reserved value), and which the pair determines.
\<close>

theorem allocated_peer_block:
  fixes index :: u64
  assumes "index < 2 ^ peer_index_bits"
  shows "block_of (or (pb_base (allocate hmac key p d nonce)) index) = pb_base (allocate hmac key p d nonce)
    \<and> \<not> bit (or (pb_base (allocate hmac key p d nonce)) index) 63
    \<and> or (pb_base (allocate hmac key p d nonce)) index \<noteq> - 1
    \<and> and (or (pb_base (allocate hmac key p d nonce)) index) (mask peer_index_bits) = index"
  using allocated_peer_block_parts[OF assms refl] by blast

theorem allocated_peer_block_witness:
  "block_of 65538 = 65536
   \<and> pb_base (allocate (\<lambda>_ _. [CHR 0x00, CHR 0x00, CHR 0x00, CHR 0x00, CHR 0x00, CHR 0x02, CHR 0x00, CHR 0x00])
       ''key'' \<lparr>principal_id = ''ada'', principal_kind = Human\<rparr>
       \<lparr>doc_entity = ''Note'', doc_resource_id = ''1''\<rparr> ''n'') = 65536"
proof -
  let ?h = "\<lambda>_ _. [CHR 0x00, CHR 0x00, CHR 0x00, CHR 0x00, CHR 0x00, CHR 0x02, CHR 0x00, CHR 0x00]"
  let ?b = "allocate ?h ''key'' \<lparr>principal_id = ''ada'', principal_kind = Human\<rparr>
       \<lparr>doc_entity = ''Note'', doc_resource_id = ''1''\<rparr> ''n''"
  have b: "pb_base ?b = 65536"
    by (simp add: allocate_def peer_base_def peer_index_bits_def derived_bits_def from_be_bytes_def
        drop_bit_word_numeral push_bit_eq_mult drop_bit_eq_div)
  have "block_of (or (pb_base ?b) 2) = pb_base ?b"
    using allocated_peer_block[of 2 ?h "''key''"] by (simp add: peer_index_bits_def)
  then have "block_of 65538 = pb_base ?b" by (simp add: b)
  with b show ?thesis by simp
qed

section \<open>The message\<close>

lemma length_be_bytes [simp]: "length (be_bytes n) = 8"
  by (simp add: be_bytes_def)

lemma be_bytes_inj:
  assumes "be_bytes m = be_bytes n" and "m < 2 ^ 64" and "n < 2 ^ 64"
  shows "m = n"
proof -
  have digit: "m div 256 ^ i mod 256 = n div 256 ^ i mod 256" if "i < 8" for i
  proof -
    have "char_of (m div 256 ^ i) = char_of (n div 256 ^ i)"
    proof -
      from that have "i \<in> set [7, 6, 5, 4, 3, 2, 1, 0]" by auto
      then show ?thesis using assms(1) unfolding be_bytes_def map_eq_conv by blast
    qed
    then have "(of_char (char_of (m div 256 ^ i)) :: nat) = of_char (char_of (n div 256 ^ i))" by simp
    then show ?thesis by simp
  qed
  have "x = (\<Sum>i<8. x div 256 ^ i mod 256 * 256 ^ i)" if "x < 2 ^ 64" for x :: nat
  proof -
    have "x mod 256 ^ k = (\<Sum>i<k. x div 256 ^ i mod 256 * 256 ^ i)" for k
    proof (induction k)
      case (Suc k)
      have "x mod 256 ^ Suc k = 256 ^ k * (x div 256 ^ k mod 256) + x mod 256 ^ k"
        by (subst mod_mult2_eq[symmetric]) (simp add: mult.commute)
      with Suc.IH show ?case by (simp only: sum.lessThan_Suc mult.commute add.commute)
    qed simp
    then have "x mod 256 ^ 8 = (\<Sum>i<8. x div 256 ^ i mod 256 * 256 ^ i)" .
    moreover have "x mod 256 ^ 8 = x" using that by simp
    ultimately show ?thesis by (rule subst[rotated])
  qed
  note expand = this
  have "m = (\<Sum>i<8. m div 256 ^ i mod 256 * 256 ^ i)" by (rule expand[OF assms(2)])
  also have "\<dots> = (\<Sum>i<8. n div 256 ^ i mod 256 * 256 ^ i)" by (rule sum.cong) (simp_all add: digit)
  also have "\<dots> = n" by (rule expand[OF assms(3), symmetric])
  finally show ?thesis .
qed

lemma framed_inj:
  assumes "length fs = length gs" and "framed fs = framed gs"
    and "\<forall>f \<in> set fs \<union> set gs. length f < 2 ^ 64"
  shows "fs = gs"
  using assms
proof (induction fs gs rule: list_induct2)
  case (Cons a fs b gs)
  from Cons.prems(1) have "be_bytes (length a) = be_bytes (length b)"
      "a @ framed fs = b @ framed gs"
    by (simp_all add: framed_def)
  moreover from this Cons.prems(2) have "length a = length b"
    by (simp add: be_bytes_inj)
  ultimately show ?case using Cons.IH Cons.prems(2) by simp
qed simp

lemma kind_name_inj: "kind_name a = kind_name b \<Longrightarrow> a = b"
  by (cases a; cases b) simp_all

text \<open>
  The authenticated message is unambiguous: two allocations whose messages are equal name the
  same principal (kind and id), the same document and the same nonce. No field can run into the
  next, whatever bytes it holds.
\<close>

theorem mac_message_inj:
  assumes "mac_message p d n = mac_message q e m"
    and "\<forall>s \<in> {principal_id p, principal_id q, doc_entity d, doc_entity e, doc_resource_id d,
                doc_resource_id e, n, m}. length s < 2 ^ 64"
  shows "p = q \<and> d = e \<and> n = m"
proof -
  have kind: "length (kind_name k) < 2 ^ 64" for k by (cases k) simp_all
  have "[kind_name (principal_kind p), principal_id p, doc_entity d, doc_resource_id d, n]
      = [kind_name (principal_kind q), principal_id q, doc_entity e, doc_resource_id e, m]"
    by (rule framed_inj) (use assms kind in \<open>auto simp: mac_message_def\<close>)
  then show ?thesis by (auto dest: kind_name_inj)
qed

theorem mac_message_inj_witness:
  "mac_message (principal_new ''a'' Human) (document_id_new ''bc'' ''d'') ''n''
     = mac_message \<lparr>principal_id = ''a'', principal_kind = Human\<rparr> \<lparr>doc_entity = ''bc'', doc_resource_id = ''d''\<rparr> ''n''
   \<and> principal_new ''a'' Human = \<lparr>principal_id = ''a'', principal_kind = Human\<rparr>"
proof -
  have eq: "mac_message (principal_new ''a'' Human) (document_id_new ''bc'' ''d'') ''n''
     = mac_message \<lparr>principal_id = ''a'', principal_kind = Human\<rparr> \<lparr>doc_entity = ''bc'', doc_resource_id = ''d''\<rparr> ''n''"
    by (simp add: mac_message_def principal_new_def document_id_new_def)
  with mac_message_inj[OF eq] show ?thesis by (simp add: principal_new_def document_id_new_def)
qed

end
