(* ===== verification/Envelope.thy ===== *)
theory Envelope
  imports Replica Versions Peers
begin

text \<open>
  The stored envelope: \<open>crates/clerkenwell-store/src/envelope.rs\<close> and the functions of
  \<open>crates/clerkenwell-store/src/lib.rs\<close> that decode, check and build one. What the store calls
  outside the repository (SHA-256, HMAC, the serde encodings of an envelope and of an inspection
  catalogue, random identifiers and the clock) is the record \<open>ext\<close>; the \<open>n\<close>-th identifier or time
  a service draws is the value of its stream at \<open>n\<close>.

  The theorems show that a validated envelope has a strictly increasing window of retained
  operations that ends at the checkpoint, that committing over a valid envelope gives a valid one
  that extends it, and that the policy of keeping no operation at all breaks that.
\<close>

section \<open>Types\<close>

record operation =
  op_operation_id :: string
  op_sequence :: u64
  op_schema_version :: u32
  op_actor :: principal
  op_intent :: "string option"
  op_update_base64 :: string
  op_update_sha256 :: string
  op_update_bytes :: nat

record envelope =
  env_envelope_version :: u32
  env_entity :: string
  env_resource_id :: string
  env_incarnation :: string
  env_schema_version :: u32
  env_generation :: u64
  env_checkpoint_sequence :: u64
  env_compacted_through_sequence :: u64
  env_checkpoint_update_base64 :: string
  env_checkpoint_sha256 :: string
  env_checkpoint_bytes :: nat
  env_retained_operations :: "operation list"
  env_peers :: "(u64, principal) bmap"

record inspection =
  insp_entity :: string
  insp_resource_id :: string
  insp_schema_version :: u32
  insp_generation :: u64
  insp_checkpoint_sequence :: u64
  insp_compacted_through_sequence :: u64
  insp_retained_operation_count :: nat
  insp_checkpoint_bytes :: nat
  insp_retained_operation_bytes :: nat
  insp_migration_required :: bool
  insp_valid :: bool
  insp_failure_code :: "string option"

record ('d, 'f) ext =
  ext_loro :: "('d, 'f) loro"
  ext_sha256 :: "bytes \<Rightarrow> bytes"
  ext_hmac :: "bytes \<Rightarrow> bytes \<Rightarrow> bytes"
  ext_declared_version :: "bytes \<Rightarrow> string + u32"
  ext_envelope_decode :: "bytes \<Rightarrow> string + envelope"
  ext_envelope_encode :: "envelope \<Rightarrow> string + bytes"
  ext_catalogue_encode :: "inspection list \<Rightarrow> string + bytes"
  ext_uuid :: "nat \<Rightarrow> string"
  ext_now_ms :: "nat \<Rightarrow> nat option"
  ext_now_rfc3339 :: "nat \<Rightarrow> string"

text \<open>
  What the store relies on of serde: an encoded envelope decodes to itself, and the version the
  bytes declare is the one the decoded envelope has.
\<close>

definition serde_law :: "('d, 'f) ext \<Rightarrow> bool" where
  "serde_law X \<longleftrightarrow>
     (\<forall>e bs. ext_envelope_encode X e = Inr bs \<longrightarrow>
        ext_declared_version X bs = Inr (env_envelope_version e) \<and> ext_envelope_decode X bs = Inr e)
   \<and> (\<forall>bs v e. ext_declared_version X bs = Inr v \<longrightarrow> ext_envelope_decode X bs = Inr e \<longrightarrow>
        env_envelope_version e = v)"

definition envelope_version :: u32 where
  "envelope_version = 5"

record commit_policy =
  cp_retained_operations :: nat
  cp_attempts :: nat

record commit_request =
  cm_document :: document_id
  cm_incarnation :: "string option"
  cm_schema_version :: u32
  cm_operation_id :: string
  cm_actor :: principal
  cm_intent :: "string option"
  cm_peers :: "u64 list"
  cm_imported_update :: bytes
  cm_has_new_operations :: bool
  cm_accepted_update :: bytes
  cm_frontier_before :: "string option"
  cm_frontier_after :: "string option"

section \<open>Digests and errors\<close>

definition sha256_hex :: "('d, 'f) ext \<Rightarrow> bytes \<Rightarrow> string" where
  "sha256_hex X bs = concat (map hex_byte (ext_sha256 X bs))"

definition checkpoint_etag :: "string \<Rightarrow> string" where
  "checkpoint_etag checkpoint_sha256 = ''loro:'' @ checkpoint_sha256"

definition collaboration_etag :: "('d, 'f) ext \<Rightarrow> bytes \<Rightarrow> string" where
  "collaboration_etag X accepted_update = checkpoint_etag (sha256_hex X accepted_update)"

definition envelope_etag :: "envelope \<Rightarrow> string" where
  "envelope_etag e = checkpoint_etag (env_checkpoint_sha256 e)"

definition corrupt_state :: "document_id \<Rightarrow> store_error" where
  "corrupt_state document = with_data internal (jobj
     [(''code'', JString ''collaboration_state_corrupt''),
      (''entity'', JString (doc_entity document)),
      (''resource_id'', JString (doc_resource_id document)),
      (''recovery_required'', JBool True)])"

text \<open>An error's data that names the document and a code, and the members the code adds.\<close>

definition document_data :: "string \<Rightarrow> document_id \<Rightarrow> (string \<times> json) list \<Rightarrow> json" where
  "document_data code document extra = jobj
     ([(''code'', JString code), (''entity'', JString (doc_entity document)),
       (''resource_id'', JString (doc_resource_id document))] @ extra)"

definition missing_state :: "document_id \<Rightarrow> store_error" where
  "missing_state document = not_found"

definition not_stored :: "document_id \<Rightarrow> store_error" where
  "not_stored document = with_data not_found
     (document_data ''collaboration_document_not_found'' document [])"

definition operation_id_collision :: "document_id \<Rightarrow> string \<Rightarrow> store_error" where
  "operation_id_collision document operation_id = with_data invalid_request
     (document_data ''collaboration_operation_id_collision'' document
       [(''operation_id'', JString operation_id)])"

definition resync_required :: "document_id \<Rightarrow> store_error" where
  "resync_required document = with_data conflict
     (document_data ''conflict'' document
       [(''conflict_kind'', JString ''collaboration_resync_required''),
        (''draft_retained'', JBool True)])"

fun replica_store_error :: "document_id \<Rightarrow> replica_error \<Rightarrow> store_error" where
  "replica_store_error document UnrelatedHistory = resync_required document"
| "replica_store_error document UnknownFrontier = resync_required document"
| "replica_store_error document MissingDependency = with_data conflict
     (document_data ''collaboration_dependency_blocked'' document [(''draft_retained'', JBool True)])"
| "replica_store_error document TextCaptureMismatch = with_data invalid_request
     (document_data ''collaboration_text_mismatch'' document [])"
| "replica_store_error document (InvalidVersion _ _) = with_data invalid_request
     (document_data ''invalid_collaboration_version'' document [])"
| "replica_store_error document _ = with_data invalid_request
     (document_data ''invalid_collaboration_update'' document [])"

section \<open>Operations and checkpoints\<close>

definition operation_from_update ::
  "('d, 'f) ext \<Rightarrow> string \<Rightarrow> u64 \<Rightarrow> u32 \<Rightarrow> principal \<Rightarrow> string option \<Rightarrow> bytes \<Rightarrow> operation"
where
  "operation_from_update X operation_id sequence schema_version actor intent update =
     \<lparr>op_operation_id = operation_id, op_sequence = sequence, op_schema_version = schema_version,
      op_actor = actor, op_intent = intent, op_update_base64 = b64_encode (ext_loro X) update,
      op_update_sha256 = sha256_hex X update, op_update_bytes = length update\<rparr>"

text \<open>The base64 text, its length and its digest: what both a checkpoint and an operation carry.\<close>

definition decode_checked ::
  "('d, 'f) ext \<Rightarrow> document_id \<Rightarrow> string \<Rightarrow> nat \<Rightarrow> string \<Rightarrow> bytes store_result"
where
  "decode_checked X document base64 len sha256 =
     res_bind (map_err (\<lambda>_. corrupt_state document) (b64_decode (ext_loro X) base64)) (\<lambda>update.
     if length update \<noteq> len \<or> sha256_hex X update \<noteq> sha256 then Inl (corrupt_state document)
     else Inr update)"

definition operation_decode :: "('d, 'f) ext \<Rightarrow> document_id \<Rightarrow> operation \<Rightarrow> bytes store_result" where
  "operation_decode X document op =
     decode_checked X document (op_update_base64 op) (op_update_bytes op) (op_update_sha256 op)"

definition checkpoint_update :: "('d, 'f) ext \<Rightarrow> document_id \<Rightarrow> envelope \<Rightarrow> bytes store_result" where
  "checkpoint_update X document e =
     decode_checked X document (env_checkpoint_update_base64 e) (env_checkpoint_bytes e)
       (env_checkpoint_sha256 e)"

section \<open>Decoding and validation\<close>

datatype envelope_fault = InvalidJson string | UnsupportedFormat u32

fun inspection_code :: "envelope_fault \<Rightarrow> string" where
  "inspection_code (InvalidJson _) = ''invalid_envelope_json''"
| "inspection_code (UnsupportedFormat _) = ''collaboration_state_corrupt''"

definition decode_envelope :: "('d, 'f) ext \<Rightarrow> bytes \<Rightarrow> envelope_fault + envelope" where
  "decode_envelope X bs =
     res_bind (map_err InvalidJson (ext_declared_version X bs)) (\<lambda>declared.
     if declared \<noteq> envelope_version then Inl (UnsupportedFormat declared)
     else map_err InvalidJson (ext_envelope_decode X bs))"

definition parse_envelope :: "('d, 'f) ext \<Rightarrow> document_id option \<Rightarrow> bytes \<Rightarrow> envelope store_result" where
  "parse_envelope X document bs =
     map_err (\<lambda>_. case document of Some d \<Rightarrow> corrupt_state d | None \<Rightarrow> internal) (decode_envelope X bs)"

text \<open>The window: sequences strictly increase from the compacted one, each operation whole.\<close>

fun validate_window ::
  "('d, 'f) ext \<Rightarrow> document_id \<Rightarrow> u32 \<Rightarrow> u64 \<Rightarrow> operation list \<Rightarrow> u64 store_result"
where
  "validate_window X document schema_version previous [] = Inr previous"
| "validate_window X document schema_version previous (op # ops) =
     (if op_sequence op \<le> previous then Inl (corrupt_state document)
      else if op_schema_version op \<noteq> schema_version then Inl (corrupt_state document)
      else res_bind (operation_decode X document op) (\<lambda>_.
        validate_window X document schema_version (op_sequence op) ops))"

definition validate_envelope ::
  "('d, 'f) ext \<Rightarrow> document_id \<Rightarrow> envelope \<Rightarrow> (u64, u64) bmap store_result"
where
  "validate_envelope X document e =
     (let corrupt = Inl (corrupt_state document) in
      if env_entity e \<noteq> doc_entity document \<or> env_resource_id e \<noteq> doc_resource_id document then corrupt
      else if env_schema_version e = 0 then corrupt
      else if blank (env_incarnation e) then corrupt
      else
        res_bind (checkpoint_update X document e) (\<lambda>_.
        res_bind (map_err (\<lambda>_. corrupt_state document)
          (version_of_update (ext_loro X) (env_checkpoint_update_base64 e))) (\<lambda>accepted.
        if filter (\<lambda>peer. map_of (env_peers e) peer = None) (map fst accepted) \<noteq> [] then corrupt
        else
          res_bind (validate_window X document (env_schema_version e)
            (env_compacted_through_sequence e) (env_retained_operations e)) (\<lambda>previous_sequence.
          if previous_sequence \<noteq> env_checkpoint_sequence e then corrupt else Inr accepted))))"

section \<open>The next envelope\<close>

text \<open>
  \<open>next_envelope\<close>: \<open>minted\<close> is the incarnation a fresh identifier gives, used when neither the
  commit nor the current envelope names one.
\<close>

definition next_sequence :: "envelope option \<Rightarrow> u64" where
  "next_sequence current =
     (case current of None \<Rightarrow> 1 | Some state \<Rightarrow> sat_inc (env_checkpoint_sequence state))"

definition retained_window :: "nat \<Rightarrow> operation list \<Rightarrow> operation list" where
  "retained_window kept ops = drop (length ops - kept) ops"

definition bind_peers :: "principal \<Rightarrow> u64 list \<Rightarrow> (u64, principal) bmap \<Rightarrow> (u64, principal) bmap" where
  "bind_peers actor peers bound = foldl (\<lambda>b peer. bmap_or_insert peer actor b) bound peers"

definition next_envelope ::
  "('d, 'f) ext \<Rightarrow> commit_policy \<Rightarrow> string \<Rightarrow> envelope option \<Rightarrow> document_id \<Rightarrow> commit_request \<Rightarrow> envelope"
where
  "next_envelope X policy minted current document commit =
     (let sequence = next_sequence current;
          earlier = (case current of
              None \<Rightarrow> []
            | Some state \<Rightarrow> if env_schema_version state \<noteq> cm_schema_version commit then []
                else env_retained_operations state);
          ops = retained_window (cp_retained_operations policy)
            (earlier @ [operation_from_update X (cm_operation_id commit) sequence
              (cm_schema_version commit) (cm_actor commit) (cm_intent commit)
              (cm_imported_update commit)]);
          retained_from = (case ops of [] \<Rightarrow> sequence | op # _ \<Rightarrow> op_sequence op) in
      \<lparr>env_envelope_version = envelope_version,
       env_entity = doc_entity document,
       env_resource_id = doc_resource_id document,
       env_incarnation = (case cm_incarnation commit of
           Some i \<Rightarrow> i
         | None \<Rightarrow> (case current of Some state \<Rightarrow> env_incarnation state | None \<Rightarrow> minted)),
       env_schema_version = cm_schema_version commit,
       env_generation = sat_inc (case current of None \<Rightarrow> 0 | Some state \<Rightarrow> env_generation state),
       env_checkpoint_sequence = sequence,
       env_compacted_through_sequence = sat_dec retained_from,
       env_checkpoint_update_base64 = b64_encode (ext_loro X) (cm_accepted_update commit),
       env_checkpoint_sha256 = sha256_hex X (cm_accepted_update commit),
       env_checkpoint_bytes = length (cm_accepted_update commit),
       env_retained_operations = ops,
       env_peers = bind_peers (cm_actor commit) (cm_peers commit)
         (case current of None \<Rightarrow> [] | Some state \<Rightarrow> env_peers state)\<rparr>)"

definition inspection_from_envelope ::
  "entity_spec list \<Rightarrow> envelope \<Rightarrow> bool \<Rightarrow> string option \<Rightarrow> inspection"
where
  "inspection_from_envelope plans e is_valid failure_code =
     \<lparr>insp_entity = env_entity e, insp_resource_id = env_resource_id e,
      insp_schema_version = env_schema_version e, insp_generation = env_generation e,
      insp_checkpoint_sequence = env_checkpoint_sequence e,
      insp_compacted_through_sequence = env_compacted_through_sequence e,
      insp_retained_operation_count = length (env_retained_operations e),
      insp_checkpoint_bytes = env_checkpoint_bytes e,
      insp_retained_operation_bytes = sum_list (map op_update_bytes (env_retained_operations e)),
      insp_migration_required = (case find (\<lambda>plan. plan_name plan = env_entity e) plans of
          Some plan \<Rightarrow> plan_schema_version plan \<noteq> env_schema_version e | None \<Rightarrow> False),
      insp_valid = is_valid, insp_failure_code = failure_code\<rparr>"

text \<open>The replica a stored envelope holds.\<close>

definition load_authoring_document ::
  "('d, 'f) ext \<Rightarrow> entity_spec \<Rightarrow> document_id \<Rightarrow> envelope \<Rightarrow> 'd replica store_result"
where
  "load_authoring_document X plan document e =
     (if env_schema_version e \<noteq> plan_schema_version plan
      then Inl (with_data invalid_request
        (document_data ''collaboration_migration_required'' document
          [(''actual'', JNumber (PosInt (unat (env_schema_version e)))),
           (''expected'', JNumber (PosInt (unat (plan_schema_version plan))))]))
      else
        res_bind (checkpoint_update X document e) (\<lambda>update.
        map_err (replica_store_error document)
          (from_versioned_update_base64 (ext_loro X) plan (env_schema_version e)
            (b64_encode (ext_loro X) update))))"

section \<open>What validation establishes\<close>

lemma decode_checked_Inr:
  "decode_checked X document base64 len sha256 = Inr update \<longleftrightarrow>
     b64_decode (ext_loro X) base64 = Inr update \<and> length update = len \<and> sha256_hex X update = sha256"
  by (auto simp: decode_checked_def res_bind_Inr_iff)

lemma operation_decode_from_update [simp]:
  assumes "b64_law (ext_loro X)"
  shows "operation_decode X document (operation_from_update X i s v a t update) = Inr update"
  using assms by (simp add: operation_decode_def operation_from_update_def decode_checked_Inr b64_law_def)

lemma operation_from_update_simps [simp]:
  "op_operation_id (operation_from_update X i s v a t u) = i"
  "op_sequence (operation_from_update X i s v a t u) = s"
  "op_schema_version (operation_from_update X i s v a t u) = v"
  "op_actor (operation_from_update X i s v a t u) = a"
  "op_intent (operation_from_update X i s v a t u) = t"
  "op_update_sha256 (operation_from_update X i s v a t u) = sha256_hex X u"
  by (simp_all add: operation_from_update_def)

text \<open>The window as a list property: what the loop checks of it.\<close>

definition window_ok :: "('d, 'f) ext \<Rightarrow> document_id \<Rightarrow> u32 \<Rightarrow> u64 \<Rightarrow> operation list \<Rightarrow> bool" where
  "window_ok X document version previous ops \<longleftrightarrow>
     sorted_wrt (<) (previous # map op_sequence ops)
     \<and> (\<forall>op \<in> set ops. op_schema_version op = version \<and> (\<exists>u. operation_decode X document op = Inr u))"

lemma window_ok_Nil [simp]: "window_ok X document version previous []"
  by (simp add: window_ok_def)

lemma window_ok_Cons:
  "window_ok X document version previous (op # ops) \<longleftrightarrow>
     previous < op_sequence op \<and> op_schema_version op = version
     \<and> (\<exists>u. operation_decode X document op = Inr u)
     \<and> window_ok X document version (op_sequence op) ops"
  by (auto simp: window_ok_def dest: order_less_trans)

lemma validate_window_iff:
  "validate_window X document version previous ops = Inr final \<longleftrightarrow>
     window_ok X document version previous ops
     \<and> final = last (previous # map op_sequence ops)"
  by (induction X document version previous ops rule: validate_window.induct)
    (auto simp: window_ok_Cons res_bind_Inr_iff not_le)

lemma validate_window_Inl:
  "validate_window X document version previous ops = Inl err \<Longrightarrow> err = corrupt_state document"
  by (induction X document version previous ops rule: validate_window.induct)
    (auto simp: res_bind_Inl_iff operation_decode_def decode_checked_def map_err_Inl_iff
      split: if_splits)

definition envelope_ok :: "('d, 'f) ext \<Rightarrow> document_id \<Rightarrow> envelope \<Rightarrow> (u64, u64) bmap \<Rightarrow> bool" where
  "envelope_ok X document e accepted \<longleftrightarrow>
     env_entity e = doc_entity document \<and> env_resource_id e = doc_resource_id document
     \<and> env_schema_version e \<noteq> 0 \<and> \<not> blank (env_incarnation e)
     \<and> (\<exists>update. checkpoint_update X document e = Inr update)
     \<and> version_of_update (ext_loro X) (env_checkpoint_update_base64 e) = Inr accepted
     \<and> (\<forall>peer \<in> fst ` set accepted. map_of (env_peers e) peer \<noteq> None)
     \<and> window_ok X document (env_schema_version e) (env_compacted_through_sequence e)
         (env_retained_operations e)
     \<and> env_checkpoint_sequence e
         = last (env_compacted_through_sequence e # map op_sequence (env_retained_operations e))"

lemma validate_envelope_iff: "validate_envelope X document e = Inr accepted \<longleftrightarrow> envelope_ok X document e accepted"
  by (auto simp: validate_envelope_def envelope_ok_def res_bind_Inr_iff Let_def validate_window_iff
      filter_empty_conv split: if_splits)

lemma validate_envelope_Inl: "validate_envelope X document e = Inl err \<Longrightarrow> err = corrupt_state document"
  by (auto simp: validate_envelope_def Let_def res_bind_Inl_iff map_err_Inl_iff
      checkpoint_update_def decode_checked_def dest: validate_window_Inl split: if_splits)

text \<open>
  (C3) An envelope passes \<open>validate_envelope\<close> exactly when it is the document's, its schema version
  and incarnation are explicit, its checkpoint decodes to bytes of the recorded length and digest,
  every peer of the checkpoint is bound to a principal, and the retained operations are whole, of
  the envelope's schema, of strictly increasing sequences from the compacted one, the last of which
  is the checkpoint's; every refusal is a \<open>collaboration_state_corrupt\<close> failure of kind
  \<open>Internal\<close>.
\<close>

theorem validate_envelope_exact:
  "(\<exists>accepted. validate_envelope X document e = Inr accepted \<and> envelope_ok X document e accepted)
   \<or> (validate_envelope X document e = Inl (corrupt_state document)
      \<and> err_kind (corrupt_state document) = Internal
      \<and> err_code (corrupt_state document) = Some ''collaboration_state_corrupt''
      \<and> (\<nexists>accepted. envelope_ok X document e accepted))"
proof (cases "validate_envelope X document e")
  case (Inr accepted)
  then show ?thesis by (auto simp: validate_envelope_iff)
next
  case (Inl err)
  then have "err = corrupt_state document" by (rule validate_envelope_Inl)
  moreover have "\<nexists>accepted. envelope_ok X document e accepted"
    using Inl by (auto simp: validate_envelope_iff[symmetric])
  ultimately show ?thesis
    using Inl by (simp add: corrupt_state_def err_code_def json_index_def)
qed

section \<open>Committing over a valid envelope\<close>

lemma map_of_bind_peers:
  "map_of (bind_peers actor peers bound) p =
     (case map_of bound p of Some a \<Rightarrow> Some a | None \<Rightarrow> if p \<in> set peers then Some actor else None)"
  unfolding bind_peers_def
  by (induction peers arbitrary: bound) (auto split: option.splits)

lemma bmap_ok_bind_peers [simp]: "bmap_ok bound \<Longrightarrow> bmap_ok (bind_peers actor peers bound)"
  unfolding bind_peers_def by (induction peers arbitrary: bound) simp_all

lemma window_ok_drop:
  assumes "window_ok X document v previous ops" and "n < length ops"
  shows "window_ok X document v (sat_dec (op_sequence (ops ! n))) (drop n ops)"
proof -
  have "previous < op_sequence (ops ! n)" and "op_schema_version (ops ! n) = v"
    and "\<exists>u. operation_decode X document (ops ! n) = Inr u"
    using assms by (auto simp: window_ok_def)
  moreover from this have "sat_dec (op_sequence (ops ! n)) < op_sequence (ops ! n)"
    by (auto simp: word_less_nat_alt unat_sat_dec)
  moreover have "sorted_wrt (<) (map op_sequence (drop n ops))"
    using assms(1) by (simp add: window_ok_def sorted_wrt_drop flip: drop_map)
  ultimately show ?thesis
    using assms by (simp add: window_ok_def Cons_nth_drop_Suc[symmetric] order_less_trans)
      (auto dest: in_set_dropD order_less_trans)
qed

lemma suffix_retained_window: "suffix (retained_window kept ops) ops"
  by (simp add: retained_window_def suffix_drop)

lemma length_retained_window: "length (retained_window kept ops) = min kept (length ops)"
  by (simp add: retained_window_def)

lemma last_window: "ops \<noteq> [] \<Longrightarrow> last (x # map f ops) = f (last ops)"
  by (simp add: last_map)

lemma window_ok_snoc:
  assumes "window_ok X document v previous ops" and "last (previous # map op_sequence ops) < op_sequence op"
    and "op_schema_version op = v" and "operation_decode X document op = Inr u"
  shows "window_ok X document v previous (ops @ [op])"
  using assms by (induction ops arbitrary: previous) (auto simp: window_ok_Cons split: if_splits)

definition earlier_operations :: "envelope option \<Rightarrow> u32 \<Rightarrow> operation list" where
  "earlier_operations current version =
     (case current of None \<Rightarrow> []
      | Some state \<Rightarrow> if env_schema_version state \<noteq> version then [] else env_retained_operations state)"

definition commit_operation :: "('d, 'f) ext \<Rightarrow> envelope option \<Rightarrow> commit_request \<Rightarrow> operation" where
  "commit_operation X current commit =
     operation_from_update X (cm_operation_id commit) (next_sequence current)
       (cm_schema_version commit) (cm_actor commit) (cm_intent commit) (cm_imported_update commit)"

lemma next_envelope_simps [simp]:
  "env_entity (next_envelope X policy minted current document commit) = doc_entity document"
  "env_resource_id (next_envelope X policy minted current document commit) = doc_resource_id document"
  "env_schema_version (next_envelope X policy minted current document commit) = cm_schema_version commit"
  "env_generation (next_envelope X policy minted current document commit)
     = sat_inc (case current of None \<Rightarrow> 0 | Some state \<Rightarrow> env_generation state)"
  "env_checkpoint_sequence (next_envelope X policy minted current document commit) = next_sequence current"
  "env_checkpoint_update_base64 (next_envelope X policy minted current document commit)
     = b64_encode (ext_loro X) (cm_accepted_update commit)"
  "env_checkpoint_sha256 (next_envelope X policy minted current document commit)
     = sha256_hex X (cm_accepted_update commit)"
  "env_checkpoint_bytes (next_envelope X policy minted current document commit)
     = length (cm_accepted_update commit)"
  "env_incarnation (next_envelope X policy minted current document commit) = (case cm_incarnation commit of
      Some i \<Rightarrow> i | None \<Rightarrow> (case current of Some state \<Rightarrow> env_incarnation state | None \<Rightarrow> minted))"
  "env_peers (next_envelope X policy minted current document commit)
     = bind_peers (cm_actor commit) (cm_peers commit)
         (case current of None \<Rightarrow> [] | Some state \<Rightarrow> env_peers state)"
  "env_retained_operations (next_envelope X policy minted current document commit)
     = retained_window (cp_retained_operations policy)
         (earlier_operations current (cm_schema_version commit) @ [commit_operation X current commit])"
  "env_envelope_version (next_envelope X policy minted current document commit) = envelope_version"
  by (simp_all add: next_envelope_def Let_def earlier_operations_def commit_operation_def)

lemma next_envelope_compacted:
  "env_compacted_through_sequence (next_envelope X policy minted current document commit)
     = sat_dec (case env_retained_operations (next_envelope X policy minted current document commit) of
         [] \<Rightarrow> next_sequence current | op # _ \<Rightarrow> op_sequence op)"
  by (simp add: next_envelope_def Let_def)

lemma commit_operation_simps [simp]:
  "op_operation_id (commit_operation X current commit) = cm_operation_id commit"
  "op_sequence (commit_operation X current commit) = next_sequence current"
  "op_schema_version (commit_operation X current commit) = cm_schema_version commit"
  "op_actor (commit_operation X current commit) = cm_actor commit"
  "op_update_sha256 (commit_operation X current commit) = sha256_hex X (cm_imported_update commit)"
  by (simp_all add: commit_operation_def)

lemma next_sequence_grows:
  assumes "\<And>c. current = Some c \<Longrightarrow> env_checkpoint_sequence c \<noteq> - 1"
  shows "(case current of None \<Rightarrow> 0 | Some c \<Rightarrow> env_checkpoint_sequence c) < next_sequence current"
proof (cases current)
  case (Some c)
  have "unat (env_checkpoint_sequence c) < 2 ^ 64 - 1"
  proof -
    have "unat (env_checkpoint_sequence c) \<noteq> unat (- 1 :: u64)"
      using assms Some by (metis word_unat_eq_iff)
    moreover have "unat (- 1 :: u64) = 2 ^ 64 - 1"
      by (simp add: unsigned_minus_1_eq_mask mask_eq_exp_minus_1)
    moreover have "unat (env_checkpoint_sequence c) < 2 ^ LENGTH(64)" by (rule unsigned_less)
    ultimately show ?thesis by simp
  qed
  with Some show ?thesis by (simp add: next_sequence_def word_less_nat_alt unat_sat_inc)
qed (simp add: next_sequence_def)

lemma next_window_ok:
  fixes commit :: commit_request and minted :: string
  assumes "b64_law (ext_loro X)" and "1 \<le> cp_retained_operations policy"
    and current: "\<And>c. current = Some c \<Longrightarrow>
      window_ok X document (env_schema_version c) (env_compacted_through_sequence c) (env_retained_operations c)
      \<and> env_checkpoint_sequence c = last (env_compacted_through_sequence c # map op_sequence (env_retained_operations c))
      \<and> env_checkpoint_sequence c \<noteq> - 1"
  defines "e \<equiv> next_envelope X policy minted current document commit"
  shows "window_ok X document (env_schema_version e) (env_compacted_through_sequence e) (env_retained_operations e)"
    and "env_checkpoint_sequence e = last (env_compacted_through_sequence e # map op_sequence (env_retained_operations e))"
proof -
  let ?v = "cm_schema_version commit"
  define every where "every = earlier_operations current ?v @ [commit_operation X current commit]"
  define n where "n = length every - cp_retained_operations policy"
  have grows: "(case current of None \<Rightarrow> 0 | Some c \<Rightarrow> env_checkpoint_sequence c) < next_sequence current"
    using current by (intro next_sequence_grows) blast
  obtain previous where "window_ok X document ?v previous (earlier_operations current ?v)"
      "last (previous # map op_sequence (earlier_operations current ?v)) < next_sequence current"
  proof (cases "\<exists>c. current = Some c \<and> env_schema_version c = ?v")
    case True
    then obtain c where "current = Some c" "env_schema_version c = ?v" by blast
    with current[of c] grows that[of "env_compacted_through_sequence c"] show ?thesis
      by (simp add: earlier_operations_def)
  next
    case False
    then have "earlier_operations current ?v = []" by (auto simp: earlier_operations_def split: option.splits)
    with grows that[of "case current of None \<Rightarrow> 0 | Some c \<Rightarrow> env_checkpoint_sequence c"] show ?thesis by simp
  qed
  then have every: "window_ok X document ?v previous every" unfolding every_def
    using assms(1) by (intro window_ok_snoc) (simp_all add: commit_operation_def)
  have n: "n < length every" using assms(2) by (simp add: n_def every_def)
  have ops: "env_retained_operations e = drop n every"
    by (simp add: e_def retained_window_def n_def every_def)
  have nonempty: "env_retained_operations e \<noteq> []" using n ops by (metis drop_eq_Nil not_less)
  have "env_compacted_through_sequence e = sat_dec (op_sequence (every ! n))"
    unfolding e_def next_envelope_compacted unfolding e_def[symmetric] ops
    by (subst Cons_nth_drop_Suc[OF n, symmetric]) simp
  moreover have "env_schema_version e = ?v" by (simp add: e_def)
  ultimately show "window_ok X document (env_schema_version e) (env_compacted_through_sequence e) (env_retained_operations e)"
    using window_ok_drop[OF every n] by (simp only: ops)
  have "op_sequence (last every) = env_checkpoint_sequence e" by (simp add: every_def e_def)
  moreover have "last (drop n every) = last every" using n by (rule last_drop)
  ultimately show "env_checkpoint_sequence e = last (env_compacted_through_sequence e # map op_sequence (env_retained_operations e))"
    using last_window[OF nonempty] ops by metis
qed

text \<open>
  (C4) A commit over a valid envelope (or over none) builds a valid envelope: the checkpoint it
  writes passes its own checksum, its window keeps increasing and ends at the new sequence, and its
  peers are bound, provided that the policy keeps at least one operation, the sequence has not
  reached the end of \<open>u64\<close>, and the commit names every peer of its update that the envelope does
  not bind.
\<close>

theorem next_envelope_valid:
  assumes "b64_law (ext_loro X)" and "1 \<le> cp_retained_operations policy"
    and "cm_schema_version commit \<noteq> 0" and "\<not> blank minted"
    and "\<forall>i. cm_incarnation commit = Some i \<longrightarrow> \<not> blank i"
    and current: "\<forall>c. current = Some c \<longrightarrow>
      (\<exists>held. validate_envelope X document c = Inr held) \<and> env_checkpoint_sequence c \<noteq> - 1"
    and "version_of_update (ext_loro X) (b64_encode (ext_loro X) (cm_accepted_update commit)) = Inr accepted"
    and bound: "\<forall>p \<in> fst ` set accepted. p \<in> set (cm_peers commit)
      \<or> (\<exists>c. current = Some c \<and> map_of (env_peers c) p \<noteq> None)"
  shows "validate_envelope X document (next_envelope X policy minted current document commit) = Inr accepted"
proof -
  let ?e = "next_envelope X policy minted current document commit"
  have valid: "envelope_ok X document c held" if "current = Some c" "validate_envelope X document c = Inr held" for c held
    using that by (simp add: validate_envelope_iff)
  have windows: "window_ok X document (env_schema_version c) (env_compacted_through_sequence c) (env_retained_operations c)
      \<and> env_checkpoint_sequence c = last (env_compacted_through_sequence c # map op_sequence (env_retained_operations c))
      \<and> env_checkpoint_sequence c \<noteq> - 1 \<and> \<not> blank (env_incarnation c)" if "current = Some c" for c
    using current valid that unfolding envelope_ok_def by blast
  have "checkpoint_update X document ?e = Inr (cm_accepted_update commit)"
    using assms(1) by (simp add: checkpoint_update_def decode_checked_Inr b64_law_def)
  moreover have "\<not> blank (env_incarnation ?e)"
    using assms(4,5) windows by (simp split: option.splits)
  moreover have "\<forall>p \<in> fst ` set accepted. map_of (env_peers ?e) p \<noteq> None"
    using bound by (auto simp: map_of_bind_peers split: option.splits)
  moreover have "window_ok X document (env_schema_version ?e) (env_compacted_through_sequence ?e)
      (env_retained_operations ?e)"
    by (rule next_window_ok(1)[OF assms(1,2)]) (use windows in blast)
  moreover have "env_checkpoint_sequence ?e
      = last (env_compacted_through_sequence ?e # map op_sequence (env_retained_operations ?e))"
    by (rule next_window_ok(2)[OF assms(1,2)]) (use windows in blast)
  ultimately have "envelope_ok X document ?e accepted"
    using assms(3,7) unfolding envelope_ok_def
    by (simp only: next_envelope_simps(1,2,3,6) simp_thms) blast
  then show ?thesis by (simp only: validate_envelope_iff)
qed

text \<open>
  (C40) With \<open>retained_operations = 0\<close> no commit is ever valid: the window is empty and the compacted
  sequence stays one below the checkpoint's, so \<open>swap\<close> refuses every envelope \<open>next_envelope\<close>
  builds as corrupt and nothing can be stored.
\<close>

theorem no_retention_always_corrupt:
  assumes "cp_retained_operations policy = 0"
  shows "validate_envelope X document (next_envelope X policy minted current document commit)
    = Inl (corrupt_state document)"
proof -
  let ?e = "next_envelope X policy minted current document commit"
  have "env_retained_operations ?e = []" using assms by (simp add: retained_window_def)
  moreover have "sat_dec (next_sequence current) \<noteq> next_sequence current"
  proof -
    have "next_sequence current \<noteq> 0"
      by (cases current) (auto simp: next_sequence_def sat_inc_def eq_neg_iff_add_eq_0)
    then have "unat (sat_dec (next_sequence current)) < unat (next_sequence current)"
      by (simp add: unat_sat_dec unat_gt_0)
    then show ?thesis by (metis less_irrefl)
  qed
  ultimately have "\<not> envelope_ok X document ?e accepted" for accepted
    by (simp add: envelope_ok_def next_envelope_compacted del: next_envelope_simps(11))
  then show ?thesis
    by (metis validate_envelope_Inl validate_envelope_iff sum.exhaust)
qed

text \<open>
  (C10) What a commit keeps and what it adds: the sequence and the generation step by one (and stop
  at the end of \<open>u64\<close>), every binding of a peer stays as it was, the commit's peers that were free
  are bound to its actor and no other peer becomes bound. The operation is appended to the window (to
  the empty one when the commit moves to another schema) and the oldest entries leave only when the
  policy's length is exceeded: the new window is the suffix of that list that has the policy's length,
  or the whole of it when it is shorter.
\<close>

theorem next_envelope_extends:
  "unat (env_checkpoint_sequence (next_envelope X policy minted (Some c) document commit))
     = min (unat (env_checkpoint_sequence c) + 1) (2 ^ 64 - 1)
   \<and> unat (env_generation (next_envelope X policy minted (Some c) document commit))
     = min (unat (env_generation c) + 1) (2 ^ 64 - 1)
   \<and> map_of (env_peers (next_envelope X policy minted (Some c) document commit)) p
     = (case map_of (env_peers c) p of
          Some bound \<Rightarrow> Some bound
        | None \<Rightarrow> if p \<in> set (cm_peers commit) then Some (cm_actor commit) else None)
   \<and> suffix (env_retained_operations (next_envelope X policy minted (Some c) document commit))
       ((if env_schema_version c = cm_schema_version commit then env_retained_operations c else [])
        @ [commit_operation X (Some c) commit])
   \<and> length (env_retained_operations (next_envelope X policy minted (Some c) document commit))
     = min (cp_retained_operations policy)
         (if env_schema_version c = cm_schema_version commit
          then length (env_retained_operations c) + 1 else 1)"
proof -
  let ?e = "next_envelope X policy minted (Some c) document commit"
  let ?ops = "(if env_schema_version c = cm_schema_version commit then env_retained_operations c else [])
       @ [commit_operation X (Some c) commit]"
  have window: "env_retained_operations ?e = retained_window (cp_retained_operations policy) ?ops"
    by (simp add: earlier_operations_def)
  then have "length (env_retained_operations ?e) = min (cp_retained_operations policy)
      (if env_schema_version c = cm_schema_version commit
       then length (env_retained_operations c) + 1 else 1)"
    by (simp only: length_retained_window) simp
  with window show ?thesis
    using suffix_retained_window
    by (simp only: next_envelope_simps(4,5,10) option.simps next_sequence_def unat_sat_inc
        map_of_bind_peers simp_thms)
qed

end
