(* ===== verification/Storage.thy ===== *)
theory Storage
  imports Envelope
begin

text \<open>
  The storage port of \<open>crates/clerkenwell-store/src/lib.rs\<close> (\<open>CollaborationStoragePort\<close>, the audit
  records and queries) and the port \<open>examples/notes/src/storage.rs\<close> implements in memory.

  A port is a record of actions on a state \<open>'s\<close>. The locale \<open>storage_port\<close> states what the trait's
  documentation promises of one: what is kept where, which writes take effect, what a stamp
  vouches for. The service relies on no more than that, and the in-memory port is an instance.
\<close>

section \<open>Audit\<close>

datatype recovery_action = Export | Quarantine | Repair | Reindex | Reset

datatype audit_event =
    Recovery recovery_action "string option" bool
  | Refusal string string string "string list" string

record audit_record =
  ar_timestamp_unix_ms :: nat
  ar_actor :: principal
  ar_entity :: string
  ar_resource_id :: string
  ar_event :: audit_event

record audit_query =
  aq_document :: "document_id option"
  aq_actor_id :: "string option"
  aq_from_unix_ms :: "nat option"
  aq_until_unix_ms :: "nat option"

definition is_none_or :: "'a option \<Rightarrow> ('a \<Rightarrow> bool) \<Rightarrow> bool" where
  "is_none_or x P = (case x of None \<Rightarrow> True | Some a \<Rightarrow> P a)"

definition selects :: "audit_query \<Rightarrow> audit_record \<Rightarrow> bool" where
  "selects q r \<longleftrightarrow>
     is_none_or (aq_document q) (\<lambda>d. doc_entity d = ar_entity r \<and> doc_resource_id d = ar_resource_id r)
     \<and> is_none_or (aq_actor_id q) (\<lambda>i. i = principal_id (ar_actor r))
     \<and> is_none_or (aq_from_unix_ms q) (\<lambda>t. t \<le> ar_timestamp_unix_ms r)
     \<and> is_none_or (aq_until_unix_ms q) (\<lambda>t. ar_timestamp_unix_ms r < t)"

section \<open>The port\<close>

record stored_envelope =
  se_version :: string
  se_bytes :: bytes

type_synonym ('s, 'a) storage_act = "('s, store_error, 'a) act"

record 's port =
  port_source :: "document_id \<Rightarrow> string"
  port_sources :: "string \<Rightarrow> ('s, string list) storage_act"
  port_read :: "string \<Rightarrow> ('s, stored_envelope option) storage_act"
  port_stamp :: "string \<Rightarrow> ('s, string option) storage_act"
  port_compare_and_swap :: "document_id \<Rightarrow> string option \<Rightarrow> bytes \<Rightarrow> ('s, string option) storage_act"
  port_compare_and_remove :: "document_id \<Rightarrow> string \<Rightarrow> ('s, bool) storage_act"
  port_preserve :: "document_id \<Rightarrow> string \<Rightarrow> bytes \<Rightarrow> ('s, string) storage_act"
  port_append_audit :: "audit_record \<Rightarrow> ('s, unit) storage_act"
  port_audit :: "audit_query \<Rightarrow> ('s, audit_record list) storage_act"
  port_discard_audit_before :: "nat \<Rightarrow> ('s, nat) storage_act"

text \<open>
  What is stored through a port: the envelope kept at each source, the audit records and the
  preserved evidence.
\<close>

record store_view =
  sv_kept :: "string \<Rightarrow> stored_envelope option"
  sv_trail :: "audit_record list"
  sv_evidence :: "bytes list"

definition kept_version :: "store_view \<Rightarrow> string \<Rightarrow> string option" where
  "kept_version v source = map_option se_version (sv_kept v source)"

text \<open>A fact about a source and a name of it, once true, stays true.\<close>

definition persists :: "('s \<Rightarrow> string \<Rightarrow> string \<Rightarrow> 'x \<Rightarrow> bool) \<Rightarrow> 's \<Rightarrow> 's \<Rightarrow> bool" where
  "persists R s t \<longleftrightarrow> (\<forall>source name x. R s source name x \<longrightarrow> R t source name x)"

lemma persistsD: "persists R s t \<Longrightarrow> R s source name x \<Longrightarrow> R t source name x"
  by (simp add: persists_def)

lemma persists_refl [simp]: "persists R s s"
  by (simp add: persists_def)

lemma persists_trans: "persists R s t \<Longrightarrow> persists R t u \<Longrightarrow> persists R s u"
  by (simp add: persists_def)

text \<open>
  What a port promises. \<open>view\<close> is what is stored, in a state \<open>inv\<close> accepts. Other writers may change it
  between two operations: \<open>drift\<close> relates what is stored before and after what they do, and an
  operation is atomic after it. \<open>names s source v bs\<close>: \<open>v\<close> has named the bytes \<open>bs\<close> at the source and
  never names others. \<open>vouches s source token found\<close>: the token is spent, and whenever it
  is taken again \<open>found\<close> is what is kept; once the bytes have changed it is never taken again. \<open>retired s source v ()\<close>: the source is never again kept at \<open>v\<close>.
  A read changes nothing stored; a conditional write takes effect exactly from the version it
  expects, under a version that named nothing before, and retires the version it replaces. Any
  operation may fail, and then it changes nothing.
\<close>

locale storage_port =
  fixes P :: "'s port"
    and inv :: "'s \<Rightarrow> bool"
    and view :: "'s \<Rightarrow> store_view"
    and drift :: "store_view \<Rightarrow> store_view \<Rightarrow> bool"
    and vouches :: "'s \<Rightarrow> string \<Rightarrow> string \<Rightarrow> stored_envelope option \<Rightarrow> bool"
    and names :: "'s \<Rightarrow> string \<Rightarrow> string \<Rightarrow> bytes \<Rightarrow> bool"
    and retired :: "'s \<Rightarrow> string \<Rightarrow> string \<Rightarrow> unit \<Rightarrow> bool"
  assumes drift_refl: "drift v v"
    and drift_trans: "drift v1 v2 \<Longrightarrow> drift v2 v3 \<Longrightarrow> drift v1 v3"
    and read_ok:
      "inv s \<Longrightarrow> port_read P source s = (r1, t) \<Longrightarrow>
         inv t \<and> persists vouches s t \<and> persists names s t \<and> persists retired s t
         \<and> drift (view s) (view t) \<and> (\<forall>found. r1 = Inr found \<longrightarrow> found = sv_kept (view t) source)"
    and stamp_ok:
      "inv s \<Longrightarrow> port_stamp P source s = (r2, t) \<Longrightarrow>
         inv t \<and> persists vouches s t \<and> persists names s t \<and> persists retired s t
         \<and> drift (view s) (view t)
         \<and> (\<forall>token. r2 = Inr (Some token) \<longrightarrow>
              vouches t source token (sv_kept (view t) source)
              \<and> (\<forall>found. vouches s source token found \<longrightarrow> found = sv_kept (view t) source))"
    and swap_ok:
      "inv s \<Longrightarrow> port_compare_and_swap P d expected bs s = (r3, t) \<Longrightarrow>
         inv t \<and> persists vouches s t \<and> persists names s t \<and> persists retired s t
         \<and> (\<exists>v. drift (view s) v \<and>
             (case r3 of
                Inr (Some version) \<Rightarrow>
                  expected = kept_version v (port_source P d)
                  \<and> (\<forall>old. retired s (port_source P d) old () \<longrightarrow> expected \<noteq> Some old)
                  \<and> (\<forall>bs0. \<not> names s (port_source P d) version bs0)
                  \<and> (\<forall>old. expected = Some old \<longrightarrow> retired t (port_source P d) old ())
                  \<and> view t = v\<lparr>sv_kept := (sv_kept v)(port_source P d
                      \<mapsto> \<lparr>se_version = version, se_bytes = bs\<rparr>)\<rparr>
              | Inr None \<Rightarrow> expected \<noteq> kept_version v (port_source P d) \<and> view t = v
              | Inl _ \<Rightarrow> view t = v))"
    and remove_ok:
      "inv s \<Longrightarrow> port_compare_and_remove P d version s = (r4, t) \<Longrightarrow>
         inv t \<and> persists vouches s t \<and> persists names s t \<and> persists retired s t
         \<and> (\<exists>v. drift (view s) v \<and>
             (case r4 of
                Inr True \<Rightarrow> kept_version v (port_source P d) = Some version
                  \<and> retired t (port_source P d) version ()
                  \<and> view t = v\<lparr>sv_kept := (sv_kept v)(port_source P d := None)\<rparr>
              | Inr False \<Rightarrow> kept_version v (port_source P d) \<noteq> Some version \<and> view t = v
              | Inl _ \<Rightarrow> view t = v))"
    and preserve_ok:
      "inv s \<Longrightarrow> port_preserve P d label bs s = (r5, t) \<Longrightarrow>
         inv t \<and> persists vouches s t \<and> persists names s t \<and> persists retired s t
         \<and> (\<exists>v. drift (view s) v \<and>
             (case r5 of
                Inr _ \<Rightarrow> view t = v\<lparr>sv_evidence := sv_evidence v @ [bs]\<rparr>
              | Inl _ \<Rightarrow> view t = v))"
    and append_audit_ok:
      "inv s \<Longrightarrow> port_append_audit P record s = (r6, t) \<Longrightarrow>
         inv t \<and> persists vouches s t \<and> persists names s t \<and> persists retired s t
         \<and> (\<exists>v. drift (view s) v \<and>
             (case r6 of
                Inr _ \<Rightarrow> view t = v\<lparr>sv_trail := sv_trail v @ [record]\<rparr>
              | Inl _ \<Rightarrow> view t = v))"
    and sources_ok:
      "inv s \<Longrightarrow> port_sources P entity s = (r7, t) \<Longrightarrow>
         inv t \<and> persists vouches s t \<and> persists names s t \<and> persists retired s t
         \<and> drift (view s) (view t)"
    and audit_ok:
      "inv s \<Longrightarrow> port_audit P q s = (r8, t) \<Longrightarrow>
         inv t \<and> persists vouches s t \<and> persists names s t \<and> persists retired s t
         \<and> drift (view s) (view t)
         \<and> (\<forall>found. r8 = Inr found \<longrightarrow> found = filter (selects q) (sv_trail (view t)))"
    and discard_ok:
      "inv s \<Longrightarrow> port_discard_audit_before P ms s = (r9, t) \<Longrightarrow>
         inv t \<and> persists vouches s t \<and> persists names s t \<and> persists retired s t
         \<and> (\<exists>v. drift (view s) v \<and>
             (case r9 of
                Inr n \<Rightarrow> view t = v\<lparr>sv_trail := filter (\<lambda>r. ms \<le> ar_timestamp_unix_ms r) (sv_trail v)\<rparr>
                  \<and> n = length (sv_trail v) - length (sv_trail (view t))
              | Inl _ \<Rightarrow> view t = v))"
    and kept_names: "inv s \<Longrightarrow> sv_kept (view s) source = Some e \<Longrightarrow> names s source (se_version e) (se_bytes e)"
    and names_kept:
      "inv s \<Longrightarrow> names s source (se_version e) bs \<Longrightarrow> sv_kept (view s) source = Some e \<Longrightarrow> se_bytes e = bs"
    and moved_on:
      "inv s \<Longrightarrow> vouches s source token found \<Longrightarrow> sv_kept (view s) source \<noteq> found \<Longrightarrow>
         vouches s source token other"
begin

text \<open>
  Of the writes that expect one version of a source, at most one takes effect, whatever the other
  writers do between them.
\<close>

lemma swap_once:
  assumes "inv s" and "port_compare_and_swap P d (Some old) bs s = (Inr (Some v), t)"
    and "inv u" and "persists retired t u"
    and "port_compare_and_swap P d (Some old) bs' u = (Inr r, u')"
  shows "r = None"
proof -
  have "retired t (port_source P d) old ()" using swap_ok[OF assms(1,2)] by auto
  then have "retired u (port_source P d) old ()" using assms(4) unfolding persists_def by blast
  then show ?thesis using swap_ok[OF assms(3,5)] by (cases r) auto
qed

text \<open>A write that took effect is what a read finds until another writer changes it.\<close>

lemma swap_then_read:
  assumes "inv s" and "port_compare_and_swap P d expected bs s = (Inr (Some v), t)"
    and "port_read P (port_source P d) t = (Inr found, u)" and "view u = view t"
  shows "found = Some \<lparr>se_version = v, se_bytes = bs\<rparr>"
  using swap_ok[OF assms(1,2)] read_ok[OF _ assms(3)] assms(4) by auto

end

section \<open>The in-memory port\<close>

text \<open>
  The counter of writes is a \<open>u64\<close>. Its overflow panics in a build with overflow checks, which is a
  failure here that changes nothing.
\<close>

record kept_state =
  ks_next_version :: u64
  ks_envelopes :: "(string, stored_envelope) bmap"
  ks_evidence :: "bytes list"
  ks_audit :: "audit_record list"

definition memory_version :: "kept_state \<Rightarrow> string \<Rightarrow> string option" where
  "memory_version s source = map_option se_version (map_of (ks_envelopes s) source)"

definition memory_source :: "document_id \<Rightarrow> string" where
  "memory_source d = doc_entity d @ ''/'' @ doc_resource_id d"

definition memory_sources :: "string \<Rightarrow> (kept_state, string list) storage_act" where
  "memory_sources entity = act_gets (\<lambda>s.
     filter (prefix (entity @ ''/'')) (map fst (ks_envelopes s)))"

definition memory_read :: "string \<Rightarrow> (kept_state, stored_envelope option) storage_act" where
  "memory_read source = act_gets (\<lambda>s. map_of (ks_envelopes s) source)"

definition memory_stamp :: "string \<Rightarrow> (kept_state, string option) storage_act" where
  "memory_stamp source = act_gets (\<lambda>s. memory_version s source)"

definition memory_compare_and_swap ::
  "document_id \<Rightarrow> string option \<Rightarrow> bytes \<Rightarrow> (kept_state, string option) storage_act"
where
  "memory_compare_and_swap d expected bs s =
     (if memory_version s (memory_source d) \<noteq> expected then (Inr None, s)
      else if ks_next_version s = - 1 then (Inl internal, s)
      else (let next = ks_next_version s + 1; version = dec (unat next) in
        (Inr (Some version),
         s\<lparr>ks_next_version := next,
           ks_envelopes := bmap_insert (memory_source d) \<lparr>se_version = version, se_bytes = bs\<rparr>
             (ks_envelopes s)\<rparr>)))"

definition memory_compare_and_remove :: "document_id \<Rightarrow> string \<Rightarrow> (kept_state, bool) storage_act" where
  "memory_compare_and_remove d expected s =
     (if memory_version s (memory_source d) \<noteq> Some expected then (Inr False, s)
      else (Inr True, s\<lparr>ks_envelopes := bmap_remove (memory_source d) (ks_envelopes s)\<rparr>))"

definition memory_preserve :: "document_id \<Rightarrow> string \<Rightarrow> bytes \<Rightarrow> (kept_state, string) storage_act" where
  "memory_preserve d label bs s =
     (let s' = s\<lparr>ks_evidence := ks_evidence s @ [bs]\<rparr> in
      (Inr (''evidence/'' @ doc_entity d @ ''/'' @ doc_resource_id d @ ''/''
        @ dec (length (ks_evidence s')) @ ''-'' @ label), s'))"

definition memory_append_audit :: "audit_record \<Rightarrow> (kept_state, unit) storage_act" where
  "memory_append_audit record = act_modify (\<lambda>s. s\<lparr>ks_audit := ks_audit s @ [record]\<rparr>)"

definition memory_audit :: "audit_query \<Rightarrow> (kept_state, audit_record list) storage_act" where
  "memory_audit q = act_gets (\<lambda>s. filter (selects q) (ks_audit s))"

definition memory_discard_audit_before :: "nat \<Rightarrow> (kept_state, nat) storage_act" where
  "memory_discard_audit_before unix_ms s =
     (let rest = filter (\<lambda>r. unix_ms \<le> ar_timestamp_unix_ms r) (ks_audit s) in
      (Inr (length (ks_audit s) - length rest), s\<lparr>ks_audit := rest\<rparr>))"

definition memory_port :: "kept_state port" where
  "memory_port =
     \<lparr>port_source = memory_source, port_sources = memory_sources, port_read = memory_read,
      port_stamp = memory_stamp, port_compare_and_swap = memory_compare_and_swap,
      port_compare_and_remove = memory_compare_and_remove, port_preserve = memory_preserve,
      port_append_audit = memory_append_audit, port_audit = memory_audit,
      port_discard_audit_before = memory_discard_audit_before\<rparr>"

definition memory_new :: kept_state where
  "memory_new = \<lparr>ks_next_version = 0, ks_envelopes = [], ks_evidence = [], ks_audit = []\<rparr>"

text \<open>
  The in-memory port keeps the promises: a version is a decimal no larger than the write counter,
  and it is its own stamp.
\<close>

definition memory_view :: "kept_state \<Rightarrow> store_view" where
  "memory_view s = \<lparr>sv_kept = map_of (ks_envelopes s), sv_trail = ks_audit s, sv_evidence = ks_evidence s\<rparr>"

definition memory_issued :: "kept_state \<Rightarrow> string \<Rightarrow> bool" where
  "memory_issued s v \<longleftrightarrow> (\<exists>n \<le> unat (ks_next_version s). v = dec n)"

definition memory_inv :: "kept_state \<Rightarrow> bool" where
  "memory_inv s \<longleftrightarrow> (\<forall>source e. map_of (ks_envelopes s) source = Some e \<longrightarrow> memory_issued s (se_version e))"

definition memory_vouches :: "kept_state \<Rightarrow> string \<Rightarrow> string \<Rightarrow> stored_envelope option \<Rightarrow> bool" where
  "memory_vouches s source token found \<longleftrightarrow> memory_issued s token
     \<and> (\<forall>e. map_of (ks_envelopes s) source = Some e \<longrightarrow> se_version e = token \<longrightarrow> found = Some e)"

definition memory_names :: "kept_state \<Rightarrow> string \<Rightarrow> string \<Rightarrow> bytes \<Rightarrow> bool" where
  "memory_names s source v bs \<longleftrightarrow> memory_issued s v
     \<and> (\<forall>e. map_of (ks_envelopes s) source = Some e \<longrightarrow> se_version e = v \<longrightarrow> se_bytes e = bs)"

lemmas memory_defs = memory_view_def memory_inv_def memory_vouches_def memory_names_def
  memory_version_def kept_version_def persists_def

lemma memory_issue:
  assumes "ks_next_version s \<noteq> - 1"
  defines "v \<equiv> dec (unat (ks_next_version s + 1))"
  shows "\<not> memory_issued s v"
    and "memory_issued (s\<lparr>ks_next_version := ks_next_version s + 1, ks_envelopes := m\<rparr>) w
      \<longleftrightarrow> memory_issued s w \<or> w = v"
proof -
  have "unat (sat_inc (ks_next_version s)) = unat (ks_next_version s) + 1"
    using assms(1) unatSuc[of "ks_next_version s"]
    by (simp add: sat_inc_def add.commute eq_neg_iff_add_eq_0)
  then have succ: "unat (ks_next_version s + 1) = Suc (unat (ks_next_version s))"
    using assms(1) by (simp add: sat_inc_def)
  show "\<not> memory_issued s v" by (auto simp: memory_issued_def v_def succ)
  show "memory_issued (s\<lparr>ks_next_version := ks_next_version s + 1, ks_envelopes := m\<rparr>) w
      \<longleftrightarrow> memory_issued s w \<or> w = v"
    unfolding memory_issued_def v_def by (auto simp: succ le_Suc_eq)
qed

definition memory_retired :: "kept_state \<Rightarrow> string \<Rightarrow> string \<Rightarrow> unit \<Rightarrow> bool" where
  "memory_retired s source v u \<longleftrightarrow> memory_issued s v \<and> memory_version s source \<noteq> Some v"

lemmas memory_relations = memory_inv_def memory_vouches_def memory_names_def memory_retired_def

text \<open>An operation that keeps the envelopes and the counter keeps every fact about versions.\<close>

lemma memory_frame:
  assumes "ks_next_version t = ks_next_version s" and "ks_envelopes t = ks_envelopes s"
  shows "memory_inv t \<longleftrightarrow> memory_inv s" and "memory_vouches t = memory_vouches s"
    and "memory_names t = memory_names s" and "memory_retired t = memory_retired s"
  using assms by (simp_all add: memory_relations memory_issued_def memory_version_def fun_eq_iff)

lemma memory_remove_frame:
  fixes src :: string
  assumes "memory_inv s"
  defines "t \<equiv> s\<lparr>ks_envelopes := bmap_remove src (ks_envelopes s)\<rparr>"
  shows "memory_inv t \<and> persists memory_vouches s t \<and> persists memory_names s t \<and> persists memory_retired s t"
  using assms(1) unfolding t_def memory_relations persists_def
  by (auto simp: memory_issued_def memory_version_def split: if_splits)

lemma memory_swap_frame:
  fixes src :: string and bs :: bytes
  assumes "memory_inv s" and "ks_next_version s \<noteq> - 1"
  defines "v \<equiv> dec (unat (ks_next_version s + 1))"
  defines "t \<equiv> s\<lparr>ks_next_version := ks_next_version s + 1,
    ks_envelopes := bmap_insert src \<lparr>se_version = v, se_bytes = bs\<rparr> (ks_envelopes s)\<rparr>"
  shows "memory_inv t \<and> persists memory_vouches s t \<and> persists memory_names s t \<and> persists memory_retired s t"
    and "\<not> memory_issued s v" and "memory_version s src = Some old \<Longrightarrow> memory_retired t src old ()"
proof -
  have fresh: "\<not> memory_issued s v" and issued: "memory_issued t w \<longleftrightarrow> memory_issued s w \<or> w = v" for w
    using memory_issue[OF assms(2)] by (simp_all add: t_def v_def)
  have kept: "map_of (ks_envelopes t) = (map_of (ks_envelopes s))(src \<mapsto> \<lparr>se_version = v, se_bytes = bs\<rparr>)"
    by (simp add: t_def)
  show "\<not> memory_issued s v" by (rule fresh)
  show "memory_inv t \<and> persists memory_vouches s t \<and> persists memory_names s t \<and> persists memory_retired s t"
    using assms(1) fresh unfolding memory_relations persists_def issued memory_version_def kept
    by (auto split: if_splits)
  show "memory_version s src = Some old \<Longrightarrow> memory_retired t src old ()"
    using assms(1) fresh unfolding memory_relations issued memory_version_def kept by auto
qed

interpretation memory: storage_port memory_port memory_inv memory_view "(=)" memory_vouches memory_names memory_retired
proof (unfold_locales, goal_cases)
  case (5 s d expected bs r t)
  show ?case
  proof (cases "memory_version s (memory_source d) = expected \<and> ks_next_version s \<noteq> - 1")
    case False
    with 5 show ?thesis
      by (auto simp: memory_port_def memory_compare_and_swap_def memory_defs split: if_splits)
  next
    case True
    let ?v = "dec (unat (ks_next_version s + 1))"
    have r: "r = Inr (Some ?v)" and t: "t = s\<lparr>ks_next_version := ks_next_version s + 1,
        ks_envelopes := bmap_insert (memory_source d) \<lparr>se_version = ?v, se_bytes = bs\<rparr> (ks_envelopes s)\<rparr>"
      using True 5(2) by (auto simp: memory_port_def memory_compare_and_swap_def Let_def)
    have wrap: "ks_next_version s \<noteq> - 1" using True by simp
    note frame = memory_swap_frame(1)[OF 5(1) wrap, where src = "memory_source d" and bs = bs, folded t]
      memory_swap_frame(2)[OF 5(1) wrap]
      memory_swap_frame(3)[OF 5(1) wrap, where src = "memory_source d" and bs = bs, folded t]
    have "memory_view t = (memory_view s)\<lparr>sv_kept := (sv_kept (memory_view s))(memory_source d
        \<mapsto> \<lparr>se_version = ?v, se_bytes = bs\<rparr>)\<rparr>" by (simp add: memory_view_def t)
    moreover have "expected = kept_version (memory_view s) (memory_source d)"
      using True by (simp add: memory_defs)
    ultimately show ?thesis using frame True
      by (simp add: r memory_port_def memory_names_def memory_retired_def)
  qed
next
  case (6 s d version r t)
  then show ?case using memory_remove_frame[OF 6(1), of "memory_source d"]
    by (auto simp: memory_port_def memory_compare_and_remove_def memory_view_def memory_retired_def
        memory_version_def kept_version_def memory_inv_def memory_issued_def split: if_splits)
next
  case (4 s source r t)
  then show ?case
    by (auto simp: memory_port_def memory_stamp_def memory_version_def memory_view_def memory_vouches_def
        memory_inv_def)
next
  case (7 s d label bs r t)
  then have "ks_next_version t = ks_next_version s" "ks_envelopes t = ks_envelopes s"
    by (auto simp: memory_port_def memory_preserve_def Let_def)
  note frame = memory_frame[OF this]
  show ?case using 7 by (auto simp: frame persists_def memory_port_def memory_preserve_def memory_view_def Let_def)
next
  case (8 s entry r t)
  then have "ks_next_version t = ks_next_version s" "ks_envelopes t = ks_envelopes s"
    by (auto simp: memory_port_def memory_append_audit_def)
  note frame = memory_frame[OF this]
  show ?case using 8 by (auto simp: frame persists_def memory_port_def memory_append_audit_def memory_view_def)
next
  case (11 s ms r t)
  then have "ks_next_version t = ks_next_version s" "ks_envelopes t = ks_envelopes s"
    by (auto simp: memory_port_def memory_discard_audit_before_def Let_def)
  note frame = memory_frame[OF this]
  show ?case using 11
    by (auto simp: frame persists_def memory_port_def memory_discard_audit_before_def memory_view_def Let_def)
next
  case (12 s source e)
  then show ?case by (simp add: memory_view_def memory_inv_def memory_names_def)
next
  case (13 s source e bs)
  then show ?case by (simp add: memory_view_def memory_names_def)
next
  case (14 s source token found other)
  then show ?case by (auto simp: memory_view_def memory_vouches_def)
qed (auto simp: memory_port_def memory_read_def memory_sources_def memory_audit_def memory_view_def)

section \<open>A shared port\<close>

text \<open>
  The same storage with other writers: clones of a \<open>MemoryStorage\<close> share what they keep, so between
  two operations of one service others write. A schedule lists what they do before each operation,
  a sequence of conditional writes and removals. This instance keeps the promises with a drift that
  may change every envelope kept.
\<close>

datatype foreign_write =
    ForeignSwap document_id "string option" bytes
  | ForeignRemove document_id string

fun foreign_run :: "foreign_write \<Rightarrow> kept_state \<Rightarrow> kept_state" where
  "foreign_run (ForeignSwap d expected bs) s = snd (memory_compare_and_swap d expected bs s)"
| "foreign_run (ForeignRemove d version) s = snd (memory_compare_and_remove d version s)"

type_synonym shared_state = "kept_state \<times> foreign_write list list"

definition overtaken :: "shared_state \<Rightarrow> kept_state" where
  "overtaken st = (case snd st of [] \<Rightarrow> fst st | fs # _ \<Rightarrow> fold foreign_run fs (fst st))"

definition shared_act :: "(kept_state, 'a) storage_act \<Rightarrow> (shared_state, 'a) storage_act" where
  "shared_act m st = (case m (overtaken st) of (r, t) \<Rightarrow> (r, (t, tl (snd st))))"

definition shared_port :: "shared_state port" where
  "shared_port =
     \<lparr>port_source = memory_source,
      port_sources = (\<lambda>entity. shared_act (memory_sources entity)),
      port_read = (\<lambda>source. shared_act (memory_read source)),
      port_stamp = (\<lambda>source. shared_act (memory_stamp source)),
      port_compare_and_swap = (\<lambda>d expected bs. shared_act (memory_compare_and_swap d expected bs)),
      port_compare_and_remove = (\<lambda>d version. shared_act (memory_compare_and_remove d version)),
      port_preserve = (\<lambda>d label bs. shared_act (memory_preserve d label bs)),
      port_append_audit = (\<lambda>record. shared_act (memory_append_audit record)),
      port_audit = (\<lambda>q. shared_act (memory_audit q)),
      port_discard_audit_before = (\<lambda>ms. shared_act (memory_discard_audit_before ms))\<rparr>"

definition shared_drift :: "store_view \<Rightarrow> store_view \<Rightarrow> bool" where
  "shared_drift v v' \<longleftrightarrow> sv_trail v' = sv_trail v \<and> sv_evidence v' = sv_evidence v"

text \<open>What the other writers do keeps the facts about versions.\<close>

lemma foreign_run_ok:
  assumes "memory_inv s"
  shows "memory_inv (foreign_run f s) \<and> persists memory_vouches s (foreign_run f s)
    \<and> persists memory_names s (foreign_run f s) \<and> persists memory_retired s (foreign_run f s)
    \<and> shared_drift (memory_view s) (memory_view (foreign_run f s))"
proof (cases f)
  case (ForeignSwap d expected bs)
  have drift: "shared_drift (memory_view s) (memory_view (foreign_run f s))"
    by (auto simp: ForeignSwap memory_compare_and_swap_def Let_def memory_view_def shared_drift_def)
  show ?thesis
    using drift memory.swap_ok[OF assms, of d expected bs] assms
    by (simp add: ForeignSwap memory_port_def) (metis prod.collapse)
next
  case (ForeignRemove d version)
  have drift: "shared_drift (memory_view s) (memory_view (foreign_run f s))"
    by (auto simp: ForeignRemove memory_compare_and_remove_def memory_view_def shared_drift_def)
  show ?thesis
    using drift memory.remove_ok[OF assms, of d version] assms
    by (simp add: ForeignRemove memory_port_def) (metis prod.collapse)
qed

lemma overtaken_ok:
  assumes "memory_inv (fst st)"
  shows "memory_inv (overtaken st) \<and> persists memory_vouches (fst st) (overtaken st)
    \<and> persists memory_names (fst st) (overtaken st) \<and> persists memory_retired (fst st) (overtaken st)
    \<and> shared_drift (memory_view (fst st)) (memory_view (overtaken st))"
proof -
  have "memory_inv (fold foreign_run fs s) \<and> persists memory_vouches s (fold foreign_run fs s)
    \<and> persists memory_names s (fold foreign_run fs s) \<and> persists memory_retired s (fold foreign_run fs s)
    \<and> shared_drift (memory_view s) (memory_view (fold foreign_run fs s))" if "memory_inv s" for s fs
    using that
  proof (induction fs arbitrary: s)
    case (Cons f fs)
    note one = foreign_run_ok[OF Cons.prems, of f]
    note rest = Cons.IH[of "foreign_run f s"]
    show ?case using one rest by (auto simp: shared_drift_def intro: persists_trans)
  qed (simp add: shared_drift_def)
  from this[OF assms] assms show ?thesis
    by (auto simp: overtaken_def shared_drift_def split: list.splits)
qed

definition on_shared :: "(kept_state \<Rightarrow> string \<Rightarrow> string \<Rightarrow> 'x \<Rightarrow> bool) \<Rightarrow> shared_state \<Rightarrow> string \<Rightarrow> string \<Rightarrow> 'x \<Rightarrow> bool" where
  "on_shared R st = R (fst st)"

lemma shared_run:
  assumes "shared_act m st = (r, t)"
  shows "m (overtaken st) = (r, fst t)"
  using assms by (auto simp: shared_act_def split: prod.splits)

lemma shared_persists:
  assumes "persists R (fst st) (overtaken st)" and "persists R (overtaken st) (fst t)"
  shows "persists (on_shared R) st t"
  using assms by (simp add: persists_def on_shared_def)

interpretation shared: storage_port shared_port "\<lambda>st. memory_inv (fst st)" "\<lambda>st. memory_view (fst st)"
  shared_drift "on_shared memory_vouches" "on_shared memory_names" "on_shared memory_retired"
proof (unfold_locales, goal_cases)
  case (3 st source r t)
  note o = overtaken_ok[OF 3(1)]
  have "port_read memory_port source (overtaken st) = (r, fst t)"
    using 3(2) by (simp add: shared_port_def memory_port_def shared_run)
  from memory.read_ok[OF _ this] o show ?case
    by (auto simp: shared_persists)
next
  case (4 st source r t)
  note o = overtaken_ok[OF 4(1)]
  have "port_stamp memory_port source (overtaken st) = (r, fst t)"
    using 4(2) by (simp add: shared_port_def memory_port_def shared_run)
  from memory.stamp_ok[OF _ this] o show ?case
    by (auto simp: shared_persists on_shared_def dest: persistsD)
next
  case (5 st d expected bs r t)
  note o = overtaken_ok[OF 5(1)]
  have "port_compare_and_swap memory_port d expected bs (overtaken st) = (r, fst t)"
    using 5(2) by (simp add: shared_port_def memory_port_def shared_run)
  from memory.swap_ok[OF _ this] o show ?case
    by (auto simp: shared_persists on_shared_def shared_port_def memory_port_def intro!: exI[of _ "memory_view (overtaken st)"]
        dest: persistsD split: sum.splits option.splits)
next
  case (6 st d version r t)
  note o = overtaken_ok[OF 6(1)]
  have "port_compare_and_remove memory_port d version (overtaken st) = (r, fst t)"
    using 6(2) by (simp add: shared_port_def memory_port_def shared_run)
  from memory.remove_ok[OF _ this] o show ?case
    by (auto simp: shared_persists on_shared_def shared_port_def memory_port_def
        intro!: exI[of _ "memory_view (overtaken st)"] split: sum.splits bool.splits)
next
  case (7 st d label bs r t)
  note o = overtaken_ok[OF 7(1)]
  have "port_preserve memory_port d label bs (overtaken st) = (r, fst t)"
    using 7(2) by (simp add: shared_port_def memory_port_def shared_run)
  from memory.preserve_ok[OF _ this] o show ?case
    by (auto simp: shared_persists on_shared_def intro!: exI[of _ "memory_view (overtaken st)"]
        split: sum.splits)
next
  case (8 st entry r t)
  note o = overtaken_ok[OF 8(1)]
  have "port_append_audit memory_port entry (overtaken st) = (r, fst t)"
    using 8(2) by (simp add: shared_port_def memory_port_def shared_run)
  from memory.append_audit_ok[OF _ this] o show ?case
    by (auto simp: shared_persists on_shared_def intro!: exI[of _ "memory_view (overtaken st)"]
        split: sum.splits)
next
  case (9 st entity r t)
  note o = overtaken_ok[OF 9(1)]
  have "port_sources memory_port entity (overtaken st) = (r, fst t)"
    using 9(2) by (simp add: shared_port_def memory_port_def shared_run)
  from memory.sources_ok[OF _ this] o show ?case
    by (auto simp: shared_persists on_shared_def)
next
  case (10 st q r t)
  note o = overtaken_ok[OF 10(1)]
  have "port_audit memory_port q (overtaken st) = (r, fst t)"
    using 10(2) by (simp add: shared_port_def memory_port_def shared_run)
  from memory.audit_ok[OF _ this] o show ?case
    by (auto simp: shared_persists on_shared_def)
next
  case (11 st ms r t)
  note o = overtaken_ok[OF 11(1)]
  have "port_discard_audit_before memory_port ms (overtaken st) = (r, fst t)"
    using 11(2) by (simp add: shared_port_def memory_port_def shared_run)
  from memory.discard_ok[OF _ this] o show ?case
    by (auto simp: shared_persists on_shared_def intro!: exI[of _ "memory_view (overtaken st)"]
        split: sum.splits)
next
  case (12 st source e)
  then show ?case using memory.kept_names[OF 12] by (simp add: on_shared_def)
next
  case (13 st source e bs)
  then show ?case using memory.names_kept[OF 13(1), of source e bs] by (simp add: on_shared_def)
next
  case (14 st source token found other)
  then show ?case using memory.moved_on[OF 14(1), of source token found other] by (simp add: on_shared_def)
qed (auto simp: shared_drift_def)

end
