(* ===== verification/Residency.thy ===== *)
theory Residency
  imports Storage
begin

text \<open>
  \<open>crates/clerkenwell-store/src/residency.rs\<close> and the state of one service
  (\<open>CollaborationService\<close>): the storage behind its port, the documents it holds in memory, its
  counters, its change feed, and how many random identifiers and times it has drawn.

  An \<open>Arc<Resident>\<close> is a resident, whose envelope never changes, with an identity; the cells behind
  its three mutexes (stamp, replica, materialised document) are found by the identity, so every
  holder of the resident sees them change. One request runs at a time; what other writers do to
  the storage is within the port's actions.
\<close>

record resident =
  res_id :: nat
  res_version :: string
  res_envelope :: envelope
  res_accepted :: collaboration_version

record 'd cells =
  cell_stamp :: "string option"
  cell_replica :: "'d replica option"
  cell_materialized :: "json option"

record counters =
  ctr_duplicate_imports :: u64
  ctr_dependency_blocks :: u64
  ctr_resync_requirements :: u64
  ctr_materialisation_failures :: u64
  ctr_commit_contention :: u64
  ctr_resident_documents :: u64
  ctr_resident_checkpoint_bytes :: u64

record ('s, 'd) world =
  w_storage :: 's
  w_held :: "(string, resident) bmap"
  w_cells :: "nat \<Rightarrow> 'd cells"
  w_next_resident :: nat
  w_counters :: counters
  w_feed :: change_feed
  w_draws :: nat

type_synonym ('s, 'd, 'a) svc_act = "(('s, 'd) world, store_error, 'a) act"

definition on_storage :: "('s, 'a) storage_act \<Rightarrow> ('s, 'd, 'a) svc_act" where
  "on_storage m w = (case m (w_storage w) of (r, s) \<Rightarrow> (r, w\<lparr>w_storage := s\<rparr>))"

definition counting :: "(counters \<Rightarrow> counters) \<Rightarrow> (('s, 'd) world, 'e, unit) act" where
  "counting f = act_modify (\<lambda>w. w\<lparr>w_counters := f (w_counters w)\<rparr>)"

section \<open>Residents\<close>

definition empty_cells :: "string option \<Rightarrow> 'd cells" where
  "empty_cells stamp = \<lparr>cell_stamp = stamp, cell_replica = None, cell_materialized = None\<rparr>"

definition resident_new ::
  "string \<Rightarrow> string option \<Rightarrow> envelope \<Rightarrow> (u64, u64) bmap \<Rightarrow> ('s, 'd, resident) svc_act"
where
  "resident_new version stamp e peers w =
     (let i = w_next_resident w in
      (Inr \<lparr>res_id = i, res_version = version, res_envelope = e,
            res_accepted = \<lparr>cv_incarnation = env_incarnation e, cv_peers = peers\<rparr>\<rparr>,
       w\<lparr>w_next_resident := Suc i, w_cells := (w_cells w)(i := empty_cells stamp)\<rparr>))"

definition vouched_for_by :: "('s, 'd) world \<Rightarrow> resident \<Rightarrow> string option \<Rightarrow> bool" where
  "vouched_for_by w r stamp \<longleftrightarrow> stamp \<noteq> None \<and> cell_stamp (w_cells w (res_id r)) = stamp"

definition update_cells :: "nat \<Rightarrow> ('d cells \<Rightarrow> 'd cells) \<Rightarrow> ('s, 'd) world \<Rightarrow> ('s, 'd) world" where
  "update_cells i f w = w\<lparr>w_cells := (w_cells w)(i := f (w_cells w i))\<rparr>"

definition restamp :: "resident \<Rightarrow> string option \<Rightarrow> ('s, 'd, unit) svc_act" where
  "restamp r stamp = act_modify (update_cells (res_id r) (\<lambda>c. c\<lparr>cell_stamp := stamp\<rparr>))"

definition resident_replica ::
  "resident \<Rightarrow> (envelope \<Rightarrow> 'd replica store_result) \<Rightarrow> ('s, 'd, 'd replica) svc_act"
where
  "resident_replica r build w =
     (case cell_replica (w_cells w (res_id r)) of
        Some built \<Rightarrow> (Inr built, w)
      | None \<Rightarrow>
          (case build (res_envelope r) of
             Inl e \<Rightarrow> (Inl e, w)
           | Inr built \<Rightarrow> (Inr built, update_cells (res_id r) (\<lambda>c. c\<lparr>cell_replica := Some built\<rparr>) w)))"

definition resident_materialized ::
  "resident \<Rightarrow> json store_result \<Rightarrow> ('s, 'd, json) svc_act"
where
  "resident_materialized r build w =
     (case cell_materialized (w_cells w (res_id r)) of
        Some v \<Rightarrow> (Inr v, w)
      | None \<Rightarrow>
          (case build of
             Inl e \<Rightarrow> (Inl e, w)
           | Inr v \<Rightarrow> (Inr v, update_cells (res_id r) (\<lambda>c. c\<lparr>cell_materialized := Some v\<rparr>) w)))"

text \<open>\<open>get_or_insert\<close> on an optional cell.\<close>

definition get_or :: "'a option \<Rightarrow> 'a option \<Rightarrow> 'a option" where
  "get_or held new = (case held of Some x \<Rightarrow> Some x | None \<Rightarrow> new)"

definition offer :: "resident \<Rightarrow> 'd replica \<Rightarrow> json \<Rightarrow> ('s, 'd, unit) svc_act" where
  "offer r built v = act_modify (update_cells (res_id r) (\<lambda>c.
     c\<lparr>cell_replica := get_or (cell_replica c) (Some built),
       cell_materialized := get_or (cell_materialized c) (Some v)\<rparr>))"

definition inherit :: "resident \<Rightarrow> resident \<Rightarrow> ('s, 'd) world \<Rightarrow> ('s, 'd) world" where
  "inherit r earlier w =
     (if env_checkpoint_sha256 (res_envelope earlier) \<noteq> env_checkpoint_sha256 (res_envelope r)
         \<or> env_schema_version (res_envelope earlier) \<noteq> env_schema_version (res_envelope r)
      then w
      else update_cells (res_id r) (\<lambda>c.
        c\<lparr>cell_replica := get_or (cell_replica c) (cell_replica (w_cells w (res_id earlier))),
          cell_materialized := get_or (cell_materialized c) (cell_materialized (w_cells w (res_id earlier)))\<rparr>) w)"

section \<open>The documents held\<close>

definition count :: "int \<Rightarrow> resident \<Rightarrow> counters \<Rightarrow> counters" where
  "count sign r c =
     (let size = word_of_nat (env_checkpoint_bytes (res_envelope r)) in
      if sign > 0
      then c\<lparr>ctr_resident_documents := ctr_resident_documents c + 1,
             ctr_resident_checkpoint_bytes := ctr_resident_checkpoint_bytes c + size\<rparr>
      else c\<lparr>ctr_resident_documents := ctr_resident_documents c - 1,
             ctr_resident_checkpoint_bytes := ctr_resident_checkpoint_bytes c - size\<rparr>)"

definition residency_get :: "string \<Rightarrow> ('s, 'd, resident option) svc_act" where
  "residency_get source = act_gets (\<lambda>w. map_of (w_held w) source)"

definition hold :: "string \<Rightarrow> resident \<Rightarrow> ('s, 'd, unit) svc_act" where
  "hold source r w =
     (let replaced = map_of (w_held w) source;
          w1 = w\<lparr>w_held := bmap_insert source r (w_held w)\<rparr>;
          w2 = (case replaced of
              None \<Rightarrow> w1
            | Some earlier \<Rightarrow>
                (let w' = inherit r earlier w1 in w'\<lparr>w_counters := count (- 1) earlier (w_counters w')\<rparr>)) in
      (Inr (), w2\<lparr>w_counters := count 1 r (w_counters w2)\<rparr>))"

definition forget :: "string \<Rightarrow> ('s, 'd, unit) svc_act" where
  "forget source w =
     (case map_of (w_held w) source of
        None \<Rightarrow> (Inr (), w)
      | Some earlier \<Rightarrow>
          (Inr (), w\<lparr>w_held := bmap_remove source (w_held w),
                    w_counters := count (- 1) earlier (w_counters w)\<rparr>))"

definition residency_drop :: "('s, 'd, unit) svc_act" where
  "residency_drop w =
     (Inr (), w\<lparr>w_held := [],
        w_counters := foldl (\<lambda>c e. count (- 1) (snd e) c) (w_counters w) (w_held w)\<rparr>)"

section \<open>The residency counters\<close>

text \<open>
  What the counters count besides the documents this service holds: the other services that share
  them. No operation on the documents held changes it.
\<close>

definition held_bytes :: "(string, resident) bmap \<Rightarrow> u64" where
  "held_bytes m = sum_list (map (\<lambda>e. word_of_nat (env_checkpoint_bytes (res_envelope (snd e)))) m)"

definition counted_elsewhere :: "('s, 'd) world \<Rightarrow> u64 \<times> u64" where
  "counted_elsewhere w =
     (ctr_resident_documents (w_counters w) - word_of_nat (length (w_held w)),
      ctr_resident_checkpoint_bytes (w_counters w) - held_bytes (w_held w))"

lemma held_bytes_insert:
  assumes "bmap_ok m"
  shows "word_of_nat (length (bmap_insert k r m)) = (word_of_nat (length m) :: u64)
      + (if map_of m k = None then 1 else 0)"
    and "held_bytes (bmap_insert k r m) = held_bytes m
      + word_of_nat (env_checkpoint_bytes (res_envelope r))
      - (case map_of m k of None \<Rightarrow> 0 | Some e \<Rightarrow> word_of_nat (env_checkpoint_bytes (res_envelope e)))"
  using assms
proof (induction k r m rule: bmap_insert.induct)
  case (2 k r k' r' m)
  {
    case 1
    have "k \<noteq> k' \<Longrightarrow> k < k' \<Longrightarrow> map_of m k = None"
      using 1 by (auto simp: bmap_ok_def map_of_eq_None_iff)
    with 1 "2.IH"(1) show ?case by (auto simp: bmap_ok_def)
  next
    case 2
    have "k \<noteq> k' \<Longrightarrow> k < k' \<Longrightarrow> map_of m k = None"
      using 2 by (auto simp: bmap_ok_def map_of_eq_None_iff)
    with 2 "2.IH"(2) show ?case by (auto simp: bmap_ok_def held_bytes_def algebra_simps split: option.splits)
  }
qed (simp_all add: held_bytes_def)

lemma held_bytes_remove:
  assumes "bmap_ok m" and "map_of m k = Some e"
  shows "word_of_nat (length (bmap_remove k m)) = (word_of_nat (length m) :: u64) - 1"
    and "held_bytes (bmap_remove k m) = held_bytes m - word_of_nat (env_checkpoint_bytes (res_envelope e))"
  using assms
proof (induction m)
  case (Cons a m)
  have gone: "bmap_ok (a # m) \<Longrightarrow> fst a = k \<Longrightarrow> filter (\<lambda>e. fst e \<noteq> k) m = m"
    by (auto simp: bmap_ok_def filter_id_conv)
  {
    case 1
    with Cons.IH(1) gone show ?case by (auto simp: bmap_ok_def bmap_remove_def)
  next
    case 2
    with Cons.IH(2) gone show ?case
      by (auto simp: bmap_ok_def bmap_remove_def held_bytes_def algebra_simps)
  }
qed simp_all

lemma count_elsewhere:
  "ctr_resident_documents (count 1 r c) = ctr_resident_documents c + 1"
  "ctr_resident_documents (count (- 1) r c) = ctr_resident_documents c - 1"
  "ctr_resident_checkpoint_bytes (count 1 r c)
     = ctr_resident_checkpoint_bytes c + word_of_nat (env_checkpoint_bytes (res_envelope r))"
  "ctr_resident_checkpoint_bytes (count (- 1) r c)
     = ctr_resident_checkpoint_bytes c - word_of_nat (env_checkpoint_bytes (res_envelope r))"
  by (simp_all add: count_def Let_def)

lemma update_cells_simps [simp]:
  "w_held (update_cells i f w) = w_held w" "w_counters (update_cells i f w) = w_counters w"
  "w_storage (update_cells i f w) = w_storage w" "w_feed (update_cells i f w) = w_feed w"
  "w_draws (update_cells i f w) = w_draws w" "w_next_resident (update_cells i f w) = w_next_resident w"
  by (simp_all add: update_cells_def)

lemma inherit_simps [simp]:
  "w_held (inherit r e w) = w_held w" "w_counters (inherit r e w) = w_counters w"
  "w_storage (inherit r e w) = w_storage w" "w_feed (inherit r e w) = w_feed w"
  "w_draws (inherit r e w) = w_draws w" "w_next_resident (inherit r e w) = w_next_resident w"
  by (simp_all add: inherit_def)

lemma residency_counts_parts:
  assumes "bmap_ok (w_held w)"
  shows "counted_elsewhere (snd (hold source r w)) = counted_elsewhere w"
    and "counted_elsewhere (snd (forget source w)) = counted_elsewhere w"
    and "counted_elsewhere (snd (residency_drop w))
      = (ctr_resident_documents (w_counters (snd (residency_drop w))),
         ctr_resident_checkpoint_bytes (w_counters (snd (residency_drop w))))"
    and "counted_elsewhere (snd (residency_drop w)) = counted_elsewhere w"
proof -
  show "counted_elsewhere (snd (hold source r w)) = counted_elsewhere w"
    using held_bytes_insert[OF assms, of source r]
    by (simp add: counted_elsewhere_def hold_def Let_def count_elsewhere split: option.splits)
  show "counted_elsewhere (snd (forget source w)) = counted_elsewhere w"
    using held_bytes_remove[OF assms, of source]
    by (simp add: counted_elsewhere_def forget_def count_elsewhere split: option.splits)
  show "counted_elsewhere (snd (residency_drop w))
      = (ctr_resident_documents (w_counters (snd (residency_drop w))),
         ctr_resident_checkpoint_bytes (w_counters (snd (residency_drop w))))"
    by (simp add: counted_elsewhere_def residency_drop_def held_bytes_def)
  have "ctr_resident_documents (foldl (\<lambda>c e. count (- 1) (snd e) c) c m)
        = ctr_resident_documents c - word_of_nat (length m)
      \<and> ctr_resident_checkpoint_bytes (foldl (\<lambda>c e. count (- 1) (snd e) c) c m)
        = ctr_resident_checkpoint_bytes c - held_bytes m" for c and m :: "(string, resident) bmap"
    by (induction m arbitrary: c) (simp_all add: held_bytes_def count_elsewhere algebra_simps)
  then show "counted_elsewhere (snd (residency_drop w)) = counted_elsewhere w"
    by (simp add: counted_elsewhere_def residency_drop_def held_bytes_def)
qed

text \<open>
  (C11) The residency counters are exact: whatever a service holds, forgets or drops, the counters
  it shares change by exactly the documents and checkpoint bytes it starts or stops holding, modulo
  the width of the counters; a service that holds nothing contributes nothing.
\<close>

theorem residency_counts_exact:
  assumes "bmap_ok (w_held w)"
  shows "counted_elsewhere (snd (hold source r w)) = counted_elsewhere w
    \<and> counted_elsewhere (snd (forget source w)) = counted_elsewhere w
    \<and> counted_elsewhere (snd (residency_drop w)) = counted_elsewhere w
    \<and> counted_elsewhere (snd (residency_drop w))
      = (ctr_resident_documents (w_counters (snd (residency_drop w))),
         ctr_resident_checkpoint_bytes (w_counters (snd (residency_drop w))))"
  using residency_counts_parts[OF assms] by blast

end
