(* ===== verification/Service.thy ===== *)
theory Service
  imports Residency
begin

text \<open>
  The read side and the commit of the collaboration service,
  \<open>crates/clerkenwell-store/src/lib.rs\<close>: what a service is configured with, how it reads a
  document through its residency, announces changes, commits an operation, and answers summaries,
  attribution and authoring states.
\<close>

record ('s, 'd, 'f) service =
  svc_port :: "'s port"
  svc_plans :: "entity_spec list"
  svc_policy :: commit_policy
  svc_key :: bytes
  svc_source :: string
  svc_ext :: "('d, 'f) ext"

abbreviation svc_loro :: "('s, 'd, 'f) service \<Rightarrow> ('d, 'f) loro" where
  "svc_loro S \<equiv> ext_loro (svc_ext S)"

definition source_of :: "('s, 'd, 'f) service \<Rightarrow> document_id \<Rightarrow> string" where
  "source_of S document = port_source (svc_port S) document"

text \<open>\<open>CollaborationService::new\<close> over a storage: nothing held, every counter zero, no listener.\<close>

definition fresh_world :: "'s \<Rightarrow> ('s, 'd) world" where
  "fresh_world s =
     \<lparr>w_storage = s, w_held = [], w_cells = (\<lambda>_. empty_cells None), w_next_resident = 0,
      w_counters = \<lparr>ctr_duplicate_imports = 0, ctr_dependency_blocks = 0, ctr_resync_requirements = 0,
        ctr_materialisation_failures = 0, ctr_commit_contention = 0, ctr_resident_documents = 0,
        ctr_resident_checkpoint_bytes = 0\<rparr>,
      w_feed = [], w_draws = 0\<rparr>"

section \<open>Identifiers, peers and announcements\<close>

definition draw :: "(nat \<Rightarrow> 'a) \<Rightarrow> (('s, 'd) world, 'e, 'a) act" where
  "draw stream w = (Inr (stream (w_draws w)), w\<lparr>w_draws := Suc (w_draws w)\<rparr>)"

definition new_incarnation :: "('s, 'd, 'f) service \<Rightarrow> (('s, 'd) world, 'e, string) act" where
  "new_incarnation S = draw (ext_uuid (svc_ext S))"

text \<open>\<open>Uuid::simple\<close>: an identifier without its hyphens.\<close>

definition simple_uuid :: "string \<Rightarrow> string" where
  "simple_uuid u = filter (\<lambda>c. c \<noteq> CHR ''-'') u"

definition allocate_peers ::
  "('s, 'd, 'f) service \<Rightarrow> principal \<Rightarrow> document_id \<Rightarrow> (('s, 'd) world, 'e, peer_block) act"
where
  "allocate_peers S who document =
     act_bind (draw (ext_uuid (svc_ext S))) (\<lambda>u.
     act_return (allocate (ext_hmac (svc_ext S)) (svc_key S) who document (simple_uuid u)))"

definition system_principal :: "('s, 'd, 'f) service \<Rightarrow> principal" where
  "system_principal S = principal_new (svc_source S) System"

definition system_peer :: "('s, 'd, 'f) service \<Rightarrow> document_id \<Rightarrow> (('s, 'd) world, 'e, u64) act" where
  "system_peer S document =
     act_bind (allocate_peers S (system_principal S) document) (\<lambda>block. act_return (pb_base block))"

text \<open>An event is built, and its data read, only when the feed has a listener.\<close>

definition announce_change ::
  "('s, 'd, 'f) service \<Rightarrow> change_kind \<Rightarrow> u64 option \<Rightarrow> principal \<Rightarrow> string option \<Rightarrow>
   ('s, 'd, change_data) svc_act \<Rightarrow> ('s, 'd, unit) svc_act"
where
  "announce_change S kind generation actor intent data =
     act_bind (act_gets (\<lambda>w. feed_is_heard (w_feed w))) (\<lambda>heard.
     if \<not> heard then act_return ()
     else
       act_bind (draw (ext_uuid (svc_ext S))) (\<lambda>i.
       act_bind (draw (ext_now_rfc3339 (svc_ext S))) (\<lambda>time.
       act_bind data (\<lambda>d.
       act_modify (\<lambda>w. w\<lparr>w_feed := feed_announce
         ((change_event_new i (svc_source S) kind time generation actor d)\<lparr>ce_intent := intent\<rparr>)
         (w_feed w)\<rparr>)))))"

section \<open>Reading\<close>

definition svc_replica ::
  "('s, 'd, 'f) service \<Rightarrow> entity_spec \<Rightarrow> document_id \<Rightarrow> resident \<Rightarrow> ('s, 'd, 'd replica) svc_act"
where
  "svc_replica S plan document r =
     resident_replica r (load_authoring_document (svc_ext S) plan document)"

definition svc_materialized ::
  "('s, 'd, 'f) service \<Rightarrow> entity_spec \<Rightarrow> document_id \<Rightarrow> resident \<Rightarrow> ('s, 'd, json) svc_act"
where
  "svc_materialized S plan document r =
     act_bind (svc_replica S plan document r) (\<lambda>built.
     resident_materialized r (map_err (replica_store_error document)
       (materialized_document (svc_loro S) built (envelope_etag (res_envelope r)))))"

definition svc_resident ::
  "('s, 'd, 'f) service \<Rightarrow> string \<Rightarrow> document_id option \<Rightarrow> ('s, 'd, resident option) svc_act"
where
  "svc_resident S source document =
     act_bind (residency_get source) (\<lambda>held.
     act_bind (on_storage (port_stamp (svc_port S) source)) (\<lambda>stamp.
     act_bind (act_gets (\<lambda>w. case held of
         Some r \<Rightarrow> if vouched_for_by w r stamp then Some r else None | None \<Rightarrow> None)) (\<lambda>served.
     case served of
       Some r \<Rightarrow> act_return (Some r)
     | None \<Rightarrow>
         act_bind (on_storage (port_read (svc_port S) source)) (\<lambda>stored.
         case stored of
           None \<Rightarrow> act_bind (forget source) (\<lambda>_. act_return None)
         | Some st \<Rightarrow>
             (case (case held of
                 Some r \<Rightarrow> if res_version r = se_version st then Some r else None | None \<Rightarrow> None) of
                Some r \<Rightarrow> act_bind (restamp r stamp) (\<lambda>_. act_return (Some r))
              | None \<Rightarrow>
                  act_bind (act_lift (parse_envelope (svc_ext S) document (se_bytes st))) (\<lambda>e.
                  act_bind (act_lift (validate_envelope (svc_ext S)
                    (case document of
                       Some d \<Rightarrow> d | None \<Rightarrow> document_id_new (env_entity e) (env_resource_id e)) e)) (\<lambda>peers.
                  act_bind (resident_new (se_version st) stamp e peers) (\<lambda>r.
                  act_bind (hold source r) (\<lambda>_.
                  act_return (Some r))))))))))"

definition read_envelope ::
  "('s, 'd, 'f) service \<Rightarrow> document_id \<Rightarrow> ('s, 'd, resident option) svc_act"
where
  "read_envelope S document = svc_resident S (source_of S document) (Some document)"

definition accepted_frontier ::
  "('s, 'd, 'f) service \<Rightarrow> envelope \<Rightarrow> ('s, 'd, string option) svc_act"
where
  "accepted_frontier S e =
     (case find (\<lambda>plan. plan_name plan = env_entity e) (svc_plans S) of
        None \<Rightarrow> act_return None
      | Some plan \<Rightarrow>
          (let document = document_id_new (env_entity e) (env_resource_id e) in
           act_bind (residency_get (source_of S document)) (\<lambda>held.
           act_bind (case (case held of
               Some r \<Rightarrow>
                 if env_checkpoint_sha256 (res_envelope r) = env_checkpoint_sha256 e
                    \<and> env_schema_version (res_envelope r) = env_schema_version e then Some r else None
             | None \<Rightarrow> None) of
               Some r \<Rightarrow> act_result (svc_replica S plan document r)
             | None \<Rightarrow> act_return (load_authoring_document (svc_ext S) plan document e)) (\<lambda>built.
           act_return (map_option (accepted_frontier_base64 (svc_loro S)) (res_ok built))))))"

record summary =
  sum_document :: document_id
  sum_schema_version :: u32
  sum_version :: collaboration_version
  sum_generation :: u64
  sum_etag :: string
  sum_checkpoint_sha256 :: string
  sum_checkpoint_bytes :: nat
  sum_checkpoint_sequence :: u64
  sum_compacted_through_sequence :: u64
  sum_retained_sequences :: "(u64 \<times> u64) option"
  sum_retained_count :: nat

definition summary_of :: "resident \<Rightarrow> summary" where
  "summary_of r =
     (let e = res_envelope r; ops = env_retained_operations e in
      \<lparr>sum_document = document_id_new (env_entity e) (env_resource_id e),
       sum_schema_version = env_schema_version e,
       sum_version = res_accepted r,
       sum_generation = env_generation e,
       sum_etag = envelope_etag e,
       sum_checkpoint_sha256 = env_checkpoint_sha256 e,
       sum_checkpoint_bytes = env_checkpoint_bytes e,
       sum_checkpoint_sequence = env_checkpoint_sequence e,
       sum_compacted_through_sequence = env_compacted_through_sequence e,
       sum_retained_sequences =
         (if ops = [] then None else Some (op_sequence (hd ops), op_sequence (last ops))),
       sum_retained_count = length ops\<rparr>)"

definition svc_summary ::
  "('s, 'd, 'f) service \<Rightarrow> document_id \<Rightarrow> ('s, 'd, summary option) svc_act"
where
  "svc_summary S document =
     act_bind (read_envelope S document) (\<lambda>read. act_return (map_option summary_of read))"

definition svc_summaries :: "('s, 'd, 'f) service \<Rightarrow> string \<Rightarrow> ('s, 'd, summary list) svc_act" where
  "svc_summaries S entity =
     act_bind (on_storage (port_sources (svc_port S) entity)) (\<lambda>sources.
     act_bind (act_collect (\<lambda>source. svc_resident S source None) sources) (\<lambda>reads.
     act_return (sort_key (\<lambda>s. doc_resource_id (sum_document s))
       (List.map_filter (map_option summary_of) reads))))"

record document_read =
  dr_summary :: summary
  dr_document :: json
  dr_accepted_frontier_base64 :: string

definition read_document ::
  "('s, 'd, 'f) service \<Rightarrow> entity_spec \<Rightarrow> document_id \<Rightarrow> ('s, 'd, document_read option) svc_act"
where
  "read_document S plan document =
     act_bind (read_envelope S document) (\<lambda>read.
     case read of
       None \<Rightarrow> act_return None
     | Some r \<Rightarrow>
         act_bind (svc_materialized S plan document r) (\<lambda>v.
         act_bind (svc_replica S plan document r) (\<lambda>built.
         act_return (Some \<lparr>dr_summary = summary_of r, dr_document = v,
           dr_accepted_frontier_base64 = accepted_frontier_base64 (svc_loro S) built\<rparr>))))"

definition svc_detail ::
  "('s, 'd, 'f) service \<Rightarrow> entity_spec \<Rightarrow> document_id \<Rightarrow> ('s, 'd, json option) svc_act"
where
  "svc_detail S plan document =
     act_bind (read_envelope S document) (\<lambda>read.
     case read of
       None \<Rightarrow> act_return None
     | Some r \<Rightarrow> act_bind (svc_materialized S plan document r) (\<lambda>v. act_return (Some v)))"

record attributed_operation =
  ao_operation_id :: string
  ao_sequence :: u64
  ao_actor :: principal
  ao_intent :: "string option"

record attribution =
  at_peers :: "(u64, principal) bmap"
  at_operations :: "attributed_operation list"

definition attribution_of :: "envelope \<Rightarrow> attribution" where
  "attribution_of e =
     \<lparr>at_peers = env_peers e,
      at_operations = map (\<lambda>op. \<lparr>ao_operation_id = op_operation_id op, ao_sequence = op_sequence op,
        ao_actor = op_actor op, ao_intent = op_intent op\<rparr>) (env_retained_operations e)\<rparr>"

definition svc_attribution ::
  "('s, 'd, 'f) service \<Rightarrow> document_id \<Rightarrow> ('s, 'd, attribution option) svc_act"
where
  "svc_attribution S document =
     act_bind (read_envelope S document) (\<lambda>read.
     act_return (map_option (\<lambda>r. attribution_of (res_envelope r)) read))"

section \<open>Writing\<close>

definition svc_swap ::
  "('s, 'd, 'f) service \<Rightarrow> document_id \<Rightarrow> string option \<Rightarrow> envelope \<Rightarrow> ('s, 'd, resident option) svc_act"
where
  "svc_swap S document expected e =
     act_bind (act_lift (validate_envelope (svc_ext S) document e)) (\<lambda>peers.
     act_bind (act_lift (map_err (\<lambda>_. internal) (ext_envelope_encode (svc_ext S) e))) (\<lambda>bs.
     act_bind (on_storage (port_compare_and_swap (svc_port S) document expected bs)) (\<lambda>swapped.
     case swapped of
       None \<Rightarrow> act_return None
     | Some version \<Rightarrow>
         act_bind (resident_new version None e peers) (\<lambda>r.
         act_bind (hold (source_of S document) r) (\<lambda>_.
         act_return (Some r))))))"

definition svc_remove :: "('s, 'd, 'f) service \<Rightarrow> document_id \<Rightarrow> string \<Rightarrow> ('s, 'd, bool) svc_act" where
  "svc_remove S document expected =
     act_bind (on_storage (port_compare_and_remove (svc_port S) document expected)) (\<lambda>removed.
     act_bind (if removed then forget (source_of S document) else act_return ()) (\<lambda>_.
     act_return removed))"

datatype commit_outcome = CommitAccepted resident | CommitDuplicate resident | CommitStale

definition bound_elsewhere :: "envelope \<Rightarrow> commit_request \<Rightarrow> u64 list" where
  "bound_elsewhere e commit =
     filter (\<lambda>peer. case map_of (env_peers e) peer of
         Some bound \<Rightarrow> bound \<noteq> cm_actor commit | None \<Rightarrow> False) (cm_peers commit)"

definition peer_bound_error :: "document_id \<Rightarrow> u64 list \<Rightarrow> store_error" where
  "peer_bound_error document peers = with_data conflict
     (document_data ''collaboration_peer_bound'' document
       [(''peers'', JArray (map (\<lambda>p. JString (dec (unat p))) peers))])"

text \<open>What a commit finds before it writes: a duplicate, a collision, or nothing of its operation.\<close>

definition commit_lookup ::
  "('d, 'f) ext \<Rightarrow> resident \<Rightarrow> commit_request \<Rightarrow> bool store_result"
where
  "commit_lookup X r commit =
     (case find (\<lambda>op. op_operation_id op = cm_operation_id commit)
         (env_retained_operations (res_envelope r)) of
        Some existing \<Rightarrow>
          if op_update_sha256 existing = sha256_hex X (cm_imported_update commit) then Inr True
          else Inl (operation_id_collision (cm_document commit) (cm_operation_id commit))
      | None \<Rightarrow>
          Inr (\<not> cm_has_new_operations commit
            \<or> env_checkpoint_sha256 (res_envelope r) = sha256_hex X (cm_accepted_update commit)))"

definition commit_write ::
  "('s, 'd, 'f) service \<Rightarrow> resident option \<Rightarrow> commit_request \<Rightarrow> ('s, 'd, commit_outcome) svc_act"
where
  "commit_write S current commit =
     act_bind (act_lift (case current of
         Some r \<Rightarrow>
           (let elsewhere = bound_elsewhere (res_envelope r) commit in
            if elsewhere \<noteq> [] then Inl (peer_bound_error (cm_document commit) elsewhere) else Inr ())
       | None \<Rightarrow> Inr ())) (\<lambda>_.
     act_bind (if cm_incarnation commit = None \<and> current = None then new_incarnation S
               else act_return []) (\<lambda>minted.
     let document = cm_document commit;
         e = next_envelope (svc_ext S) (svc_policy S) minted (map_option res_envelope current)
           document commit in
     act_bind (svc_swap S document (map_option res_version current) e) (\<lambda>swapped.
     case swapped of
       None \<Rightarrow> act_return CommitStale
     | Some accepted \<Rightarrow>
         act_bind (announce_change S Committed (Some (env_generation e)) (cm_actor commit)
           (cm_intent commit)
           (act_bind (case cm_frontier_after commit of
               Some f \<Rightarrow> act_return (Some f) | None \<Rightarrow> accepted_frontier S e) (\<lambda>frontier_after.
            act_return
              \<lparr>cd_entity = doc_entity document, cd_resource_id = doc_resource_id document,
               cd_etag_before = map_option (\<lambda>r. envelope_etag (res_envelope r)) current,
               cd_etag_after = Some (envelope_etag e),
               cd_frontier_before = cm_frontier_before commit,
               cd_frontier_after = frontier_after,
               cd_operation_id = Some (cm_operation_id commit)\<rparr>))) (\<lambda>_.
         act_return (CommitAccepted accepted)))))"

definition svc_commit ::
  "('s, 'd, 'f) service \<Rightarrow> resident option \<Rightarrow> commit_request \<Rightarrow> ('s, 'd, commit_outcome) svc_act"
where
  "svc_commit S current commit =
     (case current of
        None \<Rightarrow> commit_write S None commit
      | Some r \<Rightarrow>
          act_bind (act_lift (commit_lookup (svc_ext S) r commit)) (\<lambda>duplicate.
          if duplicate then act_return (CommitDuplicate r) else commit_write S (Some r) commit))"

section \<open>Authoring states\<close>

record store_authoring_state =
  sas_schema_version :: u32
  sas_version :: collaboration_version
  sas_accepted_frontier_base64 :: string
  sas_update_base64 :: string
  sas_etag :: string
  sas_replaces_held :: bool

definition into_authoring_state :: "store_authoring_state \<Rightarrow> peer_block \<Rightarrow> authoring_state" where
  "into_authoring_state st peers =
     \<lparr>as_schema_version = sas_schema_version st,
      as_accepted_frontier_base64 = sas_accepted_frontier_base64 st,
      as_update_base64 = sas_update_base64 st,
      as_etag = sas_etag st,
      as_exchange_modes = [Incremental, Bootstrap],
      as_peer_block = \<lparr>apb_nonce = pb_nonce peers, apb_base = dec (unat (pb_base peers)),
        apb_index_bits = peer_index_bits\<rparr>,
      as_replaces_held = sas_replaces_held st\<rparr>"

text \<open>What a peer lacks, and whether it replaces what it holds.\<close>

definition lacking_update ::
  "('d, 'f) loro \<Rightarrow> document_id \<Rightarrow> resident \<Rightarrow> 'd replica \<Rightarrow> collaboration_held option \<Rightarrow>
   (string \<times> bool) store_result"
where
  "lacking_update L document r authoring held =
     (let everything = env_checkpoint_update_base64 (res_envelope r) in
      case held of
        None \<Rightarrow> Inr (everything, False)
      | Some (HeldFrontier frontier) \<Rightarrow>
          (case export_incremental_update_base64 L authoring frontier of
             Inr lacking \<Rightarrow> Inr (lacking, False)
           | Inl UnknownFrontier \<Rightarrow> Inr (everything, True)
           | Inl e \<Rightarrow> Inl (replica_store_error document e))
      | Some (HeldVersion v) \<Rightarrow>
          if cv_incarnation v \<noteq> cv_incarnation (res_accepted r) then Inr (everything, True)
          else (case export_update_since_version_base64 L authoring (cv_peers v) of
              Inr lacking \<Rightarrow> Inr (lacking, False)
            | Inl e \<Rightarrow> Inl (replica_store_error document e)))"

definition svc_authoring_state ::
  "('s, 'd, 'f) service \<Rightarrow> entity_spec \<Rightarrow> document_id \<Rightarrow> collaboration_held option \<Rightarrow>
   ('s, 'd, store_authoring_state) svc_act"
where
  "svc_authoring_state S plan document held =
     act_bind (read_envelope S document) (\<lambda>read.
     act_bind (act_lift (ok_or (not_stored document) read)) (\<lambda>r.
     act_bind (svc_replica S plan document r) (\<lambda>authoring.
     act_bind (act_lift (lacking_update (svc_loro S) document r authoring held)) (\<lambda>(lacking, replaces).
     act_return
       \<lparr>sas_schema_version = env_schema_version (res_envelope r),
        sas_version = res_accepted r,
        sas_accepted_frontier_base64 = accepted_frontier_base64 (svc_loro S) authoring,
        sas_update_base64 = lacking,
        sas_etag = envelope_etag (res_envelope r),
        sas_replaces_held = replaces\<rparr>))))"

end
