(* ===== verification/Import.thy ===== *)
theory Import
  imports Service
begin

text \<open>
  Imports and edits of \<open>crates/clerkenwell-store/src/lib.rs\<close>: \<open>import\<close>, \<open>edit\<close>, \<open>edit_text\<close> and what
  they share. \<open>import_internal\<close> is cut where its steps are: the checks before the first attempt, the
  envelope an attempt judges against, the answer to a retry, the judgement, the candidate, the
  commit and the report. The application's error type is \<open>'e\<close>, with \<open>from_store\<close> its
  \<open>From<StoreError>\<close>, and its validator is a function of the materialised document. The pause
  before a repeated attempt sleeps; here it only draws the random fraction.
\<close>

section \<open>Requests and results\<close>

datatype import_fence = FenceEtag string | FenceFrontier

record import_request =
  rq_document :: document_id
  rq_schema_version :: u32
  rq_operation_id :: string
  rq_exchange_mode :: exchange_mode
  rq_base_frontier_base64 :: string
  rq_update_base64 :: string
  rq_fence :: import_fence
  rq_actor :: principal
  rq_peer_nonces :: "string list"
  rq_intent :: "string option"

record document_edit =
  de_document :: document_id
  de_operation_id :: string
  de_edited :: json
  de_etag :: string
  de_actor :: principal
  de_intent :: "string option"

record text_edit =
  te_document :: document_id
  te_operation_id :: string
  te_field_path :: string
  te_identities :: identity_context
  te_frontier_base64 :: string
  te_read :: string
  te_replacement :: string
  te_actor :: principal
  te_intent :: "string option"

record import_report =
  ir_operation_id :: string
  ir_duplicate :: bool
  ir_schema_version :: u32
  ir_version :: collaboration_version
  ir_accepted_frontier_base64 :: string
  ir_missing_update_base64 :: string
  ir_etag :: string
  ir_materialized :: json
  ir_generation :: u64
  ir_peer_id :: string
  ir_oplog_version :: string
  ir_state_frontiers :: string
  ir_update_bytes :: nat

datatype 'e import_failure = StoreFailure store_error | InvalidFailure 'e

datatype retried = ByUpdate | ByPrincipal

type_synonym ('s, 'd, 'e, 'a) import_act = "(('s, 'd) world, 'e import_failure, 'a) act"

definition store_act :: "('s, 'd, 'a) svc_act \<Rightarrow> ('s, 'd, 'e, 'a) import_act" where
  "store_act m = act_map_err StoreFailure m"

section \<open>Refusals\<close>

definition record_replica_failure :: "replica_error \<Rightarrow> ('s, 'd, unit) svc_act" where
  "record_replica_failure err =
     counting (case err of
         MissingDependency \<Rightarrow> (\<lambda>c. c\<lparr>ctr_dependency_blocks := ctr_dependency_blocks c + 1\<rparr>)
       | UnknownFrontier \<Rightarrow> (\<lambda>c. c\<lparr>ctr_resync_requirements := ctr_resync_requirements c + 1\<rparr>)
       | UnrelatedHistory \<Rightarrow> (\<lambda>c. c\<lparr>ctr_resync_requirements := ctr_resync_requirements c + 1\<rparr>)
       | _ \<Rightarrow> (\<lambda>c. c))"

text \<open>\<open>map_err(|error| replica_error(document, error))\<close>, and the same that first counts the failure.\<close>

definition replica_act :: "document_id \<Rightarrow> 'a replica_result \<Rightarrow> ('s, 'd, 'a) svc_act" where
  "replica_act document r = act_lift (map_err (replica_store_error document) r)"

definition replica_act_recorded :: "document_id \<Rightarrow> 'a replica_result \<Rightarrow> ('s, 'd, 'a) svc_act" where
  "replica_act_recorded document r =
     (case r of
        Inr a \<Rightarrow> act_return a
      | Inl err \<Rightarrow>
          act_bind (record_replica_failure err) (\<lambda>_. act_fail (replica_store_error document err)))"

definition audit_request ::
  "('s, 'd, 'f) service \<Rightarrow> principal \<Rightarrow> document_id \<Rightarrow> audit_event \<Rightarrow> ('s, 'd, unit) svc_act"
where
  "audit_request S actor document event =
     act_bind (draw (ext_now_ms (svc_ext S))) (\<lambda>now.
     act_bind (act_lift (ok_or internal now)) (\<lambda>ms.
     on_storage (port_append_audit (svc_port S)
       \<lparr>ar_timestamp_unix_ms = ms, ar_actor = actor, ar_entity = doc_entity document,
        ar_resource_id = doc_resource_id document, ar_event = event\<rparr>)))"

definition audit_refusal ::
  "('s, 'd, 'f) service \<Rightarrow> import_request \<Rightarrow> string \<Rightarrow> string list \<Rightarrow> ('s, 'd, unit) svc_act"
where
  "audit_refusal S request code conflict_paths =
     audit_request S (rq_actor request) (rq_document request)
       (Refusal (rq_operation_id request) code (rq_base_frontier_base64 request) conflict_paths
         (sha256_hex (svc_ext S) (rq_update_base64 request)))"

definition refusal_code :: "json option \<Rightarrow> string" where
  "refusal_code data =
     (case Option.bind data (\<lambda>d. as_str (json_index d ''code'')) of
        Some code \<Rightarrow>
          (case Option.bind data (\<lambda>d. as_str (json_index d ''conflict_kind'')) of
             Some kind \<Rightarrow> if code = ''conflict'' then kind else code
           | None \<Rightarrow> code)
      | None \<Rightarrow> ''collaboration_import_refused'')"

definition refusal_paths :: "json option \<Rightarrow> string list" where
  "refusal_paths data =
     (case Option.bind data (\<lambda>d. as_array (json_index d ''conflict_paths'')) of
        Some paths \<Rightarrow> List.map_filter as_str paths | None \<Rightarrow> [])"

definition refuse ::
  "('s, 'd, 'f) service \<Rightarrow> (store_error \<Rightarrow> 'e) \<Rightarrow> import_request \<Rightarrow> 'e import_failure \<Rightarrow>
   (('s, 'd) world, 'e, 'a) act"
where
  "refuse S from_store request failure =
     (case failure of
        StoreFailure err \<Rightarrow>
          if err_kind err = Internal then act_fail (from_store err)
          else
            act_bind (act_map_err from_store
              (audit_refusal S request (refusal_code (err_data err)) (refusal_paths (err_data err)))) (\<lambda>_.
            act_fail (from_store err))
      | InvalidFailure err \<Rightarrow>
          act_bind (act_map_err from_store
            (audit_refusal S request ''collaboration_document_invalid'' [])) (\<lambda>_.
          act_fail err))"

definition block_bases :: "('s, 'd, 'f) service \<Rightarrow> import_request \<Rightarrow> u64 list" where
  "block_bases S request =
     map (peer_base (ext_hmac (svc_ext S)) (svc_key S) (rq_actor request) (rq_document request))
       (rq_peer_nonces request)"

definition require_allocated_peers ::
  "('s, 'd, 'f) service \<Rightarrow> import_request \<Rightarrow> u64 list \<Rightarrow> unit store_result"
where
  "require_allocated_peers S request peers =
     (let unallocated = filter (\<lambda>peer. block_of peer \<notin> set (block_bases S request)) peers in
      if unallocated = [] then Inr ()
      else Inl (with_data invalid_request
        (document_data ''collaboration_peer_not_allocated'' (rq_document request)
          [(''peers'', JArray (map (\<lambda>p. JString (dec (unat p))) unallocated)),
           (''draft_retained'', JBool True)])))"

section \<open>Before the first attempt\<close>

definition schema_version_error :: "entity_spec \<Rightarrow> import_request \<Rightarrow> store_error" where
  "schema_version_error plan request = with_data invalid_request
     (document_data ''unsupported_collaboration_schema_version'' (rq_document request)
       [(''actual'', JNumber (PosInt (unat (rq_schema_version request)))),
        (''expected'', JNumber (PosInt (unat (plan_schema_version plan))))])"

definition import_checks ::
  "('s, 'd, 'f) service \<Rightarrow> entity_spec \<Rightarrow> import_request \<Rightarrow> bytes store_result"
where
  "import_checks S plan request =
     (if rq_schema_version request \<noteq> plan_schema_version plan
      then Inl (schema_version_error plan request)
      else if blank (doc_resource_id (rq_document request)) then Inl invalid_request
      else if blank (rq_operation_id request)
      then Inl (with_data invalid_request
        (document_data ''invalid_collaboration_operation_id'' (rq_document request) []))
      else map_err (\<lambda>_. with_data invalid_request
          (document_data ''invalid_collaboration_update'' (rq_document request) []))
        (b64_decode (svc_loro S) (rq_update_base64 request)))"

section \<open>One attempt\<close>

text \<open>\<open>BASE64.decode(authoring.export_update_base64()?)\<close>.\<close>

definition export_update_bytes ::
  "('s, 'd, 'f) service \<Rightarrow> document_id \<Rightarrow> 'd replica \<Rightarrow> bytes store_result"
where
  "export_update_bytes S document authoring =
     res_bind (map_err (replica_store_error document) (export_update_base64 (svc_loro S) authoring))
       (\<lambda>encoded. map_err (\<lambda>_. internal) (b64_decode (svc_loro S) encoded))"

definition document_exists_error :: "document_id \<Rightarrow> store_error" where
  "document_exists_error document = with_data conflict
     (document_data ''collaboration_document_exists'' document
       [(''exchange_mode'', JString ''bootstrap''), (''draft_retained'', JBool True)])"

definition document_absent_error :: "document_id \<Rightarrow> store_error" where
  "document_absent_error document = with_data not_found
     (document_data ''collaboration_document_not_found'' document
       [(''exchange_mode'', JString ''incremental'')])"

text \<open>The envelope an attempt judges against: the stored one, or one the bootstrap creates.\<close>

definition import_current ::
  "('s, 'd, 'f) service \<Rightarrow> entity_spec \<Rightarrow> import_request \<Rightarrow> resident option \<Rightarrow> ('s, 'd, envelope) svc_act"
where
  "import_current S plan request read =
     (let document = rq_document request in
      case read of
        Some r \<Rightarrow>
          if rq_exchange_mode request = Bootstrap then act_fail (document_exists_error document)
          else act_return (res_envelope r)
      | None \<Rightarrow>
          if rq_exchange_mode request = Bootstrap then
            act_bind (replica_act_recorded document
              (from_versioned_update_base64 (svc_loro S) plan (rq_schema_version request)
                (rq_update_base64 request))) (\<lambda>authoring.
            act_bind (act_lift (export_update_bytes S document authoring)) (\<lambda>accepted_update.
            act_bind (new_incarnation S) (\<lambda>incarnation.
            act_return
              \<lparr>env_envelope_version = envelope_version, env_entity = doc_entity document,
               env_resource_id = doc_resource_id document, env_incarnation = incarnation,
               env_schema_version = rq_schema_version request, env_generation = 0,
               env_checkpoint_sequence = 0, env_compacted_through_sequence = 0,
               env_checkpoint_update_base64 = b64_encode (svc_loro S) accepted_update,
               env_checkpoint_sha256 = sha256_hex (svc_ext S) accepted_update,
               env_checkpoint_bytes = length accepted_update,
               env_retained_operations = [], env_peers = []\<rparr>)))
          else act_fail (document_absent_error document))"

definition import_result ::
  "('s, 'd, 'f) service \<Rightarrow> import_request \<Rightarrow> resident \<Rightarrow> 'd replica \<Rightarrow> json \<Rightarrow> bool \<Rightarrow>
   import_report store_result"
where
  "import_result S request accepted authoring materialized duplicate =
     res_bind (checkpoint_update (svc_ext S) (rq_document request) (res_envelope accepted)) (\<lambda>accepted_update.
     res_bind (map_err (replica_store_error (rq_document request))
       (missing_update_base64 (svc_loro S) authoring
         (if rq_exchange_mode request = Incremental then Some (rq_base_frontier_base64 request) else None)
         (rq_update_base64 request))) (\<lambda>missing.
     let dbg = debug (svc_loro S) authoring in
     Inr \<lparr>ir_operation_id = rq_operation_id request, ir_duplicate = duplicate,
          ir_schema_version = env_schema_version (res_envelope accepted),
          ir_version = res_accepted accepted,
          ir_accepted_frontier_base64 = accepted_frontier_base64 (svc_loro S) authoring,
          ir_missing_update_base64 = missing,
          ir_etag = collaboration_etag (svc_ext S) accepted_update,
          ir_materialized = materialized,
          ir_generation = env_generation (res_envelope accepted),
          ir_peer_id = dbg_peer_id dbg, ir_oplog_version = dbg_oplog_version dbg,
          ir_state_frontiers = dbg_state_frontiers dbg,
          ir_update_bytes = length accepted_update\<rparr>))"

definition count_duplicate :: "('s, 'd, unit) svc_act" where
  "count_duplicate = counting (\<lambda>c. c\<lparr>ctr_duplicate_imports := ctr_duplicate_imports c + 1\<rparr>)"

text \<open>The retained operation a request repeats, and whether it is a retry of it.\<close>

definition retained_operation :: "resident \<Rightarrow> string \<Rightarrow> operation option" where
  "retained_operation r operation_id =
     find (\<lambda>op. op_operation_id op = operation_id) (env_retained_operations (res_envelope r))"

definition is_retry :: "('s, 'd, 'f) service \<Rightarrow> retried \<Rightarrow> import_request \<Rightarrow> bytes \<Rightarrow> operation \<Rightarrow> bool" where
  "is_retry S how request imported_update retained =
     (case how of
        ByUpdate \<Rightarrow> op_update_sha256 retained = sha256_hex (svc_ext S) imported_update
      | ByPrincipal \<Rightarrow> op_actor retained = rq_actor request)"

definition answer_retry ::
  "('s, 'd, 'f) service \<Rightarrow> entity_spec \<Rightarrow> import_request \<Rightarrow> resident \<Rightarrow> ('s, 'd, import_report) svc_act"
where
  "answer_retry S plan request r =
     act_bind count_duplicate (\<lambda>_.
     act_bind (svc_replica S plan (rq_document request) r) (\<lambda>authoring.
     act_bind (svc_materialized S plan (rq_document request) r) (\<lambda>materialized.
     act_lift (import_result S request r authoring materialized True))))"

definition creation_policy_error :: "import_request \<Rightarrow> string list \<Rightarrow> store_error" where
  "creation_policy_error request conflicts = with_data conflict
     (document_data ''conflict'' (rq_document request)
       [(''conflict_kind'', JString ''collaboration_policy''),
        (''conflict_paths'', JArray (map JString conflicts)),
        (''draft_retained'', JBool True)])"

text \<open>\<open>data[plan.id_field] = ...\<close> on an object.\<close>

definition json_set :: "json \<Rightarrow> string \<Rightarrow> json \<Rightarrow> json" where
  "json_set v key x = (case v of JObject m \<Rightarrow> JObject (bmap_insert key x m) | _ \<Rightarrow> v)"

definition revision_error ::
  "entity_spec \<Rightarrow> import_request \<Rightarrow> json \<Rightarrow> string \<Rightarrow> string \<Rightarrow> store_error"
where
  "revision_error plan request current_document current_etag expected_etag = with_data conflict
     (json_set (document_data ''conflict'' (rq_document request)
       [(''conflict_kind'', JString ''collaboration_revision''),
        (''current'', current_document),
        (''current_etag'', JString current_etag),
        (''expected_etag'', JString expected_etag),
        (''draft_retained'', JBool True)])
       (plan_id_field plan) (JString (doc_resource_id (rq_document request))))"

definition policy_error ::
  "import_request \<Rightarrow> string list \<Rightarrow> json \<Rightarrow> string \<Rightarrow> string \<Rightarrow> string \<Rightarrow> store_error"
where
  "policy_error request conflicts current_document current_etag accepted missing = with_data conflict
     (document_data ''conflict'' (rq_document request)
       [(''conflict_kind'', JString ''collaboration_policy''),
        (''conflict_paths'', JArray (map JString conflicts)),
        (''current'', current_document),
        (''current_etag'', JString current_etag),
        (''base_frontier_base64'', JString (rq_base_frontier_base64 request)),
        (''accepted_frontier_base64'', JString accepted),
        (''missing_update_base64'', JString missing),
        (''draft_retained'', JBool True)])"

text \<open>The peers whose operations the request adds.\<close>

definition new_peers_of ::
  "('s, 'd, 'f) service \<Rightarrow> import_request \<Rightarrow> resident option \<Rightarrow> 'd replica \<Rightarrow> ('s, 'd, u64 list) svc_act"
where
  "new_peers_of S request read authoring =
     replica_act (rq_document request)
       (case read of
          None \<Rightarrow> peers_in_update (svc_loro S) (rq_update_base64 request)
        | Some _ \<Rightarrow> peers_with_new_operations (svc_loro S) authoring (rq_update_base64 request))"

definition judge_creation ::
  "('s, 'd, 'f) service \<Rightarrow> import_request \<Rightarrow> 'd replica \<Rightarrow> ('s, 'd, unit) svc_act"
where
  "judge_creation S request authoring =
     act_bind (replica_act (rq_document request)
       (policy_conflicts_for_creation (svc_loro S) authoring (principal_kind (rq_actor request)))) (\<lambda>conflicts.
     if conflicts \<noteq> [] then act_fail (creation_policy_error request conflicts) else act_return ())"

definition judge_fence ::
  "('s, 'd, 'f) service \<Rightarrow> entity_spec \<Rightarrow> import_request \<Rightarrow> 'd replica \<Rightarrow> string \<Rightarrow> ('s, 'd, unit) svc_act"
where
  "judge_fence S plan request authoring current_etag =
     (case rq_fence request of
        FenceFrontier \<Rightarrow> act_return ()
      | FenceEtag expected_etag \<Rightarrow>
          if expected_etag = current_etag then act_return ()
          else act_bind (replica_act (rq_document request)
            (materialized_document (svc_loro S) authoring current_etag)) (\<lambda>current_document.
          act_fail (revision_error plan request current_document current_etag expected_etag)))"

definition judge_policy ::
  "('s, 'd, 'f) service \<Rightarrow> import_request \<Rightarrow> 'd replica \<Rightarrow> string \<Rightarrow> ('s, 'd, unit) svc_act"
where
  "judge_policy S request authoring current_etag =
     (let document = rq_document request; L = svc_loro S in
      if rq_exchange_mode request \<noteq> Incremental then act_return ()
      else
        act_bind (replica_act_recorded document
          (require_frontier_base64 L authoring (rq_base_frontier_base64 request))) (\<lambda>_.
        act_bind (replica_act_recorded document
          (policy_conflicts_for_incremental_update L authoring (rq_base_frontier_base64 request)
            (rq_schema_version request) (rq_update_base64 request) (principal_kind (rq_actor request))))
          (\<lambda>conflicts.
        if conflicts = [] then act_return ()
        else
          act_bind (replica_act document (materialized_document L authoring current_etag)) (\<lambda>current_document.
          act_bind (replica_act document
            (missing_update_base64 L authoring (Some (rq_base_frontier_base64 request))
              (rq_update_base64 request))) (\<lambda>missing.
          act_fail (policy_error request conflicts current_document current_etag
            (accepted_frontier_base64 L authoring) missing))))))"

text \<open>The judgement of an attempt: it gives the replica to import into and the peers it adds.\<close>

definition import_judge ::
  "('s, 'd, 'f) service \<Rightarrow> entity_spec \<Rightarrow> import_request \<Rightarrow> resident option \<Rightarrow> envelope \<Rightarrow>
   ('s, 'd, 'd replica \<times> u64 list) svc_act"
where
  "import_judge S plan request read current =
     (let document = rq_document request in
      act_bind (act_lift (load_authoring_document (svc_ext S) plan document current)) (\<lambda>authoring.
      act_bind (if read \<noteq> None
                then replica_act_recorded document
                  (require_related_history (svc_loro S) authoring (rq_update_base64 request))
                else act_return ()) (\<lambda>_.
      act_bind (new_peers_of S request read authoring) (\<lambda>new_peers.
      act_bind (act_lift (require_allocated_peers S request new_peers)) (\<lambda>_.
      act_bind (if read = None then judge_creation S request authoring else act_return ()) (\<lambda>_.
      act_bind (act_lift (checkpoint_update (svc_ext S) document current)) (\<lambda>current_update.
      let current_etag = collaboration_etag (svc_ext S) current_update in
      act_bind (judge_fence S plan request authoring current_etag) (\<lambda>_.
      act_bind (judge_policy S request authoring current_etag) (\<lambda>_.
      act_return (authoring, new_peers))))))))))"

text \<open>The candidate: the replica after the import, its bytes and its document, validated.\<close>

definition import_candidate ::
  "('s, 'd, 'f) service \<Rightarrow> import_request \<Rightarrow> (json \<Rightarrow> 'e + unit) \<Rightarrow> 'd replica \<Rightarrow>
   ('s, 'd, 'e, 'd replica \<times> bytes \<times> json) import_act"
where
  "import_candidate S request validate authoring =
     (let document = rq_document request; L = svc_loro S;
          (adopted, candidate) =
            adopt_versioned_update_base64 L (rq_schema_version request) (rq_update_base64 request) authoring in
      act_bind (store_act (replica_act_recorded document adopted)) (\<lambda>_.
      act_bind (store_act (act_lift (export_update_bytes S document candidate))) (\<lambda>accepted_update.
      act_bind (store_act (case materialized_document L candidate
            (collaboration_etag (svc_ext S) accepted_update) of
          Inr v \<Rightarrow> act_return v
        | Inl err \<Rightarrow>
            act_bind (counting (\<lambda>c. c\<lparr>ctr_materialisation_failures := ctr_materialisation_failures c + 1\<rparr>)) (\<lambda>_.
            act_fail (replica_store_error document err)))) (\<lambda>materialized.
      act_bind (act_lift (map_err InvalidFailure (validate materialized))) (\<lambda>_.
      act_return (candidate, accepted_update, materialized))))))"

definition import_commit_request ::
  "('s, 'd, 'f) service \<Rightarrow> import_request \<Rightarrow> bytes \<Rightarrow> resident option \<Rightarrow> envelope \<Rightarrow> u64 list \<Rightarrow>
   'd replica \<Rightarrow> 'd replica \<Rightarrow> bytes \<Rightarrow> commit_request"
where
  "import_commit_request S request imported_update read current new_peers authoring candidate accepted_update =
     (let before_import = accepted_frontier_base64 (svc_loro S) authoring;
          after_import = accepted_frontier_base64 (svc_loro S) candidate in
      \<lparr>cm_document = rq_document request,
       cm_incarnation = (if read = None then Some (env_incarnation current) else None),
       cm_schema_version = rq_schema_version request,
       cm_operation_id = rq_operation_id request,
       cm_actor = rq_actor request,
       cm_intent = rq_intent request,
       cm_peers = new_peers,
       cm_imported_update = imported_update,
       cm_has_new_operations = (before_import \<noteq> after_import),
       cm_accepted_update = accepted_update,
       cm_frontier_before = Some before_import,
       cm_frontier_after = Some after_import\<rparr>)"

text \<open>The report: the durable checkpoint's replica and document, offered to the resident held.\<close>

definition import_report_accepted ::
  "('s, 'd, 'f) service \<Rightarrow> entity_spec \<Rightarrow> import_request \<Rightarrow> resident \<Rightarrow> bool \<Rightarrow> 'd replica \<Rightarrow> bytes \<Rightarrow>
   json \<Rightarrow> ('s, 'd, import_report) svc_act"
where
  "import_report_accepted S plan request accepted duplicate candidate accepted_update materialized =
     (let document = rq_document request; e = res_envelope accepted in
      act_bind (if duplicate then count_duplicate else act_return ()) (\<lambda>_.
      act_bind (act_lift (checkpoint_update (svc_ext S) document e)) (\<lambda>durable_update.
      act_bind (if durable_update = accepted_update then act_return (candidate, materialized)
                else act_bind (act_lift (load_authoring_document (svc_ext S) plan document e)) (\<lambda>durable.
                  act_bind (replica_act document (materialized_document (svc_loro S) durable
                    (collaboration_etag (svc_ext S) durable_update))) (\<lambda>v.
                  act_return (durable, v)))) (\<lambda>(authoring, document_value).
      act_bind (residency_get (source_of S document)) (\<lambda>held.
      act_bind (case held of
          Some r \<Rightarrow>
            if env_generation (res_envelope r) = env_generation e
               \<and> env_checkpoint_sha256 (res_envelope r) = env_checkpoint_sha256 e
            then offer r authoring document_value else act_return ()
        | None \<Rightarrow> act_return ()) (\<lambda>_.
      act_lift (import_result S request accepted authoring document_value duplicate)))))))"

text \<open>An attempt: a report, or nothing when another writer replaced the envelope first.\<close>

definition import_attempt ::
  "('s, 'd, 'f) service \<Rightarrow> entity_spec \<Rightarrow> import_request \<Rightarrow> retried \<Rightarrow> (json \<Rightarrow> 'e + unit) \<Rightarrow> bytes \<Rightarrow>
   ('s, 'd, 'e, import_report option) import_act"
where
  "import_attempt S plan request how validate imported_update =
     act_bind (store_act (read_envelope S (rq_document request))) (\<lambda>read.
     act_bind (store_act (import_current S plan request read)) (\<lambda>current.
     case (case read of Some r \<Rightarrow> map_option (Pair r) (retained_operation r (rq_operation_id request))
           | None \<Rightarrow> None) of
       Some (r, retained) \<Rightarrow>
         if is_retry S how request imported_update retained
         then act_bind (store_act (answer_retry S plan request r)) (\<lambda>report. act_return (Some report))
         else act_fail (StoreFailure
           (operation_id_collision (rq_document request) (rq_operation_id request)))
     | None \<Rightarrow>
         act_bind (store_act (import_judge S plan request read current)) (\<lambda>(authoring, new_peers).
         act_bind (import_candidate S request validate authoring)
           (\<lambda>(candidate, accepted_update, materialized).
         act_bind (store_act (svc_commit S read
           (import_commit_request S request imported_update read current new_peers authoring candidate
             accepted_update))) (\<lambda>outcome.
         case outcome of
           CommitStale \<Rightarrow> act_return None
         | CommitAccepted accepted \<Rightarrow>
             act_bind (store_act (import_report_accepted S plan request accepted False candidate
               accepted_update materialized)) (\<lambda>report. act_return (Some report))
         | CommitDuplicate accepted \<Rightarrow>
             act_bind (store_act (import_report_accepted S plan request accepted True candidate
               accepted_update materialized)) (\<lambda>report. act_return (Some report)))))))"

section \<open>Imports and edits\<close>

definition contended_error :: "document_id \<Rightarrow> store_error" where
  "contended_error document = with_data conflict
     (document_data ''collaboration_commit_contended'' document [(''draft_retained'', JBool True)])"

definition pause_before_attempt :: "('s, 'd, 'e, unit) import_act" where
  "pause_before_attempt = act_modify (\<lambda>w. w\<lparr>w_draws := Suc (w_draws w)\<rparr>)"

fun import_attempts ::
  "('s, 'd, 'f) service \<Rightarrow> entity_spec \<Rightarrow> import_request \<Rightarrow> retried \<Rightarrow> (json \<Rightarrow> 'e + unit) \<Rightarrow> bytes \<Rightarrow>
   bool \<Rightarrow> nat \<Rightarrow> ('s, 'd, 'e, import_report) import_act"
where
  "import_attempts S plan request how validate imported_update first 0 w =
     act_bind (store_act (counting (\<lambda>c. c\<lparr>ctr_commit_contention := ctr_commit_contention c + 1\<rparr>))) (\<lambda>_.
     act_fail (StoreFailure (contended_error (rq_document request)))) w"
| "import_attempts S plan request how validate imported_update first (Suc n) w =
     act_bind (if first then act_return () else pause_before_attempt) (\<lambda>_.
     act_bind (import_attempt S plan request how validate imported_update) (\<lambda>report.
     case report of
       Some r \<Rightarrow> act_return r
     | None \<Rightarrow> import_attempts S plan request how validate imported_update False n)) w"

definition import_internal ::
  "('s, 'd, 'f) service \<Rightarrow> entity_spec \<Rightarrow> import_request \<Rightarrow> retried \<Rightarrow> (json \<Rightarrow> 'e + unit) \<Rightarrow>
   ('s, 'd, 'e, import_report) import_act"
where
  "import_internal S plan request how validate =
     act_bind (store_act (act_lift (import_checks S plan request))) (\<lambda>imported_update.
     import_attempts S plan request how validate imported_update True (cp_attempts (svc_policy S)))"

definition import_recognising ::
  "('s, 'd, 'f) service \<Rightarrow> (store_error \<Rightarrow> 'e) \<Rightarrow> entity_spec \<Rightarrow> import_request \<Rightarrow> retried \<Rightarrow>
   (json \<Rightarrow> 'e + unit) \<Rightarrow> (('s, 'd) world, 'e, import_report) act"
where
  "import_recognising S from_store plan request how validate =
     act_catch (import_internal S plan request how validate) (refuse S from_store request)"

definition svc_import ::
  "('s, 'd, 'f) service \<Rightarrow> (store_error \<Rightarrow> 'e) \<Rightarrow> entity_spec \<Rightarrow> import_request \<Rightarrow>
   (json \<Rightarrow> 'e + unit) \<Rightarrow> (('s, 'd) world, 'e, import_report) act"
where
  "svc_import S from_store plan request validate =
     import_recognising S from_store plan request ByUpdate validate"

definition retained_update :: "resident \<Rightarrow> string \<Rightarrow> string option" where
  "retained_update r operation_id = map_option op_update_base64 (retained_operation r operation_id)"

text \<open>The request an edit fills in, which a failure leaves as far as it was filled.\<close>

definition edit_request :: "entity_spec \<Rightarrow> document_edit \<Rightarrow> import_request" where
  "edit_request plan edit =
     \<lparr>rq_document = de_document edit, rq_schema_version = plan_schema_version plan,
      rq_operation_id = de_operation_id edit, rq_exchange_mode = Incremental,
      rq_base_frontier_base64 = [], rq_update_base64 = [], rq_fence = FenceEtag (de_etag edit),
      rq_actor = de_actor edit, rq_peer_nonces = [], rq_intent = de_intent edit\<rparr>"

definition edit_update ::
  "('d, 'f) loro \<Rightarrow> 'd replica \<Rightarrow> u64 \<Rightarrow> json \<Rightarrow> string \<Rightarrow> string replica_result"
where
  "edit_update L r peer edited base_frontier =
     (case act_bind (set_peer L peer) (\<lambda>_. replace_document L edited) r of
        (Inl e, _) \<Rightarrow> Inl e
      | (Inr _, r') \<Rightarrow> export_incremental_update_base64 L r' base_frontier)"

definition prepare_edit ::
  "('s, 'd, 'f) service \<Rightarrow> entity_spec \<Rightarrow> import_request \<Rightarrow> json \<Rightarrow>
   (('s, 'd) world, import_request \<times> store_error, import_request) act"
where
  "prepare_edit S plan request edited =
     (let document = rq_document request; L = svc_loro S in
      act_bind (act_map_err (Pair request) (read_envelope S document)) (\<lambda>read.
      act_bind (act_lift (ok_or (request, not_stored document) read)) (\<lambda>r.
      act_bind (act_lift (map_err (Pair request)
        (load_authoring_document (svc_ext S) plan document (res_envelope r)))) (\<lambda>authoring.
      let based = request\<lparr>rq_base_frontier_base64 := accepted_frontier_base64 L authoring\<rparr> in
      act_bind (allocate_peers S (rq_actor request) document) (\<lambda>block.
      act_bind (act_lift (case retained_update r (rq_operation_id request) of
          Some retained \<Rightarrow> Inr retained
        | None \<Rightarrow> map_err (\<lambda>e. (based, replica_store_error document e))
            (edit_update L authoring (pb_base block) edited (rq_base_frontier_base64 based)))) (\<lambda>update.
      act_return (based\<lparr>rq_update_base64 := update, rq_peer_nonces := [pb_nonce block]\<rparr>)))))))"

definition import_prepared ::
  "('s, 'd, 'f) service \<Rightarrow> (store_error \<Rightarrow> 'e) \<Rightarrow> entity_spec \<Rightarrow>
   (('s, 'd) world, import_request \<times> store_error, import_request) act \<Rightarrow> (json \<Rightarrow> 'e + unit) \<Rightarrow>
   (('s, 'd) world, 'e, import_report) act"
where
  "import_prepared S from_store plan prepare validate =
     act_bind (act_catch prepare (\<lambda>(request, err). refuse S from_store request (StoreFailure err)))
       (\<lambda>request. import_recognising S from_store plan request ByPrincipal validate)"

definition svc_edit ::
  "('s, 'd, 'f) service \<Rightarrow> (store_error \<Rightarrow> 'e) \<Rightarrow> entity_spec \<Rightarrow> document_edit \<Rightarrow>
   (json \<Rightarrow> 'e + unit) \<Rightarrow> (('s, 'd) world, 'e, import_report) act"
where
  "svc_edit S from_store plan edit validate =
     import_prepared S from_store plan (prepare_edit S plan (edit_request plan edit) (de_edited edit)) validate"

definition text_edit_request :: "entity_spec \<Rightarrow> text_edit \<Rightarrow> import_request" where
  "text_edit_request plan edit =
     \<lparr>rq_document = te_document edit, rq_schema_version = plan_schema_version plan,
      rq_operation_id = te_operation_id edit, rq_exchange_mode = Incremental,
      rq_base_frontier_base64 = te_frontier_base64 edit, rq_update_base64 = [],
      rq_fence = FenceFrontier, rq_actor = te_actor edit, rq_peer_nonces = [],
      rq_intent = te_intent edit\<rparr>"

definition prepare_text_edit_request ::
  "('s, 'd, 'f) service \<Rightarrow> entity_spec \<Rightarrow> import_request \<Rightarrow> text_edit \<Rightarrow>
   (('s, 'd) world, import_request \<times> store_error, import_request) act"
where
  "prepare_text_edit_request S plan request edit =
     (let document = rq_document request; L = svc_loro S in
      act_bind (act_map_err (Pair request) (read_envelope S document)) (\<lambda>read.
      act_bind (act_lift (ok_or (request, not_stored document) read)) (\<lambda>r.
      act_bind (allocate_peers S (rq_actor request) document) (\<lambda>block.
      act_bind (case retained_update r (rq_operation_id request) of
          Some retained \<Rightarrow> act_return retained
        | None \<Rightarrow>
            act_bind (act_map_err (Pair request) (svc_replica S plan document r)) (\<lambda>authoring.
            act_lift (map_err (\<lambda>e. (request, replica_store_error document e))
              (prepare_text_replacement_at_frontier L authoring (te_field_path edit) (te_identities edit)
                (rq_base_frontier_base64 request) (te_read edit) (te_replacement edit) (pb_base block)))))
        (\<lambda>update.
      act_return (request\<lparr>rq_update_base64 := update, rq_peer_nonces := [pb_nonce block]\<rparr>))))))"

definition svc_edit_text ::
  "('s, 'd, 'f) service \<Rightarrow> (store_error \<Rightarrow> 'e) \<Rightarrow> entity_spec \<Rightarrow> text_edit \<Rightarrow>
   (json \<Rightarrow> 'e + unit) \<Rightarrow> (('s, 'd) world, 'e, import_report) act"
where
  "svc_edit_text S from_store plan edit validate =
     import_prepared S from_store plan
       (prepare_text_edit_request S plan (text_edit_request plan edit) edit) validate"

end
