(* ===== verification/Recovery.thy ===== *)
theory Recovery
  imports Import
begin

text \<open>
  The rest of the collaboration service, \<open>crates/clerkenwell-store/src/lib.rs\<close>: deletion,
  inspection, the recovery actions and their audit, seeding and migration, and the set of stores.

  \<open>delete\<close>, \<open>seed\<close> and \<open>migrate\<close> loop until no other writer comes between their read and their write.
  They are partial functions into \<open>option\<close>: \<open>None\<close> is a loop that never ends.
\<close>

type_synonym ('s, 'd, 'e, 'a) loop_act = "('s, 'd) world \<Rightarrow> (('e + 'a) \<times> ('s, 'd) world) option"

section \<open>Deletion\<close>

definition finish_delete ::
  "('s, 'd, 'f) service \<Rightarrow> principal \<Rightarrow> document_id \<Rightarrow> bytes \<Rightarrow>
   ('s, 'd, collaboration_version option) svc_act"
where
  "finish_delete S actor document bs =
     (let deleted = res_ok (parse_envelope (svc_ext S) (Some document) bs);
          removed = Option.bind deleted (\<lambda>e.
            map_option (\<lambda>peers. \<lparr>cv_incarnation = env_incarnation e, cv_peers = peers\<rparr>)
              (res_ok (validate_envelope (svc_ext S) document e))) in
      act_bind (announce_change S Deleted (map_option env_generation deleted) actor None
        (act_return \<lparr>cd_entity = doc_entity document, cd_resource_id = doc_resource_id document,
           cd_etag_before = map_option envelope_etag deleted, cd_etag_after = None,
           cd_frontier_before = None, cd_frontier_after = None, cd_operation_id = None\<rparr>)) (\<lambda>_.
      act_return removed))"

partial_function (option) svc_delete ::
  "('s, 'd, 'f) service \<Rightarrow> principal \<Rightarrow> document_id \<Rightarrow>
   ('s, 'd, store_error, collaboration_version option) loop_act"
where
  "svc_delete S actor document w =
     (case on_storage (port_read (svc_port S) (source_of S document)) w of
        (Inl e, w1) \<Rightarrow> Some (Inl e, w1)
      | (Inr None, w1) \<Rightarrow> Some (Inr None, w1)
      | (Inr (Some st), w1) \<Rightarrow>
          (case svc_remove S document (se_version st) w1 of
             (Inl e, w2) \<Rightarrow> Some (Inl e, w2)
           | (Inr removed, w2) \<Rightarrow>
               if removed then Some (finish_delete S actor document (se_bytes st) w2)
               else svc_delete S actor document w2))"

section \<open>Inspection\<close>

definition unreadable_inspection :: "string \<Rightarrow> string \<Rightarrow> nat \<Rightarrow> string \<Rightarrow> inspection" where
  "unreadable_inspection entity resource_id len code =
     \<lparr>insp_entity = entity, insp_resource_id = resource_id, insp_schema_version = 0,
      insp_generation = 0, insp_checkpoint_sequence = 0, insp_compacted_through_sequence = 0,
      insp_retained_operation_count = 0, insp_checkpoint_bytes = len,
      insp_retained_operation_bytes = 0, insp_migration_required = False, insp_valid = False,
      insp_failure_code = Some code\<rparr>"

definition inspect_stored ::
  "('s, 'd, 'f) service \<Rightarrow> string \<Rightarrow> string option \<Rightarrow> string \<Rightarrow> bytes \<Rightarrow> inspection"
where
  "inspect_stored S entity requested source bs =
     (case decode_envelope (svc_ext S) bs of
        Inl fault \<Rightarrow>
          unreadable_inspection entity
            (case requested of
               Some resource_id \<Rightarrow> resource_id
             | None \<Rightarrow> ''storage:'' @ take 16 (sha256_hex (svc_ext S) source))
            (length bs) (inspection_code fault)
      | Inr e \<Rightarrow>
          (let failure_code =
             (case validate_envelope (svc_ext S) (document_id_new (env_entity e) (env_resource_id e)) e of
                Inl _ \<Rightarrow> Some ''collaboration_state_corrupt'' | Inr _ \<Rightarrow> None) in
           inspection_from_envelope (svc_plans S) e (failure_code = None) failure_code))"

definition inspection_order :: "inspection list \<Rightarrow> inspection list" where
  "inspection_order = sort_key (\<lambda>i. [insp_entity i, insp_resource_id i])"

definition inspect_source ::
  "('s, 'd, 'f) service \<Rightarrow> string \<Rightarrow> string option \<Rightarrow> string \<Rightarrow> ('s, 'd, inspection option) svc_act"
where
  "inspect_source S entity requested source =
     act_bind (on_storage (port_read (svc_port S) source)) (\<lambda>stored.
     act_return (map_option (\<lambda>st. inspect_stored S entity requested source (se_bytes st)) stored))"

definition inspect ::
  "('s, 'd, 'f) service \<Rightarrow> string option \<Rightarrow> string option \<Rightarrow> nat option \<Rightarrow>
   ('s, 'd, inspection list \<times> bool) svc_act"
where
  "inspect S entity resource_id limit =
     (let entities = (case entity of Some e \<Rightarrow> [e] | None \<Rightarrow> map plan_name (svc_plans S)) in
      case resource_id of
        Some rid \<Rightarrow>
          act_bind (act_collect (\<lambda>e. inspect_source S e (Some rid)
            (source_of S (document_id_new e rid))) entities) (\<lambda>found.
          act_return (inspection_order (List.map_filter id found), False))
      | None \<Rightarrow>
          act_bind (act_collect (\<lambda>e. act_bind (on_storage (port_sources (svc_port S) e)) (\<lambda>sources.
            act_return (map (\<lambda>source. [e, source]) sources))) entities) (\<lambda>per_entity.
          let sources = sort (concat per_entity);
              bound = (case limit of Some n \<Rightarrow> n | None \<Rightarrow> length sources) in
          act_bind (act_collect (\<lambda>p. inspect_source S (p ! 0) None (p ! 1)) (take bound sources)) (\<lambda>found.
          act_return (inspection_order (List.map_filter id found), bound < length sources))))"

definition svc_verify :: "('s, 'd, 'f) service \<Rightarrow> document_id \<Rightarrow> ('s, 'd, inspection) svc_act" where
  "svc_verify S document =
     act_bind (act_result (on_storage (port_read (svc_port S) (source_of S document)))) (\<lambda>read.
     act_return (case read of
         Inr (Some st) \<Rightarrow> inspect_stored S (doc_entity document) (Some (doc_resource_id document))
           (source_of S document) (se_bytes st)
       | _ \<Rightarrow> unreadable_inspection (doc_entity document) (doc_resource_id document) 0
           ''collaboration_state_unreadable''))"

section \<open>Recovery\<close>

definition stored_state :: "('s, 'd, 'f) service \<Rightarrow> document_id \<Rightarrow> ('s, 'd, stored_envelope) svc_act" where
  "stored_state S document =
     act_bind (on_storage (port_read (svc_port S) (source_of S document))) (\<lambda>stored.
     act_lift (ok_or (missing_state document) stored))"

definition audit_recovery_request ::
  "('s, 'd, 'f) service \<Rightarrow> principal \<Rightarrow> recovery_action \<Rightarrow> document_id \<Rightarrow> string option \<Rightarrow> bool \<Rightarrow>
   ('s, 'd, unit) svc_act"
where
  "audit_recovery_request S actor action document reason destructive =
     audit_request S actor document
       (Recovery action (map_option (sha256_hex (svc_ext S)) reason) destructive)"

definition evidence_label :: "('s, 'd, 'f) service \<Rightarrow> string \<Rightarrow> string" where
  "evidence_label S reason = take 12 (sha256_hex (svc_ext S) reason)"

definition export_for_recovery ::
  "('s, 'd, 'f) service \<Rightarrow> principal \<Rightarrow> document_id \<Rightarrow> ('s, 'd, bytes) svc_act"
where
  "export_for_recovery S actor document =
     act_bind (audit_recovery_request S actor Export document None False) (\<lambda>_.
     act_bind (stored_state S document) (\<lambda>st. act_return (se_bytes st)))"

definition quarantine ::
  "('s, 'd, 'f) service \<Rightarrow> principal \<Rightarrow> document_id \<Rightarrow> string \<Rightarrow> ('s, 'd, string) svc_act"
where
  "quarantine S actor document reason =
     act_bind (audit_recovery_request S actor Quarantine document (Some reason) False) (\<lambda>_.
     act_bind (stored_state S document) (\<lambda>st.
     on_storage (port_preserve (svc_port S) document (evidence_label S reason) (se_bytes st))))"

definition repaired_envelope :: "envelope \<Rightarrow> envelope" where
  "repaired_envelope e = e\<lparr>env_retained_operations := [],
     env_compacted_through_sequence := env_checkpoint_sequence e,
     env_generation := sat_inc (env_generation e)\<rparr>"

definition repair_contended_error :: "document_id \<Rightarrow> store_error" where
  "repair_contended_error document = with_data conflict
     (document_data ''collaboration_repair_contended'' document [])"

definition repair ::
  "('s, 'd, 'f) service \<Rightarrow> principal \<Rightarrow> document_id \<Rightarrow> string \<Rightarrow> ('s, 'd, string) svc_act"
where
  "repair S actor document reason =
     act_bind (audit_recovery_request S actor Repair document (Some reason) False) (\<lambda>_.
     act_bind (stored_state S document) (\<lambda>st.
     act_bind (act_lift (map_err (\<lambda>_. corrupt_state document)
       (parse_envelope (svc_ext S) (Some document) (se_bytes st)))) (\<lambda>e.
     act_bind (act_lift (checkpoint_update (svc_ext S) document e)) (\<lambda>_.
     act_bind (on_storage (port_preserve (svc_port S) document (evidence_label S reason) (se_bytes st)))
       (\<lambda>evidence.
     act_bind (accepted_frontier S e) (\<lambda>frontier_before.
     let e' = repaired_envelope e in
     act_bind (svc_swap S document (Some (se_version st)) e') (\<lambda>swapped.
     if swapped = None then act_fail (repair_contended_error document)
     else
       act_bind (announce_change S Committed (Some (env_generation e')) actor None
         (act_bind (accepted_frontier S e') (\<lambda>frontier_after.
          act_return \<lparr>cd_entity = doc_entity document, cd_resource_id = doc_resource_id document,
            cd_etag_before = Some (envelope_etag e), cd_etag_after = Some (envelope_etag e'),
            cd_frontier_before = frontier_before, cd_frontier_after = frontier_after,
            cd_operation_id = None\<rparr>))) (\<lambda>_.
       act_return evidence))))))))"

definition reindex :: "('s, 'd, 'f) service \<Rightarrow> principal \<Rightarrow> ('s, 'd, nat \<times> string) svc_act" where
  "reindex S actor =
     act_bind (audit_recovery_request S actor Reindex (document_id_new ''*'' ''*'') None False) (\<lambda>_.
     act_bind (inspect S None None None) (\<lambda>(documents, _).
     act_bind (act_lift (map_err (\<lambda>_. internal) (ext_catalogue_encode (svc_ext S) documents))) (\<lambda>bs.
     act_return (length documents, sha256_hex (svc_ext S) bs))))"

definition svc_audit ::
  "('s, 'd, 'f) service \<Rightarrow> audit_query \<Rightarrow> ('s, 'd, audit_record list) svc_act"
where
  "svc_audit S query = on_storage (port_audit (svc_port S) query)"

definition svc_discard_audit_before :: "('s, 'd, 'f) service \<Rightarrow> nat option \<Rightarrow> ('s, 'd, nat) svc_act" where
  "svc_discard_audit_before S cutoff =
     act_bind (act_lift (ok_or internal cutoff)) (\<lambda>ms.
     on_storage (port_discard_audit_before (svc_port S) ms))"

definition svc_reset ::
  "('s, 'd, 'f) service \<Rightarrow> principal \<Rightarrow> document_id \<Rightarrow> ('s, 'd, store_error, unit) loop_act"
where
  "svc_reset S actor document w =
     (case audit_recovery_request S actor Reset document None True w of
        (Inl e, w1) \<Rightarrow> Some (Inl e, w1)
      | (Inr _, w1) \<Rightarrow>
          map_option (\<lambda>(r, w2). (case r of Inl e \<Rightarrow> Inl e | Inr _ \<Rightarrow> Inr (), w2))
            (svc_delete S actor document w1))"

section \<open>Seeding and migration\<close>

definition seed_commit ::
  "('s, 'd, 'f) service \<Rightarrow> entity_spec \<Rightarrow> document_id \<Rightarrow> string option \<Rightarrow> bytes \<Rightarrow> u64 list \<Rightarrow> commit_request"
where
  "seed_commit S plan document incarnation accepted_update peers =
     \<lparr>cm_document = document, cm_incarnation = incarnation,
      cm_schema_version = plan_schema_version plan,
      cm_operation_id = ''seed:'' @ sha256_hex (svc_ext S) accepted_update,
      cm_actor = system_principal S, cm_intent = None, cm_peers = peers,
      cm_imported_update = accepted_update, cm_has_new_operations = True,
      cm_accepted_update = accepted_update, cm_frontier_before = None, cm_frontier_after = None\<rparr>"

text \<open>What a commit leaves accepted, or nothing when it was stale.\<close>

definition committed :: "commit_outcome \<Rightarrow> resident option" where
  "committed outcome = (case outcome of
     CommitAccepted r \<Rightarrow> Some r | CommitDuplicate r \<Rightarrow> Some r | CommitStale \<Rightarrow> None)"

partial_function (option) seed_loop ::
  "('s, 'd, 'f) service \<Rightarrow> document_id \<Rightarrow> commit_request \<Rightarrow> ('s, 'd, store_error, resident) loop_act"
where
  "seed_loop S document commit w =
     (case read_envelope S document w of
        (Inl e, w1) \<Rightarrow> Some (Inl e, w1)
      | (Inr (Some r), w1) \<Rightarrow> Some (Inr r, w1)
      | (Inr None, w1) \<Rightarrow>
          (case svc_commit S None commit w1 of
             (Inl e, w2) \<Rightarrow> Some (Inl e, w2)
           | (Inr outcome, w2) \<Rightarrow>
               (case committed outcome of
                  Some r \<Rightarrow> Some (Inr r, w2)
                | None \<Rightarrow> seed_loop S document commit w2)))"

definition seed ::
  "('s, 'd, 'f) service \<Rightarrow> entity_spec \<Rightarrow> document_id \<Rightarrow> string option \<Rightarrow> bytes \<Rightarrow>
   ('s, 'd, store_error, resident) loop_act"
where
  "seed S plan document incarnation accepted_update w =
     (case peers_in_update (svc_loro S) (b64_encode (svc_loro S) accepted_update) of
        Inl e \<Rightarrow> Some (Inl (replica_store_error document e), w)
      | Inr peers \<Rightarrow> seed_loop S document (seed_commit S plan document incarnation accepted_update peers) w)"

text \<open>A document some code materialises and the application's validator accepts.\<close>

definition validated_document ::
  "('s, 'd, 'f) service \<Rightarrow> (store_error \<Rightarrow> 'e) \<Rightarrow> document_id \<Rightarrow> 'd replica \<Rightarrow> bytes \<Rightarrow> (json \<Rightarrow> 'e + unit) \<Rightarrow>
   'e + unit"
where
  "validated_document S from_store document authoring accepted_update validate =
     res_bind (map_err (\<lambda>e. from_store (replica_store_error document e))
       (materialized_document (svc_loro S) authoring (collaboration_etag (svc_ext S) accepted_update)))
     validate"

definition seed_validated ::
  "('s, 'd, 'f) service \<Rightarrow> (store_error \<Rightarrow> 'e) \<Rightarrow> entity_spec \<Rightarrow> document_id \<Rightarrow> string option \<Rightarrow>
   ('e + bytes) \<Rightarrow> ('s, 'd, 'e, summary) loop_act"
where
  "seed_validated S from_store plan document incarnation update w =
     (case update of
        Inl e \<Rightarrow> Some (Inl e, w)
      | Inr accepted_update \<Rightarrow>
          map_option (\<lambda>(r, w'). (case r of Inl e \<Rightarrow> Inl (from_store e) | Inr seeded \<Rightarrow> Inr (summary_of seeded), w'))
            (seed S plan document incarnation accepted_update w))"

definition bootstrap ::
  "('s, 'd, 'f) service \<Rightarrow> (store_error \<Rightarrow> 'e) \<Rightarrow> entity_spec \<Rightarrow> document_id \<Rightarrow> json \<Rightarrow>
   (json \<Rightarrow> 'e + unit) \<Rightarrow> ('s, 'd, 'e, summary) loop_act"
where
  "bootstrap S from_store plan document seed_document validate w =
     (case read_envelope S document w of
        (Inl e, w1) \<Rightarrow> Some (Inl (from_store e), w1)
      | (Inr (Some r), w1) \<Rightarrow> Some (Inr (summary_of r), w1)
      | (Inr None, w1) \<Rightarrow>
          (case system_peer S document w1 of
             (Inl e, w2) \<Rightarrow> Some (Inl (from_store e), w2)
           | (Inr peer, w2) \<Rightarrow>
               seed_validated S from_store plan document None
                 (res_bind (map_err (\<lambda>e. from_store (replica_store_error document e))
                    (from_document (svc_loro S) plan seed_document peer)) (\<lambda>authoring.
                  res_bind (map_err from_store (export_update_bytes S document authoring)) (\<lambda>accepted_update.
                  res_bind (validated_document S from_store document authoring accepted_update validate) (\<lambda>_.
                  Inr accepted_update)))) w2))"

definition invalid_incarnation_error :: "document_id \<Rightarrow> store_error" where
  "invalid_incarnation_error document = with_data invalid_request
     (document_data ''invalid_collaboration_incarnation'' document [])"

definition bootstrap_update ::
  "('s, 'd, 'f) service \<Rightarrow> (store_error \<Rightarrow> 'e) \<Rightarrow> entity_spec \<Rightarrow> document_id \<Rightarrow> u32 \<Rightarrow> string \<Rightarrow>
   string option \<Rightarrow> (json \<Rightarrow> 'e + unit) \<Rightarrow> ('s, 'd, 'e, summary) loop_act"
where
  "bootstrap_update S from_store plan document schema_version update_base64 incarnation validate w =
     (case read_envelope S document w of
        (Inl e, w1) \<Rightarrow> Some (Inl (from_store e), w1)
      | (Inr (Some r), w1) \<Rightarrow> Some (Inr (summary_of r), w1)
      | (Inr None, w1) \<Rightarrow>
          if (case incarnation of Some i \<Rightarrow> blank i | None \<Rightarrow> False)
          then Some (Inl (from_store (invalid_incarnation_error document)), w1)
          else seed_validated S from_store plan document incarnation
             (res_bind (map_err (\<lambda>e. from_store (replica_store_error document e))
                (from_versioned_update_base64 (svc_loro S) plan schema_version update_base64)) (\<lambda>authoring.
              res_bind (map_err (\<lambda>_. from_store invalid_request)
                (b64_decode (svc_loro S) update_base64)) (\<lambda>accepted_update.
              res_bind (validated_document S from_store document authoring accepted_update validate) (\<lambda>_.
              Inr accepted_update)))) w1)"

definition migration_error :: "entity_spec \<Rightarrow> document_id \<Rightarrow> envelope \<Rightarrow> store_error" where
  "migration_error plan document current = with_data invalid_request
     (document_data ''collaboration_migration_required'' document
       [(''actual'', JNumber (PosInt (unat (env_schema_version current)))),
        (''expected'', JNumber (PosInt (unat (plan_schema_version plan))))])"

definition migration_commit ::
  "('s, 'd, 'f) service \<Rightarrow> entity_spec \<Rightarrow> document_id \<Rightarrow> u32 \<Rightarrow> bytes \<Rightarrow> 'd replica \<Rightarrow> string \<Rightarrow>
   u64 list \<Rightarrow> commit_request"
where
  "migration_commit S plan document from_schema_version accepted_update migrated incarnation peers =
     \<lparr>cm_document = document, cm_incarnation = Some incarnation,
      cm_schema_version = plan_schema_version plan,
      cm_operation_id = ''migration:'' @ dec (unat from_schema_version) @ ''-to-''
        @ dec (unat (plan_schema_version plan)) @ '':'' @ sha256_hex (svc_ext S) accepted_update,
      cm_actor = system_principal S, cm_intent = None, cm_peers = peers,
      cm_imported_update = accepted_update, cm_has_new_operations = True,
      cm_accepted_update = accepted_update, cm_frontier_before = None,
      cm_frontier_after = Some (accepted_frontier_base64 (svc_loro S) migrated)\<rparr>"

text \<open>One turn of the migration's loop: a resident when it is over, nothing when it was overtaken.\<close>

definition migrate_turn ::
  "('s, 'd, 'f) service \<Rightarrow> entity_spec \<Rightarrow> document_id \<Rightarrow> u32 \<Rightarrow> string \<Rightarrow> bytes \<Rightarrow> 'd replica \<Rightarrow>
   ('s, 'd, resident option) svc_act"
where
  "migrate_turn S plan document from_schema_version migrated_update_base64 accepted_update migrated =
     act_bind (read_envelope S document) (\<lambda>read.
     act_bind (act_lift (ok_or (missing_state document) read)) (\<lambda>r.
     let current = res_envelope r in
     if env_schema_version current = plan_schema_version plan then act_return (Some r)
     else if env_schema_version current \<noteq> from_schema_version
     then act_fail (migration_error plan document current)
     else
       act_bind (replica_act document (peers_in_update (svc_loro S) migrated_update_base64)) (\<lambda>peers.
       act_bind (new_incarnation S) (\<lambda>incarnation.
       act_bind (svc_commit S (Some r)
         (migration_commit S plan document from_schema_version accepted_update migrated incarnation
           (filter (\<lambda>peer. map_of (env_peers current) peer = None) peers))) (\<lambda>outcome.
       act_return (committed outcome))))))"

partial_function (option) migrate_loop ::
  "('s, 'd, 'f) service \<Rightarrow> entity_spec \<Rightarrow> document_id \<Rightarrow> u32 \<Rightarrow> string \<Rightarrow> bytes \<Rightarrow> 'd replica \<Rightarrow>
   ('s, 'd, store_error, resident) loop_act"
where
  "migrate_loop S plan document from_schema_version migrated_update_base64 accepted_update migrated w =
     (case migrate_turn S plan document from_schema_version migrated_update_base64 accepted_update
         migrated w of
        (Inl e, w1) \<Rightarrow> Some (Inl e, w1)
      | (Inr over, w1) \<Rightarrow>
          (case over of
             Some r \<Rightarrow> Some (Inr r, w1)
           | None \<Rightarrow> migrate_loop S plan document from_schema_version migrated_update_base64
               accepted_update migrated w1))"

definition migrate ::
  "('s, 'd, 'f) service \<Rightarrow> (store_error \<Rightarrow> 'e) \<Rightarrow> entity_spec \<Rightarrow> document_id \<Rightarrow> u32 \<Rightarrow> string \<Rightarrow>
   (json \<Rightarrow> 'e + unit) \<Rightarrow> ('s, 'd, 'e, summary) loop_act"
where
  "migrate S from_store plan document from_schema_version migrated_update_base64 validate w =
     (case res_bind (map_err (\<lambda>e. from_store (replica_store_error document e))
            (from_versioned_update_base64 (svc_loro S) plan (plan_schema_version plan)
              migrated_update_base64)) (\<lambda>migrated.
          res_bind (map_err (\<lambda>_. from_store internal)
            (b64_decode (svc_loro S) migrated_update_base64)) (\<lambda>accepted_update.
          res_bind (validated_document S from_store document migrated accepted_update validate) (\<lambda>_.
          Inr (migrated, accepted_update)))) of
        Inl e \<Rightarrow> Some (Inl e, w)
      | Inr (migrated, accepted_update) \<Rightarrow>
          map_option (\<lambda>(r, w'). (case r of Inl e \<Rightarrow> Inl (from_store e) | Inr m \<Rightarrow> Inr (summary_of m), w'))
            (migrate_loop S plan document from_schema_version migrated_update_base64 accepted_update
              migrated w))"

section \<open>The set of stores\<close>

text \<open>
  \<open>CollaborationStores\<close>: the stores an application registers, by name. The services of a set share
  its plans, policy and key; a service differs from the others by its port and its name, which is
  the source of the changes it announces. The set's lock is held for one operation.
\<close>

record ('s, 'd, 'f) stores =
  sts_plans :: "entity_spec list"
  sts_policy :: commit_policy
  sts_key :: bytes
  sts_ext :: "('d, 'f) ext"
  sts_stores :: "(string, ('s, 'd, 'f) service) bmap"

definition stores_new ::
  "entity_spec list \<Rightarrow> commit_policy \<Rightarrow> bytes \<Rightarrow> ('d, 'f) ext \<Rightarrow> ('s, 'd, 'f) stores"
where
  "stores_new plans policy key X =
     \<lparr>sts_plans = plans, sts_policy = policy, sts_key = key, sts_ext = X, sts_stores = []\<rparr>"

definition stores_service :: "('s, 'd, 'f) stores \<Rightarrow> string \<Rightarrow> 's port \<Rightarrow> ('s, 'd, 'f) service" where
  "stores_service st name port =
     \<lparr>svc_port = port, svc_plans = sts_plans st, svc_policy = sts_policy st, svc_key = sts_key st,
      svc_source = name, svc_ext = sts_ext st\<rparr>"

definition store_registered :: "string \<Rightarrow> store_error" where
  "store_registered name = with_data conflict
     (jobj [(''code'', JString ''collaboration_store_registered''), (''store'', JString name)])"

definition stores_register ::
  "string \<Rightarrow> 's port \<Rightarrow> (('s, 'd, 'f) stores, store_error, ('s, 'd, 'f) service) act"
where
  "stores_register name port st =
     (if map_of (sts_stores st) name \<noteq> None then (Inl (store_registered name), st)
      else (let service = stores_service st name port in
        (Inr service, st\<lparr>sts_stores := bmap_insert name service (sts_stores st)\<rparr>)))"

definition stores_store_or_register ::
  "string \<Rightarrow> 's port \<Rightarrow> (('s, 'd, 'f) stores, store_error, ('s, 'd, 'f) service) act"
where
  "stores_store_or_register name port st =
     (case map_of (sts_stores st) name of
        Some existing \<Rightarrow> (Inr existing, st)
      | None \<Rightarrow> (let service = stores_service st name port in
          (Inr service, st\<lparr>sts_stores := bmap_insert name service (sts_stores st)\<rparr>)))"

definition stores_store :: "('s, 'd, 'f) stores \<Rightarrow> string \<Rightarrow> ('s, 'd, 'f) service option" where
  "stores_store st name = map_of (sts_stores st) name"

definition stores_forget :: "string \<Rightarrow> (('s, 'd, 'f) stores, store_error, bool) act" where
  "stores_forget name st =
     (Inr (map_of (sts_stores st) name \<noteq> None), st\<lparr>sts_stores := bmap_remove name (sts_stores st)\<rparr>)"

end
