(* ===== verification/Samples.thy ===== *)
theory Samples
  imports Recovery "HOL-Library.Code_Target_Nat"
begin

text \<open>
  A small executable instance of the code outside the repository, for the examples the properties
  are applied to: a history is a sequence of operations of two bytes, the peer's and the text it
  writes; an encoding of envelopes that keeps serde's law; a keyed code that reads the nonce. With
  them a plan of one text field, a principal, a document and a service over the in-memory port.
\<close>

section \<open>An encoding of envelopes\<close>

type_synonym 'a parser = "string \<Rightarrow> ('a \<times> string) option"

definition enc_nat :: "nat \<Rightarrow> string" where
  "enc_nat n = dec n @ '';''"

definition par_nat :: "nat parser" where
  "par_nat s = Some (undec (takeWhile (\<lambda>c. c \<noteq> CHR '';'') s), tl (dropWhile (\<lambda>c. c \<noteq> CHR '';'') s))"

definition enc_str :: "string \<Rightarrow> string" where
  "enc_str s = enc_nat (length s) @ s"

definition par_str :: "string parser" where
  "par_str s = Option.bind (par_nat s) (\<lambda>(n, rest). Some (take n rest, drop n rest))"

fun par_times :: "'a parser \<Rightarrow> nat \<Rightarrow> 'a list parser" where
  "par_times p 0 s = Some ([], s)"
| "par_times p (Suc n) s =
     Option.bind (p s) (\<lambda>(x, rest). Option.bind (par_times p n rest) (\<lambda>(xs, rest'). Some (x # xs, rest')))"

definition enc_list :: "('a \<Rightarrow> string) \<Rightarrow> 'a list \<Rightarrow> string" where
  "enc_list enc xs = enc_nat (length xs) @ concat (map enc xs)"

definition par_list :: "'a parser \<Rightarrow> 'a list parser" where
  "par_list p s = Option.bind (par_nat s) (\<lambda>(n, rest). par_times p n rest)"

definition enc_opt :: "string option \<Rightarrow> string" where
  "enc_opt x = enc_list enc_str (case x of None \<Rightarrow> [] | Some a \<Rightarrow> [a])"

definition par_opt :: "string option parser" where
  "par_opt s = Option.bind (par_list par_str s) (\<lambda>(xs, rest). Some (case xs of [] \<Rightarrow> None | a # _ \<Rightarrow> Some a, rest))"

definition reads_back :: "('a \<Rightarrow> string) \<Rightarrow> 'a parser \<Rightarrow> bool" where
  "reads_back enc p \<longleftrightarrow> (\<forall>a rest. p (enc a @ rest) = Some (a, rest))"

lemma reads_backD [simp]: "reads_back enc p \<Longrightarrow> p (enc a @ rest) = Some (a, rest)"
  by (simp add: reads_back_def)

lemma digits_no_semicolon: "c \<in> set (dec n) \<Longrightarrow> c \<noteq> CHR '';''"
proof (induction n rule: dec.induct)
  case (1 n)
  have "digit m \<noteq> CHR '';''" if "m < 10" for m
    using of_char_digit[OF that] that by (auto dest: arg_cong[where f = "of_char :: char \<Rightarrow> nat"])
  note digits = this[of n] this[of "n mod 10"]
  with 1 show ?case by (cases "n < 10") (auto simp: dec.simps[of n])
qed

lemma reads_nat: "reads_back enc_nat par_nat"
proof -
  have "takeWhile (\<lambda>c. c \<noteq> CHR '';'') (dec n @ CHR '';'' # rest) = dec n"
    and "dropWhile (\<lambda>c. c \<noteq> CHR '';'') (dec n @ CHR '';'' # rest) = CHR '';'' # rest" for n rest
    using digits_no_semicolon[of _ n]
    by (simp_all add: takeWhile_append2 dropWhile_append2 takeWhile_tail)
  then show ?thesis by (simp add: reads_back_def enc_nat_def par_nat_def)
qed

lemma reads_str: "reads_back enc_str par_str"
  using reads_backD[OF reads_nat] by (simp add: reads_back_def enc_str_def par_str_def)

lemma reads_list:
  assumes "reads_back enc p"
  shows "reads_back (enc_list enc) (par_list p)"
proof -
  have "par_times p (length xs) (concat (map enc xs) @ rest) = Some (xs, rest)" for xs rest
    using assms by (induction xs) simp_all
  then show ?thesis using reads_backD[OF reads_nat] by (simp add: reads_back_def enc_list_def par_list_def)
qed

lemma reads_opt: "reads_back enc_opt par_opt"
  using reads_backD[OF reads_list[OF reads_str]]
  by (simp add: reads_back_def enc_opt_def par_opt_def split: option.splits)

fun kind_number :: "actor_kind \<Rightarrow> nat" where
  "kind_number Human = 0" | "kind_number Agent = 1" | "kind_number Service = 2" | "kind_number System = 3"

definition number_kind :: "nat \<Rightarrow> actor_kind" where
  "number_kind n = (if n = 0 then Human else if n = 1 then Agent else if n = 2 then Service else System)"

lemma number_kind_number [simp]: "number_kind (kind_number k) = k"
  by (cases k) (simp_all add: number_kind_def)

definition enc_principal :: "principal \<Rightarrow> string" where
  "enc_principal p = enc_str (principal_id p) @ enc_nat (kind_number (principal_kind p))"

definition par_principal :: "principal parser" where
  "par_principal s = Option.bind (par_str s) (\<lambda>(i, s). Option.bind (par_nat s) (\<lambda>(k, s).
     Some (\<lparr>principal_id = i, principal_kind = number_kind k\<rparr>, s)))"

lemma reads_principal: "reads_back enc_principal par_principal"
  using reads_backD[OF reads_str] reads_backD[OF reads_nat]
  by (simp add: reads_back_def enc_principal_def par_principal_def)

definition enc_peer :: "u64 \<times> principal \<Rightarrow> string" where
  "enc_peer p = enc_nat (unat (fst p)) @ enc_principal (snd p)"

definition par_peer :: "(u64 \<times> principal) parser" where
  "par_peer s = Option.bind (par_nat s) (\<lambda>(n, s). Option.bind (par_principal s) (\<lambda>(p, s).
     Some ((word_of_nat n, p), s)))"

lemma reads_peer: "reads_back enc_peer par_peer"
  using reads_backD[OF reads_principal] reads_backD[OF reads_nat]
  by (simp add: reads_back_def enc_peer_def par_peer_def)

definition enc_operation :: "operation \<Rightarrow> string" where
  "enc_operation op = enc_str (op_operation_id op) @ enc_nat (unat (op_sequence op))
     @ enc_nat (unat (op_schema_version op)) @ enc_principal (op_actor op) @ enc_opt (op_intent op)
     @ enc_str (op_update_base64 op) @ enc_str (op_update_sha256 op) @ enc_nat (op_update_bytes op)"

definition par_operation :: "operation parser" where
  "par_operation s =
     Option.bind (par_str s) (\<lambda>(i, s). Option.bind (par_nat s) (\<lambda>(n, s).
     Option.bind (par_nat s) (\<lambda>(v, s). Option.bind (par_principal s) (\<lambda>(a, s).
     Option.bind (par_opt s) (\<lambda>(t, s). Option.bind (par_str s) (\<lambda>(u, s).
     Option.bind (par_str s) (\<lambda>(h, s). Option.bind (par_nat s) (\<lambda>(b, s).
     Some (\<lparr>op_operation_id = i, op_sequence = word_of_nat n, op_schema_version = word_of_nat v,
       op_actor = a, op_intent = t, op_update_base64 = u, op_update_sha256 = h, op_update_bytes = b\<rparr>, s)))))))))"

lemmas reads_simps = reads_backD[OF reads_nat] reads_backD[OF reads_str] reads_backD[OF reads_opt]
  reads_backD[OF reads_principal]

lemma reads_operation: "reads_back enc_operation par_operation"
  by (simp add: reads_back_def enc_operation_def par_operation_def reads_simps)

definition sample_encode :: "envelope \<Rightarrow> string + bytes" where
  "sample_encode e = Inr (enc_nat (unat (env_envelope_version e)) @ enc_str (env_entity e)
     @ enc_str (env_resource_id e) @ enc_str (env_incarnation e) @ enc_nat (unat (env_schema_version e))
     @ enc_nat (unat (env_generation e)) @ enc_nat (unat (env_checkpoint_sequence e))
     @ enc_nat (unat (env_compacted_through_sequence e)) @ enc_str (env_checkpoint_update_base64 e)
     @ enc_str (env_checkpoint_sha256 e) @ enc_nat (env_checkpoint_bytes e)
     @ enc_list enc_operation (env_retained_operations e) @ enc_list enc_peer (env_peers e))"

definition par_envelope :: "envelope parser" where
  "par_envelope s =
     Option.bind (par_nat s) (\<lambda>(v, s). Option.bind (par_str s) (\<lambda>(ent, s).
     Option.bind (par_str s) (\<lambda>(rid, s). Option.bind (par_str s) (\<lambda>(inc, s).
     Option.bind (par_nat s) (\<lambda>(sv, s). Option.bind (par_nat s) (\<lambda>(gen, s).
     Option.bind (par_nat s) (\<lambda>(cs, s). Option.bind (par_nat s) (\<lambda>(ct, s).
     Option.bind (par_str s) (\<lambda>(cu, s). Option.bind (par_str s) (\<lambda>(ch, s).
     Option.bind (par_nat s) (\<lambda>(cb, s). Option.bind (par_list par_operation s) (\<lambda>(ops, s).
     Option.bind (par_list par_peer s) (\<lambda>(ps, s).
     Some (\<lparr>env_envelope_version = word_of_nat v, env_entity = ent, env_resource_id = rid,
       env_incarnation = inc, env_schema_version = word_of_nat sv, env_generation = word_of_nat gen,
       env_checkpoint_sequence = word_of_nat cs, env_compacted_through_sequence = word_of_nat ct,
       env_checkpoint_update_base64 = cu, env_checkpoint_sha256 = ch, env_checkpoint_bytes = cb,
       env_retained_operations = ops, env_peers = ps\<rparr>, s))))))))))))))"

definition sample_decode :: "bytes \<Rightarrow> string + envelope" where
  "sample_decode bs = ok_or ''malformed'' (map_option fst (par_envelope bs))"

definition sample_declared :: "bytes \<Rightarrow> string + u32" where
  "sample_declared bs = ok_or ''malformed'' (map_option (\<lambda>(v, _). word_of_nat v) (par_nat bs))"

lemma sample_decode_encode: "sample_encode e = Inr bs \<Longrightarrow> sample_decode bs = Inr e"
proof -
  assume "sample_encode e = Inr bs"
  then have bs: "Inr bs = sample_encode e" by simp
  have "par_envelope bs = Some (e, [])"
    using bs reads_backD[OF reads_list[OF reads_operation]]
      reads_backD[OF reads_list[OF reads_peer], of _ "[]"]
    by (simp add: sample_encode_def par_envelope_def reads_simps)
  then show "sample_decode bs = Inr e" by (simp add: sample_decode_def)
qed

lemma sample_declared_encode: "sample_encode e = Inr bs \<Longrightarrow> sample_declared bs = Inr (env_envelope_version e)"
  by (auto simp: sample_encode_def sample_declared_def reads_simps)

lemma sample_declared_decode:
  "sample_declared bs = Inr v \<Longrightarrow> sample_decode bs = Inr e \<Longrightarrow> env_envelope_version e = v"
  by (auto simp: sample_declared_def sample_decode_def par_envelope_def split: Option.bind_splits prod.splits)

section \<open>A history\<close>

type_synonym sample_doc = "string \<times> char \<times> loro_value list"

fun history_vv :: "string \<Rightarrow> version_vector" where
  "history_vv (p # t # rest) =
     (let vv = history_vv rest; peer = word_of_nat (65536 * of_char p) in
      (peer, held_counter vv peer + 1) # filter (\<lambda>e. fst e \<noteq> peer) vv)"
| "history_vv _ = []"

fun shared_prefix :: "string \<Rightarrow> string \<Rightarrow> nat" where
  "shared_prefix (a # as) (b # bs) = (if a = b then Suc (shared_prefix as bs) else 0)"
| "shared_prefix _ _ = 0"

definition history_join :: "string \<Rightarrow> string \<Rightarrow> string" where
  "history_join a b = a @ drop (shared_prefix a b) b"

definition sample_write :: "sample_doc \<Rightarrow> string \<Rightarrow> sample_doc" where
  "sample_write d s = (fst d @ [fst (snd d), if s = [] then CHR ''-'' else hd s], snd d)"

definition sample_loro :: "(sample_doc, string) loro" where
  "sample_loro =
     \<lparr>loro_new = ([], CHR ''0'', []),
      loro_set_peer = (\<lambda>d p. Inr (fst d, char_of (unat p div 65536), snd (snd d))),
      loro_import = (\<lambda>d bs. Inr ((history_join (fst d) bs, snd d), False)),
      loro_export_all = (\<lambda>d. Inr (fst d)),
      loro_export_from = (\<lambda>d vv. Inr (fst d)),
      loro_decode_meta = (\<lambda>bs. Inr (history_vv bs)),
      loro_oplog_vv = (\<lambda>d. history_vv (fst d)),
      loro_vv_includes = (\<lambda>vv p c. c < held_counter vv p),
      loro_vv_merge = (\<lambda>a b. a @ filter (\<lambda>e. map_of a (fst e) = None) b),
      loro_vv_partial_cmp = (\<lambda>a b. if a = b then Some Equal else None),
      loro_change_deps = (\<lambda>d p c. case fst d of
          x # _ \<Rightarrow> if word_of_nat (65536 * of_char x) = p then Some [] else Some (fst d) | [] \<Rightarrow> None),
      loro_oplog_frontiers = fst,
      loro_frontiers_is_empty = (\<lambda>f. f = []),
      loro_frontiers_encode = (\<lambda>f. f),
      loro_frontiers_decode = Inr,
      loro_frontiers_to_vv = (\<lambda>d f. if prefix f (fst d) then Some (history_vv f) else None),
      loro_fork_at = (\<lambda>d f. if prefix f (fst d) then Inr (f, snd d) else Inl ''unknown''),
      loro_fork = (\<lambda>d. d),
      loro_commit = (\<lambda>d. d),
      loro_peer_id = (\<lambda>d. [fst (snd d)]),
      loro_debug_vv = fst,
      loro_debug_state_frontiers = fst,
      loro_text = (\<lambda>d c. if fst d = [] then [] else [last (fst d)]),
      loro_list = (\<lambda>d c. []),
      loro_map = (\<lambda>d c. []),
      loro_node_deep = (\<lambda>n. LNull),
      loro_to_json = (\<lambda>v. JNull),
      loro_entry = (\<lambda>d h k. None),
      loro_map_insert = (\<lambda>d h k v. Inr d),
      loro_map_delete = (\<lambda>d h k. Inr d),
      loro_ensure_map = (\<lambda>d h k. Inr d),
      loro_ensure_text = (\<lambda>d h k. Inr d),
      loro_ensure_list = (\<lambda>d h k. Inr d),
      loro_update_text = (\<lambda>d h s. Some (sample_write d s)),
      loro_text_delete = (\<lambda>d h i n. Inr d),
      loro_text_insert = (\<lambda>d h i s. Inr (sample_write d s)),
      loro_list_at = (\<lambda>d h. snd (snd d)),
      loro_list_delete = (\<lambda>d h i n. Inr (fst d, fst (snd d), take i (snd (snd d)) @ drop (i + n) (snd (snd d)))),
      loro_list_insert = (\<lambda>d h i v. Inr (fst d, fst (snd d), take i (snd (snd d)) @ v # drop i (snd (snd d)))),
      b64_encode = (\<lambda>bs. bs),
      b64_decode = Inr,
      myers_diff = (\<lambda>old new. [DiffReplace (length old) 0 (length new)])\<rparr>"

text \<open>The code of a message is its nonce's last byte, placed so that the block's base is a multiple of it.\<close>

definition sample_hmac :: "bytes \<Rightarrow> bytes \<Rightarrow> bytes" where
  "sample_hmac key message =
     [CHR 0x00, CHR 0x00, CHR 0x00, CHR 0x00, CHR 0x00, char_of (2 * of_char (last message) :: nat),
      CHR 0x00, CHR 0x00]"

definition sample_ext :: "(sample_doc, string) ext" where
  "sample_ext =
     \<lparr>ext_loro = sample_loro, ext_sha256 = (\<lambda>bs. bs), ext_hmac = sample_hmac,
      ext_declared_version = sample_declared, ext_envelope_decode = sample_decode,
      ext_envelope_encode = sample_encode, ext_catalogue_encode = (\<lambda>xs. Inr (enc_nat (length xs))),
      ext_uuid = (\<lambda>n. [char_of (65 + n mod 26)]), ext_now_ms = Some, ext_now_rfc3339 = dec\<rparr>"

lemma sample_serde: "serde_law sample_ext"
  using sample_decode_encode sample_declared_encode sample_declared_decode
  by (auto simp: serde_law_def sample_ext_def)

lemma sample_b64: "b64_law (ext_loro sample_ext)"
  by (simp add: b64_law_def sample_ext_def sample_loro_def)

text \<open>How the peers of a block are computed in the examples: by division instead of shifts.\<close>

lemma block_of_div [code]: "block_of peer = peer div 65536 * 65536"
  by (simp add: block_of_def peer_index_bits_def push_bit_eq_mult drop_bit_eq_div)

lemma peer_base_div [code]:
  "peer_base hmac key p d nonce = from_be_bytes (take 8 (hmac key (mac_message p d nonce))) div 131072 * 65536"
  by (simp add: peer_base_def peer_index_bits_def derived_bits_def push_bit_eq_mult drop_bit_eq_div)

lemma sample_lists: "list_law sample_loro" "diff_law sample_loro"
  by (simp_all add: list_law_def diff_law_def sample_loro_def)

section \<open>A plan and a service\<close>

definition sample_field :: field_spec where
  "sample_field =
     \<lparr>field_path = ''body'', field_storage_kind = Text, field_container = Some ''body'',
      field_container_template = None, field_key = None, field_identity_path = None,
      field_identity_variable = None, field_order_container = None,
      field_item_container_template = None, field_metadata_container = None,
      field_metadata_container_template = None, field_metadata_key = None, field_codec = CString,
      field_value_schema = None, field_required = True, field_required_in_parent = True,
      field_conflict = Explicit, field_writers = []\<rparr>"

definition sample_plan :: entity_spec where
  "sample_plan =
     \<lparr>plan_name = ''N'', plan_id_field = ''id'', plan_schema_version = 1,
      plan_authoring_projection = ''note-authoring'', plan_authoring_document = None,
      plan_authoring_store_params = [], plan_import_mutation = ''note.import'',
      plan_root_container = ''note'', plan_fields = [sample_field]\<rparr>"

definition sample_actor :: principal where
  "sample_actor = \<lparr>principal_id = ''a'', principal_kind = Human\<rparr>"

definition sample_document :: document_id where
  "sample_document = \<lparr>doc_entity = ''N'', doc_resource_id = ''1''\<rparr>"

definition sample_policy :: commit_policy where
  "sample_policy = \<lparr>cp_retained_operations = 2, cp_attempts = 3\<rparr>"

definition sample_stores :: "('s, sample_doc, string) stores" where
  "sample_stores = stores_new [sample_plan] sample_policy ''key'' sample_ext"

abbreviation sample_service :: "'s port \<Rightarrow> ('s, sample_doc, string) service" where
  "sample_service P \<equiv> stores_service sample_stores ''notes'' P"

lemma sample_stores_ext [simp]: "sts_ext sample_stores = sample_ext"
  by (simp add: sample_stores_def stores_new_def)

text \<open>A request that creates the sample document and one that extends it.\<close>

definition sample_creation :: import_request where
  "sample_creation =
     \<lparr>rq_document = sample_document, rq_schema_version = 1, rq_operation_id = ''p'',
      rq_exchange_mode = Bootstrap, rq_base_frontier_base64 = [], rq_update_base64 = ''Ax'',
      rq_fence = FenceFrontier, rq_actor = sample_actor, rq_peer_nonces = [''A''], rq_intent = None\<rparr>"

definition sample_change :: import_request where
  "sample_change =
     \<lparr>rq_document = sample_document, rq_schema_version = 1, rq_operation_id = ''q'',
      rq_exchange_mode = Incremental, rq_base_frontier_base64 = ''Ax'', rq_update_base64 = ''AxAy'',
      rq_fence = FenceFrontier, rq_actor = sample_actor, rq_peer_nonces = [''A''], rq_intent = None\<rparr>"

section \<open>The properties of envelopes and residency, on examples\<close>

definition sample_commit :: commit_request where
  "sample_commit =
     \<lparr>cm_document = sample_document, cm_incarnation = None, cm_schema_version = 1,
      cm_operation_id = ''p'', cm_actor = sample_actor, cm_intent = None, cm_peers = [4259840],
      cm_imported_update = ''Ax'', cm_has_new_operations = True, cm_accepted_update = ''Ax'',
      cm_frontier_before = None, cm_frontier_after = None\<rparr>"

definition sample_envelope :: envelope where
  "sample_envelope = next_envelope sample_ext sample_policy ''A'' None sample_document sample_commit"

theorem next_envelope_valid_witness:
  "validate_envelope sample_ext sample_document
     (next_envelope sample_ext sample_policy ''A'' None sample_document sample_commit) = Inr [(4259840, 1)]"
proof (rule next_envelope_valid[OF sample_b64])
  show "1 \<le> cp_retained_operations sample_policy" by code_simp
  show "cm_schema_version sample_commit \<noteq> 0" by code_simp
  show "\<not> blank ''A''" by code_simp
  show "\<forall>i. cm_incarnation sample_commit = Some i \<longrightarrow> \<not> blank i" by (simp add: sample_commit_def)
  show "version_of_update (ext_loro sample_ext)
      (b64_encode (ext_loro sample_ext) (cm_accepted_update sample_commit)) = Inr [(4259840, 1)]"
    by code_simp
  show "\<forall>p \<in> fst ` set [(4259840 :: u64, 1 :: u64)]. p \<in> set (cm_peers sample_commit)
      \<or> (\<exists>c. None = Some c \<and> map_of (env_peers c) p \<noteq> None)"
    by (simp add: sample_commit_def)
qed simp

theorem no_retention_always_corrupt_witness:
  "validate_envelope sample_ext sample_document
     (next_envelope sample_ext \<lparr>cp_retained_operations = 0, cp_attempts = 3\<rparr> ''A'' None sample_document sample_commit)
   = Inl (corrupt_state sample_document)"
  by (rule no_retention_always_corrupt) simp

theorem residency_counts_exact_witness:
  "counted_elsewhere (snd (hold ''N/1''
     \<lparr>res_id = 0, res_version = ''1'', res_envelope = sample_envelope,
      res_accepted = \<lparr>cv_incarnation = ''A'', cv_peers = []\<rparr>\<rparr>
     (fresh_world memory_new :: (kept_state, sample_doc) world))) = (0, 0)
   \<and> counted_elsewhere (fresh_world memory_new :: (kept_state, sample_doc) world) = (0, 0)"
proof -
  have zero: "counted_elsewhere (fresh_world memory_new :: (kept_state, sample_doc) world) = (0, 0)"
    by (simp add: counted_elsewhere_def fresh_world_def held_bytes_def)
  have "bmap_ok (w_held (fresh_world memory_new :: (kept_state, sample_doc) world))"
    by (simp add: fresh_world_def)
  from residency_counts_exact[OF this] zero show ?thesis by simp
qed

end
