(* ===== verification/Documents.thy ===== *)
theory Documents
  imports Replica Samples
begin

text \<open>
  What the substrate and the policies of \<open>crates/clerkenwell-doc\<close> promise of documents: what a
  conflict is, without the traversal; paths read back what was set; a validated sequence names its
  items apart; an ordered list ends up as the values written.
\<close>

section \<open>Conflicts\<close>

text \<open>
  (C36) The paths an incremental update is refused for are exactly those at which some declared field
  that is no derived one holds values its writer's policy refuses: an immutable field the client
  changed, or an explicit one that both the client and the document changed, to different values. They
  are listed once each, in order.
\<close>

theorem conflicts_exact:
  "(key \<in> set (conflicting_field_paths plan base client current kind) \<longleftrightarrow>
     (\<exists>f. f \<in> set (plan_fields plan)
        \<and> field_storage_kind f \<notin> {DerivedIdentity, DerivedRevision}
        \<and> (let b = value_or_null (field_values plan f base) key;
               c = value_or_null (field_values plan f client) key;
               u = value_or_null (field_values plan f current) key in
           c \<noteq> b \<and> (conflict_for f kind = Immutable
             \<or> (conflict_for f kind = Explicit \<and> c \<noteq> u \<and> u \<noteq> b)))))
   \<and> sorted (conflicting_field_paths plan base client current kind)
   \<and> distinct (conflicting_field_paths plan base client current kind)"
proof -
  have rule: "judged_field f c \<and> values_conflict c b x u \<longleftrightarrow>
      field_storage_kind f \<notin> {DerivedIdentity, DerivedRevision}
      \<and> x \<noteq> b \<and> (c = Immutable \<or> (c = Explicit \<and> x \<noteq> u \<and> u \<noteq> b))" for f c b x u
    by (cases c) (auto simp: judged_field_def)
  show ?thesis
    unfolding conflicting_field_paths_def judged_field_paths_iff Let_def
    using rule judged_field_paths_order by (auto simp: rule)
qed

text \<open>
  A client that changed nothing is never refused. An update over a document nobody else changed,
  and one that agrees with what the document already holds, are refused for the same paths, those of
  the immutable fields it changes, and for those every update is refused whatever the document holds.
\<close>

theorem only_contended_edits_conflict:
  "conflicting_field_paths plan base base current kind = []
   \<and> conflicting_field_paths plan base client base kind = conflicting_field_paths plan base client client kind
   \<and> set (conflicting_field_paths plan base client base kind)
       \<subseteq> set (conflicting_field_paths plan base client current kind)"
proof -
  let ?p = "\<lambda>f. Some (conflict_for f kind)"
  have "key \<notin> set (judged_field_paths plan base base current ?p)" for key
    by (simp add: judged_field_paths_iff)
  then have "judged_field_paths plan base base current ?p = []" by (metis last_in_set)
  moreover have agree: "values_conflict c b x b \<longleftrightarrow> values_conflict c b x x" for c b x
    by (cases c) auto
  have "set (judged_field_paths plan base client base ?p) = set (judged_field_paths plan base client client ?p)"
    unfolding set_eq_iff judged_field_paths_iff using agree by blast
  then have "judged_field_paths plan base client base ?p = judged_field_paths plan base client client ?p"
    using judged_field_paths_order by (intro sorted_distinct_set_unique) auto
  moreover have immutable: "values_conflict c b x b \<Longrightarrow> values_conflict c b x u" for c b x u
    by (cases c) auto
  have "set (judged_field_paths plan base client base ?p) \<subseteq> set (judged_field_paths plan base client current ?p)"
    unfolding subset_iff judged_field_paths_iff using immutable by blast
  ultimately show ?thesis by (simp add: conflicting_field_paths_def)
qed

lemma value_or_null_of_null [simp]: "value_or_null (field_values plan f JNull) key = JNull"
proof -
  have walk: "json_walk JNull ks = (if ks = [] then Some JNull else None)" for ks
    by (cases ks) simp_all
  have "\<forall>(k, v) \<in> set (field_entries plan dp rel JNull kp). v = JNull" for dp rel kp
    by (auto simp: field_entries.simps[of plan dp rel JNull] policy_value_at_path_def walk
        split: option.splits prod.splits)
  from this[of "''''" "field_path f" "''''"] show ?thesis
    by (auto simp: value_or_null_def map_of_field_values split: option.splits dest!: map_of_SomeD)
qed

text \<open>
  A document a writer creates is refused exactly for the paths at which it sets a field whose
  policy for that kind of writer is immutable; a field without a policy of its own for the writer, or
  with any other one, may be set freely.
\<close>

theorem creation_conflicts_exact:
  "key \<in> set (creation_conflicting_field_paths plan created kind) \<longleftrightarrow>
     (\<exists>f. f \<in> set (plan_fields plan)
        \<and> field_storage_kind f \<notin> {DerivedIdentity, DerivedRevision}
        \<and> writer_conflict f kind = Some Immutable
        \<and> value_or_null (field_values plan f created) key \<noteq> JNull)"
proof -
  have "judged_field f c \<and> values_conflict c JNull x JNull \<longleftrightarrow>
      field_storage_kind f \<notin> {DerivedIdentity, DerivedRevision} \<and> c = Immutable \<and> x \<noteq> JNull" for f c x
    by (cases c) (auto simp: judged_field_def)
  then show ?thesis
    unfolding creation_conflicting_field_paths_def judged_field_paths_iff by auto
qed

section \<open>Paths\<close>

lemma set_segments_walk:
  "set_segments v ks x = Some v' \<Longrightarrow> json_walk v' (ks @ rest) = json_walk x rest"
proof (induction v ks x arbitrary: v' rule: set_segments.induct)
  case (2 m k k' ks v)
  then show ?case by (auto split: option.splits)
qed (auto split: option.splits)

lemma set_segments_other:
  "set_segments v ks x = Some v' \<Longrightarrow> \<not> prefix ks js \<Longrightarrow> \<not> prefix js ks
    \<Longrightarrow> json_walk v' js = json_walk v js"
proof (induction v ks x arbitrary: v' js rule: set_segments.induct)
  case (1 m k v)
  then show ?case by (cases js) auto
next
  case (2 m k k' ks v)
  then obtain child where child: "set_segments (case map_of m k of None \<Rightarrow> JObject [] | Some c \<Rightarrow> c) (k' # ks) v
      = Some child" and v': "v' = JObject (bmap_insert k child m)" by auto
  obtain j js' where js: "js = j # js'" using 2(4) by (cases js) auto
  show ?case
  proof (cases "j = k")
    case True
    then have "json_walk child js' = json_walk (case map_of m k of None \<Rightarrow> JObject [] | Some c \<Rightarrow> c) js'"
      using 2(1)[OF child] 2(3,4) js by simp
    moreover have "js' \<noteq> []" using 2(4) js True by auto
    ultimately show ?thesis using v' js True by (cases js') (auto split: option.splits)
  qed (use v' js in auto)
qed auto

text \<open>
  (C38) Paths read back what was set and nothing else moves: after \<open>set_value_at_path\<close> the path
  addresses the value, a path inside it reads from that value, and every path that neither contains
  it nor lies inside it (a sibling at any depth, under the same parents too) reads as it did before.
\<close>

theorem set_then_value_at_path:
  assumes "set_value_at_path document path v = Inr document'"
  shows "value_at_path document' path = Some v
    \<and> (split_on (CHR ''.'') inner = split_on (CHR ''.'') path @ rest \<longrightarrow>
         value_at_path document' inner = json_walk v rest)
    \<and> (\<not> prefix (split_on (CHR ''.'') path) (split_on (CHR ''.'') other)
         \<and> \<not> prefix (split_on (CHR ''.'') other) (split_on (CHR ''.'') path) \<longrightarrow>
         value_at_path document' other = value_at_path document other)"
proof -
  have set: "set_segments document (split_on (CHR ''.'') path) v = Some document'"
    using assms by (simp add: set_value_at_path_def)
  show ?thesis
    using set_segments_walk[OF set] set_segments_walk[OF set, of "[]"] set_segments_other[OF set]
    by (auto simp: value_at_path_def)
qed

theorem set_then_value_at_path_witness:
  "set_value_at_path (JObject [(''a'', JObject [(''c'', JBool True)])]) ''a.b'' (JObject [(''x'', JNull)])
     = Inr (JObject [(''a'', JObject [(''b'', JObject [(''x'', JNull)]), (''c'', JBool True)])])
   \<and> value_at_path (JObject [(''a'', JObject [(''b'', JObject [(''x'', JNull)]), (''c'', JBool True)])]) ''a.b''
     = Some (JObject [(''x'', JNull)])
   \<and> value_at_path (JObject [(''a'', JObject [(''b'', JObject [(''x'', JNull)]), (''c'', JBool True)])]) ''a.b.x''
     = Some JNull
   \<and> value_at_path (JObject [(''a'', JObject [(''b'', JObject [(''x'', JNull)]), (''c'', JBool True)])]) ''a.c''
     = Some (JBool True)"
proof -
  have set: "set_value_at_path (JObject [(''a'', JObject [(''c'', JBool True)])]) ''a.b'' (JObject [(''x'', JNull)])
     = Inr (JObject [(''a'', JObject [(''b'', JObject [(''x'', JNull)]), (''c'', JBool True)])])" by code_simp
  have "split_on (CHR ''.'') ''a.b.x'' = split_on (CHR ''.'') ''a.b'' @ [''x'']" by code_simp
  moreover have "\<not> prefix (split_on (CHR ''.'') ''a.b'') (split_on (CHR ''.'') ''a.c'')
      \<and> \<not> prefix (split_on (CHR ''.'') ''a.c'') (split_on (CHR ''.'') ''a.b'')" by code_simp
  moreover have "value_at_path (JObject [(''a'', JObject [(''c'', JBool True)])]) ''a.c'' = Some (JBool True)"
    by code_simp
  ultimately show ?thesis
    using set_then_value_at_path[OF set, of "''a.b.x''" "[''x'']" "''a.c''"] set by simp
qed

section \<open>Sequences\<close>

lemma res_fold_identities:
  assumes "res_fold (\<lambda>item seen. res_bind (g item) (\<lambda>i.
      if i = [] \<or> i \<in> set seen then Inl e else res_bind (h item) (\<lambda>_. res_bind (k item) (\<lambda>_. Inr (i # seen)))))
      items seen = Inr out"
  shows "\<exists>ids. list_all2 (\<lambda>item i. g item = Inr i) items ids \<and> distinct ids \<and> [] \<notin> set ids
    \<and> set ids \<inter> set seen = {} \<and> (\<forall>item \<in> set items. \<exists>u. h item = Inr u)"
  using assms
proof (induction items arbitrary: seen)
  case (Cons item items)
  then obtain i u where i: "g item = Inr i" "i \<noteq> []" "i \<notin> set seen" "h item = Inr u"
      and rest: "res_fold (\<lambda>item seen. res_bind (g item) (\<lambda>i. if i = [] \<or> i \<in> set seen then Inl e
        else res_bind (h item) (\<lambda>_. res_bind (k item) (\<lambda>_. Inr (i # seen))))) items (i # seen) = Inr out"
    by (auto simp: res_bind_Inr_iff split: if_splits)
  from Cons.IH[OF rest] obtain ids where "list_all2 (\<lambda>item i. g item = Inr i) items ids" "distinct ids"
      "[] \<notin> set ids" "set ids \<inter> set (i # seen) = {}" "\<forall>item \<in> set items. \<exists>u. h item = Inr u" by blast
  with i show ?case by (intro exI[of _ "i # ids"]) auto
qed simp

text \<open>
  A validated sequence names its items apart: every item has a string at the sequence's identity
  path, none of them empty and no two equal, and every item's own fields are valid.
\<close>

theorem validated_sequences_name_their_items:
  assumes "validate_sequence plan parent sequence = Inr ()"
  shows "\<exists>items identity_path ids. sequence_items plan parent sequence = Inr items
    \<and> field_identity_path sequence = Some identity_path
    \<and> list_all2 (\<lambda>item i. item_identity identity_path item = Inr i) items ids
    \<and> distinct ids \<and> [] \<notin> set ids
    \<and> list_all (\<lambda>item. validate_item_fields plan sequence item = Inr ()) items"
proof -
  obtain items identity_path seen where
      items: "sequence_items plan parent sequence = Inr items" "field_identity_path sequence = Some identity_path"
      and fold: "res_fold (\<lambda>item seen.
         res_bind (item_identity identity_path item) (\<lambda>identity.
         if identity = [] \<or> identity \<in> set seen
         then Inl (InvalidField (field_path sequence) ''items with unique non-empty identities'')
         else res_bind (validate_item_fields plan sequence item) (\<lambda>_.
              res_bind (res_fold (\<lambda>child _. validate_sequence plan item child)
                (direct_child_sequences plan (Some (field_path sequence))) ()) (\<lambda>_.
              Inr (identity # seen))))) items [] = Inr seen"
    using assms by (subst (asm) validate_sequence.simps) (auto simp: res_bind_Inr_iff)
  from res_fold_identities[OF fold] items show ?thesis by (auto simp: list_all_iff)
qed

definition sample_sequence :: field_spec where
  "sample_sequence = sample_field\<lparr>field_path := ''items'', field_storage_kind := KeyedSequence,
     field_codec := CKeyedSequence, field_identity_path := Some ''id''\<rparr>"

theorem validated_sequences_name_their_items_witness:
  "\<exists>items identity_path ids.
     sequence_items (sample_plan\<lparr>plan_fields := [sample_sequence]\<rparr>)
       (JObject [(''items'', JArray [JObject [(''id'', JString ''a'')], JObject [(''id'', JString ''b'')]])])
       sample_sequence = Inr items
     \<and> list_all2 (\<lambda>item i. item_identity identity_path item = Inr i) items ids \<and> distinct ids \<and> [] \<notin> set ids"
proof -
  have "validate_sequence (sample_plan\<lparr>plan_fields := [sample_sequence]\<rparr>)
      (JObject [(''items'', JArray [JObject [(''id'', JString ''a'')], JObject [(''id'', JString ''b'')]])])
      sample_sequence = Inr ()" by code_simp
  from validated_sequences_name_their_items[OF this] show ?thesis by blast
qed

text \<open>
  The identities an order container is read as are distinct and not empty, they are the ones it
  holds, and they keep the order of their first occurrences.
\<close>

theorem unique_identities:
  "distinct (unique_loro_string_list vs) \<and> [] \<notin> set (unique_loro_string_list vs)
   \<and> set (unique_loro_string_list vs) = set (List.map_filter loro_identity vs) - {[]}
   \<and> subseq (unique_loro_string_list vs) (List.map_filter loro_identity vs)"
proof -
  have "distinct (unique_from seen xs) \<and> [] \<notin> set (unique_from seen xs)
      \<and> set (unique_from seen xs) = set xs - {[]} - set seen \<and> subseq (unique_from seen xs) xs" for seen xs
    by (induction seen xs rule: unique_from.induct) auto
  from this[of "[]"] show ?thesis by (simp add: unique_loro_string_list_def)
qed

text \<open>
  (C37) Writing an ordered list leaves exactly the values wanted: whatever edit script the diff gives,
  applying it position by position to the list container neither fails nor leaves anything else behind.
\<close>

theorem write_list_leaves_desired:
  assumes "list_law L" and "diff_law L"
  shows "\<exists>d'. write_list L h desired d = (Inr (), d') \<and> loro_list_at L d' h = desired"
  by (rule write_list_ok[OF assms])

theorem write_list_leaves_desired_witness:
  "\<exists>d'. write_list sample_loro (''tags'', []) [LString ''b'', LString ''c'']
       ([], CHR ''0'', [LString ''a'', LString ''b'']) = (Inr (), d')
     \<and> loro_list_at sample_loro d' (''tags'', []) = [LString ''b'', LString ''c'']"
  by (rule write_list_leaves_desired[OF sample_lists])

end
