(* ===== verification/Tasks.thy ===== *)
theory Tasks
  imports Main
begin

text \<open>
  Asynchronous functions. A task either is over or takes a step: it changes the state it shares with
  other tasks, and goes on with what it read there. Between two steps of a task any other task may
  take its own, so a task is one \<open>async fn\<close> with an \<open>await\<close> at every step, and a step is what runs
  without interruption: a closure given to \<open>with_subscriptions\<close>, or a call of the host.
\<close>

datatype ('s, 'a) task = Done 'a | Step "'s \<Rightarrow> 's" "'s \<Rightarrow> ('s, 'a) task"

primrec task_bind :: "('s, 'a) task \<Rightarrow> ('a \<Rightarrow> ('s, 'b) task) \<Rightarrow> ('s, 'b) task" where
  "task_bind (Done a) f = f a"
| "task_bind (Step u k) f = Step u (\<lambda>s. task_bind (k s) f)"

text \<open>The \<open>?\<close> operator on what a task returns, and \<open>map_err\<close>.\<close>

definition task_try :: "('s, 'e + 'a) task \<Rightarrow> ('a \<Rightarrow> ('s, 'e + 'b) task) \<Rightarrow> ('s, 'e + 'b) task" where
  "task_try m f = task_bind m (\<lambda>r. case r of Inl e \<Rightarrow> Done (Inl e) | Inr a \<Rightarrow> f a)"

definition atomically :: "('s \<Rightarrow> 'a \<times> 's) \<Rightarrow> ('s, 'a) task" where
  "atomically f = Step (\<lambda>s. snd (f s)) (\<lambda>s. Done (fst (f s)))"

text \<open>A \<open>for\<close> loop whose turns each give a list.\<close>

fun task_gather :: "('x \<Rightarrow> ('s, 'a list) task) \<Rightarrow> 'x list \<Rightarrow> ('s, 'a list) task" where
  "task_gather f [] = Done []"
| "task_gather f (x # xs) =
     task_bind (f x) (\<lambda>as. task_bind (task_gather f xs) (\<lambda>bs. Done (as @ bs)))"

text \<open>A task run by itself, from a state to its result.\<close>

primrec run :: "('s, 'a) task \<Rightarrow> 's \<Rightarrow> 'a \<times> 's" where
  "run (Done a) s = (a, s)"
| "run (Step u k) s = run (k s) (u s)"

text \<open>A task that is abandoned after some steps, as one whose next step panics: the state it leaves.\<close>

fun abandoned :: "nat \<Rightarrow> ('s, 'a) task \<Rightarrow> 's \<Rightarrow> 's" where
  "abandoned (Suc n) (Step u k) s = abandoned n (k s) (u s)"
| "abandoned _ _ s = s"

lemma run_bind: "run (task_bind m f) s = (case run m s of (a, t) \<Rightarrow> run (f a) t)"
  by (induction m arbitrary: s) (auto simp: rangeI)

lemma run_atomically [simp]: "run (atomically f) s = f s"
  by (simp add: atomically_def)

lemma run_try:
  "run (task_try m f) s = (case run m s of (Inl e, t) \<Rightarrow> (Inl e, t) | (Inr a, t) \<Rightarrow> run (f a) t)"
  by (auto simp: task_try_def run_bind split: prod.splits sum.splits)

lemma task_bind_Done [simp]: "task_bind m Done = m"
  by (induction m) (auto simp: fun_eq_iff rangeI)

section \<open>What every step keeps\<close>

text \<open>\<open>keeps R t\<close>: whatever state each step of \<open>t\<close> starts in, it leaves one \<open>R\<close> relates it to.\<close>

primrec keeps :: "('s \<Rightarrow> 's \<Rightarrow> bool) \<Rightarrow> ('s, 'a) task \<Rightarrow> bool" where
  "keeps R (Done a) = True"
| "keeps R (Step u k) = (\<forall>s. R s (u s) \<and> keeps R (k s))"

named_theorems keeps_intro \<open>how a task is seen to keep a relation\<close>

lemma keeps_Done [keeps_intro]: "keeps R (Done a)"
  by simp

lemma keeps_bind [keeps_intro]: "keeps R m \<Longrightarrow> (\<And>a. keeps R (f a)) \<Longrightarrow> keeps R (task_bind m f)"
  by (induction m) (auto simp: rangeI)

lemma keeps_try [keeps_intro]: "keeps R m \<Longrightarrow> (\<And>a. keeps R (f a)) \<Longrightarrow> keeps R (task_try m f)"
  unfolding task_try_def by (rule keeps_bind) (auto split: sum.splits)

lemma keeps_atomically [keeps_intro]: "(\<And>s. R s (snd (f s))) \<Longrightarrow> keeps R (atomically f)"
  by (simp add: atomically_def)

lemma keeps_gather [keeps_intro]: "(\<And>x. keeps R (f x)) \<Longrightarrow> keeps R (task_gather f xs)"
  by (induction xs) (auto intro!: keeps_bind)

lemma keeps_if [keeps_intro]: "keeps R m \<Longrightarrow> keeps R n \<Longrightarrow> keeps R (if b then m else n)"
  by simp

lemma keeps_option [keeps_intro]:
  "keeps R m \<Longrightarrow> (\<And>a. keeps R (f a)) \<Longrightarrow> keeps R (case x of None \<Rightarrow> m | Some a \<Rightarrow> f a)"
  by (cases x) simp_all

lemma keeps_sum [keeps_intro]:
  "(\<And>a. keeps R (f a)) \<Longrightarrow> (\<And>b. keeps R (g b)) \<Longrightarrow> keeps R (case x of Inl a \<Rightarrow> f a | Inr b \<Rightarrow> g b)"
  by (cases x) simp_all

lemma keeps_prod [keeps_intro]:
  "(\<And>a b. keeps R (f a b)) \<Longrightarrow> keeps R (case x of (a, b) \<Rightarrow> f a b)"
  by (cases x) simp

text \<open>A task by itself, for a relation that composes.\<close>

lemma keeps_run:
  assumes "reflp R" and "transp R" and "keeps R m"
  shows "R s (snd (run m s))"
  using assms(3)
proof (induction m arbitrary: s)
  case (Done a)
  then show ?case using assms(1) by (simp add: reflpD)
next
  case (Step u k)
  then have "R s (u s)" "R (u s) (snd (run (k s) (u s)))" by (auto simp: rangeI)
  then show ?case using assms(2) by (auto dest: transpD)
qed

end
