(* ===== verification/Transport.thy ===== *)
theory Transport
  imports StoreError Schema
begin

text \<open>
  \<open>crates/clerkenwell-session/src/transport.rs\<close>: the requests, answers, updates and refusals of the
  projection protocol. Payloads the application types (snapshots, patches, results) are type
  parameters. A refusal's message is prose that no code reads, and is left out, as in
  \<open>StoreError\<close>.
\<close>

definition projection_subscribe_method :: string where
  "projection_subscribe_method = ''projection.subscribe''"

definition projection_resync_method :: string where
  "projection_resync_method = ''projection.resync''"

definition projection_unsubscribe_method :: string where
  "projection_unsubscribe_method = ''projection.unsubscribe''"

definition projection_mutate_method :: string where
  "projection_mutate_method = ''projection.mutate''"

definition projection_command_method :: string where
  "projection_command_method = ''projection.command''"

record subscribe_request =
  sr_projection :: string
  sr_params :: "json option"
  sr_held :: "json option"

record unsubscribe_request =
  ur_subscription_id :: u64

record resync_request =
  rr_subscription_id :: u64

record mutation_request =
  mr_mutation :: string
  mr_operation_id :: "string option"
  mr_base_revision :: "u64 option"
  mr_params :: json

record command_request =
  cr_command :: string
  cr_operation_id :: "string option"
  cr_params :: json

record subscribe_accepted =
  sa_subscription_id :: u64
  sa_revision :: u64
  sa_up_to_date :: bool

record unsubscribe_accepted =
  ua_removed :: bool

record resync_accepted =
  ra_subscription_id :: u64
  ra_from_revision :: u64
  ra_revision :: u64

record 'r mutation_accepted =
  ma_operation_id :: "string option"
  ma_base_revision :: "u64 option"
  ma_revision :: u64
  ma_result :: 'r

record 'r command_accepted =
  ca_operation_id :: "string option"
  ca_revision :: u64
  ca_result :: 'r

text \<open>
  An update: a snapshot at a revision (subscription, revision, snapshot, held), or a patch from one
  revision to another (subscription, from, to, patch, held).
\<close>

datatype ('s, 'p) transport_event =
    Snapshot (te_subscription: u64) u64 's "json option"
  | Patch (te_subscription: u64) u64 u64 'p "json option"

section \<open>Refusals\<close>

datatype error_code =
    UnknownMutation | UnsupportedMutation | UnknownCommand | UnsupportedCommand
  | UnknownProjection | UnsupportedProjection | InvalidParams | CodeNotFound | CodeConflict
  | ValidationFailed | BaseRevisionInFuture | StaleWrite | RateLimit | Cancelled | Interrupted
  | InternalError

definition all_error_codes :: "error_code list" where
  "all_error_codes =
     [UnknownMutation, UnsupportedMutation, UnknownCommand, UnsupportedCommand,
      UnknownProjection, UnsupportedProjection, InvalidParams, CodeNotFound, CodeConflict,
      ValidationFailed, BaseRevisionInFuture, StaleWrite, RateLimit, Cancelled, Interrupted,
      InternalError]"

fun error_code_as_str :: "error_code \<Rightarrow> string" where
  "error_code_as_str UnknownMutation = ''unknown_mutation''"
| "error_code_as_str UnsupportedMutation = ''unsupported_mutation''"
| "error_code_as_str UnknownCommand = ''unknown_command''"
| "error_code_as_str UnsupportedCommand = ''unsupported_command''"
| "error_code_as_str UnknownProjection = ''unknown_projection''"
| "error_code_as_str UnsupportedProjection = ''unsupported_projection''"
| "error_code_as_str InvalidParams = ''invalid_params''"
| "error_code_as_str CodeNotFound = ''not_found''"
| "error_code_as_str CodeConflict = ''conflict''"
| "error_code_as_str ValidationFailed = ''validation_failed''"
| "error_code_as_str BaseRevisionInFuture = ''base_revision_in_future''"
| "error_code_as_str StaleWrite = ''stale_write''"
| "error_code_as_str RateLimit = ''rate_limit''"
| "error_code_as_str Cancelled = ''cancelled''"
| "error_code_as_str Interrupted = ''interrupted''"
| "error_code_as_str InternalError = ''internal_error''"

definition error_code_parse :: "string \<Rightarrow> error_code option" where
  "error_code_parse code = find (\<lambda>candidate. error_code_as_str candidate = code) all_error_codes"

definition retryable :: "error_code \<Rightarrow> bool" where
  "retryable code \<longleftrightarrow> code \<in> {BaseRevisionInFuture, RateLimit, Interrupted}"

datatype operation_kind = Subscribe | Resync | Unsubscribe | Mutate | Command

definition for_method :: "string \<Rightarrow> operation_kind option" where
  "for_method method =
     (if method = projection_subscribe_method then Some Subscribe
      else if method = projection_resync_method then Some Resync
      else if method = projection_unsubscribe_method then Some Unsubscribe
      else if method = projection_mutate_method then Some Mutate
      else if method = projection_command_method then Some Command
      else None)"

record error_envelope =
  ee_code :: error_code
  ee_operation :: operation_kind
  ee_retryable :: bool
  ee_name :: "string option"
  ee_details :: "json option"

definition error_envelope_new ::
  "error_code \<Rightarrow> operation_kind \<Rightarrow> string option \<Rightarrow> json option \<Rightarrow> error_envelope"
where
  "error_envelope_new code operation name details =
     \<lparr>ee_code = code, ee_operation = operation, ee_retryable = retryable code,
      ee_name = name, ee_details = details\<rparr>"

lemma all_error_codes_complete: "code \<in> set all_error_codes"
  by (cases code) (simp_all add: all_error_codes_def)

lemma error_code_as_str_inj: "error_code_as_str a = error_code_as_str b \<longleftrightarrow> a = b"
  by (cases a; cases b) simp_all

lemma find_inj_on:
  assumes "x \<in> set xs" and "\<And>y. y \<in> set xs \<Longrightarrow> f y = f x \<Longrightarrow> y = x"
  shows "find (\<lambda>y. f y = f x) xs = Some x"
  using assms by (induction xs) auto

text \<open>
  The codes and their wire names correspond one to one: every code parses back from its name,
  and a name that parses is the name of the code it parses to.
\<close>

theorem error_codes_round_trip:
  "error_code_parse (error_code_as_str code) = Some code
   \<and> (error_code_parse name = Some code \<longleftrightarrow> name = error_code_as_str code)"
proof -
  have named: "error_code_parse (error_code_as_str c) = Some c" for c
    unfolding error_code_parse_def
    by (rule find_inj_on) (simp_all add: all_error_codes_complete error_code_as_str_inj)
  moreover have "error_code_parse name = Some c \<Longrightarrow> name = error_code_as_str c" for c
    by (auto simp: error_code_parse_def find_Some_iff)
  ultimately show ?thesis by blast
qed

end
