(* ===== verification/Registry.thy ===== *)
theory Registry
  imports Schema
begin

text \<open>
  \<open>crates/clerkenwell-session/src/registry.rs\<close>, \<open>modifications.rs\<close> and \<open>announcements.rs\<close>: what a
  connection is served and what a change can reach, the numbering of modifications, and the feed of
  the changes an application makes outside any request.
\<close>

record registry =
  reg_namespace :: string
  reg_projections :: "projection_spec list"
  reg_mutations :: "mutation_spec list"
  reg_commands :: "command_spec list"
  reg_authoring :: "entity_authoring_spec list"

definition registry_new ::
  "string \<Rightarrow> projection_spec list \<Rightarrow> mutation_spec list \<Rightarrow> command_spec list \<Rightarrow>
   entity_authoring_spec list \<Rightarrow> registry"
where
  "registry_new namespace projections mutations commands authoring =
     \<lparr>reg_namespace = namespace, reg_projections = projections, reg_mutations = mutations,
      reg_commands = commands, reg_authoring = authoring\<rparr>"

definition reg_projection :: "registry \<Rightarrow> string \<Rightarrow> projection_spec option" where
  "reg_projection R name = find (\<lambda>p. ps_name p = name) (reg_projections R)"

definition reg_mutation :: "registry \<Rightarrow> string \<Rightarrow> mutation_spec option" where
  "reg_mutation R name = find (\<lambda>m. ms_name m = name) (reg_mutations R)"

definition reg_command :: "registry \<Rightarrow> string \<Rightarrow> command_spec option" where
  "reg_command R name = find (\<lambda>c. cs_name c = name) (reg_commands R)"

definition projection_names :: "registry \<Rightarrow> string list" where
  "projection_names R = map ps_name (reg_projections R)"

definition mutation_names :: "registry \<Rightarrow> string list" where
  "mutation_names R = map ms_name (reg_mutations R)"

definition command_names :: "registry \<Rightarrow> string list" where
  "command_names R = map cs_name (reg_commands R)"

definition plans_only :: "registry \<Rightarrow> string \<Rightarrow> bool" where
  "plans_only R mutation \<longleftrightarrow> list_ex (\<lambda>e. mutation \<in> set (ea_planning_mutations e)) (reg_authoring R)"

definition entities_affect_projection :: "registry \<Rightarrow> string list \<Rightarrow> string \<Rightarrow> bool" where
  "entities_affect_projection R touches projection =
     (case reg_projection R projection of
        None \<Rightarrow> False
      | Some p \<Rightarrow> list_ex (\<lambda>entity. entity \<in> set touches) (ps_depends_on p))"

definition mutation_affects_projection :: "registry \<Rightarrow> string \<Rightarrow> string \<Rightarrow> bool" where
  "mutation_affects_projection R mutation projection =
     (case reg_mutation R mutation of
        None \<Rightarrow> False
      | Some m \<Rightarrow> entities_affect_projection R (ms_touches m) projection)"

definition command_affects_projection :: "registry \<Rightarrow> string \<Rightarrow> string \<Rightarrow> bool" where
  "command_affects_projection R command projection =
     (case reg_command R command of
        None \<Rightarrow> False
      | Some c \<Rightarrow> entities_affect_projection R (cs_touches c) projection)"

lemma affects_nothing [simp]: "\<not> entities_affect_projection R [] projection"
  by (simp add: entities_affect_projection_def list_ex_iff split: option.splits)

section \<open>Modifications\<close>

text \<open>The counter wraps as \<open>fetch_add\<close> on an \<open>AtomicU64\<close> does.\<close>

definition modification_take :: "u64 \<Rightarrow> u64 \<times> u64" where
  "modification_take latest = (latest + 1, latest + 1)"

definition modification_last :: "u64 \<Rightarrow> u64" where
  "modification_last latest = latest"

record 's numbered_snapshot =
  ns_snapshot :: 's
  ns_through :: u64

record 'r modified =
  md_result :: 'r
  md_modification :: "u64 option"

section \<open>Announcements\<close>

record 'n announced =
  an_touches :: "string list"
  an_modification :: u64
  an_announcement :: 'n

type_synonym 'n announcement_feed = "'n announced list list"

definition announcements_listen :: "'n announcement_feed \<Rightarrow> 'n announcement_feed" where
  "announcements_listen feed = feed @ [[]]"

definition announcements_announce ::
  "string list \<Rightarrow> u64 \<Rightarrow> 'n \<Rightarrow> 'n announcement_feed \<Rightarrow> 'n announcement_feed"
where
  "announcements_announce touches modification announcement feed =
     map (\<lambda>log. log @ [\<lparr>an_touches = touches, an_modification = modification,
       an_announcement = announcement\<rparr>]) feed"

lemma unat_succ: "(w :: u64) \<noteq> - 1 \<Longrightarrow> unat (w + 1) = Suc (unat w)"
proof -
  assume "w \<noteq> - 1"
  then have "1 + w \<noteq> 0" by (simp add: add_eq_0_iff)
  then show ?thesis by (simp add: unatSuc add.commute)
qed

lemma succ_greater: "(w :: u64) \<noteq> - 1 \<Longrightarrow> w < w + 1"
  by (simp add: word_less_nat_alt unat_succ)

lemma modification_take_fresh:
  "latest \<noteq> - 1 \<Longrightarrow> modification_last latest < fst (modification_take latest)"
  by (simp add: modification_take_def modification_last_def succ_greater)

end
