(* ===== verification/Subscriptions.thy ===== *)
theory Subscriptions
  imports Transport Registry
begin

text \<open>
  \<open>crates/clerkenwell-session/src/subscriptions.rs\<close>: the subscriptions of one connection.

  The \<open>HashMap\<close> of subscriptions is a map kept in the order of its keys. No operation depends on the
  order a \<open>HashMap\<close> iterates in: \<open>current_revision\<close> is a maximum, and every caller of \<open>all\<close> sorts what
  it collects by the subscription's number (\<open>diagnostics\<close> alone leaves open in which order it lists two
  subscriptions to one projection with equal parameters). Numbers and revisions are 64-bit words whose \<open>+ 1\<close> wraps,
  as in a release build; what is stated of them says how far they may have come. What \<open>held_token\<close> and
  \<open>diagnostics\<close> take from \<open>serde_json\<close> and \<open>sha2\<close> are their arguments \<open>to_value\<close>, \<open>to_vec\<close> and \<open>hex\<close>.
\<close>

record 'd subscription =
  sub_projection :: string
  sub_params :: json
  sub_revision :: u64
  sub_delivered :: "'d option"
  sub_through :: u64

datatype following_delivery = Superseded | AlreadyHeld

record subscription_diagnostics =
  sd_projection :: string
  sd_params_sha256 :: string
  sd_client_revision :: u64

record session_counters =
  sc_dropped_update_count :: u64
  sc_resync_count :: u64
  sc_last_resync_reason :: "string option"
  sc_resume_up_to_date_count :: u64
  sc_resume_snapshot_count :: u64
  sc_mutation_count :: u64
  sc_mutation_rejection_count :: u64
  sc_mutation_latency_micros_total :: u64
  sc_mutation_latency_micros_max :: u64
  sc_rejections :: "(string, u64) bmap"

record runtime_diagnostics =
  rd_subscriptions :: "subscription_diagnostics list"
  rd_current_revision :: u64
  rd_counters :: session_counters

record 'd subscriptions =
  ss_principal :: principal
  ss_next_subscription_id :: u64
  ss_subscriptions :: "(u64, 'd subscription) bmap"
  ss_counters :: session_counters

definition no_counters :: session_counters where
  "no_counters =
     \<lparr>sc_dropped_update_count = 0, sc_resync_count = 0, sc_last_resync_reason = None,
      sc_resume_up_to_date_count = 0, sc_resume_snapshot_count = 0, sc_mutation_count = 0,
      sc_mutation_rejection_count = 0, sc_mutation_latency_micros_total = 0,
      sc_mutation_latency_micros_max = 0, sc_rejections = []\<rparr>"

definition subscriptions_new :: "principal \<Rightarrow> 'd subscriptions" where
  "subscriptions_new who =
     \<lparr>ss_principal = who, ss_next_subscription_id = 1, ss_subscriptions = [],
      ss_counters = no_counters\<rparr>"

definition subs_get :: "'d subscriptions \<Rightarrow> u64 \<Rightarrow> 'd subscription option" where
  "subs_get c i = map_of (ss_subscriptions c) i"

definition subs_set :: "u64 \<Rightarrow> 'd subscription \<Rightarrow> 'd subscriptions \<Rightarrow> 'd subscriptions" where
  "subs_set i s c = c\<lparr>ss_subscriptions := bmap_insert i s (ss_subscriptions c)\<rparr>"

definition subs_insert ::
  "string \<Rightarrow> json \<Rightarrow> u64 \<Rightarrow> u64 \<Rightarrow> 'd subscriptions \<Rightarrow> u64 \<times> 'd subscriptions"
where
  "subs_insert projection params revision through c =
     (let i = ss_next_subscription_id c in
      (i, subs_set i
         \<lparr>sub_projection = projection, sub_params = params, sub_revision = revision,
          sub_delivered = None, sub_through = through\<rparr>
         (c\<lparr>ss_next_subscription_id := i + 1\<rparr>)))"

definition record_delivery :: "u64 \<Rightarrow> u64 \<Rightarrow> 'd option \<Rightarrow> 'd subscriptions \<Rightarrow> 'd subscriptions" where
  "record_delivery i revision delivered c =
     (case subs_get c i of
        None \<Rightarrow> c
      | Some s \<Rightarrow> subs_set i (s\<lparr>sub_revision := revision, sub_delivered := delivered\<rparr>) c)"

definition subs_remove :: "u64 \<Rightarrow> 'd subscriptions \<Rightarrow> bool \<times> 'd subscriptions" where
  "subs_remove i c =
     (subs_get c i \<noteq> None, c\<lparr>ss_subscriptions := bmap_remove i (ss_subscriptions c)\<rparr>)"

definition current_revision :: "'d subscriptions \<Rightarrow> u64" where
  "current_revision c = foldl max 0 (map (\<lambda>e. sub_revision (snd e)) (ss_subscriptions c))"

definition change_revision :: "bool \<Rightarrow> 'd subscriptions \<Rightarrow> u64" where
  "change_revision publishes c =
     (let current = max (current_revision c) 1 in if publishes then current + 1 else current)"

definition sat_add :: "u64 \<Rightarrow> u64 \<Rightarrow> u64" where
  "sat_add a b = (if a + b < a then - 1 else a + b)"

definition record_resync :: "string \<Rightarrow> 'd subscriptions \<Rightarrow> 'd subscriptions" where
  "record_resync reason c = c\<lparr>ss_counters := (ss_counters c)
     \<lparr>sc_resync_count := sat_add (sc_resync_count (ss_counters c)) 1,
      sc_last_resync_reason := Some reason\<rparr>\<rparr>"

definition record_dropped_updates :: "u64 \<Rightarrow> 'd subscriptions \<Rightarrow> 'd subscriptions" where
  "record_dropped_updates n c = record_resync ''broadcastLag''
     (c\<lparr>ss_counters := (ss_counters c)
        \<lparr>sc_dropped_update_count := sat_add (sc_dropped_update_count (ss_counters c)) n\<rparr>\<rparr>)"

text \<open>The latency is the microseconds of a \<open>Duration\<close>, a 128-bit count.\<close>

definition record_mutation :: "nat \<Rightarrow> string option \<Rightarrow> 'd subscriptions \<Rightarrow> 'd subscriptions" where
  "record_mutation latency rejection c =
     (let micros = (if latency < 2 ^ 64 then word_of_nat latency else - 1 :: u64);
          k = ss_counters c;
          k1 = k\<lparr>sc_mutation_count := sat_add (sc_mutation_count k) 1,
            sc_mutation_latency_micros_total := sat_add (sc_mutation_latency_micros_total k) micros,
            sc_mutation_latency_micros_max := max (sc_mutation_latency_micros_max k) micros\<rparr> in
      c\<lparr>ss_counters := (case rejection of
          None \<Rightarrow> k1
        | Some category \<Rightarrow> k1
            \<lparr>sc_mutation_rejection_count := sat_add (sc_mutation_rejection_count k1) 1,
             sc_rejections := bmap_insert category
               (sat_add (case map_of (sc_rejections k1) category of None \<Rightarrow> 0 | Some n \<Rightarrow> n) 1)
               (sc_rejections k1)\<rparr>)\<rparr>)"

definition diagnostics ::
  "(json \<Rightarrow> bytes option) \<Rightarrow> (bytes \<Rightarrow> string) \<Rightarrow> 'd subscriptions \<Rightarrow> runtime_diagnostics"
where
  "diagnostics to_vec hex c =
     \<lparr>rd_subscriptions = sort_key (\<lambda>d. [sd_projection d, sd_params_sha256 d])
        (map (\<lambda>(_, s). \<lparr>sd_projection = sub_projection s,
            sd_params_sha256 = ''sha256:'' @ hex (case to_vec (sub_params s) of
              None \<Rightarrow> ''unserialisable'' | Some bs \<Rightarrow> bs),
            sd_client_revision = sub_revision s\<rparr>) (ss_subscriptions c)),
      rd_current_revision = current_revision c,
      rd_counters = ss_counters c\<rparr>"

section \<open>Updates\<close>

definition held_token :: "('d \<Rightarrow> json option) \<Rightarrow> 'd option \<Rightarrow> json option" where
  "held_token to_value delivered = Option.bind delivered to_value"

definition deliver_patch ::
  "('d \<Rightarrow> json option) \<Rightarrow> u64 \<Rightarrow> u64 \<Rightarrow> 'p \<Rightarrow> 'd option \<Rightarrow> 'd subscriptions \<Rightarrow>
   ('s, 'p) transport_event option \<times> 'd subscriptions"
where
  "deliver_patch to_value i to_revision patch delivered c =
     (case subs_get c i of
        None \<Rightarrow> (None, c)
      | Some s \<Rightarrow>
          (let from_revision = sub_revision s; reached = max to_revision (from_revision + 1) in
           (Some (Patch i from_revision reached patch (held_token to_value delivered)),
            subs_set i (s\<lparr>sub_revision := reached, sub_delivered := delivered\<rparr>) c)))"

definition subs_resync ::
  "('d \<Rightarrow> json option) \<Rightarrow> u64 \<Rightarrow> 's numbered_snapshot \<Rightarrow> 'd option \<Rightarrow> string \<Rightarrow> 'd subscriptions \<Rightarrow>
   (resync_accepted \<times> ('s, 'p) transport_event) option \<times> 'd subscriptions"
where
  "subs_resync to_value i snapshot delivered reason c =
     (case subs_get c i of
        None \<Rightarrow> (None, c)
      | Some s \<Rightarrow>
          (let from_revision = sub_revision s; revision = from_revision + 1;
               c1 = subs_set i (s\<lparr>sub_through := ns_through snapshot\<rparr>) c in
           (Some (\<lparr>ra_subscription_id = i, ra_from_revision = from_revision, ra_revision = revision\<rparr>,
                  Snapshot i revision (ns_snapshot snapshot) (held_token to_value delivered)),
            record_resync reason (record_delivery i revision delivered c1))))"

definition accept_subscription ::
  "('d \<Rightarrow> json option) \<Rightarrow> string \<Rightarrow> json \<Rightarrow> 'd option \<Rightarrow> 's numbered_snapshot \<Rightarrow> 'd option \<Rightarrow>
   'd subscriptions \<Rightarrow>
   (subscribe_accepted \<times> ('s, 'p) transport_event list) \<times> 'd subscriptions"
where
  "accept_subscription to_value projection params held snapshot delivered c =
     (let revision = max (current_revision c) 1;
          (i, c1) = subs_insert projection params revision (ns_through snapshot) c;
          up_to_date = (held \<noteq> None \<and> held = delivered);
          k = ss_counters c1;
          c2 = (if held \<noteq> None
                then c1\<lparr>ss_counters :=
                  (if up_to_date
                   then k\<lparr>sc_resume_up_to_date_count := sat_add (sc_resume_up_to_date_count k) 1\<rparr>
                   else k\<lparr>sc_resume_snapshot_count := sat_add (sc_resume_snapshot_count k) 1\<rparr>)\<rparr>
                else c1);
          events = (if up_to_date then []
                    else [Snapshot i revision (ns_snapshot snapshot) (held_token to_value delivered)]) in
      ((\<lparr>sa_subscription_id = i, sa_revision = revision, sa_up_to_date = up_to_date\<rparr>, events),
       record_delivery i revision delivered c2))"

definition deliver_following ::
  "('d \<Rightarrow> json option) \<Rightarrow> u64 \<Rightarrow> u64 \<Rightarrow> 'p \<Rightarrow> 'd \<Rightarrow> 'd subscriptions \<Rightarrow>
   (following_delivery + ('s, 'p) transport_event) \<times> 'd subscriptions"
where
  "deliver_following to_value i from_revision patch delivered c =
     (case subs_get c i of
        None \<Rightarrow> (Inl Superseded, c)
      | Some s \<Rightarrow>
          if sub_revision s \<noteq> from_revision then (Inl Superseded, c)
          else if sub_delivered s = Some delivered then (Inl AlreadyHeld, c)
          else (Inr (Patch i from_revision (from_revision + 1) patch (held_token to_value (Some delivered))),
                subs_set i (s\<lparr>sub_revision := from_revision + 1, sub_delivered := Some delivered\<rparr>) c))"

end
