(* ===== verification/Authoring.thy ===== *)
theory Authoring
  imports Transport Recovery
begin

text \<open>
  \<open>crates/clerkenwell-session/src/authoring.rs\<close>: which document a subscription to an authoring state
  follows, which store keeps it, and the state a client is sent.

  The session reaches a store through two calls, \<open>authoring_state\<close> and \<open>allocate_peers\<close>: a record
  \<open>open_service\<close> of two actions on the application's world \<open>'w\<close>. \<open>stores_open\<close> gives them for the
  services of the store crate, so that everything stated of the session holds over those.
\<close>

record authoring_held =
  ah_schema_version :: u32
  ah_frontier :: string
  ah_etag :: string

definition authoring_held_of :: "authoring_state \<Rightarrow> authoring_held" where
  "authoring_held_of st =
     \<lparr>ah_schema_version = as_schema_version st, ah_frontier = as_accepted_frontier_base64 st,
      ah_etag = as_etag st\<rparr>"

datatype 'd held = HeldAuthoring authoring_held | HeldHost 'd

fun held_authoring :: "'d held \<Rightarrow> authoring_held option" where
  "held_authoring (HeldAuthoring held) = Some held"
| "held_authoring (HeldHost _) = None"

text \<open>\<open>ProjectionRefusal\<close> of \<open>server.rs\<close>, without its message.\<close>

record refusal =
  rf_code :: error_code
  rf_details :: "json option"

definition refusal_new :: "error_code \<Rightarrow> json option \<Rightarrow> refusal" where
  "refusal_new code details = \<lparr>rf_code = code, rf_details = details\<rparr>"

text \<open>A store's refusal: the code its data names, or the one its kind implies.\<close>

fun kind_code :: "store_error_kind \<Rightarrow> error_code" where
  "kind_code NotFound = CodeNotFound"
| "kind_code Conflict = CodeConflict"
| "kind_code InvalidRequest = InvalidParams"
| "kind_code Internal = InternalError"

definition refusal_of_store :: "store_error \<Rightarrow> refusal" where
  "refusal_of_store e =
     refusal_new
       (case Option.bind (err_code e) error_code_parse of
          Some code \<Rightarrow> code | None \<Rightarrow> kind_code (err_kind e))
       (err_data e)"

section \<open>The authoring states of an application\<close>

record 'w open_service =
  os_authoring_state ::
    "entity_spec \<Rightarrow> document_id \<Rightarrow> collaboration_held option \<Rightarrow> ('w, store_error, store_authoring_state) act"
  os_allocate_peers :: "principal \<Rightarrow> document_id \<Rightarrow> ('w, store_error, peer_block) act"

record 'w authoring_states =
  au_store :: "string \<Rightarrow> 'w \<Rightarrow> 'w open_service option"
  au_plans :: "entity_spec list"
  au_route :: "string \<Rightarrow> json \<Rightarrow> string option"

record followed_document =
  fd_plan :: entity_spec
  fd_id :: document_id
  fd_store :: string

definition au_plan :: "'w authoring_states \<Rightarrow> string \<Rightarrow> entity_spec option" where
  "au_plan A projection = find (\<lambda>plan. plan_authoring_projection plan = projection) (au_plans A)"

definition au_entity :: "'w authoring_states \<Rightarrow> string \<Rightarrow> entity_spec option" where
  "au_entity A name = find (\<lambda>plan. plan_name plan = name) (au_plans A)"

definition followed_param :: "entity_spec \<Rightarrow> json \<Rightarrow> string \<Rightarrow> refusal + string" where
  "followed_param plan params name =
     ok_or (refusal_new InvalidParams (Some (jobj
         [(''projection'', JString (plan_authoring_projection plan)), (''param'', JString name)])))
       (Option.bind (json_get params name) as_str)"

definition followed :: "entity_spec \<Rightarrow> json \<Rightarrow> refusal + (document_id \<times> json)" where
  "followed plan params =
     res_bind (case plan_authoring_document plan of
         Some document \<Rightarrow> Inr document
       | None \<Rightarrow> followed_param plan params (plan_id_field plan)) (\<lambda>resource_id.
     res_bind (res_fold (\<lambda>name store_params.
         res_bind (followed_param plan params name) (\<lambda>v.
         Inr (bmap_insert name (JString v) store_params)))
       (plan_authoring_store_params plan) []) (\<lambda>store_params.
     Inr (document_id_new (plan_name plan) resource_id, JObject store_params)))"

definition follow ::
  "'w authoring_states \<Rightarrow> string \<Rightarrow> json \<Rightarrow> (refusal + followed_document) option"
where
  "follow A projection params =
     map_option (\<lambda>plan.
       res_bind (followed plan params) (\<lambda>(d, store_params).
       res_bind (ok_or (refusal_new CodeNotFound (Some (jobj
           [(''entity'', JString (doc_entity d)), (''resource_id'', JString (doc_resource_id d))])))
         (au_route A (plan_name plan) store_params)) (\<lambda>store.
       Inr \<lparr>fd_plan = plan, fd_id = d, fd_store = store\<rparr>)))
     (au_plan A projection)"

definition au_state ::
  "'w authoring_states \<Rightarrow> followed_document \<Rightarrow> authoring_held option \<Rightarrow> principal \<Rightarrow>
   ('w, refusal, authoring_state) act"
where
  "au_state A document held who w =
     (case au_store A (fd_store document) w of
        None \<Rightarrow> (Inl (refusal_new CodeNotFound (Some (jobj
            [(''store'', JString (fd_store document)),
             (''entity'', JString (doc_entity (fd_id document)))]))), w)
      | Some service \<Rightarrow>
          act_map_err refusal_of_store
            (act_bind (os_authoring_state service (fd_plan document) (fd_id document)
                (map_option (\<lambda>h. HeldFrontier (ah_frontier h)) held)) (\<lambda>read.
             act_bind (os_allocate_peers service who (fd_id document)) (\<lambda>peers.
             act_return (into_authoring_state read peers)))) w)"

section \<open>Over the services of the store\<close>

text \<open>The set of stores and the state of each service in it.\<close>

record ('s, 'd, 'f) stores_world =
  sw_stores :: "('s, 'd, 'f) stores"
  sw_worlds :: "string \<Rightarrow> ('s, 'd) world"

definition at_store ::
  "string \<Rightarrow> (('s, 'd) world, 'e, 'a) act \<Rightarrow> (('s, 'd, 'f) stores_world, 'e, 'a) act"
where
  "at_store name m w =
     (case m (sw_worlds w name) of (r, t) \<Rightarrow> (r, w\<lparr>sw_worlds := (sw_worlds w)(name := t)\<rparr>))"

definition open_service :: "('s, 'd, 'f) service \<Rightarrow> ('s, 'd, 'f) stores_world open_service" where
  "open_service S =
     \<lparr>os_authoring_state = (\<lambda>plan d held. at_store (svc_source S) (svc_authoring_state S plan d held)),
      os_allocate_peers = (\<lambda>who d. at_store (svc_source S) (allocate_peers S who d))\<rparr>"

definition stores_open ::
  "string \<Rightarrow> ('s, 'd, 'f) stores_world \<Rightarrow> ('s, 'd, 'f) stores_world open_service option"
where
  "stores_open name w = map_option open_service (stores_store (sw_stores w) name)"

definition authoring_states_new ::
  "entity_spec list \<Rightarrow> (string \<Rightarrow> json \<Rightarrow> string option) \<Rightarrow> ('s, 'd, 'f) stores_world authoring_states"
where
  "authoring_states_new plans route =
     \<lparr>au_store = stores_open, au_plans = plans, au_route = route\<rparr>"

end
