(* ===== verification/Server.thy ===== *)
theory Server
  imports Tasks Subscriptions Authoring
begin

text \<open>
  \<open>crates/clerkenwell-session/src/server.rs\<close>: serving the projection protocol on one connection.

  The application behind the \<open>ProjectionHost\<close> trait is the record \<open>host\<close>, its methods the components,
  each an action on the application's world \<open>'w\<close>; the snapshots, patches, deliveries, mutation and
  command results, announcements and failures it types are \<open>'s\<close>, \<open>'p\<close>, \<open>'d\<close>, \<open>'m\<close>, \<open>'c\<close>, \<open>'n\<close> and
  \<open>'f\<close>. What \<open>serde_json\<close> makes of the types is the record \<open>wire\<close>.

  A handler is a task over the \<open>session\<close>: the application's world and the connection's subscriptions,
  with one step for each call of the host and for each closure given to \<open>with_subscriptions\<close>. The
  session also remembers, in \<open>ses_sent\<close>, the updates the steps made for the client in the order they
  made them; no code reads it.
\<close>

record ('s, 'p, 'd, 'm, 'c) wire =
  wire_subscribe :: "json \<Rightarrow> subscribe_request option"
  wire_resync :: "json \<Rightarrow> resync_request option"
  wire_unsubscribe :: "json \<Rightarrow> unsubscribe_request option"
  wire_mutate :: "json \<Rightarrow> mutation_request option"
  wire_command :: "json \<Rightarrow> command_request option"
  wire_authoring_held :: "json \<Rightarrow> authoring_held option"
  wire_delivery :: "json \<Rightarrow> 'd option"
  wire_held_token :: "'d held \<Rightarrow> json option"
  wire_state :: "authoring_state \<Rightarrow> json"
  wire_state_patch :: "authoring_state_patch \<Rightarrow> json"
  wire_snapshot :: "json \<Rightarrow> 's option"
  wire_patch :: "json \<Rightarrow> 'p option"
  wire_subscribe_accepted :: "subscribe_accepted \<Rightarrow> json option"
  wire_resync_accepted :: "resync_accepted \<Rightarrow> json option"
  wire_unsubscribe_accepted :: "unsubscribe_accepted \<Rightarrow> json option"
  wire_mutation_result :: "'m \<Rightarrow> json option"
  wire_mutation_accepted :: "json mutation_accepted \<Rightarrow> json option"
  wire_command_accepted :: "'c command_accepted \<Rightarrow> json option"

record ('w, 's, 'p, 'd, 'm, 'c, 'n, 'f) host =
  host_registry :: registry
  host_authoring :: "'w authoring_states option"
  host_snapshot :: "string \<Rightarrow> json \<Rightarrow> 'd option \<Rightarrow> ('w, 'f, 's numbered_snapshot) act"
  host_delivered :: "'s \<Rightarrow> 'd option"
  host_delivered_by_patch :: "'p \<Rightarrow> 'd option"
  host_mutate :: "principal \<Rightarrow> string \<Rightarrow> json \<Rightarrow> ('w, 'f, 'm modified) act"
  host_mutation_patch :: "string \<Rightarrow> 'm \<Rightarrow> 'd held subscription \<Rightarrow> 'w \<Rightarrow> 'p option \<times> 'w"
  host_command :: "principal \<Rightarrow> string \<Rightarrow> json \<Rightarrow> ('w, 'f, 'c modified) act"
  host_command_patch :: "string \<Rightarrow> 'c \<Rightarrow> 'd held subscription \<Rightarrow> 'w \<Rightarrow> 'p option \<times> 'w"
  host_announcement_patch :: "'n \<Rightarrow> 'd held subscription \<Rightarrow> 'w \<Rightarrow> 'p option \<times> 'w"
  host_now :: "'w \<Rightarrow> nat"
  host_refused :: "refusal \<Rightarrow> 'f"
  host_describe :: "'f \<Rightarrow> refusal"
  host_described :: "error_envelope \<Rightarrow> 'f \<Rightarrow> 'f"
  host_wire :: "('s, 'p, 'd, 'm, 'c) wire"

datatype projection_request =
    SubscribeRequest subscribe_request
  | ResyncRequest resync_request
  | UnsubscribeRequest unsubscribe_request
  | MutateRequest mutation_request
  | CommandRequest command_request

datatype ('m, 'c) accepted =
    MutationAccepted string 'm "u64 option"
  | CommandAccepted string 'c "u64 option"

record ('s, 'p, 'm, 'c) reply =
  rp_result :: json
  rp_events :: "('s, 'p) transport_event list"
  rp_accepted :: "('m, 'c) accepted option"

datatype ('m, 'c, 'n) source =
    MutationSource string 'm "u64 option"
  | CommandSource string 'c "u64 option"
  | AnnouncedSource "'n announced"

record 'c ran_command =
  rc_command :: string
  rc_operation_id :: "string option"
  rc_result :: 'c
  rc_modification :: "u64 option"

datatype ('s, 'p) message = Opened subscribe_accepted | Update "('s, 'p) transport_event"

record ('w, 's, 'p, 'd) session =
  ses_host :: 'w
  ses_subs :: "'d held subscriptions"
  ses_sent :: "('s, 'p) message list"

section \<open>Steps\<close>

text \<open>A call of the host, and one of the connection that sends its client nothing.\<close>

definition ask_host :: "('w \<Rightarrow> 'a \<times> 'w) \<Rightarrow> (('w, 's, 'p, 'd) session, 'a) task" where
  "ask_host m = atomically (\<lambda>s. case m (ses_host s) of (r, w) \<Rightarrow> (r, s\<lparr>ses_host := w\<rparr>))"

definition read_subscriptions :: "('d held subscriptions \<Rightarrow> 'a) \<Rightarrow> (('w, 's, 'p, 'd) session, 'a) task" where
  "read_subscriptions f = atomically (\<lambda>s. (f (ses_subs s), s))"

definition with_subscriptions ::
  "('a \<Rightarrow> ('s, 'p) message list) \<Rightarrow> ('d held subscriptions \<Rightarrow> 'a \<times> 'd held subscriptions) \<Rightarrow>
   (('w, 's, 'p, 'd) session, 'a) task"
where
  "with_subscriptions sends f = atomically (\<lambda>s. case f (ses_subs s) of (r, c) \<Rightarrow>
     (r, s\<lparr>ses_subs := c, ses_sent := ses_sent s @ sends r\<rparr>))"

definition principal_of :: "(('w, 's, 'p, 'd) session, principal) task" where
  "principal_of = read_subscriptions ss_principal"

fun optional_update :: "('s, 'p) transport_event option \<Rightarrow> ('s, 'p) message list" where
  "optional_update None = []"
| "optional_update (Some e) = [Update e]"

section \<open>Requests\<close>

definition refused :: "('w, 's, 'p, 'd, 'm, 'c, 'n, 'f) host \<Rightarrow> error_code \<Rightarrow> json option \<Rightarrow> 'f" where
  "refused H code details = host_refused H (refusal_new code details)"

definition decode_params :: "(json \<Rightarrow> 'a option) \<Rightarrow> json option \<Rightarrow> refusal + 'a" where
  "decode_params from_value params =
     res_bind (ok_or (refusal_new InvalidParams None) params) (\<lambda>p.
     ok_or (refusal_new InvalidParams None) (from_value p))"

definition request_decode ::
  "('s, 'p, 'd, 'm, 'c) wire \<Rightarrow> string \<Rightarrow> json option \<Rightarrow> (refusal + projection_request) option"
where
  "request_decode W method params = map_option (\<lambda>operation.
     case operation of
       Subscribe \<Rightarrow> map_sum id SubscribeRequest (decode_params (wire_subscribe W) params)
     | Resync \<Rightarrow> map_sum id ResyncRequest (decode_params (wire_resync W) params)
     | Unsubscribe \<Rightarrow> map_sum id UnsubscribeRequest (decode_params (wire_unsubscribe W) params)
     | Mutate \<Rightarrow> map_sum id MutateRequest (decode_params (wire_mutate W) params)
     | Command \<Rightarrow> map_sum id CommandRequest (decode_params (wire_command W) params))
     (for_method method)"

fun request_operation :: "projection_request \<Rightarrow> operation_kind" where
  "request_operation (SubscribeRequest _) = Subscribe"
| "request_operation (ResyncRequest _) = Resync"
| "request_operation (UnsubscribeRequest _) = Unsubscribe"
| "request_operation (MutateRequest _) = Mutate"
| "request_operation (CommandRequest _) = Command"

fun request_name :: "projection_request \<Rightarrow> string option" where
  "request_name (SubscribeRequest r) = Some (sr_projection r)"
| "request_name (MutateRequest r) = Some (mr_mutation r)"
| "request_name (CommandRequest r) = Some (cr_command r)"
| "request_name _ = None"

definition addressed ::
  "('w, 's, 'p, 'd, 'm, 'c, 'n, 'f) host \<Rightarrow> operation_kind \<Rightarrow> string option \<Rightarrow> 'f \<Rightarrow> 'f"
where
  "addressed H operation name failure =
     (let refusal = host_describe H failure in
      host_described H (error_envelope_new (rf_code refusal) operation name (rf_details refusal)) failure)"

definition decode_request ::
  "('w, 's, 'p, 'd, 'm, 'c, 'n, 'f) host \<Rightarrow> string \<Rightarrow> json option \<Rightarrow> ('f + projection_request) option"
where
  "decode_request H method params =
     (case for_method method of
        None \<Rightarrow> None
      | Some operation \<Rightarrow>
          map_option (map_err (\<lambda>refusal. addressed H operation None (host_refused H refusal)))
            (request_decode (host_wire H) method params))"

definition encode :: "('w, 's, 'p, 'd, 'm, 'c, 'n, 'f) host \<Rightarrow> json option \<Rightarrow> 'f + json" where
  "encode H v = ok_or (refused H InternalError None) v"

definition typed :: "('w, 's, 'p, 'd, 'm, 'c, 'n, 'f) host \<Rightarrow> 'a option \<Rightarrow> 'f + 'a" where
  "typed H v = ok_or (refused H InternalError None) v"

definition is_authoring :: "('w, 's, 'p, 'd, 'm, 'c, 'n, 'f) host \<Rightarrow> string \<Rightarrow> bool" where
  "is_authoring H projection =
     (case host_authoring H of None \<Rightarrow> False | Some A \<Rightarrow> au_plan A projection \<noteq> None)"

definition subscription_not_found :: "('w, 's, 'p, 'd, 'm, 'c, 'n, 'f) host \<Rightarrow> u64 \<Rightarrow> 'f" where
  "subscription_not_found H i =
     refused H CodeNotFound (Some (jobj [(''subscription_id'', JNumber (PosInt (unat i)))]))"

section \<open>Snapshots\<close>

definition authoring_snapshot ::
  "('w, 's, 'p, 'd, 'm, 'c, 'n, 'f) host \<Rightarrow> string \<Rightarrow> authoring_state \<Rightarrow>
   'f + ('s numbered_snapshot \<times> 'd held option)"
where
  "authoring_snapshot H projection st =
     res_bind (typed H (wire_snapshot (host_wire H)
       (jobj [(''projection'', JString projection), (''value'', wire_state (host_wire H) st)]))) (\<lambda>snapshot.
     Inr (\<lparr>ns_snapshot = snapshot, ns_through = 0\<rparr>, Some (HeldAuthoring (authoring_held_of st))))"

definition host_held :: "'d held option \<Rightarrow> 'd option" where
  "host_held held = (case held of Some (HeldHost h) \<Rightarrow> Some h | _ \<Rightarrow> None)"

definition snapshot_for ::
  "('w, 's, 'p, 'd, 'm, 'c, 'n, 'f) host \<Rightarrow> principal \<Rightarrow> string \<Rightarrow> json \<Rightarrow> 'd held option \<Rightarrow>
   (('w, 's, 'p, 'd) session, 'f + ('s numbered_snapshot \<times> 'd held option)) task"
where
  "snapshot_for H who projection params held =
     (case Option.bind (host_authoring H) (\<lambda>A. map_option (Pair A) (follow A projection params)) of
        Some (A, document) \<Rightarrow>
          task_try (Done (map_err (host_refused H) document)) (\<lambda>document.
          task_try (ask_host (act_map_err (host_refused H)
            (au_state A document (Option.bind held held_authoring) who))) (\<lambda>st.
          Done (authoring_snapshot H projection st)))
      | None \<Rightarrow>
          task_try (ask_host (host_snapshot H projection params (host_held held))) (\<lambda>snapshot.
          Done (Inr (snapshot, map_option HeldHost (host_delivered H (ns_snapshot snapshot))))))"

definition authoring_patch ::
  "('w, 's, 'p, 'd, 'm, 'c, 'n, 'f) host \<Rightarrow> string \<Rightarrow> authoring_state_patch \<Rightarrow> 'f + 'p"
where
  "authoring_patch H projection patch =
     typed H (wire_patch (host_wire H)
       (jobj [(''projection'', JString projection), (''value'', wire_state_patch (host_wire H) patch)]))"

section \<open>Subscribing, resynchronising and unsubscribing\<close>

definition read_held ::
  "('w, 's, 'p, 'd, 'm, 'c, 'n, 'f) host \<Rightarrow> string \<Rightarrow> json \<Rightarrow> 'd held option"
where
  "read_held H projection v =
     (if is_authoring H projection
      then map_option HeldAuthoring (wire_authoring_held (host_wire H) v)
      else map_option HeldHost (wire_delivery (host_wire H) v))"

definition subscribe ::
  "('w, 's, 'p, 'd, 'm, 'c, 'n, 'f) host \<Rightarrow> subscribe_request \<Rightarrow>
   (('w, 's, 'p, 'd) session, 'f + ('s, 'p, 'm, 'c) reply) task"
where
  "subscribe H request =
     (let projection = sr_projection request in
      if reg_projection (host_registry H) projection = None
      then Done (Inl (refused H UnknownProjection (Some (jobj [(''projection'', JString projection)]))))
      else
        let params = (case sr_params request of Some p \<Rightarrow> p | None \<Rightarrow> jobj []);
            held = Option.bind (sr_held request) (read_held H projection) in
        task_bind principal_of (\<lambda>who.
        task_try (snapshot_for H who projection params held) (\<lambda>(snapshot, delivered).
        task_bind (with_subscriptions (\<lambda>(accepted, events). Opened accepted # map Update events)
          (accept_subscription (wire_held_token (host_wire H)) projection params held snapshot delivered))
          (\<lambda>(accepted, events).
        Done (res_bind (encode H (wire_subscribe_accepted (host_wire H) accepted)) (\<lambda>result.
          Inr \<lparr>rp_result = result, rp_events = events, rp_accepted = None\<rparr>))))))"

definition resync ::
  "('w, 's, 'p, 'd, 'm, 'c, 'n, 'f) host \<Rightarrow> resync_request \<Rightarrow>
   (('w, 's, 'p, 'd) session, 'f + ('s, 'p, 'm, 'c) reply) task"
where
  "resync H request =
     (let i = rr_subscription_id request in
      task_bind (read_subscriptions (\<lambda>c. subs_get c i)) (\<lambda>found.
      task_try (Done (ok_or (subscription_not_found H i) found)) (\<lambda>subscription.
      task_bind principal_of (\<lambda>who.
      task_try (snapshot_for H who (sub_projection subscription) (sub_params subscription) None)
        (\<lambda>(snapshot, delivered).
      task_bind (with_subscriptions (\<lambda>sent. optional_update (map_option snd sent))
        (subs_resync (wire_held_token (host_wire H)) i snapshot delivered ''clientRequested'')) (\<lambda>sent.
      task_try (Done (ok_or (subscription_not_found H i) sent)) (\<lambda>(accepted, event).
      Done (res_bind (encode H (wire_resync_accepted (host_wire H) accepted)) (\<lambda>result.
        Inr \<lparr>rp_result = result, rp_events = [event], rp_accepted = None\<rparr>)))))))))"

definition unsubscribe ::
  "('w, 's, 'p, 'd, 'm, 'c, 'n, 'f) host \<Rightarrow> unsubscribe_request \<Rightarrow>
   (('w, 's, 'p, 'd) session, 'f + ('s, 'p, 'm, 'c) reply) task"
where
  "unsubscribe H request =
     task_bind (with_subscriptions (\<lambda>_. []) (subs_remove (ur_subscription_id request))) (\<lambda>removed.
     Done (res_bind (encode H (wire_unsubscribe_accepted (host_wire H) \<lparr>ua_removed = removed\<rparr>)) (\<lambda>result.
       Inr \<lparr>rp_result = result, rp_events = [], rp_accepted = None\<rparr>)))"

section \<open>Delivering changes\<close>

fun source_of_accepted :: "('m, 'c) accepted \<Rightarrow> ('m, 'c, 'n) source" where
  "source_of_accepted (MutationAccepted mutation result modification) = MutationSource mutation result modification"
| "source_of_accepted (CommandAccepted command result modification) = CommandSource command result modification"

fun source_modification :: "('m, 'c, 'n) source \<Rightarrow> u64 option" where
  "source_modification (MutationSource _ _ modification) = modification"
| "source_modification (CommandSource _ _ modification) = modification"
| "source_modification (AnnouncedSource announced) = Some (an_modification announced)"

definition source_publishes :: "registry \<Rightarrow> ('m, 'c, 'n) source \<Rightarrow> bool" where
  "source_publishes R source \<longleftrightarrow>
     source_modification source \<noteq> None
     \<and> (case source of
          MutationSource mutation _ _ \<Rightarrow> \<not> plans_only R mutation
        | CommandSource command _ _ \<Rightarrow>
            (case reg_command R command of None \<Rightarrow> False | Some spec \<Rightarrow> cs_touches spec \<noteq> [])
        | AnnouncedSource announced \<Rightarrow> an_touches announced \<noteq> [])"

fun source_affects :: "registry \<Rightarrow> ('m, 'c, 'n) source \<Rightarrow> string \<Rightarrow> bool" where
  "source_affects R (MutationSource mutation _ _) projection = mutation_affects_projection R mutation projection"
| "source_affects R (CommandSource command _ _) projection = command_affects_projection R command projection"
| "source_affects R (AnnouncedSource announced) projection =
     entities_affect_projection R (an_touches announced) projection"

definition affected_by ::
  "('w, 's, 'p, 'd, 'm, 'c, 'n, 'f) host \<Rightarrow> ('m, 'c, 'n) source \<Rightarrow> 'd held subscription \<Rightarrow> bool"
where
  "affected_by H source s \<longleftrightarrow>
     source_affects (host_registry H) source (sub_projection s)
     \<and> \<not> is_authoring H (sub_projection s)
     \<and> (case source_modification source of None \<Rightarrow> False | Some number \<Rightarrow> number > sub_through s)"

fun source_patch ::
  "('w, 's, 'p, 'd, 'm, 'c, 'n, 'f) host \<Rightarrow> ('m, 'c, 'n) source \<Rightarrow> 'd held subscription \<Rightarrow>
   'w \<Rightarrow> 'p option \<times> 'w"
where
  "source_patch H (MutationSource mutation result _) s = host_mutation_patch H mutation result s"
| "source_patch H (CommandSource command result _) s = host_command_patch H command result s"
| "source_patch H (AnnouncedSource announced) s = host_announcement_patch H (an_announcement announced) s"

text \<open>One turn of the loop of \<open>deliver\<close>.\<close>

definition deliver_to ::
  "('w, 's, 'p, 'd, 'm, 'c, 'n, 'f) host \<Rightarrow> ('m, 'c, 'n) source \<Rightarrow> u64 \<Rightarrow> u64 \<times> 'd held subscription \<Rightarrow>
   (('w, 's, 'p, 'd) session, ('s, 'p) transport_event list) task"
where
  "deliver_to H source revision entry =
     (let (i, s) = entry in
      task_bind (ask_host (source_patch H source s)) (\<lambda>patch.
      case patch of
        None \<Rightarrow> Done []
      | Some p \<Rightarrow>
          (let delivered = map_option HeldHost (host_delivered_by_patch H p) in
           task_bind (with_subscriptions optional_update
             (deliver_patch (wire_held_token (host_wire H)) i revision p delivered)) (\<lambda>event.
           Done (case event of None \<Rightarrow> [] | Some e \<Rightarrow> [e])))))"

definition deliver ::
  "('w, 's, 'p, 'd, 'm, 'c, 'n, 'f) host \<Rightarrow> ('m, 'c, 'n) source \<Rightarrow>
   (('w, 's, 'p, 'd) session, u64 \<times> ('s, 'p) transport_event list) task"
where
  "deliver H source =
     (let publishes = source_publishes (host_registry H) source in
      task_bind (read_subscriptions (change_revision publishes)) (\<lambda>revision.
      if \<not> publishes then Done (revision, [])
      else
        task_bind (read_subscriptions (\<lambda>c. filter (\<lambda>e. affected_by H source (snd e)) (ss_subscriptions c)))
          (\<lambda>affected.
        task_bind (task_gather (deliver_to H source revision) affected) (\<lambda>events.
        Done (revision, events)))))"

definition publish ::
  "('w, 's, 'p, 'd, 'm, 'c, 'n, 'f) host \<Rightarrow> ('m, 'c) accepted \<Rightarrow>
   (('w, 's, 'p, 'd) session, u64 \<times> ('s, 'p) transport_event list) task"
where
  "publish H accepted = deliver H (source_of_accepted accepted)"

definition deliver_announcement ::
  "('w, 's, 'p, 'd, 'm, 'c, 'n, 'f) host \<Rightarrow> 'n announced \<Rightarrow>
   (('w, 's, 'p, 'd) session, ('s, 'p) transport_event list) task"
where
  "deliver_announcement H announced =
     task_bind (deliver H (AnnouncedSource announced)) (\<lambda>(_, events). Done events)"

definition publish_command ::
  "('w, 's, 'p, 'd, 'm, 'c, 'n, 'f) host \<Rightarrow> 'c ran_command \<Rightarrow>
   (('w, 's, 'p, 'd) session, u64 \<times> ('s, 'p) transport_event list) task"
where
  "publish_command H rc = deliver H (CommandSource (rc_command rc) (rc_result rc) (rc_modification rc))"

definition resync_one ::
  "('w, 's, 'p, 'd, 'm, 'c, 'n, 'f) host \<Rightarrow> principal \<Rightarrow> string \<Rightarrow> u64 \<times> 'd held subscription \<Rightarrow>
   (('w, 's, 'p, 'd) session, ('s, 'p) transport_event list) task"
where
  "resync_one H who reason entry =
     (let (i, s) = entry in
      task_bind (snapshot_for H who (sub_projection s) (sub_params s) None) (\<lambda>built.
      case built of
        Inl _ \<Rightarrow> Done []
      | Inr (snapshot, delivered) \<Rightarrow>
          task_bind (with_subscriptions (\<lambda>sent. optional_update (map_option snd sent))
            (subs_resync (wire_held_token (host_wire H)) i snapshot delivered reason)) (\<lambda>sent.
          Done (case sent of None \<Rightarrow> [] | Some (_, event) \<Rightarrow> [event]))))"

definition resync_all ::
  "('w, 's, 'p, 'd, 'm, 'c, 'n, 'f) host \<Rightarrow> string \<Rightarrow>
   (('w, 's, 'p, 'd) session, ('s, 'p) transport_event list) task"
where
  "resync_all H reason =
     task_bind (read_subscriptions ss_subscriptions) (\<lambda>subscriptions.
     task_bind principal_of (\<lambda>who.
     task_gather (resync_one H who reason) subscriptions))"

text \<open>One turn of the loop of \<open>deliver_change\<close>.\<close>

definition change_to ::
  "('w, 's, 'p, 'd, 'm, 'c, 'n, 'f) host \<Rightarrow> 'w authoring_states \<Rightarrow> change_event \<Rightarrow> principal \<Rightarrow>
   u64 \<times> 'd held subscription \<Rightarrow> (('w, 's, 'p, 'd) session, ('s, 'p) transport_event list) task"
where
  "change_to H A change who entry =
     (let (i, s) = entry; projection = sub_projection s in
      case follow A projection (sub_params s) of
        Some (Inr document) \<Rightarrow>
          if fd_store document \<noteq> ce_source change then Done []
          else if doc_resource_id (fd_id document) \<noteq> cd_resource_id (ce_data change) then Done []
          else if ce_kind change = Deleted
          then
            if sub_delivered s = None then Done []
            else (case authoring_patch H projection patch_remove of
                Inl _ \<Rightarrow> Done []
              | Inr patch \<Rightarrow>
                  task_bind (with_subscriptions optional_update
                    (deliver_patch (wire_held_token (host_wire H)) i 0 patch None)) (\<lambda>event.
                  Done (case event of None \<Rightarrow> [] | Some e \<Rightarrow> [e])))
          else
            task_bind (ask_host (au_state A document (Option.bind (sub_delivered s) held_authoring) who)) (\<lambda>built.
            case built of
              Inl _ \<Rightarrow> Done []
            | Inr st \<Rightarrow>
                (let delivered = HeldAuthoring (authoring_held_of st) in
                 case authoring_patch H projection (patch_replace st) of
                   Inl _ \<Rightarrow> Done []
                 | Inr patch \<Rightarrow>
                     task_bind (with_subscriptions (\<lambda>sent. optional_update (res_ok sent))
                       (deliver_following (wire_held_token (host_wire H)) i (sub_revision s) patch delivered))
                       (\<lambda>delivery.
                     Done (case delivery of Inl _ \<Rightarrow> [] | Inr e \<Rightarrow> [e]))))
      | _ \<Rightarrow> Done [])"

definition follows_entity :: "'w authoring_states \<Rightarrow> string \<Rightarrow> 'd held subscription \<Rightarrow> bool" where
  "follows_entity A entity s =
     (case au_plan A (sub_projection s) of None \<Rightarrow> False | Some plan \<Rightarrow> plan_name plan = entity)"

definition deliver_change ::
  "('w, 's, 'p, 'd, 'm, 'c, 'n, 'f) host \<Rightarrow> change_event \<Rightarrow>
   (('w, 's, 'p, 'd) session, ('s, 'p) transport_event list) task"
where
  "deliver_change H change =
     (case host_authoring H of
        None \<Rightarrow> Done []
      | Some A \<Rightarrow>
          task_bind (read_subscriptions (\<lambda>c.
            filter (\<lambda>e. follows_entity A (cd_entity (ce_data change)) (snd e)) (ss_subscriptions c)))
            (\<lambda>subscriptions.
          task_bind principal_of (\<lambda>who.
          task_gather (change_to H A change who) subscriptions)))"

section \<open>Mutations and commands\<close>

definition execute_mutation ::
  "('w, 's, 'p, 'd, 'm, 'c, 'n, 'f) host \<Rightarrow> principal \<Rightarrow> string \<Rightarrow> json \<Rightarrow>
   (('w, 's, 'p, 'd) session, 'f + 'm modified) task"
where
  "execute_mutation H who mutation params =
     (if reg_mutation (host_registry H) mutation = None
      then Done (Inl (refused H UnknownMutation (Some (jobj [(''mutation'', JString mutation)]))))
      else ask_host (host_mutate H who mutation params))"

definition execute_command ::
  "('w, 's, 'p, 'd, 'm, 'c, 'n, 'f) host \<Rightarrow> principal \<Rightarrow> command_request \<Rightarrow>
   (('w, 's, 'p, 'd) session, 'f + 'c ran_command) task"
where
  "execute_command H who request =
     (let command = cr_command request in
      if reg_command (host_registry H) command = None
      then Done (Inl (refused H UnknownCommand (Some (jobj [(''command'', JString command)]))))
      else
        task_try (ask_host (host_command H who command (cr_params request))) (\<lambda>made.
        Done (Inr \<lparr>rc_command = command, rc_operation_id = cr_operation_id request,
          rc_result = md_result made, rc_modification = md_modification made\<rparr>)))"

definition run_mutation ::
  "('w, 's, 'p, 'd, 'm, 'c, 'n, 'f) host \<Rightarrow> principal \<Rightarrow> string \<Rightarrow> json \<Rightarrow>
   (('w, 's, 'p, 'd) session, 'f + 'm modified) task"
where
  "run_mutation H who mutation params =
     task_bind (execute_mutation H who mutation params) (\<lambda>r.
     Done (map_err (addressed H Mutate (Some mutation)) r))"

definition run_command ::
  "('w, 's, 'p, 'd, 'm, 'c, 'n, 'f) host \<Rightarrow> principal \<Rightarrow> command_request \<Rightarrow>
   (('w, 's, 'p, 'd) session, 'f + 'c ran_command) task"
where
  "run_command H who request =
     task_bind (execute_command H who request) (\<lambda>r.
     Done (map_err (addressed H Command (Some (cr_command request))) r))"

definition command_accepted_of :: "'c ran_command \<Rightarrow> u64 \<Rightarrow> 'c command_accepted" where
  "command_accepted_of rc revision =
     \<lparr>ca_operation_id = rc_operation_id rc, ca_revision = revision, ca_result = rc_result rc\<rparr>"

definition command_reply ::
  "('w, 's, 'p, 'd, 'm, 'c, 'n, 'f) host \<Rightarrow> 'c ran_command \<Rightarrow> u64 \<Rightarrow> 'f + json"
where
  "command_reply H rc revision =
     map_err (addressed H Command (Some (rc_command rc)))
       (encode H (wire_command_accepted (host_wire H) (command_accepted_of rc revision)))"

definition reply_to_command ::
  "('w, 's, 'p, 'd, 'm, 'c, 'n, 'f) host \<Rightarrow> 'c ran_command \<Rightarrow>
   (('w, 's, 'p, 'd) session, 'f + ('s, 'p, 'm, 'c) reply) task"
where
  "reply_to_command H rc =
     task_bind (publish_command H rc) (\<lambda>(revision, events).
     Done (res_bind (encode H (wire_command_accepted (host_wire H) (command_accepted_of rc revision))) (\<lambda>result.
       Inr \<lparr>rp_result = result, rp_events = events,
         rp_accepted = Some (CommandAccepted (rc_command rc) (rc_result rc) (rc_modification rc))\<rparr>)))"

definition mutate ::
  "('w, 's, 'p, 'd, 'm, 'c, 'n, 'f) host \<Rightarrow> mutation_request \<Rightarrow>
   (('w, 's, 'p, 'd) session, 'f + ('s, 'p, 'm, 'c) reply) task"
where
  "mutate H request =
     task_bind principal_of (\<lambda>who.
     task_try (execute_mutation H who (mr_mutation request) (mr_params request)) (\<lambda>made.
     task_try (Done (encode H (wire_mutation_result (host_wire H) (md_result made)))) (\<lambda>encoded.
     let accepted = MutationAccepted (mr_mutation request) (md_result made) (md_modification made) in
     task_bind (publish H accepted) (\<lambda>(revision, events).
     Done (res_bind (encode H (wire_mutation_accepted (host_wire H)
         \<lparr>ma_operation_id = mr_operation_id request, ma_base_revision = mr_base_revision request,
          ma_revision = revision, ma_result = encoded\<rparr>)) (\<lambda>result.
       Inr \<lparr>rp_result = result, rp_events = events, rp_accepted = Some accepted\<rparr>))))))"

section \<open>Serving\<close>

definition serve_outcome ::
  "('w, 's, 'p, 'd, 'm, 'c, 'n, 'f) host \<Rightarrow> projection_request \<Rightarrow>
   (('w, 's, 'p, 'd) session, 'f + ('s, 'p, 'm, 'c) reply) task"
where
  "serve_outcome H request =
     (case request of
        SubscribeRequest r \<Rightarrow> subscribe H r
      | ResyncRequest r \<Rightarrow> resync H r
      | UnsubscribeRequest r \<Rightarrow> unsubscribe H r
      | MutateRequest r \<Rightarrow> mutate H r
      | CommandRequest r \<Rightarrow>
          task_bind principal_of (\<lambda>who.
          task_try (execute_command H who r) (reply_to_command H)))"

definition serve ::
  "('w, 's, 'p, 'd, 'm, 'c, 'n, 'f) host \<Rightarrow> projection_request \<Rightarrow>
   (('w, 's, 'p, 'd) session, 'f + ('s, 'p, 'm, 'c) reply) task"
where
  "serve H request =
     task_bind (ask_host (\<lambda>w. (host_now H w, w))) (\<lambda>started.
     task_bind (serve_outcome H request) (\<lambda>outcome.
     let outcome = map_err (addressed H (request_operation request) (request_name request)) outcome in
     if request_operation request = Mutate
     then
       task_bind (ask_host (\<lambda>w. (host_now H w, w))) (\<lambda>ended.
       task_bind (with_subscriptions (\<lambda>_. []) (\<lambda>c. ((), record_mutation (ended - started)
         (case outcome of
            Inl failure \<Rightarrow> Some (error_code_as_str (rf_code (host_describe H failure)))
          | Inr _ \<Rightarrow> None) c))) (\<lambda>_.
       Done outcome))
     else Done outcome))"

definition serve_request ::
  "('w, 's, 'p, 'd, 'm, 'c, 'n, 'f) host \<Rightarrow> string \<Rightarrow> json option \<Rightarrow>
   (('w, 's, 'p, 'd) session, 'f + ('s, 'p, 'm, 'c) reply) task option"
where
  "serve_request H method params =
     map_option (\<lambda>decoded. case decoded of
         Inr request \<Rightarrow> serve H request
       | Inl failure \<Rightarrow> Done (Inl failure))
     (decode_request H method params)"

end
