(* ===== verification/Rpc.thy ===== *)
theory Rpc
  imports Server
begin

text \<open>
  The JSON-RPC framing of \<open>crates/clerkenwell-axum/src/lib.rs\<close>: its refusals, error codes, requests and
  responses. What \<open>serde_json\<close> makes of a frame's text is the record \<open>rpc_wire\<close>. Messages are left out,
  as in \<open>StoreError\<close>.
\<close>

definition no_connection :: u64 where
  "no_connection = 0"

definition parse_error :: int where
  "parse_error = - 32700"

definition rpc_invalid_request :: int where
  "rpc_invalid_request = - 32600"

definition method_not_found :: int where
  "method_not_found = - 32601"

record rpc_failure =
  rpf_refusal :: refusal
  rpf_envelope :: "error_envelope option"

definition rpc_refused :: "refusal \<Rightarrow> rpc_failure" where
  "rpc_refused refusal = \<lparr>rpf_refusal = refusal, rpf_envelope = None\<rparr>"

definition rpc_failure_new :: "error_code \<Rightarrow> json option \<Rightarrow> rpc_failure" where
  "rpc_failure_new code details = rpc_refused (refusal_new code details)"

definition rpc_describe :: "rpc_failure \<Rightarrow> refusal" where
  "rpc_describe failure = rpf_refusal failure"

definition rpc_described :: "error_envelope \<Rightarrow> rpc_failure \<Rightarrow> rpc_failure" where
  "rpc_described envelope failure = failure\<lparr>rpf_envelope := Some envelope\<rparr>"

fun rpc_code :: "error_code \<Rightarrow> int" where
  "rpc_code UnknownMutation = - 32602"
| "rpc_code UnsupportedMutation = - 32602"
| "rpc_code UnknownCommand = - 32602"
| "rpc_code UnsupportedCommand = - 32602"
| "rpc_code UnknownProjection = - 32602"
| "rpc_code UnsupportedProjection = - 32602"
| "rpc_code InvalidParams = - 32602"
| "rpc_code ValidationFailed = - 32602"
| "rpc_code CodeNotFound = - 32004"
| "rpc_code CodeConflict = - 32009"
| "rpc_code StaleWrite = - 32009"
| "rpc_code BaseRevisionInFuture = - 32009"
| "rpc_code Cancelled = - 32002"
| "rpc_code Interrupted = - 32003"
| "rpc_code RateLimit = - 32000"
| "rpc_code InternalError = - 32000"

record error_data =
  ed_code :: error_code
  ed_projection_error :: "error_envelope option"
  ed_details :: "(string, json) bmap"

record error_object =
  eo_code :: int
  eo_data :: "error_data option"

definition framing :: "int \<Rightarrow> error_object" where
  "framing code = \<lparr>eo_code = code, eo_data = None\<rparr>"

definition failure_details :: "json option \<Rightarrow> (string, json) bmap" where
  "failure_details details =
     (case details of
        Some (JObject m) \<Rightarrow> m
      | Some other \<Rightarrow> [(''payload'', other)]
      | None \<Rightarrow> [])"

definition error_object_of :: "rpc_failure \<Rightarrow> error_object" where
  "error_object_of failure =
     \<lparr>eo_code = rpc_code (rf_code (rpf_refusal failure)),
      eo_data = Some
        \<lparr>ed_code = rf_code (rpf_refusal failure), ed_projection_error = rpf_envelope failure,
         ed_details = bmap_remove ''projection_error''
           (bmap_remove ''code'' (failure_details (rf_details (rpf_refusal failure))))\<rparr>\<rparr>"

text \<open>A refusal the transport raises itself, addressed to what it answers.\<close>

definition rpc_refusal :: "error_code \<Rightarrow> operation_kind \<Rightarrow> string option \<Rightarrow> rpc_failure" where
  "rpc_refusal code operation named =
     rpc_described (error_envelope_new code operation named None) (rpc_failure_new code None)"

definition command_refusal :: "error_code \<Rightarrow> string \<Rightarrow> rpc_failure" where
  "command_refusal code command = rpc_refusal code Command (Some command)"

record rpc_request =
  rq_jsonrpc :: string
  rq_id :: "json option"
  rq_method :: string
  rq_params :: "json option"

text \<open>What the framing takes from \<open>serde_json\<close>: reading a request, writing a response and an update.\<close>

record ('s, 'p) rpc_wire =
  rpc_request_of :: "string \<Rightarrow> rpc_request option"
  rpc_response :: "json \<Rightarrow> error_object + json \<Rightarrow> string"
  rpc_notification :: "('s, 'p) transport_event \<Rightarrow> string option"

definition rpc_frame :: "('s, 'p) rpc_wire \<Rightarrow> json \<Rightarrow> error_object + json \<Rightarrow> string" where
  "rpc_frame F i outcome = rpc_response F i outcome"

definition notifications :: "('s, 'p) rpc_wire \<Rightarrow> ('s, 'p) transport_event list \<Rightarrow> string list" where
  "notifications F events = List.map_filter (rpc_notification F) events"

definition answer ::
  "('s, 'p) rpc_wire \<Rightarrow> json option \<Rightarrow> error_object + json \<Rightarrow> ('s, 'p) transport_event list \<Rightarrow> string list"
where
  "answer F i response events =
     (case i of None \<Rightarrow> [] | Some v \<Rightarrow> [rpc_frame F v response]) @ notifications F events"

definition rpc_encoded :: "json option \<Rightarrow> operation_kind \<Rightarrow> string \<Rightarrow> rpc_failure + json" where
  "rpc_encoded v operation name = ok_or (rpc_refusal InternalError operation (Some name)) v"

text \<open>A host whose failures are those of the framing.\<close>

definition rpc_host :: "('w, 's, 'p, 'd, 'm, 'c, 'n, rpc_failure) host \<Rightarrow> bool" where
  "rpc_host H \<longleftrightarrow>
     host_refused H = rpc_refused \<and> host_describe H = rpc_describe \<and> host_described H = rpc_described"

text \<open>Whatever details a refusal carries, they cannot shadow its protocol code or its envelope.\<close>

lemma error_object_details:
  assumes "eo_data (error_object_of failure) = Some data"
  shows "map_of (ed_details data)
      = (map_of (failure_details (rf_details (rpf_refusal failure))))(''code'' := None, ''projection_error'' := None)"
  using assms by (auto simp: error_object_of_def)

end
