(* ===== verification/Sockets.thy ===== *)
theory Sockets
  imports Rpc
begin

text \<open>
  The server of \<open>crates/clerkenwell-axum/src/lib.rs\<close>: the publications every connection takes in one
  order, the commands that run beside the connections, and the shutdown.

  The broadcast channel is the list of everything sent, and a receiver is its place in that list; a
  receiver more than the channel's capacity behind has lagged, as \<open>tokio\<close> documents. A connection is what
  the loop of \<open>serve_admitted\<close> keeps; each turn of the loop is one function here, which runs the session's
  handler to its end, as the loop does. A command is the task \<open>start\<close> spawns, in one of three phases:
  its host runs, its host has returned and its permit is given back, its outcome is published. A panic
  of the application is caught where the code catches it: in a command, in a request and in \<open>mutate\<close>.
\<close>

datatype ('m, 'c, 'n) publication =
    ServedPub u64 "('m, 'c) accepted"
  | RanPub u64 u64 "rpc_failure + 'c ran_command"
  | AnnouncedPub "'n announced"
  | StoredPub change_event
  | ClosingPub

record ('m, 'c, 'n) sent =
  st_sequence :: u64
  st_publication :: "('m, 'c, 'n) publication"

record ('s, 'p, 'd, 'm, 'c, 'n) conn =
  cn_principal :: principal
  cn_position :: nat
  cn_subs :: "'d held subscriptions"
  cn_sent :: "('s, 'p) message list"
  cn_running :: "(u64, json option) bmap"
  cn_ran :: "(u64, ('m, 'c, 'n) sent) bmap"
  cn_tickets :: u64
  cn_skipping :: "u64 option"
  cn_frames :: "string list"

datatype 'c phase = Executing | Returned "rpc_failure + 'c ran_command" | Published

record 'c command_task =
  ct_origin :: u64
  ct_ticket :: u64
  ct_principal :: principal
  ct_request :: command_request
  ct_phase :: "'c phase"

record ('w, 's, 'p, 'd, 'm, 'c, 'n) server =
  sv_host :: 'w
  sv_log :: "('m, 'c, 'n) sent list"
  sv_last :: u64
  sv_permits :: nat
  sv_next_connection :: u64
  sv_stopping :: bool
  sv_running :: nat
  sv_serving :: nat
  sv_closer :: bool
  sv_closing_at :: u64
  sv_connections :: "(u64, ('s, 'p, 'd, 'm, 'c, 'n) conn) bmap"
  sv_commands :: "'c command_task list"

definition server_new :: "'w \<Rightarrow> nat \<Rightarrow> ('w, 's, 'p, 'd, 'm, 'c, 'n) server" where
  "server_new w command_limit =
     \<lparr>sv_host = w, sv_log = [], sv_last = 0, sv_permits = command_limit,
      sv_next_connection = no_connection + 1, sv_stopping = False, sv_running = 0, sv_serving = 0,
      sv_closer = False, sv_closing_at = 0, sv_connections = [], sv_commands = []\<rparr>"

section \<open>Publications\<close>

text \<open>\<open>Publications::send\<close>: \<open>numbered\<close> sees the publication before the lock is released.\<close>

definition publications_send ::
  "('m, 'c, 'n) publication \<Rightarrow>
   (('m, 'c, 'n) sent \<Rightarrow> ('w, 's, 'p, 'd, 'm, 'c, 'n) server \<Rightarrow> ('w, 's, 'p, 'd, 'm, 'c, 'n) server) \<Rightarrow>
   ('w, 's, 'p, 'd, 'm, 'c, 'n) server \<Rightarrow> ('w, 's, 'p, 'd, 'm, 'c, 'n) server"
where
  "publications_send publication numbered sv =
     (let number = sv_last sv + 1; sent = \<lparr>st_sequence = number, st_publication = publication\<rparr>;
          sv1 = numbered sent (sv\<lparr>sv_last := number\<rparr>) in
      sv1\<lparr>sv_log := sv_log sv1 @ [sent]\<rparr>)"

text \<open>\<open>Publications::subscribe\<close>: the last number, and a receiver of what follows.\<close>

definition publications_subscribe :: "('w, 's, 'p, 'd, 'm, 'c, 'n) server \<Rightarrow> u64 \<times> nat" where
  "publications_subscribe sv = (sv_last sv, length (sv_log sv))"

datatype ('m, 'c, 'n) received_publication = Pending | Got "('m, 'c, 'n) sent" | Lagged nat

definition broadcast_recv ::
  "nat \<Rightarrow> nat \<Rightarrow> ('m, 'c, 'n) sent list \<Rightarrow> ('m, 'c, 'n) received_publication"
where
  "broadcast_recv capacity position sents =
     (if length sents \<le> position then Pending
      else if capacity < length sents - position then Lagged (length sents - position - capacity)
      else Got (sents ! position))"

section \<open>A connection's turns\<close>

definition on_connection ::
  "(('w, 's, 'p, 'd) session, 'a) task \<Rightarrow> ('s, 'p, 'd, 'm, 'c, 'n) conn \<Rightarrow> 'w \<Rightarrow>
   'a \<times> ('s, 'p, 'd, 'm, 'c, 'n) conn \<times> 'w"
where
  "on_connection t cn w =
     (case run t \<lparr>ses_host = w, ses_subs = cn_subs cn, ses_sent = cn_sent cn\<rparr> of
        (r, s) \<Rightarrow> (r, cn\<lparr>cn_subs := ses_subs s, cn_sent := ses_sent s\<rparr>, ses_host s))"

definition conn_new :: "principal \<Rightarrow> nat \<Rightarrow> ('s, 'p, 'd, 'm, 'c, 'n) conn" where
  "conn_new who position =
     \<lparr>cn_principal = who, cn_position = position, cn_subs = subscriptions_new who, cn_sent = [],
      cn_running = [], cn_ran = [], cn_tickets = 0, cn_skipping = None, cn_frames = []\<rparr>"

definition emit :: "string list \<Rightarrow> ('s, 'p, 'd, 'm, 'c, 'n) conn \<Rightarrow> ('s, 'p, 'd, 'm, 'c, 'n) conn" where
  "emit frames cn = cn\<lparr>cn_frames := cn_frames cn @ frames\<rparr>"

text \<open>\<open>running.remove(ticket).flatten()\<close>: the id a ticket's response answers, which is then forgotten.\<close>

definition running_id :: "u64 \<Rightarrow> ('s, 'p, 'd, 'm, 'c, 'n) conn \<Rightarrow> json option" where
  "running_id ticket cn = Option.bind (map_of (cn_running cn) ticket) id"

definition settle :: "u64 \<Rightarrow> ('s, 'p, 'd, 'm, 'c, 'n) conn \<Rightarrow> ('s, 'p, 'd, 'm, 'c, 'n) conn" where
  "settle ticket cn = cn\<lparr>cn_ran := bmap_remove ticket (cn_ran cn),
     cn_running := bmap_remove ticket (cn_running cn)\<rparr>"

definition take_publication ::
  "('w, 's, 'p, 'd, 'm, 'c, 'n, rpc_failure) host \<Rightarrow> ('s, 'p) rpc_wire \<Rightarrow> u64 \<Rightarrow> ('m, 'c, 'n) sent \<Rightarrow>
   ('s, 'p, 'd, 'm, 'c, 'n) conn \<Rightarrow> 'w \<Rightarrow> ('s, 'p, 'd, 'm, 'c, 'n) conn \<times> 'w"
where
  "take_publication H F origin sent cn w =
     (case st_publication sent of
        ServedPub from change \<Rightarrow>
          if from = origin then (cn, w)
          else (case on_connection (publish H change) cn w of
            ((_, events), cn1, w1) \<Rightarrow> (emit (notifications F events) cn1, w1))
      | AnnouncedPub announced \<Rightarrow>
          (case on_connection (deliver_announcement H announced) cn w of
            (events, cn1, w1) \<Rightarrow> (emit (notifications F events) cn1, w1))
      | StoredPub change \<Rightarrow>
          (case on_connection (deliver_change H change) cn w of
            (events, cn1, w1) \<Rightarrow> (emit (notifications F events) cn1, w1))
      | RanPub from ticket outcome \<Rightarrow>
          if from = origin
          then
            (let i = running_id ticket cn; cn0 = settle ticket cn in
             case outcome of
               Inr command \<Rightarrow>
                 (case on_connection (publish_command H command) cn0 w of
                   ((revision, events), cn1, w1) \<Rightarrow>
                     (emit (answer F i (map_err error_object_of (command_reply H command revision)) events) cn1, w1))
             | Inl failure \<Rightarrow> (emit (answer F i (Inl (error_object_of failure)) []) cn0, w))
          else
            (case outcome of
               Inr command \<Rightarrow>
                 (case on_connection (publish_command H command) cn w of
                   ((_, events), cn1, w1) \<Rightarrow> (emit (notifications F events) cn1, w1))
             | Inl _ \<Rightarrow> (cn, w))
      | ClosingPub \<Rightarrow> (cn, w))"

text \<open>
  Answering the commands whose publications were skipped. Their tickets leave \<open>ran\<close> first, all at once;
  then each is answered, in the order they were published.
\<close>

definition skipped_commands ::
  "u64 \<Rightarrow> ('s, 'p, 'd, 'm, 'c, 'n) conn \<Rightarrow> ('m, 'c, 'n) sent list"
where
  "skipped_commands skipped_through cn =
     sort_key st_sequence (map snd (filter (\<lambda>e. st_sequence (snd e) \<le> skipped_through) (cn_ran cn)))"

fun answer_one ::
  "('w, 's, 'p, 'd, 'm, 'c, 'n, rpc_failure) host \<Rightarrow> ('s, 'p) rpc_wire \<Rightarrow> u64 \<Rightarrow> ('m, 'c, 'n) sent \<Rightarrow>
   ('s, 'p, 'd, 'm, 'c, 'n) conn \<Rightarrow> ('s, 'p, 'd, 'm, 'c, 'n) conn"
where
  "answer_one H F revision sent cn =
     (case st_publication sent of
        RanPub _ ticket outcome \<Rightarrow>
          (let response = (case outcome of
                 Inr command \<Rightarrow> command_reply H command revision
               | Inl failure \<Rightarrow> Inl failure) in
           emit (answer F (running_id ticket cn) (map_err error_object_of response) [])
             (cn\<lparr>cn_running := bmap_remove ticket (cn_running cn)\<rparr>))
      | _ \<Rightarrow> cn)"

definition answer_skipped ::
  "('w, 's, 'p, 'd, 'm, 'c, 'n, rpc_failure) host \<Rightarrow> ('s, 'p) rpc_wire \<Rightarrow> u64 \<Rightarrow>
   ('s, 'p, 'd, 'm, 'c, 'n) conn \<Rightarrow> ('s, 'p, 'd, 'm, 'c, 'n) conn"
where
  "answer_skipped H F skipped_through cn =
     (let skipped = skipped_commands skipped_through cn;
          cn1 = cn\<lparr>cn_ran := filter (\<lambda>e. \<not> st_sequence (snd e) \<le> skipped_through) (cn_ran cn)\<rparr> in
      fold (answer_one H F (change_revision False (cn_subs cn))) skipped cn1)"

text \<open>A lagging connection: it counts what it missed and follows the publications from here on \<dots>\<close>

definition fall_behind ::
  "nat \<Rightarrow> ('w, 's, 'p, 'd, 'm, 'c, 'n) server \<Rightarrow> ('s, 'p, 'd, 'm, 'c, 'n) conn \<Rightarrow> ('s, 'p, 'd, 'm, 'c, 'n) conn"
where
  "fall_behind missed sv cn =
     (case publications_subscribe sv of (skipped_through, position) \<Rightarrow>
        cn\<lparr>cn_subs := record_dropped_updates (word_of_nat missed) (cn_subs cn),
           cn_position := position, cn_skipping := Some skipped_through\<rparr>)"

text \<open>\<dots> then takes a snapshot for each of its subscriptions and answers the commands it skipped.\<close>

definition catch_up ::
  "('w, 's, 'p, 'd, 'm, 'c, 'n, rpc_failure) host \<Rightarrow> ('s, 'p) rpc_wire \<Rightarrow> u64 \<Rightarrow>
   ('s, 'p, 'd, 'm, 'c, 'n) conn \<Rightarrow> 'w \<Rightarrow> ('s, 'p, 'd, 'm, 'c, 'n) conn \<times> 'w"
where
  "catch_up H F skipped_through cn w =
     (case on_connection (resync_all H ''broadcastLag'') cn w of
        (events, cn1, w1) \<Rightarrow>
          ((answer_skipped H F skipped_through (emit (notifications F events) cn1))\<lparr>cn_skipping := None\<rparr>, w1))"

definition closing_skipped :: "u64 \<Rightarrow> ('w, 's, 'p, 'd, 'm, 'c, 'n) server \<Rightarrow> bool" where
  "closing_skipped skipped_through sv \<longleftrightarrow> sv_closing_at sv \<noteq> 0 \<and> sv_closing_at sv \<le> skipped_through"

section \<open>Requests\<close>

datatype received = Answered "string list" | CommandReceived "json option" command_request

definition respond ::
  "('s, 'p) rpc_wire \<Rightarrow> u64 \<Rightarrow> json option \<Rightarrow> rpc_failure + ('s, 'p, 'm, 'c) reply \<Rightarrow>
   ('w, 's, 'p, 'd, 'm, 'c, 'n) server \<Rightarrow> string list \<times> ('w, 's, 'p, 'd, 'm, 'c, 'n) server"
where
  "respond F origin i served sv =
     (case served of
        Inl failure \<Rightarrow> (answer F i (Inl (error_object_of failure)) [], sv)
      | Inr reply \<Rightarrow>
          (answer F i (Inr (rp_result reply)) (rp_events reply),
           case rp_accepted reply of
             None \<Rightarrow> sv
           | Some change \<Rightarrow> publications_send (ServedPub origin change) (\<lambda>_ sv. sv) sv))"

text \<open>
  A request that is no command is served to its end, or up to a panic: \<open>panics\<close> is then how many steps its
  handler took before it.
\<close>

definition serve_catching ::
  "('w, 's, 'p, 'd, 'm, 'c, 'n, rpc_failure) host \<Rightarrow> nat option \<Rightarrow> projection_request \<Rightarrow>
   ('s, 'p, 'd, 'm, 'c, 'n) conn \<Rightarrow> 'w \<Rightarrow>
   (rpc_failure + ('s, 'p, 'm, 'c) reply) \<times> ('s, 'p, 'd, 'm, 'c, 'n) conn \<times> 'w"
where
  "serve_catching H panics r cn w =
     (case panics of
        None \<Rightarrow> on_connection (serve H r) cn w
      | Some n \<Rightarrow>
          (let s = abandoned n (serve H r) \<lparr>ses_host = w, ses_subs = cn_subs cn, ses_sent = cn_sent cn\<rparr> in
           (Inl (rpc_refusal InternalError (request_operation r) (request_name r)),
            cn\<lparr>cn_subs := ses_subs s, cn_sent := ses_sent s\<rparr>, ses_host s)))"

definition receive ::
  "('w, 's, 'p, 'd, 'm, 'c, 'n, rpc_failure) host \<Rightarrow> ('s, 'p) rpc_wire \<Rightarrow> u64 \<Rightarrow> nat option \<Rightarrow> string \<Rightarrow>
   ('s, 'p, 'd, 'm, 'c, 'n) conn \<Rightarrow> ('w, 's, 'p, 'd, 'm, 'c, 'n) server \<Rightarrow>
   received \<times> ('s, 'p, 'd, 'm, 'c, 'n) conn \<times> ('w, 's, 'p, 'd, 'm, 'c, 'n) server"
where
  "receive H F origin panics txt cn sv =
     (case rpc_request_of F txt of
        None \<Rightarrow> (Answered [rpc_frame F JNull (Inl (framing parse_error))], cn, sv)
      | Some request \<Rightarrow>
          if rq_jsonrpc request \<noteq> ''2.0''
          then (Answered [rpc_frame F (case rq_id request of Some i \<Rightarrow> i | None \<Rightarrow> JNull)
            (Inl (framing rpc_invalid_request))], cn, sv)
          else (case decode_request H (rq_method request) (rq_params request) of
              None \<Rightarrow> (Answered (answer F (rq_id request) (Inl (framing method_not_found)) []), cn, sv)
            | Some (Inr (CommandRequest r)) \<Rightarrow> (CommandReceived (rq_id request) r, cn, sv)
            | Some (Inr r) \<Rightarrow>
                (case serve_catching H panics r cn (sv_host sv) of
                   (served, cn1, w1) \<Rightarrow>
                     (case respond F origin (rq_id request) served (sv\<lparr>sv_host := w1\<rparr>) of
                        (frames, sv1) \<Rightarrow> (Answered frames, cn1, sv1)))
            | Some (Inl failure) \<Rightarrow>
                (case respond F origin (rq_id request) (Inl failure) sv of
                   (frames, sv1) \<Rightarrow> (Answered frames, cn, sv1))))"

text \<open>
  \<open>start\<close>: a command is counted and takes a permit, or is refused. \<open>Counted::take\<close> refuses once the
  server is stopping; a command refused for its permit is no longer counted.
\<close>

definition start_command ::
  "u64 \<Rightarrow> u64 \<Rightarrow> principal \<Rightarrow> command_request \<Rightarrow> ('w, 's, 'p, 'd, 'm, 'c, 'n) server \<Rightarrow>
   (rpc_failure + unit) \<times> ('w, 's, 'p, 'd, 'm, 'c, 'n) server"
where
  "start_command origin ticket who request sv =
     (if sv_stopping sv then (Inl (command_refusal Interrupted (cr_command request)), sv)
      else if sv_permits sv = 0 then (Inl (command_refusal RateLimit (cr_command request)), sv)
      else (Inr (), sv\<lparr>sv_running := sv_running sv + 1, sv_permits := sv_permits sv - 1,
        sv_commands := sv_commands sv @ [\<lparr>ct_origin = origin, ct_ticket = ticket, ct_principal = who,
          ct_request = request, ct_phase = Executing\<rparr>]\<rparr>))"

text \<open>One text frame, in the loop of \<open>serve_admitted\<close>.\<close>

definition serve_text ::
  "('w, 's, 'p, 'd, 'm, 'c, 'n, rpc_failure) host \<Rightarrow> ('s, 'p) rpc_wire \<Rightarrow> u64 \<Rightarrow> nat option \<Rightarrow> string \<Rightarrow>
   ('s, 'p, 'd, 'm, 'c, 'n) conn \<Rightarrow> ('w, 's, 'p, 'd, 'm, 'c, 'n) server \<Rightarrow>
   ('s, 'p, 'd, 'm, 'c, 'n) conn \<times> ('w, 's, 'p, 'd, 'm, 'c, 'n) server"
where
  "serve_text H F origin panics txt cn sv =
     (case receive H F origin panics txt cn sv of
        (Answered frames, cn1, sv1) \<Rightarrow> (emit frames cn1, sv1)
      | (CommandReceived i request, cn1, sv1) \<Rightarrow>
          (let ticket = cn_tickets cn1 + 1; cn2 = cn1\<lparr>cn_tickets := ticket\<rparr> in
           case start_command origin ticket (cn_principal cn2) request sv1 of
             (Inr _, sv2) \<Rightarrow> (cn2\<lparr>cn_running := bmap_insert ticket i (cn_running cn2)\<rparr>, sv2)
           | (Inl failure, sv2) \<Rightarrow> (emit (answer F i (Inl (error_object_of failure)) []) cn2, sv2)))"

section \<open>The server\<close>

definition set_conn ::
  "u64 \<Rightarrow> ('s, 'p, 'd, 'm, 'c, 'n) conn \<Rightarrow> ('w, 's, 'p, 'd, 'm, 'c, 'n) server \<Rightarrow>
   ('w, 's, 'p, 'd, 'm, 'c, 'n) server"
where
  "set_conn origin cn sv = sv\<lparr>sv_connections := bmap_insert origin cn (sv_connections sv)\<rparr>"

text \<open>
  \<open>admit\<close> and the start of \<open>serve_admitted\<close>: the connection subscribed to the publications at
  \<open>position\<close>, is counted unless the server is stopping, and takes the next number.
\<close>

definition admit ::
  "principal \<Rightarrow> nat \<Rightarrow> ('w, 's, 'p, 'd, 'm, 'c, 'n) server \<Rightarrow> ('w, 's, 'p, 'd, 'm, 'c, 'n) server option"
where
  "admit who position sv =
     (if sv_stopping sv then None
      else Some (set_conn (sv_next_connection sv) (conn_new who position)
        (sv\<lparr>sv_serving := sv_serving sv + 1, sv_next_connection := sv_next_connection sv + 1\<rparr>)))"

text \<open>The end of the loop: what the connection kept is dropped, and its place in the count.\<close>

definition end_connection ::
  "u64 \<Rightarrow> ('w, 's, 'p, 'd, 'm, 'c, 'n) server \<Rightarrow> ('w, 's, 'p, 'd, 'm, 'c, 'n) server"
where
  "end_connection origin sv =
     sv\<lparr>sv_connections := bmap_remove origin (sv_connections sv), sv_serving := sv_serving sv - 1\<rparr>"

text \<open>One publication, in the loop: the closing one ends the connection.\<close>

definition serve_published ::
  "('w, 's, 'p, 'd, 'm, 'c, 'n, rpc_failure) host \<Rightarrow> ('s, 'p) rpc_wire \<Rightarrow> u64 \<Rightarrow> ('m, 'c, 'n) sent \<Rightarrow>
   ('s, 'p, 'd, 'm, 'c, 'n) conn \<Rightarrow> ('w, 's, 'p, 'd, 'm, 'c, 'n) server \<Rightarrow>
   ('w, 's, 'p, 'd, 'm, 'c, 'n) server"
where
  "serve_published H F origin sent cn sv =
     (if st_publication sent = ClosingPub then end_connection origin sv
      else (case take_publication H F origin sent (cn\<lparr>cn_position := cn_position cn + 1\<rparr>) (sv_host sv) of
        (cn1, w1) \<Rightarrow> set_conn origin cn1 (sv\<lparr>sv_host := w1\<rparr>)))"

definition serve_caught_up ::
  "('w, 's, 'p, 'd, 'm, 'c, 'n, rpc_failure) host \<Rightarrow> ('s, 'p) rpc_wire \<Rightarrow> u64 \<Rightarrow> u64 \<Rightarrow>
   ('s, 'p, 'd, 'm, 'c, 'n) conn \<Rightarrow> ('w, 's, 'p, 'd, 'm, 'c, 'n) server \<Rightarrow>
   ('w, 's, 'p, 'd, 'm, 'c, 'n) server"
where
  "serve_caught_up H F origin skipped_through cn sv =
     (case catch_up H F skipped_through cn (sv_host sv) of
        (cn1, w1) \<Rightarrow>
          (let sv1 = set_conn origin cn1 (sv\<lparr>sv_host := w1\<rparr>) in
           if closing_skipped skipped_through sv then end_connection origin sv1 else sv1))"

text \<open>
  What a spawned command does: its host returns (or panics) and its permit is given back, its outcome is
  published and handed to its connection as it is numbered, and it is no longer counted.
\<close>

definition command_outcome ::
  "('w, 's, 'p, 'd, 'm, 'c, 'n, rpc_failure) host \<Rightarrow> 'c command_task \<Rightarrow> bool \<Rightarrow> 'w \<Rightarrow>
   (rpc_failure + 'c ran_command) \<times> 'w"
where
  "command_outcome H ct panicked w =
     (if panicked then (Inl (command_refusal InternalError (cr_command (ct_request ct))), w)
      else (case run (run_command H (ct_principal ct) (ct_request ct))
          (\<lparr>ses_host = w, ses_subs = subscriptions_new (ct_principal ct), ses_sent = []\<rparr>
             :: ('w, 's, 'p, 'd) session) of
        (outcome, s) \<Rightarrow> (outcome, ses_host s)))"

definition command_returns ::
  "('w, 's, 'p, 'd, 'm, 'c, 'n, rpc_failure) host \<Rightarrow> nat \<Rightarrow> bool \<Rightarrow>
   ('w, 's, 'p, 'd, 'm, 'c, 'n) server \<Rightarrow> ('w, 's, 'p, 'd, 'm, 'c, 'n) server"
where
  "command_returns H n panicked sv =
     (case command_outcome H (sv_commands sv ! n) panicked (sv_host sv) of
        (outcome, w1) \<Rightarrow>
          sv\<lparr>sv_host := w1, sv_permits := sv_permits sv + 1,
             sv_commands := (sv_commands sv)[n := (sv_commands sv ! n)\<lparr>ct_phase := Returned outcome\<rparr>]\<rparr>)"

definition hand_over ::
  "u64 \<Rightarrow> u64 \<Rightarrow> ('m, 'c, 'n) sent \<Rightarrow> ('w, 's, 'p, 'd, 'm, 'c, 'n) server \<Rightarrow>
   ('w, 's, 'p, 'd, 'm, 'c, 'n) server"
where
  "hand_over origin ticket sent sv =
     (case map_of (sv_connections sv) origin of
        None \<Rightarrow> sv
      | Some cn \<Rightarrow> set_conn origin (cn\<lparr>cn_ran := bmap_insert ticket sent (cn_ran cn)\<rparr>) sv)"

definition command_publishes ::
  "nat \<Rightarrow> rpc_failure + 'c ran_command \<Rightarrow> ('w, 's, 'p, 'd, 'm, 'c, 'n) server \<Rightarrow>
   ('w, 's, 'p, 'd, 'm, 'c, 'n) server"
where
  "command_publishes n outcome sv =
     (let ct = sv_commands sv ! n in
      publications_send (RanPub (ct_origin ct) (ct_ticket ct) outcome) (hand_over (ct_origin ct) (ct_ticket ct))
        (sv\<lparr>sv_commands := (sv_commands sv)[n := ct\<lparr>ct_phase := Published\<rparr>]\<rparr>))"

definition command_finishes :: "nat \<Rightarrow> ('w, 's, 'p, 'd, 'm, 'c, 'n) server \<Rightarrow> ('w, 's, 'p, 'd, 'm, 'c, 'n) server" where
  "command_finishes n sv =
     sv\<lparr>sv_running := sv_running sv - 1,
        sv_commands := take n (sv_commands sv) @ drop (Suc n) (sv_commands sv)\<rparr>"

text \<open>
  \<open>shut_down\<close>: the first call spawns the task that publishes the closing once no command runs.
\<close>

definition shut_down :: "('w, 's, 'p, 'd, 'm, 'c, 'n) server \<Rightarrow> ('w, 's, 'p, 'd, 'm, 'c, 'n) server" where
  "shut_down sv = (if sv_stopping sv then sv else sv\<lparr>sv_stopping := True, sv_closer := True\<rparr>)"

definition send_closing :: "('w, 's, 'p, 'd, 'm, 'c, 'n) server \<Rightarrow> ('w, 's, 'p, 'd, 'm, 'c, 'n) server" where
  "send_closing sv =
     publications_send ClosingPub (\<lambda>sent sv. sv\<lparr>sv_closing_at := st_sequence sent\<rparr>) (sv\<lparr>sv_closer := False\<rparr>)"

definition shut_down_resolves :: "('w, 's, 'p, 'd, 'm, 'c, 'n) server \<Rightarrow> bool" where
  "shut_down_resolves sv \<longleftrightarrow> sv_stopping sv \<and> sv_running sv = 0 \<and> sv_serving sv = 0"

text \<open>\<open>ProjectionServer::mutate\<close> and \<open>ProjectionServer::command\<close>, made by the application itself.\<close>

definition app_mutate ::
  "('w, 's, 'p, 'd, 'm, 'c, 'n, rpc_failure) host \<Rightarrow> bool \<Rightarrow> principal \<Rightarrow> string \<Rightarrow> json \<Rightarrow> ('m \<Rightarrow> json option) \<Rightarrow>
   ('w, 's, 'p, 'd, 'm, 'c, 'n) server \<Rightarrow>
   (rpc_failure + json modified) \<times> ('w, 's, 'p, 'd, 'm, 'c, 'n) server"
where
  "app_mutate H panicked who mutation params enc sv =
     (if panicked then (Inl (rpc_refusal InternalError Mutate (Some mutation)), sv)
      else case run (run_mutation H who mutation params)
         (\<lparr>ses_host = sv_host sv, ses_subs = subscriptions_new who, ses_sent = []\<rparr> :: ('w, 's, 'p, 'd) session) of
        (Inl failure, s) \<Rightarrow> (Inl failure, sv\<lparr>sv_host := ses_host s\<rparr>)
      | (Inr made, s) \<Rightarrow>
          (case rpc_encoded (enc (md_result made)) Mutate mutation of
             Inl failure \<Rightarrow> (Inl failure, sv\<lparr>sv_host := ses_host s\<rparr>)
           | Inr v \<Rightarrow>
               (Inr \<lparr>md_result = v, md_modification = md_modification made\<rparr>,
                publications_send
                  (ServedPub no_connection (MutationAccepted mutation (md_result made) (md_modification made)))
                  (\<lambda>_ sv. sv) (sv\<lparr>sv_host := ses_host s\<rparr>))))"

definition app_command ::
  "principal \<Rightarrow> string \<Rightarrow> json \<Rightarrow> ('w, 's, 'p, 'd, 'm, 'c, 'n) server \<Rightarrow>
   (rpc_failure + unit) \<times> ('w, 's, 'p, 'd, 'm, 'c, 'n) server"
where
  "app_command who command params sv =
     start_command no_connection 0 who \<lparr>cr_command = command, cr_operation_id = None, cr_params = params\<rparr> sv"

text \<open>What its caller is answered once its outcome is published.\<close>

fun app_command_answer ::
  "string \<Rightarrow> ('c \<Rightarrow> json option) \<Rightarrow> ('m, 'c, 'n) sent \<Rightarrow> rpc_failure + json modified"
where
  "app_command_answer command enc sent =
     (case st_publication sent of
        RanPub _ _ (Inr rc) \<Rightarrow>
          map_sum id (\<lambda>v. \<lparr>md_result = v, md_modification = rc_modification rc\<rparr>)
            (rpc_encoded (enc (rc_result rc)) Command command)
      | RanPub _ _ (Inl failure) \<Rightarrow> Inl failure
      | _ \<Rightarrow> Inl (command_refusal InternalError command))"

end
