(* ===== verification/Ledger.thy ===== *)
theory Ledger
  imports Registry
begin

text \<open>
  What the transport promises of commands and of its shutdown, apart from what connections are sent: an
  abstract account of the numbered publications, the commands that run and the commands each connection
  still has to answer. \<open>Sockets\<close> refines it (theory \<open>Answering\<close>).

  Entry \<open>k\<close> of the ledger is the publication numbered \<open>k + 1\<close>. A desk is a connection: the number of the
  last publication it took, the tickets it has to answer, the tickets whose outcome is published but not
  answered, with the outcome's number, the last ticket it issued and, while it catches up, the number it
  skips through.
\<close>

datatype entry = Other | Outcome u64 u64 | Last

datatype stage = Works | Back | Out

record desk =
  dk_taken :: nat
  dk_waiting :: "u64 set"
  dk_ready :: "u64 \<Rightarrow> nat option"
  dk_issued :: u64
  dk_skipping :: "nat option"

record ledger =
  lg_entries :: "entry list"
  lg_desks :: "u64 \<Rightarrow> desk option"
  lg_next :: u64
  lg_jobs :: "(u64 \<times> u64 \<times> stage) list"
  lg_free :: nat
  lg_stopping :: bool
  lg_closer :: bool
  lg_running :: nat
  lg_serving :: nat
  lg_closed_at :: "nat option"

definition ledger_new :: "nat \<Rightarrow> ledger" where
  "ledger_new limit =
     \<lparr>lg_entries = [], lg_desks = Map.empty, lg_next = 1, lg_jobs = [], lg_free = limit,
      lg_stopping = False, lg_closer = False, lg_running = 0, lg_serving = 0, lg_closed_at = None\<rparr>"

definition desk_new :: "nat \<Rightarrow> desk" where
  "desk_new p = \<lparr>dk_taken = p, dk_waiting = {}, dk_ready = Map.empty, dk_issued = 0, dk_skipping = None\<rparr>"

definition put_desk :: "u64 \<Rightarrow> desk \<Rightarrow> ledger \<Rightarrow> ledger" where
  "put_desk i d L = L\<lparr>lg_desks := (lg_desks L)(i \<mapsto> d)\<rparr>"

definition drop_desk :: "u64 \<Rightarrow> ledger \<Rightarrow> ledger" where
  "drop_desk i L = L\<lparr>lg_desks := (lg_desks L)(i := None), lg_serving := lg_serving L - 1\<rparr>"

fun desk_takes :: "u64 \<Rightarrow> entry \<Rightarrow> desk \<Rightarrow> desk" where
  "desk_takes i (Outcome j t) d =
     (if j = i then d\<lparr>dk_taken := Suc (dk_taken d), dk_waiting := dk_waiting d - {t},
        dk_ready := (dk_ready d)(t := None)\<rparr>
      else d\<lparr>dk_taken := Suc (dk_taken d)\<rparr>)"
| "desk_takes i _ d = d\<lparr>dk_taken := Suc (dk_taken d)\<rparr>"

text \<open>The outcomes numbered up to \<open>m\<close>, which a desk that skips through \<open>m\<close> answers at once.\<close>

definition skipped_tickets :: "nat \<Rightarrow> desk \<Rightarrow> u64 set" where
  "skipped_tickets m d = {t. \<exists>k. dk_ready d t = Some k \<and> k \<le> m}"

definition desk_catches_up :: "nat \<Rightarrow> desk \<Rightarrow> desk" where
  "desk_catches_up m d = d\<lparr>dk_waiting := dk_waiting d - skipped_tickets m d,
     dk_ready := (\<lambda>t. if t \<in> skipped_tickets m d then None else dk_ready d t), dk_skipping := None\<rparr>"

definition hand_to_desk :: "u64 \<Rightarrow> u64 \<Rightarrow> nat \<Rightarrow> ledger \<Rightarrow> ledger" where
  "hand_to_desk i t k L =
     (case lg_desks L i of
        None \<Rightarrow> L
      | Some d \<Rightarrow> put_desk i (d\<lparr>dk_ready := (dk_ready d)(t \<mapsto> k)\<rparr>) L)"

inductive ledger_step :: "ledger \<Rightarrow> ledger \<Rightarrow> bool" where
  adds: "ledger_step L (L\<lparr>lg_entries := lg_entries L @ [Other]\<rparr>)"
| admits: "\<not> lg_stopping L \<Longrightarrow> p \<le> length (lg_entries L) \<Longrightarrow> lg_next L \<noteq> - 1 \<Longrightarrow>
    ledger_step L (put_desk (lg_next L) (desk_new p)
      (L\<lparr>lg_next := lg_next L + 1, lg_serving := lg_serving L + 1\<rparr>))"
| starts: "lg_desks L i = Some d \<Longrightarrow> \<not> lg_stopping L \<Longrightarrow> lg_free L \<noteq> 0 \<Longrightarrow> dk_issued d \<noteq> - 1 \<Longrightarrow>
    ledger_step L (put_desk i (d\<lparr>dk_issued := dk_issued d + 1, dk_waiting := insert (dk_issued d + 1) (dk_waiting d)\<rparr>)
      (L\<lparr>lg_jobs := lg_jobs L @ [(i, dk_issued d + 1, Works)], lg_running := lg_running L + 1,
         lg_free := lg_free L - 1\<rparr>))"
| refuses: "lg_desks L i = Some d \<Longrightarrow> dk_issued d \<noteq> - 1 \<Longrightarrow>
    ledger_step L (put_desk i (d\<lparr>dk_issued := dk_issued d + 1\<rparr>) L)"
| starts_unanswered: "\<not> lg_stopping L \<Longrightarrow> lg_free L \<noteq> 0 \<Longrightarrow>
    ledger_step L (L\<lparr>lg_jobs := lg_jobs L @ [(0, 0, Works)], lg_running := lg_running L + 1,
      lg_free := lg_free L - 1\<rparr>)"
| takes: "lg_desks L i = Some d \<Longrightarrow> dk_skipping d = None \<Longrightarrow> dk_taken d < length (lg_entries L) \<Longrightarrow>
    lg_entries L ! dk_taken d \<noteq> Last \<Longrightarrow>
    ledger_step L (put_desk i (desk_takes i (lg_entries L ! dk_taken d) d) L)"
| leaves: "lg_desks L i = Some d \<Longrightarrow> ledger_step L (drop_desk i L)"
| falls_behind: "lg_desks L i = Some d \<Longrightarrow> dk_skipping d = None \<Longrightarrow>
    ledger_step L (put_desk i (d\<lparr>dk_taken := length (lg_entries L),
      dk_skipping := Some (length (lg_entries L))\<rparr>) L)"
| catches_up: "lg_desks L i = Some d \<Longrightarrow> dk_skipping d = Some m \<Longrightarrow>
    ledger_step L (put_desk i (desk_catches_up m d) L)"
| returns: "lg_jobs L = js @ (i, t, Works) # ks \<Longrightarrow>
    ledger_step L (L\<lparr>lg_jobs := js @ (i, t, Back) # ks, lg_free := lg_free L + 1\<rparr>)"
| publishes: "lg_jobs L = js @ (i, t, Back) # ks \<Longrightarrow>
    ledger_step L (hand_to_desk i t (Suc (length (lg_entries L)))
      (L\<lparr>lg_jobs := js @ (i, t, Out) # ks, lg_entries := lg_entries L @ [Outcome i t]\<rparr>))"
| finishes: "lg_jobs L = js @ (i, t, Out) # ks \<Longrightarrow>
    ledger_step L (L\<lparr>lg_jobs := js @ ks, lg_running := lg_running L - 1\<rparr>)"
| stops: "\<not> lg_stopping L \<Longrightarrow> ledger_step L (L\<lparr>lg_stopping := True, lg_closer := True\<rparr>)"
| closes: "lg_closer L \<Longrightarrow> lg_running L = 0 \<Longrightarrow>
    ledger_step L (L\<lparr>lg_closer := False, lg_entries := lg_entries L @ [Last],
      lg_closed_at := Some (Suc (length (lg_entries L)))\<rparr>)"

section \<open>What every step keeps\<close>

text \<open>The commands not yet published, of the connections.\<close>

definition pending :: "(u64 \<times> u64 \<times> stage) list \<Rightarrow> (u64 \<times> u64) list" where
  "pending jobs = map (\<lambda>(i, t, _). (i, t)) (filter (\<lambda>(i, t, s). s \<noteq> Out \<and> i \<noteq> 0) jobs)"

fun outcome_of :: "entry \<Rightarrow> (u64 \<times> u64) list" where
  "outcome_of (Outcome i t) = (if i \<noteq> 0 then [(i, t)] else [])"
| "outcome_of _ = []"

definition outcomes :: "entry list \<Rightarrow> (u64 \<times> u64) list" where
  "outcomes es = concat (map outcome_of es)"

text \<open>Numbers: no ticket is issued twice, none has two outcomes.\<close>

definition seen :: "ledger \<Rightarrow> (u64 \<times> u64) set" where
  "seen L = set (pending (lg_jobs L)) \<union> set (outcomes (lg_entries L))"

definition numbers_ok :: "ledger \<Rightarrow> bool" where
  "numbers_ok L \<longleftrightarrow>
     lg_next L \<noteq> 0
     \<and> (\<forall>i d. lg_desks L i = Some d \<longrightarrow> i \<noteq> 0 \<and> i < lg_next L)
     \<and> distinct (pending (lg_jobs L) @ outcomes (lg_entries L))
     \<and> (\<forall>i t. (i, t) \<in> seen L \<longrightarrow> i < lg_next L)
     \<and> (\<forall>i t d. (i, t) \<in> seen L \<longrightarrow> lg_desks L i = Some d \<longrightarrow> t \<le> dk_issued d)"

text \<open>Desks: what a connection has to answer is what is still pending or ready, and what is ready is ahead.\<close>

definition desk_ok :: "ledger \<Rightarrow> u64 \<Rightarrow> desk \<Rightarrow> bool" where
  "desk_ok L i d \<longleftrightarrow>
     dk_taken d \<le> length (lg_entries L)
     \<and> (\<forall>m. dk_skipping d = Some m \<longrightarrow> m \<le> dk_taken d)
     \<and> (\<forall>t. t \<in> dk_waiting d \<longleftrightarrow> (i, t) \<in> set (pending (lg_jobs L)) \<or> dk_ready d t \<noteq> None)
     \<and> (\<forall>t k. dk_ready d t = Some k \<longrightarrow> 0 < k \<and> k \<le> length (lg_entries L) \<and> lg_entries L ! (k - 1) = Outcome i t
          \<and> (dk_taken d < k \<or> (\<exists>m. dk_skipping d = Some m \<and> k \<le> m)))
     \<and> (\<forall>t k. dk_taken d \<le> k \<and> k < length (lg_entries L) \<and> lg_entries L ! k = Outcome i t \<longrightarrow>
          dk_ready d t = Some (Suc k))"

definition desks_ok :: "ledger \<Rightarrow> bool" where
  "desks_ok L \<longleftrightarrow> (\<forall>i d. lg_desks L i = Some d \<longrightarrow> desk_ok L i d)"

text \<open>Counts.\<close>

definition working :: "ledger \<Rightarrow> nat" where
  "working L = length (filter (\<lambda>(_, _, s). s = Works) (lg_jobs L))"

definition counts_ok :: "nat \<Rightarrow> ledger \<Rightarrow> bool" where
  "counts_ok limit L \<longleftrightarrow>
     lg_running L = length (lg_jobs L) \<and> lg_free L + working L = limit
     \<and> finite (dom (lg_desks L)) \<and> lg_serving L = card (dom (lg_desks L))"

text \<open>Shutdown: the closing is published once, after everything that ran.\<close>

definition closing_ok :: "ledger \<Rightarrow> bool" where
  "closing_ok L \<longleftrightarrow>
     (case lg_closed_at L of
        None \<Rightarrow> Last \<notin> set (lg_entries L) \<and> (lg_stopping L \<longleftrightarrow> lg_closer L)
      | Some k \<Rightarrow> lg_stopping L \<and> \<not> lg_closer L \<and> lg_jobs L = []
          \<and> 0 < k \<and> k \<le> length (lg_entries L) \<and> lg_entries L ! (k - 1) = Last
          \<and> (\<forall>j. k \<le> j \<and> j < length (lg_entries L) \<longrightarrow> lg_entries L ! j = Other)
          \<and> (\<forall>j < k - 1. lg_entries L ! j \<noteq> Last))"

subsection \<open>Counts and shutdown\<close>

lemma put_desk_simps [simp]:
  "lg_entries (put_desk i d L) = lg_entries L" "lg_jobs (put_desk i d L) = lg_jobs L"
  "lg_next (put_desk i d L) = lg_next L" "lg_desks (put_desk i d L) = (lg_desks L)(i \<mapsto> d)"
  "lg_free (put_desk i d L) = lg_free L" "lg_running (put_desk i d L) = lg_running L"
  "lg_serving (put_desk i d L) = lg_serving L" "lg_stopping (put_desk i d L) = lg_stopping L"
  "lg_closer (put_desk i d L) = lg_closer L" "lg_closed_at (put_desk i d L) = lg_closed_at L"
  by (simp_all add: put_desk_def)

lemma hand_to_desk_simps [simp]:
  "lg_entries (hand_to_desk i t k L) = lg_entries L" "lg_jobs (hand_to_desk i t k L) = lg_jobs L"
  "lg_next (hand_to_desk i t k L) = lg_next L" "dom (lg_desks (hand_to_desk i t k L)) = dom (lg_desks L)"
  "lg_free (hand_to_desk i t k L) = lg_free L" "lg_running (hand_to_desk i t k L) = lg_running L"
  "lg_serving (hand_to_desk i t k L) = lg_serving L" "lg_stopping (hand_to_desk i t k L) = lg_stopping L"
  "lg_closer (hand_to_desk i t k L) = lg_closer L" "lg_closed_at (hand_to_desk i t k L) = lg_closed_at L"
  by (auto simp: hand_to_desk_def split: option.splits)

lemma drop_desk_simps [simp]:
  "lg_entries (drop_desk i L) = lg_entries L" "lg_jobs (drop_desk i L) = lg_jobs L"
  "lg_next (drop_desk i L) = lg_next L" "lg_desks (drop_desk i L) = (lg_desks L)(i := None)"
  "lg_free (drop_desk i L) = lg_free L" "lg_running (drop_desk i L) = lg_running L"
  "lg_serving (drop_desk i L) = lg_serving L - 1" "lg_stopping (drop_desk i L) = lg_stopping L"
  "lg_closer (drop_desk i L) = lg_closer L" "lg_closed_at (drop_desk i L) = lg_closed_at L"
  by (simp_all add: drop_desk_def)

lemma desk_known: "lg_desks L i = Some d \<Longrightarrow> insert i (dom (lg_desks L)) = dom (lg_desks L)"
  by (auto simp: insert_absorb)

lemma counts_step:
  assumes "ledger_step L L'" and "counts_ok limit L" and "numbers_ok L"
  shows "counts_ok limit L'"
  using assms(1)
proof (cases rule: ledger_step.cases)
  case (admits p)
  have "lg_next L \<notin> dom (lg_desks L)" using assms(3) by (auto simp: numbers_ok_def)
  with admits assms(2) show ?thesis by (simp add: counts_ok_def working_def)
next
  case (leaves i d)
  then have "i \<in> dom (lg_desks L)" by blast
  with leaves assms(2) show ?thesis by (simp add: counts_ok_def working_def card_Diff_singleton)
qed (use assms(2) in \<open>auto simp: counts_ok_def working_def desk_known\<close>)

lemma closing_step:
  assumes "ledger_step L L'" and "closing_ok L" and "counts_ok limit L"
  shows "closing_ok L'"
  using assms(1)
proof (cases rule: ledger_step.cases)
  case adds
  then show ?thesis using assms(2)
    by (auto simp: closing_ok_def nth_append split: option.splits)
next
  case (publishes js i t ks)
  then show ?thesis using assms(2) by (auto simp: closing_ok_def split: option.splits)
next
  case closes
  then have "lg_jobs L = []" using assms(3) by (simp add: counts_ok_def)
  with closes assms(2) show ?thesis
    by (auto simp: closing_ok_def nth_append in_set_conv_nth split: option.splits)
qed (use assms(2) in \<open>auto simp: closing_ok_def split: option.splits\<close>)

subsection \<open>Numbers\<close>

lemma outcomes_append [simp]: "outcomes (xs @ ys) = outcomes xs @ outcomes ys"
  by (simp add: outcomes_def)

lemma outcomes_single [simp]: "outcomes [e] = outcome_of e" "outcomes [] = []"
  by (simp_all add: outcomes_def)

lemma outcomes_iff: "(i, t) \<in> set (outcomes es) \<longleftrightarrow> i \<noteq> 0 \<and> Outcome i t \<in> set es"
proof -
  have "(i, t) \<in> set (outcome_of e) \<longleftrightarrow> i \<noteq> 0 \<and> e = Outcome i t" for e
    by (cases e) auto
  then show ?thesis by (auto simp: outcomes_def)
qed

lemma pending_simps [simp]:
  "pending [] = []" "pending (js @ ks) = pending js @ pending ks"
  "pending ((i, t, s) # js) = (if s \<noteq> Out \<and> i \<noteq> 0 then [(i, t)] else []) @ pending js"
  by (simp_all add: pending_def)

lemma desk_takes_issued [simp]: "dk_issued (desk_takes i e d) = dk_issued d"
  by (cases e) simp_all

lemma numbers_okD:
  assumes "numbers_ok L"
  shows "lg_next L \<noteq> 0" and "lg_desks L i = Some d \<Longrightarrow> i \<noteq> 0" and "lg_desks L i = Some d \<Longrightarrow> i < lg_next L"
    and "distinct (pending (lg_jobs L) @ outcomes (lg_entries L))"
    and "(i, t) \<in> seen L \<Longrightarrow> i < lg_next L" and "(i, t) \<in> seen L \<Longrightarrow> lg_desks L i = Some d \<Longrightarrow> t \<le> dk_issued d"
  using assms unfolding numbers_ok_def by blast+

text \<open>A step that shows no new ticket and issues no less than before.\<close>

lemma numbers_kept:
  assumes "numbers_ok L" and "lg_next L' = lg_next L" and "seen L' = seen L"
    and "distinct (pending (lg_jobs L') @ outcomes (lg_entries L'))"
    and "\<And>i d'. lg_desks L' i = Some d' \<Longrightarrow> \<exists>d. lg_desks L i = Some d \<and> dk_issued d \<le> dk_issued d'"
  shows "numbers_ok L'"
proof -
  have "i \<noteq> 0 \<and> i < lg_next L'" if "lg_desks L' i = Some d'" for i d'
    using assms(5)[OF that] numbers_okD(2,3)[OF assms(1)] assms(2) by auto
  moreover have "t \<le> dk_issued d'" if new: "(i, t) \<in> seen L'" and desk: "lg_desks L' i = Some d'" for i t d'
  proof -
    obtain d where "lg_desks L i = Some d" "dk_issued d \<le> dk_issued d'" using assms(5)[OF desk] by blast
    moreover have "(i, t) \<in> seen L" using new assms(3) by simp
    ultimately show ?thesis using numbers_okD(6)[OF assms(1)] order_trans by blast
  qed
  moreover have "i < lg_next L'" if "(i, t) \<in> seen L'" for i t
    using that assms(2,3) numbers_okD(5)[OF assms(1)] by simp
  ultimately show ?thesis
    using assms(2,4) numbers_okD(1)[OF assms(1)] unfolding numbers_ok_def by auto
qed

lemma numbers_desks:
  assumes "numbers_ok L" and "lg_next L' = lg_next L" and "lg_jobs L' = lg_jobs L"
    and "outcomes (lg_entries L') = outcomes (lg_entries L)"
    and "\<And>i d'. lg_desks L' i = Some d' \<Longrightarrow> \<exists>d. lg_desks L i = Some d \<and> dk_issued d \<le> dk_issued d'"
  shows "numbers_ok L'"
  using assms numbers_okD(4)[OF assms(1)] by (intro numbers_kept[OF assms(1)]) (auto simp: seen_def)

lemma numbers_step:
  assumes "ledger_step L L'" and ok: "numbers_ok L"
  shows "numbers_ok L'"
  using assms(1)
proof (cases rule: ledger_step.cases)
  case (admits p)
  have fresh: "lg_next L < lg_next L + 1" using admits by (simp add: succ_greater)
  have "seen L' = seen L" using admits by (simp add: seen_def)
  moreover have "(lg_next L, t) \<notin> seen L" for t using numbers_okD(5)[OF ok] by (meson less_irrefl)
  ultimately show ?thesis
    using admits fresh numbers_okD[OF ok]
    by (auto simp: numbers_ok_def intro: less_trans[OF _ fresh] split: if_splits)
next
  case (starts i d)
  have fresh: "dk_issued d < dk_issued d + 1" using starts by (simp add: succ_greater)
  have desk: "i \<noteq> 0" "i < lg_next L" using numbers_okD(2,3)[OF ok] starts by auto
  have new: "(i, dk_issued d + 1) \<notin> seen L" using numbers_okD(6)[OF ok] starts(2) fresh by (meson not_le)
  have seen: "seen L' = insert (i, dk_issued d + 1) (seen L)" using starts desk by (auto simp: seen_def)
  have "distinct (pending (lg_jobs L') @ outcomes (lg_entries L'))"
    using starts desk new numbers_okD(4)[OF ok] by (auto simp: seen_def)
  moreover have "t \<le> dk_issued d'" if "(j, t) \<in> seen L'" "lg_desks L' j = Some d'" for j t d'
  proof (cases "j = i")
    case True
    then have "t = dk_issued d + 1 \<or> t \<le> dk_issued d" using that(1) seen numbers_okD(6)[OF ok _ starts(2)] by auto
    with True that(2) starts fresh show ?thesis by (auto intro: order_trans[OF _ less_imp_le])
  next
    case False
    then show ?thesis using that starts seen numbers_okD(6)[OF ok] by auto
  qed
  moreover have "j < lg_next L'" if "(j, t) \<in> seen L'" for j t
    using that starts seen desk numbers_okD(5)[OF ok] by auto
  moreover have "j \<noteq> 0 \<and> j < lg_next L'" if "lg_desks L' j = Some d'" for j d'
    using that starts desk numbers_okD(2,3)[OF ok] by (auto split: if_splits)
  moreover have "lg_next L' \<noteq> 0" using starts numbers_okD(1)[OF ok] by simp
  ultimately show ?thesis unfolding numbers_ok_def by blast
next
  case (refuses i d)
  have "dk_issued d \<le> dk_issued d + 1" using refuses by (simp add: succ_greater less_imp_le)
  with refuses show ?thesis by (intro numbers_desks[OF ok]) (auto split: if_splits)
next
  case starts_unanswered
  then have "seen L' = seen L" by (simp add: seen_def)
  with starts_unanswered ok show ?thesis unfolding numbers_ok_def by simp
next
  case (returns js i t ks)
  then have "seen L' = seen L" by (auto simp: seen_def)
  with returns ok show ?thesis unfolding numbers_ok_def by simp
next
  case (publishes js i t ks)
  show ?thesis
  proof (rule numbers_kept[OF ok])
    show "lg_next L' = lg_next L" using publishes by simp
    show "seen L' = seen L" using publishes by (auto simp: seen_def)
    show "distinct (pending (lg_jobs L') @ outcomes (lg_entries L'))"
      using publishes numbers_okD(4)[OF ok] by (auto split: if_splits)
    show "\<exists>d. lg_desks L j = Some d \<and> dk_issued d \<le> dk_issued d'" if "lg_desks L' j = Some d'" for j d'
      using that publishes by (auto simp: hand_to_desk_def split: option.splits if_splits)
  qed
next
  case (finishes js i t ks)
  then have "seen L' = seen L" by (auto simp: seen_def)
  with finishes ok show ?thesis unfolding numbers_ok_def by simp
qed (auto intro!: numbers_desks[OF ok] simp: desk_catches_up_def split: if_splits)

subsection \<open>Desks\<close>

lemma desk_okD:
  assumes "desk_ok L i d"
  shows "dk_taken d \<le> length (lg_entries L)" and "dk_skipping d = Some m \<Longrightarrow> m \<le> dk_taken d"
    and "t \<in> dk_waiting d \<longleftrightarrow> (i, t) \<in> set (pending (lg_jobs L)) \<or> dk_ready d t \<noteq> None"
    and "dk_ready d t = Some k \<Longrightarrow> 0 < k \<and> k \<le> length (lg_entries L) \<and> lg_entries L ! (k - 1) = Outcome i t"
    and "dk_ready d t = Some k \<Longrightarrow> dk_taken d < k \<or> (\<exists>m. dk_skipping d = Some m \<and> k \<le> m)"
    and "dk_taken d \<le> n \<Longrightarrow> n < length (lg_entries L) \<Longrightarrow> lg_entries L ! n = Outcome i t \<Longrightarrow> dk_ready d t = Some (Suc n)"
  using assms unfolding desk_ok_def by blast+

text \<open>What is ready is not pending: it has its outcome.\<close>

lemma ready_not_pending:
  assumes "numbers_ok L" and "lg_desks L i = Some d" and "desk_ok L i d" and "dk_ready d t = Some k"
  shows "(i, t) \<notin> set (pending (lg_jobs L))"
proof -
  have "Outcome i t \<in> set (lg_entries L)"
    using desk_okD(4)[OF assms(3,4)] by (metis Suc_le_eq Suc_pred' nth_mem)
  then have "(i, t) \<in> set (outcomes (lg_entries L))" using numbers_okD(2)[OF assms(1,2)] by (simp add: outcomes_iff)
  then show ?thesis using numbers_okD(4)[OF assms(1)] by auto
qed

text \<open>A desk nothing happened to: other tickets may have come and gone, other publications been added.\<close>

lemma desk_ok_same:
  assumes "desk_ok L i d" and "\<And>t. (i, t) \<in> set (pending (lg_jobs L')) \<longleftrightarrow> (i, t) \<in> set (pending (lg_jobs L))"
    and "lg_entries L' = lg_entries L @ rest" and "\<And>t. Outcome i t \<notin> set rest"
  shows "desk_ok L' i d"
proof -
  have old: "n < length (lg_entries L)" if "n < length (lg_entries L')" "lg_entries L' ! n = Outcome i t" for n t
  proof (rule ccontr)
    assume "\<not> n < length (lg_entries L)"
    then have "lg_entries L' ! n \<in> set rest" using that(1) assms(3) by (auto simp: nth_append)
    then show False using that(2) assms(4) by simp
  qed
  have "dk_ready d t = Some (Suc n)"
    if "dk_taken d \<le> n" "n < length (lg_entries L')" "lg_entries L' ! n = Outcome i t" for n t
    using desk_okD(6)[OF assms(1) that(1) old[OF that(2,3)]] that assms(3) old[OF that(2,3)] by (simp add: nth_append)
  moreover have "0 < k \<and> k \<le> length (lg_entries L') \<and> lg_entries L' ! (k - 1) = Outcome i t"
    if "dk_ready d t = Some k" for t k
    using desk_okD(4)[OF assms(1) that] assms(3) by (auto simp: nth_append)
  ultimately show ?thesis
    using desk_okD(1,2,3,5)[OF assms(1)] assms(2,3) unfolding desk_ok_def by (simp add: le_trans[OF _ le_add1])
qed

lemma desk_takes_ok:
  assumes "numbers_ok L" and "lg_desks L i = Some d" and "desk_ok L i d" and "dk_skipping d = None"
    and "dk_taken d < length (lg_entries L)"
  shows "desk_ok L i (desk_takes i (lg_entries L ! dk_taken d) d)"
proof (cases "\<exists>t. lg_entries L ! dk_taken d = Outcome i t")
  case True
  then obtain t where t: "lg_entries L ! dk_taken d = Outcome i t" by blast
  have ready: "dk_ready d t = Some (Suc (dk_taken d))" using desk_okD(6)[OF assms(3) order_refl assms(5) t] .
  have ahead: "Suc (dk_taken d) < k" if "dk_ready d t' = Some k" "t' \<noteq> t" for t' k
    using desk_okD(4,5)[OF assms(3) that(1)] assms(4) t that(2) by (cases "k = Suc (dk_taken d)") auto
  have later: "lg_entries L ! n \<noteq> Outcome i t" if "Suc (dk_taken d) \<le> n" "n < length (lg_entries L)" for n
    using desk_okD(6)[OF assms(3), of n t] that ready by auto
  show ?thesis
    unfolding desk_ok_def t
    using assms(4,5) desk_okD(3,4)[OF assms(3)] desk_okD(6)[OF assms(3)] ahead later
      ready_not_pending[OF assms(1,2,3) ready]
    by auto
next
  case False
  then have same: "desk_takes i (lg_entries L ! dk_taken d) d = d\<lparr>dk_taken := Suc (dk_taken d)\<rparr>"
    by (cases "lg_entries L ! dk_taken d") auto
  have "Suc (dk_taken d) < k" if "dk_ready d t' = Some k" for t' k
    using desk_okD(4,5)[OF assms(3) that] assms(4) False by (cases "k = Suc (dk_taken d)") auto
  then show ?thesis
    unfolding same desk_ok_def using assms(4,5) desk_okD(3,4)[OF assms(3)] desk_okD(6)[OF assms(3)] by auto
qed

lemma desk_catches_up_ok:
  assumes "numbers_ok L" and "lg_desks L i = Some d" and "desk_ok L i d" and "dk_skipping d = Some m"
  shows "desk_ok L i (desk_catches_up m d)"
proof -
  have ahead: "dk_taken d < k" if "dk_ready d t = Some k" "t \<notin> skipped_tickets m d" for t k
    using desk_okD(5)[OF assms(3) that(1)] that assms(4) by (auto simp: skipped_tickets_def)
  have kept: "t \<notin> skipped_tickets m d" if "dk_taken d \<le> n" "dk_ready d t = Some (Suc n)" for t n
    using that desk_okD(2)[OF assms(3,4)] by (auto simp: skipped_tickets_def)
  have answered: "(i, t) \<notin> set (pending (lg_jobs L))" if "t \<in> skipped_tickets m d" for t
    using that ready_not_pending[OF assms(1,2,3)] by (auto simp: skipped_tickets_def)
  show ?thesis
    unfolding desk_ok_def desk_catches_up_def
    using desk_okD(1,3,4)[OF assms(3)] desk_okD(6)[OF assms(3)] ahead kept answered by auto
qed

lemma desks_okD: "desks_ok L \<Longrightarrow> lg_desks L i = Some d \<Longrightarrow> desk_ok L i d"
  by (simp add: desks_ok_def)

text \<open>Every desk but one is as it was, and that one is as it should be.\<close>

lemma desks_put:
  assumes "desks_ok L" and "lg_desks L' = (lg_desks L)(i \<mapsto> d)" and "desk_ok L' i d"
    and "\<And>j t. j \<noteq> i \<Longrightarrow> (j, t) \<in> set (pending (lg_jobs L')) \<longleftrightarrow> (j, t) \<in> set (pending (lg_jobs L))"
    and "lg_entries L' = lg_entries L @ rest" and "\<And>j t. j \<noteq> i \<Longrightarrow> Outcome j t \<notin> set rest"
  shows "desks_ok L'"
  unfolding desks_ok_def
proof (intro allI impI)
  fix j d' assume "lg_desks L' j = Some d'"
  then show "desk_ok L' j d'"
    using assms desk_ok_same[OF desks_okD[OF assms(1)], of j d' L' rest] by (cases "j = i") auto
qed

lemma desks_untouched:
  assumes "desks_ok L" and "\<And>i d. lg_desks L' i = Some d \<Longrightarrow> lg_desks L i = Some d"
    and "\<And>i d t. lg_desks L' i = Some d \<Longrightarrow>
      (i, t) \<in> set (pending (lg_jobs L')) \<longleftrightarrow> (i, t) \<in> set (pending (lg_jobs L))"
    and "lg_entries L' = lg_entries L @ rest" and "\<And>i d t. lg_desks L' i = Some d \<Longrightarrow> Outcome i t \<notin> set rest"
  shows "desks_ok L'"
  unfolding desks_ok_def
proof (intro allI impI)
  fix i d assume d: "lg_desks L' i = Some d"
  show "desk_ok L' i d"
    by (rule desk_ok_same[OF desks_okD[OF assms(1) assms(2)[OF d]] assms(3)[OF d] assms(4) assms(5)[OF d]])
qed

lemma desks_step:
  assumes "ledger_step L L'" and nums: "numbers_ok L" and ok: "desks_ok L"
  shows "desks_ok L'"
  using assms(1)
proof (cases rule: ledger_step.cases)
  case (admits p)
  have "(lg_next L, t) \<notin> seen L" for t using numbers_okD(5)[OF nums] by (meson less_irrefl)
  then have fresh: "(lg_next L, t) \<notin> set (pending (lg_jobs L))" "Outcome (lg_next L) t \<notin> set (lg_entries L)" for t
    using numbers_okD(1)[OF nums] by (auto simp: seen_def outcomes_iff)
  have "desk_ok L' (lg_next L) (desk_new p)"
    unfolding desk_ok_def desk_new_def using admits fresh by (auto simp: in_set_conv_nth)
  then show ?thesis using admits by (intro desks_put[OF ok, where rest = "[]"]) auto
next
  case (starts i d)
  have "desk_ok L i d" using ok starts by (simp add: desks_okD)
  then have "desk_ok L' i (d\<lparr>dk_issued := dk_issued d + 1, dk_waiting := insert (dk_issued d + 1) (dk_waiting d)\<rparr>)"
    using starts numbers_okD(2)[OF nums starts(2)] unfolding desk_ok_def by auto
  then show ?thesis using starts by (intro desks_put[OF ok, where rest = "[]"]) auto
next
  case (refuses i d)
  have "desk_ok L i d" using ok refuses by (simp add: desks_okD)
  then have "desk_ok L' i (d\<lparr>dk_issued := dk_issued d + 1\<rparr>)" using refuses unfolding desk_ok_def by auto
  then show ?thesis using refuses by (intro desks_put[OF ok, where rest = "[]"]) auto
next
  case (takes i d)
  have "desk_ok L i (desk_takes i (lg_entries L ! dk_taken d) d)"
    by (rule desk_takes_ok[OF nums takes(2) desks_okD[OF ok takes(2)] takes(3,4)])
  then have "desk_ok L' i (desk_takes i (lg_entries L ! dk_taken d) d)" using takes unfolding desk_ok_def by simp
  then show ?thesis using takes by (intro desks_put[OF ok, where rest = "[]"]) auto
next
  case (falls_behind i d)
  have d: "desk_ok L i d" using ok falls_behind by (simp add: desks_okD)
  have "desk_ok L' i (d\<lparr>dk_taken := length (lg_entries L), dk_skipping := Some (length (lg_entries L))\<rparr>)"
    unfolding desk_ok_def using falls_behind desk_okD(3,4)[OF d] by auto
  then show ?thesis using falls_behind by (intro desks_put[OF ok, where rest = "[]"]) auto
next
  case (catches_up i d m)
  have "desk_ok L i (desk_catches_up m d)"
    by (rule desk_catches_up_ok[OF nums catches_up(2) desks_okD[OF ok catches_up(2)] catches_up(3)])
  then have "desk_ok L' i (desk_catches_up m d)" using catches_up unfolding desk_ok_def by simp
  then show ?thesis using catches_up by (intro desks_put[OF ok, where rest = "[]"]) auto
next
  case (publishes js i t ks)
  show ?thesis
  proof (cases "lg_desks L i")
    case None
    show ?thesis
      by (rule desks_untouched[OF ok, where rest = "[Outcome i t]"])
        (use publishes None in \<open>auto simp: hand_to_desk_def\<close>)
  next
    case (Some d)
    let ?d = "d\<lparr>dk_ready := (dk_ready d)(t \<mapsto> Suc (length (lg_entries L)))\<rparr>"
    have i: "i \<noteq> 0" using numbers_okD(2)[OF nums Some] .
    have d: "desk_ok L i d" using ok Some by (simp add: desks_okD)
    have "(i, t) \<notin> set (outcomes (lg_entries L))" using publishes numbers_okD(4)[OF nums] i by auto
    then have new: "lg_entries L ! n \<noteq> Outcome i t" if "n < length (lg_entries L)" for n
      using that i by (metis nth_mem outcomes_iff)
    have gone: "(i, t) \<notin> set (pending (lg_jobs L'))" "(i, t) \<in> set (pending (lg_jobs L))"
      using publishes numbers_okD(4)[OF nums] i by auto
    have rest: "(i, t') \<in> set (pending (lg_jobs L')) \<longleftrightarrow> (i, t') \<in> set (pending (lg_jobs L))" if "t' \<noteq> t" for t'
      using publishes that by auto
    have old: "k - Suc 0 < length (lg_entries L)" "k \<le> Suc (length (lg_entries L))"
        "lg_entries L ! (k - Suc 0) = Outcome i t'" "0 < k" if "dk_ready d t' = Some k" for t' k
      using desk_okD(4)[OF d that] by auto
    have "desk_ok L' i ?d"
      unfolding desk_ok_def
      using publishes desk_okD(1,2,3,5,6)[OF d] new gone rest old
      by (auto simp: nth_append less_Suc_eq split: if_splits)
    then show ?thesis
      by (intro desks_put[OF ok, where i = i and d = ?d and rest = "[Outcome i t]"])
        (use publishes Some in \<open>auto simp: hand_to_desk_def\<close>)
  qed
qed (rule desks_untouched[OF ok], auto split: if_splits)+

section \<open>The account of every ledger\<close>

definition ledger_ok :: "nat \<Rightarrow> ledger \<Rightarrow> bool" where
  "ledger_ok limit L \<longleftrightarrow> numbers_ok L \<and> desks_ok L \<and> counts_ok limit L \<and> closing_ok L"

lemma ledger_new_ok: "ledger_ok limit (ledger_new limit)"
  by (simp add: ledger_ok_def ledger_new_def numbers_ok_def seen_def outcomes_def desks_ok_def counts_ok_def
      working_def closing_ok_def)

lemma ledger_step_ok: "ledger_step L L' \<Longrightarrow> ledger_ok limit L \<Longrightarrow> ledger_ok limit L'"
  unfolding ledger_ok_def using numbers_step desks_step counts_step closing_step by blast

lemma ledger_steps_ok: "ledger_step\<^sup>*\<^sup>* L L' \<Longrightarrow> ledger_ok limit L \<Longrightarrow> ledger_ok limit L'"
  by (induction rule: rtranclp_induct) (auto intro: ledger_step_ok)

text \<open>
  A desk whose next publication is the closing one, or that skipped past it, has answered everything: no
  command runs any more, and no outcome is left for it ahead.
\<close>

lemma closing_finds_nothing_ahead:
  assumes "ledger_ok limit L" and "lg_desks L i = Some d" and "lg_closed_at L = Some k"
    and "k \<le> Suc (dk_taken d)" and "dk_skipping d = None"
  shows "dk_waiting d = {}"
proof -
  have closing: "lg_jobs L = []" "0 < k" "lg_entries L ! (k - 1) = Last"
      "\<And>j. k \<le> j \<Longrightarrow> j < length (lg_entries L) \<Longrightarrow> lg_entries L ! j = Other"
    using assms(1,3) by (auto simp: ledger_ok_def closing_ok_def)
  have desk: "desk_ok L i d" using assms(1,2) by (simp add: ledger_ok_def desks_okD)
  have "dk_ready d t = None" for t
  proof (cases "dk_ready d t")
    case (Some n)
    then have n: "0 < n" "n \<le> length (lg_entries L)" "lg_entries L ! (n - 1) = Outcome i t" "k \<le> n"
      using desk_okD(4,5)[OF desk Some] assms(4,5) by auto
    then have "k = n \<or> lg_entries L ! (n - 1) = Other" using closing(4)[of "n - 1"] by fastforce
    with n closing(3) show ?thesis by auto
  qed
  then show ?thesis using desk_okD(3)[OF desk] closing(1) by (auto simp: set_eq_iff)
qed

end
