(* ===== verification/Answering.thy ===== *)
theory Answering
  imports Sockets Ledger
begin

text \<open>
  The server of \<open>Sockets\<close> over time, and its refinement of \<open>Ledger\<close>: whatever the server does, in
  whatever order, is a step of the ledger or leaves it as it is. So what the ledger promises holds of the
  server: no command is left unanswered on a connection that goes on, a lagging connection loses no answer, no
  more commands run than there are permits, and the shutdown closes a connection only after every answer.
\<close>

section \<open>What a server may do\<close>

text \<open>No number has run out.\<close>

definition server_roomy :: "('w, 's, 'p, 'd, 'm, 'c, 'n) server \<Rightarrow> bool" where
  "server_roomy sv \<longleftrightarrow> sv_last sv \<noteq> - 1 \<and> sv_next_connection sv \<noteq> - 1
     \<and> list_all (\<lambda>e. cn_tickets (snd e) \<noteq> - 1) (sv_connections sv)"

inductive server_step ::
  "('w, 's, 'p, 'd, 'm, 'c, 'n, rpc_failure) host \<Rightarrow> ('s, 'p) rpc_wire \<Rightarrow> nat \<Rightarrow>
   ('w, 's, 'p, 'd, 'm, 'c, 'n) server \<Rightarrow> ('w, 's, 'p, 'd, 'm, 'c, 'n) server \<Rightarrow> bool"
  for H F capacity
where
  admitted: "admit who position sv = Some sv' \<Longrightarrow> position \<le> length (sv_log sv) \<Longrightarrow>
    server_step H F capacity sv sv'"
| heard: "map_of (sv_connections sv) i = Some cn \<Longrightarrow> cn_skipping cn = None \<Longrightarrow>
    serve_text H F i panics txt cn sv = (cn', sv') \<Longrightarrow> server_step H F capacity sv (set_conn i cn' sv')"
| took: "map_of (sv_connections sv) i = Some cn \<Longrightarrow> cn_skipping cn = None \<Longrightarrow>
    broadcast_recv capacity (cn_position cn) (sv_log sv) = Got sent \<Longrightarrow>
    server_step H F capacity sv (serve_published H F i sent cn sv)"
| fell_behind: "map_of (sv_connections sv) i = Some cn \<Longrightarrow> cn_skipping cn = None \<Longrightarrow>
    broadcast_recv capacity (cn_position cn) (sv_log sv) = Lagged missed \<Longrightarrow>
    server_step H F capacity sv (set_conn i (fall_behind missed sv cn) sv)"
| caught_up: "map_of (sv_connections sv) i = Some cn \<Longrightarrow> cn_skipping cn = Some skipped_through \<Longrightarrow>
    server_step H F capacity sv (serve_caught_up H F i skipped_through cn sv)"
| ended: "map_of (sv_connections sv) i = Some cn \<Longrightarrow> server_step H F capacity sv (end_connection i sv)"
| returned: "n < length (sv_commands sv) \<Longrightarrow> ct_phase (sv_commands sv ! n) = Executing \<Longrightarrow>
    server_step H F capacity sv (command_returns H n panicked sv)"
| published: "n < length (sv_commands sv) \<Longrightarrow> ct_phase (sv_commands sv ! n) = Returned outcome \<Longrightarrow>
    server_step H F capacity sv (command_publishes n outcome sv)"
| finished: "n < length (sv_commands sv) \<Longrightarrow> ct_phase (sv_commands sv ! n) = Published \<Longrightarrow>
    server_step H F capacity sv (command_finishes n sv)"
| stopped: "server_step H F capacity sv (shut_down sv)"
| closed: "sv_closer sv \<Longrightarrow> sv_running sv = 0 \<Longrightarrow> server_step H F capacity sv (send_closing sv)"
| announced: "server_step H F capacity sv (publications_send (AnnouncedPub a) (\<lambda>_ sv. sv) sv)"
| stored: "server_step H F capacity sv (publications_send (StoredPub change) (\<lambda>_ sv. sv) sv)"
| mutated: "app_mutate H panicked who mutation params enc sv = (r, sv') \<Longrightarrow> server_step H F capacity sv sv'"
| commanded: "app_command who command params sv = (r, sv') \<Longrightarrow> server_step H F capacity sv sv'"
| host_changed: "server_step H F capacity sv (sv\<lparr>sv_host := w\<rparr>)"

definition server_runs ::
  "('w, 's, 'p, 'd, 'm, 'c, 'n, rpc_failure) host \<Rightarrow> ('s, 'p) rpc_wire \<Rightarrow> nat \<Rightarrow> nat \<Rightarrow>
   ('w, 's, 'p, 'd, 'm, 'c, 'n) server \<Rightarrow> bool"
where
  "server_runs H F capacity limit sv \<longleftrightarrow>
     (\<exists>w. (\<lambda>a b. server_roomy a \<and> server_step H F capacity a b)\<^sup>*\<^sup>* (server_new w limit) sv)"

section \<open>The ledger of a server\<close>

fun entry_of :: "('m, 'c, 'n) publication \<Rightarrow> entry" where
  "entry_of (RanPub i t _) = Outcome i t"
| "entry_of ClosingPub = Last"
| "entry_of _ = Other"

fun stage_of :: "'c phase \<Rightarrow> stage" where
  "stage_of Executing = Works"
| "stage_of (Returned _) = Back"
| "stage_of Published = Out"

definition desk_of :: "('s, 'p, 'd, 'm, 'c, 'n) conn \<Rightarrow> desk" where
  "desk_of cn =
     \<lparr>dk_taken = cn_position cn, dk_waiting = dom (map_of (cn_running cn)),
      dk_ready = (\<lambda>t. map_option (\<lambda>sent. unat (st_sequence sent)) (map_of (cn_ran cn) t)),
      dk_issued = cn_tickets cn, dk_skipping = map_option unat (cn_skipping cn)\<rparr>"

definition job_of :: "'c command_task \<Rightarrow> u64 \<times> u64 \<times> stage" where
  "job_of ct = (ct_origin ct, ct_ticket ct, stage_of (ct_phase ct))"

definition ledger_of :: "('w, 's, 'p, 'd, 'm, 'c, 'n) server \<Rightarrow> ledger" where
  "ledger_of sv =
     \<lparr>lg_entries = map (\<lambda>sent. entry_of (st_publication sent)) (sv_log sv),
      lg_desks = (\<lambda>i. map_option desk_of (map_of (sv_connections sv) i)),
      lg_next = sv_next_connection sv, lg_jobs = map job_of (sv_commands sv), lg_free = sv_permits sv,
      lg_stopping = sv_stopping sv, lg_closer = sv_closer sv, lg_running = sv_running sv,
      lg_serving = sv_serving sv,
      lg_closed_at = (if sv_closing_at sv = 0 then None else Some (unat (sv_closing_at sv)))\<rparr>"

text \<open>Publications are numbered from 1, and what waits under a ticket is that ticket's outcome.\<close>

definition ran_ok :: "('s, 'p, 'd, 'm, 'c, 'n) conn \<Rightarrow> bool" where
  "ran_ok cn \<longleftrightarrow> bmap_ok (cn_ran cn)
     \<and> (\<forall>t sent. map_of (cn_ran cn) t = Some sent \<longrightarrow> (\<exists>i outcome. st_publication sent = RanPub i t outcome))"

definition tidy :: "('w, 's, 'p, 'd, 'm, 'c, 'n) server \<Rightarrow> bool" where
  "tidy sv \<longleftrightarrow> unat (sv_last sv) = length (sv_log sv)
     \<and> (\<forall>i cn. map_of (sv_connections sv) i = Some cn \<longrightarrow> ran_ok cn)"

section \<open>Turns of a connection, on its desk\<close>

lemma on_connection_desk:
  assumes "on_connection t cn w = (r, cn', w')"
  shows "cn_position cn' = cn_position cn" "cn_running cn' = cn_running cn" "cn_ran cn' = cn_ran cn"
    "cn_tickets cn' = cn_tickets cn" "cn_skipping cn' = cn_skipping cn" "cn_principal cn' = cn_principal cn"
  using assms by (auto simp: on_connection_def split: prod.splits)

lemma emit_desk [simp]:
  "cn_position (emit fs cn) = cn_position cn" "cn_running (emit fs cn) = cn_running cn"
  "cn_ran (emit fs cn) = cn_ran cn" "cn_tickets (emit fs cn) = cn_tickets cn"
  "cn_skipping (emit fs cn) = cn_skipping cn" "cn_subs (emit fs cn) = cn_subs cn"
  "desk_of (emit fs cn) = desk_of cn" "ran_ok (emit fs cn) = ran_ok cn"
  by (simp_all add: emit_def desk_of_def ran_ok_def)

text \<open>Two connections that keep the same account.\<close>

definition same_desk :: "('s, 'p, 'd, 'm, 'c, 'n) conn \<Rightarrow> ('s, 'p, 'd, 'm, 'c, 'n) conn \<Rightarrow> bool" where
  "same_desk cn cn' \<longleftrightarrow> cn_position cn' = cn_position cn \<and> cn_running cn' = cn_running cn
     \<and> cn_ran cn' = cn_ran cn \<and> cn_tickets cn' = cn_tickets cn \<and> cn_skipping cn' = cn_skipping cn"

lemma same_deskD: "same_desk cn cn' \<Longrightarrow> desk_of cn' = desk_of cn \<and> ran_ok cn' = ran_ok cn"
  by (simp add: same_desk_def desk_of_def ran_ok_def)

lemma same_desk_turn: "on_connection t cn w = (r, cn', w') \<Longrightarrow> same_desk cn (emit fs cn')"
  using on_connection_desk by (fastforce simp: same_desk_def)

lemma take_desk:
  assumes "take_publication H F i sent cn w = (cn', w')" and "\<nexists>t outcome. st_publication sent = RanPub i t outcome"
  shows "same_desk cn cn'"
  using assms
  by (auto simp: take_publication_def same_desk_turn split: publication.splits prod.splits sum.splits if_splits)
    (simp_all add: same_desk_def)

lemma take_own_desk:
  assumes "take_publication H F i sent cn w = (cn', w')" and "st_publication sent = RanPub i t outcome"
  shows "same_desk (settle t cn) cn'"
  using assms
  by (auto simp: take_publication_def Let_def same_desk_turn split: prod.splits sum.splits)
    (simp_all add: same_desk_def)

lemma settle_desk [simp]:
  "desk_of (settle t cn) = (desk_of cn)\<lparr>dk_waiting := dk_waiting (desk_of cn) - {t},
     dk_ready := (dk_ready (desk_of cn))(t := None)\<rparr>"
  "ran_ok cn \<Longrightarrow> ran_ok (settle t cn)"
  by (auto simp: settle_def desk_of_def ran_ok_def fun_eq_iff split: if_splits)

text \<open>Answering what was skipped settles exactly the tickets whose outcomes are numbered up to there.\<close>

lemma answer_one_running:
  "st_publication sent = RanPub i t outcome \<Longrightarrow>
   cn_running (answer_one H F r sent cn) = bmap_remove t (cn_running cn)"
  by (simp add: Let_def)

lemma answer_one_frame:
  "cn_position (answer_one H F r sent cn) = cn_position cn" "cn_ran (answer_one H F r sent cn) = cn_ran cn"
  "cn_tickets (answer_one H F r sent cn) = cn_tickets cn" "cn_skipping (answer_one H F r sent cn) = cn_skipping cn"
  by (simp_all add: Let_def split: publication.splits)

declare answer_one.simps [simp del]

lemma answers_frame:
  "cn_position (fold (answer_one H F r) sents cn) = cn_position cn"
  "cn_ran (fold (answer_one H F r) sents cn) = cn_ran cn"
  "cn_tickets (fold (answer_one H F r) sents cn) = cn_tickets cn"
  "cn_skipping (fold (answer_one H F r) sents cn) = cn_skipping cn"
  by (induction sents arbitrary: cn) (simp_all add: answer_one_frame)

lemma answers_running:
  assumes "\<forall>sent \<in> set sents. \<exists>i t outcome. st_publication sent = RanPub i t outcome"
  shows "dom (map_of (cn_running (fold (answer_one H F r) sents cn)))
      = dom (map_of (cn_running cn)) - {t. \<exists>sent \<in> set sents. \<exists>i outcome. st_publication sent = RanPub i t outcome}"
  using assms
proof (induction sents arbitrary: cn)
  case (Cons sent sents)
  then obtain i t outcome where sent: "st_publication sent = RanPub i t outcome" by auto
  have "\<forall>sent \<in> set sents. \<exists>i t outcome. st_publication sent = RanPub i t outcome" using Cons.prems by simp
  note IH = Cons.IH[OF this, of "answer_one H F r sent cn"]
  show ?case
    unfolding fold.simps comp_def IH answer_one_running[OF sent] using sent by auto
qed simp

lemma map_of_filter_values:
  "distinct (map fst m) \<Longrightarrow>
   map_of (filter (\<lambda>e. P (snd e)) m) k = (case map_of m k of None \<Rightarrow> None | Some v \<Rightarrow> if P v then Some v else None)"
  by (induction m) (auto split: option.splits dest: map_of_SomeD intro!: map_of_eq_None_iff[THEN iffD2])

lemma bmap_ok_filter: "bmap_ok m \<Longrightarrow> bmap_ok (filter P m)"
  by (simp add: bmap_ok_def sorted_wrt_map sorted_wrt_filter)

lemma answer_skipped_desk:
  assumes "ran_ok cn"
  shows "desk_of ((answer_skipped H F m cn)\<lparr>cn_skipping := None\<rparr>) = desk_catches_up (unat m) (desk_of cn)"
    and "ran_ok ((answer_skipped H F m cn)\<lparr>cn_skipping := None\<rparr>)"
proof -
  let ?cn = "cn\<lparr>cn_ran := filter (\<lambda>e. \<not> st_sequence (snd e) \<le> m) (cn_ran cn)\<rparr>"
  let ?sents = "skipped_commands m cn"
  have dist: "distinct (map fst (cn_ran cn))" using assms by (auto simp: ran_ok_def dest: bmap_ok_distinct)
  have sents: "sent \<in> set ?sents \<longleftrightarrow> (\<exists>t. map_of (cn_ran cn) t = Some sent \<and> st_sequence sent \<le> m)" for sent
    using dist by (force simp: skipped_commands_def)
  have outcomes: "\<exists>i outcome. st_publication sent = RanPub i t outcome" if "map_of (cn_ran cn) t = Some sent" for t sent
    using assms that by (simp add: ran_ok_def)
  then have all: "\<forall>sent \<in> set ?sents. \<exists>i t outcome. st_publication sent = RanPub i t outcome"
    using sents by blast
  have tickets: "{t. \<exists>sent \<in> set ?sents. \<exists>i outcome. st_publication sent = RanPub i t outcome}
      = skipped_tickets (unat m) (desk_of cn)"
    unfolding skipped_tickets_def desk_of_def using sents outcomes
    by (fastforce simp: word_le_nat_alt)
  have kept: "map_of (filter (\<lambda>e. \<not> st_sequence (snd e) \<le> m) (cn_ran cn)) t
      = (if t \<in> skipped_tickets (unat m) (desk_of cn) then None else map_of (cn_ran cn) t)" for t
    using map_of_filter_values[OF dist, of "\<lambda>sent. \<not> st_sequence sent \<le> m"]
    by (auto simp: skipped_tickets_def desk_of_def word_le_nat_alt split: option.splits)
  note desk = answers_running[OF all, of H F "change_revision False (cn_subs cn)" ?cn]
    answers_frame[of H F "change_revision False (cn_subs cn)" ?sents ?cn]
  show "desk_of ((answer_skipped H F m cn)\<lparr>cn_skipping := None\<rparr>) = desk_catches_up (unat m) (desk_of cn)"
    using desk kept tickets
    by (simp add: answer_skipped_def Let_def desk_of_def desk_catches_up_def fun_eq_iff)
  show "ran_ok ((answer_skipped H F m cn)\<lparr>cn_skipping := None\<rparr>)"
    using desk(3) kept assms by (auto simp: answer_skipped_def Let_def ran_ok_def bmap_ok_filter split: if_splits)
qed

section \<open>Steps of the server, on its ledger\<close>

lemma ledger_of_simps [simp]:
  "lg_entries (ledger_of sv) = map (\<lambda>sent. entry_of (st_publication sent)) (sv_log sv)"
  "lg_desks (ledger_of sv) i = map_option desk_of (map_of (sv_connections sv) i)"
  "lg_next (ledger_of sv) = sv_next_connection sv" "lg_jobs (ledger_of sv) = map job_of (sv_commands sv)"
  "lg_free (ledger_of sv) = sv_permits sv" "lg_stopping (ledger_of sv) = sv_stopping sv"
  "lg_closer (ledger_of sv) = sv_closer sv" "lg_running (ledger_of sv) = sv_running sv"
  "lg_serving (ledger_of sv) = sv_serving sv"
  "lg_closed_at (ledger_of sv) = (if sv_closing_at sv = 0 then None else Some (unat (sv_closing_at sv)))"
  by (simp_all add: ledger_of_def)

lemma ledger_of_set_conn: "ledger_of (set_conn i cn sv) = put_desk i (desk_of cn) (ledger_of sv)"
  by (simp add: ledger_of_def set_conn_def put_desk_def fun_eq_iff)

lemma put_same_desk: "lg_desks L i = Some d \<Longrightarrow> put_desk i d L = L"
  by (simp add: put_desk_def fun_upd_idem)

lemma ledger_of_host [simp]: "ledger_of (sv\<lparr>sv_host := w\<rparr>) = ledger_of sv"
  by (simp add: ledger_of_def)

lemma set_conn_tidy: "tidy sv \<Longrightarrow> ran_ok cn \<Longrightarrow> tidy (set_conn i cn sv)"
  by (auto simp: tidy_def set_conn_def split: if_splits)

lemma tidy_host [simp]: "tidy (sv\<lparr>sv_host := w\<rparr>) = tidy sv"
  by (simp add: tidy_def)

lemma tidy_ran: "tidy sv \<Longrightarrow> map_of (sv_connections sv) i = Some cn \<Longrightarrow> ran_ok cn"
  by (simp add: tidy_def)

text \<open>Something published that the ledger does not tell apart.\<close>

lemma send_plain:
  assumes "tidy sv" and "sv_last sv \<noteq> - 1"
  shows "tidy (publications_send p (\<lambda>_ sv. sv) sv)"
    and "ledger_of (publications_send p (\<lambda>_ sv. sv) sv)
      = (ledger_of sv)\<lparr>lg_entries := lg_entries (ledger_of sv) @ [entry_of p]\<rparr>"
  using assms by (simp_all add: publications_send_def Let_def tidy_def unat_succ ledger_of_def)

lemma send_other:
  assumes "tidy sv" and "sv_last sv \<noteq> - 1" and "entry_of p = Other"
  shows "tidy (publications_send p (\<lambda>_ sv. sv) sv) \<and> ledger_step (ledger_of sv) (ledger_of (publications_send p (\<lambda>_ sv. sv) sv))"
  using send_plain[OF assms(1,2), of p] assms(3) ledger_step.adds[of "ledger_of sv"] by simp

definition simulated :: "('w, 's, 'p, 'd, 'm, 'c, 'n) server \<Rightarrow> ('w, 's, 'p, 'd, 'm, 'c, 'n) server \<Rightarrow> bool" where
  "simulated sv sv' \<longleftrightarrow> tidy sv' \<and> ledger_step\<^sup>*\<^sup>* (ledger_of sv) (ledger_of sv')"

lemma simulated_stutter: "tidy sv' \<Longrightarrow> ledger_of sv' = ledger_of sv \<Longrightarrow> simulated sv sv'"
  by (simp add: simulated_def)

lemma simulated_step: "tidy sv' \<Longrightarrow> ledger_step (ledger_of sv) (ledger_of sv') \<Longrightarrow> simulated sv sv'"
  by (simp add: simulated_def r_into_rtranclp)

lemma simulated_trans: "simulated sv sv' \<Longrightarrow> simulated sv' sv'' \<Longrightarrow> simulated sv sv''"
  unfolding simulated_def by (meson rtranclp_trans)

lemma simulated_same_desk:
  assumes "tidy sv" and "map_of (sv_connections sv) i = Some cn" and "same_desk cn cn'"
  shows "simulated sv (set_conn i cn' sv)"
proof (rule simulated_stutter)
  show "tidy (set_conn i cn' sv)"
    using same_deskD[OF assms(3)] tidy_ran[OF assms(1,2)] by (simp add: set_conn_tidy assms(1))
  show "ledger_of (set_conn i cn' sv) = ledger_of sv"
    using same_deskD[OF assms(3)] assms(2) by (simp add: ledger_of_set_conn put_same_desk)
qed

lemma simulate_admit:
  assumes "tidy sv" and "server_roomy sv" and "admit who position sv = Some sv'" and "position \<le> length (sv_log sv)"
  shows "simulated sv sv'"
proof (rule simulated_step)
  have new: "desk_of (conn_new who position) = desk_new position"
    by (simp add: conn_new_def desk_of_def desk_new_def fun_eq_iff)
  have "ran_ok (conn_new who position)" by (simp add: ran_ok_def conn_new_def)
  then show "tidy sv'"
    using assms by (auto simp: admit_def split: if_splits intro!: set_conn_tidy) (simp add: tidy_def)
  have "ledger_of sv' = put_desk (lg_next (ledger_of sv)) (desk_new position)
      ((ledger_of sv)\<lparr>lg_next := lg_next (ledger_of sv) + 1, lg_serving := lg_serving (ledger_of sv) + 1\<rparr>)"
    using assms(3) by (auto simp: admit_def ledger_of_set_conn new split: if_splits) (simp add: ledger_of_def)
  moreover have "\<not> sv_stopping sv" using assms(3) by (simp add: admit_def split: if_splits)
  ultimately show "ledger_step (ledger_of sv) (ledger_of sv')"
    using assms(2,4) ledger_step.admits[of "ledger_of sv" position] by (simp add: server_roomy_def)
qed

lemma simulate_take:
  assumes "tidy sv" and "map_of (sv_connections sv) i = Some cn" and "cn_skipping cn = None"
    and "broadcast_recv capacity (cn_position cn) (sv_log sv) = Got sent"
  shows "simulated sv (serve_published H F i sent cn sv)"
proof -
  let ?L = "ledger_of sv" and ?cn = "cn\<lparr>cn_position := cn_position cn + 1\<rparr>"
  have at: "cn_position cn < length (sv_log sv)" "sent = sv_log sv ! cn_position cn"
    using assms(4) by (auto simp: broadcast_recv_def split: if_splits)
  have desk: "lg_desks ?L i = Some (desk_of cn)" using assms(2) by simp
  show ?thesis
  proof (cases "st_publication sent = ClosingPub")
    case True
    have "ledger_of (end_connection i sv) = drop_desk i ?L"
      by (simp add: ledger_of_def end_connection_def drop_desk_def fun_eq_iff)
    moreover have "tidy (end_connection i sv)" using assms(1) by (auto simp: tidy_def end_connection_def split: if_splits)
    ultimately show ?thesis
      using True ledger_step.leaves[OF desk] by (simp add: serve_published_def simulated_step)
  next
    case False
    obtain cn' w' where took: "take_publication H F i sent ?cn (sv_host sv) = (cn', w')" by fastforce
    have ran: "ran_ok ?cn" using tidy_ran[OF assms(1,2)] by (simp add: ran_ok_def)
    have "desk_of cn' = desk_takes i (lg_entries ?L ! dk_taken (desk_of cn)) (desk_of cn) \<and> ran_ok cn'"
    proof (cases "\<exists>t outcome. st_publication sent = RanPub i t outcome")
      case True
      then obtain t outcome where p: "st_publication sent = RanPub i t outcome" by blast
      from same_deskD[OF take_own_desk[OF took p]] ran
      have "desk_of cn' = desk_of (settle t ?cn)" "ran_ok cn'" by auto
      then show ?thesis using p at by (auto simp: desk_of_def settle_def fun_eq_iff)
    next
      case False
      from same_deskD[OF take_desk[OF took False]] ran
      have "desk_of cn' = desk_of ?cn" "ran_ok cn'" by auto
      moreover have "lg_entries ?L ! cn_position cn \<noteq> Outcome i t" for t
        using False at by (cases "st_publication sent") auto
      then have "desk_takes i (lg_entries ?L ! cn_position cn) (desk_of cn) = (desk_of cn)\<lparr>dk_taken := Suc (cn_position cn)\<rparr>"
        by (cases "lg_entries ?L ! cn_position cn") (auto simp: desk_of_def)
      ultimately show ?thesis by (simp add: desk_of_def)
    qed
    note new = this
    have "lg_entries ?L ! dk_taken (desk_of cn) \<noteq> Last"
      using False at by (cases "st_publication sent") (auto simp: desk_of_def)
    then have "ledger_step ?L (put_desk i (desk_of cn') ?L)"
      using ledger_step.takes[OF desk] new assms(3) at by (simp add: desk_of_def)
    moreover have "serve_published H F i sent cn sv = set_conn i cn' (sv\<lparr>sv_host := w'\<rparr>)"
      using False took by (simp add: serve_published_def)
    ultimately show ?thesis
      using new assms(1) by (simp add: simulated_step set_conn_tidy ledger_of_set_conn)
  qed
qed

lemma simulate_end:
  assumes "tidy sv" and "map_of (sv_connections sv) i = Some cn"
  shows "simulated sv (end_connection i sv)"
proof (rule simulated_step)
  show "tidy (end_connection i sv)" using assms(1) by (auto simp: tidy_def end_connection_def split: if_splits)
  have "ledger_of (end_connection i sv) = drop_desk i (ledger_of sv)"
    by (simp add: ledger_of_def end_connection_def drop_desk_def fun_eq_iff)
  then show "ledger_step (ledger_of sv) (ledger_of (end_connection i sv))"
    using ledger_step.leaves[of "ledger_of sv" i "desk_of cn"] assms(2) by simp
qed

lemma simulate_fall_behind:
  assumes "tidy sv" and "map_of (sv_connections sv) i = Some cn" and "cn_skipping cn = None"
  shows "simulated sv (set_conn i (fall_behind missed sv cn) sv)"
proof (rule simulated_step)
  have "ran_ok (fall_behind missed sv cn)"
    using tidy_ran[OF assms(1,2)] by (simp add: fall_behind_def publications_subscribe_def ran_ok_def)
  then show "tidy (set_conn i (fall_behind missed sv cn) sv)" using assms(1) by (rule set_conn_tidy[rotated])
  have "desk_of (fall_behind missed sv cn) = (desk_of cn)\<lparr>dk_taken := length (lg_entries (ledger_of sv)),
      dk_skipping := Some (length (lg_entries (ledger_of sv)))\<rparr>"
    using assms(1) by (simp add: fall_behind_def publications_subscribe_def desk_of_def tidy_def)
  moreover have "dk_skipping (desk_of cn) = None" using assms(3) by (simp add: desk_of_def)
  ultimately show "ledger_step (ledger_of sv) (ledger_of (set_conn i (fall_behind missed sv cn) sv))"
    using ledger_step.falls_behind[of "ledger_of sv" i "desk_of cn"] assms(2) by (simp add: ledger_of_set_conn)
qed

lemma simulate_catch_up:
  assumes "tidy sv" and "map_of (sv_connections sv) i = Some cn" and "cn_skipping cn = Some m"
  shows "simulated sv (serve_caught_up H F i m cn sv)"
proof -
  obtain events cn0 w' where turn: "on_connection (resync_all H ''broadcastLag'') cn (sv_host sv) = (events, cn0, w')"
    by (metis prod_cases3)
  let ?before = "emit (notifications F events) cn0"
  let ?cn = "(answer_skipped H F m ?before)\<lparr>cn_skipping := None\<rparr>"
  let ?sv = "set_conn i ?cn (sv\<lparr>sv_host := w'\<rparr>)"
  have caught: "catch_up H F m cn (sv_host sv) = (?cn, w')" using turn by (simp add: catch_up_def)
  have same: "desk_of ?before = desk_of cn" "ran_ok ?before"
    using same_deskD[OF same_desk_turn[OF turn, of "notifications F events"]] tidy_ran[OF assms(1,2)] by auto
  note desk = answer_skipped_desk[OF same(2), of H F m]
  have "dk_skipping (desk_of cn) = Some (unat m)" using assms(3) by (simp add: desk_of_def)
  then have "ledger_step (ledger_of sv) (put_desk i (desk_of ?cn) (ledger_of sv))"
    using ledger_step.catches_up[of "ledger_of sv" i "desk_of cn" "unat m"] assms(2) desk(1) same(1) by simp
  then have step: "simulated sv ?sv"
    using desk(2) assms(1) by (intro simulated_step) (simp_all add: set_conn_tidy ledger_of_set_conn)
  show ?thesis
  proof (cases "closing_skipped m sv")
    case True
    have "simulated ?sv (end_connection i ?sv)"
      by (rule simulate_end[where cn = ?cn]) (use step in \<open>simp_all add: simulated_def set_conn_def\<close>)
    with step True caught show ?thesis
      by (simp add: serve_caught_up_def Let_def) (rule simulated_trans)
  next
    case False
    with step caught show ?thesis by (simp add: serve_caught_up_def Let_def)
  qed
qed

lemma split_at: "n < length xs \<Longrightarrow> xs = take n xs @ xs ! n # drop (Suc n) xs"
  by (rule id_take_nth_drop)

lemma update_at: "n < length xs \<Longrightarrow> xs[n := x] = take n xs @ x # drop (Suc n) xs"
  by (rule upd_conv_take_nth_drop)

lemma simulate_return:
  assumes "tidy sv" and "n < length (sv_commands sv)" and "ct_phase (sv_commands sv ! n) = Executing"
  shows "simulated sv (command_returns H n panicked sv)"
proof (rule simulated_step)
  let ?ct = "sv_commands sv ! n"
  obtain outcome w' where out: "command_outcome H ?ct panicked (sv_host sv) = (outcome, w')" by fastforce
  show "tidy (command_returns H n panicked sv)" using assms(1) out by (simp add: command_returns_def tidy_def)
  have jobs: "lg_jobs (ledger_of sv) = map job_of (take n (sv_commands sv)) @ (ct_origin ?ct, ct_ticket ?ct, Works)
      # map job_of (drop (Suc n) (sv_commands sv))"
    using arg_cong[OF split_at[OF assms(2)], of "map job_of"] assms(3) by (simp add: job_of_def)
  have "ledger_of (command_returns H n panicked sv) = (ledger_of sv)
      \<lparr>lg_jobs := map job_of (take n (sv_commands sv)) @ (ct_origin ?ct, ct_ticket ?ct, Back)
         # map job_of (drop (Suc n) (sv_commands sv)), lg_free := lg_free (ledger_of sv) + 1\<rparr>"
    using assms(2) out by (simp add: command_returns_def ledger_of_def update_at job_of_def)
  then show "ledger_step (ledger_of sv) (ledger_of (command_returns H n panicked sv))"
    using ledger_step.returns[OF jobs] by simp
qed

lemma simulate_publish:
  assumes "tidy sv" and "server_roomy sv" and "n < length (sv_commands sv)"
    and "ct_phase (sv_commands sv ! n) = Returned outcome"
  shows "simulated sv (command_publishes n outcome sv)"
proof (rule simulated_step)
  let ?ct = "sv_commands sv ! n"
  have last: "unat (sv_last sv + 1) = Suc (length (sv_log sv))"
    using assms(1,2) by (simp add: tidy_def server_roomy_def unat_succ)
  show "tidy (command_publishes n outcome sv)"
    using assms(1) last
    by (auto simp: command_publishes_def publications_send_def Let_def hand_over_def set_conn_def tidy_def ran_ok_def
        split: option.splits if_splits)
  have jobs: "lg_jobs (ledger_of sv) = map job_of (take n (sv_commands sv)) @ (ct_origin ?ct, ct_ticket ?ct, Back)
      # map job_of (drop (Suc n) (sv_commands sv))"
    using arg_cong[OF split_at[OF assms(3)], of "map job_of"] assms(4) by (simp add: job_of_def)
  have "ledger_of (command_publishes n outcome sv)
      = hand_to_desk (ct_origin ?ct) (ct_ticket ?ct) (Suc (length (lg_entries (ledger_of sv))))
        ((ledger_of sv)\<lparr>lg_jobs := map job_of (take n (sv_commands sv)) @ (ct_origin ?ct, ct_ticket ?ct, Out)
           # map job_of (drop (Suc n) (sv_commands sv)),
         lg_entries := lg_entries (ledger_of sv) @ [Outcome (ct_origin ?ct) (ct_ticket ?ct)]\<rparr>)"
    using assms(3) last
    by (auto simp: command_publishes_def publications_send_def Let_def hand_over_def set_conn_def ledger_of_def
        update_at job_of_def hand_to_desk_def put_desk_def desk_of_def fun_eq_iff split: option.splits)
  then show "ledger_step (ledger_of sv) (ledger_of (command_publishes n outcome sv))"
    using ledger_step.publishes[OF jobs] by simp
qed

lemma simulate_finish:
  assumes "tidy sv" and "n < length (sv_commands sv)" and "ct_phase (sv_commands sv ! n) = Published"
  shows "simulated sv (command_finishes n sv)"
proof (rule simulated_step)
  let ?ct = "sv_commands sv ! n"
  show "tidy (command_finishes n sv)" using assms(1) by (simp add: command_finishes_def tidy_def)
  have jobs: "lg_jobs (ledger_of sv) = map job_of (take n (sv_commands sv)) @ (ct_origin ?ct, ct_ticket ?ct, Out)
      # map job_of (drop (Suc n) (sv_commands sv))"
    using arg_cong[OF split_at[OF assms(2)], of "map job_of"] assms(3) by (simp add: job_of_def)
  have "ledger_of (command_finishes n sv) = (ledger_of sv)
      \<lparr>lg_jobs := map job_of (take n (sv_commands sv)) @ map job_of (drop (Suc n) (sv_commands sv)),
       lg_running := lg_running (ledger_of sv) - 1\<rparr>"
    by (simp add: command_finishes_def ledger_of_def)
  then show "ledger_step (ledger_of sv) (ledger_of (command_finishes n sv))"
    using ledger_step.finishes[OF jobs] by simp
qed

lemma simulate_stop:
  assumes "tidy sv"
  shows "simulated sv (shut_down sv)"
proof (cases "sv_stopping sv")
  case True
  then show ?thesis using assms by (simp add: shut_down_def simulated_stutter)
next
  case False
  have "ledger_of (shut_down sv) = (ledger_of sv)\<lparr>lg_stopping := True, lg_closer := True\<rparr>"
    using False by (simp add: shut_down_def ledger_of_def)
  with False assms show ?thesis
    using ledger_step.stops[of "ledger_of sv"] by (intro simulated_step) (simp_all add: shut_down_def tidy_def)
qed

lemma simulate_close:
  assumes "tidy sv" and "server_roomy sv" and "sv_closer sv" and "sv_running sv = 0"
  shows "simulated sv (send_closing sv)"
proof (rule simulated_step)
  have last: "unat (sv_last sv + 1) = Suc (length (sv_log sv))"
    using assms(1,2) by (simp add: tidy_def server_roomy_def unat_succ)
  then show "tidy (send_closing sv)"
    using assms(1) by (simp add: send_closing_def publications_send_def Let_def tidy_def)
  have "sv_last sv + 1 \<noteq> 0" using last by auto
  then have "ledger_of (send_closing sv) = (ledger_of sv)\<lparr>lg_closer := False,
      lg_entries := lg_entries (ledger_of sv) @ [Last], lg_closed_at := Some (Suc (length (lg_entries (ledger_of sv))))\<rparr>"
    using last by (simp add: send_closing_def publications_send_def Let_def ledger_of_def)
  then show "ledger_step (ledger_of sv) (ledger_of (send_closing sv))"
    using ledger_step.closes[of "ledger_of sv"] assms(3,4) by simp
qed

text \<open>A request: it may publish a change, start a command, or have one refused.\<close>

lemma respond_simulated:
  assumes "tidy sv" and "sv_last sv \<noteq> - 1" and "respond F i rid served sv = (frames, sv')"
  shows "simulated sv sv' \<and> sv_connections sv' = sv_connections sv"
proof (cases "\<exists>reply change. served = Inr reply \<and> rp_accepted reply = Some change")
  case True
  then obtain change where "sv' = publications_send (ServedPub i change) (\<lambda>_ sv. sv) sv"
    using assms(3) by (auto simp: respond_def)
  then show ?thesis
    using send_other[OF assms(1,2), of "ServedPub i change"]
    by (simp add: simulated_step) (simp add: publications_send_def Let_def)
next
  case False
  then have "sv' = sv" using assms(3) by (auto simp: respond_def split: sum.splits option.splits)
  then show ?thesis using assms(1) by (simp add: simulated_stutter)
qed

lemma receive_simulated:
  assumes "tidy sv" and "sv_last sv \<noteq> - 1" and "receive H F i panics txt cn sv = (r, cn', sv')"
  shows "simulated sv sv'" and "sv_connections sv' = sv_connections sv" and "same_desk cn cn'"
    and "r = CommandReceived rid request \<Longrightarrow> sv' = sv \<and> cn' = cn"
proof -
  have refl: "simulated sv sv" "same_desk cn cn" using assms(1) by (simp_all add: simulated_stutter same_desk_def)
  have served: "simulated sv sv1 \<and> sv_connections sv1 = sv_connections sv"
    if "respond F i rid served (sv\<lparr>sv_host := w1\<rparr>) = (frames, sv1)" for rid served w1 frames sv1
    using respond_simulated[OF _ _ that] assms(1,2) by (simp add: simulated_def)
  have turn: "same_desk cn cn1" if "serve_catching H panics req cn w = (x, cn1, w1)" for req w x cn1 w1
    using that on_connection_desk
    by (fastforce simp: serve_catching_def same_desk_def Let_def split: option.splits)
  have "simulated sv sv' \<and> sv_connections sv' = sv_connections sv \<and> same_desk cn cn'
      \<and> (\<forall>rid request. r = CommandReceived rid request \<longrightarrow> sv' = sv \<and> cn' = cn)"
    using assms(3) refl served respond_simulated[OF assms(1,2)]
    unfolding receive_def
    by (auto split: option.splits if_splits sum.splits projection_request.splits prod.splits dest: turn)
  then show "simulated sv sv'" "sv_connections sv' = sv_connections sv" "same_desk cn cn'"
    "r = CommandReceived rid request \<Longrightarrow> sv' = sv \<and> cn' = cn" by blast+
qed

lemma simulate_refusal:
  assumes "tidy sv" and "map_of (sv_connections sv) i = Some cn" and "cn_tickets cn \<noteq> - 1"
  shows "simulated sv (set_conn i (emit fs (cn\<lparr>cn_tickets := cn_tickets cn + 1\<rparr>)) sv)"
proof (rule simulated_step)
  show "tidy (set_conn i (emit fs (cn\<lparr>cn_tickets := cn_tickets cn + 1\<rparr>)) sv)"
    using tidy_ran[OF assms(1,2)] assms(1) by (intro set_conn_tidy) (simp_all add: ran_ok_def)
  have "desk_of (cn\<lparr>cn_tickets := cn_tickets cn + 1\<rparr>) = (desk_of cn)\<lparr>dk_issued := dk_issued (desk_of cn) + 1\<rparr>"
    "dk_issued (desk_of cn) = cn_tickets cn" by (simp_all add: desk_of_def)
  then show "ledger_step (ledger_of sv) (ledger_of (set_conn i (emit fs (cn\<lparr>cn_tickets := cn_tickets cn + 1\<rparr>)) sv))"
    using ledger_step.refuses[of "ledger_of sv" i "desk_of cn"] assms(2,3) by (simp add: ledger_of_set_conn)
qed

lemma simulate_start:
  assumes "tidy sv" and "map_of (sv_connections sv) i = Some cn" and "cn_tickets cn \<noteq> - 1"
    and "start_command i (cn_tickets cn + 1) who request sv = (Inr u, sv')"
  shows "simulated sv (set_conn i (cn\<lparr>cn_tickets := cn_tickets cn + 1,
    cn_running := bmap_insert (cn_tickets cn + 1) rid (cn_running cn)\<rparr>) sv')"
proof (rule simulated_step)
  let ?cn = "cn\<lparr>cn_tickets := cn_tickets cn + 1, cn_running := bmap_insert (cn_tickets cn + 1) rid (cn_running cn)\<rparr>"
  have free: "\<not> sv_stopping sv" "sv_permits sv \<noteq> 0" using assms(4) by (auto simp: start_command_def split: if_splits)
  then have sv': "sv' = sv\<lparr>sv_running := sv_running sv + 1, sv_permits := sv_permits sv - 1,
      sv_commands := sv_commands sv @ [\<lparr>ct_origin = i, ct_ticket = cn_tickets cn + 1, ct_principal = who,
        ct_request = request, ct_phase = Executing\<rparr>]\<rparr>"
    using assms(4) by (simp add: start_command_def)
  show "tidy (set_conn i ?cn sv')"
    using tidy_ran[OF assms(1,2)] assms(1) by (intro set_conn_tidy) (simp_all add: ran_ok_def sv' tidy_def)
  have desk: "desk_of ?cn = (desk_of cn)\<lparr>dk_issued := dk_issued (desk_of cn) + 1,
      dk_waiting := insert (dk_issued (desk_of cn) + 1) (dk_waiting (desk_of cn))\<rparr>"
    "dk_issued (desk_of cn) = cn_tickets cn" by (simp_all add: desk_of_def)
  have "ledger_of sv' = (ledger_of sv)\<lparr>lg_jobs := lg_jobs (ledger_of sv) @ [(i, dk_issued (desk_of cn) + 1, Works)],
      lg_running := lg_running (ledger_of sv) + 1, lg_free := lg_free (ledger_of sv) - 1\<rparr>"
    by (simp add: sv' ledger_of_def job_of_def desk(2))
  then show "ledger_step (ledger_of sv) (ledger_of (set_conn i ?cn sv'))"
    using ledger_step.starts[of "ledger_of sv" i "desk_of cn"] assms(2,3) free desk
    by (simp add: ledger_of_set_conn)
qed

lemma simulate_text:
  assumes "tidy sv" and "server_roomy sv" and "map_of (sv_connections sv) i = Some cn"
    and "serve_text H F i panics txt cn sv = (cn', sv')"
  shows "simulated sv (set_conn i cn' sv')"
proof -
  have room: "sv_last sv \<noteq> - 1" "cn_tickets cn \<noteq> - 1"
    using assms(2,3) by (auto simp: server_roomy_def list_all_iff dest!: map_of_SomeD)
  obtain r cn1 sv1 where got: "receive H F i panics txt cn sv = (r, cn1, sv1)" by (metis prod_cases3)
  note received = receive_simulated[OF assms(1) room(1) got]
  show ?thesis
  proof (cases r)
    case (Answered frames)
    then have "cn' = emit frames cn1" "sv' = sv1" using assms(4) got by (simp_all add: serve_text_def)
    moreover have "simulated sv1 (set_conn i (emit frames cn1) sv1)"
      using received assms(3) by (intro simulated_same_desk[where cn = cn]) (auto simp: simulated_def same_desk_def)
    ultimately show ?thesis using received(1) simulated_trans by blast
  next
    case (CommandReceived rid request)
    with received(4) have same: "sv1 = sv" "cn1 = cn" by auto
    obtain u sv2 where started: "start_command i (cn_tickets cn + 1) (cn_principal cn) request sv = (u, sv2)" by fastforce
    show ?thesis
    proof (cases u)
      case (Inr x)
      with simulate_start[OF assms(1,3) room(2), of "cn_principal cn" request x sv2 rid] started CommandReceived assms(4) got same
      show ?thesis by (auto simp: serve_text_def Let_def)
    next
      case (Inl failure)
      then have "sv2 = sv" using started by (auto simp: start_command_def split: if_splits)
      with Inl started CommandReceived assms(4) got same
      have "cn' = emit (answer F rid (Inl (error_object_of failure)) []) (cn\<lparr>cn_tickets := cn_tickets cn + 1\<rparr>)" "sv' = sv"
        by (simp_all add: serve_text_def Let_def)
      then show ?thesis using simulate_refusal[OF assms(1,3) room(2)] by simp
    qed
  qed
qed

lemma simulate_app_mutate:
  assumes "tidy sv" and "server_roomy sv" and "app_mutate H panicked who mutation params enc sv = (r, sv')"
  shows "simulated sv sv'"
proof -
  have plain: "simulated sv (sv\<lparr>sv_host := w\<rparr>)" for w using assms(1) by (simp add: simulated_stutter)
  have "simulated (sv\<lparr>sv_host := w\<rparr>) (publications_send (ServedPub j change) (\<lambda>_ sv. sv) (sv\<lparr>sv_host := w\<rparr>))" for w j change
    using send_other[of "sv\<lparr>sv_host := w\<rparr>" "ServedPub j change"] assms(1,2)
    by (intro simulated_step) (simp_all add: server_roomy_def)
  then have "simulated sv (publications_send (ServedPub j change) (\<lambda>_ sv. sv) (sv\<lparr>sv_host := w\<rparr>))" for w j change
    using plain simulated_trans by blast
  then show ?thesis
    using assms(3) plain simulated_stutter[OF assms(1) refl]
    by (auto simp: app_mutate_def split: prod.splits sum.splits if_splits)
qed

lemma simulate_app_command:
  assumes "tidy sv" and "app_command who command params sv = (r, sv')"
  shows "simulated sv sv'"
proof (cases "sv_stopping sv \<or> sv_permits sv = 0")
  case True
  then show ?thesis
    using assms by (auto simp: app_command_def start_command_def simulated_stutter split: if_splits)
next
  case False
  then have "ledger_of sv' = (ledger_of sv)\<lparr>lg_jobs := lg_jobs (ledger_of sv) @ [(0, 0, Works)],
      lg_running := lg_running (ledger_of sv) + 1, lg_free := lg_free (ledger_of sv) - 1\<rparr>"
    using assms(2) by (auto simp: app_command_def start_command_def ledger_of_def job_of_def no_connection_def)
  moreover have "tidy sv'" using False assms by (auto simp: app_command_def start_command_def tidy_def)
  ultimately show ?thesis
    using ledger_step.starts_unanswered[of "ledger_of sv"] False by (intro simulated_step) simp_all
qed

text \<open>
  Everything the server does, the ledger does.
\<close>

lemma server_simulates:
  assumes "server_step H F capacity sv sv'" and "server_roomy sv" and "tidy sv"
  shows "simulated sv sv'"
  using assms(1)
proof (cases rule: server_step.cases)
  case (announced a)
  then show ?thesis using send_other[OF assms(3), of "AnnouncedPub a"] assms(2)
    by (auto simp: server_roomy_def intro: simulated_step)
next
  case (stored change)
  then show ?thesis using send_other[OF assms(3), of "StoredPub change"] assms(2)
    by (auto simp: server_roomy_def intro: simulated_step)
next
  case (host_changed w)
  then show ?thesis using assms(3) by (simp add: simulated_stutter)
qed (use assms(2,3) in \<open>auto intro: simulate_admit simulate_text simulate_take simulate_fall_behind simulate_catch_up
      simulate_end simulate_return simulate_publish simulate_finish simulate_stop simulate_close
      simulate_app_mutate simulate_app_command\<close>)

lemma server_new_simulates:
  "ledger_of (server_new w limit) = ledger_new limit" "tidy (server_new w limit)"
  by (simp_all add: ledger_of_def server_new_def ledger_new_def no_connection_def tidy_def fun_eq_iff)

lemma server_runs_simulated:
  assumes "server_runs H F capacity limit sv"
  shows "tidy sv \<and> ledger_step\<^sup>*\<^sup>* (ledger_new limit) (ledger_of sv)"
proof -
  obtain w where "(\<lambda>a b. server_roomy a \<and> server_step H F capacity a b)\<^sup>*\<^sup>* (server_new w limit) sv"
    using assms by (auto simp: server_runs_def)
  then have "simulated (server_new w limit) sv"
  proof (induction rule: rtranclp_induct)
    case base
    show ?case by (simp add: simulated_stutter server_new_simulates)
  next
    case (step a b)
    then have "tidy a" by (simp add: simulated_def)
    with step.hyps(2) have "simulated a b" using server_simulates by blast
    with step.IH show ?case by (rule simulated_trans)
  qed
  then show ?thesis by (simp add: simulated_def server_new_simulates)
qed

lemma server_ledger_ok: "server_runs H F capacity limit sv \<Longrightarrow> ledger_ok limit (ledger_of sv)"
  using server_runs_simulated ledger_steps_ok ledger_new_ok by blast

section \<open>What the server promises\<close>

text \<open>
  (C7) The server keeps its ledger. Everything the server does, from its start, whatever requests, host
  returns, panics, announcements, lags, closures and shutdown calls come in whatever order, is a sequence
  of steps of the ledger: the one that numbers its publications, accounts for its commands and for what
  each connection still has to answer.
\<close>

theorem server_refines_the_ledger:
  assumes "server_runs H F capacity limit sv" and "server_roomy sv" and "server_step H F capacity sv sv'"
  shows "ledger_step\<^sup>*\<^sup>* (ledger_new limit) (ledger_of sv) \<and> ledger_step\<^sup>*\<^sup>* (ledger_of sv) (ledger_of sv')"
  using server_runs_simulated[OF assms(1)] server_simulates[OF assms(3,2)] by (simp add: simulated_def)

lemma entry_of_outcome: "entry_of p = Outcome i t \<longleftrightarrow> (\<exists>outcome. p = RanPub i t outcome)"
  by (cases p) auto

lemma stage_of_out: "stage_of p = Out \<longleftrightarrow> p = Published"
  by (cases p) auto

lemma pending_commands:
  "i \<noteq> 0 \<Longrightarrow> (i, t) \<in> set (pending (lg_jobs (ledger_of sv))) \<longleftrightarrow>
     (\<exists>ct \<in> set (sv_commands sv). ct_origin ct = i \<and> ct_ticket ct = t \<and> ct_phase ct \<noteq> Published)"
  by (auto simp: pending_def job_of_def stage_of_out image_iff)

text \<open>
  (C6) No answer is lost. At every moment of every run, a connection that is not catching up has to answer
  a ticket exactly when its command's outcome is not published yet, or is published after the last publication the
  connection took. So a command is answered by the time its connection takes its outcome, also when the
  connection fell behind in between and skipped publications.
\<close>

theorem no_answer_is_lost:
  assumes "server_runs H F capacity limit sv" and "map_of (sv_connections sv) i = Some cn"
    and "cn_skipping cn = None"
  shows "map_of (cn_running cn) t \<noteq> None \<longleftrightarrow>
      (\<exists>ct \<in> set (sv_commands sv). ct_origin ct = i \<and> ct_ticket ct = t \<and> ct_phase ct \<noteq> Published)
      \<or> (\<exists>k outcome. cn_position cn \<le> k \<and> k < length (sv_log sv)
           \<and> st_publication (sv_log sv ! k) = RanPub i t outcome)"
proof -
  let ?L = "ledger_of sv"
  have ok: "ledger_ok limit ?L" by (rule server_ledger_ok[OF assms(1)])
  have desk: "desk_ok ?L i (desk_of cn)" and i: "i \<noteq> 0"
    using ok assms(2) desks_okD[of ?L i "desk_of cn"] numbers_okD(2)[of ?L i "desk_of cn"] by (auto simp: ledger_ok_def)
  have ready: "dk_ready (desk_of cn) t \<noteq> None \<longleftrightarrow>
      (\<exists>k. cn_position cn \<le> k \<and> k < length (sv_log sv) \<and> lg_entries ?L ! k = Outcome i t)"
  proof
    assume "dk_ready (desk_of cn) t \<noteq> None"
    then obtain k where k: "dk_ready (desk_of cn) t = Some k" by blast
    have "dk_skipping (desk_of cn) = None" "dk_taken (desk_of cn) = cn_position cn" using assms(3) by (simp_all add: desk_of_def)
    with desk_okD(4,5)[OF desk k] show "\<exists>k. cn_position cn \<le> k \<and> k < length (sv_log sv) \<and> lg_entries ?L ! k = Outcome i t"
      by (intro exI[of _ "k - 1"]) auto
  next
    assume "\<exists>k. cn_position cn \<le> k \<and> k < length (sv_log sv) \<and> lg_entries ?L ! k = Outcome i t"
    then obtain k where "cn_position cn \<le> k" "k < length (sv_log sv)" "lg_entries ?L ! k = Outcome i t" by blast
    then show "dk_ready (desk_of cn) t \<noteq> None"
      using desk_okD(6)[OF desk, of k t] by (auto simp: desk_of_def)
  qed
  have "map_of (cn_running cn) t \<noteq> None \<longleftrightarrow> t \<in> dk_waiting (desk_of cn)" by (auto simp: desk_of_def)
  then show ?thesis
    using desk_okD(3)[OF desk, of t] pending_commands[OF i] ready by (auto simp: entry_of_outcome)
qed

text \<open>
  (C9) A shutdown answers everything before it closes a connection. In every run, a connection about to
  take the closing publication, and one that has caught up past it, has no command left to answer: what it
  ran was answered. And from the closing publication on no command runs, nor is any outcome published
  after it.
\<close>

theorem shutdown_answers_first:
  assumes "server_runs H F capacity limit sv" and "k < length (sv_log sv)"
    and "st_publication (sv_log sv ! k) = ClosingPub"
  shows "sv_stopping sv \<and> sv_commands sv = []
    \<and> (\<forall>j. k \<le> j \<longrightarrow> j < length (sv_log sv) \<longrightarrow> (\<nexists>i t outcome. st_publication (sv_log sv ! j) = RanPub i t outcome))
    \<and> (\<forall>i cn. map_of (sv_connections sv) i = Some cn \<longrightarrow> cn_skipping cn = None \<longrightarrow> k \<le> cn_position cn \<longrightarrow>
         cn_running cn = [])"
proof -
  let ?L = "ledger_of sv"
  have ok: "ledger_ok limit ?L" by (rule server_ledger_ok[OF assms(1)])
  have last: "lg_entries ?L ! k = Last" "k < length (lg_entries ?L)" using assms(2,3) by simp_all
  then have "Last \<in> set (lg_entries ?L)" by (metis nth_mem)
  then obtain m where m: "lg_closed_at ?L = Some m"
    using ok by (auto simp: ledger_ok_def closing_ok_def split: option.splits)
  with ok have closing: "lg_stopping ?L" "lg_jobs ?L = []" "0 < m" "m \<le> length (lg_entries ?L)"
      "\<And>j. m \<le> j \<Longrightarrow> j < length (lg_entries ?L) \<Longrightarrow> lg_entries ?L ! j = Other"
      "\<And>j. j < m - 1 \<Longrightarrow> lg_entries ?L ! j \<noteq> Last"
    by (auto simp: ledger_ok_def closing_ok_def)
  have k: "m = Suc k"
  proof -
    have "\<not> m \<le> k" using closing(5)[of k] last by auto
    moreover have "\<not> k < m - 1" using closing(6)[of k] last by auto
    ultimately show ?thesis using closing(3) by simp
  qed
  have "\<nexists>i t outcome. st_publication (sv_log sv ! j) = RanPub i t outcome" if "k \<le> j" "j < length (sv_log sv)" for j
    using that closing(5)[of j] assms(3) k by (cases "j = k") (auto simp: not_less_eq_eq dest: le_neq_implies_less)
  moreover have "cn_running cn = []"
    if "map_of (sv_connections sv) i = Some cn" "cn_skipping cn = None" "k \<le> cn_position cn" for i cn
  proof -
    have "dk_waiting (desk_of cn) = {}"
      by (rule closing_finds_nothing_ahead[OF ok _ m, of i]) (use that k in \<open>simp_all add: desk_of_def\<close>)
    then show ?thesis by (simp add: desk_of_def dom_map_of_conv_image_fst)
  qed
  ultimately show ?thesis using closing(1,2) by simp
qed

text \<open>
  (C31) The server's counts are exact. In every run, the commands started and not yet finished are as many
  as it counts as running, the connections as many as it counts as serving, and the permits left and the
  commands whose host still runs add up to the command limit: never more run at once. So a shutdown
  resolves only when no command runs and no connection is left.
\<close>

theorem server_counts_exact:
  assumes "server_runs H F capacity limit sv"
  shows "sv_running sv = length (sv_commands sv)
    \<and> sv_serving sv = card (dom (map_of (sv_connections sv)))
    \<and> sv_permits sv + length (filter (\<lambda>ct. ct_phase ct = Executing) (sv_commands sv)) = limit
    \<and> (shut_down_resolves sv \<longleftrightarrow> sv_stopping sv \<and> sv_commands sv = [] \<and> sv_connections sv = [])"
proof -
  have ok: "counts_ok limit (ledger_of sv)" using server_ledger_ok[OF assms] by (simp add: ledger_ok_def)
  have desks: "dom (lg_desks (ledger_of sv)) = dom (map_of (sv_connections sv))" by auto
  have works: "working (ledger_of sv) = length (filter (\<lambda>ct. ct_phase ct = Executing) (sv_commands sv))"
  proof -
    show ?thesis
      unfolding working_def ledger_of_simps filter_map length_map comp_def
      by (rule arg_cong[where f = length], rule filter_cong) (auto simp: job_of_def split: prod.splits elim!: stage_of.elims)
  qed
  have "sv_serving sv = 0 \<longleftrightarrow> sv_connections sv = []" if "sv_serving sv = card (dom (map_of (sv_connections sv)))"
    using that by (auto simp: finite_dom_map_of dom_map_of_conv_image_fst)
  then show ?thesis
    using ok works desks by (auto simp: counts_ok_def shut_down_resolves_def)
qed

end
