(* ===== verification/Sessions.thy ===== *)
theory Sessions
  imports Server
begin

text \<open>
  What the session keeps of its connection, however its handlers interleave.

  The locale \<open>session_law\<close> is the interface between the subscriptions and the handlers: a relation
  that a change of the application's world and each of the operations on subscriptions stay within is
  one every step of every handler stays within. \<open>connection\<close> is a connection as a transport may run
  it: any number of handlers at once, their steps in any order, the application's world changing
  in between.
\<close>

section \<open>Operations on subscriptions, as steps\<close>

lemma subs_get_set [simp]: "subs_get (subs_set i s c) j = (if j = i then Some s else subs_get c j)"
  by (simp add: subs_get_def subs_set_def)

lemma subs_set_simps [simp]:
  "ss_principal (subs_set i s c) = ss_principal c"
  "ss_next_subscription_id (subs_set i s c) = ss_next_subscription_id c"
  "ss_counters (subs_set i s c) = ss_counters c"
  by (simp_all add: subs_set_def)

lemma subs_get_update [simp]:
  "subs_get (c\<lparr>ss_counters := k\<rparr>) = subs_get c"
  "subs_get (c\<lparr>ss_next_subscription_id := n\<rparr>) = subs_get c"
  by (simp_all add: subs_get_def fun_eq_iff)

lemma bmap_insert_twice [simp]: "bmap_insert k v (bmap_insert k u m) = bmap_insert k v m"
  by (induction k u m rule: bmap_insert.induct) auto

lemma subs_set_twice [simp]: "subs_set i s (subs_set i t c) = subs_set i s c"
  by (simp add: subs_set_def)

lemma recording_simps [simp]:
  "subs_get (record_resync reason c) = subs_get c"
  "ss_next_subscription_id (record_resync reason c) = ss_next_subscription_id c"
  "ss_subscriptions (record_resync reason c) = ss_subscriptions c"
  "subs_get (record_dropped_updates n c) = subs_get c"
  "ss_next_subscription_id (record_dropped_updates n c) = ss_next_subscription_id c"
  "ss_subscriptions (record_dropped_updates n c) = ss_subscriptions c"
  "subs_get (record_mutation latency rejection c) = subs_get c"
  "ss_next_subscription_id (record_mutation latency rejection c) = ss_next_subscription_id c"
  "ss_subscriptions (record_mutation latency rejection c) = ss_subscriptions c"
  by (simp_all add: record_resync_def record_dropped_updates_def record_mutation_def subs_get_def
      Let_def fun_eq_iff)

locale session_law =
  fixes R :: "('w, 's, 'p, 'd) session \<Rightarrow> ('w, 's, 'p, 'd) session \<Rightarrow> bool"
  assumes host_moves: "R s (s\<lparr>ses_host := w\<rparr>)"
    and accepts: "accept_subscription to_value projection params held snapshot delivered (ses_subs s)
        = ((accepted, events), c) \<Longrightarrow>
      R s (s\<lparr>ses_subs := c, ses_sent := ses_sent s @ Opened accepted # map Update events\<rparr>)"
    and resyncs: "subs_resync to_value i snapshot delivered reason (ses_subs s) = (sent, c) \<Longrightarrow>
      R s (s\<lparr>ses_subs := c, ses_sent := ses_sent s @ optional_update (map_option snd sent)\<rparr>)"
    and patches: "deliver_patch to_value i to_revision patch left (ses_subs s) = (event, c) \<Longrightarrow>
      R s (s\<lparr>ses_subs := c, ses_sent := ses_sent s @ optional_update event\<rparr>)"
    and follows: "deliver_following to_value i from_revision patch following (ses_subs s) = (delivery, c) \<Longrightarrow>
      R s (s\<lparr>ses_subs := c, ses_sent := ses_sent s @ optional_update (res_ok delivery)\<rparr>)"
    and removes: "subs_remove i (ses_subs s) = (removed, c) \<Longrightarrow> R s (s\<lparr>ses_subs := c\<rparr>)"
    and counts: "R s (s\<lparr>ses_subs := record_mutation latency rejection (ses_subs s)\<rparr>)"
    and misses: "R s (s\<lparr>ses_subs := record_dropped_updates missed (ses_subs s)\<rparr>)"
begin

lemma stays: "R s s"
  using host_moves[of s "ses_host s"] by simp

lemma keeps_host: "keeps R (ask_host m)"
  unfolding ask_host_def by (rule keeps_atomically) (auto simp: host_moves split: prod.splits)

lemma keeps_read: "keeps R (read_subscriptions f)"
  unfolding read_subscriptions_def by (rule keeps_atomically) (simp add: stays)

lemma keeps_principal: "keeps R principal_of"
  unfolding principal_of_def by (rule keeps_read)

lemma keeps_accept:
  "keeps R (with_subscriptions (\<lambda>(accepted, events). Opened accepted # map Update events)
     (accept_subscription to_value projection params held snapshot delivered))"
  unfolding with_subscriptions_def by (rule keeps_atomically) (auto split: prod.splits intro: accepts)

lemma keeps_resync:
  "keeps R (with_subscriptions (\<lambda>sent. optional_update (map_option snd sent))
     (subs_resync to_value i snapshot delivered reason))"
  unfolding with_subscriptions_def by (rule keeps_atomically) (auto split: prod.splits intro: resyncs)

lemma keeps_patch: "keeps R (with_subscriptions optional_update (deliver_patch to_value i to_revision patch left))"
  unfolding with_subscriptions_def by (rule keeps_atomically) (auto split: prod.splits intro: patches)

lemma keeps_following:
  "keeps R (with_subscriptions (\<lambda>sent. optional_update (res_ok sent))
     (deliver_following to_value i from_revision patch following))"
  unfolding with_subscriptions_def by (rule keeps_atomically) (auto split: prod.splits intro: follows)

lemma keeps_remove: "keeps R (with_subscriptions (\<lambda>_. []) (subs_remove i))"
  unfolding with_subscriptions_def by (rule keeps_atomically) (auto split: prod.splits dest: removes)

lemma keeps_count: "keeps R (with_subscriptions (\<lambda>_. []) (\<lambda>c. ((), record_mutation latency rejection c)))"
  unfolding with_subscriptions_def using counts by (intro keeps_atomically) simp

lemmas keeps_primitives = keeps_host keeps_read keeps_principal keeps_accept keeps_resync keeps_patch
  keeps_following keeps_remove keeps_count

lemma keeps_snapshot_for: "keeps R (snapshot_for H who projection params held)"
  unfolding snapshot_for_def by (intro keeps_intro keeps_primitives)

lemma keeps_deliver: "keeps R (deliver H source)"
  unfolding deliver_def deliver_to_def Let_def by (intro keeps_intro keeps_primitives)

lemma keeps_publishing:
  "keeps R (publish H accepted)" "keeps R (deliver_announcement H announced)" "keeps R (publish_command H rc)"
  unfolding publish_def deliver_announcement_def publish_command_def
  by (intro keeps_intro keeps_deliver)+

lemma keeps_resync_all: "keeps R (resync_all H reason)"
  unfolding resync_all_def resync_one_def Let_def
  by (intro keeps_intro keeps_primitives keeps_snapshot_for)

lemma keeps_deliver_change: "keeps R (deliver_change H change)"
  unfolding deliver_change_def change_to_def Let_def by (intro keeps_intro keeps_primitives)

lemma keeps_executing:
  "keeps R (execute_mutation H who mutation params)" "keeps R (execute_command H who request)"
  unfolding execute_mutation_def execute_command_def Let_def by (intro keeps_intro keeps_primitives)+

lemma keeps_requests:
  "keeps R (subscribe H sub)" "keeps R (resync H re)" "keeps R (unsubscribe H un)" "keeps R (mutate H mu)"
  "keeps R (reply_to_command H rc)"
  unfolding subscribe_def resync_def unsubscribe_def mutate_def reply_to_command_def Let_def
  by (intro keeps_intro keeps_primitives keeps_snapshot_for keeps_publishing keeps_executing)+

lemma keeps_serve: "keeps R (serve H request)"
proof -
  have "keeps R (serve_outcome H request)"
  proof (cases request)
    case (CommandRequest r)
    then show ?thesis
      unfolding serve_outcome_def
      by (simp, intro keeps_intro keeps_principal keeps_executing keeps_requests)
  qed (simp_all add: serve_outcome_def keeps_requests)
  then show ?thesis unfolding serve_def Let_def by (intro keeps_intro keeps_primitives)
qed

end

section \<open>The client\<close>

text \<open>
  What a client makes of the messages it is sent: the revision it holds of each subscription it opened.
  It is stuck (\<open>None\<close>) on a subscription it already has, on an update to one it never opened, on a
  snapshot that takes it back, and on a patch that does not start where it stands or does not advance it.
\<close>

fun client_takes :: "('s, 'p) message \<Rightarrow> (u64 \<Rightarrow> u64 option) \<Rightarrow> (u64 \<Rightarrow> u64 option) option" where
  "client_takes (Opened a) v =
     (if v (sa_subscription_id a) = None then Some (v(sa_subscription_id a \<mapsto> sa_revision a)) else None)"
| "client_takes (Update (Snapshot i revision _ _)) v =
     (case v i of
        None \<Rightarrow> None
      | Some standing \<Rightarrow> if standing \<le> revision then Some (v(i \<mapsto> revision)) else None)"
| "client_takes (Update (Patch i from_revision to_revision _ _)) v =
     (if v i = Some from_revision \<and> from_revision < to_revision then Some (v(i \<mapsto> to_revision)) else None)"

fun client_view :: "('s, 'p) message list \<Rightarrow> (u64 \<Rightarrow> u64 option) \<Rightarrow> (u64 \<Rightarrow> u64 option) option" where
  "client_view [] v = Some v"
| "client_view (m # ms) v = Option.bind (client_takes m v) (client_view ms)"

lemma client_view_append:
  "client_view (ms @ ns) v = Option.bind (client_view ms v) (client_view ns)"
  by (induction ms arbitrary: v) (simp_all split: Option.bind_splits)

text \<open>The client stands where the subscriptions say.\<close>

definition in_step :: "'d subscriptions \<Rightarrow> (u64 \<Rightarrow> u64 option) \<Rightarrow> bool" where
  "in_step c v \<longleftrightarrow>
     bmap_ok (ss_subscriptions c)
     \<and> (\<forall>i s. subs_get c i = Some s \<longrightarrow> v i = Some (sub_revision s))
     \<and> (\<forall>i. v i \<noteq> None \<longrightarrow> i < ss_next_subscription_id c)"

text \<open>No number the connection counts with is at its end.\<close>

definition roomy :: "'d subscriptions \<Rightarrow> bool" where
  "roomy c \<longleftrightarrow>
     ss_next_subscription_id c \<noteq> - 1 \<and> list_all (\<lambda>e. sub_revision (snd e) \<noteq> - 1) (ss_subscriptions c)"

lemma bmap_ok_subs_set: "bmap_ok (ss_subscriptions c) \<Longrightarrow> bmap_ok (ss_subscriptions (subs_set i s c))"
  by (simp add: subs_set_def)

lemma in_step_counters [simp]:
  "in_step (record_resync reason c) v = in_step c v"
  "in_step (record_mutation latency rejection c) v = in_step c v"
  "in_step (record_dropped_updates n c) v = in_step c v"
  "in_step (c\<lparr>ss_counters := k\<rparr>) v = in_step c v"
  by (simp_all add: in_step_def)

lemma in_step_set:
  assumes "in_step c v" and "i < ss_next_subscription_id c"
  shows "in_step (subs_set i s c) (v(i \<mapsto> sub_revision s))"
  using assms by (auto simp: in_step_def bmap_ok_subs_set)

lemma in_step_known: "in_step c v \<Longrightarrow> subs_get c i = Some s \<Longrightarrow> i < ss_next_subscription_id c"
  unfolding in_step_def by (metis option.distinct(1))

lemma accept_in_step:
  assumes "in_step c v" and "roomy c"
    and "accept_subscription to_value projection params held snapshot delivered c = ((accepted, events), c')"
  shows "\<exists>v'. client_view (Opened accepted # map Update events) v = Some v' \<and> in_step c' v'"
proof -
  let ?i = "ss_next_subscription_id c" and ?r = "max (current_revision c) 1"
  let ?s = "\<lparr>sub_projection = projection, sub_params = params, sub_revision = ?r,
    sub_delivered = delivered, sub_through = ns_through snapshot\<rparr>"
  let ?base = "subs_set ?i ?s (c\<lparr>ss_next_subscription_id := ?i + 1\<rparr>)"
  have fresh: "v ?i = None" using assms(1) unfolding in_step_def by (meson less_irrefl)
  have room: "?i < ?i + 1" using assms(2) by (simp add: roomy_def succ_greater)
  have "in_step (c\<lparr>ss_next_subscription_id := ?i + 1\<rparr>) v"
    using assms(1) room unfolding in_step_def by (auto intro: less_trans)
  then have base: "in_step ?base (v(?i \<mapsto> ?r))"
    using in_step_set[of "c\<lparr>ss_next_subscription_id := ?i + 1\<rparr>" v ?i ?s] room by simp
  have table: "ss_subscriptions c' = ss_subscriptions ?base \<and> ss_next_subscription_id c' = ss_next_subscription_id ?base"
    using assms(3)
    by (auto simp: accept_subscription_def subs_insert_def record_delivery_def Let_def subs_get_def subs_set_def
        split: if_splits prod.splits)
  then have "in_step c' (v(?i \<mapsto> ?r))" using base by (simp add: in_step_def subs_get_def)
  moreover have "client_view (Opened accepted # map Update events) v = Some (v(?i \<mapsto> ?r))"
    using assms(3) fresh
    by (auto simp: accept_subscription_def subs_insert_def Let_def split: if_splits prod.splits)
  ultimately show ?thesis by blast
qed

lemma roomy_advances: "roomy c \<Longrightarrow> subs_get c i = Some s \<Longrightarrow> sub_revision s < sub_revision s + 1"
  by (rule succ_greater) (fastforce simp: roomy_def subs_get_def list_all_iff dest!: map_of_SomeD)

lemma advance_in_step:
  assumes "in_step c v" and "subs_get c i = Some s" and "sub_revision s < r"
  shows "client_view [Update (Patch i (sub_revision s) r patch token)] v = Some (v(i \<mapsto> r))"
    and "client_view [Update (Snapshot i r snapshot token)] v = Some (v(i \<mapsto> r))"
    and "sub_revision t = r \<Longrightarrow> in_step (subs_set i t c) (v(i \<mapsto> r))"
  using assms in_step_set[OF assms(1) in_step_known[OF assms(1,2)], of t]
  by (auto simp: in_step_def)

lemma resync_in_step:
  assumes "in_step c v" and "roomy c" and "subs_resync to_value i snapshot delivered reason c = (sent, c')"
  shows "\<exists>v'. client_view (optional_update (map_option snd sent)) v = Some v' \<and> in_step c' v'"
proof (cases "subs_get c i")
  case None
  then show ?thesis using assms by (simp add: subs_resync_def)
next
  case (Some s)
  note step = advance_in_step[OF assms(1) Some roomy_advances[OF assms(2) Some]]
  show ?thesis
    using assms(3) step(2) step(3)
    by (auto simp: subs_resync_def Some Let_def record_delivery_def)
qed

lemma patch_in_step:
  assumes "in_step c v" and "roomy c" and "deliver_patch to_value i to_revision patch left c = (event, c')"
  shows "\<exists>v'. client_view (optional_update event) v = Some v' \<and> in_step c' v'"
proof (cases "subs_get c i")
  case None
  then show ?thesis using assms by (simp add: deliver_patch_def)
next
  case (Some s)
  let ?r = "max to_revision (sub_revision s + 1)"
  have "sub_revision s < ?r" using roomy_advances[OF assms(2) Some] by (simp add: less_max_iff_disj)
  note step = advance_in_step[OF assms(1) Some this]
  show ?thesis
    using assms(3) step(1) step(3)[of "s\<lparr>sub_revision := ?r, sub_delivered := left\<rparr>"]
    by (auto simp: deliver_patch_def Some Let_def)
qed

lemma following_in_step:
  assumes "in_step c v" and "roomy c"
    and "deliver_following to_value i from_revision patch following c = (delivery, c')"
  shows "\<exists>v'. client_view (optional_update (res_ok delivery)) v = Some v' \<and> in_step c' v'"
proof (cases "\<exists>s. subs_get c i = Some s \<and> sub_revision s = from_revision \<and> sub_delivered s \<noteq> Some following")
  case True
  then obtain s where s: "subs_get c i = Some s" "sub_revision s = from_revision" "sub_delivered s \<noteq> Some following"
    by blast
  note step = advance_in_step[OF assms(1) s(1) roomy_advances[OF assms(2) s(1)]]
  show ?thesis
    using assms(3) s step(1) step(3)
    by (auto simp: deliver_following_def)
next
  case False
  then show ?thesis using assms by (auto simp: deliver_following_def split: option.splits if_splits)
qed

lemma remove_in_step: "in_step c v \<Longrightarrow> in_step (snd (subs_remove i c)) v"
  by (auto simp: in_step_def subs_remove_def subs_get_def split: if_splits)

section \<open>Connections\<close>

text \<open>The client of a session stands where its subscriptions say, as long as there is room.\<close>

definition client_in_step :: "('w, 's, 'p, 'd) session \<Rightarrow> bool" where
  "client_in_step s \<longleftrightarrow> (\<exists>v. client_view (ses_sent s) Map.empty = Some v \<and> in_step (ses_subs s) v)"

definition stays_in_step :: "('w, 's, 'p, 'd) session \<Rightarrow> ('w, 's, 'p, 'd) session \<Rightarrow> bool" where
  "stays_in_step s t \<longleftrightarrow> (client_in_step s \<and> roomy (ses_subs s) \<longrightarrow> client_in_step t)"

lemma stays_in_stepI:
  assumes "\<And>v. in_step (ses_subs s) v \<Longrightarrow> roomy (ses_subs s) \<Longrightarrow> \<exists>v'. client_view ms v = Some v' \<and> in_step c v'"
  shows "stays_in_step s (s\<lparr>ses_subs := c, ses_sent := ses_sent s @ ms\<rparr>)"
  using assms by (fastforce simp: stays_in_step_def client_in_step_def client_view_append)

interpretation step_law: session_law stays_in_step
proof
  show "stays_in_step s (s\<lparr>ses_host := w\<rparr>)" for s :: "('w, 's, 'p, 'd) session" and w
    by (simp add: stays_in_step_def client_in_step_def)
  show "stays_in_step s (s\<lparr>ses_subs := c\<rparr>)" if "subs_remove i (ses_subs s) = (removed, c)"
    for s :: "('w, 's, 'p, 'd) session" and i removed c
    using that remove_in_step[of "ses_subs s" _ i] by (fastforce simp: stays_in_step_def client_in_step_def)
  show "stays_in_step s (s\<lparr>ses_subs := record_mutation latency rejection (ses_subs s)\<rparr>)"
    for s :: "('w, 's, 'p, 'd) session" and latency rejection
    by (simp add: stays_in_step_def client_in_step_def)
  show "stays_in_step s (s\<lparr>ses_subs := record_dropped_updates missed (ses_subs s)\<rparr>)"
    for s :: "('w, 's, 'p, 'd) session" and missed
    by (simp add: stays_in_step_def client_in_step_def)
qed (rule stays_in_stepI; erule (2) accept_in_step resync_in_step patch_in_step following_in_step)+

text \<open>What a transport starts on a connection; what the handler returns goes to the transport.\<close>

definition started :: "('s, 'a) task \<Rightarrow> ('s, unit) task" where
  "started t = task_bind t (\<lambda>_. Done ())"

inductive handler ::
  "('w, 's, 'p, 'd, 'm, 'c, 'n, 'f) host \<Rightarrow> (('w, 's, 'p, 'd) session, unit) task \<Rightarrow> bool"
  for H
where
  serves: "handler H (started (serve H request))"
| publishes: "handler H (started (publish H accepted))"
| publishes_command: "handler H (started (publish_command H rc))"
| announces: "handler H (started (deliver_announcement H announced))"
| changes: "handler H (started (deliver_change H change))"
| resyncs_all: "handler H (started (resync_all H reason))"
| runs_mutation: "handler H (started (run_mutation H who mutation params))"
| runs_command: "handler H (started (run_command H who request))"

text \<open>
  How a connection goes on: a transport starts a handler, some handler that is not over takes its next
  step, the application's world changes, or the transport counts updates it missed. The connection goes
  on while none of its 64-bit numbers has run out.
\<close>

inductive proceeds ::
  "('w, 's, 'p, 'd, 'm, 'c, 'n, 'f) host \<Rightarrow>
   ('w, 's, 'p, 'd) session \<times> (('w, 's, 'p, 'd) session, unit) task list \<Rightarrow>
   ('w, 's, 'p, 'd) session \<times> (('w, 's, 'p, 'd) session, unit) task list \<Rightarrow> bool"
  for H
where
  starts: "handler H t \<Longrightarrow> roomy (ses_subs s) \<Longrightarrow> proceeds H (s, ts) (s, ts @ [t])"
| steps: "n < length ts \<Longrightarrow> ts ! n = Step u k \<Longrightarrow> roomy (ses_subs s) \<Longrightarrow>
    proceeds H (s, ts) (u s, ts[n := k s])"
| host_changes: "roomy (ses_subs s) \<Longrightarrow> proceeds H (s, ts) (s\<lparr>ses_host := w\<rparr>, ts)"
| lags: "roomy (ses_subs s) \<Longrightarrow> proceeds H (s, ts) (s\<lparr>ses_subs := record_dropped_updates missed (ses_subs s)\<rparr>, ts)"

inductive_cases handlerE: "handler H t"

definition opened_session :: "'w \<Rightarrow> principal \<Rightarrow> ('w, 's, 'p, 'd) session" where
  "opened_session w who = \<lparr>ses_host = w, ses_subs = subscriptions_new who, ses_sent = []\<rparr>"

definition connection ::
  "('w, 's, 'p, 'd, 'm, 'c, 'n, 'f) host \<Rightarrow> ('w, 's, 'p, 'd) session \<Rightarrow>
   (('w, 's, 'p, 'd) session, unit) task list \<Rightarrow> bool"
where
  "connection H s ts \<longleftrightarrow> (\<exists>w who. (proceeds H)\<^sup>*\<^sup>* (opened_session w who, []) (s, ts))"

context session_law
begin

lemma keeps_handler: "handler H t \<Longrightarrow> keeps R t"
  by (erule handlerE) (auto simp: started_def run_mutation_def run_command_def
      intro!: keeps_bind keeps_serve keeps_publishing keeps_deliver_change keeps_resync_all keeps_executing)

text \<open>A connection whose tasks all keep the relation stays one, and goes on within it.\<close>

lemma proceeds_keeps:
  assumes "proceeds H (s, ts) (t, us)" and "list_all (keeps R) ts"
  shows "list_all (keeps R) us \<and> R s t \<and> roomy (ses_subs s)"
  using assms(1)
proof (cases rule: proceeds.cases)
  case (steps n u k)
  then have "keeps R (Step u k)" using assms(2) by (metis list_all_length)
  with steps assms(2) show ?thesis by (auto simp: list_all_length nth_list_update)
qed (use assms(2) in \<open>auto simp: keeps_handler stays host_moves misses\<close>)

lemma connection_invariant:
  assumes "(proceeds H)\<^sup>*\<^sup>* (s, ts) (t, us)" and "list_all (keeps R) ts" and "P s"
    and step: "\<And>s t. R s t \<Longrightarrow> roomy (ses_subs s) \<Longrightarrow> P s \<Longrightarrow> P t"
  shows "list_all (keeps R) us \<and> P t"
  using assms(1)
proof (induction "(t, us)" arbitrary: t us rule: rtranclp_induct)
  case base
  then show ?case using assms(2,3) by simp
next
  case (step y)
  then obtain s' ts' where y: "y = (s', ts')" by fastforce
  with step have "list_all (keeps R) ts' \<and> P s'" by blast
  with y step.hyps(2) proceeds_keeps assms(4) show ?case by blast
qed

end

text \<open>
  (C5) A client stays in step with its connection. However the handlers of a connection interleave,
  whatever the application does in between, as long as no 64-bit number has run out: every message the
  connection made for its client applies to what the client holds (a new subscription is one it does not
  have, a patch starts at the revision it stands at and advances it, a snapshot never takes it back),
  and the client then stands, for every subscription, at the revision the connection recorded.
\<close>

theorem clients_stay_in_step:
  assumes "connection H s ts"
  shows "\<exists>view. client_view (ses_sent s) Map.empty = Some view
    \<and> (\<forall>i sub. subs_get (ses_subs s) i = Some sub \<longrightarrow> view i = Some (sub_revision sub))"
proof -
  obtain w who where run: "(proceeds H)\<^sup>*\<^sup>* (opened_session w who, []) (s, ts)"
    using assms by (auto simp: connection_def)
  have "client_in_step (opened_session w who)"
    by (simp add: opened_session_def client_in_step_def in_step_def subscriptions_new_def subs_get_def)
  then have "client_in_step s"
    using step_law.connection_invariant[OF run, of client_in_step, simplified]
    unfolding stays_in_step_def by blast
  then show ?thesis by (auto simp: client_in_step_def in_step_def)
qed

section \<open>Subscriptions over time\<close>

text \<open>
  One subscription after another: numbers are not handed out again, a subscription keeps its projection
  and parameters and never goes back, what is sent is not taken back.
\<close>

definition onward :: "('w, 's, 'p, 'd) session \<Rightarrow> ('w, 's, 'p, 'd) session \<Rightarrow> bool" where
  "onward s t \<longleftrightarrow>
     ss_principal (ses_subs t) = ss_principal (ses_subs s)
     \<and> ss_next_subscription_id (ses_subs s) \<le> ss_next_subscription_id (ses_subs t)
     \<and> (\<forall>i sub. subs_get (ses_subs t) i = Some sub \<longrightarrow> i < ss_next_subscription_id (ses_subs s) \<longrightarrow>
          (\<exists>before. subs_get (ses_subs s) i = Some before
             \<and> sub_projection sub = sub_projection before \<and> sub_params sub = sub_params before
             \<and> sub_revision before \<le> sub_revision sub))
     \<and> (\<exists>rest. ses_sent t = ses_sent s @ rest)"

lemma onward_refl: "onward s s"
  by (auto simp: onward_def)

lemma onwardD:
  "onward s t \<Longrightarrow> subs_get (ses_subs t) i = Some sub \<Longrightarrow> i < ss_next_subscription_id (ses_subs s) \<Longrightarrow>
   \<exists>before. subs_get (ses_subs s) i = Some before
     \<and> sub_projection sub = sub_projection before \<and> sub_params sub = sub_params before
     \<and> sub_revision before \<le> sub_revision sub"
  by (simp add: onward_def)

lemma onward_next: "onward s t \<Longrightarrow> ss_next_subscription_id (ses_subs s) \<le> ss_next_subscription_id (ses_subs t)"
  by (simp add: onward_def)

lemma onward_trans:
  assumes "onward s t" and "onward t u"
  shows "onward s u"
proof -
  have kept: "\<exists>before. subs_get (ses_subs s) i = Some before
      \<and> sub_projection sub = sub_projection before \<and> sub_params sub = sub_params before
      \<and> sub_revision before \<le> sub_revision sub"
    if sub: "subs_get (ses_subs u) i = Some sub" and old: "i < ss_next_subscription_id (ses_subs s)" for i sub
  proof -
    have "i < ss_next_subscription_id (ses_subs t)"
      using onward_next[OF assms(1)] old by simp
    then obtain mid where "subs_get (ses_subs t) i = Some mid" "sub_projection sub = sub_projection mid"
        "sub_params sub = sub_params mid" "sub_revision mid \<le> sub_revision sub"
      using onwardD[OF assms(2) sub] by blast
    moreover from onwardD[OF assms(1) this(1) old] obtain before where "subs_get (ses_subs s) i = Some before"
        "sub_projection mid = sub_projection before" "sub_params mid = sub_params before"
        "sub_revision before \<le> sub_revision mid" by blast
    ultimately show ?thesis by (metis order_trans)
  qed
  moreover have "ss_next_subscription_id (ses_subs s) \<le> ss_next_subscription_id (ses_subs u)"
    using onward_next[OF assms(1)] onward_next[OF assms(2)] by simp
  moreover have "ss_principal (ses_subs u) = ss_principal (ses_subs s)" "\<exists>rest. ses_sent u = ses_sent s @ rest"
    using assms by (auto simp: onward_def)
  ultimately show ?thesis by (simp add: onward_def)
qed

definition goes_onward :: "('w, 's, 'p, 'd) session \<Rightarrow> ('w, 's, 'p, 'd) session \<Rightarrow> bool" where
  "goes_onward s t \<longleftrightarrow> (roomy (ses_subs s) \<longrightarrow> onward s t)"

lemma onward_set:
  assumes "roomy (ses_subs s)" and "subs_get (ses_subs s) i = Some before"
    and "ss_principal c = ss_principal (ses_subs s)"
    and "ss_next_subscription_id c = ss_next_subscription_id (ses_subs s)"
    and "subs_get c = (subs_get (ses_subs s))(i \<mapsto> sub)"
    and "sub_projection sub = sub_projection before" and "sub_params sub = sub_params before"
    and "sub_revision before \<le> sub_revision sub"
  shows "onward s (s\<lparr>ses_subs := c, ses_sent := ses_sent s @ rest\<rparr>)"
  using assms by (auto simp: onward_def)

lemma counters_principal [simp]:
  "ss_principal (record_resync reason c) = ss_principal c"
  "ss_principal (record_dropped_updates n c) = ss_principal c"
  "ss_principal (record_mutation latency rejection c) = ss_principal c"
  by (simp_all add: record_resync_def record_dropped_updates_def record_mutation_def Let_def)

interpretation onward_law: session_law goes_onward
proof
  show "goes_onward s (s\<lparr>ses_host := w\<rparr>)" for s :: "('w, 's, 'p, 'd) session" and w
    by (auto simp: goes_onward_def onward_def)
next
  fix s :: "('w, 's, 'p, 'd) session" and to_value projection params held snapshot delivered accepted
    and events :: "('s, 'p) transport_event list" and c
  assume "accept_subscription to_value projection params held snapshot delivered (ses_subs s)
      = ((accepted, events), c)"
  then show "goes_onward s (s\<lparr>ses_subs := c, ses_sent := ses_sent s @ Opened accepted # map Update events\<rparr>)"
    by (auto simp: goes_onward_def onward_def accept_subscription_def subs_insert_def record_delivery_def Let_def
        roomy_def less_imp_le succ_greater split: if_splits prod.splits)
next
  fix s :: "('w, 's, 'p, 'd) session" and to_value i snapshot delivered reason c
    and sent :: "(resync_accepted \<times> ('s, 'p) transport_event) option"
  assume "subs_resync to_value i snapshot delivered reason (ses_subs s) = (sent, c)"
  then show "goes_onward s (s\<lparr>ses_subs := c, ses_sent := ses_sent s @ optional_update (map_option snd sent)\<rparr>)"
    by (auto simp: goes_onward_def subs_resync_def record_delivery_def Let_def fun_eq_iff
        split: option.splits intro!: onward_set onward_refl dest: roomy_advances[THEN less_imp_le])
next
  fix s :: "('w, 's, 'p, 'd) session" and to_value i to_revision patch left c
    and event :: "('s, 'p) transport_event option"
  assume "deliver_patch to_value i to_revision patch left (ses_subs s) = (event, c)"
  then show "goes_onward s (s\<lparr>ses_subs := c, ses_sent := ses_sent s @ optional_update event\<rparr>)"
    by (auto simp: goes_onward_def deliver_patch_def Let_def fun_eq_iff le_max_iff_disj
        split: option.splits intro!: onward_set onward_refl dest: roomy_advances[THEN less_imp_le])
next
  fix s :: "('w, 's, 'p, 'd) session" and to_value i from_revision patch following c
    and delivery :: "following_delivery + ('s, 'p) transport_event"
  assume "deliver_following to_value i from_revision patch following (ses_subs s) = (delivery, c)"
  then show "goes_onward s (s\<lparr>ses_subs := c, ses_sent := ses_sent s @ optional_update (res_ok delivery)\<rparr>)"
  proof (cases delivery)
    case (Inl refused)
    then show ?thesis
      using \<open>deliver_following _ _ _ _ _ _ = _\<close>
      by (auto simp: goes_onward_def deliver_following_def onward_refl split: option.splits if_splits)
  next
    case (Inr event)
    then show ?thesis
      using \<open>deliver_following _ _ _ _ _ _ = _\<close>
      by (auto simp: goes_onward_def deliver_following_def fun_eq_iff split: option.splits if_splits
          intro!: onward_set dest: roomy_advances[THEN less_imp_le])
  qed
next
  show "goes_onward s (s\<lparr>ses_subs := c\<rparr>)" if "subs_remove i (ses_subs s) = (removed, c)"
    for s :: "('w, 's, 'p, 'd) session" and i removed c
    using that by (auto simp: goes_onward_def onward_def subs_remove_def subs_get_def split: if_splits)
qed (auto simp: goes_onward_def onward_def)

text \<open>
  (C32) Subscriptions live on. From any moment of a connection to any later one, however its handlers
  interleave: it acts as the same principal; numbers are not handed out again, so a subscription with an
  earlier number is one that was there before, on the same projection with the same parameters, at a
  revision it has not gone back from, and one that ended does not come back; and what was sent stays
  sent.
\<close>

theorem subscriptions_live_on:
  assumes "connection H s ts" and "(proceeds H)\<^sup>*\<^sup>* (s, ts) (t, us)"
  shows "ss_principal (ses_subs t) = ss_principal (ses_subs s)
    \<and> ss_next_subscription_id (ses_subs s) \<le> ss_next_subscription_id (ses_subs t)
    \<and> (\<forall>i sub. subs_get (ses_subs t) i = Some sub \<longrightarrow> i < ss_next_subscription_id (ses_subs s) \<longrightarrow>
         (\<exists>before. subs_get (ses_subs s) i = Some before
            \<and> sub_projection sub = sub_projection before \<and> sub_params sub = sub_params before
            \<and> sub_revision before \<le> sub_revision sub))
    \<and> (\<exists>rest. ses_sent t = ses_sent s @ rest)"
proof -
  obtain w who where run: "(proceeds H)\<^sup>*\<^sup>* (opened_session w who, []) (s, ts)"
    using assms(1) by (auto simp: connection_def)
  have "list_all (keeps goes_onward) ts"
    using onward_law.connection_invariant[OF run, of "\<lambda>_. True"] by simp
  moreover have "onward s b" if "goes_onward a b" "roomy (ses_subs a)" "onward s a" for a b
    using that onward_trans unfolding goes_onward_def by blast
  ultimately have "onward s t"
    using onward_law.connection_invariant[OF assms(2), of "onward s"] onward_refl by blast
  then show ?thesis by (simp add: onward_def)
qed

end
