(* ===== verification/Delivering.thy ===== *)
theory Delivering
  imports Sessions
begin

text \<open>
  What one handler does, run to its end: the updates it returns are the ones its steps made, a change
  reaches exactly the subscriptions it affects, a subscription resumes exactly where its client holds
  what it would be sent, and a refused request changes no subscription.
\<close>

section \<open>What a handler returns is what it made\<close>

fun update_of :: "('s, 'p) message \<Rightarrow> ('s, 'p) transport_event list" where
  "update_of (Opened _) = []"
| "update_of (Update e) = [e]"

definition updates :: "('s, 'p) message list \<Rightarrow> ('s, 'p) transport_event list" where
  "updates ms = concat (map update_of ms)"

lemma updates_simps [simp]:
  "updates [] = []" "updates (ms @ ns) = updates ms @ updates ns" "updates (m # ms) = update_of m @ updates ms"
  "updates (map Update es) = es"
  by (simp_all add: updates_def) (induction es; simp)

lemma updates_optional [simp]: "updates (optional_update e) = (case e of None \<Rightarrow> [] | Some x \<Rightarrow> [x])"
  by (cases e) simp_all

text \<open>
  \<open>tells pre out t\<close>: run from any session, the updates \<open>t\<close> makes, after those in \<open>pre\<close>, are what \<open>out\<close>
  reads off its result.
\<close>

definition tells ::
  "('s, 'p) transport_event list \<Rightarrow> ('a \<Rightarrow> ('s, 'p) transport_event list) \<Rightarrow>
   (('w, 's, 'p, 'd) session, 'a) task \<Rightarrow> bool"
where
  "tells pre out t \<longleftrightarrow> (\<forall>s. \<exists>made. ses_sent (snd (run t s)) = ses_sent s @ made
     \<and> pre @ updates made = out (fst (run t s)))"

named_theorems tells_intro \<open>how a task is seen to return what it made\<close>

lemma tells_Done [tells_intro]: "pre = out a \<Longrightarrow> tells pre out (Done a)"
  by (simp add: tells_def)

lemma tells_bind:
  assumes "tells [] o1 m" and "\<And>a. tells (pre @ o1 a) out (f a)"
  shows "tells pre out (task_bind m f)"
  unfolding tells_def
proof
  fix s
  obtain a t where m: "run m s = (a, t)" by fastforce
  obtain made where 1: "ses_sent t = ses_sent s @ made" "updates made = o1 a"
    using assms(1) m unfolding tells_def by (metis append_Nil fst_conv snd_conv)
  obtain made' where 2: "ses_sent (snd (run (f a) t)) = ses_sent t @ made'"
      "(pre @ o1 a) @ updates made' = out (fst (run (f a) t))"
    using assms(2)[of a] unfolding tells_def by blast
  show "\<exists>made. ses_sent (snd (run (task_bind m f) s)) = ses_sent s @ made
      \<and> pre @ updates made = out (fst (run (task_bind m f) s))"
    using 1 2 by (intro exI[of _ "made @ made'"]) (simp add: run_bind m)
qed

lemma tells_silent:
  "tells [] (\<lambda>_. []) m \<Longrightarrow> (\<And>a. tells pre out (f a)) \<Longrightarrow> tells pre out (task_bind m f)"
  by (rule tells_bind[where ?o1.0 = "\<lambda>_. []"]) simp_all

lemma tells_try:
  assumes "tells [] (\<lambda>_. []) m" and "\<And>e. pre = out (Inl e)" and "\<And>a. tells pre out (f a)"
  shows "tells pre out (task_try m f)"
  unfolding task_try_def
proof (rule tells_silent[OF assms(1)])
  show "tells pre out (case r of Inl e \<Rightarrow> Done (Inl e) | Inr a \<Rightarrow> f a)" for r
    using assms(2,3) by (cases r) (auto intro: tells_Done)
qed

lemma tells_host: "tells [] (\<lambda>_. []) (ask_host m)"
  by (simp add: tells_def ask_host_def split: prod.splits)

lemma tells_read:
  "tells [] (\<lambda>_. []) (read_subscriptions f)" "tells [] (\<lambda>_. []) principal_of"
  by (simp_all add: tells_def read_subscriptions_def principal_of_def)

lemma tells_with: "(\<And>r. out r = updates (sends r)) \<Longrightarrow> tells [] out (with_subscriptions sends f)"
  by (simp add: tells_def with_subscriptions_def split: prod.splits)

lemma tells_gather [tells_intro]: "(\<And>x. tells [] id (f x)) \<Longrightarrow> tells [] id (task_gather f xs)"
proof (induction xs)
  case (Cons x xs)
  then show ?case
    unfolding task_gather.simps
    by (intro tells_bind[where ?o1.0 = id] tells_Done) (simp_all add: id_def)
qed (simp add: tells_def)

lemma tells_option [tells_intro]:
  "tells pre out m \<Longrightarrow> (\<And>a. tells pre out (f a)) \<Longrightarrow> tells pre out (case x of None \<Rightarrow> m | Some a \<Rightarrow> f a)"
  by (cases x) simp_all

lemma tells_sum [tells_intro]:
  "(\<And>a. tells pre out (f a)) \<Longrightarrow> (\<And>b. tells pre out (g b)) \<Longrightarrow> tells pre out (case x of Inl a \<Rightarrow> f a | Inr b \<Rightarrow> g b)"
  by (cases x) simp_all

lemma tells_prod [tells_intro]: "(\<And>a b. tells pre out (f a b)) \<Longrightarrow> tells pre out (case x of (a, b) \<Rightarrow> f a b)"
  by (cases x) simp

lemma tells_if [tells_intro]: "tells pre out m \<Longrightarrow> tells pre out n \<Longrightarrow> tells pre out (if b then m else n)"
  by simp

lemma tells_pure: "tells [] (\<lambda>_. []) (Done r)"
  by (simp add: tells_def)

lemmas tells_quiet [tells_intro] =
  tells_silent[OF tells_host] tells_silent[OF tells_read(1)] tells_silent[OF tells_read(2)]
  tells_try[OF tells_host] tells_try[OF tells_pure]

lemma tells_snapshot_for: "tells [] (\<lambda>_. []) (snapshot_for H who projection params held)"
  unfolding snapshot_for_def by (intro tells_intro) simp_all

lemmas tells_snapshot [tells_intro] = tells_silent[OF tells_snapshot_for] tells_try[OF tells_snapshot_for]

lemma tells_patch:
  "tells [] id (task_bind (with_subscriptions optional_update (deliver_patch to_value i r p left)) (\<lambda>event.
     Done (case event of None \<Rightarrow> [] | Some e \<Rightarrow> [e])))"
  by (rule tells_bind[where ?o1.0 = "\<lambda>e. case e of None \<Rightarrow> [] | Some x \<Rightarrow> [x]"])
    (auto intro!: tells_with tells_Done)

lemma tells_deliver: "tells [] snd (deliver H source)"
proof -
  have one: "tells [] id (deliver_to H source revision entry)" for revision entry
    unfolding deliver_to_def Let_def by (intro tells_intro tells_patch) simp
  have "tells [] snd (task_bind (task_gather (deliver_to H source revision) affected) (\<lambda>events. Done (revision, events)))"
    for revision affected
    by (rule tells_bind[where ?o1.0 = id]) (auto intro!: tells_gather one tells_Done)
  note loop = this
  show ?thesis unfolding deliver_def Let_def by (intro loop tells_intro) simp_all
qed

lemma tells_resync_all: "tells [] id (resync_all H reason)"
proof -
  have "tells [] id (task_bind (with_subscriptions (\<lambda>sent. optional_update (map_option snd sent))
      (subs_resync to_value i snapshot delivered reason)) (\<lambda>sent.
      Done (case sent of None \<Rightarrow> [] | Some (_, event) \<Rightarrow> [event])))" for to_value i snapshot delivered
    by (rule tells_bind[where ?o1.0 = "\<lambda>e. case e of None \<Rightarrow> [] | Some (_, x) \<Rightarrow> [x]"])
      (auto intro!: tells_with tells_Done split: option.splits)
  note sending = this
  have "tells [] id (resync_one H who reason entry)" for who entry
    unfolding resync_one_def Let_def by (intro sending tells_intro) simp_all
  note turn = this
  show ?thesis unfolding resync_all_def by (intro turn tells_intro)
qed

lemma tells_deliver_change: "tells [] id (deliver_change H change)"
proof -
  have "tells [] id (task_bind (with_subscriptions (\<lambda>sent. optional_update (res_ok sent))
      (deliver_following to_value i r p delivered)) (\<lambda>delivery.
      Done (case delivery of Inl _ \<Rightarrow> [] | Inr e \<Rightarrow> [e])))" for to_value i r p delivered
    by (rule tells_bind[where ?o1.0 = "\<lambda>e. case e of Inl _ \<Rightarrow> [] | Inr x \<Rightarrow> [x]"])
      (auto intro!: tells_with tells_Done simp: res_ok_def split: sum.splits)
  note sending = this
  have "tells [] id (change_to H A change who entry)" for A who entry
    unfolding change_to_def Let_def by (intro sending tells_intro tells_patch) simp_all
  note turn = this
  show ?thesis unfolding deliver_change_def by (intro turn tells_intro) simp_all
qed

section \<open>Requests\<close>

text \<open>
  The answers the session builds from its own fields and from values that are JSON already encode, as
  plain derived structures do. The answer to a command carries the application's result and is another
  matter.
\<close>

definition plain_answers_encode :: "('s, 'p, 'd, 'm, 'c) wire \<Rightarrow> bool" where
  "plain_answers_encode W \<longleftrightarrow>
     (\<forall>a. wire_subscribe_accepted W a \<noteq> None) \<and> (\<forall>a. wire_resync_accepted W a \<noteq> None)
     \<and> (\<forall>a. wire_unsubscribe_accepted W a \<noteq> None) \<and> (\<forall>a. wire_mutation_accepted W a \<noteq> None)"

definition answers_encode :: "('s, 'p, 'd, 'm, 'c) wire \<Rightarrow> bool" where
  "answers_encode W \<longleftrightarrow> plain_answers_encode W \<and> (\<forall>a. wire_command_accepted W a \<noteq> None)"

lemma encode_plain_answers:
  assumes "plain_answers_encode (host_wire H)"
  shows "\<exists>v. encode H (wire_subscribe_accepted (host_wire H) sa) = Inr v"
    "\<exists>v. encode H (wire_resync_accepted (host_wire H) ra) = Inr v"
    "\<exists>v. encode H (wire_unsubscribe_accepted (host_wire H) ua) = Inr v"
    "\<exists>v. encode H (wire_mutation_accepted (host_wire H) ma) = Inr v"
  using assms by (auto simp: plain_answers_encode_def encode_def)

lemma encode_command_answer:
  "answers_encode (host_wire H) \<Longrightarrow> \<exists>v. encode H (wire_command_accepted (host_wire H) ca) = Inr v"
  by (auto simp: answers_encode_def encode_def)

lemma run_steps [simp]:
  "run (read_subscriptions f) s = (f (ses_subs s), s)"
  "run principal_of s = (ss_principal (ses_subs s), s)"
  "run (ask_host m) s = (fst (m (ses_host s)), s\<lparr>ses_host := snd (m (ses_host s))\<rparr>)"
  "run (with_subscriptions sends g) s =
     (fst (g (ses_subs s)),
      s\<lparr>ses_subs := snd (g (ses_subs s)), ses_sent := ses_sent s @ sends (fst (g (ses_subs s)))\<rparr>)"
  by (simp_all add: read_subscriptions_def principal_of_def ask_host_def with_subscriptions_def split: prod.splits)

text \<open>A task that leaves the subscriptions and what was sent as they were.\<close>

definition calm :: "(('w, 's, 'p, 'd) session, 'a) task \<Rightarrow> bool" where
  "calm t \<longleftrightarrow> (\<forall>s. ses_subs (snd (run t s)) = ses_subs s \<and> ses_sent (snd (run t s)) = ses_sent s)"

lemma calm_intros:
  "calm (Done a)" "calm (ask_host m)"
  "calm m' \<Longrightarrow> (\<And>a. calm (f a)) \<Longrightarrow> calm (task_bind m' f)"
  "calm m'' \<Longrightarrow> (\<And>a. calm (g a)) \<Longrightarrow> calm (task_try m'' g)"
  by (auto simp: calm_def run_bind run_try split: prod.splits sum.splits) (metis snd_conv)+

lemma calms: "calm principal_of" "calm (read_subscriptions f)"
  by (simp_all add: calm_def)

lemma calm_snapshot_for: "calm (snapshot_for H who projection params held)"
  unfolding snapshot_for_def by (auto split: option.splits intro!: calm_intros)

lemma calm_executing:
  "calm (execute_mutation H who mutation params)" "calm (execute_command H who request)"
  unfolding execute_mutation_def execute_command_def Let_def by (auto intro!: calm_intros)

lemma calmD: "calm t \<Longrightarrow> run t s = (r, s') \<Longrightarrow> ses_subs s' = ses_subs s \<and> ses_sent s' = ses_sent s"
  unfolding calm_def by (metis snd_conv)

text \<open>\<open>spares t\<close>: when \<open>t\<close> fails, the subscriptions and what was sent are as they were.\<close>

definition spares :: "(('w, 's, 'p, 'd) session, 'f + 'a) task \<Rightarrow> bool" where
  "spares t \<longleftrightarrow> (\<forall>s e s'. run t s = (Inl e, s') \<longrightarrow> ses_subs s' = ses_subs s \<and> ses_sent s' = ses_sent s)"

lemma spares_Done: "spares (Done a)"
  by (simp add: spares_def)

lemma spares_bind: "calm m \<Longrightarrow> (\<And>a. spares (f a)) \<Longrightarrow> spares (task_bind m f)"
  by (auto simp: spares_def run_bind split: prod.splits dest!: calmD)

lemma spares_try: "calm m \<Longrightarrow> (\<And>a. spares (f a)) \<Longrightarrow> spares (task_try m f)"
  unfolding task_try_def by (rule spares_bind) (auto split: sum.splits simp: spares_Done)

lemma spares_answered: "(\<And>a. \<exists>b. f a = Inr b) \<Longrightarrow> spares (task_bind m (\<lambda>a. Done (f a)))"
  by (auto simp: spares_def run_bind split: prod.splits) (metis Inl_Inr_False)+

lemma spares_answered_pair: "(\<And>a b. \<exists>c. f a b = Inr c) \<Longrightarrow> spares (task_bind m (\<lambda>(a, b). Done (f a b)))"
  using spares_answered[of "\<lambda>x. f (fst x) (snd x)" m] by (simp add: case_prod_beta')

lemma answer_given: "\<exists>v. r = Inr v \<Longrightarrow> \<exists>b. res_bind r (\<lambda>v. Inr (g v)) = Inr b"
  by auto

lemma spares_requests:
  assumes "plain_answers_encode (host_wire H)"
  shows "spares (subscribe H sub)" "spares (resync H re)" "spares (unsubscribe H un)" "spares (mutate H mu)"
proof -
  note answers = encode_plain_answers[OF assms]
  show "spares (subscribe H sub)"
    unfolding subscribe_def Let_def
    by (auto split: option.splits prod.splits
        intro!: spares_Done spares_bind[OF calms(1)] spares_try[OF calm_snapshot_for] spares_answered_pair answer_given answers)
  have tail: "spares (task_bind (with_subscriptions (\<lambda>sent. optional_update (map_option snd sent))
      (subs_resync to_value i snapshot delivered reason)) (\<lambda>sent.
      task_try (Done (ok_or e sent)) (\<lambda>(accepted, event).
      Done (res_bind (encode H (wire_resync_accepted (host_wire H) accepted)) (\<lambda>result. Inr (g event result))))))"
    for to_value i snapshot delivered reason e g
    using answers(2)
    by (auto simp: spares_def run_bind run_try subs_resync_def Let_def ok_or_def
        split: option.splits prod.splits) (metis Inl_Inr_False res_bind_simps(2))+
  show "spares (resync H re)"
    unfolding resync_def Let_def
    by (auto split: prod.splits
        intro!: spares_bind[OF calms(2)] spares_bind[OF calms(1)] spares_try[OF calm_snapshot_for]
          spares_try[OF calm_intros(1)] tail)
  show "spares (unsubscribe H un)"
    unfolding unsubscribe_def by (intro spares_answered answer_given answers)
  show "spares (mutate H mu)"
    unfolding mutate_def Let_def
    by (auto split: prod.splits
        intro!: spares_bind[OF calms(1)] spares_try[OF calm_executing(1)] spares_try[OF calm_intros(1)]
          spares_answered_pair answer_given answers)
qed

text \<open>A command fails before it is published, or in encoding its answer, after it was.\<close>

lemma command_fails:
  assumes "run (task_try (execute_command H who r) (reply_to_command H)) s = (Inl failure, s')"
  shows "(ses_subs s' = ses_subs s \<and> ses_sent s' = ses_sent s)
    \<or> (\<exists>rc ran revision events. run (execute_command H who r) s = (Inr rc, ran)
        \<and> run (publish_command H rc) ran = ((revision, events), s')
        \<and> wire_command_accepted (host_wire H) (command_accepted_of rc revision) = None)"
proof (cases "run (execute_command H who r) s")
  case (Pair result ran)
  show ?thesis
  proof (cases result)
    case (Inl e)
    then show ?thesis using assms Pair calmD[OF calm_executing(2) Pair] by (simp add: run_try)
  next
    case (Inr rc)
    then show ?thesis using assms Pair
      by (auto simp: run_try run_bind reply_to_command_def encode_def split: prod.splits option.splits)
  qed
qed

text \<open>
  (C13) What a refused request changes. A request that fails, whichever it is and for whatever reason,
  leaves every subscription as it was, hands out no number and has sent its client nothing; only the
  counts of mutations may have changed. There is exactly one exception: a command that ran, whose
  subscribers were told, and whose answer around the application's result does not encode; its client
  is refused and the connection is as publishing the command left it.
\<close>

theorem refused_requests_change_nothing:
  assumes "plain_answers_encode (host_wire H)" and "run (serve H request) s = (Inl failure, s')"
  shows "(ss_subscriptions (ses_subs s') = ss_subscriptions (ses_subs s)
      \<and> ss_next_subscription_id (ses_subs s') = ss_next_subscription_id (ses_subs s)
      \<and> ses_sent s' = ses_sent s)
    \<or> (\<exists>r rc ran revision events. request = CommandRequest r
        \<and> run (execute_command H (ss_principal (ses_subs s)) r) s = (Inr rc, ran)
        \<and> run (publish_command H rc) ran = ((revision, events), s')
        \<and> wire_command_accepted (host_wire H) (command_accepted_of rc revision) = None)"
proof (cases "\<exists>r. request = CommandRequest r")
  case True
  then obtain r where request: "request = CommandRequest r" ..
  obtain e where "run (task_try (execute_command H (ss_principal (ses_subs s)) r) (reply_to_command H)) s
      = (Inl e, s')"
    using assms(2) by (auto simp: request serve_def serve_outcome_def run_bind map_err_Inl_iff split: prod.splits)
  from command_fails[OF this] request show ?thesis by fastforce
next
  case False
  then have "spares (serve_outcome H request)"
    unfolding serve_outcome_def using spares_requests[OF assms(1)] by (cases request) auto
  then show ?thesis
    using assms(2) unfolding spares_def serve_def Let_def
    by (fastforce simp: run_bind map_err_Inl_iff split: prod.splits if_splits)
qed

definition reply_updates :: "'f + ('s, 'p, 'm, 'c) reply \<Rightarrow> ('s, 'p) transport_event list" where
  "reply_updates r = (case r of Inl _ \<Rightarrow> [] | Inr reply \<Rightarrow> rp_events reply)"

lemma reply_updates_simps [simp]: "reply_updates (Inl e) = []" "reply_updates (Inr reply) = rp_events reply"
  by (simp_all add: reply_updates_def)

lemma tells_answer:
  "\<exists>v. r = Inr v \<Longrightarrow>
   tells es reply_updates (Done (res_bind r (\<lambda>v. Inr \<lparr>rp_result = v, rp_events = es, rp_accepted = x\<rparr>)))"
  by (auto intro: tells_Done)

lemma tells_published:
  "tells [] snd (publish H accepted)" "tells [] snd (publish_command H rc)"
  by (simp_all add: publish_def publish_command_def tells_deliver)

lemma tells_executing:
  "tells [] (\<lambda>_. []) (execute_mutation H who mutation params)" "tells [] (\<lambda>_. []) (execute_command H who request)"
  unfolding execute_mutation_def execute_command_def Let_def
  by (auto intro!: tells_Done tells_host tells_try[OF tells_host])

lemma tells_bind_pair:
  "tells [] snd m \<Longrightarrow> (\<And>a es. tells es out (f a es)) \<Longrightarrow> tells [] out (task_bind m (\<lambda>(a, es). f a es))"
  by (rule tells_bind[where ?o1.0 = snd]) (auto split: prod.splits)

lemma tells_requests:
  assumes "answers_encode (host_wire H)"
  shows "tells [] reply_updates (subscribe H sub)" "tells [] reply_updates (resync H re)"
    "tells [] reply_updates (unsubscribe H un)" "tells [] reply_updates (mutate H mu)"
    "tells [] reply_updates (reply_to_command H rc)"
proof -
  have "plain_answers_encode (host_wire H)" using assms by (simp add: answers_encode_def)
  note answers = encode_plain_answers[OF this] encode_command_answer[OF assms]
  show "tells [] reply_updates (subscribe H sub)"
    unfolding subscribe_def Let_def
    by (intro tells_if tells_quiet tells_snapshot tells_prod tells_bind_pair tells_answer answers)
      (auto intro!: tells_with tells_Done)
  have tail: "tells [] reply_updates (task_bind (with_subscriptions (\<lambda>sent. optional_update (map_option snd sent))
      (subs_resync to_value i snapshot delivered reason)) (\<lambda>sent.
      task_try (Done (ok_or e sent)) (\<lambda>(accepted, event).
      Done (res_bind (encode H (wire_resync_accepted (host_wire H) accepted)) (\<lambda>v.
        Inr \<lparr>rp_result = v, rp_events = [event], rp_accepted = None\<rparr>)))))"
    for to_value i snapshot delivered reason e
  proof (rule tells_bind[where ?o1.0 = "\<lambda>sent. case sent of None \<Rightarrow> [] | Some (_, event) \<Rightarrow> [event]"])
    show "tells ([] @ (case sent of None \<Rightarrow> [] | Some (_, event) \<Rightarrow> [event])) reply_updates
        (task_try (Done (ok_or e sent)) (\<lambda>(accepted, event).
          Done (res_bind (encode H (wire_resync_accepted (host_wire H) accepted)) (\<lambda>v.
            Inr \<lparr>rp_result = v, rp_events = [event], rp_accepted = None\<rparr>))))" for sent
      by (cases sent) (auto simp: task_try_def intro!: tells_Done tells_answer answers)
  qed (auto intro!: tells_with split: option.splits)
  show "tells [] reply_updates (resync H re)"
    unfolding resync_def Let_def by (intro tells_quiet tells_snapshot tells_prod tail) simp_all
  show "tells [] reply_updates (unsubscribe H un)"
    unfolding unsubscribe_def by (rule tells_silent) (auto intro!: tells_with tells_answer answers)
  show "tells [] reply_updates (mutate H mu)"
    unfolding mutate_def Let_def
    by (intro tells_quiet tells_try[OF tells_executing(1)] tells_bind_pair tells_published tells_answer answers)
      simp_all
  show "tells [] reply_updates (reply_to_command H rc)"
    unfolding reply_to_command_def by (intro tells_bind_pair tells_published tells_answer answers)
qed

lemma tells_serve:
  assumes "answers_encode (host_wire H)"
  shows "tells [] reply_updates (serve H request)"
proof -
  have "tells [] reply_updates (serve_outcome H request)"
    unfolding serve_outcome_def using tells_requests[OF assms]
    by (cases request) (auto intro!: tells_quiet tells_try[OF tells_executing(2)])
  moreover have "tells [] (\<lambda>_. []) (with_subscriptions (\<lambda>_. []) g)" for g
    by (rule tells_with) simp
  note quiet = tells_silent[OF this]
  ultimately show ?thesis
    unfolding serve_def Let_def
    by (intro tells_quiet tells_bind[where ?o1.0 = reply_updates] tells_if)
      (auto intro!: tells_Done quiet simp: reply_updates_def map_err_def split: sum.splits)
qed

text \<open>
  What a handler returns for its client is what its steps made for the client, in that order: the
  reply to a request carries exactly the updates serving it made (none when it is refused), and so do
  the results of publishing a change, delivering an announcement or a stored change, and
  resynchronising. A transport that sends each handler's updates before it starts the next one
  therefore sends a connection's messages in the order the connection made them.
\<close>

theorem handlers_return_what_they_made:
  assumes "answers_encode (host_wire H)"
  shows "(\<exists>made. ses_sent (snd (run (serve H request) s)) = ses_sent s @ made
      \<and> updates made = reply_updates (fst (run (serve H request) s)))
    \<and> (\<exists>made. ses_sent (snd (run (publish H accepted) s)) = ses_sent s @ made
      \<and> updates made = snd (fst (run (publish H accepted) s)))
    \<and> (\<exists>made. ses_sent (snd (run (deliver_announcement H announced) s)) = ses_sent s @ made
      \<and> updates made = fst (run (deliver_announcement H announced) s))
    \<and> (\<exists>made. ses_sent (snd (run (deliver_change H change) s)) = ses_sent s @ made
      \<and> updates made = fst (run (deliver_change H change) s))
    \<and> (\<exists>made. ses_sent (snd (run (resync_all H reason) s)) = ses_sent s @ made
      \<and> updates made = fst (run (resync_all H reason) s))"
proof -
  have "tells [] id (deliver_announcement H announced)"
    unfolding deliver_announcement_def by (intro tells_bind_pair tells_deliver) (simp add: tells_def)
  then show ?thesis
    using tells_serve[OF assms, of request] tells_published(1)[of H accepted] tells_deliver_change[of H change]
      tells_resync_all[of H reason]
    by (simp add: tells_def)
qed

section \<open>Whom a change reaches\<close>

text \<open>The patches a change brings some subscriptions, asked of the host one after the other.\<close>

fun patches_for ::
  "('w, 's, 'p, 'd, 'm, 'c, 'n, 'f) host \<Rightarrow> ('m, 'c, 'n) source \<Rightarrow> (u64 \<times> 'd held subscription) list \<Rightarrow> 'w \<Rightarrow>
   (u64 \<times> 'd held subscription \<times> 'p) list \<times> 'w"
where
  "patches_for H source [] w = ([], w)"
| "patches_for H source ((i, s) # entries) w =
     (case source_patch H source s w of (patch, w1) \<Rightarrow>
      case patches_for H source entries w1 of (rest, w2) \<Rightarrow>
        (case patch of None \<Rightarrow> rest | Some p \<Rightarrow> (i, s, p) # rest, w2))"

definition left_holding :: "('w, 's, 'p, 'd, 'm, 'c, 'n, 'f) host \<Rightarrow> 'p \<Rightarrow> 'd held option" where
  "left_holding H p = map_option HeldHost (host_delivered_by_patch H p)"

definition patch_event ::
  "('w, 's, 'p, 'd, 'm, 'c, 'n, 'f) host \<Rightarrow> u64 \<Rightarrow> u64 \<times> 'd held subscription \<times> 'p \<Rightarrow> ('s, 'p) transport_event"
where
  "patch_event H revision = (\<lambda>(i, s, p). Patch i (sub_revision s) revision p
     (held_token (wire_held_token (host_wire H)) (left_holding H p)))"

definition patched ::
  "('w, 's, 'p, 'd, 'm, 'c, 'n, 'f) host \<Rightarrow> u64 \<Rightarrow> (u64 \<times> 'd held subscription \<times> 'p) list \<Rightarrow>
   'd held subscriptions \<Rightarrow> u64 \<Rightarrow> 'd held subscription option"
where
  "patched H revision patches c i =
     (case map_of patches i of
        None \<Rightarrow> subs_get c i
      | Some (s, p) \<Rightarrow> Some (s\<lparr>sub_revision := revision, sub_delivered := left_holding H p\<rparr>))"

lemma patches_for_ids: "set (map fst (fst (patches_for H source entries w))) \<subseteq> set (map fst entries)"
  by (induction H source entries w rule: patches_for.induct) (fastforce split: prod.splits option.splits)+

lemma deliver_loop:
  assumes "distinct (map fst entries)" and "\<forall>(i, s) \<in> set entries. subs_get (ses_subs st) i = Some s"
    and "\<forall>(i, s) \<in> set entries. sub_revision s + 1 \<le> revision"
  shows "\<exists>st'. run (task_gather (deliver_to H source revision) entries) st
      = (map (patch_event H revision) (fst (patches_for H source entries (ses_host st))), st')
    \<and> subs_get (ses_subs st') = patched H revision (fst (patches_for H source entries (ses_host st))) (ses_subs st)"
  using assms
proof (induction entries arbitrary: st)
  case Nil
  show ?case by (simp add: patched_def fun_eq_iff)
next
  case (Cons entry entries)
  obtain i s where entry: "entry = (i, s)" by fastforce
  obtain patch w1 where patch: "source_patch H source s (ses_host st) = (patch, w1)" by fastforce
  define st1 where "st1 = snd (run (deliver_to H source revision (i, s)) st)"
  have got: "subs_get (ses_subs st) i = Some s" "sub_revision s + 1 \<le> revision" "i \<notin> set (map fst entries)"
    using Cons.prems entry by auto
  have turn: "fst (run (deliver_to H source revision (i, s)) st)
        = (case patch of None \<Rightarrow> [] | Some p \<Rightarrow> [patch_event H revision (i, s, p)])"
      "ses_host st1 = w1"
      "subs_get (ses_subs st1) = (case patch of None \<Rightarrow> subs_get (ses_subs st)
        | Some p \<Rightarrow> (subs_get (ses_subs st))(i \<mapsto> s\<lparr>sub_revision := revision, sub_delivered := left_holding H p\<rparr>))"
    using got(1,2)
    by (auto simp: st1_def deliver_to_def run_bind patch deliver_patch_def Let_def patch_event_def left_holding_def
        max_absorb1 fun_eq_iff split: option.splits)
  have "\<exists>st'. run (task_gather (deliver_to H source revision) entries) st1
      = (map (patch_event H revision) (fst (patches_for H source entries (ses_host st1))), st')
    \<and> subs_get (ses_subs st') = patched H revision (fst (patches_for H source entries (ses_host st1))) (ses_subs st1)"
    using Cons.prems got(3) turn(3) entry
    by (intro Cons.IH) (force split: option.splits)+
  then obtain st' where rest: "run (task_gather (deliver_to H source revision) entries) st1
      = (map (patch_event H revision) (fst (patches_for H source entries w1)), st')"
      "subs_get (ses_subs st') = patched H revision (fst (patches_for H source entries w1)) (ses_subs st1)"
    using turn(2) by auto
  have absent: "map_of (fst (patches_for H source entries w1)) i = None"
    using patches_for_ids[of H source entries w1] got(3) by (auto simp: map_of_eq_None_iff)
  have run1: "run (deliver_to H source revision (i, s)) st
      = ((case patch of None \<Rightarrow> [] | Some p \<Rightarrow> [patch_event H revision (i, s, p)]), st1)"
    using turn(1) by (simp add: st1_def prod_eq_iff)
  show ?case
    using rest absent turn(3)
    by (auto simp: entry run_bind run1 patch patched_def fun_eq_iff split: prod.splits option.splits)
qed

lemma foldl_max_start: "(a :: 'x :: linorder) \<le> foldl max a xs"
  by (induction xs arbitrary: a) (auto intro: order_trans[OF max.cobounded1])

lemma foldl_max_ge: "(x :: 'x :: linorder) \<in> set xs \<Longrightarrow> x \<le> foldl max a xs"
  by (induction xs arbitrary: a) (auto intro: order_trans[OF max.cobounded2 foldl_max_start])

lemma foldl_max_in: "foldl max (a :: 'x :: linorder) xs \<in> insert a (set xs)"
  by (induction xs arbitrary: a) (auto simp: max_def split: if_splits)

lemma current_revision_ge: "(i, sub) \<in> set (ss_subscriptions c) \<Longrightarrow> sub_revision sub \<le> current_revision c"
  unfolding current_revision_def by (rule foldl_max_ge) force

lemma current_revision_roomy: "roomy c \<Longrightarrow> current_revision c \<noteq> - 1"
  using foldl_max_in[of 0 "map (\<lambda>e. sub_revision (snd e)) (ss_subscriptions c)"]
  by (auto simp: roomy_def list_all_iff current_revision_def)

lemma succ_mono: "(a :: u64) \<le> b \<Longrightarrow> b \<noteq> - 1 \<Longrightarrow> a + 1 \<le> b + 1"
proof -
  assume "a \<le> b" "b \<noteq> - 1"
  moreover from this have "a \<noteq> - 1" by (metis word_order.extremum_uniqueI)
  ultimately show ?thesis by (simp add: word_le_nat_alt unat_succ)
qed

text \<open>
  (C12) A change reaches exactly the subscriptions it affects, once each. A change that saved no
  modification, or that only plans one, changes nothing. Any other one sends, in the order of their
  numbers, one patch to each subscription to a projection that reads what the change touches, that is no
  authoring state and whose snapshot does not hold the modification, when the host has a patch for it;
  all of them reach one revision, just past every revision of the connection, each from the revision it
  held; every other subscription stays as it is.
\<close>

theorem changes_reach_the_affected:
  assumes "bmap_ok (ss_subscriptions (ses_subs s))" and "roomy (ses_subs s)"
  shows "if source_publishes (host_registry H) source
    then (let affected = filter (\<lambda>e. affected_by H source (snd e)) (ss_subscriptions (ses_subs s));
              revision = max (current_revision (ses_subs s)) 1 + 1;
              patches = fst (patches_for H source affected (ses_host s)) in
          \<exists>s'. run (deliver H source) s = ((revision, map (patch_event H revision) patches), s')
            \<and> subs_get (ses_subs s') = patched H revision patches (ses_subs s))
    else run (deliver H source) s = ((max (current_revision (ses_subs s)) 1, []), s)"
proof (cases "source_publishes (host_registry H) source")
  case True
  let ?affected = "filter (\<lambda>e. affected_by H source (snd e)) (ss_subscriptions (ses_subs s))"
  let ?revision = "max (current_revision (ses_subs s)) 1 + 1"
  have top: "max (current_revision (ses_subs s)) 1 \<noteq> - 1"
    using current_revision_roomy[OF assms(2)] by (auto simp: max_def)
  have "distinct (map fst ?affected)" using bmap_ok_distinct[OF assms(1)] by (simp add: distinct_map_filter)
  moreover have "subs_get (ses_subs s) i = Some sub" if "(i, sub) \<in> set ?affected" for i sub
    using that bmap_ok_distinct[OF assms(1)] by (simp add: subs_get_def)
  moreover have "sub_revision sub + 1 \<le> ?revision" if "(i, sub) \<in> set ?affected" for i sub
    using that top by (intro succ_mono) (auto simp: le_max_iff_disj intro: current_revision_ge)
  ultimately obtain s' where "run (task_gather (deliver_to H source ?revision) ?affected) s
      = (map (patch_event H ?revision) (fst (patches_for H source ?affected (ses_host s))), s')"
      "subs_get (ses_subs s') = patched H ?revision (fst (patches_for H source ?affected (ses_host s))) (ses_subs s)"
    using deliver_loop[of ?affected s ?revision H source] by blast
  then show ?thesis
    using True by (auto simp: deliver_def run_bind change_revision_def Let_def)
qed (simp add: deliver_def run_bind change_revision_def Let_def)

section \<open>Refusals\<close>


section \<open>Stored changes\<close>

lemma gather_events:
  assumes "\<And>x s e. x \<in> set xs \<Longrightarrow> e \<in> set (fst (run (f x) s)) \<Longrightarrow> P e"
    and "e \<in> set (fst (run (task_gather f xs) s))"
  shows "P e"
  using assms
proof (induction xs arbitrary: s)
  case (Cons x xs)
  obtain as t where 1: "run (f x) s = (as, t)" by fastforce
  obtain bs u where 2: "run (task_gather f xs) t = (bs, u)" by fastforce
  from Cons.prems(2) 1 2 have "e \<in> set as \<or> e \<in> set bs" by (auto simp: run_bind)
  then show ?case
  proof
    assume "e \<in> set as"
    then show "P e" using Cons.prems(1)[of x e s] 1 by simp
  next
    assume "e \<in> set bs"
    then have "e \<in> set (fst (run (task_gather f xs) t))" using 2 by simp
    then show "P e" using Cons.IH[of t] Cons.prems(1) by (meson list.set_intros(2))
  qed
qed simp

definition follows_change ::
  "('w, 's, 'p, 'd, 'm, 'c, 'n, 'f) host \<Rightarrow> change_event \<Rightarrow> 'd held subscription \<Rightarrow> bool"
where
  "follows_change H change sub \<longleftrightarrow> (\<exists>A document.
     host_authoring H = Some A \<and> follow A (sub_projection sub) (sub_params sub) = Some (Inr document)
     \<and> plan_name (fd_plan document) = cd_entity (ce_data change)
     \<and> doc_resource_id (fd_id document) = cd_resource_id (ce_data change)
     \<and> fd_store document = ce_source change)"

lemma change_to_events:
  assumes "e \<in> set (fst (run (change_to H A change who (i, sub)) s))" and "host_authoring H = Some A"
    and "follows_entity A (cd_entity (ce_data change)) sub"
  shows "te_subscription e = i \<and> follows_change H change sub"
proof -
  obtain document where doc: "follow A (sub_projection sub) (sub_params sub) = Some (Inr document)"
      "fd_store document = ce_source change" "doc_resource_id (fd_id document) = cd_resource_id (ce_data change)"
    using assms(1) by (auto simp: change_to_def Let_def split: option.splits sum.splits if_splits)
  then have "Some (fd_plan document) = au_plan A (sub_projection sub)"
    by (auto simp: follow_def res_bind_Inr_iff split: prod.splits)
  then have "plan_name (fd_plan document) = cd_entity (ce_data change)"
    using assms(3) by (auto simp: follows_entity_def split: option.splits)
  with doc assms(2) have "follows_change H change sub" by (auto simp: follows_change_def)
  moreover have "te_subscription e = i"
    using assms(1) doc
    by (auto simp: change_to_def run_bind deliver_patch_def deliver_following_def Let_def
        split: option.splits sum.splits if_splits)
  ultimately show ?thesis by blast
qed

text \<open>
  (C33) A stored change reaches its followers only. Every update \<open>deliver_change\<close> makes is for a
  subscription of the connection that follows exactly the document the change names: one to the authoring
  state of the change's entity, whose parameters name the change's document and are routed to the store
  that announced it.
\<close>

theorem stored_changes_reach_followers:
  assumes "bmap_ok (ss_subscriptions (ses_subs s))" and "e \<in> set (fst (run (deliver_change H change) s))"
  shows "\<exists>sub. subs_get (ses_subs s) (te_subscription e) = Some sub \<and> follows_change H change sub"
proof -
  obtain A where A: "host_authoring H = Some A"
    using assms(2) by (auto simp: deliver_change_def split: option.splits)
  let ?subs = "filter (\<lambda>e. follows_entity A (cd_entity (ce_data change)) (snd e)) (ss_subscriptions (ses_subs s))"
  have "e \<in> set (fst (run (task_gather (change_to H A change (ss_principal (ses_subs s))) ?subs) s))"
    using assms(2) A by (simp add: deliver_change_def run_bind)
  moreover have "\<exists>sub. subs_get (ses_subs s) (te_subscription e) = Some sub \<and> follows_change H change sub"
    if "x \<in> set ?subs" "e \<in> set (fst (run (change_to H A change (ss_principal (ses_subs s)) x) t))" for x t e
  proof -
    obtain i sub where x: "x = (i, sub)" by fastforce
    with that change_to_events[of e H A change "ss_principal (ses_subs s)" i sub t] A
    have "te_subscription e = i" "follows_change H change sub" by auto
    moreover have "subs_get (ses_subs s) i = Some sub"
      using that(1) x bmap_ok_distinct[OF assms(1)] by (simp add: subs_get_def)
    ultimately show ?thesis by blast
  qed
  ultimately show ?thesis by (rule gather_events[rotated])
qed

end
