(* ===== verification/SessionSamples.thy ===== *)
theory SessionSamples
  imports Answering Delivering Samples
begin

text \<open>
  A small application behind the session and the server, for the examples their properties are applied
  to: a list of notes whose world is the number of the last modification, one mutation that adds a note,
  one command that sorts them, and the authoring state of a note. Snapshots, patches, deliveries and
  results are strings. With it go schedules that can be evaluated: a handler run by itself, and a
  server that takes a list of turns.
\<close>

section \<open>An application\<close>

definition notes_registry :: registry where
  "notes_registry = registry_new ''notes''
     [\<lparr>ps_name = ''notes'', ps_description = [], ps_depends_on = [''note''],
        ps_materialization = ResetPlan, ps_params_schema = [], ps_snapshot_schema = []\<rparr>,
      \<lparr>ps_name = ''note-authoring'', ps_description = [], ps_depends_on = [],
        ps_materialization = ResetPlan, ps_params_schema = [], ps_snapshot_schema = []\<rparr>]
     [\<lparr>ms_name = ''add'', ms_description = [], ms_touches = [''note''], ms_params_schema = [], ms_result_schema = []\<rparr>]
     [\<lparr>cs_name = ''sort'', cs_description = [], cs_touches = [''note''], cs_params_schema = [], cs_result_schema = []\<rparr>]
     []"

definition notes_wire :: "(string, string, string, string, string) wire" where
  "notes_wire =
     \<lparr>wire_subscribe = (\<lambda>v. map_option (\<lambda>p. \<lparr>sr_projection = p, sr_params = None, sr_held = None\<rparr>) (as_str v)),
      wire_resync = (\<lambda>v. Some \<lparr>rr_subscription_id = 1\<rparr>),
      wire_unsubscribe = (\<lambda>v. Some \<lparr>ur_subscription_id = 1\<rparr>),
      wire_mutate = (\<lambda>v. map_option (\<lambda>m. \<lparr>mr_mutation = m, mr_operation_id = None, mr_base_revision = None,
        mr_params = JNull\<rparr>) (as_str v)),
      wire_command = (\<lambda>v. map_option (\<lambda>c. \<lparr>cr_command = c, cr_operation_id = None, cr_params = JNull\<rparr>) (as_str v)),
      wire_authoring_held = (\<lambda>v. None),
      wire_delivery = as_str,
      wire_held_token = (\<lambda>h. case h of HeldHost d \<Rightarrow> Some (JString d) | HeldAuthoring _ \<Rightarrow> Some JNull),
      wire_state = (\<lambda>st. JString (as_etag st)),
      wire_state_patch = (\<lambda>p. JNull),
      wire_snapshot = (\<lambda>v. Some ''state''),
      wire_patch = (\<lambda>v. Some ''changed''),
      wire_subscribe_accepted = (\<lambda>a. Some JNull),
      wire_resync_accepted = (\<lambda>a. Some JNull),
      wire_unsubscribe_accepted = (\<lambda>a. Some (JBool (ua_removed a))),
      wire_mutation_result = (\<lambda>m. Some (JString m)),
      wire_mutation_accepted = (\<lambda>a. Some (ma_result a)),
      wire_command_accepted = (\<lambda>a. Some (JString (ca_result a)))\<rparr>"

definition note_state :: store_authoring_state where
  "note_state =
     \<lparr>sas_schema_version = 1, sas_version = \<lparr>cv_incarnation = ''A'', cv_peers = []\<rparr>,
      sas_accepted_frontier_base64 = ''Ax'', sas_update_base64 = ''Ax'', sas_etag = ''e'', sas_replaces_held = False\<rparr>"

definition notes_authoring :: "u64 authoring_states" where
  "notes_authoring =
     \<lparr>au_store = (\<lambda>name w. Some
        \<lparr>os_authoring_state = (\<lambda>plan d held. act_return note_state),
         os_allocate_peers = (\<lambda>who d. act_return \<lparr>pb_nonce = ''A'', pb_base = 0\<rparr>)\<rparr>),
      au_plans = [sample_plan], au_route = (\<lambda>entity params. Some ''notes'')\<rparr>"

definition notes_host :: "(u64, string, string, string, string, string, string, rpc_failure) host" where
  "notes_host =
     \<lparr>host_registry = notes_registry, host_authoring = Some notes_authoring,
      host_snapshot = (\<lambda>projection params held w. (Inr \<lparr>ns_snapshot = ''all'', ns_through = w\<rparr>, w)),
      host_delivered = Some, host_delivered_by_patch = Some,
      host_mutate = (\<lambda>who mutation params w. (Inr \<lparr>md_result = ''added'', md_modification = Some (w + 1)\<rparr>, w + 1)),
      host_mutation_patch = (\<lambda>mutation result sub w. (Some result, w)),
      host_command = (\<lambda>who command params w. (Inr \<lparr>md_result = ''sorted'', md_modification = Some (w + 1)\<rparr>, w + 1)),
      host_command_patch = (\<lambda>command result sub w. (Some result, w)),
      host_announcement_patch = (\<lambda>announcement sub w. (Some announcement, w)),
      host_now = (\<lambda>w. 0), host_refused = rpc_refused, host_describe = rpc_describe,
      host_described = rpc_described, host_wire = notes_wire\<rparr>"

lemma notes_wire_simps [simp]:
  "wire_subscribe notes_wire = (\<lambda>v. map_option (\<lambda>p. \<lparr>sr_projection = p, sr_params = None, sr_held = None\<rparr>) (as_str v))"
  "wire_resync notes_wire = (\<lambda>v. Some \<lparr>rr_subscription_id = 1\<rparr>)"
  "wire_unsubscribe notes_wire = (\<lambda>v. Some \<lparr>ur_subscription_id = 1\<rparr>)"
  "wire_mutate notes_wire = (\<lambda>v. map_option (\<lambda>m. \<lparr>mr_mutation = m, mr_operation_id = None, mr_base_revision = None, mr_params = JNull\<rparr>) (as_str v))"
  "wire_command notes_wire = (\<lambda>v. map_option (\<lambda>c. \<lparr>cr_command = c, cr_operation_id = None, cr_params = JNull\<rparr>) (as_str v))"
  "wire_authoring_held notes_wire = (\<lambda>v. None)"
  "wire_delivery notes_wire = as_str"
  "wire_held_token notes_wire = (\<lambda>h. case h of HeldHost d \<Rightarrow> Some (JString d) | HeldAuthoring _ \<Rightarrow> Some JNull)"
  "wire_state notes_wire = (\<lambda>st. JString (as_etag st))"
  "wire_state_patch notes_wire = (\<lambda>p. JNull)"
  "wire_snapshot notes_wire = (\<lambda>v. Some ''state'')"
  "wire_patch notes_wire = (\<lambda>v. Some ''changed'')"
  "wire_subscribe_accepted notes_wire = (\<lambda>a. Some JNull)"
  "wire_resync_accepted notes_wire = (\<lambda>a. Some JNull)"
  "wire_unsubscribe_accepted notes_wire = (\<lambda>a. Some (JBool (ua_removed a)))"
  "wire_mutation_result notes_wire = (\<lambda>m. Some (JString m))"
  "wire_mutation_accepted notes_wire = (\<lambda>a. Some (ma_result a))"
  "wire_command_accepted notes_wire = (\<lambda>a. Some (JString (ca_result a)))"
  by (simp_all add: notes_wire_def)

lemma notes_host_simps [simp]:
  "host_registry notes_host = notes_registry"
  "host_authoring notes_host = Some notes_authoring"
  "host_snapshot notes_host = (\<lambda>projection params held w. (Inr \<lparr>ns_snapshot = ''all'', ns_through = w\<rparr>, w))"
  "host_delivered notes_host = Some"
  "host_delivered_by_patch notes_host = Some"
  "host_mutate notes_host = (\<lambda>who mutation params w. (Inr \<lparr>md_result = ''added'', md_modification = Some (w + 1)\<rparr>, w + 1))"
  "host_mutation_patch notes_host = (\<lambda>mutation result sub w. (Some result, w))"
  "host_command notes_host = (\<lambda>who command params w. (Inr \<lparr>md_result = ''sorted'', md_modification = Some (w + 1)\<rparr>, w + 1))"
  "host_command_patch notes_host = (\<lambda>command result sub w. (Some result, w))"
  "host_announcement_patch notes_host = (\<lambda>announcement sub w. (Some announcement, w))"
  "host_now notes_host = (\<lambda>w. 0)"
  "host_refused notes_host = rpc_refused"
  "host_describe notes_host = rpc_describe"
  "host_described notes_host = rpc_described"
  "host_wire notes_host = notes_wire"
  by (simp_all add: notes_host_def)

lemma notes_encode: "answers_encode (host_wire notes_host)"
  by (simp add: answers_encode_def plain_answers_encode_def)

definition notes_subscription :: projection_request where
  "notes_subscription = SubscribeRequest \<lparr>sr_projection = ''notes'', sr_params = None, sr_held = None\<rparr>"

definition note_subscription :: projection_request where
  "note_subscription = SubscribeRequest
     \<lparr>sr_projection = ''note-authoring'', sr_params = Some (jobj [(''id'', JString ''1'')]), sr_held = None\<rparr>"

definition notes_addition :: projection_request where
  "notes_addition = MutateRequest
     \<lparr>mr_mutation = ''add'', mr_operation_id = None, mr_base_revision = None, mr_params = JNull\<rparr>"

definition notes_unknown :: projection_request where
  "notes_unknown = MutateRequest
     \<lparr>mr_mutation = ''drop'', mr_operation_id = None, mr_base_revision = None, mr_params = JNull\<rparr>"

abbreviation notes_started :: "(u64, string, string, string) session" where
  "notes_started \<equiv> opened_session 0 sample_actor"

section \<open>A handler run by itself\<close>

text \<open>A task run from a state to its result, when no number runs out on the way.\<close>

primrec trial ::
  "(('w, 's, 'p, 'd) session, 'a) task \<Rightarrow> ('w, 's, 'p, 'd) session \<Rightarrow> ('a \<times> ('w, 's, 'p, 'd) session) option"
where
  "trial (Done a) s = Some (a, s)"
| "trial (Step u k) s = (if roomy (ses_subs s) then trial (k s) (u s) else None)"

lemma trial_run: "trial t s = Some (a, s') \<Longrightarrow> run t s = (a, s')"
  by (induction t arbitrary: s) (auto simp: rangeI split: if_splits)

lemma trial_proceeds:
  "trial t s = Some (a, s') \<Longrightarrow> (proceeds H)\<^sup>*\<^sup>* (s, ts @ [t]) (s', ts @ [Done a])"
proof (induction t arbitrary: s)
  case (Step u k)
  then have "proceeds H (s, ts @ [Step u k]) (u s, (ts @ [Step u k])[length ts := k s])"
    by (intro proceeds.steps) (simp_all split: if_splits)
  with Step show ?case by (auto simp: rangeI split: if_splits intro: converse_rtranclp_into_rtranclp)
qed simp

lemma trial_bind: "trial (task_bind m f) s = Option.bind (trial m s) (\<lambda>(a, t). trial (f a) t)"
  by (induction m arbitrary: s) (auto simp: rangeI)

lemma trial_try:
  "trial (task_try m f) s = Option.bind (trial m s) (\<lambda>(r, t).
     case r of Inl e \<Rightarrow> Some (Inl e, t) | Inr a \<Rightarrow> trial (f a) t)"
  by (auto simp: task_try_def trial_bind intro!: arg_cong2[where f = Option.bind] split: prod.splits sum.splits)

lemma trial_steps:
  "trial (read_subscriptions f) s = (if roomy (ses_subs s) then Some (f (ses_subs s), s) else None)"
  "trial principal_of s = (if roomy (ses_subs s) then Some (ss_principal (ses_subs s), s) else None)"
  "trial (ask_host m) s =
     (if roomy (ses_subs s) then Some (case m (ses_host s) of (r, w) \<Rightarrow> (r, s\<lparr>ses_host := w\<rparr>)) else None)"
  "trial (with_subscriptions sends g) s =
     (if roomy (ses_subs s)
      then Some (case g (ses_subs s) of (r, c) \<Rightarrow> (r, s\<lparr>ses_subs := c, ses_sent := ses_sent s @ sends r\<rparr>))
      else None)"
  by (simp_all add: read_subscriptions_def principal_of_def ask_host_def with_subscriptions_def atomically_def
      split: prod.splits)

lemma trial_started: "trial t s = Some (a, s') \<Longrightarrow> trial (started t) s = Some ((), s')"
  by (simp add: started_def trial_bind)

lemma serving_proceeds:
  assumes "trial (serve H request) s = Some (a, s')" and "roomy (ses_subs s)"
  shows "\<exists>us. (proceeds H)\<^sup>*\<^sup>* (s, ts) (s', us)"
  using converse_rtranclp_into_rtranclp[OF proceeds.starts[OF handler.serves assms(2)]
    trial_proceeds[OF trial_started[OF assms(1)]]] by blast

text \<open>How it is evaluated: what follows a task is left alone until the task is over.\<close>

lemma task_bind_weak_cong: "m = m' \<Longrightarrow> task_bind m f = task_bind m' f"
  by simp

lemma task_try_weak_cong: "m = m' \<Longrightarrow> task_try m f = task_try m' f"
  by simp

lemma bind_weak_cong: "m = m' \<Longrightarrow> Option.bind m f = Option.bind m' f"
  by simp

lemmas task_weak_cong = task_bind_weak_cong task_try_weak_cong bind_weak_cong

lemmas task_simps = trial_bind trial_try trial_steps opened_session_def
  serve_def serve_outcome_def subscribe_def mutate_def execute_mutation_def execute_command_def
  run_command_def run_mutation_def publish_command_def deliver_announcement_def
  publish_def deliver_def deliver_to_def snapshot_for_def host_held_def follow_def au_plan_def authoring_snapshot_def
  followed_def followed_param_def au_state_def act_return_def act_bind_def act_map_err_def
  deliver_change_def change_to_def follows_entity_def authoring_patch_def
  affected_by_def source_publishes_def source_affects.simps plans_only_def is_authoring_def Let_def
  reg_projection_def reg_mutation_def reg_command_def registry_new_def mutation_affects_projection_def
  command_affects_projection_def entities_affect_projection_def encode_def typed_def refused_def addressed_def

lemmas subs_simps = accept_subscription_def subs_insert_def subs_set_def subs_get_def subscriptions_new_def
  record_delivery_def current_revision_def change_revision_def deliver_patch_def record_mutation_def
  record_resync_def record_dropped_updates_def no_counters_def roomy_def sat_add_def held_token_def

lemmas eval_simps = task_simps subs_simps notes_registry_def notes_authoring_def jobj_def bmap_of_def
  notes_subscription_def notes_addition_def notes_unknown_def note_subscription_def sample_plan_def sample_actor_def

text \<open>The session of a client that subscribed, and after it added a note.\<close>

definition notes_subscribed :: "(u64, string, string, string) session" where
  "notes_subscribed =
     \<lparr>ses_host = 0,
      ses_subs =
        \<lparr>ss_principal = sample_actor, ss_next_subscription_id = 2,
         ss_subscriptions = [(1, \<lparr>sub_projection = ''notes'', sub_params = JObject [], sub_revision = 1,
           sub_delivered = Some (HeldHost ''all''), sub_through = 0\<rparr>)],
         ss_counters = no_counters\<rparr>,
      ses_sent = [Opened \<lparr>sa_subscription_id = 1, sa_revision = 1, sa_up_to_date = False\<rparr>,
        Update (Snapshot 1 1 ''all'' (Some (JString ''all'')))]\<rparr>"

definition notes_added :: "(u64, string, string, string) session" where
  "notes_added =
     \<lparr>ses_host = 1,
      ses_subs =
        \<lparr>ss_principal = sample_actor, ss_next_subscription_id = 2,
         ss_subscriptions = [(1, \<lparr>sub_projection = ''notes'', sub_params = JObject [], sub_revision = 2,
           sub_delivered = Some (HeldHost ''added''), sub_through = 0\<rparr>)],
         ss_counters = no_counters\<lparr>sc_mutation_count := 1\<rparr>\<rparr>,
      ses_sent = ses_sent notes_subscribed @ [Update (Patch 1 1 2 ''added'' (Some (JString ''added'')))]\<rparr>"

lemma notes_subscribe:
  "trial (serve notes_host notes_subscription) notes_started = Some
     (Inr \<lparr>rp_result = JNull, rp_events = [Snapshot 1 1 ''all'' (Some (JString ''all''))], rp_accepted = None\<rparr>,
      notes_subscribed)"
  by (simp add: notes_subscribed_def eval_simps cong: task_weak_cong)

lemma notes_add:
  "trial (serve notes_host notes_addition) notes_subscribed = Some
     (Inr \<lparr>rp_result = JString ''added'', rp_events = [Patch 1 1 2 ''added'' (Some (JString ''added''))],
       rp_accepted = Some (MutationAccepted ''add'' ''added'' (Some 1))\<rparr>, notes_added)"
  by (simp add: notes_subscribed_def notes_added_def eval_simps cong: task_weak_cong)

section \<open>The properties of a connection, on examples\<close>

lemma notes_subscribed_connection: "\<exists>ts. connection notes_host notes_subscribed ts"
  using serving_proceeds[OF notes_subscribe, of "[]"] unfolding connection_def
  by (auto simp: opened_session_def subscriptions_new_def roomy_def)

lemma notes_added_proceeds: "\<exists>us. (proceeds notes_host)\<^sup>*\<^sup>* (notes_subscribed, ts) (notes_added, us)"
  using serving_proceeds[OF notes_add] by (simp add: notes_subscribed_def roomy_def)

theorem clients_stay_in_step_witness:
  "\<exists>view. client_view (ses_sent notes_added) Map.empty = Some view \<and> view 1 = Some 2"
proof -
  obtain us where "connection notes_host notes_added us"
    using notes_subscribed_connection notes_added_proceeds unfolding connection_def
    by (blast intro: rtranclp_trans)
  note view = clients_stay_in_step[OF this]
  have "map_option sub_revision (subs_get (ses_subs notes_added) 1) = Some 2"
    by (simp add: notes_added_def subs_get_def)
  with view show ?thesis by fastforce
qed

theorem subscriptions_live_on_witness:
  "\<exists>before. subs_get (ses_subs notes_subscribed) 1 = Some before \<and> sub_projection before = ''notes''
     \<and> sub_revision before \<le> 2"
proof -
  obtain ts us where "connection notes_host notes_subscribed ts"
      "(proceeds notes_host)\<^sup>*\<^sup>* (notes_subscribed, ts) (notes_added, us)"
    using notes_subscribed_connection notes_added_proceeds by blast
  note on = subscriptions_live_on[OF this]
  have "map_option (\<lambda>s. (sub_projection s, sub_revision s)) (subs_get (ses_subs notes_added) 1) = Some (''notes'', 2)"
    by (simp add: notes_added_def subs_get_def)
  then obtain sub where "subs_get (ses_subs notes_added) 1 = Some sub" "sub_projection sub = ''notes''"
      "sub_revision sub = 2" by auto
  moreover have "1 < ss_next_subscription_id (ses_subs notes_subscribed)" by (simp add: notes_subscribed_def)
  ultimately show ?thesis using on by metis
qed

text \<open>An unknown mutation is refused.\<close>

lemma notes_refuse:
  "\<exists>failure s'. run (serve notes_host notes_unknown) notes_subscribed = (Inl failure, s')
     \<and> rf_code (rpf_refusal failure) = UnknownMutation"
proof -
  have "\<exists>failure s'. trial (serve notes_host notes_unknown) notes_subscribed = Some (Inl failure, s')
      \<and> rf_code (rpf_refusal failure) = UnknownMutation"
    by (simp add: notes_subscribed_def eval_simps rpc_refused_def rpc_described_def rpc_describe_def refusal_new_def
        cong: task_weak_cong)
  then show ?thesis by (meson trial_run)
qed

theorem refused_requests_change_nothing_witness:
  "ss_subscriptions (ses_subs (snd (run (serve notes_host notes_unknown) notes_subscribed)))
   = ss_subscriptions (ses_subs notes_subscribed)"
proof -
  obtain failure s' where run: "run (serve notes_host notes_unknown) notes_subscribed = (Inl failure, s')"
    using notes_refuse by blast
  have "plain_answers_encode (host_wire notes_host)" using notes_encode by (simp add: answers_encode_def)
  from refused_requests_change_nothing[OF this run] run show ?thesis by (simp add: notes_unknown_def)
qed

theorem handlers_return_what_they_made_witness:
  "\<exists>made. ses_sent notes_added = ses_sent notes_subscribed @ made
     \<and> updates made = [Patch 1 1 2 ''added'' (Some (JString ''added''))]"
  using handlers_return_what_they_made[OF notes_encode, of notes_addition notes_subscribed] trial_run[OF notes_add]
  by (simp add: reply_updates_def)


theorem changes_reach_the_affected_witness:
  "fst (run (deliver notes_host (MutationSource ''add'' ''added'' (Some 1))) notes_subscribed)
   = (2, [Patch 1 1 2 ''added'' (Some (JString ''added''))])"
proof -
  let ?source = "MutationSource ''add'' ''added'' (Some 1) :: (string, string, string) source"
  let ?sub = "\<lparr>sub_projection = ''notes'', sub_params = JObject [], sub_revision = 1,
    sub_delivered = Some (HeldHost ''all''), sub_through = 0\<rparr> :: string held subscription"
  have "bmap_ok (ss_subscriptions (ses_subs notes_subscribed))" "roomy (ses_subs notes_subscribed)"
    by (simp_all add: notes_subscribed_def bmap_ok_def roomy_def)
  note delivered = changes_reach_the_affected[OF this, of notes_host ?source]
  have published: "source_publishes (host_registry notes_host) ?source"
    and affected: "filter (\<lambda>e. affected_by notes_host ?source (snd e)) (ss_subscriptions (ses_subs notes_subscribed))
      = [(1, ?sub)]"
    and revision: "max (current_revision (ses_subs notes_subscribed)) 1 + 1 = 2"
    by (simp_all add: notes_subscribed_def eval_simps)
  have patches: "fst (patches_for notes_host ?source [(1, ?sub)] (ses_host notes_subscribed)) = [(1, ?sub, ''added'')]"
    by simp
  show ?thesis
    using delivered published affected revision patches by (auto simp: Let_def patch_event_def left_holding_def held_token_def)
qed

definition note_changed :: change_event where
  "note_changed = change_event_new ''e1'' ''notes'' Deleted ''t'' (Some 2) sample_actor
     \<lparr>cd_entity = ''N'', cd_resource_id = ''1'', cd_etag_before = None, cd_etag_after = None,
      cd_frontier_before = None, cd_frontier_after = None, cd_operation_id = None\<rparr>"

definition note_followed :: "(u64, string, string, string) session" where
  "note_followed = snd (the (trial (serve notes_host note_subscription) notes_started))"

theorem stored_changes_reach_followers_witness:
  "\<exists>sub. subs_get (ses_subs note_followed) 1 = Some sub \<and> follows_change notes_host note_changed sub"
proof -
  have followed: "ss_subscriptions (ses_subs note_followed) =
      [(1, \<lparr>sub_projection = ''note-authoring'', sub_params = JObject [(''id'', JString ''1'')], sub_revision = 1,
        sub_delivered = Some (HeldAuthoring \<lparr>ah_schema_version = 1, ah_frontier = ''Ax'', ah_etag = ''e''\<rparr>),
        sub_through = 0\<rparr>)]" "ss_next_subscription_id (ses_subs note_followed) = 2"
    by (simp_all add: note_followed_def eval_simps authoring_held_of_def into_authoring_state_def note_state_def
        cong: task_weak_cong)
  have "\<exists>a s'. trial (deliver_change notes_host note_changed) note_followed = Some (a, s') \<and> map te_subscription a = [1]"
    using followed
    by (simp add: eval_simps change_event_new_def note_changed_def document_id_new_def cong: task_weak_cong)
  then obtain e where "e \<in> set (fst (run (deliver_change notes_host note_changed) note_followed))" "te_subscription e = 1"
    using trial_run by fastforce
  moreover have "bmap_ok (ss_subscriptions (ses_subs note_followed))" by (simp add: followed bmap_ok_def)
  ultimately show ?thesis using stored_changes_reach_followers by metis
qed

section \<open>A server that takes turns\<close>

datatype turn = Admit | Hear u64 string | Take u64 | CatchUp u64 | Return nat | Publish nat | Finish nat | Stop | Close

fun server_turn ::
  "('w, 's, 'p, 'd, 'm, 'c, 'n, rpc_failure) host \<Rightarrow> ('s, 'p) rpc_wire \<Rightarrow> nat \<Rightarrow> turn \<Rightarrow>
   ('w, 's, 'p, 'd, 'm, 'c, 'n) server \<Rightarrow> ('w, 's, 'p, 'd, 'm, 'c, 'n) server option"
where
  "server_turn H F capacity Admit sv = admit sample_actor (length (sv_log sv)) sv"
| "server_turn H F capacity (Hear i txt) sv =
     (case map_of (sv_connections sv) i of
        Some cn \<Rightarrow> if cn_skipping cn = None
          then (case serve_text H F i None txt cn sv of (cn', sv') \<Rightarrow> Some (set_conn i cn' sv')) else None
      | None \<Rightarrow> None)"
| "server_turn H F capacity (Take i) sv =
     (case map_of (sv_connections sv) i of
        Some cn \<Rightarrow> if cn_skipping cn = None
          then (case broadcast_recv capacity (cn_position cn) (sv_log sv) of
              Got sent \<Rightarrow> Some (serve_published H F i sent cn sv)
            | Lagged missed \<Rightarrow> Some (set_conn i (fall_behind missed sv cn) sv)
            | Pending \<Rightarrow> None)
          else None
      | None \<Rightarrow> None)"
| "server_turn H F capacity (CatchUp i) sv =
     (case map_of (sv_connections sv) i of
        Some cn \<Rightarrow> map_option (\<lambda>skipped_through. serve_caught_up H F i skipped_through cn sv) (cn_skipping cn)
      | None \<Rightarrow> None)"
| "server_turn H F capacity (Return n) sv =
     (if n < length (sv_commands sv) \<and> ct_phase (sv_commands sv ! n) = Executing
      then Some (command_returns H n False sv) else None)"
| "server_turn H F capacity (Publish n) sv =
     (if n < length (sv_commands sv)
      then (case ct_phase (sv_commands sv ! n) of Returned outcome \<Rightarrow> Some (command_publishes n outcome sv) | _ \<Rightarrow> None)
      else None)"
| "server_turn H F capacity (Finish n) sv =
     (if n < length (sv_commands sv) \<and> ct_phase (sv_commands sv ! n) = Published
      then Some (command_finishes n sv) else None)"
| "server_turn H F capacity Stop sv = Some (shut_down sv)"
| "server_turn H F capacity Close sv =
     (if sv_closer sv \<and> sv_running sv = 0 then Some (send_closing sv) else None)"

lemma server_turn_step: "server_turn H F capacity t sv = Some sv' \<Longrightarrow> server_step H F capacity sv sv'"
  by (cases t) (auto split: option.splits if_splits prod.splits received_publication.splits phase.splits
      intro: server_step.intros)

fun server_plays ::
  "('w, 's, 'p, 'd, 'm, 'c, 'n, rpc_failure) host \<Rightarrow> ('s, 'p) rpc_wire \<Rightarrow> nat \<Rightarrow> turn list \<Rightarrow>
   ('w, 's, 'p, 'd, 'm, 'c, 'n) server \<Rightarrow> ('w, 's, 'p, 'd, 'm, 'c, 'n) server option"
where
  "server_plays H F capacity [] sv = Some sv"
| "server_plays H F capacity (t # ts) sv =
     (if server_roomy sv then Option.bind (server_turn H F capacity t sv) (server_plays H F capacity ts) else None)"

lemma server_plays_runs:
  assumes "server_plays H F capacity ts (server_new w limit) = Some sv"
  shows "server_runs H F capacity limit sv"
proof -
  have "server_plays H F capacity ts a = Some b \<Longrightarrow>
      (\<lambda>a b. server_roomy a \<and> server_step H F capacity a b)\<^sup>*\<^sup>* a b" for a b
  proof (induction ts arbitrary: a)
    case (Cons t ts)
    then obtain c where "server_roomy a" "server_turn H F capacity t a = Some c" "server_plays H F capacity ts c = Some b"
      by (auto split: if_splits Option.bind_splits)
    with Cons.IH server_turn_step show ?case by (metis (mono_tags, lifting) converse_rtranclp_into_rtranclp)
  qed simp
  with assms show ?thesis unfolding server_runs_def by blast
qed

text \<open>A client that sends \<open>s\<close> runs the sorting command under the id 7; any other text is no request.\<close>

definition notes_frames :: "(string, string) rpc_wire" where
  "notes_frames =
     \<lparr>rpc_request_of = (\<lambda>txt. if txt = ''s''
        then Some \<lparr>rq_jsonrpc = ''2.0'', rq_id = Some (JNumber (PosInt 7)), rq_method = projection_command_method,
          rq_params = Some (JString ''sort'')\<rparr> else None),
      rpc_response = (\<lambda>i outcome. case outcome of Inl e \<Rightarrow> ''error'' | Inr v \<Rightarrow> (case v of JString r \<Rightarrow> r | _ \<Rightarrow> [])),
      rpc_notification = (\<lambda>e. Some ''update'')\<rparr>"

abbreviation notes_play :: "turn list \<Rightarrow> (u64, string, string, string, string, string, string) server option" where
  "notes_play ts \<equiv> server_plays notes_host notes_frames 4 ts (server_new 0 2)"

lemmas server_simps = server_plays.simps server_turn.simps server_new_def no_connection_def admit_def set_conn_def
  conn_new_def server_roomy_def serve_text_def receive_def notes_frames_def decode_request_def request_decode_def
  for_method_def projection_command_method_def projection_subscribe_method_def projection_resync_method_def
  projection_unsubscribe_method_def projection_mutate_method_def decode_params_def start_command_def
  command_returns_def command_outcome_def run_command_def execute_command_def run_bind run_try
  command_publishes_def publications_send_def hand_over_def command_finishes_def shut_down_def send_closing_def
  broadcast_recv_def serve_published_def take_publication_def end_connection_def settle_def running_id_def

text \<open>
  A client runs the command and its outcome is published; and the same with a shutdown called meanwhile,
  up to the closing publication, where the client has taken the outcome and not yet the closing.
\<close>

lemma notes_published:
  "\<exists>sv sv' cn. notes_play [Admit, Hear 1 ''s'', Return 0, Publish 0] = Some sv
     \<and> server_roomy sv \<and> server_turn notes_host notes_frames 4 (Finish 0) sv = Some sv'
     \<and> map_of (sv_connections sv) 1 = Some cn \<and> cn_skipping cn = None \<and> cn_position cn = 0
     \<and> map st_publication (sv_log sv) = [RanPub 1 1 (Inr
         \<lparr>rc_command = ''sort'', rc_operation_id = None, rc_result = ''sorted'', rc_modification = Some 1\<rparr>)]"
  by (simp add: server_simps eval_simps cong: task_weak_cong)

lemma notes_closed:
  "\<exists>sv cn. notes_play [Admit, Hear 1 ''s'', Stop, Return 0, Publish 0, Finish 0, Close, Take 1] = Some sv
     \<and> length (sv_log sv) = 2 \<and> st_publication (sv_log sv ! 1) = ClosingPub
     \<and> map_of (sv_connections sv) 1 = Some cn \<and> cn_skipping cn = None \<and> cn_position cn = 1
     \<and> cn_frames cn = [''sorted'']"
  by (simp add: server_simps eval_simps on_connection_def run_bind emit_def answer_def notifications_def
      List.map_filter_def rpc_frame_def command_reply_def command_accepted_of_def cong: task_weak_cong)

theorem server_refines_the_ledger_witness:
  "\<exists>sv sv'. notes_play [Admit, Hear 1 ''s'', Return 0, Publish 0] = Some sv
     \<and> server_turn notes_host notes_frames 4 (Finish 0) sv = Some sv'
     \<and> ledger_step\<^sup>*\<^sup>* (ledger_new 2) (ledger_of sv) \<and> ledger_step\<^sup>*\<^sup>* (ledger_of sv) (ledger_of sv')"
proof -
  obtain sv sv' where sv: "notes_play [Admit, Hear 1 ''s'', Return 0, Publish 0] = Some sv" "server_roomy sv"
      "server_turn notes_host notes_frames 4 (Finish 0) sv = Some sv'"
    using notes_published by (elim exE conjE) (rule that)
  from server_refines_the_ledger[OF server_plays_runs[OF sv(1)] sv(2) server_turn_step[OF sv(3)]] sv(1,3)
  show ?thesis by blast
qed

theorem no_answer_is_lost_witness:
  "\<exists>sv cn. notes_play [Admit, Hear 1 ''s'', Return 0, Publish 0] = Some sv
     \<and> map_of (sv_connections sv) 1 = Some cn \<and> map_of (cn_running cn) 1 \<noteq> None"
proof -
  obtain sv cn outcome where sv: "notes_play [Admit, Hear 1 ''s'', Return 0, Publish 0] = Some sv"
      "map_of (sv_connections sv) 1 = Some cn" "cn_skipping cn = None" "cn_position cn = 0"
      "map st_publication (sv_log sv) = [RanPub 1 1 outcome]"
    using notes_published by (elim exE conjE) (rule that)
  then have "\<exists>k outcome. cn_position cn \<le> k \<and> k < length (sv_log sv)
      \<and> st_publication (sv_log sv ! k) = RanPub 1 1 outcome" by auto
  with no_answer_is_lost[OF server_plays_runs[OF sv(1)] sv(2,3), of 1]
  have "map_of (cn_running cn) 1 \<noteq> None" by simp
  with sv(1,2) show ?thesis by (intro exI conjI)
qed

theorem shutdown_answers_first_witness:
  "\<exists>sv cn. notes_play [Admit, Hear 1 ''s'', Stop, Return 0, Publish 0, Finish 0, Close, Take 1] = Some sv
     \<and> map_of (sv_connections sv) 1 = Some cn \<and> cn_frames cn = [''sorted''] \<and> cn_running cn = []"
proof -
  obtain sv cn where sv: "notes_play [Admit, Hear 1 ''s'', Stop, Return 0, Publish 0, Finish 0, Close, Take 1] = Some sv"
      "length (sv_log sv) = 2" "st_publication (sv_log sv ! 1) = ClosingPub" "map_of (sv_connections sv) 1 = Some cn"
      "cn_skipping cn = None" "cn_position cn = 1" "cn_frames cn = [''sorted'']"
    using notes_closed by (elim exE conjE) (rule that)
  have "1 < length (sv_log sv)" using sv(2) by simp
  from shutdown_answers_first[OF server_plays_runs[OF sv(1)] this sv(3)] sv(4,5,6)
  have "cn_running cn = []" by simp
  with sv(1,4,7) show ?thesis by (intro exI conjI)
qed

theorem server_counts_exact_witness:
  "\<exists>sv. notes_play [Admit, Hear 1 ''s'', Return 0, Publish 0] = Some sv
     \<and> sv_running sv = length (sv_commands sv) \<and> sv_serving sv = card (dom (map_of (sv_connections sv)))"
proof -
  obtain sv where sv: "notes_play [Admit, Hear 1 ''s'', Return 0, Publish 0] = Some sv"
    using notes_published by (elim exE conjE) (rule that)
  from server_counts_exact[OF server_plays_runs[OF this]] have "sv_running sv = length (sv_commands sv)"
      "sv_serving sv = card (dom (map_of (sv_connections sv)))" by simp_all
  with sv show ?thesis by (intro exI conjI)
qed

end
