(* ===== verification/Operations.thy ===== *)
theory Operations
  imports Authoring Sockets
begin

text \<open>
  \<open>crates/clerkenwell-ops/src\<close>: the document, recovery and generated operations an application contributes
  to the Clapham framework.

  The framework's types are kept to what the sources read and write of them: a refusal's code, category,
  details, whether it may be retried and what is known of its effect. \<open>None\<close> in the last two is what
  \<open>Refusal::new\<close> leaves, which the sources do not say. A verified grant is a value of type \<open>'o\<close>, which only
  the application's \<open>OperationsHost\<close> reads.

  A document or recovery operation is an action on the application's stores and the worlds of their
  services, \<open>stores_world\<close>; a generated operation acts on the server.
\<close>

section \<open>Refusals\<close>

datatype category =
    CatNotFound | CatConflict | CatInvalidInput | CatInternal | CatRefused | CatConfiguration
  | CatUnavailable | CatInterrupted

datatype evidence = NotDispatched | Uncertain

record op_refusal =
  or_code :: string
  or_category :: category
  or_details :: "json option"
  or_retryable :: "bool option"
  or_evidence :: "evidence option"

definition op_refusal_new :: "string \<Rightarrow> category \<Rightarrow> op_refusal" where
  "op_refusal_new code category =
     \<lparr>or_code = code, or_category = category, or_details = None, or_retryable = None, or_evidence = None\<rparr>"

definition not_dispatched :: "string \<Rightarrow> category \<Rightarrow> op_refusal" where
  "not_dispatched code category = (op_refusal_new code category)\<lparr>or_evidence := Some NotDispatched\<rparr>"

definition store_refusals :: "(string \<times> category) list" where
  "store_refusals =
     [(''collaboration_document_not_found'', CatNotFound), (''not_found'', CatNotFound),
      (''collaboration_revision'', CatConflict), (''collaboration_policy'', CatConflict),
      (''collaboration_resync_required'', CatConflict), (''collaboration_dependency_blocked'', CatConflict),
      (''collaboration_peer_bound'', CatConflict), (''collaboration_migration_required'', CatConflict),
      (''collaboration_commit_contended'', CatConflict), (''collaboration_repair_contended'', CatConflict),
      (''conflict'', CatConflict), (''collaboration_text_mismatch'', CatInvalidInput),
      (''collaboration_operation_id_collision'', CatInvalidInput),
      (''invalid_collaboration_operation_id'', CatInvalidInput),
      (''invalid_collaboration_update'', CatInvalidInput), (''invalid_collaboration_version'', CatInvalidInput),
      (''unsupported_collaboration_schema_version'', CatInvalidInput), (''invalid_params'', CatInvalidInput),
      (''collaboration_state_corrupt'', CatInternal), (''internal_error'', CatInternal)]"

definition caller_refusals :: "(string \<times> category) list" where
  "caller_refusals = [(''unauthenticated'', CatRefused), (''forbidden'', CatRefused)]"

definition validation_failed :: "string \<times> category" where
  "validation_failed = (''validation_failed'', CatInvalidInput)"

fun host_category :: "error_code \<Rightarrow> category option" where
  "host_category UnknownMutation = None"
| "host_category UnknownCommand = None"
| "host_category UnknownProjection = None"
| "host_category UnsupportedMutation = Some CatConfiguration"
| "host_category UnsupportedCommand = Some CatConfiguration"
| "host_category UnsupportedProjection = Some CatConfiguration"
| "host_category InvalidParams = Some CatInvalidInput"
| "host_category ValidationFailed = Some CatInvalidInput"
| "host_category CodeNotFound = Some CatNotFound"
| "host_category CodeConflict = Some CatConflict"
| "host_category StaleWrite = Some CatConflict"
| "host_category BaseRevisionInFuture = Some CatConflict"
| "host_category RateLimit = Some CatUnavailable"
| "host_category Cancelled = Some CatInterrupted"
| "host_category Interrupted = Some CatInterrupted"
| "host_category InternalError = Some CatInternal"

definition host_refusals :: "(string \<times> category) list" where
  "host_refusals = List.map_filter (\<lambda>code. map_option (Pair (error_code_as_str code)) (host_category code))
     all_error_codes"

fun implied_code :: "store_error_kind \<Rightarrow> string" where
  "implied_code NotFound = ''not_found''"
| "implied_code Conflict = ''conflict''"
| "implied_code InvalidRequest = ''invalid_params''"
| "implied_code Internal = ''internal_error''"

definition store_refusal_code :: "store_error \<Rightarrow> string" where
  "store_refusal_code e =
     (case Option.bind (err_data e) (\<lambda>d. as_str (json_index d ''code'')) of
        Some code \<Rightarrow>
          (case Option.bind (err_data e) (\<lambda>d. as_str (json_index d ''conflict_kind'')) of
             Some kind \<Rightarrow> if code = ''conflict'' then kind else code
           | None \<Rightarrow> code)
      | None \<Rightarrow> implied_code (err_kind e))"

definition store_refusal :: "store_error \<Rightarrow> op_refusal" where
  "store_refusal e =
     (let code = store_refusal_code e;
          category = (case find (\<lambda>declared. fst declared = code) store_refusals of
              None \<Rightarrow> CatInternal | Some declared \<Rightarrow> snd declared) in
      (op_refusal_new code category)\<lparr>or_details := err_data e,
        or_retryable := Some (code \<in> {''collaboration_commit_contended'', ''collaboration_repair_contended''})\<rparr>)"

definition op_not_found :: "json \<Rightarrow> op_refusal" where
  "op_not_found details = (not_dispatched ''not_found'' CatNotFound)\<lparr>or_details := Some details\<rparr>"

definition op_invalid_params :: "json \<Rightarrow> op_refusal" where
  "op_invalid_params details = (not_dispatched ''invalid_params'' CatInvalidInput)\<lparr>or_details := Some details\<rparr>"

text \<open>\<open>Invalid\<close> and \<open>Forbidden\<close>, without their messages: their details.\<close>

type_synonym invalid = "json option"
type_synonym forbidden = "json option"

definition op_invalid :: "invalid \<Rightarrow> op_refusal" where
  "op_invalid details =
     (op_refusal_new (fst validation_failed) (snd validation_failed))\<lparr>or_details := details\<rparr>"

definition op_forbidden :: "forbidden \<Rightarrow> op_refusal" where
  "op_forbidden details = (op_refusal_new ''forbidden'' CatRefused)\<lparr>or_details := details\<rparr>"

definition unauthenticated :: op_refusal where
  "unauthenticated = not_dispatched ''unauthenticated'' CatRefused"

definition host_refusal :: "rpc_failure \<Rightarrow> op_refusal" where
  "host_refusal failure =
     (let refused = rpc_describe failure;
          refusal = (op_refusal_new (error_code_as_str (rf_code refused))
            (case host_category (rf_code refused) of None \<Rightarrow> CatInternal | Some c \<Rightarrow> c))
            \<lparr>or_details := rf_details refused\<rparr> in
      if rf_code refused = RateLimit
      then refusal\<lparr>or_retryable := Some True, or_evidence := Some NotDispatched\<rparr>
      else if rf_code refused = Interrupted
      then refusal\<lparr>or_retryable := Some True, or_evidence := Some Uncertain\<rparr>
      else refusal)"

definition cancelled_while_running :: op_refusal where
  "cancelled_while_running = (op_refusal_new ''interrupted'' CatInterrupted)\<lparr>or_evidence := Some Uncertain\<rparr>"

definition unencodable :: op_refusal where
  "unencodable = op_refusal_new ''internal_error'' CatInternal"

section \<open>Declarations\<close>

text \<open>How an operation is described to the framework, as far as the sources say: who may call it, what it may do and how it may refuse.\<close>

datatype effect = QueryEffect | MutationEffect | AdministrativeEffect | DestructiveEffect

record op_declaration =
  dcl_name :: string
  dcl_effect :: effect
  dcl_scope :: string
  dcl_policy :: "string option"
  dcl_idempotent :: bool
  dcl_refusals :: "(string \<times> category) list"

definition documents_declared :: "string \<Rightarrow> effect \<Rightarrow> string \<Rightarrow> op_declaration" where
  "documents_declared name effect scope =
     \<lparr>dcl_name = name, dcl_effect = effect, dcl_scope = scope, dcl_policy = Some name, dcl_idempotent = True,
      dcl_refusals = store_refusals @ caller_refusals\<rparr>"

definition recovery_declared :: "string \<Rightarrow> effect \<Rightarrow> string \<Rightarrow> bool \<Rightarrow> op_declaration" where
  "recovery_declared name effect scope idempotent =
     \<lparr>dcl_name = name, dcl_effect = effect, dcl_scope = scope, dcl_policy = None, dcl_idempotent = idempotent,
      dcl_refusals = store_refusals @ caller_refusals\<rparr>"

definition documents_read :: string where "documents_read = ''clerkenwell:documents.read''"
definition documents_write :: string where "documents_write = ''clerkenwell:documents.write''"
definition recovery_read :: string where "recovery_read = ''clerkenwell:recovery.read''"
definition recovery_admin :: string where "recovery_admin = ''clerkenwell:recovery.admin''"
definition recovery_reset :: string where "recovery_reset = ''clerkenwell:recovery.reset''"

definition list_declared :: op_declaration where
  "list_declared = documents_declared ''clerkenwell.document.list'' QueryEffect documents_read"

definition get_declared :: op_declaration where
  "get_declared = documents_declared ''clerkenwell.document.get'' QueryEffect documents_read"

definition edit_declared :: op_declaration where
  "edit_declared = (let d = documents_declared ''clerkenwell.document.edit'' MutationEffect documents_write in
     d\<lparr>dcl_refusals := dcl_refusals d @ [validation_failed]\<rparr>)"

definition edit_text_declared :: op_declaration where
  "edit_text_declared = (let d = documents_declared ''clerkenwell.document.editText'' MutationEffect documents_write in
     d\<lparr>dcl_idempotent := False, dcl_refusals := dcl_refusals d @ [validation_failed]\<rparr>)"

definition document_declarations :: "op_declaration list" where
  "document_declarations = [list_declared, get_declared, edit_declared, edit_text_declared]"

definition recovery_declarations :: "op_declaration list" where
  "recovery_declarations =
     [recovery_declared ''clerkenwell.recovery.stores'' QueryEffect recovery_read True,
      recovery_declared ''clerkenwell.recovery.verify'' QueryEffect recovery_read True,
      recovery_declared ''clerkenwell.recovery.export'' AdministrativeEffect recovery_read False,
      recovery_declared ''clerkenwell.recovery.audit'' QueryEffect recovery_read True,
      recovery_declared ''clerkenwell.recovery.quarantine'' AdministrativeEffect recovery_admin False,
      recovery_declared ''clerkenwell.recovery.repair'' AdministrativeEffect recovery_admin False,
      recovery_declared ''clerkenwell.recovery.reindex'' AdministrativeEffect recovery_admin True,
      recovery_declared ''clerkenwell.recovery.reset'' DestructiveEffect recovery_reset False]"

section \<open>The application\<close>

record 'o ops_host =
  oh_principal :: "'o \<Rightarrow> principal option"
  oh_validate :: "string \<Rightarrow> json \<Rightarrow> invalid + unit"

definition call_principal :: "'o ops_host \<Rightarrow> 'o \<Rightarrow> op_refusal + principal" where
  "call_principal host auth = ok_or unauthenticated (oh_principal host auth)"

section \<open>Documents\<close>

type_synonym store_params = "(string, string) bmap"

record list_input =
  li_entity :: string
  li_store :: store_params

record get_input =
  gi_entity :: string
  gi_id :: string
  gi_store :: store_params

record edit_input =
  ei_entity :: string
  ei_id :: string
  ei_store :: store_params
  ei_operation_id :: string
  ei_etag :: string
  ei_document :: json
  ei_intent :: "string option"

record edit_text_input =
  eti_entity :: string
  eti_id :: string
  eti_store :: store_params
  eti_operation_id :: string
  eti_field_path :: string
  eti_identities :: "(string, string) bmap"
  eti_frontier_base64 :: string
  eti_read :: string
  eti_replacement :: string
  eti_intent :: "string option"

record document_scope =
  dsc_entity :: string
  dsc_id :: "string option"
  dsc_store :: store_params

definition list_scope :: "list_input \<Rightarrow> document_scope" where
  "list_scope i = \<lparr>dsc_entity = li_entity i, dsc_id = None, dsc_store = li_store i\<rparr>"

definition get_scope :: "get_input \<Rightarrow> document_scope" where
  "get_scope i = \<lparr>dsc_entity = gi_entity i, dsc_id = Some (gi_id i), dsc_store = gi_store i\<rparr>"

definition edit_scope :: "edit_input \<Rightarrow> document_scope" where
  "edit_scope i = \<lparr>dsc_entity = ei_entity i, dsc_id = Some (ei_id i), dsc_store = ei_store i\<rparr>"

definition edit_text_scope :: "edit_text_input \<Rightarrow> document_scope" where
  "edit_text_scope i = \<lparr>dsc_entity = eti_entity i, dsc_id = Some (eti_id i), dsc_store = eti_store i\<rparr>"

text \<open>The resource policy of an operation, from the application's check of a scope.\<close>

definition op_policy ::
  "('o \<Rightarrow> document_scope \<Rightarrow> forbidden + unit) \<Rightarrow> ('i \<Rightarrow> document_scope) \<Rightarrow> 'o \<Rightarrow> 'i \<Rightarrow> op_refusal + unit"
where
  "op_policy check scope auth input = map_err op_forbidden (check auth (scope input))"

record document_version =
  dv_incarnation :: string
  dv_peers :: "(string, u64) bmap"

definition document_version_of :: "collaboration_version \<Rightarrow> document_version" where
  "document_version_of v =
     \<lparr>dv_incarnation = cv_incarnation v,
      dv_peers = bmap_of (map (\<lambda>(peer, counter). (dec (unat peer), counter)) (cv_peers v))\<rparr>"

record document_summary =
  dsm_id :: string
  dsm_etag :: string
  dsm_generation :: u64
  dsm_version :: document_version

definition document_summary_of :: "summary \<Rightarrow> document_summary" where
  "document_summary_of s =
     \<lparr>dsm_id = doc_resource_id (sum_document s), dsm_etag = sum_etag s, dsm_generation = sum_generation s,
      dsm_version = document_version_of (sum_version s)\<rparr>"

record op_document =
  od_document :: json
  od_etag :: string
  od_generation :: u64
  od_version :: document_version
  od_accepted_frontier_base64 :: string

definition op_document_of :: "document_read \<Rightarrow> op_document" where
  "op_document_of read =
     \<lparr>od_document = dr_document read, od_etag = sum_etag (dr_summary read),
      od_generation = sum_generation (dr_summary read),
      od_version = document_version_of (sum_version (dr_summary read)),
      od_accepted_frontier_base64 = dr_accepted_frontier_base64 read\<rparr>"

record edited =
  ed_document :: json
  ed_etag :: string
  ed_generation :: u64
  ed_version :: document_version
  ed_accepted_frontier_base64 :: string
  ed_duplicate :: bool

definition edited_of :: "import_report \<Rightarrow> edited" where
  "edited_of imported =
     \<lparr>ed_document = ir_materialized imported, ed_etag = ir_etag imported, ed_generation = ir_generation imported,
      ed_version = document_version_of (ir_version imported),
      ed_accepted_frontier_base64 = ir_accepted_frontier_base64 imported, ed_duplicate = ir_duplicate imported\<rparr>"

text \<open>Why an edit was not committed; \<open>EditFailure::Store\<close> is how a store's error becomes one.\<close>

datatype edit_failure = EditStore store_error | EditInvalid invalid

fun edit_refusal :: "edit_failure \<Rightarrow> op_refusal" where
  "edit_refusal (EditStore e) = store_refusal e"
| "edit_refusal (EditInvalid details) = op_invalid details"

definition absent :: "document_id \<Rightarrow> op_refusal" where
  "absent document = (op_refusal_new ''collaboration_document_not_found'' CatNotFound)
     \<lparr>or_details := Some (jobj [(''entity'', JString (doc_entity document)),
        (''resource_id'', JString (doc_resource_id document))])\<rparr>"

definition op_store ::
  "('s, 'd, 'f) stores_world authoring_states \<Rightarrow> string \<Rightarrow> store_params \<Rightarrow> ('s, 'd, 'f) stores \<Rightarrow>
   op_refusal + entity_spec \<times> ('s, 'd, 'f) service"
where
  "op_store A entity store stores =
     res_bind (ok_or (op_not_found (jobj [(''entity'', JString entity)])) (au_entity A entity)) (\<lambda>plan.
     let declared = bset_of (plan_authoring_store_params plan) in
     if map fst store \<noteq> declared
     then Inl (op_invalid_params (jobj [(''entity'', JString entity),
       (''store_params'', JArray (map JString declared))]))
     else
       let params = JObject (map (\<lambda>(name, v). (name, JString v)) store) in
       res_bind (ok_or (op_not_found (jobj [(''entity'', JString entity)]))
         (Option.bind (au_route A entity params) (stores_store stores))) (\<lambda>service.
       Inr (plan, service)))"

definition located ::
  "('s, 'd, 'f) stores_world authoring_states \<Rightarrow> string \<Rightarrow> string \<Rightarrow> store_params \<Rightarrow> ('s, 'd, 'f) stores \<Rightarrow>
   op_refusal + entity_spec \<times> ('s, 'd, 'f) service \<times> document_id"
where
  "located A entity i store_params stores =
     res_bind (op_store A entity store_params stores) (\<lambda>(plan, service).
     let document = document_id_new (plan_name plan) i in
     case plan_authoring_document plan of
       Some only \<Rightarrow> if only \<noteq> i then Inl (absent document) else Inr (plan, service, document)
     | None \<Rightarrow> Inr (plan, service, document))"

text \<open>A call of a service, whose world is the one its store keeps.\<close>

type_synonym ('s, 'd, 'f, 'a) op_act = "(('s, 'd, 'f) stores_world, op_refusal, 'a) act"

definition in_service ::
  "('s, 'd, 'f) service \<Rightarrow> ('e \<Rightarrow> op_refusal) \<Rightarrow> (('s, 'd) world, 'e, 'a) act \<Rightarrow> ('s, 'd, 'f, 'a) op_act"
where
  "in_service service into m = at_store (svc_source service) (act_map_err into m)"

definition in_stores :: "(('s, 'd, 'f) stores \<Rightarrow> op_refusal + 'a) \<Rightarrow> ('s, 'd, 'f, 'a) op_act" where
  "in_stores f = act_bind (act_gets sw_stores) (\<lambda>stores. act_lift (f stores))"

definition op_list ::
  "('s, 'd, 'f) stores_world authoring_states \<Rightarrow> 'o ops_host \<Rightarrow> 'o \<Rightarrow> list_input \<Rightarrow>
   ('s, 'd, 'f, document_summary list) op_act"
where
  "op_list A host auth input =
     act_bind (act_lift (call_principal host auth)) (\<lambda>_.
     act_bind (in_stores (op_store A (li_entity input) (li_store input))) (\<lambda>(plan, service).
     act_bind (in_service service store_refusal (svc_summaries service (plan_name plan))) (\<lambda>summaries.
     act_return (map document_summary_of summaries))))"

definition op_get ::
  "('s, 'd, 'f) stores_world authoring_states \<Rightarrow> 'o ops_host \<Rightarrow> 'o \<Rightarrow> get_input \<Rightarrow>
   ('s, 'd, 'f, op_document) op_act"
where
  "op_get A host auth input =
     act_bind (act_lift (call_principal host auth)) (\<lambda>_.
     act_bind (in_stores (located A (gi_entity input) (gi_id input) (gi_store input))) (\<lambda>(plan, service, document).
     act_bind (in_service service store_refusal (read_document service plan document)) (\<lambda>read.
     act_bind (act_lift (ok_or (absent document) read)) (\<lambda>found.
     act_return (op_document_of found)))))"

definition op_edit ::
  "('s, 'd, 'f) stores_world authoring_states \<Rightarrow> 'o ops_host \<Rightarrow> 'o \<Rightarrow> edit_input \<Rightarrow>
   ('s, 'd, 'f, edited) op_act"
where
  "op_edit A host auth input =
     act_bind (act_lift (call_principal host auth)) (\<lambda>actor.
     act_bind (in_stores (located A (ei_entity input) (ei_id input) (ei_store input))) (\<lambda>(plan, service, document).
     act_bind (in_service service edit_refusal (svc_edit service EditStore plan
       \<lparr>de_document = document, de_operation_id = ei_operation_id input, de_edited = ei_document input,
        de_etag = ei_etag input, de_actor = actor, de_intent = ei_intent input\<rparr>
       (\<lambda>v. map_err EditInvalid (oh_validate host (plan_name plan) v)))) (\<lambda>report.
     act_return (edited_of report))))"

definition op_edit_text ::
  "('s, 'd, 'f) stores_world authoring_states \<Rightarrow> 'o ops_host \<Rightarrow> 'o \<Rightarrow> edit_text_input \<Rightarrow>
   ('s, 'd, 'f, edited) op_act"
where
  "op_edit_text A host auth input =
     act_bind (act_lift (call_principal host auth)) (\<lambda>actor.
     act_bind (in_stores (located A (eti_entity input) (eti_id input) (eti_store input))) (\<lambda>(plan, service, document).
     act_bind (in_service service edit_refusal (svc_edit_text service EditStore plan
       \<lparr>te_document = document, te_operation_id = eti_operation_id input, te_field_path = eti_field_path input,
        te_identities = eti_identities input, te_frontier_base64 = eti_frontier_base64 input,
        te_read = eti_read input, te_replacement = eti_replacement input, te_actor = actor,
        te_intent = eti_intent input\<rparr>
       (\<lambda>v. map_err EditInvalid (oh_validate host (plan_name plan) v)))) (\<lambda>report.
     act_return (edited_of report))))"

section \<open>Recovery\<close>

record stored_document =
  sdo_store :: string
  sdo_entity :: string
  sdo_id :: string

record reasoned =
  rsn_store :: string
  rsn_entity :: string
  rsn_id :: string
  rsn_reason :: string

record audit_input =
  ai_store :: string
  ai_entity :: "string option"
  ai_id :: "string option"
  ai_actor :: "string option"
  ai_from_unix_ms :: "u64 option"
  ai_until_unix_ms :: "u64 option"

record op_audit_record =
  oar_timestamp_unix_ms :: u64
  oar_actor :: string
  oar_actor_kind :: string
  oar_entity :: string
  oar_id :: string
  oar_event :: json

text \<open>
  \<open>Context::store\<close>. The inspection, evidence, export and reindex an operation answers carry the store's
  values under other names, and are those values here.
\<close>

definition recovery_store :: "string \<Rightarrow> ('s, 'd, 'f) stores \<Rightarrow> op_refusal + ('s, 'd, 'f) service" where
  "recovery_store name stores = ok_or (op_not_found (jobj [(''store'', JString name)])) (stores_store stores name)"

definition op_stores :: "'o ops_host \<Rightarrow> 'o \<Rightarrow> ('s, 'd, 'f, string list) op_act" where
  "op_stores host auth =
     act_bind (act_lift (call_principal host auth)) (\<lambda>_.
     act_gets (\<lambda>w. map fst (sts_stores (sw_stores w))))"

text \<open>\<open>verify\<close> does not fail: what it cannot read, it reports.\<close>

definition op_verify :: "'o ops_host \<Rightarrow> 'o \<Rightarrow> stored_document \<Rightarrow> ('s, 'd, 'f, inspection) op_act" where
  "op_verify host auth input =
     act_bind (act_lift (call_principal host auth)) (\<lambda>_.
     act_bind (in_stores (recovery_store (sdo_store input))) (\<lambda>service.
     in_service service store_refusal (svc_verify service (document_id_new (sdo_entity input) (sdo_id input)))))"

definition op_export ::
  "'o ops_host \<Rightarrow> 'o \<Rightarrow> stored_document \<Rightarrow> ('s, 'd, 'f, string) op_act"
where
  "op_export host auth input =
     act_bind (act_lift (call_principal host auth)) (\<lambda>actor.
     act_bind (in_stores (recovery_store (sdo_store input))) (\<lambda>service.
     act_bind (in_service service store_refusal
       (export_for_recovery service actor (document_id_new (sdo_entity input) (sdo_id input)))) (\<lambda>bs.
     act_return (b64_encode (svc_loro service) bs))))"

text \<open>A record of the audit; nothing when its timestamp does not fit 64 bits, where the code panics.\<close>

definition audit_record_of :: "(audit_event \<Rightarrow> json) \<Rightarrow> audit_record \<Rightarrow> op_audit_record option" where
  "audit_record_of to_value record =
     (if ar_timestamp_unix_ms record < 2 ^ 64
      then Some \<lparr>oar_timestamp_unix_ms = word_of_nat (ar_timestamp_unix_ms record),
        oar_actor = principal_id (ar_actor record), oar_actor_kind = kind_name (principal_kind (ar_actor record)),
        oar_entity = ar_entity record, oar_id = ar_resource_id record, oar_event = to_value (ar_event record)\<rparr>
      else None)"

definition op_audit ::
  "(audit_event \<Rightarrow> json) \<Rightarrow> 'o ops_host \<Rightarrow> 'o \<Rightarrow> audit_input \<Rightarrow>
   ('s, 'd, 'f, op_audit_record option list) op_act"
where
  "op_audit to_value host auth input =
     act_bind (act_lift (call_principal host auth)) (\<lambda>_.
     act_bind (in_stores (recovery_store (ai_store input))) (\<lambda>service.
     act_bind (act_lift (case (ai_entity input, ai_id input) of
         (Some entity, Some i) \<Rightarrow> Inr (Some (document_id_new entity i))
       | (None, None) \<Rightarrow> Inr None
       | _ \<Rightarrow> Inl (op_invalid_params (jobj [(''store'', JString (ai_store input))])))) (\<lambda>document.
     act_bind (in_service service store_refusal (svc_audit service
       \<lparr>aq_document = document, aq_actor_id = ai_actor input,
        aq_from_unix_ms = map_option unat (ai_from_unix_ms input),
        aq_until_unix_ms = map_option unat (ai_until_unix_ms input)\<rparr>)) (\<lambda>records.
     act_return (map (audit_record_of to_value) records)))))"

definition op_quarantine :: "'o ops_host \<Rightarrow> 'o \<Rightarrow> reasoned \<Rightarrow> ('s, 'd, 'f, string) op_act" where
  "op_quarantine host auth input =
     act_bind (act_lift (call_principal host auth)) (\<lambda>actor.
     act_bind (in_stores (recovery_store (rsn_store input))) (\<lambda>service.
     in_service service store_refusal
       (quarantine service actor (document_id_new (rsn_entity input) (rsn_id input)) (rsn_reason input))))"

definition op_repair :: "'o ops_host \<Rightarrow> 'o \<Rightarrow> reasoned \<Rightarrow> ('s, 'd, 'f, string) op_act" where
  "op_repair host auth input =
     act_bind (act_lift (call_principal host auth)) (\<lambda>actor.
     act_bind (in_stores (recovery_store (rsn_store input))) (\<lambda>service.
     in_service service store_refusal
       (repair service actor (document_id_new (rsn_entity input) (rsn_id input)) (rsn_reason input))))"

definition op_reindex :: "'o ops_host \<Rightarrow> 'o \<Rightarrow> string \<Rightarrow> ('s, 'd, 'f, nat \<times> string) op_act" where
  "op_reindex host auth store =
     act_bind (act_lift (call_principal host auth)) (\<lambda>actor.
     act_bind (in_stores (recovery_store store)) (\<lambda>service.
     in_service service store_refusal (reindex service actor)))"

text \<open>\<open>reset\<close> deletes, which repeats while other writers come between; \<open>None\<close> is a deletion that never ends.\<close>

definition op_reset ::
  "'o ops_host \<Rightarrow> 'o \<Rightarrow> stored_document \<Rightarrow> ('s, 'd, 'f) stores_world \<Rightarrow>
   ((op_refusal + unit) \<times> ('s, 'd, 'f) stores_world) option"
where
  "op_reset host auth input w =
     (case call_principal host auth of
        Inl e \<Rightarrow> Some (Inl e, w)
      | Inr actor \<Rightarrow>
          (case recovery_store (sdo_store input) (sw_stores w) of
             Inl e \<Rightarrow> Some (Inl e, w)
           | Inr service \<Rightarrow>
               map_option (\<lambda>(r, t). (map_err store_refusal r,
                   w\<lparr>sw_worlds := (sw_worlds w)(svc_source service := t)\<rparr>))
                 (svc_reset service actor (document_id_new (sdo_entity input) (sdo_id input))
                   (sw_worlds w (svc_source service)))))"

section \<open>Generated operations\<close>

datatype entry = ProjectionEntry | MutationEntry | CommandEntry

text \<open>
  What is contributed for a registry: every projection that is no authoring state, every mutation that is
  no import of an entity it touches, and every command.
\<close>

definition replicated :: "'w authoring_states option \<Rightarrow> string \<Rightarrow> bool" where
  "replicated authoring projection =
     (case authoring of None \<Rightarrow> False | Some A \<Rightarrow> au_plan A projection \<noteq> None)"

definition is_import :: "'w authoring_states option \<Rightarrow> string \<Rightarrow> string list \<Rightarrow> bool" where
  "is_import authoring mutation touches =
     list_ex (\<lambda>entity. case Option.bind authoring (\<lambda>A. au_entity A entity) of
         None \<Rightarrow> False | Some plan \<Rightarrow> plan_import_mutation plan = mutation) touches"

record descriptor_request =
  dq_name :: string
  dq_entry :: entry
  dq_effect :: effect
  dq_params_schema :: string
  dq_field :: string
  dq_schema :: string

definition generated_requests :: "registry \<Rightarrow> 'w authoring_states option \<Rightarrow> descriptor_request list" where
  "generated_requests R authoring =
     map (\<lambda>p. \<lparr>dq_name = ps_name p, dq_entry = ProjectionEntry, dq_effect = QueryEffect,
         dq_params_schema = ps_params_schema p, dq_field = ''snapshot'', dq_schema = ps_snapshot_schema p\<rparr>)
       (filter (\<lambda>p. \<not> replicated authoring (ps_name p)) (reg_projections R))
     @ map (\<lambda>m. \<lparr>dq_name = ms_name m, dq_entry = MutationEntry, dq_effect = MutationEffect,
         dq_params_schema = ms_params_schema m, dq_field = ''result'', dq_schema = ms_result_schema m\<rparr>)
       (filter (\<lambda>m. \<not> is_import authoring (ms_name m) (ms_touches m)) (reg_mutations R))
     @ map (\<lambda>c. \<lparr>dq_name = cs_name c, dq_entry = CommandEntry,
         dq_effect = (if cs_touches c = [] then QueryEffect else MutationEffect),
         dq_params_schema = cs_params_schema c, dq_field = ''result'', dq_schema = cs_result_schema c\<rparr>)
       (reg_commands R)"

record op_descriptor =
  opd_name :: string
  opd_entry :: entry
  opd_input :: "(string, json) bmap"
  opd_output :: json
  opd_effect :: effect
  opd_scope :: string
  opd_refusals :: "(string, category) bmap"
  opd_idempotent :: bool

text \<open>
  \<open>descriptor\<close>: \<open>parse\<close> reads a JSON object's text, \<open>named\<close> judges a complete name and \<open>schema\<close> an output
  schema, as \<open>serde_json\<close>, Clapham and schemars do. A failure names the operation.
\<close>

definition descriptor ::
  "(string \<Rightarrow> (string, json) bmap option) \<Rightarrow> (string \<Rightarrow> bool) \<Rightarrow> (json \<Rightarrow> bool) \<Rightarrow> string \<Rightarrow>
   descriptor_request \<Rightarrow> string + op_descriptor"
where
  "descriptor parse named schema namespace q =
     (let complete = namespace @ ''.'' @ dq_name q in
      res_bind (ok_or complete (parse (dq_params_schema q))) (\<lambda>input.
      res_bind (ok_or complete (parse (dq_schema q))) (\<lambda>v.
      let definitions = map_of v ''$defs'';
          output = jobj
            ([(''type'', JString ''object''), (''additionalProperties'', JBool False),
              (''required'', JArray [JString ''modification'', JString (dq_field q)]),
              (''properties'', jobj
                [(''modification'', jobj
                   [(''description'', JString ''The number of the last modification it reads or saved; null when it names none.''),
                    (''type'', JArray [JString ''integer'', JString ''null'']), (''minimum'', JNumber (PosInt 0))]),
                 (dq_field q, JObject (bmap_remove ''$defs'' v))])]
             @ (case definitions of None \<Rightarrow> [] | Some d \<Rightarrow> [(''$defs'', d)])) in
      if \<not> named complete then Inl complete
      else if \<not> schema output then Inl complete
      else Inr
        \<lparr>opd_name = complete, opd_entry = dq_entry q, opd_input = input, opd_output = output,
         opd_effect = dq_effect q,
         opd_scope = namespace @ (if dq_effect q = QueryEffect then '':read'' else '':write''),
         opd_refusals = bmap_of (host_refusals @ caller_refusals),
         opd_idempotent = (dq_effect q = QueryEffect)\<rparr>)))"

definition generated_contribution ::
  "(string \<Rightarrow> (string, json) bmap option) \<Rightarrow> (string \<Rightarrow> bool) \<Rightarrow> (json \<Rightarrow> bool) \<Rightarrow> registry \<Rightarrow>
   'w authoring_states option \<Rightarrow> string + op_descriptor list"
where
  "generated_contribution parse named schema R authoring =
     res_collect (descriptor parse named schema (reg_namespace R)) (generated_requests R authoring)"

text \<open>\<open>contribute\<close> and \<open>contribute_held\<close>: a contribution's namespace and the operations under it.\<close>

datatype contributed = Held op_declaration | Generated op_descriptor

definition contribute_held :: "string \<times> contributed list" where
  "contribute_held = (''clerkenwell'', map Held recovery_declarations)"

definition contribute ::
  "(string \<Rightarrow> (string, json) bmap option) \<Rightarrow> (string \<Rightarrow> bool) \<Rightarrow> (json \<Rightarrow> bool) \<Rightarrow> registry \<Rightarrow>
   'w authoring_states option \<Rightarrow> string + (string \<times> contributed list) list"
where
  "contribute parse named schema R authoring =
     res_bind (generated_contribution parse named schema R authoring) (\<lambda>generated.
     Inr ((case authoring of
         None \<Rightarrow> []
       | Some _ \<Rightarrow> [(''clerkenwell'', map Held (document_declarations @ recovery_declarations))])
       @ [(reg_namespace R, map Generated generated)]))"

text \<open>What a generated operation answers: the number of the modification and the value under its field.\<close>

definition generated_answer :: "string \<Rightarrow> u64 option \<Rightarrow> json \<Rightarrow> json" where
  "generated_answer field modification v =
     jobj [(''modification'', case modification of None \<Rightarrow> JNull | Some n \<Rightarrow> JNumber (PosInt (unat n))), (field, v)]"

definition generated_projection ::
  "('w, 's, 'p, 'd, 'm, 'c, 'n, rpc_failure) host \<Rightarrow> ('s \<Rightarrow> json option) \<Rightarrow> 'o ops_host \<Rightarrow> 'o \<Rightarrow> string \<Rightarrow> json \<Rightarrow>
   ('w, 's, 'p, 'd, 'm, 'c, 'n) server \<Rightarrow> (op_refusal + json) \<times> ('w, 's, 'p, 'd, 'm, 'c, 'n) server"
where
  "generated_projection H value_of host auth name input sv =
     (case call_principal host auth of
        Inl e \<Rightarrow> (Inl e, sv)
      | Inr _ \<Rightarrow>
          (case host_snapshot H name input None (sv_host sv) of
             (Inl failure, w) \<Rightarrow> (Inl (host_refusal failure), sv\<lparr>sv_host := w\<rparr>)
           | (Inr numbered, w) \<Rightarrow>
               (case value_of (ns_snapshot numbered) of
                  None \<Rightarrow> (Inl unencodable, sv\<lparr>sv_host := w\<rparr>)
                | Some v \<Rightarrow> (Inr (generated_answer ''snapshot'' (Some (ns_through numbered)) v), sv\<lparr>sv_host := w\<rparr>))))"

definition generated_mutation ::
  "('w, 's, 'p, 'd, 'm, 'c, 'n, rpc_failure) host \<Rightarrow> ('m \<Rightarrow> json option) \<Rightarrow> bool \<Rightarrow> 'o ops_host \<Rightarrow> 'o \<Rightarrow> string \<Rightarrow>
   json \<Rightarrow> ('w, 's, 'p, 'd, 'm, 'c, 'n) server \<Rightarrow>
   (op_refusal + json) \<times> ('w, 's, 'p, 'd, 'm, 'c, 'n) server"
where
  "generated_mutation H value_of panicked host auth name input sv =
     (case call_principal host auth of
        Inl e \<Rightarrow> (Inl e, sv)
      | Inr actor \<Rightarrow>
          (case app_mutate H panicked actor name input value_of sv of
             (Inl failure, sv1) \<Rightarrow> (Inl (host_refusal failure), sv1)
           | (Inr made, sv1) \<Rightarrow> (Inr (generated_answer ''result'' (md_modification made) (md_result made)), sv1)))"

text \<open>
  A command's call starts it, then waits for its outcome or for its own cancellation, \<open>None\<close>, whichever
  comes first.
\<close>

definition generated_command ::
  "'o ops_host \<Rightarrow> 'o \<Rightarrow> string \<Rightarrow> json \<Rightarrow> ('w, 's, 'p, 'd, 'm, 'c, 'n) server \<Rightarrow>
   (op_refusal + unit) \<times> ('w, 's, 'p, 'd, 'm, 'c, 'n) server"
where
  "generated_command host auth name input sv =
     (case call_principal host auth of
        Inl e \<Rightarrow> (Inl e, sv)
      | Inr actor \<Rightarrow>
          (case app_command actor name input sv of
             (Inl failure, sv1) \<Rightarrow> (Inl (host_refusal failure), sv1)
           | (Inr _, sv1) \<Rightarrow> (Inr (), sv1)))"

definition generated_command_answer ::
  "('c \<Rightarrow> json option) \<Rightarrow> string \<Rightarrow> ('m, 'c, 'n) sent option \<Rightarrow> op_refusal + json"
where
  "generated_command_answer value_of name ended =
     (case ended of
        None \<Rightarrow> Inl cancelled_while_running
      | Some sent \<Rightarrow>
          (case app_command_answer name value_of sent of
             Inl failure \<Rightarrow> Inl (host_refusal failure)
           | Inr made \<Rightarrow> Inr (generated_answer ''result'' (md_modification made) (md_result made))))"

end
