(* ===== verification/Refusing.thy ===== *)
theory Refusing
  imports Operations Storage
begin

text \<open>
  How the operations refuse. \<open>refuses P m\<close> says that every error of the action \<open>m\<close> satisfies \<open>P\<close>; it composes
  along binds as \<open>moves\<close> does, so what an operation can refuse with is read off the errors its parts name.
\<close>

named_theorems refuses_intro \<open>how an action is seen to refuse with some errors only\<close>

definition refuses :: "('e \<Rightarrow> bool) \<Rightarrow> ('s, 'e, 'a) act \<Rightarrow> bool" where
  "refuses P m \<longleftrightarrow> (\<forall>s e t. m s = (Inl e, t) \<longrightarrow> P e)"

definition fails_with :: "('e \<Rightarrow> bool) \<Rightarrow> 'e + 'a \<Rightarrow> bool" where
  "fails_with P r \<longleftrightarrow> (\<forall>e. r = Inl e \<longrightarrow> P e)"

lemma refusesD: "refuses P m \<Longrightarrow> m s = (Inl e, t) \<Longrightarrow> P e"
  unfolding refuses_def by blast

lemma refuses_mono: "refuses P m \<Longrightarrow> (\<And>e. P e \<Longrightarrow> Q e) \<Longrightarrow> refuses Q m"
  by (auto simp: refuses_def)

lemma refuses_pure [refuses_intro]:
  "refuses P (act_return a)" "refuses P (act_gets f)" "refuses P (act_modify g)"
  "P e \<Longrightarrow> refuses P (act_fail e)" "fails_with P r \<Longrightarrow> refuses P (act_lift r)" "refuses P (act_result m)"
  by (auto simp: refuses_def fails_with_def act_result_iff)

lemma refuses_Pair [simp]: "refuses P (Pair r) \<longleftrightarrow> fails_with P r"
  by (auto simp: refuses_def fails_with_def)

lemma refuses_bind [refuses_intro]:
  "refuses P m \<Longrightarrow> (\<And>a. refuses P (f a)) \<Longrightarrow> refuses P (act_bind m f)"
  unfolding refuses_def act_bind_Inl_iff by blast

lemma refuses_catch:
  "refuses Q m \<Longrightarrow> (\<And>e. Q e \<Longrightarrow> refuses P (h e)) \<Longrightarrow> refuses P (act_catch m h)"
  unfolding refuses_def act_catch_Inl_iff by blast

lemma refuses_map_err [refuses_intro]: "refuses (\<lambda>e. P (h e)) m \<Longrightarrow> refuses P (act_map_err h m)"
  by (auto simp: refuses_def act_map_err_Inl_iff)

lemma refuses_collect [refuses_intro]: "(\<And>x. refuses P (f x)) \<Longrightarrow> refuses P (act_collect f xs)"
proof (induction xs)
  case Nil
  show ?case by (simp add: refuses_def)
next
  case (Cons x xs)
  have "refuses P (act_bind (f x) (\<lambda>y. act_bind (act_collect f xs) (\<lambda>ys. act_return (y # ys))))"
    using Cons by (intro refuses_intro) auto
  then show ?case by (simp add: refuses_def)
qed

lemma refuses_if [refuses_intro]: "refuses P m \<Longrightarrow> refuses P n \<Longrightarrow> refuses P (if b then m else n)"
  by simp

lemma refuses_option [refuses_intro]:
  "refuses P m \<Longrightarrow> (\<And>a. refuses P (f a)) \<Longrightarrow> refuses P (case x of None \<Rightarrow> m | Some a \<Rightarrow> f a)"
  by (cases x) simp_all

lemma refuses_sum [refuses_intro]:
  "(\<And>a. refuses P (f a)) \<Longrightarrow> (\<And>b. refuses P (g b)) \<Longrightarrow> refuses P (case x of Inl a \<Rightarrow> f a | Inr b \<Rightarrow> g b)"
  by (cases x) simp_all

lemma refuses_prod [refuses_intro]: "(\<And>a b. refuses P (f a b)) \<Longrightarrow> refuses P (case x of (a, b) \<Rightarrow> f a b)"
  by (cases x) simp

lemma fails_with_pure [refuses_intro]:
  "fails_with P (Inr a)" "P e \<Longrightarrow> fails_with P (Inl e)" "P e \<Longrightarrow> fails_with P (ok_or e v)"
  "(\<And>e. P (h e)) \<Longrightarrow> fails_with P (map_err h r)"
  by (auto simp: fails_with_def map_err_Inl_iff ok_or_def split: option.splits)

lemmas fails_with_Inr [simp] = fails_with_pure(1)

lemma fails_with_bind [refuses_intro]:
  "fails_with P r \<Longrightarrow> (\<And>a. fails_with P (f a)) \<Longrightarrow> fails_with P (res_bind r f)"
  by (auto simp: fails_with_def res_bind_Inl_iff)

lemma fails_with_if [refuses_intro]: "fails_with P m \<Longrightarrow> fails_with P n \<Longrightarrow> fails_with P (if b then m else n)"
  by simp

lemma fails_with_option [refuses_intro]:
  "fails_with P m \<Longrightarrow> (\<And>a. fails_with P (f a)) \<Longrightarrow> fails_with P (case x of None \<Rightarrow> m | Some a \<Rightarrow> f a)"
  by (cases x) simp_all

lemma fails_with_sum [refuses_intro]:
  "(\<And>a. fails_with P (f a)) \<Longrightarrow> (\<And>b. fails_with P (g b)) \<Longrightarrow> fails_with P (case x of Inl a \<Rightarrow> f a | Inr b \<Rightarrow> g b)"
  by (cases x) simp_all

lemma fails_with_prod [refuses_intro]: "(\<And>a b. fails_with P (f a b)) \<Longrightarrow> fails_with P (case x of (a, b) \<Rightarrow> f a b)"
  by (cases x) simp

section \<open>The store's errors\<close>

definition declared_error :: "store_error \<Rightarrow> bool" where
  "declared_error e \<longleftrightarrow> store_refusal_code e \<in> set (map fst store_refusals)"

text \<open>The code of an error whose data is built by \<open>document_data\<close>, unless a member it adds names another.\<close>

lemma document_data_index:
  "json_index (document_data code document extra) k =
     (case map_of (rev extra) k of
        Some v \<Rightarrow> v
      | None \<Rightarrow> if k = ''resource_id'' then JString (doc_resource_id document)
          else if k = ''entity'' then JString (doc_entity document)
          else if k = ''code'' then JString code else JNull)"
  by (simp add: json_index_def document_data_def jobj_def map_of_bmap_of map_add_def split: option.splits)

lemmas code_simps = declared_error_def store_refusal_code_def store_refusals_def document_data_index

lemma plain_errors_declared [refuses_intro]:
  "declared_error internal" "declared_error invalid_request" "declared_error conflict" "declared_error not_found"
  by (simp_all add: code_simps)

lemma corrupt_state_declared [refuses_intro]: "declared_error (corrupt_state document)"
  by (simp add: code_simps corrupt_state_def json_index_def jobj_def map_of_bmap_of)

lemma store_errors_declared [refuses_intro]:
  "declared_error (missing_state document)" "declared_error (not_stored document)"
  "declared_error (operation_id_collision document operation_id)" "declared_error (resync_required document)"
  "declared_error (peer_bound_error document peers)" "declared_error (schema_version_error plan request)"
  "declared_error (document_absent_error document)" "declared_error (creation_policy_error request conflicts)"
  "declared_error (policy_error request conflicts current_document etag accepted missing)"
  "declared_error (contended_error document)" "declared_error (repair_contended_error document)"
  by (simp_all add: code_simps missing_state_def not_stored_def operation_id_collision_def resync_required_def
      peer_bound_error_def schema_version_error_def document_absent_error_def creation_policy_error_def
      policy_error_def contended_error_def repair_contended_error_def)

lemma replica_errors_declared [refuses_intro]: "declared_error (replica_store_error document e)"
  by (cases e) (simp_all add: code_simps resync_required_def)

lemma migration_required_declared [refuses_intro]:
  "declared_error (with_data invalid_request (document_data ''collaboration_migration_required'' document
     [(''actual'', JNumber (PosInt a)), (''expected'', JNumber (PosInt b))]))"
  by (simp add: code_simps)

section \<open>Services\<close>

text \<open>The errors of a storage port are declared too, as those without data are.\<close>

definition port_declared :: "'s port \<Rightarrow> bool" where
  "port_declared P \<longleftrightarrow>
     (\<forall>entity. refuses declared_error (port_sources P entity))
     \<and> (\<forall>source. refuses declared_error (port_read P source))
     \<and> (\<forall>source. refuses declared_error (port_stamp P source))
     \<and> (\<forall>document expected bs. refuses declared_error (port_compare_and_swap P document expected bs))
     \<and> (\<forall>document expected. refuses declared_error (port_compare_and_remove P document expected))
     \<and> (\<forall>document label bs. refuses declared_error (port_preserve P document label bs))
     \<and> (\<forall>record. refuses declared_error (port_append_audit P record))
     \<and> (\<forall>query. refuses declared_error (port_audit P query))
     \<and> (\<forall>ms. refuses declared_error (port_discard_audit_before P ms))"

lemma on_storage_refuses: "refuses P m \<Longrightarrow> refuses P (on_storage m)"
  unfolding refuses_def on_storage_def by (auto split: prod.splits)

lemma port_refuses:
  assumes "port_declared (svc_port S)"
  shows "refuses declared_error (on_storage (port_sources (svc_port S) entity))"
    "refuses declared_error (on_storage (port_read (svc_port S) source))"
    "refuses declared_error (on_storage (port_stamp (svc_port S) source))"
    "refuses declared_error (on_storage (port_compare_and_swap (svc_port S) document expected bs))"
    "refuses declared_error (on_storage (port_compare_and_remove (svc_port S) document version))"
    "refuses declared_error (on_storage (port_preserve (svc_port S) document label bs))"
    "refuses declared_error (on_storage (port_append_audit (svc_port S) record))"
    "refuses declared_error (on_storage (port_audit (svc_port S) query))"
  using assms by (simp_all add: port_declared_def on_storage_refuses)

lemma held_refuse [refuses_intro]:
  "refuses P (resident_new version stamp e peers)" "refuses P (hold source r)" "refuses P (forget source)"
  "refuses P (restamp r stamp)" "refuses P (offer r built v)" "refuses P (residency_get source)"
  by (auto simp: refuses_def resident_new_def hold_def forget_def restamp_def offer_def residency_get_def
      Let_def split: option.splits)

lemma drawing_refuses [refuses_intro]:
  "refuses P (counting f)" "refuses P (draw stream)" "refuses P (new_incarnation S)"
  "refuses P (allocate_peers S who document)"
  by (auto simp: refuses_def counting_def draw_def new_incarnation_def allocate_peers_def act_bind_Inl_iff)

lemma resident_refuses [refuses_intro]:
  "fails_with P (build (res_envelope r)) \<Longrightarrow> refuses P (resident_replica r build)"
  "fails_with P built \<Longrightarrow> refuses P (resident_materialized r built)"
  by (auto simp: refuses_def fails_with_def resident_replica_def resident_materialized_def
      split: option.splits sum.splits)

lemma checkpoint_refuses [refuses_intro]:
  "fails_with declared_error (decode_checked X document base64 len sha256)"
  "fails_with declared_error (checkpoint_update X document e)"
  "fails_with declared_error (parse_envelope X d bs)"
  by (auto simp: decode_checked_def checkpoint_update_def parse_envelope_def intro!: refuses_intro split: option.splits)

lemma validate_window_refuses [refuses_intro]:
  "fails_with declared_error (validate_window X document schema_version previous ops)"
  by (induction ops arbitrary: previous) (auto simp: operation_decode_def intro!: refuses_intro)

lemma envelope_refuses [refuses_intro]:
  "fails_with declared_error (validate_envelope X document e)"
  "fails_with declared_error (load_authoring_document X plan document e)"
  by (auto simp: validate_envelope_def load_authoring_document_def Let_def intro!: refuses_intro)

lemma replica_refuses [refuses_intro]:
  "refuses declared_error (svc_replica S plan document r)"
  "refuses declared_error (svc_materialized S plan document r)"
  "refuses declared_error (replica_act document x)"
  "refuses declared_error (replica_act_recorded document x)"
  "fails_with declared_error (export_update_bytes S document authoring)"
  by (auto simp: svc_replica_def svc_materialized_def replica_act_def replica_act_recorded_def
      record_replica_failure_def export_update_bytes_def intro!: refuses_intro)

lemma reading_refuses:
  assumes "port_declared (svc_port S)"
  shows "refuses declared_error (svc_resident S source d)"
    "refuses declared_error (read_envelope S document)"
    "refuses declared_error (svc_summaries S entity)"
    "refuses declared_error (read_document S plan document)"
    "refuses declared_error (accepted_frontier S e)"
proof -
  note port = port_refuses[OF assms]
  show resident: "refuses declared_error (svc_resident S source d)" for source d
    unfolding svc_resident_def by (intro refuses_intro port)
  then show read: "refuses declared_error (read_envelope S document)" by (simp add: read_envelope_def)
  show "refuses declared_error (svc_summaries S entity)"
    unfolding svc_summaries_def by (intro refuses_intro port resident)
  show "refuses declared_error (read_document S plan document)"
    unfolding read_document_def by (intro refuses_intro read)
  show "refuses declared_error (accepted_frontier S e)"
    unfolding accepted_frontier_def Let_def by (intro refuses_intro)
qed

lemma writing_refuses:
  assumes "port_declared (svc_port S)"
  shows "refuses declared_error (svc_swap S document expected e)"
    "refuses declared_error (svc_remove S document version)"
    "(refuses declared_error data \<Longrightarrow> refuses declared_error (announce_change S kind generation actor intent data))"
    "refuses declared_error (commit_write S current commit)"
    "refuses declared_error (svc_commit S current commit)"
    "refuses declared_error (audit_request S actor document event)"
proof -
  note port = port_refuses[OF assms] and reading = reading_refuses[OF assms]
  show swap: "refuses declared_error (svc_swap S document expected e)" for document expected e
    unfolding svc_swap_def by (intro refuses_intro port)
  show "refuses declared_error (svc_remove S document version)"
    unfolding svc_remove_def by (intro refuses_intro port)
  show announce: "refuses declared_error (announce_change S kind generation actor intent data)"
    if "refuses declared_error data" for data kind generation actor intent
    unfolding announce_change_def by (intro refuses_intro that)
  show commit: "refuses declared_error (commit_write S current commit)" for current
    unfolding commit_write_def Let_def by (intro refuses_intro swap announce reading)
  show "refuses declared_error (svc_commit S current commit)"
    unfolding svc_commit_def commit_lookup_def by (intro refuses_intro commit)
  show "refuses declared_error (audit_request S actor document event)"
    unfolding audit_request_def by (intro refuses_intro port)
qed

section \<open>Edits\<close>

text \<open>
  An edit may also be refused for a peer that was not allocated to its principal, a code no operation
  declares.
\<close>

definition edit_error :: "store_error \<Rightarrow> bool" where
  "edit_error e \<longleftrightarrow> declared_error e \<or> store_refusal_code e = ''collaboration_peer_not_allocated''"

definition failure_ok :: "('e \<Rightarrow> bool) \<Rightarrow> 'e import_failure \<Rightarrow> bool" where
  "failure_ok P failure = (case failure of StoreFailure e \<Rightarrow> edit_error e | InvalidFailure e \<Rightarrow> P e)"

text \<open>The member an etag refusal adds under the name of the entity's id field must not replace its code.\<close>

definition id_field_apart :: "entity_spec \<Rightarrow> bool" where
  "id_field_apart plan \<longleftrightarrow> plan_id_field plan \<notin> {''code'', ''conflict_kind''}"

lemma revision_error_declared:
  assumes "id_field_apart plan"
  shows "declared_error (revision_error plan request current_document current_etag expected_etag)"
proof -
  have "json_index (json_set (document_data code document extra) key v) k
      = (if k = key then v else json_index (document_data code document extra) k)" for code document extra key v k
    by (simp add: json_set_def document_data_def jobj_def json_index_def)
  moreover have "''code'' \<noteq> plan_id_field plan" "''conflict_kind'' \<noteq> plan_id_field plan"
    using assms by (auto simp: id_field_apart_def)
  ultimately show ?thesis by (simp add: code_simps revision_error_def)
qed

lemma declared_refuses_edit: "refuses declared_error m \<Longrightarrow> refuses edit_error m"
  by (erule refuses_mono) (simp add: edit_error_def)

lemma declared_fails_edit: "fails_with declared_error r \<Longrightarrow> fails_with edit_error r"
  by (simp add: fails_with_def edit_error_def)

lemma allocated_refuses: "fails_with edit_error (require_allocated_peers S request peers)"
  by (simp add: require_allocated_peers_def Let_def fails_with_def edit_error_def code_simps)

lemma store_act_refuses: "refuses edit_error m \<Longrightarrow> refuses (failure_ok P) (store_act m)"
  unfolding store_act_def by (rule refuses_map_err) (simp add: failure_ok_def)

lemma checks_refuse: "fails_with declared_error (import_checks S plan request)"
proof -
  have "declared_error (with_data invalid_request (document_data code (rq_document request) []))"
    if "code \<in> {''invalid_collaboration_operation_id'', ''invalid_collaboration_update''}" for code
    using that by (auto simp: code_simps)
  then show ?thesis unfolding import_checks_def by (intro refuses_intro) simp_all
qed

lemma current_refuses:
  "rq_exchange_mode request = Incremental \<Longrightarrow> refuses declared_error (import_current S plan request read)"
  by (auto simp: import_current_def Let_def intro!: refuses_intro split: option.splits)

lemma result_refuses: "fails_with declared_error (import_result S request accepted authoring v duplicate)"
  unfolding import_result_def Let_def by (intro refuses_intro)

lemma judge_refuses:
  assumes "id_field_apart plan"
  shows "refuses edit_error (import_judge S plan request read current)"
proof -
  have "refuses declared_error (judge_creation S request authoring)"
    "refuses declared_error (judge_policy S request authoring etag)"
    "refuses declared_error (new_peers_of S request read authoring)" for authoring etag
    unfolding judge_creation_def judge_policy_def new_peers_of_def Let_def by (intro refuses_intro)+
  moreover have "refuses declared_error (judge_fence S plan request authoring etag)" for authoring etag
    unfolding judge_fence_def
    by (cases "rq_fence request") (auto intro!: refuses_intro revision_error_declared[OF assms])
  ultimately show ?thesis
    unfolding import_judge_def Let_def
    by (intro refuses_bind refuses_if refuses_pure refuses_pure(5)[OF allocated_refuses]
        refuses_pure(5)[OF declared_fails_edit] declared_refuses_edit replica_refuses checkpoint_refuses
        envelope_refuses)
qed

lemma candidate_refuses:
  assumes "\<And>v. fails_with P (validate v)"
  shows "refuses (failure_ok P) (import_candidate S request validate authoring)"
proof -
  have "fails_with (failure_ok P) (map_err InvalidFailure (validate v))" for v
    using assms[of v] by (auto simp: fails_with_def failure_ok_def map_err_Inl_iff)
  then show ?thesis
    unfolding import_candidate_def Let_def
    by (auto intro!: refuses_bind refuses_pure store_act_refuses declared_refuses_edit refuses_sum
        replica_refuses replica_errors_declared drawing_refuses split: prod.splits)
qed

lemma attempt_refuses:
  assumes port: "port_declared (svc_port S)" and apart: "id_field_apart plan"
    and mode: "rq_exchange_mode request = Incremental" and validates: "\<And>v. fails_with P (validate v)"
  shows "refuses (failure_ok P) (import_attempt S plan request how validate imported_update)"
proof -
  note store = store_act_refuses[OF declared_refuses_edit]
  have retry: "refuses declared_error (answer_retry S plan request r)" for r
    unfolding answer_retry_def count_duplicate_def by (intro refuses_intro result_refuses)
  have report: "refuses declared_error
      (import_report_accepted S plan request accepted duplicate candidate accepted_update materialized)"
    for accepted duplicate candidate accepted_update materialized
    unfolding import_report_accepted_def count_duplicate_def Let_def
    by (intro refuses_intro result_refuses)
  have collides: "failure_ok P (StoreFailure (operation_id_collision d i))" for d i
    by (simp add: failure_ok_def edit_error_def store_errors_declared)
  show ?thesis
    unfolding import_attempt_def
  proof (intro refuses_bind store reading_refuses[OF port] current_refuses[OF mode], goal_cases)
    case (1 read current)
    show ?case
      by (auto intro!: refuses_bind refuses_pure store retry report collides candidate_refuses validates
          store_act_refuses[OF judge_refuses[OF apart]] writing_refuses[OF port]
          split: option.splits prod.splits commit_outcome.splits)
  qed
qed

lemma attempts_refuse:
  assumes "port_declared (svc_port S)" and "id_field_apart plan" and "rq_exchange_mode request = Incremental"
    and "\<And>v. fails_with P (validate v)"
  shows "refuses (failure_ok P) (import_attempts S plan request how validate imported_update first n)"
proof (induction n arbitrary: first)
  case 0
  have "refuses (failure_ok P) (act_bind (store_act (counting f)) (\<lambda>_.
      act_fail (StoreFailure (contended_error (rq_document request)))))" for f
    by (intro refuses_bind refuses_pure store_act_refuses drawing_refuses)
      (simp add: failure_ok_def edit_error_def store_errors_declared)
  then show ?case by (simp add: refuses_def)
next
  case (Suc n)
  have "refuses (failure_ok P) (act_bind (if first then act_return () else pause_before_attempt) (\<lambda>_.
      act_bind (import_attempt S plan request how validate imported_update) (\<lambda>report.
      case report of Some r \<Rightarrow> act_return r
      | None \<Rightarrow> import_attempts S plan request how validate imported_update False n)))"
    unfolding pause_before_attempt_def
    by (intro refuses_bind refuses_if refuses_pure refuses_option Suc attempt_refuses[OF assms])
  then show ?case by (simp add: refuses_def)
qed

lemma refuse_refuses:
  assumes "port_declared (svc_port S)" and "\<And>e. edit_error e \<Longrightarrow> P (from_store e)" and "failure_ok P failure"
  shows "refuses P (refuse S from_store request failure)"
proof -
  have "refuses P (act_map_err from_store (audit_refusal S request code paths))" for code paths
    unfolding audit_refusal_def
    by (rule refuses_map_err, rule refuses_mono[OF writing_refuses(6)[OF assms(1)]])
      (simp add: assms(2) edit_error_def)
  with assms(2,3) show ?thesis
    unfolding refuse_def failure_ok_def
    by (cases failure) (auto intro!: refuses_bind refuses_pure)
qed

lemma recognising_refuses:
  assumes "port_declared (svc_port S)" and "id_field_apart plan" and "rq_exchange_mode request = Incremental"
    and "\<And>v. fails_with P (validate v)" and "\<And>e. edit_error e \<Longrightarrow> P (from_store e)"
  shows "refuses P (import_recognising S from_store plan request how validate)"
proof -
  have "refuses (failure_ok P) (import_internal S plan request how validate)"
    unfolding import_internal_def
    by (intro refuses_bind store_act_refuses declared_refuses_edit refuses_pure checks_refuse attempts_refuse[OF assms(1-4)])
  then show ?thesis
    unfolding import_recognising_def
    by (rule refuses_catch) (simp add: refuse_refuses[where P = P and from_store = from_store] assms(1,5))
qed

lemma recognising_prepared:
  assumes "port_declared (svc_port S)" and "id_field_apart plan" and "\<And>v. fails_with P (validate v)"
    and "\<And>e. edit_error e \<Longrightarrow> P (from_store e)" and "refuses (\<lambda>(request, e). edit_error e) prepare"
    and "\<And>s request t. prepare s = (Inr request, t) \<Longrightarrow> rq_exchange_mode request = Incremental"
  shows "refuses P (import_prepared S from_store plan prepare validate)"
proof -
  have "refuses P (act_catch prepare (\<lambda>(request, e). refuse S from_store request (StoreFailure e)))"
    using assms(5) by (rule refuses_catch)
      (auto simp: failure_ok_def assms(1,4) intro!: refuse_refuses[where P = P and from_store = from_store])
  moreover have "rq_exchange_mode request = Incremental"
    if "act_catch prepare (\<lambda>(request, e). refuse S from_store request (StoreFailure e)) s = (Inr request, t)"
    for s request t
    using that assms(6)
    by (auto simp: act_catch_Inr_iff refuse_def act_bind_Inr_iff split: if_splits)
  moreover have "refuses P (import_recognising S from_store plan request ByPrincipal validate)"
    if "rq_exchange_mode request = Incremental" for request
    using assms(1,2) that assms(3,4) by (rule recognising_refuses)
  ultimately show ?thesis
    unfolding import_prepared_def refuses_def act_bind_Inl_iff by blast
qed

lemma preparing_read:
  "refuses declared_error m \<Longrightarrow> refuses (\<lambda>(request, e). edit_error e) (act_map_err (Pair request) m)"
  unfolding refuses_def act_map_err_Inl_iff by (auto simp: edit_error_def)

lemma preparing_lift:
  "fails_with declared_error r \<Longrightarrow> fails_with (\<lambda>(request, e). edit_error e) (map_err (Pair request) r)"
  "fails_with (\<lambda>(request, e). edit_error e) (map_err (\<lambda>e. (request, replica_store_error document e)) x)"
  "fails_with (\<lambda>(request, e). edit_error e) (ok_or (request, not_stored document) y)"
  by (auto simp: fails_with_def map_err_Inl_iff edit_error_def replica_errors_declared store_errors_declared
      ok_or_def split: option.splits)

lemma preparing_refuses:
  assumes "port_declared (svc_port S)"
  shows "refuses (\<lambda>(request, e). edit_error e) (prepare_edit S plan request edited)"
    and "refuses (\<lambda>(request, e). edit_error e) (prepare_text_edit_request S plan request edit)"
  unfolding prepare_edit_def prepare_text_edit_request_def Let_def
  by (intro refuses_bind preparing_read preparing_lift reading_refuses[OF assms] refuses_option refuses_pure
      fails_with_option fails_with_pure(1) drawing_refuses replica_refuses envelope_refuses)+

lemma edits_refuse:
  assumes "port_declared (svc_port S)" and "id_field_apart plan" and "\<And>v. fails_with P (validate v)"
    and "\<And>e. edit_error e \<Longrightarrow> P (from_store e)"
  shows "refuses P (svc_edit S from_store plan edit validate)"
    and "refuses P (svc_edit_text S from_store plan text_edit validate)"
proof -
  have "rq_exchange_mode request' = rq_exchange_mode request"
    if "prepare_edit S plan request edited s = (Inr request', t)" for request edited s request' t
    using that by (auto simp: prepare_edit_def Let_def result_simps)
  then have edit_mode: "rq_exchange_mode request = Incremental"
    if "prepare_edit S plan (edit_request plan edit) edited s = (Inr request, t)" for edited s request t
    using that by (fastforce simp: edit_request_def)
  show "refuses P (svc_edit S from_store plan edit validate)"
    unfolding svc_edit_def
    by (intro recognising_prepared[OF assms] preparing_refuses(1)[OF assms(1)]) (auto dest: edit_mode)
  have "rq_exchange_mode request' = rq_exchange_mode request"
    if "prepare_text_edit_request S plan request edit s = (Inr request', t)" for request edit s request' t
    using that by (auto simp: prepare_text_edit_request_def Let_def result_simps split: option.splits)
  then have text_mode: "rq_exchange_mode request = Incremental"
    if "prepare_text_edit_request S plan (text_edit_request plan text_edit) edit s = (Inr request, t)" for edit s request t
    using that by (fastforce simp: text_edit_request_def)
  show "refuses P (svc_edit_text S from_store plan text_edit validate)"
    unfolding svc_edit_text_def
    by (intro recognising_prepared[OF assms] preparing_refuses(2)[OF assms(1)]) (auto dest: text_mode)
qed

section \<open>Recovery\<close>

lemma recovering_refuses:
  assumes "port_declared (svc_port S)"
  shows "refuses declared_error (svc_verify S document)"
    "refuses declared_error (export_for_recovery S actor document)"
    "refuses declared_error (quarantine S actor document reason)"
    "refuses declared_error (repair S actor document reason)"
    "refuses declared_error (reindex S actor)"
    "refuses declared_error (svc_audit S query)"
    "refuses declared_error (finish_delete S actor document bs)"
    "refuses declared_error (audit_recovery_request S actor action document r destructive)"
proof -
  note port = port_refuses[OF assms] and reading = reading_refuses[OF assms] and writing = writing_refuses[OF assms]
  show audit: "refuses declared_error (audit_recovery_request S actor action document r destructive)"
    for actor action document r destructive
    unfolding audit_recovery_request_def by (rule writing)
  have stored: "refuses declared_error (stored_state S document)"
    unfolding stored_state_def by (intro refuses_intro port)
  show "refuses declared_error (svc_verify S document)"
    unfolding svc_verify_def by (intro refuses_intro)
  show "refuses declared_error (export_for_recovery S actor document)"
    "refuses declared_error (quarantine S actor document reason)"
    "refuses declared_error (repair S actor document reason)"
    unfolding export_for_recovery_def quarantine_def repair_def Let_def
    by (intro refuses_intro audit stored port reading writing)+
  show "refuses declared_error (reindex S actor)"
    unfolding reindex_def inspect_def inspect_source_def Let_def
    by (intro refuses_intro audit port)
  show "refuses declared_error (svc_audit S query)" unfolding svc_audit_def by (rule port)
  show "refuses declared_error (finish_delete S actor document bs)"
    unfolding finish_delete_def Let_def by (intro refuses_intro writing)
qed

lemma reset_refuses:
  assumes "port_declared (svc_port S)" and "svc_reset S actor document w = Some (Inl e, w')"
  shows "declared_error e"
proof -
  note port = port_refuses[OF assms(1)] and writing = writing_refuses[OF assms(1)]
    and recovering = recovering_refuses[OF assms(1)]
  have delete: "fails_with declared_error (fst y)" if run: "svc_delete S actor document w = Some y" for w y
  proof -
    have "S = S \<longrightarrow> fails_with declared_error (fst y)"
    proof (rule svc_delete.raw_induct[where P = "\<lambda>T a d w y. T = S \<longrightarrow> fails_with declared_error (fst y)", OF _ run],
        intro impI)
      fix del T a d w y
      assume IH: "\<And>T a d w y. del T a d w = Some y \<Longrightarrow> T = S \<longrightarrow> fails_with declared_error (fst y)"
        and step: "(case on_storage (port_read (svc_port T) (source_of T d)) w of
            (Inl e, w1) \<Rightarrow> Some (Inl e, w1) | (Inr None, w1) \<Rightarrow> Some (Inr None, w1)
          | (Inr (Some st), w1) \<Rightarrow>
              (case svc_remove T d (se_version st) w1 of
                 (Inl e, w2) \<Rightarrow> Some (Inl e, w2)
               | (Inr removed, w2) \<Rightarrow>
                   if removed then Some (finish_delete T a d (se_bytes st) w2) else del T a d w2)) = Some y"
        and T: "T = S"
      obtain r1 w1 where rd: "on_storage (port_read (svc_port S) (source_of S d)) w = (r1, w1)" by fastforce
      show "fails_with declared_error (fst y)"
      proof (cases "\<exists>st. r1 = Inr (Some st)")
        case True
        then obtain st where st: "r1 = Inr (Some st)" by blast
        obtain r2 w2 where rm: "svc_remove S d (se_version st) w1 = (r2, w2)" by fastforce
        have "fails_with declared_error (fst (finish_delete S a d (se_bytes st) w2))"
          using refusesD[OF recovering(7)] by (metis fails_with_def prod.collapse)
        moreover have "r2 = Inl e \<Longrightarrow> declared_error e" for e using refusesD[OF writing(2)] rm by blast
        ultimately show ?thesis
          using step T rd st rm IH[of S a d w2]
          by (cases r2) (auto simp: fails_with_def split: if_splits)
      next
        case False
        with step T rd refusesD[OF port(2), of "source_of S d" w] show ?thesis
          by (auto simp: fails_with_def split: sum.splits option.splits)
      qed
    qed
    then show ?thesis by simp
  qed
  obtain r w1 where audit: "audit_recovery_request S actor Reset document None True w = (r, w1)" by fastforce
  show ?thesis
  proof (cases r)
    case (Inl e')
    with assms(2) audit refusesD[OF recovering(8)] show ?thesis by (auto simp: svc_reset_def)
  next
    case (Inr u)
    with assms(2) audit obtain r2 where "svc_delete S actor document w1 = Some (r2, w')"
      "(case r2 of Inl e \<Rightarrow> Inl e | Inr _ \<Rightarrow> Inr ()) = Inl e"
      by (auto simp: svc_reset_def)
    with delete[of w1 "(r2, w')"] show ?thesis by (cases r2) (auto simp: fails_with_def)
  qed
qed

section \<open>Operations\<close>

definition declared_in :: "op_declaration \<Rightarrow> op_refusal \<Rightarrow> bool" where
  "declared_in d refusal \<longleftrightarrow> (or_code refusal, or_category refusal) \<in> set (dcl_refusals d)"

text \<open>Refused by the store or before it, as every document and recovery operation declares.\<close>

definition declared_refusal :: "op_refusal \<Rightarrow> bool" where
  "declared_refusal refusal \<longleftrightarrow> (or_code refusal, or_category refusal) \<in> set (store_refusals @ caller_refusals)"

definition edit_refused :: "op_refusal \<Rightarrow> bool" where
  "edit_refused refusal \<longleftrightarrow> declared_refusal refusal \<or> (or_code refusal, or_category refusal) = validation_failed
     \<or> or_code refusal = ''collaboration_peer_not_allocated'' \<and> or_category refusal = CatInternal"

lemma store_refusal_declared: "declared_error e \<Longrightarrow> declared_refusal (store_refusal e)"
proof -
  assume "declared_error e"
  then obtain c where "(store_refusal_code e, c) \<in> set store_refusals" by (auto simp: declared_error_def)
  then obtain d where "find (\<lambda>declared. fst declared = store_refusal_code e) store_refusals = Some d"
    by (cases "find (\<lambda>declared. fst declared = store_refusal_code e) store_refusals") (auto simp: find_None_iff)
  moreover from this have "d \<in> set store_refusals" "fst d = store_refusal_code e"
    by (auto simp: find_Some_iff)
  ultimately show ?thesis
    by (cases d) (auto simp: declared_refusal_def store_refusal_def op_refusal_new_def Let_def)
qed

lemma edit_refusal_refused:
  "edit_error e \<Longrightarrow> edit_refused (edit_refusal (EditStore e))" "edit_refused (edit_refusal (EditInvalid details))"
proof -
  have "find (\<lambda>declared. fst declared = ''collaboration_peer_not_allocated'') store_refusals = None"
    by (simp add: store_refusals_def)
  then show "edit_error e \<Longrightarrow> edit_refused (edit_refusal (EditStore e))"
    using store_refusal_declared[of e]
    by (auto simp: edit_error_def edit_refused_def) (auto simp: store_refusal_def op_refusal_new_def Let_def)
  show "edit_refused (edit_refusal (EditInvalid details))"
    by (simp add: edit_refused_def op_invalid_def op_refusal_new_def)
qed

text \<open>The plans and services an operation works with are the application's.\<close>

definition ops_ready :: "('s, 'd, 'f) stores_world authoring_states \<Rightarrow> ('s, 'd, 'f) stores_world \<Rightarrow> bool" where
  "ops_ready A w \<longleftrightarrow> list_all id_field_apart (au_plans A)
     \<and> list_all (\<lambda>(name, S). port_declared (svc_port S)) (sts_stores (sw_stores w))"

lemma stores_store_ready: "ops_ready A w \<Longrightarrow> stores_store (sw_stores w) name = Some S \<Longrightarrow> port_declared (svc_port S)"
  by (auto simp: ops_ready_def stores_store_def list_all_iff dest: map_of_SomeD)

lemma op_store_ready:
  assumes "op_store A entity store (sw_stores w) = r"
  shows "fails_with declared_refusal r"
    and "ops_ready A w \<Longrightarrow> r = Inr (plan, S) \<Longrightarrow> id_field_apart plan \<and> port_declared (svc_port S)"
proof -
  have refused: "declared_refusal (op_not_found d)" "declared_refusal (op_invalid_params d)" for d
    by (simp_all add: declared_refusal_def op_not_found_def op_invalid_params_def not_dispatched_def op_refusal_new_def
        store_refusals_def)
  then have "fails_with declared_refusal (op_store A entity store (sw_stores w))"
    unfolding op_store_def Let_def by (intro refuses_intro)
  with assms show "fails_with declared_refusal r" by simp
  assume "ops_ready A w" and "r = Inr (plan, S)"
  with assms show "id_field_apart plan \<and> port_declared (svc_port S)"
    by (auto simp: op_store_def Let_def res_bind_Inr_iff ok_or_Inr_iff au_entity_def find_Some_iff ops_ready_def
        list_all_iff stores_store_def bind_eq_Some_conv split: if_splits dest: map_of_SomeD)
qed

lemma located_ready:
  assumes "located A entity i store (sw_stores w) = r"
  shows "fails_with declared_refusal r"
    and "ops_ready A w \<Longrightarrow> r = Inr (plan, S, document) \<Longrightarrow> id_field_apart plan \<and> port_declared (svc_port S)"
proof -
  have absent: "declared_refusal (absent document)" for document
    by (simp add: declared_refusal_def absent_def op_refusal_new_def store_refusals_def)
  show "fails_with declared_refusal r"
    unfolding assms[symmetric] located_def Let_def
    by (intro refuses_intro op_store_ready(1)[OF refl] absent)
  assume "ops_ready A w" and "r = Inr (plan, S, document)"
  with assms op_store_ready(2)[OF refl, of A w entity store] show "id_field_apart plan \<and> port_declared (svc_port S)"
    by (auto simp: located_def Let_def res_bind_Inr_iff split: option.splits if_splits)
qed

lemma recovery_store_ready:
  "fails_with declared_refusal (recovery_store name stores)"
  "ops_ready A w \<Longrightarrow> recovery_store name (sw_stores w) = Inr S \<Longrightarrow> port_declared (svc_port S)"
  by (auto simp: recovery_store_def fails_with_def ok_or_def declared_refusal_def op_not_found_def not_dispatched_def
      op_refusal_new_def store_refusals_def stores_store_ready split: option.splits)

lemma caller_refused: "fails_with declared_refusal (call_principal host auth)"
  by (simp add: call_principal_def fails_with_def ok_or_def declared_refusal_def unauthenticated_def not_dispatched_def
      op_refusal_new_def caller_refusals_def split: option.splits)

lemma in_service_refuses:
  assumes "refuses P m" and "\<And>e. P e \<Longrightarrow> Q (into e)"
  shows "refuses Q (in_service S into m)"
proof -
  have "refuses Q (act_map_err into m)" using assms by (intro refuses_intro) (rule refuses_mono)
  then show ?thesis by (auto simp: in_service_def refuses_def at_store_def split: prod.splits)
qed

lemma in_store_refuses: "refuses declared_error m \<Longrightarrow> refuses declared_refusal (in_service S store_refusal m)"
  by (erule in_service_refuses) (rule store_refusal_declared)

text \<open>An operation names its caller and finds its store before anything else, so it refuses as its body does on the stores it started from.\<close>

lemma op_refuses:
  assumes "act_bind (act_lift (call_principal host auth)) (\<lambda>actor. act_bind (in_stores f) (body actor)) w = (Inl e, w')"
    and "\<And>x. f (sw_stores w) = Inr x \<Longrightarrow> \<forall>actor. refuses P (body actor x)"
    and "fails_with declared_refusal (f (sw_stores w))" and "\<And>r. declared_refusal r \<Longrightarrow> P r"
  shows "P e"
  using assms caller_refused[of host auth]
  by (fastforce simp: act_bind_Inl_iff in_stores_def act_bind_Inr_iff fails_with_def refuses_def)

lemma documents_refuse:
  assumes ready: "ops_ready A w"
  shows "op_list A host auth listed w = (Inl r, w') \<Longrightarrow> declared_refusal r"
    and "op_get A host auth got w = (Inl r, w') \<Longrightarrow> declared_refusal r"
    and "op_edit A host auth edited w = (Inl r, w') \<Longrightarrow> edit_refused r"
    and "op_edit_text A host auth texted w = (Inl r, w') \<Longrightarrow> edit_refused r"
proof -
  have absent: "declared_refusal (absent document)" for document
    by (simp add: declared_refusal_def absent_def op_refusal_new_def store_refusals_def)
  have invalid: "fails_with (\<lambda>e. edit_refused (edit_refusal e)) (map_err EditInvalid v)" for v :: "invalid + unit"
    using edit_refusal_refused(2) by (fastforce simp: fails_with_def map_err_Inl_iff)
  show "op_list A host auth listed w = (Inl r, w') \<Longrightarrow> declared_refusal r"
    unfolding op_list_def
    by (erule op_refuses)
      (auto intro!: refuses_bind refuses_pure in_store_refuses reading_refuses dest: op_store_ready(2)[OF _ ready]
        simp: op_store_ready(1)[OF refl])
  show "op_get A host auth got w = (Inl r, w') \<Longrightarrow> declared_refusal r"
    unfolding op_get_def
    by (erule op_refuses)
      (auto intro!: refuses_bind refuses_pure fails_with_pure in_store_refuses reading_refuses absent
        dest: located_ready(2)[OF _ ready] simp: located_ready(1)[OF refl])
  show "op_edit A host auth edited w = (Inl r, w') \<Longrightarrow> edit_refused r"
    unfolding op_edit_def
    by (erule op_refuses)
      (auto intro!: refuses_bind refuses_pure in_service_refuses[where P = "\<lambda>e. edit_refused (edit_refusal e)"]
        edits_refuse invalid edit_refusal_refused(1)
        dest: located_ready(2)[OF _ ready] simp: located_ready(1)[OF refl] edit_refused_def)
  show "op_edit_text A host auth texted w = (Inl r, w') \<Longrightarrow> edit_refused r"
    unfolding op_edit_text_def
    by (erule op_refuses)
      (auto intro!: refuses_bind refuses_pure in_service_refuses[where P = "\<lambda>e. edit_refused (edit_refusal e)"]
        edits_refuse invalid edit_refusal_refused(1)
        dest: located_ready(2)[OF _ ready] simp: located_ready(1)[OF refl] edit_refused_def)
qed

lemma recovery_refuses:
  assumes ready: "ops_ready A w"
  shows "op_stores host auth w = (Inl r, w') \<Longrightarrow> declared_refusal r"
    and "op_verify host auth document w = (Inl r, w') \<Longrightarrow> declared_refusal r"
    and "op_export host auth document w = (Inl r, w') \<Longrightarrow> declared_refusal r"
    and "op_audit to_value host auth query w = (Inl r, w') \<Longrightarrow> declared_refusal r"
    and "op_quarantine host auth reasoned w = (Inl r, w') \<Longrightarrow> declared_refusal r"
    and "op_repair host auth reasoned w = (Inl r, w') \<Longrightarrow> declared_refusal r"
    and "op_reindex host auth store w = (Inl r, w') \<Longrightarrow> declared_refusal r"
    and "op_reset host auth document w = Some (Inl r, w') \<Longrightarrow> declared_refusal r"
proof -
  note store = recovery_store_ready(2)[OF ready] and missing = recovery_store_ready(1)
  have params: "declared_refusal (op_invalid_params d)" for d
    by (simp add: declared_refusal_def op_invalid_params_def not_dispatched_def op_refusal_new_def store_refusals_def)
  show "op_stores host auth w = (Inl r, w') \<Longrightarrow> declared_refusal r"
    using caller_refused[of host auth] by (auto simp: op_stores_def act_bind_Inl_iff fails_with_def)
  show "op_verify host auth document w = (Inl r, w') \<Longrightarrow> declared_refusal r"
    unfolding op_verify_def
    by (erule op_refuses) (auto intro!: in_store_refuses recovering_refuses missing dest: store)
  show "op_export host auth document w = (Inl r, w') \<Longrightarrow> declared_refusal r"
    unfolding op_export_def
    by (erule op_refuses)
      (auto intro!: refuses_bind refuses_pure in_store_refuses recovering_refuses missing dest: store)
  show "op_audit to_value host auth query w = (Inl r, w') \<Longrightarrow> declared_refusal r"
    unfolding op_audit_def
    by (erule op_refuses)
      (auto intro!: refuses_bind refuses_pure in_store_refuses recovering_refuses missing params fails_with_pure
        split: option.splits dest: store)
  show "op_quarantine host auth reasoned w = (Inl r, w') \<Longrightarrow> declared_refusal r"
    unfolding op_quarantine_def
    by (erule op_refuses) (auto intro!: in_store_refuses recovering_refuses missing dest: store)
  show "op_repair host auth reasoned w = (Inl r, w') \<Longrightarrow> declared_refusal r"
    unfolding op_repair_def
    by (erule op_refuses) (auto intro!: in_store_refuses recovering_refuses missing dest: store)
  show "op_reindex host auth store w = (Inl r, w') \<Longrightarrow> declared_refusal r"
    unfolding op_reindex_def
    by (erule op_refuses) (auto intro!: in_store_refuses recovering_refuses missing dest: store)
  show "op_reset host auth document w = Some (Inl r, w') \<Longrightarrow> declared_refusal r"
    using caller_refused[of host auth] missing[of "sdo_store document" "sw_stores w"]
    by (auto simp: op_reset_def fails_with_def map_err_Inl_iff intro: store_refusal_declared reset_refuses[OF store]
        split: sum.splits)
qed

end
