(* ===== verification/Coherence.thy ===== *)
theory Coherence
  imports Recovery
begin

text \<open>
  What a service serves from memory is what its storage keeps. The locale \<open>coherent_store\<close> is a
  service over a port that keeps the promises of \<open>storage_port\<close>; its invariant \<open>world_ok\<close> says that the
  encoding of envelopes keeps serde's law, and of every document held that its version names the bytes its envelope
  was decoded from and that its stamp, if it has one, was taken while those bytes were kept. Every
  operation of the service keeps the invariant, and under it a read that answers from memory
  answers what a read of the storage would.
\<close>

definition own_id :: "envelope \<Rightarrow> document_id" where
  "own_id e = document_id_new (env_entity e) (env_resource_id e)"

lemma validate_envelope_own_id:
  "validate_envelope X document e = Inr peers \<Longrightarrow> document = own_id e"
  by (simp add: validate_envelope_iff envelope_ok_def own_id_def document_id_new_def)

text \<open>The bytes an envelope and the version it accepts were read from.\<close>

definition decodes_to :: "('d, 'f) ext \<Rightarrow> bytes \<Rightarrow> envelope \<Rightarrow> collaboration_version \<Rightarrow> bool" where
  "decodes_to X bs e accepted \<longleftrightarrow>
     decode_envelope X bs = Inr e
     \<and> validate_envelope X (own_id e) e = Inr (cv_peers accepted)
     \<and> cv_incarnation accepted = env_incarnation e"

lemma parse_envelope_Inr [simp]: "parse_envelope X document bs = Inr e \<longleftrightarrow> decode_envelope X bs = Inr e"
  by (simp add: parse_envelope_def)

text \<open>Frame rules for the case analyses of the handlers.\<close>

lemma moves_cases:
  "(\<And>t. moves R (f1 t)) \<Longrightarrow> moves R m1 \<Longrightarrow>
     moves R (case fence of FenceEtag t \<Rightarrow> f1 t | FenceFrontier \<Rightarrow> m1)"
  "(\<And>r. moves R (f2 r)) \<Longrightarrow> (\<And>r. moves R (g2 r)) \<Longrightarrow> moves R m2 \<Longrightarrow>
     moves R (case outcome of CommitAccepted r \<Rightarrow> f2 r | CommitDuplicate r \<Rightarrow> g2 r | CommitStale \<Rightarrow> m2)"
  "(\<And>x. moves R (f3 x)) \<Longrightarrow> (\<And>x. moves R (g3 x)) \<Longrightarrow>
     moves R (case failure of StoreFailure x \<Rightarrow> f3 x | InvalidFailure x \<Rightarrow> g3 x)"
  "(\<And>a b. moves R (f4 a b)) \<Longrightarrow> moves R (case p of (a, b) \<Rightarrow> f4 a b)"
  by (simp_all split: import_fence.split commit_outcome.split import_failure.split prod.split)

locale coherent_store = storage_port P inv view drift vouches names retired
  for P :: "'s port" and inv view drift vouches names retired +
  fixes S :: "('s, 'd, 'f) service"
  assumes port: "svc_port S = P"
begin

definition resident_ok :: "'s \<Rightarrow> 'd cells \<Rightarrow> string \<Rightarrow> resident \<Rightarrow> bool" where
  "resident_ok s c source r \<longleftrightarrow>
     (\<exists>bs. names s source (res_version r) bs
       \<and> decodes_to (svc_ext S) bs (res_envelope r) (res_accepted r)
       \<and> (\<forall>token. cell_stamp c = Some token \<longrightarrow>
            vouches s source token (Some \<lparr>se_version = res_version r, se_bytes = bs\<rparr>)))"

definition world_ok :: "('s, 'd) world \<Rightarrow> bool" where
  "world_ok w \<longleftrightarrow>
     serde_law (svc_ext S) \<and> inv (w_storage w) \<and> bmap_ok (w_held w)
     \<and> (\<forall>source r. map_of (w_held w) source = Some r \<longrightarrow>
          res_id r < w_next_resident w
          \<and> resident_ok (w_storage w) (w_cells w (res_id r)) source r)
     \<and> (\<forall>source source' r r'. map_of (w_held w) source = Some r \<longrightarrow>
          map_of (w_held w) source' = Some r' \<longrightarrow> res_id r = res_id r' \<longrightarrow> source = source')"

lemma world_okD:
  assumes "world_ok w"
  shows "inv (w_storage w)" and "bmap_ok (w_held w)"
    and "map_of (w_held w) source = Some r \<Longrightarrow> res_id r < w_next_resident w"
    and "map_of (w_held w) source = Some r \<Longrightarrow> resident_ok (w_storage w) (w_cells w (res_id r)) source r"
    and "map_of (w_held w) source = Some r \<Longrightarrow> map_of (w_held w) source' = Some r' \<Longrightarrow>
      res_id r = res_id r' \<Longrightarrow> source = source'"
    and "serde_law (svc_ext S)"
  using assms unfolding world_ok_def by blast+

lemma world_okI:
  assumes "serde_law (svc_ext S)" and "inv (w_storage w)" and "bmap_ok (w_held w)"
    and "\<And>source r. map_of (w_held w) source = Some r \<Longrightarrow> res_id r < w_next_resident w"
    and "\<And>source r. map_of (w_held w) source = Some r \<Longrightarrow>
      resident_ok (w_storage w) (w_cells w (res_id r)) source r"
    and "\<And>source source' r r'. map_of (w_held w) source = Some r \<Longrightarrow>
      map_of (w_held w) source' = Some r' \<Longrightarrow> res_id r = res_id r' \<Longrightarrow> source = source'"
  shows "world_ok w"
  using assms unfolding world_ok_def by blast

text \<open>A step of the storage that keeps its facts keeps the documents held.\<close>

lemma resident_ok_persists:
  "resident_ok s c source r \<Longrightarrow> persists names s t \<Longrightarrow> persists vouches s t \<Longrightarrow> resident_ok t c source r"
  unfolding resident_ok_def persists_def by blast

lemma world_ok_storage:
  assumes "world_ok w" and "inv t" and "persists names (w_storage w) t" and "persists vouches (w_storage w) t"
  shows "world_ok (w\<lparr>w_storage := t\<rparr>)"
  using assms resident_ok_persists unfolding world_ok_def by simp blast

lemma on_storage_run: "on_storage m w = (r, w') \<longleftrightarrow> (\<exists>t. m (w_storage w) = (r, t) \<and> w' = w\<lparr>w_storage := t\<rparr>)"
  by (auto simp: on_storage_def split: prod.splits)

lemma stamp_step:
  assumes "world_ok w" and "on_storage (port_stamp (svc_port S) source) w = (r, w')"
  shows "world_ok w'" and "w_held w' = w_held w" and "w_cells w' = w_cells w"
    and "drift (view (w_storage w)) (view (w_storage w'))"
    and "\<And>token. r = Inr (Some token) \<Longrightarrow>
      vouches (w_storage w') source token (sv_kept (view (w_storage w')) source)"
    and "\<And>token found. r = Inr (Some token) \<Longrightarrow> vouches (w_storage w) source token found \<Longrightarrow>
      found = sv_kept (view (w_storage w')) source"
proof -
  obtain t where t: "port_stamp P source (w_storage w) = (r, t)" and w': "w' = w\<lparr>w_storage := t\<rparr>"
    using assms(2) by (auto simp: on_storage_run port)
  note laws = stamp_ok[OF world_okD(1)[OF assms(1)] t]
  show "world_ok w'" unfolding w' by (rule world_ok_storage[OF assms(1)]) (use laws in auto)
qed (use assms stamp_ok[OF world_okD(1)[OF assms(1)]] in \<open>auto simp: on_storage_run port\<close>)

lemma read_step:
  assumes "world_ok w" and "on_storage (port_read (svc_port S) source) w = (r, w')"
  shows "world_ok w'" and "w_held w' = w_held w" and "w_cells w' = w_cells w"
    and "drift (view (w_storage w)) (view (w_storage w'))"
    and "persists vouches (w_storage w) (w_storage w')"
    and "\<And>found. r = Inr found \<Longrightarrow> found = sv_kept (view (w_storage w')) source"
proof -
  obtain t where t: "port_read P source (w_storage w) = (r, t)" and w': "w' = w\<lparr>w_storage := t\<rparr>"
    using assms(2) by (auto simp: on_storage_run port)
  note laws = read_ok[OF world_okD(1)[OF assms(1)] t]
  show "world_ok w'" unfolding w' by (rule world_ok_storage[OF assms(1)]) (use laws in auto)
qed (use assms read_ok[OF world_okD(1)[OF assms(1)]] in \<open>auto simp: on_storage_run port\<close>)

text \<open>Forgetting a document, changing a stamp to one that vouches, holding a new resident.\<close>

lemma forget_ok:
  assumes "world_ok w" and "forget source w = (r, w')"
  shows "world_ok w' \<and> w_storage w' = w_storage w"
  using assms by (auto simp: forget_def world_ok_def split: option.splits if_splits)

lemma restamp_ok:
  assumes w: "world_ok w" and held: "map_of (w_held w) source = Some r"
    and vouch: "\<And>token bs. stamp = Some token \<Longrightarrow> names (w_storage w) source (res_version r) bs \<Longrightarrow>
      vouches (w_storage w) source token (Some \<lparr>se_version = res_version r, se_bytes = bs\<rparr>)"
  shows "world_ok (snd (restamp r stamp w))"
proof -
  have keep: "resident_ok (w_storage w) (w_cells w (res_id r)\<lparr>cell_stamp := stamp\<rparr>) source r"
    using w held vouch unfolding world_ok_def resident_ok_def by simp blast
  show ?thesis
  proof (rule world_okI)
    fix so x assume x: "map_of (w_held (snd (restamp r stamp w))) so = Some x"
    then have x': "map_of (w_held w) so = Some x" by (simp add: restamp_def)
    show "res_id x < w_next_resident (snd (restamp r stamp w))"
      using world_okD(3)[OF w x'] by (simp add: restamp_def)
    show "resident_ok (w_storage (snd (restamp r stamp w)))
        (w_cells (snd (restamp r stamp w)) (res_id x)) so x"
    proof (cases "res_id x = res_id r")
      case True
      then have "so = source" by (rule world_okD(5)[OF w x' held])
      moreover from this have "x = r" using x' held by simp
      ultimately show ?thesis using keep by (simp add: restamp_def update_cells_def)
    next
      case False
      then show ?thesis using world_okD(4)[OF w x'] by (simp add: restamp_def update_cells_def)
    qed
  next
    fix so so' x x' assume "map_of (w_held (snd (restamp r stamp w))) so = Some x"
      "map_of (w_held (snd (restamp r stamp w))) so' = Some x'" "res_id x = res_id x'"
    then show "so = so'" using world_okD(5)[OF w, of so x so' x'] by (simp add: restamp_def)
  qed (use world_okD(1,2,6)[OF w] in \<open>simp_all add: restamp_def\<close>)
qed

lemma hold_ok:
  assumes w: "world_ok w" and fresh: "res_id r = w_next_resident w"
    and ok: "resident_ok (w_storage w) (empty_cells stamp) source r"
    and new: "w0 = w\<lparr>w_next_resident := Suc (w_next_resident w),
      w_cells := (w_cells w)(w_next_resident w := empty_cells stamp)\<rparr>"
    and hold: "hold source r w0 = (res, w')"
  shows "world_ok w'" and "w_storage w' = w_storage w" and "map_of (w_held w') source = Some r"
proof -
  have stamp: "cell_stamp (w_cells w' i) = cell_stamp (w_cells w0 i)" for i
    using hold by (auto simp: hold_def Let_def inherit_def update_cells_def split: option.splits if_splits)
  have held: "w_held w' = bmap_insert source r (w_held w)" "w_storage w' = w_storage w"
      "w_next_resident w' = Suc (w_next_resident w)"
    using hold by (auto simp: hold_def Let_def new split: option.splits)
  then show "w_storage w' = w_storage w" "map_of (w_held w') source = Some r" by simp_all
  have cells: "resident_ok s c so x \<longleftrightarrow> resident_ok s c' so x" if "cell_stamp c = cell_stamp c'" for s c c' so x
    using that by (simp add: resident_ok_def)
  have old: "resident_ok (w_storage w) (w_cells w' (res_id x)) so x"
    if "map_of (w_held w) so = Some x" for so x
    using world_okD(3,4)[OF w that] cells[OF stamp, of "w_storage w" "res_id x" so x] by (simp add: new)
  have mine: "resident_ok (w_storage w) (w_cells w' (res_id r)) source r"
    using ok cells[OF stamp, of "w_storage w" "res_id r" source r] by (simp add: new fresh)
  show "world_ok w'"
  proof (rule world_okI)
    fix so x assume "map_of (w_held w') so = Some x"
    then show "res_id x < w_next_resident w'"
      using world_okD(3)[OF w, of so x] fresh by (auto simp: held split: if_splits)
  next
    fix so x assume "map_of (w_held w') so = Some x"
    then show "resident_ok (w_storage w') (w_cells w' (res_id x)) so x"
      using old mine by (auto simp: held split: if_splits)
  next
    fix so so' x x' assume "map_of (w_held w') so = Some x" "map_of (w_held w') so' = Some x'"
      "res_id x = res_id x'"
    then show "so = so'"
      using world_okD(3)[OF w, of so x] world_okD(3)[OF w, of so' x'] world_okD(5)[OF w, of so x so' x']
        fresh by (auto simp: held split: if_splits)
  qed (use world_okD(1,2,6)[OF w] in \<open>simp_all add: held\<close>)
qed

text \<open>What a read gives: the document the storage keeps at the source, or nothing when it keeps none.\<close>

definition serves :: "('s, 'd) world \<Rightarrow> string \<Rightarrow> resident option \<Rightarrow> bool" where
  "serves w source found \<longleftrightarrow>
     (case found of
        None \<Rightarrow> sv_kept (view (w_storage w)) source = None
      | Some r \<Rightarrow> map_of (w_held w) source = Some r
          \<and> (\<exists>bs. sv_kept (view (w_storage w)) source = Some \<lparr>se_version = res_version r, se_bytes = bs\<rparr>
             \<and> decodes_to (svc_ext S) bs (res_envelope r) (res_accepted r)))"

lemma stored_surjective [simp]: "\<lparr>se_version = se_version st, se_bytes = se_bytes st\<rparr> = st"
  by (cases st) simp

lemma stored_eta: "se_version st = v \<Longrightarrow> se_bytes st = bs \<Longrightarrow> st = \<lparr>se_version = v, se_bytes = bs\<rparr>"
  by (cases st) simp

lemma serve_held:
  assumes "world_ok w" and "map_of (w_held w) source = Some r"
    and "sv_kept (view (w_storage w)) source = Some st" and "se_version st = res_version r"
  shows "serves w source (Some r)"
    and "names (w_storage w) source (res_version r) bs \<Longrightarrow> st = \<lparr>se_version = res_version r, se_bytes = bs\<rparr>"
proof -
  show st: "names (w_storage w) source (res_version r) bs \<Longrightarrow> st = \<lparr>se_version = res_version r, se_bytes = bs\<rparr>" for bs
    using names_kept[OF world_okD(1)[OF assms(1)], of source st bs] assms(3,4) by (intro stored_eta) auto
  obtain bs where "names (w_storage w) source (res_version r) bs"
      "decodes_to (svc_ext S) bs (res_envelope r) (res_accepted r)"
    using world_okD(4)[OF assms(1,2)] by (auto simp: resident_ok_def)
  with st assms show "serves w source (Some r)" unfolding serves_def by auto
qed

text \<open>The branch of a read that judges the bytes and holds a new resident.\<close>

lemma judge_and_hold_ok:
  assumes w: "world_ok w" and kept: "sv_kept (view (w_storage w)) source = Some st"
    and stamp: "\<And>token. stamp = Some token \<Longrightarrow> vouches (w_storage w) source token (Some st)"
    and run: "act_bind (act_lift (parse_envelope (svc_ext S) document (se_bytes st))) (\<lambda>e.
        act_bind (act_lift (validate_envelope (svc_ext S) (the_document e) e)) (\<lambda>peers.
        act_bind (resident_new (se_version st) stamp e peers) (\<lambda>r.
        act_bind (hold source r) (\<lambda>_. act_return (Some r))))) w = (res, w')"
  shows "world_ok w' \<and> w_storage w' = w_storage w \<and> (\<forall>found. res = Inr found \<longrightarrow> serves w' source found)"
proof (cases res)
  case (Inl err)
  then have "w' = w" using run
    by (auto simp: act_bind_Inl_iff resident_new_def hold_def Let_def)
  then show ?thesis using w Inl by simp
next
  case (Inr found)
  then obtain e peers r w0 where e: "decode_envelope (svc_ext S) (se_bytes st) = Inr e"
      and peers: "validate_envelope (svc_ext S) (the_document e) e = Inr peers"
      and new: "resident_new (se_version st) stamp e peers w = (Inr r, w0)"
      and hold: "hold source r w0 = (Inr (), w')" and found: "found = Some r"
    using run by (auto simp: act_bind_Inr_iff)
  define i where "i = w_next_resident w"
  have r: "r = \<lparr>res_id = i, res_version = se_version st, res_envelope = e,
        res_accepted = \<lparr>cv_incarnation = env_incarnation e, cv_peers = peers\<rparr>\<rparr>"
    and w0: "w0 = w\<lparr>w_next_resident := Suc (w_next_resident w),
      w_cells := (w_cells w)(w_next_resident w := empty_cells stamp)\<rparr>"
    using new by (auto simp: resident_new_def Let_def i_def)
  have dec: "decodes_to (svc_ext S) (se_bytes st) (res_envelope r) (res_accepted r)"
    using e peers validate_envelope_own_id[OF peers] by (simp add: decodes_to_def r)
  have "resident_ok (w_storage w) (empty_cells stamp) source r"
    using kept_names[OF world_okD(1)[OF w] kept] dec stamp
    unfolding resident_ok_def by (auto simp: r empty_cells_def intro!: exI[of _ "se_bytes st"])
  note held = hold_ok[OF w _ this w0 hold]
  have id: "res_id r = w_next_resident w" by (simp add: r i_def)
  have "serves w' source (Some r)"
    unfolding serves_def using held(2,3)[OF id] kept dec
    by (auto simp: r intro!: exI[of _ "se_bytes st"])
  then show ?thesis using held(1,2)[OF id] Inr found by simp
qed

text \<open>What a read does once its stamp does not vouch for what is held.\<close>

definition read_unvouched ::
  "string \<Rightarrow> document_id option \<Rightarrow> resident option \<Rightarrow> string option \<Rightarrow> stored_envelope option \<Rightarrow>
   ('s, 'd, resident option) svc_act"
where
  "read_unvouched source document held stamp stored =
     (case stored of
        None \<Rightarrow> act_bind (forget source) (\<lambda>_. act_return None)
      | Some st \<Rightarrow>
          (case (case held of
              Some r \<Rightarrow> if res_version r = se_version st then Some r else None | None \<Rightarrow> None) of
             Some r \<Rightarrow> act_bind (restamp r stamp) (\<lambda>_. act_return (Some r))
           | None \<Rightarrow>
               act_bind (act_lift (parse_envelope (svc_ext S) document (se_bytes st))) (\<lambda>e.
               act_bind (act_lift (validate_envelope (svc_ext S)
                 (case document of
                    Some d \<Rightarrow> d | None \<Rightarrow> document_id_new (env_entity e) (env_resource_id e)) e)) (\<lambda>peers.
               act_bind (resident_new (se_version st) stamp e peers) (\<lambda>r.
               act_bind (hold source r) (\<lambda>_.
               act_return (Some r)))))))"

lemma read_unvouched_ok:
  assumes w: "world_ok w" and found: "stored = sv_kept (view (w_storage w)) source"
    and vouch: "\<And>token. stamp = Some token \<Longrightarrow> vouches (w_storage w) source token stored"
    and run: "read_unvouched source document (map_of (w_held w) source) stamp stored w = (res, w')"
  shows "world_ok w' \<and> w_storage w' = w_storage w \<and> (\<forall>found. res = Inr found \<longrightarrow> serves w' source found)"
proof (cases stored)
  case None
  obtain w1 where fg: "forget source w = (Inr (), w1)"
    by (cases "map_of (w_held w) source") (simp_all add: forget_def)
  then have "res = Inr None" "w' = w1" using run None by (auto simp: read_unvouched_def act_bind_run)
  then show ?thesis using forget_ok[OF w fg] found None by (simp add: serves_def)
next
  case stored: (Some st)
  show ?thesis
  proof (cases "case map_of (w_held w) source of
      Some r \<Rightarrow> if res_version r = se_version st then Some r else None | None \<Rightarrow> None")
    case (Some r)
    then have held: "map_of (w_held w) source = Some r" and same: "se_version st = res_version r"
      by (auto split: option.splits if_splits)
    have kept: "sv_kept (view (w_storage w)) source = Some st" using found stored by simp
    have "res = Inr (Some r)" "w' = snd (restamp r stamp w)"
      using run stored Some by (auto simp: read_unvouched_def act_bind_run restamp_def)
    moreover have "world_ok (snd (restamp r stamp w))"
    proof (rule restamp_ok[OF w held])
      fix token bs assume "stamp = Some token" "names (w_storage w) source (res_version r) bs"
      then show "vouches (w_storage w) source token (Some \<lparr>se_version = res_version r, se_bytes = bs\<rparr>)"
        using vouch serve_held(2)[OF w held kept same] stored by simp
    qed
    moreover have "serves (snd (restamp r stamp w)) source (Some r)"
      using serve_held(1)[OF w held kept same] by (simp add: serves_def restamp_def)
    ultimately show ?thesis by (simp add: restamp_def)
  next
    case None
    have "act_bind (act_lift (parse_envelope (svc_ext S) document (se_bytes st))) (\<lambda>e.
        act_bind (act_lift (validate_envelope (svc_ext S) (case document of
            Some d \<Rightarrow> d | None \<Rightarrow> document_id_new (env_entity e) (env_resource_id e)) e)) (\<lambda>peers.
        act_bind (resident_new (se_version st) stamp e peers) (\<lambda>r.
        act_bind (hold source r) (\<lambda>_. act_return (Some r))))) w = (res, w')"
      using run stored None by (simp add: read_unvouched_def)
    from judge_and_hold_ok[OF w _ _ this] show ?thesis using found vouch stored by simp
  qed
qed

text \<open>
  The stamp is taken before the bytes are read. When another writer comes between, the stamp is
  spent: no later stamp equals it, so keeping it with what was read is harmless.
\<close>

lemma stamp_covers_read:
  assumes "inv t" and "vouches s source token found" and "persists vouches s t"
  shows "vouches t source token (sv_kept (view t) source)"
  using assms moved_on[OF assms(1), of source token found] persistsD[OF assms(3,2)] by metis

lemma svc_resident_ok:
  assumes w: "world_ok w" and run: "svc_resident S source document w = (res, w')"
  shows "world_ok w' \<and> drift (view (w_storage w)) (view (w_storage w'))
    \<and> (\<forall>found. res = Inr found \<longrightarrow> serves w' source found)"
proof -
  let ?held = "map_of (w_held w) source"
  obtain r1 w1 where st: "on_storage (port_stamp (svc_port S) source) w = (r1, w1)" by fastforce
  note w1 = stamp_step[OF w st]
  consider e where "r1 = Inl e" | stamp r where "r1 = Inr stamp" "?held = Some r" "vouched_for_by w1 r stamp"
    | stamp where "r1 = Inr stamp"
        "(case ?held of Some r \<Rightarrow> if vouched_for_by w1 r stamp then Some r else None | None \<Rightarrow> None) = None"
    by (cases r1; cases ?held) (auto, metis)
  then show ?thesis
  proof cases
    case 1
    then have "res = Inl e \<and> w' = w1"
      using run st by (auto simp: svc_resident_def residency_get_def act_bind_run)
    then show ?thesis using w1 1 by auto
  next
    case 2
    then obtain token where token: "stamp = Some token" "cell_stamp (w_cells w (res_id r)) = Some token"
      using w1(3) by (auto simp: vouched_for_by_def)
    obtain bs where bs: "vouches (w_storage w) source token (Some \<lparr>se_version = res_version r, se_bytes = bs\<rparr>)"
      using world_okD(4)[OF w 2(2)] token by (auto simp: resident_ok_def)
    have "sv_kept (view (w_storage w1)) source = Some \<lparr>se_version = res_version r, se_bytes = bs\<rparr>"
      using w1(6)[OF _ bs] 2(1) token(1) by simp
    then have "serves w1 source (Some r)" using serve_held(1)[OF w1(1)] 2(2) w1(2) by simp
    moreover have "res = Inr (Some r)" "w' = w1"
      using run st 2 by (auto simp: svc_resident_def residency_get_def act_bind_run)
    ultimately show ?thesis using w1 by simp
  next
    case 3
    obtain r2 w2 where rd: "on_storage (port_read (svc_port S) source) w1 = (r2, w2)" by fastforce
    note w2 = read_step[OF w1(1) rd]
    have moved: "drift (view (w_storage w)) (view (w_storage w2))" using drift_trans[OF w1(4) w2(4)] .
    show ?thesis
    proof (cases r2)
      case (Inl e)
      then have "res = Inl e \<and> w' = w2"
        using run st 3 rd by (auto simp: svc_resident_def residency_get_def act_bind_run)
      then show ?thesis using moved w2(1) by auto
    next
      case (Inr stored)
      have "read_unvouched source document (map_of (w_held w2) source) stamp stored w2 = (res, w')"
        using run st 3 rd Inr w1(2) w2(2)
        by (simp add: svc_resident_def residency_get_def act_bind_run read_unvouched_def)
      moreover have "vouches (w_storage w2) source token stored" if "stamp = Some token" for token
        using stamp_covers_read[OF world_okD(1)[OF w2(1)] w1(5) w2(5), of token] that 3(1) w2(6)[OF Inr] by simp
      ultimately have "world_ok w' \<and> w_storage w' = w_storage w2 \<and> (\<forall>found. res = Inr found \<longrightarrow> serves w' source found)"
        by (intro read_unvouched_ok[OF w2(1) w2(6)[OF Inr]])
      then show ?thesis using moved by simp
    qed
  qed
qed

section \<open>Writes\<close>

lemma decode_encoded:
  assumes serde: "serde_law (svc_ext S)" and "ext_envelope_encode (svc_ext S) e = Inr bs" and "env_envelope_version e = envelope_version"
  shows "decode_envelope (svc_ext S) bs = Inr e"
  using serde assms by (simp add: decode_envelope_def serde_law_def)

lemma new_and_hold_ok:
  assumes w: "world_ok w" and kept: "sv_kept (view (w_storage w)) source = Some \<lparr>se_version = v, se_bytes = bs\<rparr>"
    and dec: "decodes_to (svc_ext S) bs e \<lparr>cv_incarnation = env_incarnation e, cv_peers = peers\<rparr>"
    and new: "resident_new v None e peers w = (Inr r, w0)" and hold: "hold source r w0 = (Inr (), w')"
  shows "world_ok w' \<and> w_storage w' = w_storage w \<and> res_envelope r = e \<and> res_version r = v
    \<and> res_accepted r = \<lparr>cv_incarnation = env_incarnation e, cv_peers = peers\<rparr>
    \<and> map_of (w_held w') source = Some r"
proof -
  have r: "r = \<lparr>res_id = w_next_resident w, res_version = v, res_envelope = e,
        res_accepted = \<lparr>cv_incarnation = env_incarnation e, cv_peers = peers\<rparr>\<rparr>"
    and w0: "w0 = w\<lparr>w_next_resident := Suc (w_next_resident w),
      w_cells := (w_cells w)(w_next_resident w := empty_cells None)\<rparr>"
    using new by (auto simp: resident_new_def Let_def)
  have "resident_ok (w_storage w) (empty_cells None) source r"
    using kept_names[OF world_okD(1)[OF w] kept] dec
    unfolding resident_ok_def by (auto simp: r empty_cells_def)
  from hold_ok[OF w _ this w0 hold] show ?thesis by (simp add: r)
qed

lemma svc_swap_ok:
  assumes w: "world_ok w" and version: "env_envelope_version e = envelope_version"
    and run: "svc_swap S d expected e w = (res, w')"
  shows "world_ok w' \<and> (\<exists>v. drift (view (w_storage w)) v \<and>
    (case res of
       Inr (Some r) \<Rightarrow> expected = kept_version v (source_of S d) \<and> res_envelope r = e
         \<and> map_of (w_held w') (source_of S d) = Some r
         \<and> (\<exists>bs. view (w_storage w') = v\<lparr>sv_kept := (sv_kept v)(source_of S d
               \<mapsto> \<lparr>se_version = res_version r, se_bytes = bs\<rparr>)\<rparr>
             \<and> decodes_to (svc_ext S) bs e (res_accepted r))
     | Inr None \<Rightarrow> expected \<noteq> kept_version v (source_of S d) \<and> view (w_storage w') = v
     | Inl _ \<Rightarrow> view (w_storage w') = v))"
proof (cases "\<exists>peers bs. validate_envelope (svc_ext S) d e = Inr peers \<and> ext_envelope_encode (svc_ext S) e = Inr bs")
  case False
  then have "(\<exists>x. res = Inl x) \<and> w' = w"
    using run by (cases "validate_envelope (svc_ext S) d e"; cases "ext_envelope_encode (svc_ext S) e")
      (auto simp: svc_swap_def act_bind_run)
  then show ?thesis using w drift_refl by (auto intro!: exI[of _ "view (w_storage w)"])
next
  case True
  then obtain peers bs where valid: "validate_envelope (svc_ext S) d e = Inr peers"
      and enc: "ext_envelope_encode (svc_ext S) e = Inr bs" by blast
  obtain r t where cas: "port_compare_and_swap P d expected bs (w_storage w) = (r, t)" by fastforce
  note laws = swap_ok[OF world_okD(1)[OF w] cas]
  have w1: "world_ok (w\<lparr>w_storage := t\<rparr>)" by (rule world_ok_storage[OF w]) (use laws in auto)
  have on: "on_storage (port_compare_and_swap (svc_port S) d expected bs) w = (r, w\<lparr>w_storage := t\<rparr>)"
    using cas by (simp add: on_storage_run port)
  have src: "source_of S d = port_source P d" by (simp add: source_of_def port)
  consider x where "r = Inl x" | "r = Inr None" | v where "r = Inr (Some v)" by (metis option.exhaust sum.exhaust)
  then show ?thesis
  proof cases
    case 3
    let ?w1 = "w\<lparr>w_storage := t\<rparr>"
    obtain n w0 where new: "resident_new v None e peers ?w1 = (Inr n, w0)"
      by (simp add: resident_new_def Let_def)
    obtain w2 where hold: "hold (source_of S d) n w0 = (Inr (), w2)" by (simp add: hold_def Let_def)
    have res: "res = Inr (Some n)" "w' = w2"
      using run valid enc on 3 new hold by (auto simp: svc_swap_def act_bind_run)
    obtain vw where vw: "drift (view (w_storage w)) vw" "expected = kept_version vw (port_source P d)"
        "view t = vw\<lparr>sv_kept := (sv_kept vw)(port_source P d \<mapsto> \<lparr>se_version = v, se_bytes = bs\<rparr>)\<rparr>"
      using laws 3 by auto
    have dec: "decodes_to (svc_ext S) bs e \<lparr>cv_incarnation = env_incarnation e, cv_peers = peers\<rparr>"
      using decode_encoded[OF world_okD(6)[OF w] enc version] valid validate_envelope_own_id[OF valid] by (simp add: decodes_to_def)
    have "sv_kept (view (w_storage ?w1)) (source_of S d) = Some \<lparr>se_version = v, se_bytes = bs\<rparr>"
      using vw(3) by (simp add: src)
    from new_and_hold_ok[OF w1 this dec new hold] show ?thesis
      using res vw dec src by (auto intro!: exI[of _ vw])
  qed (use run valid enc on laws w1 src in \<open>auto simp: svc_swap_def act_bind_run\<close>)
qed

lemma svc_remove_ok:
  assumes w: "world_ok w" and run: "svc_remove S d version w = (res, w')"
  shows "world_ok w' \<and> (\<exists>v. drift (view (w_storage w)) v \<and>
    (case res of
       Inr True \<Rightarrow> kept_version v (source_of S d) = Some version
         \<and> view (w_storage w') = v\<lparr>sv_kept := (sv_kept v)(source_of S d := None)\<rparr>
     | Inr False \<Rightarrow> kept_version v (source_of S d) \<noteq> Some version \<and> view (w_storage w') = v
     | Inl _ \<Rightarrow> view (w_storage w') = v))"
proof -
  obtain r t where car: "port_compare_and_remove P d version (w_storage w) = (r, t)" by fastforce
  note laws = remove_ok[OF world_okD(1)[OF w] car]
  have w1: "world_ok (w\<lparr>w_storage := t\<rparr>)" by (rule world_ok_storage[OF w]) (use laws in auto)
  have on: "on_storage (port_compare_and_remove (svc_port S) d version) w = (r, w\<lparr>w_storage := t\<rparr>)"
    using car by (simp add: on_storage_run port)
  obtain w2 where fg: "forget (source_of S d) (w\<lparr>w_storage := t\<rparr>) = (Inr (), w2)"
    by (cases "map_of (w_held w) (source_of S d)") (simp_all add: forget_def)
  note fg_ok = forget_ok[OF w1 fg]
  have src: "source_of S d = port_source P d" by (simp add: source_of_def port)
  consider x where "r = Inl x" | "r = Inr True" | "r = Inr False" by (cases r) auto
  then show ?thesis
  proof cases
    case 1
    then show ?thesis using run on laws w1 by (auto simp: svc_remove_def act_bind_run)
  next
    case 2
    then have "res = Inr True" "w' = w2" using run on fg by (auto simp: svc_remove_def act_bind_def)
    then show ?thesis using laws 2 fg_ok src by auto
  next
    case 3
    then have "res = Inr False" "w' = w\<lparr>w_storage := t\<rparr>" using run on by (auto simp: svc_remove_def act_bind_def)
    then show ?thesis using laws 3 w1 src by auto
  qed
qed

section \<open>Every operation keeps the invariant\<close>

text \<open>
  \<open>reading\<close>: the invariant is kept and what is stored changed only as other writers change it.
  \<open>safe\<close>: the invariant is kept. Both compose along an action, so the invariant of a handler is that
  of its primitive steps.
\<close>

definition reading :: "('s, 'd) world \<Rightarrow> ('s, 'd) world \<Rightarrow> bool" where
  "reading w w' \<longleftrightarrow> (world_ok w \<longrightarrow> world_ok w' \<and> drift (view (w_storage w)) (view (w_storage w')))"

definition safe :: "('s, 'd) world \<Rightarrow> ('s, 'd) world \<Rightarrow> bool" where
  "safe w w' \<longleftrightarrow> (world_ok w \<longrightarrow> world_ok w')"

lemma reading_pre [simp]: "reflp reading" "transp reading"
  unfolding reading_def by (auto intro!: reflpI transpI drift_refl intro: drift_trans)

lemma safe_pre [simp]: "reflp safe" "transp safe"
  unfolding safe_def by (auto intro!: reflpI transpI)

lemma moves_reading_safe: "moves reading m \<Longrightarrow> moves safe m"
  by (simp add: moves_def reading_def safe_def)

text \<open>A step that leaves the storage, the documents held and their stamps.\<close>

lemma quiet:
  assumes "w_storage w' = w_storage w" and "w_held w' = w_held w" and "w_next_resident w' = w_next_resident w"
    and "\<And>i. cell_stamp (w_cells w' i) = cell_stamp (w_cells w i)"
  shows "reading w w'"
proof -
  have "resident_ok s (w_cells w' i) so x \<longleftrightarrow> resident_ok s (w_cells w i) so x" for s i so x
    using assms(4) by (simp add: resident_ok_def)
  then show ?thesis using assms(1-3) drift_refl by (simp add: reading_def world_ok_def)
qed

lemma moves_quiet:
  assumes "\<And>w. w_storage (snd (m w)) = w_storage w \<and> w_held (snd (m w)) = w_held w
    \<and> w_next_resident (snd (m w)) = w_next_resident w
    \<and> (\<forall>i. cell_stamp (w_cells (snd (m w)) i) = cell_stamp (w_cells w i))"
  shows "moves reading m"
  unfolding moves_def using assms by (auto intro!: quiet)

lemma moves_steps [moves_intro]:
  "moves reading (draw stream)"
  "moves reading (counting f)"
  "moves reading (resident_replica r build)"
  "moves reading (resident_materialized r v)"
  "moves reading (offer r built document)"
  "moves reading (residency_get source)"
  "moves reading (act_modify (\<lambda>w. w\<lparr>w_feed := g w\<rparr>))"
  "moves reading (act_modify (\<lambda>w. w\<lparr>w_draws := h w\<rparr>))"
  by (rule moves_quiet; simp add: draw_def counting_def resident_replica_def resident_materialized_def
      offer_def residency_get_def update_cells_def split: option.splits sum.splits)+

lemma moves_resident [moves_intro]: "moves reading (svc_resident S source document)"
  unfolding moves_def reading_def by (metis svc_resident_ok prod.collapse)

lemma moves_read_step: "moves reading (on_storage (port_read (svc_port S) source))"
  unfolding moves_def reading_def by (metis read_step(1,4) prod.collapse)

lemma moves_sources_step: "moves reading (on_storage (port_sources (svc_port S) entity))"
  unfolding moves_def reading_def
proof (intro allI impI)
  fix w assume w: "world_ok w"
  obtain r t where t: "port_sources P entity (w_storage w) = (r, t)" by fastforce
  note laws = sources_ok[OF world_okD(1)[OF w] t]
  have "world_ok (w\<lparr>w_storage := t\<rparr>)" by (rule world_ok_storage[OF w]) (use laws in auto)
  then show "world_ok (snd (on_storage (port_sources (svc_port S) entity) w))
      \<and> drift (view (w_storage w)) (view (w_storage (snd (on_storage (port_sources (svc_port S) entity) w))))"
    using t laws by (simp add: on_storage_def port)
qed

lemma moves_audit_step: "moves safe (on_storage (port_append_audit (svc_port S) entry))"
  unfolding moves_def safe_def
proof (intro allI impI)
  fix w assume w: "world_ok w"
  obtain r t where t: "port_append_audit P entry (w_storage w) = (r, t)" by fastforce
  have "world_ok (w\<lparr>w_storage := t\<rparr>)"
    by (rule world_ok_storage[OF w]) (use append_audit_ok[OF world_okD(1)[OF w] t] in auto)
  then show "world_ok (snd (on_storage (port_append_audit (svc_port S) entry) w))"
    using t by (simp add: on_storage_def port)
qed

lemma moves_preserve_step: "moves safe (on_storage (port_preserve (svc_port S) d label bs))"
  unfolding moves_def safe_def
proof (intro allI impI)
  fix w assume w: "world_ok w"
  obtain r t where t: "port_preserve P d label bs (w_storage w) = (r, t)" by fastforce
  have "world_ok (w\<lparr>w_storage := t\<rparr>)"
    by (rule world_ok_storage[OF w]) (use preserve_ok[OF world_okD(1)[OF w] t] in auto)
  then show "world_ok (snd (on_storage (port_preserve (svc_port S) d label bs) w))"
    using t by (simp add: on_storage_def port)
qed

lemma moves_swap: "env_envelope_version e = envelope_version \<Longrightarrow> moves safe (svc_swap S d expected e)"
  unfolding moves_def safe_def by (metis svc_swap_ok prod.collapse)

lemma moves_remove: "moves safe (svc_remove S d version)"
  unfolding moves_def safe_def by (metis svc_remove_ok prod.collapse)

text \<open>The handlers.\<close>

lemmas reads = moves_if moves_option moves_sum moves_pure[OF reading_pre(1)] moves_bind[OF reading_pre(2)]
  moves_map_err moves_result moves_steps moves_resident moves_cases

lemma moves_reading_handlers [moves_intro]:
  "moves reading (read_envelope S d)"
  "moves reading (new_incarnation S)"
  "moves reading (allocate_peers S who d)"
  "moves reading (svc_replica S plan d r)"
  "moves reading (svc_materialized S plan d r)"
  "moves reading (accepted_frontier S e)"
  unfolding read_envelope_def new_incarnation_def allocate_peers_def svc_replica_def svc_materialized_def
    accepted_frontier_def Let_def
  by (intro reads)+

lemma moves_announce [moves_intro]:
  "moves reading data \<Longrightarrow> moves reading (announce_change S kind generation actor intent data)"
  unfolding announce_change_def by (intro reads)

lemma moves_import_steps [moves_intro]:
  "moves reading (record_replica_failure err)"
  "moves reading (replica_act d a)"
  "moves reading (replica_act_recorded d b)"
  "moves reading count_duplicate"
  "moves reading (import_current S plan request read)"
  "moves reading (answer_retry S plan request r)"
  "moves reading (new_peers_of S request read authoring)"
  "moves reading (judge_creation S request authoring)"
  "moves reading (judge_fence S plan request authoring etag)"
  "moves reading (judge_policy S request authoring etag)"
proof -
  show "moves reading (record_replica_failure err)" unfolding record_replica_failure_def by (intro reads)
  show "moves reading (replica_act d a)" for a :: "'g replica_result" unfolding replica_act_def by (intro reads)
  show recorded: "moves reading (replica_act_recorded d b)" for d and b :: "'h replica_result"
    unfolding replica_act_recorded_def record_replica_failure_def by (intro reads)
  show dup: "moves reading count_duplicate" unfolding count_duplicate_def by (intro reads)
  show "moves reading (import_current S plan request read)"
    unfolding import_current_def Let_def by (intro reads recorded moves_reading_handlers)
  show "moves reading (answer_retry S plan request r)"
    unfolding answer_retry_def by (intro reads dup moves_reading_handlers)
  show "moves reading (new_peers_of S request read authoring)"
    unfolding new_peers_of_def replica_act_def by (intro reads)
  show "moves reading (judge_creation S request authoring)"
    unfolding judge_creation_def replica_act_def by (intro reads)
  show "moves reading (judge_fence S plan request authoring etag)"
    unfolding judge_fence_def replica_act_def by (intro reads)
  show "moves reading (judge_policy S request authoring etag)"
    unfolding judge_policy_def Let_def replica_act_def by (intro reads recorded)
qed

lemmas import_reads = reads moves_reading_handlers moves_import_steps moves_announce

lemma moves_judge: "moves reading (import_judge S plan request read current)"
  unfolding import_judge_def Let_def by (intro import_reads)

lemma moves_candidate: "moves reading (import_candidate S request validate authoring)"
  unfolding import_candidate_def Let_def store_act_def by (intro import_reads)

lemma moves_report: "moves reading (import_report_accepted S plan request accepted dup candidate update v)"
  unfolding import_report_accepted_def Let_def by (intro import_reads)

lemmas safely = moves_if moves_option moves_sum moves_pure[OF safe_pre(1)] moves_bind[OF safe_pre(2)]
  moves_catch[OF safe_pre(2)] moves_map_err moves_result moves_cases moves_for[OF safe_pre]
  moves_collect[OF safe_pre]

lemmas reading_safely = import_reads[THEN moves_reading_safe] moves_judge[THEN moves_reading_safe]
  moves_candidate[THEN moves_reading_safe] moves_report[THEN moves_reading_safe]

lemma moves_commit: "moves safe (svc_commit S current commit)"
  unfolding svc_commit_def commit_write_def Let_def
  by (intro safely moves_swap moves_announce[THEN moves_reading_safe] import_reads
      moves_reading_handlers[THEN moves_reading_safe] next_envelope_simps)

lemma moves_attempt: "moves safe (import_attempt S plan request how validate update)"
  unfolding import_attempt_def store_act_def
  by (intro safely moves_commit moves_reading_handlers[THEN moves_reading_safe]
      moves_import_steps[THEN moves_reading_safe] moves_judge[THEN moves_reading_safe]
      moves_candidate[THEN moves_reading_safe] moves_report[THEN moves_reading_safe])

lemma moves_attempts: "moves safe (import_attempts S plan request how validate update first n)"
proof (induction n arbitrary: first)
  case 0
  have "moves safe (act_bind (store_act (counting (\<lambda>c. c\<lparr>ctr_commit_contention := ctr_commit_contention c + 1\<rparr>))) (\<lambda>_.
      act_fail (StoreFailure (contended_error (rq_document request)))))"
    unfolding store_act_def by (intro safely moves_steps[THEN moves_reading_safe])
  then show ?case by (simp add: moves_def)
next
  case (Suc n)
  have "moves safe (act_bind (if first then act_return () else pause_before_attempt) (\<lambda>_.
      act_bind (import_attempt S plan request how validate update) (\<lambda>report.
      case report of Some r \<Rightarrow> act_return r
      | None \<Rightarrow> import_attempts S plan request how validate update False n)))"
    unfolding pause_before_attempt_def
    by (intro safely moves_attempt Suc moves_steps[THEN moves_reading_safe])
  then show ?case by (simp add: moves_def)
qed

lemma moves_audit: "moves safe (audit_request S actor d event)"
  unfolding audit_request_def by (intro safely moves_steps[THEN moves_reading_safe] moves_audit_step)

lemma moves_refuse: "moves safe (refuse S from_store request failure)"
  unfolding refuse_def audit_refusal_def by (intro safely moves_audit)

lemma moves_import: "moves safe (import_recognising S from_store plan request how validate)"
  unfolding import_recognising_def import_internal_def store_act_def
  by (intro safely moves_attempts moves_refuse)

lemma moves_prepared: "moves safe prepare \<Longrightarrow> moves safe (import_prepared S from_store plan prepare validate)"
  unfolding import_prepared_def by (intro safely moves_import moves_refuse)

lemma moves_edits:
  "moves safe (svc_edit S from_store plan edit validate)"
  "moves safe (svc_edit_text S from_store plan text_edit validate)"
  unfolding svc_edit_def svc_edit_text_def prepare_edit_def prepare_text_edit_request_def Let_def
  by (intro moves_prepared safely moves_reading_handlers[THEN moves_reading_safe])+

lemma moves_recovery:
  "moves safe (quarantine S actor d reason)"
  "moves safe (export_for_recovery S actor d)"
  "moves safe (inspect S entity resource_id limit)"
  "moves safe (reindex S actor)"
proof -
  have stored: "moves safe (stored_state S d)" for d
    unfolding stored_state_def by (intro safely moves_read_step[THEN moves_reading_safe])
  show "moves safe (quarantine S actor d reason)" "moves safe (export_for_recovery S actor d)"
    unfolding quarantine_def export_for_recovery_def audit_recovery_request_def
    by (intro safely moves_audit stored moves_preserve_step)+
  show insp: "moves safe (inspect S entity resource_id limit)" for entity resource_id limit
    unfolding inspect_def inspect_source_def Let_def
    by (intro safely moves_read_step[THEN moves_reading_safe] moves_sources_step[THEN moves_reading_safe])
  show "moves safe (reindex S actor)"
    unfolding reindex_def audit_recovery_request_def by (intro safely moves_audit insp)
qed

lemma decoded_version: "serde_law (svc_ext S) \<Longrightarrow> decode_envelope (svc_ext S) bs = Inr e \<Longrightarrow> env_envelope_version e = envelope_version"
  by (auto simp: decode_envelope_def serde_law_def res_bind_Inr_iff split: if_splits)

lemma moves_safe_serde: "(serde_law (svc_ext S) \<Longrightarrow> moves safe m) \<Longrightarrow> moves safe m"
  unfolding moves_def safe_def using world_okD(6) by blast

lemma moves_bind_lift:
  assumes "reflp R" and "\<And>a. r = Inr a \<Longrightarrow> moves R (f a)"
  shows "moves R (act_bind (act_lift r) f)"
  using assms by (cases r) (simp_all add: moves_def reflpD)

lemma moves_repair: "moves safe (repair S actor d reason)"
proof (rule moves_safe_serde)
  assume serde: "serde_law (svc_ext S)"
  have stored: "moves safe (stored_state S d)"
    unfolding stored_state_def by (intro safely moves_read_step[THEN moves_reading_safe])
  have rest: "moves safe (svc_swap S d expected (repaired_envelope e))"
    if "decode_envelope (svc_ext S) bs = Inr e" for e bs expected
    using decoded_version[OF serde that] by (intro moves_swap) (simp add: repaired_envelope_def)
  show ?thesis
    unfolding repair_def audit_recovery_request_def Let_def
  proof (rule moves_bind[OF safe_pre(2) moves_audit], rule moves_bind[OF safe_pre(2) stored],
      rule moves_bind_lift[OF safe_pre(1)], goal_cases)
    case (1 _ st e)
    then have "decode_envelope (svc_ext S) (se_bytes st) = Inr e" by simp
    note swap = rest[OF this]
    show ?case
      by (intro safely moves_preserve_step swap moves_reading_handlers[THEN moves_reading_safe]
          moves_announce[THEN moves_reading_safe] reads moves_reading_handlers)
  qed
qed

lemma moves_answers:
  "moves reading (svc_summary S d)"
  "moves reading (svc_summaries S entity)"
  "moves reading (read_document S plan d)"
  "moves reading (svc_detail S plan d)"
  "moves reading (svc_attribution S d)"
  "moves reading (svc_authoring_state S plan d held)"
  "moves reading (svc_verify S d)"
  unfolding svc_summary_def svc_summaries_def read_document_def svc_detail_def svc_attribution_def
    svc_authoring_state_def svc_verify_def
  by (intro reads moves_reading_handlers moves_sources_step moves_read_step
      moves_collect[OF reading_pre])+

lemma moves_audit_trail:
  "moves safe (svc_audit S q)"
  "moves safe (svc_discard_audit_before S cutoff)"
proof -
  have step: "world_ok (snd (on_storage m w))"
    if "world_ok w" and "\<And>r t. m (w_storage w) = (r, t) \<Longrightarrow> inv t \<and> persists vouches (w_storage w) t \<and> persists names (w_storage w) t"
    for w and m :: "('s, 'z) storage_act"
  proof -
    obtain r t where t: "m (w_storage w) = (r, t)" by fastforce
    have "world_ok (w\<lparr>w_storage := t\<rparr>)" by (rule world_ok_storage[OF that(1)]) (use that(2)[OF t] in auto)
    then show ?thesis using t by (simp add: on_storage_def)
  qed
  show "moves safe (svc_audit S q)"
    unfolding svc_audit_def moves_def safe_def using step audit_ok port world_okD(1) by metis
  have "moves safe (on_storage (port_discard_audit_before (svc_port S) ms))" for ms
    unfolding moves_def safe_def using step discard_ok port world_okD(1) by metis
  then show "moves safe (svc_discard_audit_before S cutoff)"
    unfolding svc_discard_audit_before_def by (intro safely)
qed

text \<open>The loops: whatever they return in, the invariant is kept.\<close>

definition loops :: "('s, 'd, 'e, 'a) loop_act \<Rightarrow> bool" where
  "loops m \<longleftrightarrow> (\<forall>w r w'. m w = Some (r, w') \<longrightarrow> safe w w')"

lemma loopsI: "(\<And>w r w'. m w = Some (r, w') \<Longrightarrow> safe w w') \<Longrightarrow> loops m"
  by (simp add: loops_def)

lemma loopsD: "loops m \<Longrightarrow> m w = Some (r, w') \<Longrightarrow> safe w w'"
  by (simp add: loops_def)

lemma safe_trans: "safe u v \<Longrightarrow> safe v w \<Longrightarrow> safe u w"
  by (simp add: safe_def)

lemma moves_finish: "moves safe (finish_delete S actor d bs)"
  unfolding finish_delete_def Let_def
  by (intro safely moves_announce[THEN moves_reading_safe] reads)

lemma loops_delete: "loops (svc_delete S actor d)"
proof (rule loopsI)
  fix w r w' assume run: "svc_delete S actor d w = Some (r, w')"
  have "S = S \<longrightarrow> safe w (snd (r, w'))"
  proof (rule svc_delete.raw_induct[where P = "\<lambda>T a e w y. T = S \<longrightarrow> safe w (snd y)", OF _ run], intro impI)
    fix f T a e w y
    assume IH: "\<And>T a e w y. f T a e w = Some y \<Longrightarrow> T = S \<longrightarrow> safe w (snd y)" and T: "T = S"
      and body: "(case on_storage (port_read (svc_port T) (source_of T e)) w of
          (Inl e, w1) \<Rightarrow> Some (Inl e, w1)
        | (Inr None, w1) \<Rightarrow> Some (Inr None, w1)
        | (Inr (Some st), w1) \<Rightarrow>
            (case svc_remove T e (se_version st) w1 of
               (Inl e, w2) \<Rightarrow> Some (Inl e, w2)
             | (Inr removed, w2) \<Rightarrow>
                 if removed then Some (finish_delete T a e (se_bytes st) w2) else f T a e w2)) = Some y"
    obtain r1 w1 where rd: "on_storage (port_read (svc_port S) (source_of S e)) w = (r1, w1)" by fastforce
    have one: "safe w w1" using movesD[OF moves_read_step[THEN moves_reading_safe] rd] .
    show "safe w (snd y)"
    proof (cases "\<exists>st. r1 = Inr (Some st)")
      case True
      then obtain st where st: "r1 = Inr (Some st)" by blast
      obtain r2 w2 where rm: "svc_remove S e (se_version st) w1 = (r2, w2)" by fastforce
      have two: "safe w w2" using one movesD[OF moves_remove rm] by (rule safe_trans)
      show ?thesis
        using body T rd st rm two moves_finish[of a e "se_bytes st"] IH[of S a e w2]
        by (cases r2) (auto simp: moves_def split: if_splits intro: safe_trans)
    qed (use body T rd one in \<open>auto split: sum.splits option.splits\<close>)
  qed
  then show "safe w w'" by simp
qed

lemma loops_seed_loop: "loops (seed_loop S d commit)"
proof (rule loopsI)
  fix w r w' assume run: "seed_loop S d commit w = Some (r, w')"
  have "S = S \<longrightarrow> safe w (snd (r, w'))"
  proof (rule seed_loop.raw_induct[where P = "\<lambda>T e c w y. T = S \<longrightarrow> safe w (snd y)", OF _ run], intro impI)
    fix f T e c w y
    assume IH: "\<And>T e c w y. f T e c w = Some y \<Longrightarrow> T = S \<longrightarrow> safe w (snd y)" and T: "T = S"
      and body: "(case read_envelope T e w of
          (Inl e, w1) \<Rightarrow> Some (Inl e, w1)
        | (Inr None, w1) \<Rightarrow>
            (case svc_commit T None c w1 of
               (Inl e, w2) \<Rightarrow> Some (Inl e, w2)
             | (Inr outcome, w2) \<Rightarrow>
                 (case committed outcome of None \<Rightarrow> f T e c w2 | Some r \<Rightarrow> Some (Inr r, w2)))
        | (Inr (Some r), w1) \<Rightarrow> Some (Inr r, w1)) = Some y"
    obtain r1 w1 where rd: "read_envelope S e w = (r1, w1)" by fastforce
    have one: "safe w w1" using movesD[OF moves_reading_handlers(1)[THEN moves_reading_safe] rd] .
    show "safe w (snd y)"
    proof (cases "r1 = Inr None")
      case True
      obtain r2 w2 where cm: "svc_commit S None c w1 = (r2, w2)" by fastforce
      have two: "safe w w2" using one movesD[OF moves_commit cm] by (rule safe_trans)
      show ?thesis
        using body T rd True cm two IH[of S e c w2]
        by (auto split: sum.splits option.splits intro: safe_trans)
    qed (use body T rd one in \<open>auto split: sum.splits option.splits\<close>)
  qed
  then show "safe w w'" by simp
qed

lemma moves_turn: "moves safe (migrate_turn S plan d from_version base64 update migrated)"
  unfolding migrate_turn_def Let_def replica_act_def
  by (intro safely moves_commit moves_reading_handlers[THEN moves_reading_safe])

lemma loops_migrate_loop: "loops (migrate_loop S plan d from_version base64 update migrated)"
proof (rule loopsI)
  fix w r w' assume run: "migrate_loop S plan d from_version base64 update migrated w = Some (r, w')"
  have "S = S \<longrightarrow> safe w (snd (r, w'))"
  proof (rule migrate_loop.raw_induct[where P = "\<lambda>T p e v b u m w y. T = S \<longrightarrow> safe w (snd y)", OF _ run], intro impI)
    fix f T p e v b u m w y
    assume IH: "\<And>T p e v b u m w y. f T p e v b u m w = Some y \<Longrightarrow> T = S \<longrightarrow> safe w (snd y)" and T: "T = S"
      and body: "(case migrate_turn T p e v b u m w of
          (Inl e, w1) \<Rightarrow> Some (Inl e, w1)
        | (Inr over, w1) \<Rightarrow>
            (case over of None \<Rightarrow> f T p e v b u m w1 | Some r \<Rightarrow> Some (Inr r, w1))) = Some y"
    obtain r1 w1 where turn: "migrate_turn S p e v b u m w = (r1, w1)" by fastforce
    have "safe w w1" using movesD[OF moves_turn turn] .
    then show "safe w (snd y)"
      using body T turn IH[of S p e v b u m w1] by (auto split: sum.splits option.splits intro: safe_trans)
  qed
  then show "safe w w'" by simp
qed

text \<open>The operations that end in a loop.\<close>

lemma loops_reset: "loops (svc_reset S actor d)"
proof (rule loopsI)
  fix w r w' assume run: "svc_reset S actor d w = Some (r, w')"
  obtain r1 w1 where a: "audit_recovery_request S actor Reset d None True w = (r1, w1)" by fastforce
  have "safe w w1" using movesD[OF moves_audit a[unfolded audit_recovery_request_def]] .
  then show "safe w w'" using run a
    by (cases r1) (auto simp: svc_reset_def dest!: loopsD[OF loops_delete] intro: safe_trans)
qed

lemma loops_seed_validated: "loops (seed_validated S from_store plan d incarnation update)"
proof (rule loopsI)
  fix w r w' assume run: "seed_validated S from_store plan d incarnation update w = Some (r, w')"
  have seeds: "loops (seed S plan d incarnation accepted)" for accepted
    using loops_seed_loop by (auto simp: loops_def seed_def reflpD[OF safe_pre(1)] split: sum.splits)
  show "safe w w'" using run reflpD[OF safe_pre(1)]
    by (cases update) (auto simp: seed_validated_def dest!: loopsD[OF seeds])
qed

lemma moves_system_peer: "moves safe (system_peer S d)"
  unfolding system_peer_def by (intro safely moves_reading_handlers[THEN moves_reading_safe])

lemma loops_bootstrap: "loops (bootstrap S from_store plan d document validate)"
proof (rule loopsI)
  fix w r w' assume run: "bootstrap S from_store plan d document validate w = Some (r, w')"
  obtain r1 w1 where rd: "read_envelope S d w = (r1, w1)" by fastforce
  obtain r2 w2 where sp: "(system_peer S d :: ('s, 'd, u64) svc_act) w1 = (r2, w2)" by fastforce
  have one: "safe w w1" using movesD[OF moves_reading_handlers(1)[THEN moves_reading_safe] rd] .
  have two: "safe w w2" using one movesD[OF moves_system_peer sp] by (rule safe_trans)
  show "safe w w'"
  proof (cases "r1 = Inr None")
    case True
    then show ?thesis using run rd sp two
      by (cases r2) (auto simp: bootstrap_def dest!: loopsD[OF loops_seed_validated] intro: safe_trans)
  qed (use run rd one in \<open>auto simp: bootstrap_def split: sum.splits option.splits\<close>)
qed

lemma loops_bootstrap_update:
  "loops (bootstrap_update S from_store plan d version base64 incarnation validate)"
proof (rule loopsI)
  fix w r w' assume run: "bootstrap_update S from_store plan d version base64 incarnation validate w = Some (r, w')"
  obtain r1 w1 where rd: "read_envelope S d w = (r1, w1)" by fastforce
  have one: "safe w w1" using movesD[OF moves_reading_handlers(1)[THEN moves_reading_safe] rd] .
  show "safe w w'" using run rd one
    by (auto simp: bootstrap_update_def split: sum.splits option.splits if_splits
        dest!: loopsD[OF loops_seed_validated] intro: safe_trans)
qed

lemma loops_migrate: "loops (migrate S from_store plan d version base64 validate)"
proof (rule loopsI)
  fix w r w' assume run: "migrate S from_store plan d version base64 validate w = Some (r, w')"
  show "safe w w'" using run reflpD[OF safe_pre(1)]
    by (auto simp: migrate_def dest!: loopsD[OF loops_migrate_loop]
        split: sum.splits[where ?sum = "res_bind _ _"])
qed

end

end
