(* ===== verification/Serving.thy ===== *)
theory Serving
  imports Coherence Samples
begin

text \<open>
  A service in use: the calls a client of \<open>CollaborationService\<close> makes, one after another, over a
  storage that other services may share. \<open>served\<close> is the set of worlds such calls lead to. The
  services are those a set of stores makes (\<open>CollaborationStores::register\<close>) over the in-memory port
  and over the shared one; each is an instance of \<open>coherent_store\<close>, so every world they reach keeps
  the invariant and what they read is what is stored.
\<close>

datatype 'e call =
    SummaryCall document_id
  | SummariesCall string
  | ReadCall entity_spec document_id
  | DetailCall entity_spec document_id
  | AttributionCall document_id
  | AuthoringCall entity_spec document_id "collaboration_held option"
  | AllocateCall principal document_id
  | ImportCall entity_spec import_request "json \<Rightarrow> 'e + unit"
  | EditCall entity_spec document_edit "json \<Rightarrow> 'e + unit"
  | EditTextCall entity_spec text_edit "json \<Rightarrow> 'e + unit"
  | DeleteCall principal document_id
  | InspectCall "string option" "string option" "nat option"
  | VerifyCall document_id
  | ExportCall principal document_id
  | QuarantineCall principal document_id string
  | RepairCall principal document_id string
  | ReindexCall principal
  | ResetCall principal document_id
  | AuditCall audit_query
  | DiscardCall "nat option"
  | BootstrapCall entity_spec document_id json "json \<Rightarrow> 'e + unit"
  | BootstrapUpdateCall entity_spec document_id u32 string "string option" "json \<Rightarrow> 'e + unit"
  | MigrateCall entity_spec document_id u32 string "json \<Rightarrow> 'e + unit"
  | ListenCall

text \<open>The world a call leaves; nothing when it never returns.\<close>

fun call_after ::
  "('s, 'd, 'f) service \<Rightarrow> (store_error \<Rightarrow> 'e) \<Rightarrow> 'e call \<Rightarrow> ('s, 'd) world \<Rightarrow> ('s, 'd) world option"
where
  "call_after S from_store (SummaryCall d) w = Some (snd (svc_summary S d w))"
| "call_after S from_store (SummariesCall entity) w = Some (snd (svc_summaries S entity w))"
| "call_after S from_store (ReadCall plan d) w = Some (snd (read_document S plan d w))"
| "call_after S from_store (DetailCall plan d) w = Some (snd (svc_detail S plan d w))"
| "call_after S from_store (AttributionCall d) w = Some (snd (svc_attribution S d w))"
| "call_after S from_store (AuthoringCall plan d held) w = Some (snd (svc_authoring_state S plan d held w))"
| "call_after S from_store (AllocateCall who d) w
     = Some (snd ((allocate_peers S who d :: ('s, 'd, peer_block) svc_act) w))"
| "call_after S from_store (ImportCall plan request validate) w
     = Some (snd (svc_import S from_store plan request validate w))"
| "call_after S from_store (EditCall plan edit validate) w = Some (snd (svc_edit S from_store plan edit validate w))"
| "call_after S from_store (EditTextCall plan edit validate) w
     = Some (snd (svc_edit_text S from_store plan edit validate w))"
| "call_after S from_store (DeleteCall actor d) w = map_option snd (svc_delete S actor d w)"
| "call_after S from_store (InspectCall entity rid limit) w = Some (snd (inspect S entity rid limit w))"
| "call_after S from_store (VerifyCall d) w = Some (snd (svc_verify S d w))"
| "call_after S from_store (ExportCall actor d) w = Some (snd (export_for_recovery S actor d w))"
| "call_after S from_store (QuarantineCall actor d reason) w = Some (snd (quarantine S actor d reason w))"
| "call_after S from_store (RepairCall actor d reason) w = Some (snd (repair S actor d reason w))"
| "call_after S from_store (ReindexCall actor) w = Some (snd (reindex S actor w))"
| "call_after S from_store (ResetCall actor d) w = map_option snd (svc_reset S actor d w)"
| "call_after S from_store (AuditCall q) w = Some (snd (svc_audit S q w))"
| "call_after S from_store (DiscardCall cutoff) w = Some (snd (svc_discard_audit_before S cutoff w))"
| "call_after S from_store (BootstrapCall plan d document validate) w
     = map_option snd (bootstrap S from_store plan d document validate w)"
| "call_after S from_store (BootstrapUpdateCall plan d version update incarnation validate) w
     = map_option snd (bootstrap_update S from_store plan d version update incarnation validate w)"
| "call_after S from_store (MigrateCall plan d version update validate) w
     = map_option snd (migrate S from_store plan d version update validate w)"
| "call_after S from_store ListenCall w = Some (w\<lparr>w_feed := feed_listen (w_feed w)\<rparr>)"

inductive served ::
  "('s, 'd, 'f) service \<Rightarrow> (store_error \<Rightarrow> 'e) \<Rightarrow> ('s \<Rightarrow> bool) \<Rightarrow> ('s, 'd) world \<Rightarrow> bool"
  for S from_store opens
where
  served_fresh: "opens s \<Longrightarrow> served S from_store opens (fresh_world s)"
| served_call: "served S from_store opens w \<Longrightarrow> call_after S from_store c w = Some w' \<Longrightarrow>
    served S from_store opens w'"

section \<open>Every world a service reaches keeps the invariant\<close>

lemma moves_snd: "moves R m \<Longrightarrow> R w (snd (m w))"
  by (simp add: moves_def)

context coherent_store
begin

lemma reading_safe: "reading w w' \<Longrightarrow> safe w w'"
  by (simp add: reading_def safe_def)

lemma feed_safe: "safe w (w\<lparr>w_feed := feed\<rparr>)"
  by (rule reading_safe, rule quiet) simp_all

lemma call_keeps: "call_after S from_store c w = Some w' \<Longrightarrow> safe w w'"
  by (cases c) (auto simp: svc_import_def
      intro!: moves_snd[OF moves_import] moves_snd[OF moves_edits(1)] moves_snd[OF moves_edits(2)]
        moves_snd[OF moves_repair] moves_snd[OF moves_recovery(1)] moves_snd[OF moves_recovery(2)]
        moves_snd[OF moves_recovery(3)] moves_snd[OF moves_recovery(4)]
        moves_snd[OF moves_audit_trail(1)] moves_snd[OF moves_audit_trail(2)]
        moves_snd[OF moves_reading_handlers(3)[THEN moves_reading_safe]]
        moves_snd[OF moves_answers(1)[THEN moves_reading_safe]] moves_snd[OF moves_answers(2)[THEN moves_reading_safe]]
        moves_snd[OF moves_answers(3)[THEN moves_reading_safe]] moves_snd[OF moves_answers(4)[THEN moves_reading_safe]]
        moves_snd[OF moves_answers(5)[THEN moves_reading_safe]] moves_snd[OF moves_answers(6)[THEN moves_reading_safe]]
        moves_snd[OF moves_answers(7)[THEN moves_reading_safe]] feed_safe
      dest!: loopsD[OF loops_delete] loopsD[OF loops_reset] loopsD[OF loops_bootstrap]
        loopsD[OF loops_bootstrap_update] loopsD[OF loops_migrate])

lemma fresh_ok: "serde_law (svc_ext S) \<Longrightarrow> inv s \<Longrightarrow> world_ok (fresh_world s)"
  by (simp add: world_ok_def fresh_world_def)

lemma served_ok:
  assumes "serde_law (svc_ext S)" and "served S from_store inv w"
  shows "world_ok w"
  using assms(2)
proof induction
  case (served_fresh s)
  then show ?case by (rule fresh_ok[OF assms(1)])
next
  case (served_call w c w')
  then show ?case using call_keeps by (auto simp: safe_def)
qed

end

section \<open>The services of a set of stores\<close>

lemma stores_service_simps [simp]:
  "svc_port (stores_service st name P) = P" "svc_ext (stores_service st name P) = sts_ext st"
  "svc_policy (stores_service st name P) = sts_policy st"
  by (simp_all add: stores_service_def)

lemma source_of_memory [simp]: "source_of (stores_service st name memory_port) d = memory_source d"
  by (simp add: source_of_def memory_port_def)

lemma source_of_shared [simp]: "source_of (stores_service st name shared_port) d = memory_source d"
  by (simp add: source_of_def shared_port_def)

interpretation memory_store: coherent_store memory_port memory_inv memory_view "(=)" memory_vouches
  memory_names memory_retired "stores_service st name memory_port" for st name
  by unfold_locales simp

interpretation shared_store: coherent_store shared_port "\<lambda>s. memory_inv (fst s)"
  "\<lambda>s. memory_view (fst s)" shared_drift "on_shared memory_vouches" "on_shared memory_names"
  "on_shared memory_retired" "stores_service st name shared_port" for st name
  by unfold_locales simp

text \<open>The envelope a storage keeps for a document, decoded and judged as a reader judges it.\<close>

definition kept_reading ::
  "('d, 'f) ext \<Rightarrow> kept_state \<Rightarrow> document_id \<Rightarrow> (string \<times> envelope \<times> collaboration_version) option"
where
  "kept_reading X s d =
     (case map_of (ks_envelopes s) (memory_source d) of
        None \<Rightarrow> None
      | Some st \<Rightarrow>
          (case decode_envelope X (se_bytes st) of
             Inl _ \<Rightarrow> None
           | Inr e \<Rightarrow>
               (case validate_envelope X (own_id e) e of
                  Inl _ \<Rightarrow> None
                | Inr peers \<Rightarrow> Some (se_version st, e,
                    \<lparr>cv_incarnation = env_incarnation e, cv_peers = peers\<rparr>))))"

lemma kept_readingI:
  assumes "map_of (ks_envelopes s) (memory_source d) = Some \<lparr>se_version = v, se_bytes = bs\<rparr>"
    and "decodes_to X bs e accepted"
  shows "kept_reading X s d = Some (v, e, accepted)"
  using assms by (cases accepted) (simp add: kept_reading_def decodes_to_def)

text \<open>
  (C1) What a service serves is what is stored. In every world that calls of a service lead to, over
  a storage other services write to between any two of its steps, a read that answers finds nothing
  exactly when nothing is kept, and otherwise gives the version, the envelope and the accepted
  version that decoding the bytes kept at that moment gives, whether it came from memory or not.
\<close>

theorem reads_are_coherent:
  assumes "serde_law (sts_ext st)"
    and "served (stores_service st name shared_port) from_store (\<lambda>s. memory_inv (fst s)) w"
    and "read_envelope (stores_service st name shared_port) d w = (Inr found, w')"
  shows "(found = None \<longleftrightarrow> map_of (ks_envelopes (fst (w_storage w'))) (memory_source d) = None)
    \<and> map_option (\<lambda>r. (res_version r, res_envelope r, res_accepted r)) found
      = kept_reading (sts_ext st) (fst (w_storage w')) d"
proof -
  let ?S = "stores_service st name shared_port"
  note ok = shared_store.served_ok[OF _ assms(2), simplified, OF assms(1)]
  note serves = shared_store.svc_resident_ok[OF ok assms(3)[unfolded read_envelope_def], THEN conjunct2, THEN conjunct2,
    rule_format, OF refl, simplified]
  show ?thesis
  proof (cases found)
    case None
    then show ?thesis using serves[unfolded shared_store.serves_def]
      by (simp add: memory_view_def kept_reading_def)
  next
    case (Some r)
    then obtain bs where
      "map_of (ks_envelopes (fst (w_storage w'))) (memory_source d) = Some \<lparr>se_version = res_version r, se_bytes = bs\<rparr>"
      "decodes_to (sts_ext st) bs (res_envelope r) (res_accepted r)"
      using serves[unfolded shared_store.serves_def] by (auto simp: memory_view_def)
    then show ?thesis using Some by (simp add: kept_readingI)
  qed
qed

text \<open>
  Another service replaces the document's envelope after it was created and held; the read that
  follows serves the new one.
\<close>

definition sample_rewritten :: bytes where
  "sample_rewritten = ''5;1;N1;11;A1;2;2;0;4;AxAy8;417841794;2;1;p1;1;1;a0;0;2;Ax4;41782;1;q2;1;1;a0;0;4;AxAy8;417841794;1;4259840;1;a0;''"

definition sample_shared :: shared_state where
  "sample_shared = (memory_new, [[], [], [], [ForeignSwap sample_document (Some ''1'') sample_rewritten]])"

definition accept_all :: "json \<Rightarrow> store_error + unit" where
  "accept_all v = Inr ()"

definition sample_used :: "(shared_state, sample_doc) world" where
  "sample_used = snd (svc_import (sample_service shared_port) id sample_plan sample_creation accept_all
     (fresh_world sample_shared))"

lemma sample_used_served: "served (sample_service shared_port) id (\<lambda>s. memory_inv (fst s)) sample_used"
  by (rule served_call[where c = "ImportCall sample_plan sample_creation accept_all", OF served_fresh])
    (simp_all add: sample_used_def sample_shared_def memory_new_def memory_inv_def)

theorem reads_are_coherent_witness:
  "case read_envelope (sample_service shared_port) sample_document sample_used of
     (Inr (Some r), w') \<Rightarrow> env_generation (res_envelope r) = 2
       \<and> kept_reading sample_ext (fst (w_storage w')) sample_document
         = Some (res_version r, res_envelope r, res_accepted r)
   | _ \<Rightarrow> False"
proof -
  have run: "case read_envelope (sample_service shared_port) sample_document sample_used of
     (Inr (Some r), w') \<Rightarrow> env_generation (res_envelope r) = 2 | _ \<Rightarrow> False"
    by code_simp
  then obtain r w' where r: "read_envelope (sample_service shared_port) sample_document sample_used = (Inr (Some r), w')"
    by (auto split: prod.splits sum.splits option.splits)
  have "map_option (\<lambda>r. (res_version r, res_envelope r, res_accepted r)) (Some r)
      = kept_reading sample_ext (fst (w_storage w')) sample_document"
    using reads_are_coherent[OF _ sample_used_served r] sample_serde by simp
  with r run show ?thesis by simp
qed

end
