(* ===== verification/Accepting.thy ===== *)
theory Accepting
  imports Serving
begin

text \<open>
  What an import that is accepted has been through, what an import does to the storage, and what is
  audited. The unwinding of \<open>import_attempts\<close> into the attempt that settled it is shared by them.
\<close>

section \<open>The attempt that settles an import\<close>

lemma import_attempts_settled:
  "import_attempts S plan request how validate update first n w = (Inr report, w') \<Longrightarrow>
   \<exists>w0. import_attempt S plan request how validate update w0 = (Inr (Some report), w')"
proof (induction n arbitrary: first w)
  case (Suc n)
  then obtain w0 answer w1 where
      attempt: "import_attempt S plan request how validate update w0 = (Inr answer, w1)"
      and rest: "(case answer of Some r \<Rightarrow> act_return r
        | None \<Rightarrow> import_attempts S plan request how validate update False n) w1 = (Inr report, w')"
    by (auto simp: act_bind_Inr_iff)
  then show ?case using Suc.IH[of False w1] by (cases answer) auto
qed (simp add: act_bind_def store_act_def act_map_err_def counting_def)

lemma import_settled:
  assumes "svc_import S from_store plan request validate w = (Inr report, w')"
  shows "\<exists>update w0. import_checks S plan request = Inr update
    \<and> import_attempt S plan request ByUpdate validate update w0 = (Inr (Some report), w')"
proof -
  obtain res w1 where run: "import_internal S plan request ByUpdate validate w = (res, w1)" by fastforce
  have "import_internal S plan request ByUpdate validate w = (Inr report, w')"
  proof (cases res)
    case (Inl failure)
    have "refuse S from_store request failure w1 = (Inr report, w')"
      using assms run Inl by (simp add: svc_import_def import_recognising_def act_catch_def)
    then show ?thesis
      by (cases failure) (auto simp: refuse_def act_bind_Inr_iff split: if_splits)
  qed (use assms run in \<open>simp add: svc_import_def import_recognising_def act_catch_def\<close>)
  then show ?thesis
    using import_attempts_settled
    by (fastforce simp: import_internal_def store_act_def act_bind_Inr_iff act_map_err_def)
qed

section \<open>The grounds of an acceptance\<close>

text \<open>
  Why an attempt may commit: the envelope it read (none for a document it creates), the replica of
  that envelope, the peers whose operations it adds, the candidate it makes, the candidate's bytes
  and its document.
\<close>

definition import_justified ::
  "('s, 'd, 'f) service \<Rightarrow> entity_spec \<Rightarrow> import_request \<Rightarrow> (json \<Rightarrow> 'e + unit) \<Rightarrow> resident option \<Rightarrow>
   envelope \<Rightarrow> 'd replica \<Rightarrow> u64 list \<Rightarrow> 'd replica \<Rightarrow> bytes \<Rightarrow> json \<Rightarrow> bool"
where
  "import_justified S plan request validate read current authoring peers candidate update document \<longleftrightarrow>
     rq_schema_version request = plan_schema_version plan
     \<and> load_authoring_document (svc_ext S) plan (rq_document request) current = Inr authoring
     \<and> (case read of
          None \<Rightarrow> rq_exchange_mode request = Bootstrap
            \<and> peers_in_update (svc_loro S) (rq_update_base64 request) = Inr peers
            \<and> policy_conflicts_for_creation (svc_loro S) authoring (principal_kind (rq_actor request)) = Inr []
        | Some r \<Rightarrow> rq_exchange_mode request = Incremental \<and> current = res_envelope r
            \<and> retained_operation r (rq_operation_id request) = None
            \<and> require_related_history (svc_loro S) authoring (rq_update_base64 request) = Inr ()
            \<and> peers_with_new_operations (svc_loro S) authoring (rq_update_base64 request) = Inr peers
            \<and> require_frontier_base64 (svc_loro S) authoring (rq_base_frontier_base64 request) = Inr ()
            \<and> policy_conflicts_for_incremental_update (svc_loro S) authoring
                (rq_base_frontier_base64 request) (rq_schema_version request) (rq_update_base64 request)
                (principal_kind (rq_actor request)) = Inr [])
     \<and> (\<forall>peer \<in> set peers. block_of peer \<in> set (block_bases S request))
     \<and> (\<forall>etag. rq_fence request = FenceEtag etag \<longrightarrow> etag = envelope_etag current)
     \<and> adopt_versioned_update_base64 (svc_loro S) (rq_schema_version request) (rq_update_base64 request)
         authoring = (Inr (), candidate)
     \<and> export_update_bytes S (rq_document request) candidate = Inr update
     \<and> materialized_document (svc_loro S) candidate (collaboration_etag (svc_ext S) update) = Inr document
     \<and> validate document = Inr ()"

lemma replica_act_recorded_Inr [simp]:
  "replica_act_recorded d r w = (Inr a, w') \<longleftrightarrow> r = Inr a \<and> w' = w"
  by (cases r) (auto simp: replica_act_recorded_def record_replica_failure_def counting_def act_bind_def)

lemma replica_act_Inr [simp]: "replica_act d r w = (Inr a, w') \<longleftrightarrow> r = Inr a \<and> w' = w"
  by (auto simp: replica_act_def)

lemma store_act_Inr [simp]: "store_act m w = (Inr a, w') \<longleftrightarrow> m w = (Inr a, w')"
  by (simp add: store_act_def act_map_err_Inr_iff)

lemma require_allocated_peers_Inr:
  "require_allocated_peers S request peers = Inr u \<longleftrightarrow> (\<forall>p \<in> set peers. block_of p \<in> set (block_bases S request))"
  by (auto simp: require_allocated_peers_def Let_def filter_empty_conv)

lemma judge_creation_Inr [simp]:
  "judge_creation S request authoring w = (Inr u, w') \<longleftrightarrow>
     policy_conflicts_for_creation (svc_loro S) authoring (principal_kind (rq_actor request)) = Inr [] \<and> w' = w"
  by (auto simp: judge_creation_def act_bind_Inr_iff split: if_splits)

lemma judge_fence_Inr [simp]:
  "judge_fence S plan request authoring etag w = (Inr u, w') \<longleftrightarrow>
     (\<forall>t. rq_fence request = FenceEtag t \<longrightarrow> t = etag) \<and> w' = w"
  by (auto simp: judge_fence_def act_bind_Inr_iff split: import_fence.splits if_splits)

lemma judge_policy_Inr [simp]:
  "judge_policy S request authoring etag w = (Inr u, w') \<longleftrightarrow> w' = w \<and>
     (rq_exchange_mode request = Incremental \<longrightarrow>
        require_frontier_base64 (svc_loro S) authoring (rq_base_frontier_base64 request) = Inr ()
        \<and> policy_conflicts_for_incremental_update (svc_loro S) authoring (rq_base_frontier_base64 request)
            (rq_schema_version request) (rq_update_base64 request) (principal_kind (rq_actor request)) = Inr [])"
  by (auto simp: judge_policy_def Let_def act_bind_Inr_iff split: if_splits)

lemma import_current_Inr:
  assumes "import_current S plan request read w = (Inr current, w')"
  shows "case read of None \<Rightarrow> rq_exchange_mode request = Bootstrap
    | Some r \<Rightarrow> rq_exchange_mode request = Incremental \<and> current = res_envelope r \<and> w' = w"
  using assms by (cases read; cases "rq_exchange_mode request") (auto simp: import_current_def Let_def)

lemma checkpoint_etag_of: "checkpoint_update X d e = Inr update \<Longrightarrow> collaboration_etag X update = envelope_etag e"
  by (simp add: checkpoint_update_def decode_checked_Inr collaboration_etag_def envelope_etag_def)

lemma import_candidate_Inr:
  "import_candidate S request validate authoring w = (Inr (candidate, update, document), w') \<longleftrightarrow>
     adopt_versioned_update_base64 (svc_loro S) (rq_schema_version request) (rq_update_base64 request)
       authoring = (Inr (), candidate)
     \<and> export_update_bytes S (rq_document request) candidate = Inr update
     \<and> materialized_document (svc_loro S) candidate (collaboration_etag (svc_ext S) update) = Inr document
     \<and> validate document = Inr () \<and> w' = w"
  by (cases "adopt_versioned_update_base64 (svc_loro S) (rq_schema_version request) (rq_update_base64 request) authoring")
    (auto simp: import_candidate_def Let_def act_bind_Inr_iff split: sum.splits)

lemma import_judged:
  assumes judge: "import_judge S plan request read current w = (Inr (authoring, peers), w')"
    and current: "import_current S plan request read v = (Inr current, v')"
    and checks: "import_checks S plan request = Inr imported"
    and fresh: "case read of Some r \<Rightarrow> retained_operation r (rq_operation_id request) = None | None \<Rightarrow> True"
    and candidate: "import_candidate S request validate authoring u = (Inr (candidate, update, document), u')"
  shows "import_justified S plan request validate read current authoring peers candidate update document"
    and "w' = w" and "u' = u"
proof -
  note mode = import_current_Inr[OF current]
  have "rq_schema_version request = plan_schema_version plan"
    using checks by (auto simp: import_checks_def split: if_splits)
  then show "import_justified S plan request validate read current authoring peers candidate update document"
    using judge candidate mode fresh
    by (cases read) (auto simp: import_justified_def import_judge_def Let_def act_bind_Inr_iff
        import_candidate_Inr require_allocated_peers_Inr new_peers_of_def dest!: checkpoint_etag_of)
  show "w' = w" using judge by (cases read) (auto simp: import_judge_def Let_def act_bind_Inr_iff new_peers_of_def)
  show "u' = u" using candidate by (simp add: import_candidate_Inr)
qed

lemma swapped_envelope:
  "svc_swap S d expected e w = (Inr (Some r), w') \<Longrightarrow> res_envelope r = e"
  by (auto simp: svc_swap_def act_bind_Inr_iff resident_new_def Let_def split: option.splits)

lemma commit_accepted:
  assumes "svc_commit S read commit w = (Inr (CommitAccepted r), w')"
  shows "\<exists>minted. res_envelope r = next_envelope (svc_ext S) (svc_policy S) minted
    (map_option res_envelope read) (cm_document commit) commit"
proof -
  have "commit_write S read commit w = (Inr (CommitAccepted r), w')"
    using assms by (cases read) (auto simp: svc_commit_def act_bind_Inr_iff split: if_splits)
  then show ?thesis
    by (auto simp: commit_write_def Let_def act_bind_Inr_iff split: option.splits dest!: swapped_envelope)
qed

lemma accepted_checkpoint:
  assumes "b64_law (ext_loro X)" and "cm_accepted_update commit = update"
  shows "checkpoint_update X d (next_envelope X policy minted current d' commit) = Inr update"
  using assms by (simp add: checkpoint_update_def decode_checked_Inr b64_law_def)

lemma reported_outcome:
  "(case outcome of
      CommitAccepted a \<Rightarrow> act_bind (store_act (f a)) (\<lambda>r. act_return (Some r))
    | CommitDuplicate a \<Rightarrow> act_bind (store_act (g a)) (\<lambda>r. act_return (Some r))
    | CommitStale \<Rightarrow> act_return None) w = (Inr (Some r), w') \<longleftrightarrow>
   (\<exists>a. outcome = CommitAccepted a \<and> f a w = (Inr r, w')) \<or> (\<exists>a. outcome = CommitDuplicate a \<and> g a w = (Inr r, w'))"
  by (cases outcome) (auto simp: act_bind_Inr_iff)

text \<open>The branch of an attempt that ends in a report of its own commit.\<close>

lemma import_attempt_accepted:
  assumes run: "import_attempt S plan request how validate imported w = (Inr (Some report), w')"
    and new: "\<not> ir_duplicate report" and checks: "import_checks S plan request = Inr imported"
  obtains read current authoring peers candidate update document accepted w1 w2 w3 w4
  where "read_envelope S (rq_document request) w = (Inr read, w1)"
    and "import_current S plan request read w1 = (Inr current, w2)"
    and "import_justified S plan request validate read current authoring peers candidate update document"
    and "svc_commit S read (import_commit_request S request imported read current peers authoring
      candidate update) w3 = (Inr (CommitAccepted accepted), w4)"
    and "moves R (import_judge S plan request read current) \<Longrightarrow> R w2 w3"
    and "import_report_accepted S plan request accepted False candidate update document w4 = (Inr report, w')"
proof -
  obtain read w1 where read: "read_envelope S (rq_document request) w = (Inr read, w1)"
    using run by (auto simp: import_attempt_def act_bind_Inr_iff)
  obtain current w2 where current: "import_current S plan request read w1 = (Inr current, w2)"
    using run read by (auto simp: import_attempt_def act_bind_run act_bind_Inr_iff)
  have dup: "ir_duplicate r \<longleftrightarrow> dup" if "import_result S request a rep doc dup = Inr r" for a rep doc dup r
    using that by (auto simp: import_result_def res_bind_Inr_iff Let_def)
  have retry: "ir_duplicate r" if "answer_retry S plan request x u = (Inr r, u')" for x r u u'
    using that by (auto simp: answer_retry_def act_bind_Inr_iff dest: dup)
  have reported: "ir_duplicate r \<longleftrightarrow> d" if "import_report_accepted S plan request a d c up doc u = (Inr r, u')" for a d c up doc u r u'
    using that by (auto simp: import_report_accepted_def Let_def act_bind_Inr_iff dest: dup)
  have fresh: "case read of Some r \<Rightarrow> retained_operation r (rq_operation_id request) = None | None \<Rightarrow> True"
    using run read current new
    by (auto simp: import_attempt_def act_bind_run act_bind_Inr_iff split: option.splits if_splits dest: retry)
  then have none: "(case read of Some r \<Rightarrow> map_option (Pair r) (retained_operation r (rq_operation_id request))
      | None \<Rightarrow> None) = None" by (cases read) simp_all
  obtain authoring peers candidate update document outcome w3 w3' w4 where
      judge: "import_judge S plan request read current w2 = (Inr (authoring, peers), w3)"
      and cand: "import_candidate S request validate authoring w3 = (Inr (candidate, update, document), w3')"
      and commit: "svc_commit S read (import_commit_request S request imported read current peers authoring
        candidate update) w3' = (Inr outcome, w4)"
      and rest: "(\<exists>accepted. outcome = CommitAccepted accepted
          \<and> import_report_accepted S plan request accepted False candidate update document w4 = (Inr report, w'))
        \<or> (\<exists>accepted. outcome = CommitDuplicate accepted
          \<and> import_report_accepted S plan request accepted True candidate update document w4 = (Inr report, w'))"
    using run read current none
    by (auto simp: import_attempt_def act_bind_run act_bind_Inr_iff reported_outcome split: prod.splits)
  note judged = import_judged[OF judge current checks fresh cand]
  obtain accepted where accepted: "outcome = CommitAccepted accepted"
      and report: "import_report_accepted S plan request accepted False candidate update document w4 = (Inr report, w')"
    using rest new by (auto dest: reported)
  show thesis
    by (rule that[OF read current judged(1) commit[unfolded accepted] _ report])
      (use judge judged(3) in \<open>auto dest: movesD\<close>)
qed

text \<open>
  (C2) An import that answers with a report of a new operation was judged. Its schema is the
  plan's; the peers whose operations it adds all lie in blocks this service allocated to the request's
  principal for the document; a request that is fenced by a revision named the revision it replaced;
  an incremental one named a frontier the document has and met no conflict of the fields' policies,
  and one that creates the document broke none of the writer's policies; its operation id was not
  retained; and the document the report gives is that of the imported bytes and passed the
  application's validator.
\<close>

theorem accepted_imports_are_judged:
  assumes "b64_law (svc_loro S)" and "svc_import S from_store plan request validate w = (Inr report, w')"
    and "\<not> ir_duplicate report"
  shows "\<exists>read current authoring peers candidate update.
    import_justified S plan request validate read current authoring peers candidate update (ir_materialized report)
    \<and> ir_etag report = collaboration_etag (svc_ext S) update"
proof -
  obtain imported w0 where checks: "import_checks S plan request = Inr imported"
      and run: "import_attempt S plan request ByUpdate validate imported w0 = (Inr (Some report), w')"
    using import_settled[OF assms(2)] by blast
  from run assms(3) checks show ?thesis
  proof (rule import_attempt_accepted[where R = "\<lambda>_ _. True"])
    fix read current authoring peers candidate update document accepted w1 w2 w3 w4
    assume just: "import_justified S plan request validate read current authoring peers candidate update document"
      and commit: "svc_commit S read (import_commit_request S request imported read current peers authoring
        candidate update) w3 = (Inr (CommitAccepted accepted), w4)"
      and report: "import_report_accepted S plan request accepted False candidate update document w4 = (Inr report, w')"
    have "checkpoint_update (svc_ext S) (rq_document request) (res_envelope accepted) = Inr update"
      using commit_accepted[OF commit] accepted_checkpoint[OF assms(1)]
      by (auto simp: import_commit_request_def Let_def)
    then have "ir_materialized report = document \<and> ir_etag report = collaboration_etag (svc_ext S) update"
      using report by (auto simp: import_report_accepted_def import_result_def Let_def act_bind_Inr_iff res_bind_Inr_iff)
    with just show ?thesis by blast
  qed
qed

theorem accepted_imports_are_judged_witness:
  "\<exists>report w' read current authoring peers candidate update.
     svc_import (sample_service shared_port) id sample_plan sample_creation accept_all
       (fresh_world (memory_new, [])) = (Inr report, w')
     \<and> \<not> ir_duplicate report
     \<and> import_justified (sample_service shared_port) sample_plan sample_creation accept_all
         read current authoring peers candidate update (ir_materialized report)"
proof -
  have "case svc_import (sample_service shared_port) id sample_plan sample_creation accept_all
       (fresh_world (memory_new, [])) of (Inr report, _) \<Rightarrow> \<not> ir_duplicate report | _ \<Rightarrow> False"
    by code_simp
  then obtain report w' where run: "svc_import (sample_service shared_port) id sample_plan sample_creation accept_all
       (fresh_world (memory_new, [])) = (Inr report, w')" and new: "\<not> ir_duplicate report"
    by (auto split: prod.splits sum.splits)
  have "b64_law (svc_loro (sample_service shared_port :: (shared_state, _, _) service))" using sample_b64 by simp
  from accepted_imports_are_judged[OF this run new] run new show ?thesis by blast
qed

end
