(* ===== verification/Effects.thy ===== *)
theory Effects
  imports Accepting
begin

text \<open>
  What an import does to the storage. \<open>writing source\<close> relates two worlds of a coherent store when the
  invariant is kept and what is stored changed only at one source, apart from what other writers
  did; every step of an import up to its refusal stays within it. On the in-memory port, where no
  other writer comes between, that is an exact account: no other document, no evidence and no audit
  record changes, a refusal adds exactly one record, and the first attempt settles the import.
\<close>

definition kept_step :: "string \<Rightarrow> store_view \<Rightarrow> store_view \<Rightarrow> bool" where
  "kept_step source v v' \<longleftrightarrow> (\<exists>x. v' = v\<lparr>sv_kept := (sv_kept v)(source := x)\<rparr>)"

lemma stale_outcome:
  "(case outcome of
      CommitAccepted a \<Rightarrow> act_bind (store_act (f a)) (\<lambda>r. act_return (Some r))
    | CommitDuplicate a \<Rightarrow> act_bind (store_act (g a)) (\<lambda>r. act_return (Some r))
    | CommitStale \<Rightarrow> act_return None) w = (Inr None, w') \<longleftrightarrow> outcome = CommitStale \<and> w' = w"
  by (cases outcome) (auto simp: act_bind_Inr_iff)

context coherent_store
begin

definition changes :: "string \<Rightarrow> store_view \<Rightarrow> store_view \<Rightarrow> bool" where
  "changes source = (\<lambda>v v'. drift v v' \<or> kept_step source v v')\<^sup>*\<^sup>*"

definition writing :: "string \<Rightarrow> ('s, 'd) world \<Rightarrow> ('s, 'd) world \<Rightarrow> bool" where
  "writing source w w' \<longleftrightarrow>
     (world_ok w \<longrightarrow> world_ok w' \<and> changes source (view (w_storage w)) (view (w_storage w')))"

lemma writing_pre [simp]: "reflp (writing source)" "transp (writing source)"
  unfolding writing_def changes_def by (auto intro!: reflpI transpI)

lemma changes_drift: "drift v v' \<Longrightarrow> changes source v v'"
  unfolding changes_def by (rule r_into_rtranclp) simp

lemma changes_kept: "drift v u \<Longrightarrow> v' = u\<lparr>sv_kept := (sv_kept u)(source := x)\<rparr> \<Longrightarrow> changes source v v'"
  unfolding changes_def kept_step_def
  by (rule converse_rtranclp_into_rtranclp[where b = u]) (auto intro!: r_into_rtranclp)

lemma moves_reading_writing: "moves reading m \<Longrightarrow> moves (writing source) m"
  by (simp add: moves_def reading_def writing_def changes_drift)

lemma moves_writing_swap:
  assumes "env_envelope_version e = envelope_version"
  shows "moves (writing (source_of S d)) (svc_swap S d expected e)"
  unfolding moves_def writing_def
proof (intro allI impI)
  fix w assume w: "world_ok w"
  obtain res w' where run: "svc_swap S d expected e w = (res, w')" by fastforce
  note swapped = svc_swap_ok[OF w assms run]
  have "changes (source_of S d) (view (w_storage w)) (view (w_storage w'))"
  proof (cases "\<exists>r. res = Inr (Some r)")
    case True
    then show ?thesis using swapped by (auto intro: changes_kept)
  next
    case False
    then have "res = Inr None \<or> (\<exists>x. res = Inl x)" by (metis option.exhaust sum.exhaust)
    then show ?thesis using swapped by (auto intro: changes_drift)
  qed
  with swapped run show "world_ok (snd (svc_swap S d expected e w))
      \<and> changes (source_of S d) (view (w_storage w)) (view (w_storage (snd (svc_swap S d expected e w))))"
    by simp
qed

lemmas written = moves_if moves_option moves_sum moves_pure[OF writing_pre(1)] moves_bind[OF writing_pre(2)]
  moves_map_err moves_result moves_cases

lemma moves_writing_commit: "moves (writing (source_of S (cm_document commit))) (svc_commit S current commit)"
  unfolding svc_commit_def commit_write_def Let_def
  by (intro written moves_writing_swap moves_announce[THEN moves_reading_writing] import_reads
      moves_reading_handlers[THEN moves_reading_writing] next_envelope_simps)

lemma moves_writing_attempt:
  "moves (writing (source_of S (rq_document request))) (import_attempt S plan request how validate update)"
proof -
  have commit: "moves (writing (source_of S (rq_document request)))
      (svc_commit S read (import_commit_request S request update read current peers authoring candidate accepted))"
    for read current peers authoring candidate accepted
    using moves_writing_commit[of "import_commit_request S request update read current peers authoring candidate accepted" read]
    by (simp add: import_commit_request_def Let_def)
  show ?thesis
    unfolding import_attempt_def store_act_def
    by (intro written commit moves_reading_handlers[THEN moves_reading_writing]
        moves_import_steps[THEN moves_reading_writing] moves_judge[THEN moves_reading_writing]
        moves_candidate[THEN moves_reading_writing] moves_report[THEN moves_reading_writing])
qed

lemma moves_writing_attempts:
  "moves (writing (source_of S (rq_document request))) (import_attempts S plan request how validate update first n)"
proof (induction n arbitrary: first)
  case 0
  have "moves (writing (source_of S (rq_document request)))
    (act_bind (store_act (counting (\<lambda>c. c\<lparr>ctr_commit_contention := ctr_commit_contention c + 1\<rparr>))) (\<lambda>_.
      act_fail (StoreFailure (contended_error (rq_document request)))))"
    unfolding store_act_def by (intro written moves_steps[THEN moves_reading_writing])
  then show ?case by (simp add: moves_def)
next
  case (Suc n)
  have "moves (writing (source_of S (rq_document request)))
    (act_bind (if first then act_return () else pause_before_attempt) (\<lambda>_.
      act_bind (import_attempt S plan request how validate update) (\<lambda>report.
      case report of Some r \<Rightarrow> act_return r
      | None \<Rightarrow> import_attempts S plan request how validate update False n)))"
    unfolding pause_before_attempt_def
    by (intro written moves_writing_attempt Suc moves_steps[THEN moves_reading_writing])
  then show ?case by (simp add: moves_def)
qed

lemma moves_writing_import:
  "moves (writing (source_of S (rq_document request))) (import_internal S plan request how validate)"
  unfolding import_internal_def store_act_def by (intro written moves_writing_attempts)

text \<open>
  Where nothing comes between a read and the write that follows it, the write is not stale: the
  version read is the version kept.
\<close>

lemma kept_version_of_served:
  "serves w source found \<Longrightarrow> kept_version (view (w_storage w)) source = map_option res_version found"
  by (cases found) (auto simp: serves_def kept_version_def)

lemma commit_not_stale:
  assumes "world_ok w" and "map_option res_version current = kept_version (view (w_storage w)) (source_of S (cm_document commit))"
    and "\<And>v v'. drift v v' \<Longrightarrow> v' = v"
  shows "fst (svc_commit S current commit w) \<noteq> Inr CommitStale"
proof
  assume stale: "fst (svc_commit S current commit w) = Inr CommitStale"
  then obtain w' where "svc_commit S current commit w = (Inr CommitStale, w')" by (metis prod.collapse)
  then have "commit_write S current commit w = (Inr CommitStale, w')"
    by (cases current) (auto simp: svc_commit_def act_bind_Inr_iff split: if_splits)
  then obtain minted w1 w2 where
      swap: "svc_swap S (cm_document commit) (map_option res_version current)
        (next_envelope (svc_ext S) (svc_policy S) minted (map_option res_envelope current) (cm_document commit) commit) w1
        = (Inr None, w2)"
      and draw: "w1 = w \<or> (\<exists>n. w1 = w\<lparr>w_draws := n\<rparr>)"
    by (auto simp: commit_write_def Let_def act_bind_Inr_iff new_incarnation_def draw_def
        split: option.splits if_splits)
  have "reading w w1" and "w_storage w1 = w_storage w"
    using draw by (auto intro!: quiet)
  then have w1: "world_ok w1" "view (w_storage w1) = view (w_storage w)"
    using assms(1) by (auto simp: reading_def)
  from svc_swap_ok[OF w1(1) _ swap] show False using assms(2) w1(2) by (auto dest!: assms(3))
qed

lemma attempt_not_stale:
  assumes w: "world_ok w" and still: "\<And>v v'. drift v v' \<Longrightarrow> v' = v"
  shows "fst (import_attempt S plan request how validate update w) \<noteq> Inr None"
proof
  assume "fst (import_attempt S plan request how validate update w) = Inr None"
  then obtain w' where run: "import_attempt S plan request how validate update w = (Inr None, w')"
    by (metis prod.collapse)
  then obtain read current authoring peers candidate accepted document w1 w2 w3 w4 w5 where
      read: "read_envelope S (rq_document request) w = (Inr read, w1)"
      and current: "import_current S plan request read w1 = (Inr current, w2)"
      and judge: "import_judge S plan request read current w2 = (Inr (authoring, peers), w3)"
      and cand: "import_candidate S request validate authoring w3 = (Inr (candidate, accepted, document), w4)"
      and commit: "svc_commit S read (import_commit_request S request update read current peers authoring
        candidate accepted) w4 = (Inr CommitStale, w5)"
    by (auto simp: import_attempt_def act_bind_Inr_iff stale_outcome split: option.splits if_splits prod.splits)
  let ?source = "source_of S (rq_document request)"
  have one: "world_ok w1" "serves w1 ?source read"
    using svc_resident_ok[OF w read[unfolded read_envelope_def]] by auto
  have step: "world_ok v' \<and> view (w_storage v') = view (w_storage v)" if "world_ok v" "reading v v'" for v v'
    using that still by (auto simp: reading_def)
  have two: "world_ok w2 \<and> view (w_storage w2) = view (w_storage w1)"
    using step[OF one(1)] movesD[OF moves_import_steps(5) current] by blast
  have three: "world_ok w3 \<and> view (w_storage w3) = view (w_storage w1)"
    using step[of w2 w3] two movesD[OF moves_judge judge] by auto
  have "w4 = w3" using cand by (simp add: import_candidate_Inr)
  then have "world_ok w4 \<and> map_option res_version read = kept_version (view (w_storage w4)) ?source"
    using three kept_version_of_served[OF one(2)] by simp
  then show False
    using commit_not_stale[of w4 read "import_commit_request S request update read current peers authoring candidate accepted"]
      commit still by (simp add: import_commit_request_def Let_def)
qed

end

section \<open>On the in-memory port\<close>

text \<open>What an action kept of a storage, apart from the document at one source.\<close>

definition elsewhere_kept :: "string \<Rightarrow> kept_state \<Rightarrow> kept_state \<Rightarrow> bool" where
  "elsewhere_kept source s t \<longleftrightarrow>
     ks_evidence t = ks_evidence s
     \<and> (\<forall>other. other \<noteq> source \<longrightarrow> map_of (ks_envelopes t) other = map_of (ks_envelopes s) other)"

lemma memory_changes:
  assumes "memory_store.changes source (memory_view s) (memory_view t)"
  shows "elsewhere_kept source s t \<and> ks_audit t = ks_audit s"
proof -
  have "sv_trail v' = sv_trail v \<and> sv_evidence v' = sv_evidence v
      \<and> (\<forall>other. other \<noteq> source \<longrightarrow> sv_kept v' other = sv_kept v other)"
    if "memory_store.changes source v v'" for v v'
    using that unfolding memory_store.changes_def
    by (induction rule: rtranclp_induct) (auto simp: kept_step_def)
  from this[OF assms] show ?thesis by (simp add: memory_view_def elsewhere_kept_def)
qed

lemma import_internal_memory:
  assumes serde: "serde_law (sts_ext st)"
    and served: "served (stores_service st name memory_port) from_store memory_inv w"
    and run: "import_internal (stores_service st name memory_port) plan request how validate w = (res, w')"
  shows "elsewhere_kept (memory_source (rq_document request)) (w_storage w) (w_storage w')
    \<and> ks_audit (w_storage w') = ks_audit (w_storage w)"
proof -
  note ok = memory_store.served_ok[OF _ served, simplified, OF serde]
  note moved = movesD[OF memory_store.moves_writing_import run, unfolded memory_store.writing_def,
    THEN mp, OF ok, THEN conjunct2, simplified]
  show ?thesis by (rule memory_changes[OF moved])
qed

text \<open>The record a refusal leaves.\<close>

definition refusal_record :: "import_request \<Rightarrow> audit_record \<Rightarrow> bool" where
  "refusal_record request entry \<longleftrightarrow>
     ar_actor entry = rq_actor request \<and> ar_entity entry = doc_entity (rq_document request)
     \<and> ar_resource_id entry = doc_resource_id (rq_document request)
     \<and> (\<exists>code paths sha. ar_event entry
         = Refusal (rq_operation_id request) code (rq_base_frontier_base64 request) paths sha)"

lemma memory_audit_refusal:
  assumes "audit_refusal (stores_service st name memory_port) request code paths w = (res, w')"
  shows "(\<exists>entry. res = Inr () \<and> refusal_record request entry
      \<and> w_storage w' = (w_storage w)\<lparr>ks_audit := ks_audit (w_storage w) @ [entry]\<rparr>)
    \<or> (res = Inl internal \<and> w_storage w' = w_storage w)"
proof (cases "ext_now_ms (sts_ext st) (w_draws w)")
  case None
  then show ?thesis using assms by (auto simp: audit_refusal_def audit_request_def act_bind_def draw_def)
next
  case (Some ms)
  let ?entry = "\<lparr>ar_timestamp_unix_ms = ms, ar_actor = rq_actor request,
    ar_entity = doc_entity (rq_document request), ar_resource_id = doc_resource_id (rq_document request),
    ar_event = Refusal (rq_operation_id request) code (rq_base_frontier_base64 request) paths
      (sha256_hex (sts_ext st) (rq_update_base64 request))\<rparr>"
  have "res = Inr () \<and> w_storage w' = (w_storage w)\<lparr>ks_audit := ks_audit (w_storage w) @ [?entry]\<rparr>"
    using assms Some
    by (auto simp: audit_refusal_def audit_request_def act_bind_def draw_def on_storage_def memory_port_def
        memory_append_audit_def)
  then show ?thesis by (intro disjI1 exI[of _ ?entry]) (simp add: refusal_record_def)
qed

text \<open>A refusal fails, after adding its record or for an internal reason.\<close>

definition refused_as ::
  "(store_error \<Rightarrow> 'e) \<Rightarrow> import_request \<Rightarrow> kept_state \<Rightarrow> ('e + 'a) \<Rightarrow> kept_state \<Rightarrow> bool"
where
  "refused_as from_store request s res t \<longleftrightarrow>
     (\<exists>entry err. refusal_record request entry \<and> res = Inl err \<and> t = s\<lparr>ks_audit := ks_audit s @ [entry]\<rparr>)
     \<or> (\<exists>e. err_kind e = Internal \<and> res = Inl (from_store e) \<and> t = s)"

lemma memory_audit_then_fail:
  assumes "act_bind (act_map_err from_store
      (audit_refusal (stores_service st name memory_port) request code paths)) (\<lambda>_. act_fail err) w = (res, w')"
  shows "refused_as from_store request (w_storage w) res (w_storage w')"
proof -
  obtain r2 w2 where audit: "audit_refusal (stores_service st name memory_port) request code paths w = (r2, w2)"
    by fastforce
  have kind: "err_kind internal = Internal" by (simp add: internal_def)
  from memory_audit_refusal[OF audit] show ?thesis
  proof
    assume "\<exists>entry. r2 = Inr () \<and> refusal_record request entry
      \<and> w_storage w2 = (w_storage w)\<lparr>ks_audit := ks_audit (w_storage w) @ [entry]\<rparr>"
    moreover from this have "res = Inl err" "w' = w2" using assms audit by (auto simp: act_bind_def act_map_err_def)
    ultimately show ?thesis unfolding refused_as_def by blast
  next
    assume "r2 = Inl internal \<and> w_storage w2 = w_storage w"
    moreover from this have "res = Inl (from_store internal)" "w' = w2"
      using assms audit by (auto simp: act_bind_def act_map_err_def)
    ultimately show ?thesis unfolding refused_as_def using kind by blast
  qed
qed

lemma memory_refuse:
  assumes "refuse (stores_service st name memory_port) from_store request failure w = (res, w')"
  shows "refused_as from_store request (w_storage w) res (w_storage w')"
proof (cases failure)
  case (StoreFailure e)
  then show ?thesis
    using assms memory_audit_then_fail[of from_store st name request "refusal_code (err_data e)"
        "refusal_paths (err_data e)" "from_store e" w res w']
    by (auto simp: refuse_def refused_as_def split: if_splits)
next
  case (InvalidFailure err)
  then show ?thesis using assms memory_audit_then_fail[of from_store st name request] by (simp add: refuse_def)
qed

text \<open>
  (C28) An import touches one document and accounts for its refusal. On storage no other service
  writes to, whatever an import answers, it changes no other document and no evidence; when it
  answers with a report it leaves the audit as it was; when it fails, either exactly one record is
  added, which names the request's actor, document, operation and base as refused, or the failure is an
  internal one and the audit is unchanged.
\<close>

theorem imports_audit_refusals:
  assumes "serde_law (sts_ext st)"
    and "served (stores_service st name memory_port) from_store memory_inv w"
    and "svc_import (stores_service st name memory_port) from_store plan request validate w = (res, w')"
  shows "elsewhere_kept (memory_source (rq_document request)) (w_storage w) (w_storage w')
    \<and> (case res of
         Inr _ \<Rightarrow> ks_audit (w_storage w') = ks_audit (w_storage w)
       | Inl err \<Rightarrow>
           (\<exists>entry. refusal_record request entry \<and> ks_audit (w_storage w') = ks_audit (w_storage w) @ [entry])
           \<or> (\<exists>e. err_kind e = Internal \<and> err = from_store e \<and> ks_audit (w_storage w') = ks_audit (w_storage w)))"
proof -
  let ?S = "stores_service st name memory_port"
  obtain r1 w1 where run: "import_internal ?S plan request ByUpdate validate w = (r1, w1)" by fastforce
  note kept = import_internal_memory[OF assms(1,2) run]
  show ?thesis
  proof (cases r1)
    case (Inr report)
    then have "res = Inr report \<and> w' = w1"
      using assms(3) run by (simp add: svc_import_def import_recognising_def act_catch_def)
    then show ?thesis using kept by simp
  next
    case (Inl failure)
    then have refused: "refuse ?S from_store request failure w1 = (res, w')"
      using assms(3) run by (simp add: svc_import_def import_recognising_def act_catch_def)
    from memory_refuse[OF this] kept show ?thesis
      by (auto simp: refused_as_def elsewhere_kept_def)
  qed
qed

text \<open>
  (C29) On storage no other service writes to, the first attempt settles an import: it never finds its
  write stale, so the service neither pauses nor repeats and never answers that the commit was
  contended.
\<close>

theorem unshared_imports_settle_at_once:
  assumes "serde_law (sts_ext st)"
    and "served (stores_service st name memory_port) from_store memory_inv w"
    and "import_checks (stores_service st name memory_port) plan request = Inr update"
    and "1 \<le> cp_attempts (sts_policy st)"
  shows "fst (import_attempt (stores_service st name memory_port) plan request how validate update w) \<noteq> Inr None
    \<and> import_internal (stores_service st name memory_port) plan request how validate w
      = act_bind (import_attempt (stores_service st name memory_port) plan request how validate update)
          (\<lambda>report. act_return (the report)) w"
proof -
  note ok = memory_store.served_ok[OF _ assms(2), simplified, OF assms(1)]
  let ?run = "import_attempt (stores_service st name memory_port) plan request how validate update w"
  have settled: "fst ?run \<noteq> Inr None" by (rule memory_store.attempt_not_stale[OF ok]) simp
  obtain n where n: "cp_attempts (sts_policy st) = Suc n" using assms(4) by (cases "cp_attempts (sts_policy st)") auto
  obtain res w' where run: "?run = (res, w')" by fastforce
  consider e where "res = Inl e" | report where "res = Inr (Some report)"
    using settled run by (cases res) auto
  then have "import_internal (stores_service st name memory_port) plan request how validate w
      = act_bind (import_attempt (stores_service st name memory_port) plan request how validate update)
          (\<lambda>report. act_return (the report)) w"
    by cases (use assms(3) n run in \<open>simp_all add: import_internal_def act_bind_def store_act_def act_map_err_def\<close>)
  with settled show ?thesis by blast
qed

end
