(* ===== verification/Removal.thy ===== *)
theory Removal
  imports Effects
begin

text \<open>
  Deletion, repair and concurrent commits over a storage other services share: the loop of a deletion
  ends, a repair keeps the checkpoint and leaves a valid envelope, and of two commits over one
  version at most one takes effect.
\<close>

section \<open>Deletion ends\<close>

lemma announce_constant:
  "\<exists>w'. announce_change S kind generation actor intent (act_return data) w = (Inr (), w')
     \<and> w_storage w' = w_storage w \<and> w_held w' = w_held w"
  by (auto simp: announce_change_def act_bind_def draw_def)

lemma finish_delete_total:
  "\<exists>v w'. finish_delete S actor d bs w = (Inr v, w') \<and> w_storage w' = w_storage w \<and> w_held w' = w_held w"
proof -
  let ?e = "res_ok (parse_envelope (svc_ext S) (Some d) bs)"
  let ?data = "\<lparr>cd_entity = doc_entity d, cd_resource_id = doc_resource_id d,
    cd_etag_before = map_option envelope_etag ?e, cd_etag_after = None,
    cd_frontier_before = None, cd_frontier_after = None, cd_operation_id = None\<rparr>"
  obtain w' where "announce_change S Deleted (map_option env_generation ?e) actor None (act_return ?data) w = (Inr (), w')"
      "w_storage w' = w_storage w" "w_held w' = w_held w"
    using announce_constant by blast
  then show ?thesis by (simp add: finish_delete_def Let_def act_bind_run)
qed

definition shared_next :: "shared_state \<Rightarrow> shared_state" where
  "shared_next s = (overtaken s, tl (snd s))"

lemma shared_read_run:
  "on_storage (port_read shared_port source) w
     = (Inr (map_of (ks_envelopes (overtaken (w_storage w))) source), w\<lparr>w_storage := shared_next (w_storage w)\<rparr>)"
  by (simp add: on_storage_def shared_port_def shared_act_def memory_read_def shared_next_def)

lemma shared_remove_run:
  assumes "svc_remove (stores_service st name shared_port) d version w = (res, w')"
  shows "(res = Inr True \<or> res = Inr False) \<and> snd (w_storage w') = tl (snd (w_storage w))
    \<and> (res = Inr True \<longrightarrow> map_of (ks_envelopes (fst (w_storage w'))) (memory_source d) = None)
    \<and> (snd (w_storage w) = [] \<and> memory_version (fst (w_storage w)) (memory_source d) = Some version \<longrightarrow> res = Inr True)"
  using assms
  by (auto simp: svc_remove_def act_bind_def on_storage_def shared_port_def shared_act_def overtaken_def
      memory_compare_and_remove_def memory_version_def forget_def source_of_def stores_service_def
      split: prod.splits if_splits option.splits list.splits)

text \<open>
  (C27) A deletion ends and deletes. However other services write to the storage while it runs (any
  finite schedule of their writes), the loop of \<open>delete\<close> returns without failing, and when it returns the
  storage keeps no envelope of the document.
\<close>

theorem deletion_ends:
  "\<exists>removed w'. svc_delete (stores_service st name shared_port) actor d w = Some (Inr removed, w')
     \<and> map_of (ks_envelopes (fst (w_storage w'))) (memory_source d) = None"
proof (induction "length (snd (w_storage w))" arbitrary: w rule: less_induct)
  case less
  let ?S = "stores_service st name shared_port"
  let ?w1 = "w\<lparr>w_storage := shared_next (w_storage w)\<rparr>"
  let ?kept = "map_of (ks_envelopes (overtaken (w_storage w))) (memory_source d)"
  have read: "on_storage (port_read (svc_port ?S) (source_of ?S d)) w = (Inr ?kept, ?w1)"
    by (simp add: shared_read_run)
  show ?case
  proof (cases ?kept)
    case None
    then show ?thesis using read by (subst svc_delete.simps) (simp add: shared_next_def)
  next
    case (Some stored)
    obtain res w2 where remove: "svc_remove ?S d (se_version stored) ?w1 = (res, w2)" by fastforce
    note removed = shared_remove_run[OF remove]
    show ?thesis
    proof (cases "res = Inr True")
      case True
      obtain v w3 where finish: "finish_delete ?S actor d (se_bytes stored) w2 = (Inr v, w3)"
          "w_storage w3 = w_storage w2" using finish_delete_total by blast
      have "svc_delete ?S actor d w = Some (Inr v, w3)"
        using read Some remove True finish by (subst svc_delete.simps) simp
      then show ?thesis using removed True finish by auto
    next
      case False
      then have again: "svc_delete ?S actor d w = svc_delete ?S actor d w2"
        using read Some remove removed by (subst svc_delete.simps) auto
      have "snd (w_storage w) \<noteq> []"
      proof
        assume "snd (w_storage w) = []"
        then have "res = Inr True" using removed Some by (simp add: shared_next_def overtaken_def memory_version_def)
        with False show False by simp
      qed
      then have "length (snd (w_storage w2)) < length (snd (w_storage w))"
        using removed by (cases "snd (w_storage w)") (auto simp: shared_next_def)
      from less[OF this] again show ?thesis by simp
    qed
  qed
qed

section \<open>Commits over one version\<close>

text \<open>Steps that leave the storage alone.\<close>

definition untouched :: "('s, 'd) world \<Rightarrow> ('s, 'd) world \<Rightarrow> bool" where
  "untouched w w' \<longleftrightarrow> w_storage w' = w_storage w"

lemma untouched_pre [simp]: "reflp untouched" "transp untouched"
  by (auto simp: untouched_def intro!: reflpI transpI)

lemmas untouching = moves_if moves_option moves_sum moves_pure[OF untouched_pre(1)] moves_bind[OF untouched_pre(2)]
  moves_map_err moves_result

lemma moves_untouched_steps:
  "moves untouched (draw stream)" "moves untouched (residency_get source)"
  "moves untouched (resident_replica r build)" "moves untouched (act_modify (\<lambda>w. w\<lparr>w_feed := g w\<rparr>))"
  by (simp_all add: moves_def untouched_def draw_def residency_get_def resident_replica_def split: option.splits sum.splits)

lemma moves_untouched:
  "moves untouched (new_incarnation S)"
  "moves untouched (accepted_frontier S e)"
  unfolding new_incarnation_def accepted_frontier_def svc_replica_def Let_def
  by (intro untouching moves_untouched_steps)+

lemma moves_untouched_announce:
  "moves untouched data \<Longrightarrow> moves untouched (announce_change S kind generation actor intent data)"
  unfolding announce_change_def by (intro untouching moves_untouched_steps)

text \<open>The swap a commit that was accepted made.\<close>

lemma svc_swap_port:
  assumes "svc_swap S d expected e w = (Inr (Some r), w')"
  shows "\<exists>bs v s. port_compare_and_swap (svc_port S) d expected bs (w_storage w) = (Inr (Some v), s) \<and> w_storage w' = s"
  using assms
  by (auto simp: svc_swap_def act_bind_Inr_iff on_storage_def resident_new_def hold_def Let_def
      split: option.splits prod.splits) blast+

lemma commit_accepted_swap:
  assumes "svc_commit S (Some r) commit w = (Inr (CommitAccepted a), w')"
  shows "\<exists>bs v. port_compare_and_swap (svc_port S) (cm_document commit) (Some (res_version r)) bs (w_storage w)
    = (Inr (Some v), w_storage w')"
proof -
  have "commit_write S (Some r) commit w = (Inr (CommitAccepted a), w')"
    using assms by (auto simp: svc_commit_def act_bind_Inr_iff split: if_splits)
  then obtain e w1 data where swap: "svc_swap S (cm_document commit) (Some (res_version r)) e w = (Inr (Some a), w1)"
      and announce: "announce_change S Committed (Some (env_generation e)) (cm_actor commit) (cm_intent commit)
        (act_bind (case cm_frontier_after commit of Some f \<Rightarrow> act_return (Some f) | None \<Rightarrow> accepted_frontier S e) data) w1
        = (Inr (), w')" and pure: "\<And>x. moves untouched (data x)"
    by (auto simp: commit_write_def Let_def act_bind_Inr_iff moves_def untouched_def split: if_splits option.splits)
  have "moves untouched (announce_change S Committed (Some (env_generation e)) (cm_actor commit) (cm_intent commit)
      (act_bind (case cm_frontier_after commit of Some f \<Rightarrow> act_return (Some f) | None \<Rightarrow> accepted_frontier S e) data))"
    by (intro moves_untouched_announce untouching moves_untouched pure)
  from movesD[OF this announce] have "w_storage w' = w_storage w1" by (simp add: untouched_def)
  with svc_swap_port[OF swap] show ?thesis by auto
qed

lemma foreign_retired:
  "memory_inv s \<Longrightarrow> memory_retired s source v u \<Longrightarrow>
   memory_inv (fold foreign_run writes s) \<and> memory_retired (fold foreign_run writes s) source v u"
proof (induction writes arbitrary: s)
  case (Cons f writes)
  then show ?case using foreign_run_ok[OF Cons.prems(1), of f] by (auto dest: persistsD)
qed simp

text \<open>
  (C8) No accepted commit is lost. When one service's commit over a version of a document is accepted,
  every later commit over that same version, by whatever service sharing the storage and after
  whatever writes in between, is not accepted: it is a duplicate, or it is stale and must be judged
  again on what the first one left.
\<close>

theorem no_lost_update:
  assumes "memory_inv (fst (w_storage w1))"
    and "svc_commit (stores_service st1 name1 shared_port) (Some r1) c1 w1 = (Inr (CommitAccepted a1), w1')"
    and "fst (w_storage w2) = fold foreign_run writes (fst (w_storage w1'))"
    and "cm_document c2 = cm_document c1" and "res_version r2 = res_version r1"
  shows "fst (svc_commit (stores_service st2 name2 shared_port) (Some r2) c2 w2) \<noteq> Inr (CommitAccepted a2)"
proof
  assume "fst (svc_commit (stores_service st2 name2 shared_port) (Some r2) c2 w2) = Inr (CommitAccepted a2)"
  then obtain w2' where second: "svc_commit (stores_service st2 name2 shared_port) (Some r2) c2 w2 = (Inr (CommitAccepted a2), w2')"
    by (metis prod.collapse)
  obtain bs v where swap1: "port_compare_and_swap shared_port (cm_document c1) (Some (res_version r1)) bs (w_storage w1)
      = (Inr (Some v), w_storage w1')" using commit_accepted_swap[OF assms(2)] by auto
  obtain bs' v' where swap2: "port_compare_and_swap shared_port (cm_document c1) (Some (res_version r1)) bs' (w_storage w2)
      = (Inr (Some v'), w_storage w2')" using commit_accepted_swap[OF second] assms(4,5) by auto
  have first: "memory_inv (fst (w_storage w1'))"
      "memory_retired (fst (w_storage w1')) (port_source shared_port (cm_document c1)) (res_version r1) ()"
    using shared.swap_ok[OF assms(1) swap1] by (auto simp: on_shared_def)
  from foreign_retired[OF this] assms(3)
  have inv: "memory_inv (fst (w_storage w2))"
    and retired: "on_shared memory_retired (w_storage w2) (port_source shared_port (cm_document c1)) (res_version r1) ()"
    by (simp_all add: on_shared_def)
  from shared.swap_ok[OF inv swap2] retired show False by auto
qed

section \<open>Repair\<close>

text \<open>
  (C30) A repair needs the checkpoint and nothing of the history. The envelope \<open>repair\<close> writes is valid
  exactly when the stored one names its document, a schema version and an incarnation, its checkpoint
  passes its checksum and decodes to a version whose peers are all bound, whatever state its retained
  operations and sequences are in; it accepts the same version under the same revision, incarnation and
  peers, retains no operation, and its generation is one higher.
\<close>

theorem repair_keeps_the_checkpoint:
  "(validate_envelope X d (repaired_envelope e) = Inr accepted \<longleftrightarrow>
      env_entity e = doc_entity d \<and> env_resource_id e = doc_resource_id d
      \<and> env_schema_version e \<noteq> 0 \<and> \<not> blank (env_incarnation e)
      \<and> (\<exists>update. checkpoint_update X d e = Inr update)
      \<and> version_of_update (ext_loro X) (env_checkpoint_update_base64 e) = Inr accepted
      \<and> list_all (\<lambda>peer. map_of (env_peers e) peer \<noteq> None) (map fst accepted))
   \<and> envelope_etag (repaired_envelope e) = envelope_etag e
   \<and> env_incarnation (repaired_envelope e) = env_incarnation e
   \<and> env_peers (repaired_envelope e) = env_peers e
   \<and> env_retained_operations (repaired_envelope e) = []
   \<and> env_generation (repaired_envelope e) = sat_inc (env_generation e)"
proof -
  have "validate_envelope X d (repaired_envelope e) = Inr accepted \<longleftrightarrow>
      env_entity e = doc_entity d \<and> env_resource_id e = doc_resource_id d
      \<and> env_schema_version e \<noteq> 0 \<and> \<not> blank (env_incarnation e)
      \<and> (\<exists>update. checkpoint_update X d e = Inr update)
      \<and> version_of_update (ext_loro X) (env_checkpoint_update_base64 e) = Inr accepted
      \<and> list_all (\<lambda>peer. map_of (env_peers e) peer \<noteq> None) (map fst accepted)"
    by (auto simp: validate_envelope_iff envelope_ok_def repaired_envelope_def checkpoint_update_def
        window_ok_def list_all_iff)
  then show ?thesis by (simp add: repaired_envelope_def envelope_etag_def)
qed

section \<open>The properties, on examples\<close>

definition sample_kept :: kept_state where
  "sample_kept = \<lparr>ks_next_version = 1, ks_envelopes = [(''N/1'', \<lparr>se_version = ''1'', se_bytes = []\<rparr>)],
     ks_evidence = [], ks_audit = []\<rparr>"

definition sample_resident :: resident where
  "sample_resident = \<lparr>res_id = 0, res_version = ''1'', res_envelope = sample_envelope,
     res_accepted = \<lparr>cv_incarnation = ''A'', cv_peers = [(4259840, 1)]\<rparr>\<rparr>"

definition sample_second :: "string \<Rightarrow> bytes \<Rightarrow> commit_request" where
  "sample_second operation_id update = sample_commit\<lparr>cm_operation_id := operation_id,
     cm_imported_update := update, cm_accepted_update := update, cm_frontier_after := Some []\<rparr>"

definition sample_first_commit :: "(store_error + commit_outcome) \<times> (shared_state, sample_doc) world" where
  "sample_first_commit = svc_commit (sample_service shared_port) (Some sample_resident)
     (sample_second ''q'' ''AxAy'') (fresh_world (sample_kept, []))"

theorem no_lost_update_witness:
  "(case fst sample_first_commit of Inr (CommitAccepted _) \<Rightarrow> True | _ \<Rightarrow> False)
   \<and> (\<forall>a. fst (svc_commit (sample_service shared_port) (Some sample_resident)
        (sample_second ''r'' ''AxAz'') (snd sample_first_commit)) \<noteq> Inr (CommitAccepted a))"
proof -
  have ran: "case fst sample_first_commit of Inr (CommitAccepted _) \<Rightarrow> True | _ \<Rightarrow> False" by code_simp
  then obtain a1 where "fst sample_first_commit = Inr (CommitAccepted a1)"
    by (auto split: sum.splits commit_outcome.splits)
  then have first: "svc_commit (sample_service shared_port) (Some sample_resident)
      (sample_second ''q'' ''AxAy'') (fresh_world (sample_kept, []))
      = (Inr (CommitAccepted a1), snd sample_first_commit)"
    by (simp add: sample_first_commit_def prod_eq_iff)
  have "memory_issued sample_kept ''1''"
    unfolding memory_issued_def by (rule exI[of _ 1]) (simp add: sample_kept_def dec.simps digit_def, code_simp)
  then have "memory_inv (fst (w_storage (fresh_world (sample_kept, []) :: (shared_state, sample_doc) world)))"
    by (simp add: fresh_world_def memory_inv_def sample_kept_def)
  note after = no_lost_update[OF this first, where writes = "[]"]
  have "fst (svc_commit (sample_service shared_port) (Some sample_resident)
        (sample_second ''r'' ''AxAz'') (snd sample_first_commit)) \<noteq> Inr (CommitAccepted a)" for a
    by (rule after) (simp_all add: sample_second_def)
  with ran show ?thesis by blast
qed

lemma fresh_memory_served: "served S from_store memory_inv (fresh_world memory_new)"
  by (rule served_fresh) (simp add: memory_inv_def memory_new_def)

theorem imports_audit_refusals_witness:
  "length (ks_audit (w_storage (snd (svc_import (sample_service memory_port) id sample_plan sample_change
     accept_all (fresh_world memory_new))))) = 1
   \<and> elsewhere_kept ''N/1'' memory_new (w_storage (snd (svc_import (sample_service memory_port) id sample_plan
       sample_change accept_all (fresh_world memory_new))))"
proof -
  let ?run = "svc_import (sample_service memory_port) id sample_plan sample_change accept_all (fresh_world memory_new)"
  have "length (ks_audit (w_storage (snd ?run))) = 1" by code_simp
  moreover have "memory_source (rq_document sample_change) = ''N/1''" by code_simp
  moreover have "w_storage (fresh_world memory_new :: (kept_state, sample_doc) world) = memory_new"
    by (simp add: fresh_world_def)
  ultimately show ?thesis
    using imports_audit_refusals[OF _ fresh_memory_served, of sample_stores "''notes''" id sample_plan sample_change accept_all
        "fst ?run" "snd ?run"] sample_serde by simp
qed

theorem unshared_imports_settle_at_once_witness:
  "fst (import_attempt (sample_service memory_port) sample_plan sample_creation ByUpdate accept_all ''Ax''
     (fresh_world memory_new)) \<noteq> Inr None"
proof -
  have checks: "import_checks (sample_service memory_port) sample_plan sample_creation = Inr ''Ax''" by code_simp
  have attempts: "1 \<le> cp_attempts (sts_policy (sample_stores :: (kept_state, sample_doc, string) stores))" by code_simp
  have serde: "serde_law (sts_ext (sample_stores :: (kept_state, sample_doc, string) stores))"
    using sample_serde by simp
  from unshared_imports_settle_at_once[OF serde fresh_memory_served checks attempts]
  show ?thesis by blast
qed

end
