(* ===== verification/Contributed.thy ===== *)
theory Contributed
  imports Refusing Removal
begin

text \<open>
  What the document and recovery operations of \<open>crates/clerkenwell-ops\<close> keep of the descriptions they are
  contributed with: the codes they refuse with, and the effect they have.
\<close>

section \<open>Calls\<close>

definition refusal_of :: "op_refusal + 'a \<Rightarrow> op_refusal option" where
  "refusal_of r = (case r of Inl e \<Rightarrow> Some e | Inr _ \<Rightarrow> None)"

lemma refusal_of_Some [simp]: "refusal_of r = Some e \<longleftrightarrow> r = Inl e"
  by (cases r) (simp_all add: refusal_of_def)

text \<open>
  A call of one of the operations, under the description it is contributed with: how it was refused, if it
  was, and the stores it left. It is refused by the policy that reads its scope, or by the operation. A
  reset may also never end.
\<close>

inductive op_call ::
  "('s, 'd, 'f) stores_world authoring_states \<Rightarrow> 'o ops_host \<Rightarrow> 'o \<Rightarrow> ('s, 'd, 'f) stores_world \<Rightarrow>
   op_declaration \<Rightarrow> op_refusal option \<Rightarrow> ('s, 'd, 'f) stores_world \<Rightarrow> bool"
  for A host auth w
where
  list_policy: "op_policy check list_scope auth listed = Inl e \<Longrightarrow> op_call A host auth w list_declared (Some e) w"
| get_policy: "op_policy check get_scope auth got = Inl e \<Longrightarrow> op_call A host auth w get_declared (Some e) w"
| edit_policy: "op_policy check edit_scope auth edited = Inl e \<Longrightarrow> op_call A host auth w edit_declared (Some e) w"
| edit_text_policy:
    "op_policy check edit_text_scope auth texted = Inl e \<Longrightarrow> op_call A host auth w edit_text_declared (Some e) w"
| list: "op_list A host auth listed w = (r, w') \<Longrightarrow> op_call A host auth w list_declared (refusal_of r) w'"
| get: "op_get A host auth got w = (r, w') \<Longrightarrow> op_call A host auth w get_declared (refusal_of r) w'"
| edit: "op_edit A host auth edited w = (r, w') \<Longrightarrow> op_call A host auth w edit_declared (refusal_of r) w'"
| edit_text:
    "op_edit_text A host auth texted w = (r, w') \<Longrightarrow> op_call A host auth w edit_text_declared (refusal_of r) w'"
| stores: "op_stores host auth w = (r, w') \<Longrightarrow> op_call A host auth w (recovery_declarations ! 0) (refusal_of r) w'"
| verify:
    "op_verify host auth document w = (r, w') \<Longrightarrow> op_call A host auth w (recovery_declarations ! 1) (refusal_of r) w'"
| export:
    "op_export host auth document w = (r, w') \<Longrightarrow> op_call A host auth w (recovery_declarations ! 2) (refusal_of r) w'"
| audit:
    "op_audit to_value host auth query w = (r, w') \<Longrightarrow> op_call A host auth w (recovery_declarations ! 3) (refusal_of r) w'"
| quarantine:
    "op_quarantine host auth reasoned w = (r, w') \<Longrightarrow> op_call A host auth w (recovery_declarations ! 4) (refusal_of r) w'"
| repair:
    "op_repair host auth reasoned w = (r, w') \<Longrightarrow> op_call A host auth w (recovery_declarations ! 5) (refusal_of r) w'"
| reindex:
    "op_reindex host auth store w = (r, w') \<Longrightarrow> op_call A host auth w (recovery_declarations ! 6) (refusal_of r) w'"
| reset:
    "op_reset host auth document w = Some (r, w') \<Longrightarrow> op_call A host auth w (recovery_declarations ! 7) (refusal_of r) w'"

lemmas declared_simps = declared_in_def recovery_declarations_def recovery_declared_def list_declared_def
  get_declared_def edit_declared_def edit_text_declared_def documents_declared_def Let_def

section \<open>Refusals\<close>

text \<open>
  (C14) What an operation declares, it keeps to. Where every store's port gives errors without data or with a
  declared code, and no entity's id field is named \<open>code\<close> or \<open>conflict_kind\<close>, every refusal of a
  document or recovery operation, by its policy, by the operation or by the store it calls, carries a code
  and a category its description declares, except one: an edit whose update names a peer that is not its
  principal's is refused with \<open>collaboration_peer_not_allocated\<close>, which no description declares and
  which is reported as internal.
\<close>

theorem refusals_are_declared:
  assumes "ops_ready A w" and "op_call A host auth w d (Some e) w'"
  shows "declared_in d e
    \<or> d \<in> {edit_declared, edit_text_declared}
      \<and> (or_code e, or_category e) = (''collaboration_peer_not_allocated'', CatInternal)"
proof -
  have forbidden: "declared_refusal e" if "op_policy check scope auth input = Inl e"
    for check and scope :: "'i \<Rightarrow> document_scope" and input e
    using that by (auto simp: op_policy_def map_err_Inl_iff declared_refusal_def op_forbidden_def op_refusal_new_def
        caller_refusals_def)
  show ?thesis
    using assms(2)
    by (cases rule: op_call.cases)
      (simp_all only: option.inject refusal_of_Some eq_commute[of "Some e"],
       (drule forbidden documents_refuse[OF assms(1)] recovery_refuses[OF assms(1)],
       auto simp: declared_simps edit_refused_def declared_refusal_def)+)
qed

text \<open>
  The condition on id fields is needed: the etag refusal of an entity whose id field is named \<open>code\<close>
  carries the document's id as its code, which nothing declares.
\<close>

lemma id_field_replaces_the_code:
  assumes "plan_id_field plan = ''code''" and "doc_resource_id (rq_document request) \<noteq> ''conflict''"
  shows "store_refusal_code (revision_error plan request document current_etag expected_etag)
    = doc_resource_id (rq_document request)"
  using assms by (simp add: store_refusal_code_def revision_error_def json_set_def document_data_def jobj_def
      json_index_def split: option.split)

section \<open>Effects\<close>

text \<open>What reads a port's storage leaves it as it was.\<close>

definition port_reads :: "'s port \<Rightarrow> bool" where
  "port_reads P \<longleftrightarrow>
     (\<forall>entity s. snd (port_sources P entity s) = s) \<and> (\<forall>source s. snd (port_read P source s) = s)
     \<and> (\<forall>source s. snd (port_stamp P source s) = s) \<and> (\<forall>query s. snd (port_audit P query s) = s)"

lemma moves_untouched_port:
  assumes "port_reads (svc_port S)"
  shows "moves untouched (on_storage (port_sources (svc_port S) entity))"
    "moves untouched (on_storage (port_read (svc_port S) source))"
    "moves untouched (on_storage (port_stamp (svc_port S) source))"
    "moves untouched (on_storage (port_audit (svc_port S) query))"
  using assms by (auto simp: moves_def untouched_def on_storage_def port_reads_def split: prod.splits)
    (metis snd_conv)+

lemma moves_untouched_residency:
  "moves untouched (forget source)" "moves untouched (restamp r stamp)" "moves untouched (hold source r)"
  "moves untouched (resident_new version stamp e peers)" "moves untouched (resident_materialized r built)"
  "moves untouched (offer r cell v)"
  by (simp_all add: moves_def untouched_def forget_def restamp_def hold_def resident_new_def resident_materialized_def
      offer_def Let_def split: option.splits sum.splits)

lemma moves_untouched_reads:
  assumes "port_reads (svc_port S)"
  shows "moves untouched (svc_summaries S entity)"
    "moves untouched (read_document S plan document)"
    "moves untouched (svc_verify S document)"
    "moves untouched (svc_audit S query)"
proof -
  note steps = moves_untouched_port[OF assms] moves_untouched_steps moves_untouched_residency
    moves_collect[OF untouched_pre] untouching
  have resident: "moves untouched (svc_resident S source d)" for source d
    unfolding svc_resident_def by (intro steps)
  show "moves untouched (svc_summaries S entity)"
    unfolding svc_summaries_def by (intro steps resident)
  show "moves untouched (read_document S plan document)"
    unfolding read_document_def read_envelope_def svc_materialized_def svc_replica_def
    by (intro steps resident)
  show "moves untouched (svc_verify S document)" "moves untouched (svc_audit S query)"
    unfolding svc_verify_def svc_audit_def by (intro steps)+
qed

text \<open>A step that changes the world of one store, as the relation allows.\<close>

definition confined ::
  "(('s, 'd) world \<Rightarrow> ('s, 'd) world \<Rightarrow> bool) \<Rightarrow> string \<Rightarrow> ('s, 'd, 'f) stores_world \<Rightarrow> ('s, 'd, 'f) stores_world \<Rightarrow> bool"
where
  "confined R name w w' \<longleftrightarrow> (\<exists>t. R (sw_worlds w name) t \<and> w' = w\<lparr>sw_worlds := (sw_worlds w)(name := t)\<rparr>)"

definition freely :: "('s, 'd) world \<Rightarrow> ('s, 'd) world \<Rightarrow> bool" where
  "freely w w' \<longleftrightarrow> True"

lemma freely_pre [simp]: "reflp freely" "transp freely"
  by (auto simp: freely_def intro!: reflpI transpI)

lemma confined_pre: "reflp R \<Longrightarrow> reflp (confined R name)" "transp R \<Longrightarrow> transp (confined R name)"
  by (auto simp: confined_def reflp_def transp_def) (metis fun_upd_triv stores_world.surjective stores_world.update_convs(2))+

lemma moves_confined: "moves R m \<Longrightarrow> moves (confined R (svc_source S)) (in_service S into m)"
  unfolding moves_def confined_def in_service_def at_store_def
  by (auto simp: act_map_err_def split: prod.splits)

lemma moves_freely: "moves freely m"
  by (simp add: moves_def freely_def)

lemma op_confined:
  assumes "act_bind (act_lift (call_principal host auth)) (\<lambda>actor. act_bind (in_stores f) (body actor)) w = (r, w')"
    and "\<And>x. f (sw_stores w) = Inr x \<Longrightarrow> \<forall>actor. \<exists>name. moves (confined R name) (body actor x)" and "reflp R"
  shows "(\<exists>name. confined R name w w') \<and> (oh_principal host auth = None \<longrightarrow> w' = w)"
proof (cases "oh_principal host auth")
  case None
  with assms(1) reflpD[OF confined_pre(1)[OF assms(3)]] show ?thesis by (auto simp: call_principal_def)
next
  case (Some actor)
  show ?thesis
  proof (cases "f (sw_stores w)")
    case (Inl e)
    with assms(1) Some reflpD[OF confined_pre(1)[OF assms(3)]] show ?thesis
      by (auto simp: call_principal_def in_stores_def act_bind_def)
  next
    case (Inr x)
    with assms(1) Some have "body actor x w = (r, w')" by (simp add: call_principal_def in_stores_def act_bind_def)
    with assms(2)[OF Inr] Some show ?thesis by (auto dest: movesD)
  qed
qed

lemma ready_reads:
  assumes "list_all (\<lambda>(name, S). port_reads (svc_port S)) (sts_stores stores)"
  shows "stores_store stores name = Some S \<Longrightarrow> port_reads (svc_port S)"
    and "recovery_store name stores = Inr S \<Longrightarrow> port_reads (svc_port S)"
    and "op_store A entity params stores = Inr (plan, S) \<Longrightarrow> port_reads (svc_port S)"
    and "located A entity i params stores = Inr (plan, S, document) \<Longrightarrow> port_reads (svc_port S)"
proof -
  show store: "stores_store stores name = Some S \<Longrightarrow> port_reads (svc_port S)" for name
    using assms by (auto simp: stores_store_def list_all_iff dest: map_of_SomeD)
  then show "recovery_store name stores = Inr S \<Longrightarrow> port_reads (svc_port S)" by (simp add: recovery_store_def)
  show op: "op_store A entity params stores = Inr (plan, S) \<Longrightarrow> port_reads (svc_port S)" for plan
    using store by (auto simp: op_store_def Let_def res_bind_Inr_iff bind_eq_Some_conv split: if_splits)
  then show "located A entity i params stores = Inr (plan, S, document) \<Longrightarrow> port_reads (svc_port S)"
    by (auto simp: located_def Let_def res_bind_Inr_iff split: option.splits if_splits)
qed

lemma moves_Pair: "reflp R \<Longrightarrow> moves R (Pair r)"
  by (simp add: moves_def reflpD)

lemmas confining = moves_Pair[OF confined_pre(1)] moves_pure[OF confined_pre(1)] moves_bind[OF confined_pre(2)] moves_confined moves_freely
  freely_pre untouched_pre

lemma queries_confined:
  assumes reads: "list_all (\<lambda>(name, S). port_reads (svc_port S)) (sts_stores (sw_stores w))"
  shows "op_list A host auth listed w = (r1, w') \<Longrightarrow>
      (\<exists>name. confined untouched name w w') \<and> (oh_principal host auth = None \<longrightarrow> w' = w)"
    and "op_get A host auth got w = (r2, w') \<Longrightarrow>
      (\<exists>name. confined untouched name w w') \<and> (oh_principal host auth = None \<longrightarrow> w' = w)"
    and "op_verify host auth document w = (r3, w') \<Longrightarrow>
      (\<exists>name. confined untouched name w w') \<and> (oh_principal host auth = None \<longrightarrow> w' = w)"
    and "op_audit to_value host auth query w = (r4, w') \<Longrightarrow>
      (\<exists>name. confined untouched name w w') \<and> (oh_principal host auth = None \<longrightarrow> w' = w)"
    and "op_stores host auth w = (r5, w') \<Longrightarrow>
      (\<exists>name. confined untouched name w w') \<and> (oh_principal host auth = None \<longrightarrow> w' = w)"
proof -
  note ready = ready_reads[OF reads]
  show "op_list A host auth listed w = (r1, w') \<Longrightarrow>
      (\<exists>name. confined untouched name w w') \<and> (oh_principal host auth = None \<longrightarrow> w' = w)"
    unfolding op_list_def
    by (erule op_confined) (auto intro!: exI confining moves_untouched_reads dest: ready)
  show "op_get A host auth got w = (r2, w') \<Longrightarrow>
      (\<exists>name. confined untouched name w w') \<and> (oh_principal host auth = None \<longrightarrow> w' = w)"
    unfolding op_get_def
    by (erule op_confined) (auto intro!: exI confining moves_untouched_reads dest: ready)
  show "op_verify host auth document w = (r3, w') \<Longrightarrow>
      (\<exists>name. confined untouched name w w') \<and> (oh_principal host auth = None \<longrightarrow> w' = w)"
    unfolding op_verify_def
    by (erule op_confined) (auto intro!: exI confining moves_untouched_reads dest: ready)
  show "op_audit to_value host auth query w = (r4, w') \<Longrightarrow>
      (\<exists>name. confined untouched name w w') \<and> (oh_principal host auth = None \<longrightarrow> w' = w)"
    unfolding op_audit_def
    by (erule op_confined) (auto intro!: exI confining moves_untouched_reads dest: ready)
  show "op_stores host auth w = (r5, w') \<Longrightarrow>
      (\<exists>name. confined untouched name w w') \<and> (oh_principal host auth = None \<longrightarrow> w' = w)"
    using reflpD[OF confined_pre(1)[OF untouched_pre(1)]]
    by (cases "oh_principal host auth") (auto simp: op_stores_def call_principal_def)
qed

lemma writers_confined:
  "op_edit A host auth edited w = (r1, w') \<Longrightarrow>
     (\<exists>name. confined freely name w w') \<and> (oh_principal host auth = None \<longrightarrow> w' = w)"
  "op_edit_text A host auth texted w = (r2, w') \<Longrightarrow>
     (\<exists>name. confined freely name w w') \<and> (oh_principal host auth = None \<longrightarrow> w' = w)"
  "op_export host auth document w = (r3, w') \<Longrightarrow>
     (\<exists>name. confined freely name w w') \<and> (oh_principal host auth = None \<longrightarrow> w' = w)"
  "op_quarantine host auth reasoned w = (r4, w') \<Longrightarrow>
     (\<exists>name. confined freely name w w') \<and> (oh_principal host auth = None \<longrightarrow> w' = w)"
  "op_repair host auth reasoned w = (r5, w') \<Longrightarrow>
     (\<exists>name. confined freely name w w') \<and> (oh_principal host auth = None \<longrightarrow> w' = w)"
  "op_reindex host auth store w = (r6, w') \<Longrightarrow>
     (\<exists>name. confined freely name w w') \<and> (oh_principal host auth = None \<longrightarrow> w' = w)"
  unfolding op_edit_def op_edit_text_def op_export_def op_quarantine_def op_repair_def op_reindex_def
  by (erule op_confined; force intro!: exI confining)+

lemma reset_confined:
  assumes "op_reset host auth document w = Some (r, w')"
  shows "(\<exists>name. confined freely name w w') \<and> (oh_principal host auth = None \<longrightarrow> w' = w)"
proof -
  have refl: "confined freely name w w" for name
    using reflpD[OF confined_pre(1)[OF freely_pre(1)]] by blast
  show ?thesis
    using assms refl
    by (cases "oh_principal host auth"; cases "recovery_store (sdo_store document) (sw_stores w)")
      (auto simp: op_reset_def call_principal_def confined_def freely_def)
qed

text \<open>
  (C15) An operation has the effect it declares. Where reading a port leaves its storage as it was, a call
  of a document or recovery operation, refused or not, changes no more than the world of one store, and registers and
  forgets none; a call declared a query leaves what every store keeps as it was; and a call whose grant maps to no
  principal changes nothing at all.
\<close>

theorem operations_keep_to_their_effect:
  assumes "list_all (\<lambda>(name, S). port_reads (svc_port S)) (sts_stores (sw_stores w))"
    and "op_call A host auth w d r w'"
  shows "sw_stores w' = sw_stores w
    \<and> (\<exists>store. \<forall>name. name \<noteq> store \<longrightarrow> sw_worlds w' name = sw_worlds w name)
    \<and> (dcl_effect d = QueryEffect \<longrightarrow> (\<forall>name. w_storage (sw_worlds w' name) = w_storage (sw_worlds w name)))
    \<and> (oh_principal host auth = None \<longrightarrow> w' = w)"
proof -
  have "(\<exists>name. confined (if dcl_effect d = QueryEffect then untouched else freely) name w w')
      \<and> (oh_principal host auth = None \<longrightarrow> w' = w)"
    using assms(2)
  proof (cases rule: op_call.cases)
  qed (auto simp: declared_simps reflpD[OF confined_pre(1)]
      dest: queries_confined[OF assms(1)] writers_confined reset_confined)
  then show ?thesis
    by (auto simp: confined_def untouched_def split: if_splits)
qed

section \<open>Examples\<close>

definition notes_ops :: "string ops_host" where
  "notes_ops =
     \<lparr>oh_principal = (\<lambda>grant. if grant = ''a'' then Some sample_actor else None),
      oh_validate = (\<lambda>entity v. Inr ())\<rparr>"

definition notes_opened :: "(kept_state, sample_doc, string) stores_world" where
  "notes_opened =
     \<lparr>sw_stores = snd (stores_register ''notes'' memory_port sample_stores),
      sw_worlds = (\<lambda>_. fresh_world memory_new)\<rparr>"

definition notes_entities :: "(kept_state, sample_doc, string) stores_world authoring_states" where
  "notes_entities = authoring_states_new [sample_plan] (\<lambda>entity params. Some ''notes'')"

definition absent_note :: get_input where
  "absent_note = \<lparr>gi_entity = ''N'', gi_id = ''1'', gi_store = []\<rparr>"

lemma memory_port_promises: "port_declared memory_port" "port_reads memory_port"
  by (auto simp: plain_errors_declared memory_port_def port_declared_def port_reads_def refuses_def memory_sources_def memory_read_def
      memory_stamp_def memory_compare_and_swap_def memory_compare_and_remove_def memory_preserve_def
      memory_append_audit_def memory_audit_def memory_discard_audit_before_def Let_def split: if_splits)

lemma notes_opened_stores:
  "sts_stores (sw_stores notes_opened) = [(''notes'', sample_service memory_port)]"
  by (simp add: notes_opened_def stores_register_def sample_stores_def stores_new_def Let_def)

lemma notes_opened_ready:
  "ops_ready notes_entities notes_opened"
  "list_all (\<lambda>(name, S). port_reads (svc_port S)) (sts_stores (sw_stores notes_opened))"
  by (simp_all add: ops_ready_def notes_opened_stores notes_entities_def authoring_states_new_def id_field_apart_def
      sample_plan_def memory_port_promises)

lemma absent_note_refused:
  "op_get notes_entities notes_ops ''a'' absent_note notes_opened = (Inl (absent sample_document), notes_opened)"
proof -
  have "located notes_entities ''N'' ''1'' [] (sw_stores notes_opened)
      = Inr (sample_plan, sample_service memory_port, sample_document)"
    by (simp add: located_def op_store_def au_entity_def notes_entities_def authoring_states_new_def stores_store_def
        notes_opened_stores sample_plan_def sample_document_def document_id_new_def bset_of_def Let_def)
  moreover have "read_document (sample_service memory_port) sample_plan sample_document (fresh_world memory_new)
      = (Inr None, fresh_world memory_new)"
    by (simp add: read_document_def read_envelope_def svc_resident_def residency_get_def fresh_world_def forget_def
        act_bind_def on_storage_def memory_port_def memory_stamp_def memory_version_def memory_read_def memory_new_def
        stores_service_def)
  moreover have "notes_opened\<lparr>sw_worlds := (sw_worlds notes_opened)(n := fresh_world memory_new)\<rparr> = notes_opened" for n
    by (simp add: notes_opened_def fun_upd_idem)
  ultimately show ?thesis
    by (simp add: op_get_def notes_ops_def absent_note_def call_principal_def in_stores_def in_service_def at_store_def
        act_bind_def act_map_err_def notes_opened_def)
qed

theorem refusals_are_declared_witness:
  "(or_code (absent sample_document), or_category (absent sample_document)) \<in> set (store_refusals @ caller_refusals)"
proof -
  have "op_call notes_entities notes_ops ''a'' notes_opened get_declared (Some (absent sample_document)) notes_opened"
    using op_call.get[OF absent_note_refused] by (simp add: refusal_of_def)
  from refusals_are_declared[OF notes_opened_ready(1) this] show ?thesis
    by (simp add: declared_simps)
qed

theorem operations_keep_to_their_effect_witness:
  "w_storage (sw_worlds (snd (op_get notes_entities notes_ops ''b'' absent_note notes_opened)) ''notes'') = memory_new"
proof -
  let ?run = "op_get notes_entities notes_ops ''b'' absent_note notes_opened"
  have "op_call notes_entities notes_ops ''b'' notes_opened get_declared (refusal_of (fst ?run)) (snd ?run)"
    by (rule op_call.get[where got = absent_note]) simp
  from operations_keep_to_their_effect[OF notes_opened_ready(2) this] show ?thesis
    by (simp add: declared_simps notes_opened_def fresh_world_def)
qed

end
