(* ===== verification/Ecma.thy ===== *)
theory Ecma
  imports Json "HOL-Library.Extended_Nat"
begin

text \<open>
  \<open>crates/clerkenwell-codegen/src/json.rs\<close>: the JSON values the generator reads and writes, with ECMAScript's
  order of an object's keys and its \<open>JSON.stringify\<close>.

  A number is a finite double, the rational it denotes: parsing gives no other, and negative zero is
  written and compared as zero. The digits and the exponent of \<open>format!("{:e}")\<close> are an argument, \<open>sci\<close>, of what
  writes a number. A string is its characters, of which those up to U+00FF are modelled.
\<close>

datatype ejson =
    ENull
  | EBool bool
  | ENumber rat
  | EString string
  | EArray "ejson list"
  | EObject "(string \<times> ejson) list"

type_synonym eobject = "(string \<times> ejson) list"

section \<open>Characters\<close>

definition is_digit :: "char \<Rightarrow> bool" where
  "is_digit c \<longleftrightarrow> CHR ''0'' \<le> c \<and> c \<le> CHR ''9''"

definition is_lower :: "char \<Rightarrow> bool" where
  "is_lower c \<longleftrightarrow> CHR ''a'' \<le> c \<and> c \<le> CHR ''z''"

definition is_upper :: "char \<Rightarrow> bool" where
  "is_upper c \<longleftrightarrow> CHR ''A'' \<le> c \<and> c \<le> CHR ''Z''"

definition is_alphanumeric :: "char \<Rightarrow> bool" where
  "is_alphanumeric c \<longleftrightarrow> is_digit c \<or> is_lower c \<or> is_upper c"

definition to_upper :: "char \<Rightarrow> char" where
  "to_upper c = (if is_lower c then char_of (of_char c - 32 :: nat) else c)"

definition to_lower :: "char \<Rightarrow> char" where
  "to_lower c = (if is_upper c then char_of (of_char c + 32 :: nat) else c)"

section \<open>Objects\<close>

definition array_index :: "string \<Rightarrow> nat option" where
  "array_index key =
     (if \<not> (key = ''0'' \<or> key \<noteq> [] \<and> hd key \<noteq> CHR ''0'') \<or> \<not> list_all is_digit key then None
      else if undec key < 4294967295 then Some (undec key) else None)"

definition index_before :: "nat \<Rightarrow> string \<Rightarrow> bool" where
  "index_before index key = (case array_index key of None \<Rightarrow> False | Some other \<Rightarrow> other < index)"

text \<open>\<open>Object::insert\<close>: an existing key keeps its place, an index takes its own, any other goes last.\<close>

definition obj_insert :: "string \<Rightarrow> ejson \<Rightarrow> eobject \<Rightarrow> eobject" where
  "obj_insert key v entries =
     (if key \<in> fst ` set entries then map (\<lambda>(k, w). (k, if k = key then v else w)) entries
      else case array_index key of
        Some index \<Rightarrow>
          takeWhile (\<lambda>(k, _). index_before index k) entries @ (key, v)
            # dropWhile (\<lambda>(k, _). index_before index k) entries
      | None \<Rightarrow> entries @ [(key, v)])"

definition obj_insert_some :: "string \<Rightarrow> ejson option \<Rightarrow> eobject \<Rightarrow> eobject" where
  "obj_insert_some key v entries = (case v of None \<Rightarrow> entries | Some w \<Rightarrow> obj_insert key w entries)"

definition obj_spread :: "eobject \<Rightarrow> eobject \<Rightarrow> eobject" where
  "obj_spread entries other = foldl (\<lambda>m (k, v). obj_insert k v m) entries other"

definition obj_of :: "(string \<times> ejson) list \<Rightarrow> eobject" where
  "obj_of members = obj_spread [] members"

fun e_object :: "ejson \<Rightarrow> eobject option" where
  "e_object (EObject m) = Some m"
| "e_object _ = None"

fun e_array :: "ejson \<Rightarrow> ejson list option" where
  "e_array (EArray xs) = Some xs"
| "e_array _ = None"

fun e_str :: "ejson \<Rightarrow> string option" where
  "e_str (EString s) = Some s"
| "e_str _ = None"

fun e_f64 :: "ejson \<Rightarrow> rat option" where
  "e_f64 (ENumber n) = Some n"
| "e_f64 _ = None"

fun e_bool :: "ejson \<Rightarrow> bool option" where
  "e_bool (EBool b) = Some b"
| "e_bool _ = None"

definition e_get :: "ejson \<Rightarrow> string \<Rightarrow> ejson option" where
  "e_get v key = Option.bind (e_object v) (\<lambda>m. map_of m key)"

text \<open>Equality, which ignores the order of an object's members.\<close>

lemma size_ejson_member: "(k, v) \<in> set m \<Longrightarrow> size v < size (EObject m)"
  by (induction m) (auto simp: less_Suc_eq_le intro: le_SucI)

fun ejson_same :: "ejson \<Rightarrow> ejson \<Rightarrow> bool" where
  "ejson_same ENull b = (b = ENull)"
| "ejson_same (EBool x) b = (b = EBool x)"
| "ejson_same (ENumber x) b = (b = ENumber x)"
| "ejson_same (EString x) b = (b = EString x)"
| "ejson_same (EArray xs) b = (case b of EArray ys \<Rightarrow> list_all2 ejson_same xs ys | _ \<Rightarrow> False)"
| "ejson_same (EObject m) b =
     (case b of
        EObject n \<Rightarrow> length m = length n
          \<and> list_all (\<lambda>(k, v). case map_of n k of None \<Rightarrow> False | Some w \<Rightarrow> ejson_same v w) m
      | _ \<Rightarrow> False)"

section \<open>Writing\<close>

definition escaped :: "char \<Rightarrow> string" where
  "escaped c =
     (if c = CHR 0x22 then [CHR 0x5C, CHR 0x22]
      else if c = CHR 0x5C then [CHR 0x5C, CHR 0x5C]
      else if c = CHR 0x08 then [CHR 0x5C, CHR ''b'']
      else if c = CHR 0x0C then [CHR 0x5C, CHR ''f'']
      else if c = CHR 0x0A then [CHR 0x5C, CHR ''n'']
      else if c = CHR 0x0D then [CHR 0x5C, CHR ''r'']
      else if c = CHR 0x09 then [CHR 0x5C, CHR ''t'']
      else if (of_char c :: nat) < 32
      then [CHR 0x5C, CHR ''u'', CHR ''0'', CHR ''0'', hex_digit (of_char c div 16), hex_digit (of_char c mod 16)]
      else [c])"

definition write_string :: "string \<Rightarrow> string" where
  "write_string text = [CHR 0x22] @ concat (map escaped text) @ [CHR 0x22]"

text \<open>\<open>string_literal\<close>.\<close>

definition string_literal :: "string \<Rightarrow> string" where
  "string_literal text = write_string text"

type_synonym exponential = "rat \<Rightarrow> string \<times> int"

text \<open>
  \<open>number_to_string\<close>: the shortest digits that read back, from \<open>sci\<close>, with the point where
  \<open>Number::toString\<close> places it.
\<close>

definition number_body :: "string \<Rightarrow> int \<Rightarrow> string" where
  "number_body digits exponent =
     (let k = int (length digits); n = exponent + 1 in
      if k \<le> n \<and> n \<le> 21 then digits @ replicate (nat (n - k)) (CHR ''0'')
      else if 0 < n \<and> n \<le> 21 then take (nat n) digits @ ''.'' @ drop (nat n) digits
      else if -6 < n \<and> n \<le> 0 then ''0.'' @ replicate (nat (- n)) (CHR ''0'') @ digits
      else
        let e = n - 1; sign = (if e \<ge> 0 then ''+'' else ''-'') in
        if k = 1 then digits @ ''e'' @ sign @ dec (nat \<bar>e\<bar>)
        else take 1 digits @ ''.'' @ drop 1 digits @ ''e'' @ sign @ dec (nat \<bar>e\<bar>))"

definition number_to_string :: "exponential \<Rightarrow> rat \<Rightarrow> string" where
  "number_to_string sci v =
     (if v = 0 then ''0''
      else (if v < 0 then ''-'' else []) @ (case sci \<bar>v\<bar> of (digits, exponent) \<Rightarrow> number_body digits exponent))"

text \<open>\<open>write_container\<close>, of members that are written already.\<close>

definition write_container :: "string \<Rightarrow> string \<Rightarrow> string option \<Rightarrow> string \<Rightarrow> string list \<Rightarrow> string" where
  "write_container opening closing gap indent members =
     (case gap of
        Some g \<Rightarrow>
          opening @ join '','' (map (\<lambda>m. [CHR 0x0A] @ indent @ g @ m) members)
            @ [CHR 0x0A] @ indent @ closing
      | None \<Rightarrow> opening @ join '','' members @ closing)"

definition inner_indent :: "string option \<Rightarrow> string \<Rightarrow> string" where
  "inner_indent gap indent = (case gap of Some g \<Rightarrow> indent @ g | None \<Rightarrow> indent)"

fun write_value :: "exponential \<Rightarrow> string option \<Rightarrow> string \<Rightarrow> ejson \<Rightarrow> string" where
  "write_value sci gap indent ENull = ''null''"
| "write_value sci gap indent (EBool b) = (if b then ''true'' else ''false'')"
| "write_value sci gap indent (ENumber n) = number_to_string sci n"
| "write_value sci gap indent (EString s) = write_string s"
| "write_value sci gap indent (EArray xs) =
     (if xs = [] then ''[]''
      else write_container ''['' '']'' gap indent (map (write_value sci gap (inner_indent gap indent)) xs))"
| "write_value sci gap indent (EObject m) =
     (if m = [] then ''{}''
      else write_container ''{'' ''}'' gap indent
        (map (\<lambda>(k, v). write_string k @ '':'' @ (if gap = None then [] else '' '')
          @ write_value sci gap (inner_indent gap indent) v) m))"

definition stringify :: "exponential \<Rightarrow> ejson \<Rightarrow> string" where
  "stringify sci v = write_value sci None [] v"

definition stringify_pretty :: "exponential \<Rightarrow> ejson \<Rightarrow> string" where
  "stringify_pretty sci v = write_value sci (Some ''  '') [] v"

text \<open>\<open>to_serde\<close>: an integral number within 53 bits is an integer.\<close>

definition serde_number :: "rat \<Rightarrow> json_number" where
  "serde_number v =
     (if of_int \<lfloor>v\<rfloor> = v \<and> \<bar>v\<bar> < 9007199254740992
      then if v < 0 then NegInt \<lfloor>v\<rfloor> else PosInt (nat \<lfloor>v\<rfloor>)
      else Float v)"

fun to_serde :: "ejson \<Rightarrow> json" where
  "to_serde ENull = JNull"
| "to_serde (EBool b) = JBool b"
| "to_serde (ENumber n) = JNumber (serde_number n)"
| "to_serde (EString s) = JString s"
| "to_serde (EArray xs) = JArray (map to_serde xs)"
| "to_serde (EObject m) = jobj (map (\<lambda>(k, v). (k, to_serde v)) m)"


section \<open>The order of an object's keys\<close>

lemma map_of_obj_insert: "map_of (obj_insert key v m) = (map_of m)(key \<mapsto> v)"
proof (cases "key \<in> fst ` set m")
  case True
  have "map_of (map (\<lambda>(k, w). (k, if k = key then v else w)) m) k
      = (if k = key then map_option (\<lambda>_. v) (map_of m key) else map_of m k)" for k
    by (induction m) auto
  moreover from True obtain w where "map_of m key = Some w" by (metis map_of_eq_None_iff option.exhaust)
  ultimately show ?thesis using True by (simp add: obj_insert_def fun_eq_iff)
next
  case False
  have placed: "map_of (takeWhile P m @ (key, v) # dropWhile P m) = (map_of m)(key \<mapsto> v)" for P
    using False by (induction m) (auto simp: fun_eq_iff image_iff)
  show ?thesis
  proof (cases "array_index key")
    case None
    have "takeWhile (\<lambda>_. True) m = m" "dropWhile (\<lambda>_. True) m = []" by (induction m) auto
    with placed[of "\<lambda>_. True"] None False show ?thesis by (simp add: obj_insert_def)
  next
    case (Some i)
    with placed False show ?thesis by (simp add: obj_insert_def del: map_of_append)
  qed
qed

lemma keys_obj_insert: "fst ` set (obj_insert key v m) = insert key (fst ` set m)"
  by (simp flip: dom_map_of_conv_image_fst add: map_of_obj_insert)

text \<open>
  ECMAScript's order of own keys: the array indices ascending, then the other keys, in the order they were
  first inserted, as an \<open>IndexSet\<close> keeps them.
\<close>

definition key_rank :: "string \<Rightarrow> enat" where
  "key_rank key = (case array_index key of None \<Rightarrow> \<infinity> | Some index \<Rightarrow> enat index)"

definition index_set :: "'a list \<Rightarrow> 'a list" where
  "index_set xs = rev (remdups (rev xs))"

lemma index_set_snoc: "index_set (xs @ [x]) = (if x \<in> set xs then index_set xs else index_set xs @ [x])"
  by (simp add: index_set_def)

lemma set_index_set [simp]: "set (index_set xs) = set xs"
  by (simp add: index_set_def)

lemma distinct_index_set [simp]: "distinct (index_set xs)"
  by (simp add: index_set_def)

definition keys_ordered :: "string list \<Rightarrow> bool" where
  "keys_ordered ks \<longleftrightarrow> distinct ks \<and> sorted (map key_rank ks)"

abbreviation named_keys :: "string list \<Rightarrow> string list" where
  "named_keys ks \<equiv> filter (\<lambda>k. array_index k = None) ks"

lemma fst_replaced: "map fst (map (\<lambda>(k, w). (k, if k = key then v else w)) m) = map fst m"
  by (induction m) auto

lemma fst_takeWhile: "map fst (takeWhile (\<lambda>(k, _). P k) m) = takeWhile P (map fst m)"
  and fst_dropWhile: "map fst (dropWhile (\<lambda>(k, _). P k) m) = dropWhile P (map fst m)"
  by (induction m) auto

lemma keys_of_insert:
  "map fst (obj_insert key v m) =
     (if key \<in> set (map fst m) then map fst m
      else case array_index key of
        None \<Rightarrow> map fst m @ [key]
      | Some i \<Rightarrow> takeWhile (index_before i) (map fst m) @ key # dropWhile (index_before i) (map fst m))"
  by (auto simp: obj_insert_def fst_takeWhile fst_dropWhile fst_replaced simp del: map_map map_eq_conv split: option.split)

lemma index_before_rank: "index_before i k \<longleftrightarrow> key_rank k < enat i"
  by (simp add: index_before_def key_rank_def split: option.split)

lemma keys_ordered_Cons:
  "keys_ordered (k # ks) \<longleftrightarrow> k \<notin> set ks \<and> (\<forall>x\<in>set ks. key_rank k \<le> key_rank x) \<and> keys_ordered ks"
  by (auto simp: keys_ordered_def)

lemma set_placed: "set (takeWhile P xs @ x # dropWhile P xs) = insert x (set xs)"
  by (metis Un_insert_right list.simps(15) set_append takeWhile_dropWhile_id)

lemma keys_ordered_placed:
  assumes "array_index key = Some i"
  shows "keys_ordered ks \<Longrightarrow> key \<notin> set ks \<Longrightarrow> keys_ordered (takeWhile (index_before i) ks @ key # dropWhile (index_before i) ks)"
proof (induction ks)
  case Nil
  show ?case by (simp add: keys_ordered_def)
next
  case (Cons k ks)
  have rank: "key_rank key = enat i" using assms by (simp add: key_rank_def)
  show ?case
  proof (cases "index_before i k")
    case True
    then have "takeWhile (index_before i) (k # ks) @ key # dropWhile (index_before i) (k # ks)
        = k # takeWhile (index_before i) ks @ key # dropWhile (index_before i) ks" by simp
    with True[unfolded index_before_rank] Cons rank show ?thesis
      by (simp only: keys_ordered_Cons set_placed) auto
  next
    case False
    with Cons rank show ?thesis by (fastforce simp: keys_ordered_Cons index_before_rank)
  qed
qed

lemma keys_ordered_insert: "keys_ordered (map fst m) \<Longrightarrow> keys_ordered (map fst (obj_insert key v m))"
  unfolding keys_of_insert
  by (auto simp: keys_ordered_placed simp del: set_map split: option.split)
    (auto simp: keys_ordered_def sorted_append key_rank_def)


lemma named_keys_insert:
  "named_keys (map fst (obj_insert key v m)) =
     (if array_index key = None \<and> key \<notin> set (map fst m) then named_keys (map fst m) @ [key] else named_keys (map fst m))"
proof -
  have "named_keys (takeWhile P ks) @ named_keys (dropWhile P ks) = named_keys ks" for P ks
    by (simp flip: filter_append)
  then show ?thesis unfolding keys_of_insert by (auto split: option.split)
qed

lemma obj_of_snoc: "obj_of (members @ [(k, v)]) = obj_insert k v (obj_of members)"
  by (simp add: obj_of_def obj_spread_def)

lemma set_keys_obj_of: "set (map fst (obj_of members)) = set (map fst members)"
proof (induction members rule: rev_induct)
  case Nil
  show ?case by (simp add: obj_of_def obj_spread_def)
next
  case (snoc x xs)
  then show ?case by (cases x) (simp add: obj_of_snoc keys_obj_insert)
qed

text \<open>
  (C26) An object that members are inserted into one after another, as \<open>Object::insert\<close> inserts them, holds the
  last value of each key, and its keys once each in ECMAScript's order: the array indices ascending, then every other
  key where it was first inserted.
\<close>

theorem object_keys:
  "map_of (obj_of members) = map_of (rev members) \<and> keys_ordered (map fst (obj_of members))
     \<and> named_keys (map fst (obj_of members)) = index_set (named_keys (map fst members))"
proof (induction members rule: rev_induct)
  case Nil
  show ?case by (simp add: obj_of_def obj_spread_def keys_ordered_def index_set_def)
next
  case (snoc x xs)
  obtain k v where x: "x = (k, v)" by fastforce
  have "k \<in> set (named_keys (map fst xs)) \<longleftrightarrow> array_index k = None \<and> k \<in> set (map fst xs)" by auto
  with snoc show ?case
    unfolding x obj_of_snoc
    by (simp del: set_map set_filter add: map_of_obj_insert keys_ordered_insert named_keys_insert set_keys_obj_of index_set_snoc)
qed

end
