(* ===== verification/Names.thy ===== *)
theory Names
  imports Ecma
begin

text \<open>
  \<open>crates/clerkenwell-codegen/src/names.rs\<close>: how the names of a definition become Rust and TypeScript names.
\<close>

section \<open>Spelling\<close>

text \<open>\<open>words\<close>: the word being read, then the characters left.\<close>

fun words_from :: "string \<Rightarrow> string \<Rightarrow> string list" where
  "words_from current [] = (if current = [] then [] else [current])"
| "words_from current (c # cs) =
     (if \<not> is_alphanumeric c then
        if current = [] then words_from [] cs else current # words_from [] cs
      else
        let current' = current @ [c];
            camel_boundary = ((is_lower c \<or> is_digit c) \<and> (case cs of [] \<Rightarrow> False | d # _ \<Rightarrow> is_upper d)) in
        if camel_boundary then current' # words_from [] cs else words_from current' cs)"

definition words :: "string \<Rightarrow> string list" where
  "words v = words_from [] v"

fun capitalised :: "string \<Rightarrow> string" where
  "capitalised [] = []"
| "capitalised (c # cs) = to_upper c # cs"

definition starts_with_digit :: "string \<Rightarrow> bool" where
  "starts_with_digit s \<longleftrightarrow> s \<noteq> [] \<and> is_digit (hd s)"

definition pascal_identifier :: "string \<Rightarrow> string" where
  "pascal_identifier v =
     (let joined = concat (map capitalised (words v));
          candidate = (if joined = [] then ''Value'' else joined) in
      if starts_with_digit candidate then ''Value'' @ candidate else candidate)"

definition kebab_identifier :: "string \<Rightarrow> string" where
  "kebab_identifier v =
     (let joined = map to_lower (join ''-'' (words v)) in if joined = [] then ''value'' else joined)"

definition constant_name :: "string \<Rightarrow> string" where
  "constant_name v =
     (if words v = [] then ''VALUE'' else join ''_'' (map (map to_upper) (words v)))"

definition name_constant_identifier :: "string \<Rightarrow> string \<Rightarrow> string" where
  "name_constant_identifier v ending = constant_name v @ ''_'' @ ending"

definition schema_constant_identifier :: "string \<Rightarrow> string \<Rightarrow> string \<Rightarrow> string" where
  "schema_constant_identifier v kind role = name_constant_identifier v (kind @ ''_'' @ role @ ''_SCHEMA'')"

definition rust_keywords :: "string list" where
  "rust_keywords =
     [''as'', ''break'', ''const'', ''continue'', ''crate'', ''else'', ''enum'', ''extern'', ''false'', ''fn'', ''for'',
      ''if'', ''impl'', ''in'', ''let'', ''loop'', ''match'', ''mod'', ''move'', ''mut'', ''pub'', ''ref'', ''return'',
      ''self'', ''Self'', ''static'', ''struct'', ''super'', ''trait'', ''true'', ''type'', ''unsafe'', ''use'', ''where'',
      ''while'']"

definition rust_field_identifier :: "string \<Rightarrow> string" where
  "rust_field_identifier v =
     (let joined = join ''_'' (map (map to_lower) (words v));
          candidate = (if joined = [] then ''value'' else joined);
          prefixed = (if starts_with_digit candidate then ''value_'' @ candidate else candidate) in
      if prefixed \<in> set rust_keywords then ''r#'' @ prefixed else prefixed)"

definition rust_property_enum_name :: "string \<Rightarrow> string \<Rightarrow> string" where
  "rust_property_enum_name definition_name property_name =
     pascal_identifier definition_name @ pascal_identifier property_name"

definition rust_record_constraints_name :: "string \<Rightarrow> string" where
  "rust_record_constraints_name definition_name = pascal_identifier definition_name @ ''Constraints''"

text \<open>\<open>is_js_whitespace\<close> and \<open>js_trim\<close>, of the characters up to U+00FF.\<close>

definition is_js_whitespace :: "char \<Rightarrow> bool" where
  "is_js_whitespace c \<longleftrightarrow> c \<in> {CHR 0x09, CHR 0x0A, CHR 0x0B, CHR 0x0C, CHR 0x0D, CHR 0x20, CHR 0xA0}"

definition js_trim :: "string \<Rightarrow> string" where
  "js_trim v = rev (dropWhile is_js_whitespace (rev (dropWhile is_js_whitespace v)))"

section \<open>What is spelt\<close>

lemma words_from_ok:
  "list_all is_alphanumeric current \<Longrightarrow> w \<in> set (words_from current v) \<Longrightarrow> w \<noteq> [] \<and> list_all is_alphanumeric w"
proof (induction current v rule: words_from.induct)
  case (2 current c cs)
  then show ?case by (auto simp: Let_def split: if_splits)
qed (auto split: if_splits)

lemma words_ok: "w \<in> set (words v) \<Longrightarrow> w \<noteq> [] \<and> list_all is_alphanumeric w"
  unfolding words_def by (rule words_from_ok[of "[]"]) simp_all

text \<open>Splitting loses no letter and no digit.\<close>

lemma concat_words_from:
  "list_all is_alphanumeric current \<Longrightarrow> concat (words_from current v) = current @ filter is_alphanumeric v"
  by (induction current v rule: words_from.induct) (auto simp: Let_def)

lemma concat_words: "concat (words v) = filter is_alphanumeric v"
  unfolding words_def by (simp add: concat_words_from)

lemma words_empty_iff: "words v = [] \<longleftrightarrow> list_all (\<lambda>c. \<not> is_alphanumeric c) v"
proof -
  have "words v = [] \<longleftrightarrow> concat (words v) = []" using words_ok[of _ v] by (cases "words v") auto
  then show ?thesis by (simp add: concat_words filter_empty_conv list_all_iff)
qed

lemma to_upper_ok: "is_alphanumeric c \<Longrightarrow> is_digit (to_upper c) \<or> is_upper (to_upper c)"
  and to_lower_ok: "is_alphanumeric c \<Longrightarrow> is_digit (to_lower c) \<or> is_lower (to_lower c)"
proof -
  have "(of_char (char_of (of_char c - 32 :: nat)) :: nat) = of_char c - 32"
    by (simp add: less_imp_diff_less)
  then show "is_alphanumeric c \<Longrightarrow> is_digit (to_upper c) \<or> is_upper (to_upper c)"
    by (auto simp: to_upper_def is_alphanumeric_def is_digit_def is_lower_def is_upper_def less_eq_char_def)
  have "(of_char c :: nat) \<le> 90 \<Longrightarrow> (of_char (char_of (of_char c + 32 :: nat)) :: nat) = of_char c + 32" by simp
  then show "is_alphanumeric c \<Longrightarrow> is_digit (to_lower c) \<or> is_lower (to_lower c)"
    by (auto simp: to_lower_def is_alphanumeric_def is_digit_def is_lower_def is_upper_def less_eq_char_def)
qed

lemma alphanumeric_cases:
  "is_digit c \<Longrightarrow> is_alphanumeric c" "is_lower c \<Longrightarrow> is_alphanumeric c" "is_upper c \<Longrightarrow> is_alphanumeric c"
  by (simp_all add: is_alphanumeric_def)

lemma capitalised_ok: "list_all is_alphanumeric w \<Longrightarrow> list_all is_alphanumeric (capitalised w)"
  using to_upper_ok alphanumeric_cases by (cases w) auto

lemma capitalised_hd: "w \<noteq> [] \<Longrightarrow> list_all is_alphanumeric w \<Longrightarrow> is_digit (hd (capitalised w)) \<or> is_upper (hd (capitalised w))"
  using to_upper_ok by (cases w) auto

lemma set_join: "set (join sep ws) \<subseteq> set sep \<union> \<Union> (set ` set ws)"
  by (induction sep ws rule: join.induct) auto

lemma hd_join: "ws \<noteq> [] \<Longrightarrow> hd ws \<noteq> [] \<Longrightarrow> join sep ws \<noteq> [] \<and> hd (join sep ws) = hd (hd ws)"
  by (induction sep ws rule: join.induct) auto

text \<open>A word of the letters and digits, and one with underscores, that starts with no digit.\<close>

definition type_name :: "string \<Rightarrow> bool" where
  "type_name s \<longleftrightarrow> s \<noteq> [] \<and> is_upper (hd s) \<and> list_all is_alphanumeric s"

definition field_name :: "string \<Rightarrow> bool" where
  "field_name s \<longleftrightarrow> s \<noteq> [] \<and> is_lower (hd s)
     \<and> list_all (\<lambda>c. is_lower c \<or> is_digit c \<or> c = CHR ''_'') s"

lemma pascal_identifier_ok: "type_name (pascal_identifier v)"
proof -
  have spelt: "list_all is_alphanumeric (concat (map capitalised (words v)))"
    using words_ok[of _ v] capitalised_ok by (fastforce simp: list_all_iff)
  have first: "is_digit (hd joined) \<or> is_upper (hd joined)"
    if "joined = concat (map capitalised (words v))" "joined \<noteq> []" for joined
  proof -
    have "words v \<noteq> []" using that by auto
    then obtain w ws where ws: "words v = w # ws" by (cases "words v") auto
    then have "w \<noteq> []" "list_all is_alphanumeric w" using words_ok[of w v] by auto
    then have "capitalised w \<noteq> []" by (cases w) auto
    then show ?thesis using capitalised_hd[of w] \<open>w \<noteq> []\<close> \<open>list_all is_alphanumeric w\<close> that(1) ws by simp
  qed
  have value_ok: "list_all is_alphanumeric ''Value''" "is_upper (CHR ''V'')"
    by (simp_all add: is_alphanumeric_def is_lower_def is_upper_def is_digit_def less_eq_char_def)
  show ?thesis
    using spelt first value_ok
    by (auto simp: pascal_identifier_def Let_def type_name_def starts_with_digit_def)
qed

lemma snake_words_ok:
  assumes "words v \<noteq> []" and "joined = join ''_'' (map (map to_lower) (words v))"
  shows "joined \<noteq> []" and "is_digit (hd joined) \<or> is_lower (hd joined)"
    and "list_all (\<lambda>c. is_lower c \<or> is_digit c \<or> c = CHR ''_'') joined"
proof -
  obtain w ws where ws: "words v = w # ws" using assms(1) by (cases "words v") auto
  then obtain c cs where w: "w = c # cs" and alpha: "is_alphanumeric c" using words_ok[of w v] by (cases w) auto
  have first: "joined \<noteq> [] \<and> hd joined = to_lower c"
    unfolding assms(2) ws w using hd_join[of "map (map to_lower) (words v)" "''_''"] ws w by simp
  then show "joined \<noteq> []" by simp
  from first to_lower_ok[OF alpha] show "is_digit (hd joined) \<or> is_lower (hd joined)" by simp
  have "x = CHR ''_'' \<or> (\<exists>w\<in>set (words v). x \<in> to_lower ` set w)" if "x \<in> set joined" for x
    using that set_join[of "''_''" "map (map to_lower) (words v)"] unfolding assms(2) by fastforce
  then show "list_all (\<lambda>c. is_lower c \<or> is_digit c \<or> c = CHR ''_'') joined"
    using words_ok[of _ v] to_lower_ok by (fastforce simp: list_all_iff)
qed

section \<open>What Rust accepts\<close>

text \<open>
  Rust's identifiers (the Reference, ``Identifiers'' and ``Keywords'', edition 2021), kept to ASCII: a word of
  letters, digits and underscores that starts with no digit and is not the underscore alone, which is no
  keyword in use or reserved, or the raw form of such a word, which four keywords lack.
\<close>

definition rust_reserved :: "string list" where
  "rust_reserved =
     [''as'', ''async'', ''await'', ''break'', ''const'', ''continue'', ''crate'', ''dyn'', ''else'', ''enum'',
      ''extern'', ''false'', ''fn'', ''for'', ''if'', ''impl'', ''in'', ''let'', ''loop'', ''match'', ''mod'',
      ''move'', ''mut'', ''pub'', ''ref'', ''return'', ''self'', ''Self'', ''static'', ''struct'', ''super'',
      ''trait'', ''true'', ''type'', ''unsafe'', ''use'', ''where'', ''while'',
      ''abstract'', ''become'', ''box'', ''do'', ''final'', ''macro'', ''override'', ''priv'', ''try'',
      ''typeof'', ''unsized'', ''virtual'', ''yield'']"

definition rust_rawless :: "string list" where
  "rust_rawless = [''crate'', ''self'', ''super'', ''Self'']"

definition rust_word :: "string \<Rightarrow> bool" where
  "rust_word s \<longleftrightarrow> s \<noteq> [] \<and> s \<noteq> ''_'' \<and> \<not> is_digit (hd s)
     \<and> list_all (\<lambda>c. is_alphanumeric c \<or> c = CHR ''_'') s"

definition is_rust_identifier :: "string \<Rightarrow> bool" where
  "is_rust_identifier s \<longleftrightarrow>
     (if prefix ''r#'' s then rust_word (drop 2 s) \<and> drop 2 s \<notin> set rust_rawless
      else rust_word s \<and> s \<notin> set rust_reserved)"

text \<open>The reserved words a generated field name is not kept from.\<close>

definition clashing_fields :: "string list" where
  "clashing_fields =
     [''crate'', ''self'', ''super'', ''async'', ''await'', ''dyn'', ''abstract'', ''become'', ''box'', ''do'',
      ''final'', ''macro'', ''override'', ''priv'', ''try'', ''typeof'', ''unsized'', ''virtual'', ''yield'']"

lemma clashing_exact:
  "set rust_reserved - set rust_keywords \<union> set rust_rawless - {''Self''} = set clashing_fields"
  "set rust_rawless \<subseteq> set rust_keywords" "set rust_keywords \<subseteq> set rust_reserved"
  by code_simp+

lemma rust_reserved_upper: "list_all (\<lambda>w. is_upper (hd w) \<longrightarrow> w = ''Self'') rust_reserved"
  by code_simp

lemma reserved_capital: "w \<in> set rust_reserved \<Longrightarrow> is_upper (hd w) \<Longrightarrow> w = ''Self''"
  using rust_reserved_upper by (auto simp: list_all_iff)

lemma upper_facts: "\<not> is_upper (CHR ''_'')" "\<not> is_lower (CHR ''_'')" "\<not> is_upper (CHR ''r'')" "\<not> is_lower (CHR ''#'')"
    "\<not> is_digit (CHR ''#'')" "\<not> is_lower (CHR ''S'')" "is_upper c \<Longrightarrow> \<not> is_digit c" "is_lower c \<Longrightarrow> \<not> is_digit c" "is_lower c \<Longrightarrow> \<not> is_upper c"
  by (auto simp: is_upper_def is_lower_def is_digit_def less_eq_char_def)

lemma type_name_identifier: "type_name s \<Longrightarrow> is_rust_identifier s \<longleftrightarrow> s \<noteq> ''Self''"
proof -
  assume named: "type_name s"
  then have "\<not> prefix ''r#'' s" and "rust_word s"
    using upper_facts by (auto simp: type_name_def rust_word_def prefix_def list_all_iff)
  moreover have "''Self'' \<in> set rust_reserved" by code_simp
  ultimately show "is_rust_identifier s \<longleftrightarrow> s \<noteq> ''Self''"
    using named reserved_capital[of s] by (auto simp: is_rust_identifier_def type_name_def)
qed

lemma field_name_identifier:
  assumes "field_name name"
  shows "is_rust_identifier (if name \<in> set rust_keywords then ''r#'' @ name else name)
    \<longleftrightarrow> name \<notin> set clashing_fields"
proof -
  have "rust_word name" "\<not> prefix ''r#'' name" "name \<noteq> ''Self''"
    using assms upper_facts alphanumeric_cases
    by (auto simp: field_name_def rust_word_def prefix_def list_all_iff)
  then show ?thesis
    using clashing_exact by (cases "name \<in> set rust_keywords") (auto simp: is_rust_identifier_def)
qed

section \<open>What is kept of a name\<close>

text \<open>The letters and digits of a name, in lower case, after \<open>value\<close> when there are none or a digit leads.\<close>

definition spelt :: "string \<Rightarrow> string" where
  "spelt v = map to_lower (filter is_alphanumeric v)"

definition letters_of :: "string \<Rightarrow> string" where
  "letters_of v = (if spelt v = [] \<or> is_digit (hd (spelt v)) then ''value'' @ spelt v else spelt v)"

lemma lower_facts: "map to_lower ''Value'' = ''value''" "map to_lower ''value'' = ''value''"
  by code_simp+

lemma to_lower_upper: "is_alphanumeric c \<Longrightarrow> to_lower (to_upper c) = to_lower c"
proof -
  have "(of_char (char_of (of_char c - 32 :: nat)) :: nat) = of_char c - 32"
    by (simp add: less_imp_diff_less)
  then show "is_alphanumeric c \<Longrightarrow> to_lower (to_upper c) = to_lower c"
    by (auto simp: to_lower_def to_upper_def is_alphanumeric_def is_digit_def is_lower_def is_upper_def
        less_eq_char_def)
qed

lemma lower_capitalised: "list_all is_alphanumeric w \<Longrightarrow> map to_lower (capitalised w) = map to_lower w"
  by (cases w) (simp_all add: to_lower_upper)

lemma lower_pascal: "map to_lower (concat (map capitalised (words v))) = spelt v"
proof -
  have "list_all (list_all is_alphanumeric) ws \<Longrightarrow>
      map to_lower (concat (map capitalised ws)) = map to_lower (concat ws)" for ws
    by (induction ws) (simp_all add: lower_capitalised)
  then show ?thesis using words_ok[of _ v] by (simp add: spelt_def list_all_iff concat_words)
qed

lemma digit_lower: "is_digit (to_lower c) = is_digit c"
proof -
  have "(of_char c :: nat) \<le> 90 \<Longrightarrow> (of_char (char_of (of_char c + 32 :: nat)) :: nat) = of_char c + 32" by simp
  then show ?thesis by (auto simp: to_lower_def is_digit_def is_upper_def less_eq_char_def)
qed

lemma pascal_letters: "map to_lower (pascal_identifier v) = letters_of v"
proof -
  define joined where "joined = concat (map capitalised (words v))"
  have lower: "map to_lower joined = spelt v" by (simp add: joined_def lower_pascal)
  then have "joined = [] \<longleftrightarrow> spelt v = []" by auto
  moreover have "joined \<noteq> [] \<Longrightarrow> is_digit (hd joined) = is_digit (hd (spelt v))"
    by (simp add: digit_lower hd_map flip: lower)
  moreover have "\<not> is_digit (CHR ''V'')" by code_simp
  ultimately show ?thesis
    using lower lower_facts
    by (auto simp: pascal_identifier_def Let_def letters_of_def starts_with_digit_def simp flip: joined_def)
qed

lemma snake_letters:
  assumes "joined = join ''_'' (map (map to_lower) (words v))"
  shows "filter (\<lambda>c. c \<noteq> CHR ''_'') joined = spelt v"
proof -
  have plain: "list_all is_alphanumeric w \<Longrightarrow> filter (\<lambda>c. c \<noteq> CHR ''_'') (map to_lower w) = map to_lower w" for w
    using to_lower_ok upper_facts(2) by (fastforce simp: filter_id_conv list_all_iff is_digit_def less_eq_char_def)
  have "list_all (list_all is_alphanumeric) ws \<Longrightarrow>
      filter (\<lambda>c. c \<noteq> CHR ''_'') (join ''_'' (map (map to_lower) ws)) = map to_lower (concat ws)" for ws
  proof (induction ws)
    case (Cons w ws)
    then show ?case by (cases ws) (simp_all add: plain)
  qed simp
  then show ?thesis using words_ok[of _ v] by (simp add: assms spelt_def list_all_iff concat_words)
qed

lemma rust_field_identifier_ok:
  obtains name where "field_name name" "filter (\<lambda>c. c \<noteq> CHR ''_'') name = letters_of v"
    "rust_field_identifier v = (if name \<in> set rust_keywords then ''r#'' @ name else name)"
proof -
  define joined where "joined = join ''_'' (map (map to_lower) (words v))"
  define candidate where "candidate = (if joined = [] then ''value'' else joined)"
  define prefixed where "prefixed = (if starts_with_digit candidate then ''value_'' @ candidate else candidate)"
  have spell: "is_lower (CHR ''v'')" "list_all (\<lambda>c. is_lower c \<or> is_digit c \<or> c = CHR ''_'') ''value''"
    "\<not> is_digit (CHR ''v'')"
    by (simp_all add: is_lower_def is_digit_def less_eq_char_def)
  have "candidate \<noteq> [] \<and> (is_digit (hd candidate) \<or> is_lower (hd candidate))
      \<and> list_all (\<lambda>c. is_lower c \<or> is_digit c \<or> c = CHR ''_'') candidate"
  proof (cases "words v = []")
    case True
    then show ?thesis using spell by (simp add: candidate_def joined_def)
  next
    case False
    from snake_words_ok[OF this joined_def] show ?thesis by (simp add: candidate_def)
  qed
  then have "field_name prefixed"
    using spell by (auto simp: prefixed_def field_name_def starts_with_digit_def)
  moreover have "rust_field_identifier v = (if prefixed \<in> set rust_keywords then ''r#'' @ prefixed else prefixed)"
    by (simp add: rust_field_identifier_def Let_def joined_def candidate_def prefixed_def)
  moreover have "filter (\<lambda>c. c \<noteq> CHR ''_'') prefixed = letters_of v"
  proof -
    have kept: "filter (\<lambda>c. c \<noteq> CHR ''_'') joined = spelt v" by (rule snake_letters[OF joined_def])
    have started: "hd (spelt v) = hd joined \<and> spelt v \<noteq> []" if "joined \<noteq> []"
    proof -
      have "words v \<noteq> []" using that by (auto simp: joined_def)
      then have "hd joined \<noteq> CHR ''_''"
        using snake_words_ok(2)[OF _ joined_def] upper_facts(2) by (auto simp: is_digit_def less_eq_char_def)
      then show ?thesis unfolding kept[symmetric] using that by (cases joined) auto
    qed
    show ?thesis
      using kept started spell by (auto simp: prefixed_def candidate_def letters_of_def starts_with_digit_def)
  qed
  ultimately show ?thesis using that by metis
qed

text \<open>
  (C20) Whatever a definition names a type, an enum value, a union's tag or a property, exactly which
  generated names Rust takes. The type and variant names spell the letters and digits of the name,
  start with an upper-case letter and are identifiers of Rust unless they are \<open>Self\<close>. The field names
  spell the same letters in lower case between underscores, are raw exactly when the generator lists
  them, and are identifiers of Rust unless they are one of the nineteen words of \<open>clashing_fields\<close>, which
  have no raw form or which the generator's list misses.
\<close>

theorem generated_names_are_identifiers:
  "type_name (pascal_identifier v) \<and> map to_lower (pascal_identifier v) = letters_of v
   \<and> (is_rust_identifier (pascal_identifier v) \<longleftrightarrow> pascal_identifier v \<noteq> ''Self'')
   \<and> (\<exists>name. field_name name \<and> filter (\<lambda>c. c \<noteq> CHR ''_'') name = letters_of v
       \<and> rust_field_identifier v = (if name \<in> set rust_keywords then ''r#'' @ name else name)
       \<and> (is_rust_identifier (rust_field_identifier v) \<longleftrightarrow> name \<notin> set clashing_fields))"
proof -
  obtain name where "field_name name" "filter (\<lambda>c. c \<noteq> CHR ''_'') name = letters_of v"
      "rust_field_identifier v = (if name \<in> set rust_keywords then ''r#'' @ name else name)"
    by (rule rust_field_identifier_ok)
  with field_name_identifier[of name] pascal_identifier_ok[of v] pascal_letters[of v]
    type_name_identifier[of "pascal_identifier v"]
  show ?thesis by auto
qed

text \<open>
  Spellings that are no Rust identifiers: a keyword of the 2018 edition, one that has no raw form, and a
  constant that starts with a digit.
\<close>

lemma misspelt_names:
  "rust_field_identifier ''async'' = ''async''" "\<not> is_rust_identifier ''async''"
  "rust_field_identifier ''self'' = ''r#self''" "\<not> is_rust_identifier ''r#self''"
  "pascal_identifier ''self'' = ''Self''" "\<not> is_rust_identifier ''Self''"
  "name_constant_identifier ''9lives'' ''PROJECTION'' = ''9LIVES_PROJECTION''"
  "\<not> is_rust_identifier ''9LIVES_PROJECTION''"
  by code_simp+

end
