(* ===== verification/Definitions.thy ===== *)
theory Definitions
  imports Names
begin

text \<open>
  \<open>crates/clerkenwell-codegen/src/definition.rs\<close>, \<open>schema.rs\<close> and \<open>error.rs\<close>: typed views of a definition's document, and of
  the schema subset.

  A view of a section the meta-schema shapes panics on a document it does not admit. A check refuses with a
  message, which is left out. \<open>stop\<close> is either; an iterator over a section is the list of what it
  gives, so a section with an entry of the wrong shape panics wherever in it the entry is.
\<close>

datatype stop = Refused | Panicked

type_synonym 'a checked = "stop + 'a"

section \<open>Fields\<close>

definition opt_str :: "eobject \<Rightarrow> string \<Rightarrow> string option" where
  "opt_str m key = Option.bind (map_of m key) e_str"

definition str_field :: "eobject \<Rightarrow> string \<Rightarrow> string checked" where
  "str_field m key = ok_or Panicked (opt_str m key)"

definition object_field :: "eobject \<Rightarrow> string \<Rightarrow> eobject checked" where
  "object_field m key = ok_or Panicked (Option.bind (map_of m key) e_object)"

definition number_field :: "eobject \<Rightarrow> string \<Rightarrow> rat checked" where
  "number_field m key = ok_or Panicked (Option.bind (map_of m key) e_f64)"

definition strs_of :: "ejson \<Rightarrow> string list option" where
  "strs_of v = Option.bind (e_array v) (\<lambda>items. those (map e_str items))"

definition strs_field :: "eobject \<Rightarrow> string \<Rightarrow> string list checked" where
  "strs_field m key = ok_or Panicked (Option.bind (map_of m key) strs_of)"

definition opt_strs_field :: "eobject \<Rightarrow> string \<Rightarrow> string list option checked" where
  "opt_strs_field m key =
     (case map_of m key of None \<Rightarrow> Inr None | Some _ \<Rightarrow> res_bind (strs_field m key) (\<lambda>v. Inr (Some v)))"

section \<open>The document\<close>

type_synonym named = "string \<times> eobject"

definition object_of :: "ejson \<Rightarrow> eobject checked" where
  "object_of v = ok_or Panicked (e_object v)"

definition entries_of :: "eobject \<Rightarrow> named list checked" where
  "entries_of m = res_collect (\<lambda>(name, raw). res_bind (object_of raw) (\<lambda>v. Inr (name, v))) m"

definition find_named :: "string \<Rightarrow> named list \<Rightarrow> named option" where
  "find_named name entries = find (\<lambda>entry. fst entry = name) entries"

definition version_of :: "eobject \<Rightarrow> rat checked" where "version_of D = number_field D ''version''"
definition namespace_of :: "eobject \<Rightarrow> string checked" where "namespace_of D = str_field D ''namespace''"

definition entities_of :: "eobject \<Rightarrow> named list checked" where
  "entities_of D = res_bind (object_field D ''entities'') entries_of"

definition entity_named :: "eobject \<Rightarrow> string \<Rightarrow> named option checked" where
  "entity_named D name = res_bind (entities_of D) (\<lambda>es. Inr (find_named name es))"

definition entity_names :: "eobject \<Rightarrow> string list checked" where
  "entity_names D = res_bind (object_field D ''entities'') (\<lambda>m. Inr (map fst m))"

definition projections_of :: "eobject \<Rightarrow> named list checked" where
  "projections_of D = res_bind (object_field D ''projections'') entries_of"

definition projection_named :: "eobject \<Rightarrow> string \<Rightarrow> named option checked" where
  "projection_named D name = res_bind (projections_of D) (\<lambda>ps. Inr (find_named name ps))"

definition projection_count :: "eobject \<Rightarrow> nat checked" where
  "projection_count D = res_bind (object_field D ''projections'') (\<lambda>m. Inr (length m))"

definition mutations_of :: "eobject \<Rightarrow> named list checked" where
  "mutations_of D = res_bind (object_field D ''mutations'') entries_of"

definition mutation_named :: "eobject \<Rightarrow> string \<Rightarrow> named option checked" where
  "mutation_named D name = res_bind (mutations_of D) (\<lambda>ms. Inr (find_named name ms))"

definition commands_of :: "eobject \<Rightarrow> named list checked" where
  "commands_of D = entries_of (case Option.bind (map_of D ''commands'') e_object of None \<Rightarrow> [] | Some m \<Rightarrow> m)"

definition collaboration_of :: "eobject \<Rightarrow> eobject checked" where
  "collaboration_of D = object_field D ''collaboration''"

definition defs_of :: "eobject \<Rightarrow> eobject checked" where
  "defs_of D = object_field D ''$defs''"

definition def_of :: "eobject \<Rightarrow> string \<Rightarrow> eobject option checked" where
  "def_of D name = res_bind (defs_of D) (\<lambda>m. Inr (Option.bind (map_of m name) e_object))"

definition def_entries :: "eobject \<Rightarrow> named list checked" where
  "def_entries D = res_bind (defs_of D) entries_of"

definition shared_defs :: "string list" where
  "shared_defs = [''AuthoringState'', ''AuthoringStatePatch'', ''AuthoringPeerBlock'', ''CollaborationExchangeMode'']"

definition declared_def_entries :: "eobject \<Rightarrow> named list checked" where
  "declared_def_entries D = res_bind (def_entries D) (\<lambda>ds. Inr (filter (\<lambda>d. fst d \<notin> set shared_defs) ds))"

section \<open>Its entries\<close>

definition entity_id :: "eobject \<Rightarrow> string checked" where "entity_id raw = str_field raw ''id''"
definition entity_schema :: "eobject \<Rightarrow> eobject checked" where "entity_schema raw = object_field raw ''schema''"
definition revision_of :: "eobject \<Rightarrow> eobject checked" where "revision_of raw = object_field raw ''revision''"

definition revision_kind :: "eobject \<Rightarrow> string checked" where
  "revision_kind raw = res_bind (revision_of raw) (\<lambda>r. str_field r ''kind'')"

definition authoring_of :: "eobject \<Rightarrow> eobject checked" where "authoring_of raw = object_field raw ''authoring''"

definition authoring_kind :: "eobject \<Rightarrow> string checked" where
  "authoring_kind raw = res_bind (authoring_of raw) (\<lambda>a. str_field a ''kind'')"

definition planning_mutations :: "eobject \<Rightarrow> string list checked" where
  "planning_mutations raw = res_bind (authoring_of raw) (\<lambda>a. strs_field a ''planningMutations'')"

definition params_of :: "eobject \<Rightarrow> eobject checked" where "params_of raw = object_field raw ''params''"
definition snapshot_of :: "eobject \<Rightarrow> eobject checked" where "snapshot_of raw = object_field raw ''snapshot''"
definition patch_of :: "eobject \<Rightarrow> eobject checked" where "patch_of raw = object_field raw ''patch''"
definition result_of :: "eobject \<Rightarrow> eobject checked" where "result_of raw = object_field raw ''result''"
definition depends_on :: "eobject \<Rightarrow> string list checked" where "depends_on raw = strs_field raw ''dependsOn''"
definition touches_of :: "eobject \<Rightarrow> string list checked" where "touches_of raw = strs_field raw ''touches''"

definition materialization_of :: "eobject \<Rightarrow> eobject checked" where
  "materialization_of raw = object_field raw ''materialization''"

definition strategy_of :: "eobject \<Rightarrow> string checked" where "strategy_of m = str_field m ''strategy''"

definition command_touches :: "eobject \<Rightarrow> string list checked" where
  "command_touches raw =
     res_bind (opt_strs_field raw ''touches'') (\<lambda>ts. Inr (case ts of None \<Rightarrow> [] | Some names \<Rightarrow> names))"

definition collaboration_entities :: "eobject \<Rightarrow> named list checked" where
  "collaboration_entities D =
     res_bind (collaboration_of D) (\<lambda>c. res_bind (object_field c ''entities'') entries_of)"

definition collaboration_entity :: "eobject \<Rightarrow> string \<Rightarrow> named option checked" where
  "collaboration_entity D name = res_bind (collaboration_entities D) (\<lambda>es. Inr (find_named name es))"

definition authoring_state :: "eobject \<Rightarrow> eobject checked" where
  "authoring_state raw = object_field raw ''authoringState''"

definition authoring_projection :: "eobject \<Rightarrow> string checked" where
  "authoring_projection raw = res_bind (authoring_state raw) (\<lambda>a. str_field a ''projection'')"

definition import_mutation :: "eobject \<Rightarrow> string checked" where
  "import_mutation raw = res_bind (authoring_state raw) (\<lambda>a. str_field a ''importMutation'')"

definition authoring_document :: "eobject \<Rightarrow> string option checked" where
  "authoring_document raw = res_bind (authoring_state raw) (\<lambda>a. Inr (opt_str a ''document''))"

definition authoring_store_params :: "eobject \<Rightarrow> string list checked" where
  "authoring_store_params raw =
     res_bind (authoring_state raw) (\<lambda>a. res_bind (opt_strs_field a ''storeParams'') (\<lambda>ps.
     Inr (case ps of None \<Rightarrow> [] | Some names \<Rightarrow> names)))"

definition field_entries :: "eobject \<Rightarrow> named list checked" where
  "field_entries raw = res_bind (object_field raw ''fields'') entries_of"

definition storage_of :: "eobject \<Rightarrow> eobject checked" where "storage_of raw = object_field raw ''storage''"

definition storage_kind_of :: "eobject \<Rightarrow> string checked" where
  "storage_kind_of raw = res_bind (storage_of raw) (\<lambda>s. str_field s ''kind'')"

definition storage_setting :: "eobject \<Rightarrow> string \<Rightarrow> string option checked" where
  "storage_setting raw key = res_bind (storage_of raw) (\<lambda>s. Inr (opt_str s key))"

definition field_value :: "eobject \<Rightarrow> eobject checked" where "field_value raw = object_field raw ''value''"

definition field_codec_of :: "eobject \<Rightarrow> string checked" where
  "field_codec_of raw = res_bind (field_value raw) (\<lambda>v. str_field v ''codec'')"

definition value_schema_of :: "eobject \<Rightarrow> eobject option checked" where
  "value_schema_of raw = res_bind (field_value raw) (\<lambda>v. Inr (Option.bind (map_of v ''schema'') e_object))"

definition field_required :: "eobject \<Rightarrow> bool checked" where
  "field_required raw = ok_or Panicked (Option.bind (map_of raw ''required'') e_bool)"

definition required_in_parent :: "eobject \<Rightarrow> bool checked" where
  "required_in_parent raw =
     (case Option.bind (map_of raw ''requiredInParent'') e_bool of Some b \<Rightarrow> Inr b | None \<Rightarrow> field_required raw)"

definition is_derived :: "eobject \<Rightarrow> bool checked" where
  "is_derived raw = res_bind (storage_kind_of raw) (\<lambda>kind. Inr (kind \<in> {''derivedIdentity'', ''derivedRevision''}))"

section \<open>Schemas\<close>

definition primitive_types :: "string list" where
  "primitive_types = [''string'', ''boolean'', ''integer'', ''number'']"

definition object_at :: "eobject \<Rightarrow> string \<Rightarrow> eobject option" where
  "object_at schema key = Option.bind (map_of schema key) e_object"

definition has_type :: "eobject \<Rightarrow> string \<Rightarrow> bool" where
  "has_type schema expected \<longleftrightarrow> opt_str schema ''type'' = Some expected"

definition record_values_schema :: "eobject \<Rightarrow> eobject option" where
  "record_values_schema schema =
     (if \<not> has_type schema ''object'' \<or> map_of schema ''properties'' \<noteq> None then None
      else object_at schema ''additionalProperties'')"

definition other_members_schema :: "eobject \<Rightarrow> eobject option" where
  "other_members_schema schema =
     (if \<not> has_type schema ''object'' then None
      else Option.bind (object_at schema ''properties'') (\<lambda>_. object_at schema ''additionalProperties''))"

definition value_meets_bounds :: "eobject \<Rightarrow> ejson \<Rightarrow> bool" where
  "value_meets_bounds schema v =
     (let bound = (\<lambda>keyword. Option.bind (map_of schema keyword) e_f64);
          none_or = (\<lambda>x P. case x of None \<Rightarrow> True | Some limit \<Rightarrow> P limit) in
      case e_str v of
        Some text \<Rightarrow> none_or (bound ''minLength'') (\<lambda>limit. limit \<le> of_nat (length text))
      | None \<Rightarrow>
          (case e_f64 v of
             None \<Rightarrow> True
           | Some number \<Rightarrow> none_or (bound ''minimum'') (\<lambda>limit. limit \<le> number)
               \<and> none_or (bound ''maximum'') (\<lambda>limit. number \<le> limit)))"

definition primitive_union_types :: "eobject \<Rightarrow> string list option checked" where
  "primitive_union_types schema =
     (case map_of schema ''type'' of
        Some (EArray types) \<Rightarrow>
          (case those (map e_str types) of
             None \<Rightarrow> Inl Refused
           | Some members \<Rightarrow>
               if \<not> set members \<subseteq> set primitive_types \<or> length members < 2 then Inl Refused
               else if \<not> distinct members then Inl Refused
               else Inr (Some members))
      | _ \<Rightarrow> Inr None)"

definition local_prefix :: string where "local_prefix = ''#/$defs/''"

definition local_reference_name :: "ejson option \<Rightarrow> string option" where
  "local_reference_name reference =
     Option.bind (Option.bind reference e_str) (\<lambda>text.
       if take (length local_prefix) text = local_prefix
       then
         let name = drop (length local_prefix) text in
         if name \<noteq> [] \<and> (is_lower (hd name) \<or> is_upper (hd name)) \<and> list_all is_alphanumeric (tl name)
         then Some name else None
       else None)"

definition schema_ref_name :: "eobject \<Rightarrow> eobject \<Rightarrow> string checked" where
  "schema_ref_name D reference =
     res_bind (ok_or Refused (local_reference_name (map_of reference ''$ref''))) (\<lambda>name.
     res_bind (def_of D name) (\<lambda>found. if found = None then Inl Refused else Inr name))"

definition resolve_ref :: "eobject \<Rightarrow> eobject \<Rightarrow> eobject checked" where
  "resolve_ref D reference =
     res_bind (schema_ref_name D reference) (\<lambda>name.
     res_bind (def_of D name) (\<lambda>found. ok_or Panicked found))"

definition schema_ref_type_name :: "eobject \<Rightarrow> string checked" where
  "schema_ref_type_name reference =
     res_bind (ok_or Refused (local_reference_name (map_of reference ''$ref''))) (\<lambda>name. Inr (pascal_identifier name))"

definition read_string_array :: "ejson option \<Rightarrow> string list checked" where
  "read_string_array v = (case v of None \<Rightarrow> Inr [] | Some x \<Rightarrow> ok_or Refused (strs_of x))"

definition stringify_or_undefined :: "exponential \<Rightarrow> ejson option \<Rightarrow> string" where
  "stringify_or_undefined sci v = (case v of None \<Rightarrow> ''undefined'' | Some x \<Rightarrow> stringify sci x)"

end
