(* ===== verification/Expanding.thy ===== *)
theory Expanding
  imports Definitions
begin

text \<open>
  \<open>crates/clerkenwell-codegen/src/expand.rs\<close>: the declarations a definition's collaboration section implies. The
  generator's own declarations are written as the values their text parses to.
\<close>

definition eobj :: "(string \<times> ejson) list \<Rightarrow> ejson" where
  "eobj members = EObject (obj_of members)"

definition authoring_state_schema :: ejson where
  "authoring_state_schema =
     eobj [(''type'', EString ''object''),
       (''additionalProperties'', EBool False),
       (''required'', EArray [EString ''schema_version'', EString ''accepted_frontier_base64'', EString ''update_base64'', EString ''etag'', EString ''exchange_modes'', EString ''peer_block'', EString ''replaces_held'']),
       (''properties'', eobj [(''schema_version'', eobj [(''type'', EString ''integer''),
           (''minimum'', ENumber 0),
           (''maximum'', ENumber 4294967295),
           (''description'', EString (''The layout version the document'' @ [CHR 0x27] @ ''s operations are written in.''))]),
         (''accepted_frontier_base64'', eobj [(''type'', EString ''string''),
           (''description'', EString ''The frontier of the accepted state this delivery leaves its client holding.'')]),
         (''update_base64'', eobj [(''type'', EString ''string''),
           (''description'', EString ''The accepted operations this delivery adds: every one in a snapshot, and in a patch those after the frontier its client held.'')]),
         (''etag'', eobj [(''type'', EString ''string''),
           (''description'', EString (''The accepted state'' @ [CHR 0x27] @ ''s etag.''))]),
         (''exchange_modes'', eobj [(''type'', EString ''array''),
           (''items'', eobj [(''$ref'', EString ''#/$defs/CollaborationExchangeMode'')]),
           (''description'', EString ''How the store accepts an import of this document.'')]),
         (''peer_block'', eobj [(''$ref'', EString ''#/$defs/AuthoringPeerBlock'')]),
         (''replaces_held'', eobj [(''type'', EString ''boolean''),
           (''description'', EString (''Whether the client replaces what it holds with this delivery, because what it named holding is not of this document'' @ [CHR 0x27] @ ''s history.''))])])]"

definition authoring_peer_block_schema :: ejson where
  "authoring_peer_block_schema =
     eobj [(''type'', EString ''object''),
       (''additionalProperties'', EBool False),
       (''required'', EArray [EString ''nonce'', EString ''base'', EString ''index_bits'']),
       (''description'', EString (''A block of peers allocated to the subscriber: every peer whose bits above the low index_bits are base'' @ [CHR 0x27] @ ''s. An import names the block by its nonce.'')),
       (''properties'', eobj [(''nonce'', eobj [(''type'', EString ''string'')]),
         (''base'', eobj [(''type'', EString ''string''),
           (''description'', EString (''The block'' @ [CHR 0x27] @ ''s first peer, in decimal.''))]),
         (''index_bits'', eobj [(''type'', EString ''integer''),
           (''minimum'', ENumber 0),
           (''maximum'', ENumber 4294967295)])])]"

definition collaboration_exchange_mode_schema :: ejson where
  "collaboration_exchange_mode_schema =
     eobj [(''type'', EString ''string''),
       (''enum'', EArray [EString ''incremental'', EString ''bootstrap'']),
       (''description'', EString ''Whether an import creates a document (bootstrap) or edits one (incremental).'')]"

definition authoring_state_patch_schema :: ejson where
  "authoring_state_patch_schema =
     eobj [(''type'', EString ''object''),
       (''additionalProperties'', EBool False),
       (''required'', EArray [EString ''kind'']),
       (''properties'', eobj [(''kind'', eobj [(''type'', EString ''string''),
           (''enum'', EArray [EString ''replace'', EString ''remove''])]),
         (''state'', eobj [(''$ref'', EString ''#/$defs/AuthoringState'')])])]"

definition section_of :: "eobject \<Rightarrow> string \<Rightarrow> eobject" where
  "section_of document key = (case Option.bind (map_of document key) e_object of None \<Rightarrow> [] | Some m \<Rightarrow> m)"

definition string_schema :: ejson where
  "string_schema = eobj [(''type'', EString ''string'')]"

definition parameters :: "string list \<Rightarrow> ejson" where
  "parameters names =
     eobj [(''type'', EString ''object''), (''additionalProperties'', EBool False),
       (''required'', EArray (map EString names)),
       (''properties'', eobj (map (\<lambda>name. (name, string_schema)) names))]"

definition reference_to :: "string \<Rightarrow> ejson" where
  "reference_to name = eobj [(''$ref'', EString (local_prefix @ name))]"

definition authoring_projection_of :: "string \<Rightarrow> string \<Rightarrow> ejson" where
  "authoring_projection_of name params_name =
     eobj [(''description'', EString (''The accepted state of one '' @ name @ '' document, for keeping a replica of it.'')),
       (''params'', reference_to params_name), (''snapshot'', reference_to ''AuthoringState''),
       (''patch'', reference_to ''AuthoringStatePatch''), (''dependsOn'', EArray [EString name]),
       (''materialization'', eobj [(''strategy'', EString ''replaceOrRemove''), (''snapshotMode'', EString ''field''),
         (''snapshotField'', EString ''state''), (''removeMode'', EString ''nullSnapshot'')])]"

definition collaborative_of :: "eobject \<Rightarrow> named list" where
  "collaborative_of document =
     (case Option.bind (Option.bind (map_of document ''collaboration'') (\<lambda>c. e_get c ''entities'')) e_object of
        None \<Rightarrow> []
      | Some es \<Rightarrow>
          List.map_filter (\<lambda>(name, e). map_option (Pair name) (Option.bind (e_get e ''authoringState'') e_object)) es)"

definition declare_shared :: "eobject \<Rightarrow> eobject checked" where
  "declare_shared ds =
     (if \<exists>name\<in>set shared_defs. name \<in> fst ` set ds then Inl Refused
      else Inr (obj_spread ds
        [(''AuthoringState'', authoring_state_schema), (''AuthoringStatePatch'', authoring_state_patch_schema),
         (''AuthoringPeerBlock'', authoring_peer_block_schema),
         (''CollaborationExchangeMode'', collaboration_exchange_mode_schema)]))"

text \<open>
  The parameters of an authoring state: the entity's id, unless the state names its document, and those of its
  store.
\<close>

definition state_parameters :: "eobject \<Rightarrow> eobject \<Rightarrow> string list checked" where
  "state_parameters declared state =
     res_bind (opt_strs_field state ''storeParams'') (\<lambda>stored.
     let store_params = (case stored of None \<Rightarrow> [] | Some names \<Rightarrow> names) in
     if opt_str state ''document'' = None
     then res_bind (str_field declared ''id'') (\<lambda>i. if i \<in> set store_params then Inl Refused else Inr (i # store_params))
     else Inr store_params)"

text \<open>The definitions, the projections and the authoring states' names so far, after one collaborative entity.\<close>

definition expand_entity ::
  "eobject \<Rightarrow> named \<Rightarrow> eobject \<times> eobject \<times> string list \<Rightarrow> (eobject \<times> eobject \<times> string list) checked"
where
  "expand_entity es collaborative_entity sections =
     (case collaborative_entity of (name, state) \<Rightarrow>
      case sections of (ds, ps, expanded) \<Rightarrow>
      case Option.bind (map_of es name) e_object of
        None \<Rightarrow> Inr (ds, ps, expanded)
      | Some declared \<Rightarrow>
          res_bind (str_field state ''projection'') (\<lambda>projected.
          if projected \<in> set expanded then Inl Refused
          else if projected \<in> fst ` set ps then Inl Refused
          else
            let params_name = name @ ''AuthoringParams'' in
            if params_name \<in> fst ` set ds then Inl Refused
            else
              res_bind (state_parameters declared state) (\<lambda>names.
              Inr (obj_insert params_name (parameters names) ds,
                obj_insert projected (authoring_projection_of name params_name) ps, expanded @ [projected]))))"

definition expand :: "eobject \<Rightarrow> eobject checked" where
  "expand document =
     res_bind (declare_shared (section_of document ''$defs'')) (\<lambda>ds.
     res_bind (res_fold (expand_entity (section_of document ''entities'')) (collaborative_of document)
       (ds, section_of document ''projections'', [])) (\<lambda>(ds', ps', _).
     Inr (obj_insert ''projections'' (EObject ps') (obj_insert ''$defs'' (EObject ds') document))))"

end
