(* ===== verification/References.thy ===== *)
theory References
  imports Expanding
begin

text \<open>
  The references of a definition: \<open>check_reference_chains\<close> and \<open>dereference\<close> of
  \<open>crates/clerkenwell-codegen/src/validate.rs\<close>, and that the first makes the second end.

  A walk through a definition may refuse, panic or never end, \<open>None\<close>. A schema is a node: with it goes the
  name of the definition it is the whole of, by which \<open>std::ptr::eq\<close> tells nodes apart.
\<close>

section \<open>Walks\<close>

type_synonym 'a walk = "(stop + 'a) option"

definition walk_bind :: "'a walk \<Rightarrow> ('a \<Rightarrow> 'b walk) \<Rightarrow> 'b walk" where
  "walk_bind m f = Option.bind m (\<lambda>r. case r of Inl e \<Rightarrow> Some (Inl e) | Inr a \<Rightarrow> f a)"

abbreviation walk_ok :: "'a \<Rightarrow> 'a walk" where
  "walk_ok a \<equiv> Some (Inr a)"

abbreviation walk_refuse :: "'a walk" where
  "walk_refuse \<equiv> Some (Inl Refused)"

fun walk_collect :: "('a \<Rightarrow> 'b walk) \<Rightarrow> 'a list \<Rightarrow> 'b list walk" where
  "walk_collect f [] = walk_ok []"
| "walk_collect f (x # xs) = walk_bind (f x) (\<lambda>y. walk_bind (walk_collect f xs) (\<lambda>ys. walk_ok (y # ys)))"

definition walk_each :: "('a \<Rightarrow> unit walk) \<Rightarrow> 'a list \<Rightarrow> unit walk" where
  "walk_each f xs = walk_bind (walk_collect f xs) (\<lambda>_. walk_ok ())"

lemma walk_bind_simps [simp]:
  "walk_bind None f = None" "walk_bind (Some (Inl e)) f = Some (Inl e)" "walk_bind (Some (Inr a)) f = f a"
  by (simp_all add: walk_bind_def)

lemma walk_bind_ok_iff: "walk_bind m f = Some (Inr b) \<longleftrightarrow> (\<exists>a. m = Some (Inr a) \<and> f a = Some (Inr b))"
  by (cases m) (auto simp: walk_bind_def split: sum.splits)

lemma walk_bind_ends: "(\<exists>r. m = Some r) \<Longrightarrow> (\<And>a. m = Some (Inr a) \<Longrightarrow> \<exists>r. f a = Some r) \<Longrightarrow> \<exists>r. walk_bind m f = Some r"
  by (cases m) (auto simp: walk_bind_def split: sum.splits)

lemma walk_collect_ok_iff:
  "walk_collect f xs = Some (Inr ys) \<longleftrightarrow> list_all2 (\<lambda>x y. f x = Some (Inr y)) xs ys"
  by (induction xs arbitrary: ys) (auto simp: walk_bind_ok_iff list_all2_Cons1)

lemma walk_collect_ends: "(\<And>x. x \<in> set xs \<Longrightarrow> \<exists>r. f x = Some r) \<Longrightarrow> \<exists>r. walk_collect f xs = Some r"
  by (induction xs) (auto intro!: walk_bind_ends)

lemma walk_each_ok_iff: "walk_each f xs = Some (Inr u) \<longleftrightarrow> list_all (\<lambda>x. f x = Some (Inr ())) xs"
proof -
  have "list_all (\<lambda>x. f x = Some (Inr ())) xs \<longleftrightarrow> (\<exists>ys. list_all2 (\<lambda>x y. f x = Some (Inr y)) xs ys)"
  proof
    assume "list_all (\<lambda>x. f x = Some (Inr ())) xs"
    then have "list_all2 (\<lambda>x y. f x = Some (Inr y)) xs (map (\<lambda>_. ()) xs)"
      by (induction xs) auto
    then show "\<exists>ys. list_all2 (\<lambda>x y. f x = Some (Inr y)) xs ys" ..
  next
    assume "\<exists>ys. list_all2 (\<lambda>x y. f x = Some (Inr y)) xs ys"
    then show "list_all (\<lambda>x. f x = Some (Inr ())) xs"
      by (auto simp: list_all_iff in_set_conv_nth list_all2_conv_all_nth)
  qed
  then show ?thesis by (simp add: walk_each_def walk_bind_ok_iff walk_collect_ok_iff)
qed

lemma walk_each_ends: "(\<And>x. x \<in> set xs \<Longrightarrow> \<exists>r. f x = Some r) \<Longrightarrow> \<exists>r. walk_each f xs = Some r"
  unfolding walk_each_def by (intro walk_bind_ends walk_collect_ends) auto

lemma walk_bind_cong [fundef_cong]:
  "m = m' \<Longrightarrow> (\<And>a. m' = Some (Inr a) \<Longrightarrow> f a = f' a) \<Longrightarrow> walk_bind m f = walk_bind m' f'"
  by (cases m) (auto simp: walk_bind_def split: sum.splits)

lemma walk_collect_cong [fundef_cong]:
  "xs = ys \<Longrightarrow> (\<And>x. x \<in> set ys \<Longrightarrow> f x = g x) \<Longrightarrow> walk_collect f xs = walk_collect g ys"
  by (induction ys arbitrary: xs) auto

lemma walk_each_cong [fundef_cong]:
  "xs = ys \<Longrightarrow> (\<And>x. x \<in> set ys \<Longrightarrow> f x = g x) \<Longrightarrow> walk_each f xs = walk_each g ys"
  unfolding walk_each_def by (simp cong: walk_collect_cong)

lemma walk_bind_mono [partial_function_mono]:
  assumes "mono_option m" and "\<And>a. mono_option (\<lambda>f. g a f)"
  shows "mono_option (\<lambda>f. walk_bind (m f) (\<lambda>a. g a f))"
  unfolding walk_bind_def
proof (rule bind_mono[OF assms(1)])
  fix r
  show "mono_option (\<lambda>f. case r of Inl e \<Rightarrow> Some (Inl e) | Inr a \<Rightarrow> g a f)"
    by (cases r) (simp_all add: assms(2) option.const_mono)
qed

lemma walk_collect_mono [partial_function_mono]:
  assumes "\<And>x. mono_option (\<lambda>f. g x f)"
  shows "mono_option (\<lambda>f. walk_collect (\<lambda>x. g x f) xs)"
proof (induction xs)
  case Nil
  show ?case by (simp add: option.const_mono)
next
  case (Cons x xs)
  show ?case unfolding walk_collect.simps by (intro walk_bind_mono assms Cons) (rule option.const_mono)
qed

section \<open>References\<close>

type_synonym node = "string option \<times> eobject"

definition is_reference :: "eobject \<Rightarrow> bool" where
  "is_reference schema \<longleftrightarrow> (\<exists>text. map_of schema ''$ref'' = Some (EString text))"

lemma is_reference_code [code]:
  "is_reference schema = (case map_of schema ''$ref'' of Some (EString _) \<Rightarrow> True | _ \<Rightarrow> False)"
  by (auto simp: is_reference_def split: option.splits ejson.splits)

partial_function (option) dereference_at :: "eobject \<Rightarrow> node \<Rightarrow> node walk" where
  "dereference_at D node =
     (if is_reference (snd node)
      then walk_bind (Some (schema_ref_name D (snd node))) (\<lambda>name.
        walk_bind (Some (resolve_ref D (snd node))) (\<lambda>target. dereference_at D (Some name, target)))
      else walk_ok node)"

declare dereference_at.simps [code]

definition dereference :: "eobject \<Rightarrow> eobject \<Rightarrow> node walk" where
  "dereference D schema = dereference_at D (None, schema)"

text \<open>
  \<open>check_reference_chains\<close>, for one entry of \<open>$defs\<close>: the names on its chain, and the schema it has come to. The
  names it can still add are fewer with each.
\<close>

lemma named_reference:
  assumes "schema_ref_name D schema = Inr name"
  obtains ds target where "defs_of D = Inr ds" "name \<in> fst ` set ds" "def_of D name = Inr (Some target)"
    "local_reference_name (map_of schema ''$ref'') = Some name" "resolve_ref D schema = Inr target"
proof -
  from assms obtain found where named: "local_reference_name (map_of schema ''$ref'') = Some name"
    and found: "def_of D name = Inr found" "found \<noteq> None"
    unfolding schema_ref_name_def by (auto simp: res_bind_Inr_iff split: if_splits)
  then obtain ds target where ds: "defs_of D = Inr ds" and target: "found = Some target"
    and at: "map_of ds name = Some (EObject target)"
    unfolding def_of_def by (auto simp: res_bind_Inr_iff bind_eq_Some_conv elim!: e_object.elims)
  moreover have "resolve_ref D schema = Inr target"
    using assms found target by (simp add: resolve_ref_def)
  moreover have "name \<in> fst ` set ds" using map_of_SomeD[OF at] by force
  ultimately show ?thesis using that named found by blast
qed

function follow_chain :: "eobject \<Rightarrow> string list \<Rightarrow> eobject option \<Rightarrow> unit checked" where
  "follow_chain D chain current =
     (case current of
        None \<Rightarrow> Inr ()
      | Some schema \<Rightarrow>
          if map_of schema ''$ref'' = None then Inr ()
          else
            res_bind (schema_ref_name D schema) (\<lambda>name.
            if name \<in> set chain then Inl Refused
            else res_bind (def_of D name) (follow_chain D (chain @ [name]))))"
  by pat_completeness auto

termination
proof (relation "measure (\<lambda>(D, chain, current). card (fst ` set (case defs_of D of Inl _ \<Rightarrow> [] | Inr ds \<Rightarrow> ds) - set chain))")
  fix D chain current schema name target
  assume named: "schema_ref_name D schema = Inr name" and fresh: "name \<notin> set chain"
  from named obtain ds where ds: "defs_of D = Inr ds" "name \<in> fst ` set ds" by (rule named_reference)
  have "fst ` set ds - set (chain @ [name]) \<subset> fst ` set ds - set chain" using ds(2) fresh by auto
  then have "card (fst ` set ds - set (chain @ [name])) < card (fst ` set ds - set chain)"
    by (rule psubset_card_mono[rotated]) simp
  with ds(1) show "((D, chain @ [name], target), D, chain, current)
      \<in> measure (\<lambda>(D, chain, current). card (fst ` set (case defs_of D of Inl _ \<Rightarrow> [] | Inr ds \<Rightarrow> ds) - set chain))"
    by simp
qed simp

declare follow_chain.simps [simp del]

definition check_reference_chains :: "eobject \<Rightarrow> unit checked" where
  "check_reference_chains D =
     res_bind (defs_of D) (\<lambda>ds.
     res_bind (res_collect (\<lambda>(name, schema). follow_chain D [name] (e_object schema)) ds) (\<lambda>_. Inr ()))"

section \<open>Following references ends\<close>

lemma chain_ends:
  "follow_chain D chain (Some schema) = Inr () \<Longrightarrow> \<exists>r. dereference_at D (origin, schema) = Some r"
proof (induction D chain "Some schema" arbitrary: schema origin rule: follow_chain.induct)
  case (1 D chain schema)
  show ?case
  proof (cases "is_reference schema")
    case True
    then have "map_of schema ''$ref'' \<noteq> None" by (auto simp: is_reference_def)
    with 1(2) obtain name where name: "schema_ref_name D schema = Inr name" "name \<notin> set chain"
      and rest: "res_bind (def_of D name) (follow_chain D (chain @ [name])) = Inr ()"
      by (auto simp: follow_chain.simps[of D chain] res_bind_Inr_iff split: if_splits)
    from name(1) obtain target where target: "def_of D name = Inr (Some target)" "resolve_ref D schema = Inr target"
      by (rule named_reference)
    with rest have "follow_chain D (chain @ [name]) (Some target) = Inr ()" by simp
    from 1(1)[OF refl _ name target(1) this] \<open>map_of schema ''$ref'' \<noteq> None\<close>
    obtain r where "dereference_at D (Some name, target) = Some r" by blast
    with True name(1) target(2) show ?thesis by (simp add: dereference_at.simps[of D "(origin, schema)"])
  next
    case False
    then show ?thesis by (simp add: dereference_at.simps[of D "(origin, schema)"])
  qed
qed

lemma references_end_at:
  assumes "check_reference_chains D = Inr ()"
  shows "\<exists>r. dereference_at D (origin, schema) = Some r"
proof (cases "is_reference schema")
  case False
  then show ?thesis by (simp add: dereference_at.simps[of D "(origin, schema)"])
next
  case True
  show ?thesis
  proof (cases "schema_ref_name D schema")
    case (Inl e)
    with True show ?thesis by (simp add: dereference_at.simps[of D "(origin, schema)"])
  next
    case (Inr name)
    from Inr obtain ds target where ds: "defs_of D = Inr ds" and named: "name \<in> fst ` set ds"
      and target: "def_of D name = Inr (Some target)" "resolve_ref D schema = Inr target"
      by (rule named_reference)
    from target(1) ds have at: "map_of ds name = Some (EObject target)"
      by (auto simp: def_of_def bind_eq_Some_conv elim!: e_object.elims)
    from assms ds obtain us where "list_all2 (\<lambda>(name, schema) u. follow_chain D [name] (e_object schema) = Inr u) ds us"
      by (auto simp: check_reference_chains_def res_bind_Inr_iff res_collect_Inr_iff case_prod_unfold)
    with map_of_SomeD[OF at] have "follow_chain D [name] (Some target) = Inr ()"
      by (fastforce simp: list_all2_conv_all_nth in_set_conv_nth)
    from chain_ends[OF this] obtain r where "dereference_at D (Some name, target) = Some r" by blast
    with True Inr target(2) show ?thesis
      by (simp add: dereference_at.simps[of D "(origin, schema)"])
  qed
qed


lemma references_end: "check_reference_chains D = Inr () \<Longrightarrow> \<exists>r. dereference D schema = Some r"
  unfolding dereference_def by (rule references_end_at)

end
