(* ===== verification/Schemas.thy ===== *)
theory Schemas
  imports References
begin

text \<open>
  The schema subset of \<open>crates/clerkenwell-codegen/src/validate.rs\<close>: \<open>check_schema_node\<close> and what it calls. A check is told
  where in the definition it stands, \<open>context\<close>, only where that decides the check.
\<close>

section \<open>Keywords\<close>

definition type_schema_keys :: "string list" where
  "type_schema_keys =
     [''$ref'', ''additionalProperties'', ''description'', ''enum'', ''items'', ''properties'', ''required'', ''title'', ''type'',
      ''discriminator'', ''oneOf'']"

definition validation_schema_keys :: "string list" where
  "validation_schema_keys = [''const'', ''minLength'', ''minimum'', ''maximum'']"

definition annotation_schema_keys :: "string list" where
  "annotation_schema_keys = [''default'']"

definition schema_keywords :: "string list" where
  "schema_keywords = type_schema_keys @ validation_schema_keys @ annotation_schema_keys"

definition is_integral :: "ejson \<Rightarrow> bool" where
  "is_integral v = (case e_f64 v of None \<Rightarrow> False | Some n \<Rightarrow> of_int \<lfloor>n\<rfloor> = n)"

definition refuse_if :: "bool \<Rightarrow> unit checked" where
  "refuse_if b = (if b then Inl Refused else Inr ())"

lemma refuse_if_ok [simp]: "refuse_if b = Inr u \<longleftrightarrow> \<not> b"
  by (simp add: refuse_if_def)

definition check_applicable_keywords :: "eobject \<Rightarrow> string list \<Rightarrow> unit checked" where
  "check_applicable_keywords schema types =
     refuse_if (\<exists>(keyword, shaped) \<in> set [(''properties'', ''object''), (''additionalProperties'', ''object''),
         (''required'', ''object''), (''items'', ''array'')].
       map_of schema keyword \<noteq> None \<and> shaped \<notin> set types)"

text \<open>Whether a constant is a value of a type.\<close>

definition const_fits :: "ejson \<Rightarrow> string \<Rightarrow> bool" where
  "const_fits constant member =
     (if member = ''integer'' then is_integral constant
      else if member = ''number'' then e_f64 constant \<noteq> None
      else if member = ''string'' then e_str constant \<noteq> None
      else if member = ''boolean'' then e_bool constant \<noteq> None
      else False)"

definition check_const :: "eobject \<Rightarrow> string list \<Rightarrow> unit checked" where
  "check_const schema types =
     (case map_of schema ''const'' of
        None \<Rightarrow> Inr ()
      | Some constant \<Rightarrow>
          res_bind (refuse_if (map_of schema ''enum'' \<noteq> None)) (\<lambda>_.
          res_bind
            (case types of
               [single] \<Rightarrow>
                 res_bind (refuse_if (single \<notin> set primitive_types)) (\<lambda>_.
                 res_bind (refuse_if (\<not> const_fits constant (if single = ''integer'' then ''number'' else single))) (\<lambda>_.
                 refuse_if (\<not> const_fits constant single)))
             | _ \<Rightarrow> refuse_if (\<not> list_ex (const_fits constant) types)) (\<lambda>_.
          let representable = (case e_f64 constant of None \<Rightarrow> True | Some v \<Rightarrow> - (2 ^ 63) \<le> v \<and> v < 2 ^ 63) in
          refuse_if (''integer'' \<in> set types \<and> ''number'' \<notin> set types \<and> \<not> representable))))"

definition check_validation_keywords :: "eobject \<Rightarrow> string list \<Rightarrow> unit checked" where
  "check_validation_keywords schema types =
     (let numeric = (''integer'' \<in> set types \<or> ''number'' \<in> set types);
          bound = (\<lambda>key. Option.bind (map_of schema key) e_f64) in
      res_bind (refuse_if (\<exists>name\<in>{''minimum'', ''maximum''}.
        map_of schema name \<noteq> None \<and> (\<not> numeric \<or> bound name = None))) (\<lambda>_.
      res_bind (refuse_if (case (bound ''minimum'', bound ''maximum'') of
          (Some low, Some high) \<Rightarrow> high < low | _ \<Rightarrow> False)) (\<lambda>_.
      res_bind (check_const schema types) (\<lambda>_.
      res_bind (refuse_if (case map_of schema ''const'' of
          None \<Rightarrow> False
        | Some constant \<Rightarrow> \<exists>key\<in>{''minLength'', ''minimum'', ''maximum''}.
            \<not> value_meets_bounds (obj_insert_some key (map_of schema key) []) constant)) (\<lambda>_.
      res_bind (refuse_if (case map_of schema ''minLength'' of
          None \<Rightarrow> False
        | Some least \<Rightarrow> ''string'' \<notin> set types \<or> \<not> is_integral least
            \<or> (case e_f64 least of None \<Rightarrow> False | Some n \<Rightarrow> n < 0))) (\<lambda>_.
      refuse_if (case Option.bind (map_of schema ''enum'') e_array of
          None \<Rightarrow> False
        | Some values \<Rightarrow> \<not> list_ex (value_meets_bounds schema) values)))))))"

definition check_default_value :: "eobject \<Rightarrow> unit checked" where
  "check_default_value schema =
     (case map_of schema ''default'' of
        None \<Rightarrow> Inr ()
      | Some v \<Rightarrow>
          res_bind (primitive_union_types schema) (\<lambda>union.
          case union of
            Some members \<Rightarrow> refuse_if (\<not> list_ex (const_fits v) members)
          | None \<Rightarrow>
              let kind = opt_str schema ''type'';
                  matches_type =
                    (if kind = Some ''array'' then e_array v \<noteq> None
                     else if kind = Some ''object'' then e_object v \<noteq> None
                     else case kind of None \<Rightarrow> False | Some t \<Rightarrow> const_fits v t) in
              res_bind (refuse_if (\<not> matches_type)) (\<lambda>_.
              refuse_if (case Option.bind (map_of schema ''enum'') e_array of
                  None \<Rightarrow> False
                | Some values \<Rightarrow> \<not> list_ex (\<lambda>w. ejson_same w v) values))))"

text \<open>\<open>colliding\<close>: the names seen, with the identifiers they generate.\<close>

fun colliding_from ::
  "(string \<times> string) list \<Rightarrow> (string \<Rightarrow> string) \<Rightarrow> string list \<Rightarrow> (string \<times> string \<times> string) option"
where
  "colliding_from seen generate [] = None"
| "colliding_from seen generate (name # names) =
     (case map_of seen (generate name) of
        Some previous \<Rightarrow> Some (previous, name, generate name)
      | None \<Rightarrow> colliding_from ((generate name, name) # seen) generate names)"

definition colliding :: "string list \<Rightarrow> (string \<Rightarrow> string) \<Rightarrow> (string \<times> string \<times> string) option" where
  "colliding names generate = colliding_from [] generate names"

lemma colliding_from_None:
  "colliding_from seen generate names = None \<longleftrightarrow>
     distinct (map generate names) \<and> generate ` set names \<inter> fst ` set seen = {}"
  by (induction seen generate names rule: colliding_from.induct)
    (auto simp: map_of_eq_None_iff split: option.splits dest!: map_of_SomeD intro: rev_image_eqI)

lemma colliding_None: "colliding names generate = None \<longleftrightarrow> distinct (map generate names)"
  by (simp add: colliding_def colliding_from_None)

section \<open>Open objects\<close>

text \<open>What \<open>admits\<close> comes to short of a reference: an answer, or two schemas to compare instead.\<close>

datatype admission = Settled bool | Compare eobject eobject

definition schema_types :: "eobject \<Rightarrow> string list option checked" where
  "schema_types schema =
     res_bind (primitive_union_types schema) (\<lambda>union.
     Inr (case union of Some types \<Rightarrow> Some types | None \<Rightarrow> map_option (\<lambda>t. [t]) (opt_str schema ''type'')))"

definition listed_values :: "eobject \<Rightarrow> ejson list option" where
  "listed_values member =
     (case map_of member ''enum'' of
        Some (EArray values) \<Rightarrow> Some (filter (value_meets_bounds member) values)
      | _ \<Rightarrow> map_option (\<lambda>c. [c]) (map_of member ''const''))"

text \<open>A bound of a schema whose numbers are integers is the integer it leaves.\<close>

definition integral_bound :: "string \<Rightarrow> string list \<Rightarrow> rat \<Rightarrow> rat" where
  "integral_bound bound types v =
     (if bound = ''minLength'' \<or> \<not> (''number'' \<notin> set types \<and> ''integer'' \<in> set types) then v
      else if bound = ''minimum'' then of_int \<lceil>v\<rceil> else of_int \<lfloor>v\<rfloor>)"

definition bound_held :: "eobject \<Rightarrow> string list \<Rightarrow> eobject \<Rightarrow> string list \<Rightarrow> string \<Rightarrow> bool" where
  "bound_held values values_types member member_types bound =
     (let applies = (if bound = ''minLength'' then ''string'' \<in> set member_types
            else ''integer'' \<in> set member_types \<or> ''number'' \<in> set member_types) in
      case Option.bind (map_of values bound) e_f64 of
        None \<Rightarrow> True
      | Some limit \<Rightarrow> \<not> applies \<or>
          (case Option.bind (map_of member bound) e_f64 of
             None \<Rightarrow> False
           | Some v \<Rightarrow>
               let least = integral_bound bound values_types limit; held = integral_bound bound member_types v in
               if bound = ''maximum'' then held \<le> least else least \<le> held))"

text \<open>Whether the types, the listed values, the constant and the bounds of a member are admitted.\<close>

definition admits_values :: "eobject \<Rightarrow> string list \<Rightarrow> eobject \<Rightarrow> string list \<Rightarrow> bool" where
  "admits_values values values_types member member_types =
     (let member_values = listed_values member;
          integral_values = (case member_values of None \<Rightarrow> False | Some listed \<Rightarrow> list_all is_integral listed);
          typed = list_all (\<lambda>m. list_ex (\<lambda>v. v = m \<or> v = ''number'' \<and> m = ''integer''
              \<or> v = ''integer'' \<and> m = ''number'' \<and> integral_values) values_types) member_types;
          enumerated = (case Option.bind (map_of values ''enum'') e_array of
              None \<Rightarrow> True
            | Some admitted \<Rightarrow>
                (case Option.bind (map_of member ''enum'') e_array of
                   None \<Rightarrow> False
                 | Some listed \<Rightarrow> list_all (\<lambda>v. list_ex (\<lambda>w. ejson_same w v) admitted) listed));
          constant = (case map_of values ''const'' of
              None \<Rightarrow> True
            | Some c \<Rightarrow> (case member_values of None \<Rightarrow> False | Some listed \<Rightarrow> list_all (\<lambda>v. ejson_same v c) listed));
          bounded = (case member_values of
              Some listed \<Rightarrow> list_all (value_meets_bounds values) listed
            | None \<Rightarrow> list_all (bound_held values values_types member member_types) [''minimum'', ''maximum'', ''minLength'']) in
      typed \<and> enumerated \<and> constant \<and> bounded)"

definition admits_here :: "eobject \<Rightarrow> eobject \<Rightarrow> admission checked" where
  "admits_here values member =
     res_bind (schema_types member) (\<lambda>member_typed.
     case member_typed of None \<Rightarrow> Inr (Settled False) | Some member_types \<Rightarrow>
     res_bind (schema_types values) (\<lambda>values_typed.
     case values_typed of None \<Rightarrow> Inr (Settled False) | Some values_types \<Rightarrow>
     if \<not> admits_values values values_types member member_types then Inr (Settled False)
     else if length values_types > 1 \<or> length member_types > 1 then Inr (Settled True)
     else if hd values_types = ''array'' then
       (case (object_at values ''items'', object_at member ''items'') of
          (Some v, Some m) \<Rightarrow> Inr (Compare v m) | _ \<Rightarrow> Inr (Settled False))
     else if hd values_types = ''object'' then
       (case (record_values_schema values, record_values_schema member) of
          (Some v, Some m) \<Rightarrow> Inr (Compare v m) | _ \<Rightarrow> Inr (Settled False))
     else Inr (Settled True)))"

partial_function (option) admits ::
  "exponential \<Rightarrow> eobject \<Rightarrow> eobject \<Rightarrow> eobject \<Rightarrow> (string \<times> string) list \<Rightarrow> bool walk"
where
  "admits sci D values member assumed =
     (if has_type values ''json'' then walk_ok True
      else if opt_str values ''$ref'' \<noteq> None \<and> opt_str values ''$ref'' = opt_str member ''$ref'' then walk_ok True
      else if opt_str values ''$ref'' \<noteq> None \<or> opt_str member ''$ref'' \<noteq> None then
        (if (stringify sci (EObject values), stringify sci (EObject member)) \<in> set assumed then walk_ok True
         else walk_bind (dereference D values) (\<lambda>v. walk_bind (dereference D member) (\<lambda>m.
           if fst v \<noteq> None \<and> fst v = fst m then walk_ok True
           else admits sci D (snd v) (snd m)
             ((stringify sci (EObject values), stringify sci (EObject member)) # assumed))))
      else walk_bind (Some (admits_here values member)) (\<lambda>here.
        case here of Settled b \<Rightarrow> walk_ok b | Compare v m \<Rightarrow> admits sci D v m assumed))"

declare admits.simps [code]

definition other_members_field :: string where
  "other_members_field = ''other_members''"

definition check_open_object :: "exponential \<Rightarrow> eobject \<Rightarrow> eobject \<Rightarrow> eobject \<Rightarrow> unit walk" where
  "check_open_object sci D schema other_members =
     (case object_at schema ''properties'' of
        None \<Rightarrow> walk_refuse
      | Some properties \<Rightarrow>
          if properties = [] then walk_refuse
          else walk_each (\<lambda>(name, v).
            if rust_field_identifier name = other_members_field then walk_refuse
            else case e_object v of
              None \<Rightarrow> walk_refuse
            | Some schema \<Rightarrow> walk_bind (admits sci D other_members schema []) (\<lambda>admitted. Some (refuse_if (\<not> admitted)))) properties)"

section \<open>Schema nodes\<close>

definition enum_ok :: "eobject \<Rightarrow> bool" where
  "enum_ok schema =
     (case map_of schema ''enum'' of
        None \<Rightarrow> True
      | Some v \<Rightarrow>
          (case strs_of v of
             None \<Rightarrow> False
           | Some values \<Rightarrow> values \<noteq> [] \<and> has_type schema ''string'' \<and> colliding values pascal_identifier = None))"

text \<open>\<open>check_tagged_union\<close> up to its variants: the discriminator and the variants.\<close>

definition union_shape :: "string \<Rightarrow> eobject \<Rightarrow> (string \<times> eobject) checked" where
  "union_shape context schema =
     (let named = (if take 6 context = ''$defs.'' then CHR ''.'' \<notin> set (drop 6 context) else False) in
      res_bind (refuse_if (\<not> named)) (\<lambda>_.
      res_bind (refuse_if (\<not> has_type schema ''object'')) (\<lambda>_.
      res_bind (ok_or Refused (opt_str schema ''discriminator'')) (\<lambda>discriminator.
      res_bind (refuse_if (js_trim discriminator = [])) (\<lambda>_.
      res_bind (refuse_if (map_of schema ''properties'' \<noteq> None \<or> map_of schema ''additionalProperties'' \<noteq> None)) (\<lambda>_.
      res_bind (ok_or Refused (object_at schema ''oneOf'')) (\<lambda>variants.
      res_bind (refuse_if (variants = [])) (\<lambda>_.
      res_bind (refuse_if (colliding (map fst variants) pascal_identifier \<noteq> None)) (\<lambda>_.
      Inr (discriminator, variants))))))))))"

definition variant_shape :: "string \<Rightarrow> string \<Rightarrow> ejson \<Rightarrow> unit checked" where
  "variant_shape discriminator tag variant =
     res_bind (refuse_if (js_trim tag = [])) (\<lambda>_.
     res_bind (ok_or Refused (e_object variant)) (\<lambda>schema.
     res_bind (refuse_if (\<not> has_type schema ''object'')) (\<lambda>_.
     res_bind (refuse_if (case object_at schema ''properties'' of
         None \<Rightarrow> False | Some properties \<Rightarrow> discriminator \<in> fst ` set properties)) (\<lambda>_.
     refuse_if (object_at schema ''additionalProperties'' \<noteq> None)))))"

lemma size_object_at: "object_at schema key = Some m \<Longrightarrow> size (EObject m) < size (EObject schema)"
  unfolding object_at_def
  by (auto simp: bind_eq_Some_conv elim!: e_object.elims dest!: map_of_SomeD size_ejson_member)

lemma size_union_shape: "union_shape where_at schema = Inr (d, variants) \<Longrightarrow> size (EObject variants) < size (EObject schema)"
  unfolding union_shape_def Let_def by (auto simp: res_bind_Inr_iff dest: size_object_at)

function check_schema_node :: "exponential \<Rightarrow> eobject \<Rightarrow> string \<Rightarrow> ejson \<Rightarrow> unit walk" where
  "check_schema_node sci D context node =
     (case e_object node of
        None \<Rightarrow> walk_refuse
      | Some schema \<Rightarrow>
          if \<not> list_all (\<lambda>(key, _). key \<in> set schema_keywords) schema then walk_refuse
          else if map_of schema ''$ref'' \<noteq> None then
            if \<not> list_all (\<lambda>(key, _). key \<in> {''$ref'', ''default'', ''description'', ''title''}) schema then walk_refuse
            else
              walk_bind (Some (schema_ref_name D schema)) (\<lambda>_.
              case map_of schema ''default'' of
                None \<Rightarrow> walk_ok ()
              | Some v \<Rightarrow>
                  walk_bind (dereference D schema) (\<lambda>referenced.
                  Some (check_default_value (obj_insert ''default'' v (snd referenced)))))
          else if \<not> enum_ok schema then walk_refuse
          else if map_of schema ''oneOf'' \<noteq> None \<or> map_of schema ''discriminator'' \<noteq> None then
            (case union_shape context schema of
               Inl e \<Rightarrow> Some (Inl e)
             | Inr (discriminator, variants) \<Rightarrow>
                 walk_each (\<lambda>variant.
                   walk_bind (Some (variant_shape discriminator (fst variant) (snd variant))) (\<lambda>_.
                   check_schema_node sci D (context @ ''.oneOf.'' @ fst variant) (snd variant))) variants)
          else
            walk_bind (Some (primitive_union_types schema)) (\<lambda>union.
            case union of
              Some members \<Rightarrow>
                walk_bind (Some (check_applicable_keywords schema members)) (\<lambda>_.
                walk_bind (Some (check_validation_keywords schema members)) (\<lambda>_.
                Some (check_default_value schema)))
            | None \<Rightarrow>
                walk_bind (Some (ok_or Refused (opt_str schema ''type''))) (\<lambda>kind.
                walk_bind (Some (check_applicable_keywords schema [kind])) (\<lambda>_.
                walk_bind (Some (check_validation_keywords schema [kind])) (\<lambda>_.
                walk_bind (Some (check_default_value schema)) (\<lambda>_.
                if kind = ''object'' then
                  if object_at schema ''additionalProperties'' = None
                    \<and> map_of schema ''additionalProperties'' \<noteq> Some (EBool False) then walk_refuse
                  else
                    walk_bind
                      (case object_at schema ''additionalProperties'' of
                         None \<Rightarrow> walk_ok False
                       | Some other \<Rightarrow>
                           walk_bind (check_schema_node sci D (context @ ''.additionalProperties'') (EObject other)) (\<lambda>_.
                           if map_of schema ''properties'' = None
                           then if map_of schema ''required'' \<noteq> None then walk_refuse else walk_ok True
                           else walk_bind (check_open_object sci D schema other) (\<lambda>_. walk_ok False))) (\<lambda>is_record.
                    if is_record then walk_ok ()
                    else case object_at schema ''properties'' of
                      None \<Rightarrow> walk_refuse
                    | Some properties \<Rightarrow>
                        walk_bind (Some (read_string_array (map_of schema ''required''))) (\<lambda>required.
                        if \<not> set required \<subseteq> fst ` set properties then walk_refuse
                        else if colliding (map fst properties) rust_field_identifier \<noteq> None then walk_refuse
                        else walk_each (\<lambda>property.
                          check_schema_node sci D (context @ ''.properties.'' @ fst property) (snd property)) properties))
                else if kind = ''array'' then
                  (case object_at schema ''items'' of
                     None \<Rightarrow> walk_refuse
                   | Some items \<Rightarrow> check_schema_node sci D (context @ ''.items'') (EObject items))
                else if kind \<in> {''string'', ''boolean'', ''integer'', ''number'', ''json''} then walk_ok ()
                else walk_refuse))))))"
  by pat_completeness auto

termination
  by (relation "measure (\<lambda>(sci, D, context, node). size node)")
    (auto elim!: e_object.elims dest!: size_object_at size_union_shape size_ejson_member)

declare check_schema_node.simps [simp del]

end
