(* ===== verification/Validation.thy ===== *)
theory Validation
  imports Schemas
begin

text \<open>
  The semantic checks of \<open>crates/clerkenwell-codegen/src/validate.rs\<close>, in the order \<open>check_semantics\<close> makes them, and the names
  the generator registers for its output (\<open>rust.rs\<close>, \<open>typescript.rs\<close>).
\<close>

section \<open>Materialisation\<close>

definition truthy :: "string option \<Rightarrow> bool" where
  "truthy v \<longleftrightarrow> v \<noteq> None \<and> v \<noteq> Some []"

definition contract_property :: "eobject \<Rightarrow> string \<Rightarrow> eobject checked" where
  "contract_property schema property =
     ok_or Refused (if has_type schema ''object''
       then Option.bind (object_at schema ''properties'') (\<lambda>properties. object_at properties property) else None)"

definition check_schema_property :: "eobject \<Rightarrow> eobject \<Rightarrow> string \<Rightarrow> unit checked" where
  "check_schema_property D schema property =
     res_bind (if map_of schema ''$ref'' = None then Inr schema else resolve_ref D schema) (\<lambda>resolved.
     if has_type resolved ''json'' then Inr ()
     else res_bind (contract_property resolved property) (\<lambda>_. Inr ()))"

definition array_items :: "eobject \<Rightarrow> eobject option" where
  "array_items schema = (if has_type schema ''array'' then object_at schema ''items'' else None)"

definition check_array_item_property :: "eobject \<Rightarrow> eobject \<Rightarrow> string \<Rightarrow> unit checked" where
  "check_array_item_property D schema property =
     res_bind (ok_or Refused (array_items schema)) (\<lambda>items. check_schema_property D items property)"

definition materialization_patch_kinds :: "string \<Rightarrow> string list checked" where
  "materialization_patch_kinds strategy =
     (if strategy = ''keyedCollection'' then Inr [''remove'', ''reset'', ''upsert'']
      else if strategy = ''sequencedText'' then Inr [''output'', ''reset'']
      else if strategy = ''replaceOrRemove'' then Inr [''remove'', ''replace'']
      else if strategy = ''replace'' then Inr [''replace'']
      else if strategy = ''reset'' then Inr [''reset'']
      else Inl Panicked)"

text \<open>A reference is followed by its last path segment.\<close>

definition follow_last :: "eobject \<Rightarrow> eobject \<Rightarrow> eobject option checked" where
  "follow_last D schema =
     (case opt_str schema ''$ref'' of
        Some text \<Rightarrow> def_of D (case rsplit_once (CHR ''/'') text of None \<Rightarrow> text | Some (_, name) \<Rightarrow> name)
      | None \<Rightarrow> Inr (Some schema))"

definition check_update_fields ::
  "exponential \<Rightarrow> eobject \<Rightarrow> eobject \<Rightarrow> eobject \<Rightarrow> string \<Rightarrow> string \<Rightarrow> unit checked"
where
  "check_update_fields sci D snapshot_schema patch_schema update_field updates_field =
     res_bind (contract_property snapshot_schema update_field) (\<lambda>target.
     res_bind (contract_property patch_schema updates_field) (\<lambda>changes.
     res_bind (follow_last D target) (\<lambda>target_schema.
     res_bind (follow_last D changes) (\<lambda>changes_schema.
     res_bind (ok_or Refused (Option.bind target_schema (\<lambda>s. object_at s ''properties''))) (\<lambda>target_properties.
     res_bind (ok_or Refused (Option.bind changes_schema (\<lambda>s. object_at s ''properties''))) (\<lambda>changes_properties.
     refuse_if (\<not> list_all (\<lambda>(key, v).
       map_option (stringify sci) (map_of target_properties key) = Some (stringify sci v)) changes_properties)))))))"

definition property_names :: "eobject \<Rightarrow> string list" where
  "property_names schema = (case object_at schema ''properties'' of None \<Rightarrow> [] | Some properties \<Rightarrow> map fst properties)"

definition check_patch_matches_snapshot :: "eobject \<Rightarrow> eobject \<Rightarrow> string list \<Rightarrow> unit checked" where
  "check_patch_matches_snapshot snapshot_schema patch_schema omit_fields =
     refuse_if (sort (property_names snapshot_schema) \<noteq>
       sort (filter (\<lambda>p. p \<noteq> ''kind'' \<and> p \<notin> set omit_fields) (property_names patch_schema)))"

definition check_snapshot_mode :: "eobject \<Rightarrow> eobject \<Rightarrow> eobject \<Rightarrow> unit checked" where
  "check_snapshot_mode snapshot_schema patch_schema plan =
     (if opt_str plan ''snapshotMode'' = Some ''field''
      then res_bind (str_field plan ''snapshotField'') (\<lambda>field.
        res_bind (contract_property patch_schema field) (\<lambda>_. Inr ()))
      else
        res_bind (opt_strs_field plan ''snapshotOmitFields'') (\<lambda>omitted.
        let omit_fields = (case omitted of None \<Rightarrow> [] | Some fields \<Rightarrow> fields) in
        res_bind (res_collect (\<lambda>field.
          if field = ''kind'' then Inl Refused else contract_property patch_schema field) omit_fields) (\<lambda>_.
        check_patch_matches_snapshot snapshot_schema patch_schema omit_fields)))"

definition check_keyed_collection :: "eobject \<Rightarrow> eobject \<Rightarrow> eobject \<Rightarrow> eobject \<Rightarrow> unit checked" where
  "check_keyed_collection D snapshot_schema patch_schema plan =
     res_bind (str_field plan ''collectionField'') (\<lambda>collection_field.
     res_bind (str_field plan ''itemIdentityField'') (\<lambda>identity.
     res_bind (contract_property snapshot_schema collection_field) (\<lambda>snapshot_collection.
     res_bind (contract_property patch_schema collection_field) (\<lambda>patch_collection.
     res_bind (str_field plan ''itemField'') (\<lambda>item_field.
     res_bind (contract_property patch_schema item_field) (\<lambda>patch_item.
     res_bind (str_field plan ''patchIdentityField'') (\<lambda>patch_identity.
     res_bind (contract_property patch_schema patch_identity) (\<lambda>_.
     res_bind (check_array_item_property D snapshot_collection identity) (\<lambda>_.
     res_bind (check_array_item_property D patch_collection identity) (\<lambda>_.
     check_schema_property D patch_item identity))))))))))"

definition check_sequenced_text :: "eobject \<Rightarrow> eobject \<Rightarrow> eobject \<Rightarrow> eobject \<Rightarrow> unit checked" where
  "check_sequenced_text D snapshot_schema patch_schema plan =
     res_bind (str_field plan ''collectionField'') (\<lambda>collection_field.
     res_bind (contract_property snapshot_schema collection_field) (\<lambda>snapshot_collection.
     res_bind (str_field plan ''itemIdentityField'') (\<lambda>identity.
     res_bind (check_array_item_property D snapshot_collection identity) (\<lambda>_.
     res_bind (str_field plan ''patchIdentityField'') (\<lambda>patch_identity.
     res_bind (contract_property patch_schema patch_identity) (\<lambda>_.
     res_bind (str_field plan ''patchOutputField'') (\<lambda>patch_output.
     res_bind (contract_property patch_schema patch_output) (\<lambda>_. Inr ()))))))))"

definition check_replace_or_remove ::
  "exponential \<Rightarrow> eobject \<Rightarrow> eobject \<Rightarrow> eobject \<Rightarrow> eobject \<Rightarrow> unit checked"
where
  "check_replace_or_remove sci D snapshot_schema patch_schema plan =
     res_bind (refuse_if (truthy (opt_str plan ''updateField'') \<noteq> truthy (opt_str plan ''updatesField''))) (\<lambda>_.
     res_bind
       (case (opt_str plan ''updateField'', opt_str plan ''updatesField'') of
          (Some update_field, Some updates_field) \<Rightarrow>
            if update_field \<noteq> [] \<and> updates_field \<noteq> []
            then check_update_fields sci D snapshot_schema patch_schema update_field updates_field else Inr ()
        | _ \<Rightarrow> Inr ()) (\<lambda>_.
     res_bind (check_snapshot_mode snapshot_schema patch_schema plan) (\<lambda>_.
     if opt_str plan ''removeMode'' = Some ''nullField''
     then res_bind (str_field plan ''removeField'') (\<lambda>field.
       res_bind (contract_property snapshot_schema field) (\<lambda>_. Inr ()))
     else Inr ())))"

definition check_materialization :: "exponential \<Rightarrow> eobject \<Rightarrow> eobject \<Rightarrow> unit checked" where
  "check_materialization sci D projected =
     res_bind (snapshot_of projected) (\<lambda>snapshot_ref.
     res_bind (resolve_ref D snapshot_ref) (\<lambda>snapshot_schema.
     res_bind (patch_of projected) (\<lambda>patch_ref.
     res_bind (resolve_ref D patch_ref) (\<lambda>patch_schema.
     res_bind (read_string_array (Option.bind (Option.bind (object_at patch_schema ''properties'')
       (\<lambda>properties. object_at properties ''kind'')) (\<lambda>kind. map_of kind ''enum''))) (\<lambda>kinds.
     res_bind (materialization_of projected) (\<lambda>plan.
     res_bind (strategy_of plan) (\<lambda>strategy.
     res_bind (materialization_patch_kinds strategy) (\<lambda>patch_kinds.
     res_bind (refuse_if (sort kinds \<noteq> sort (patch_kinds
       @ (if strategy = ''replaceOrRemove'' \<and> truthy (opt_str plan ''updateField'') then [''update''] else [])))) (\<lambda>_.
     if strategy = ''keyedCollection'' then check_keyed_collection D snapshot_schema patch_schema plan
     else if strategy = ''sequencedText'' then check_sequenced_text D snapshot_schema patch_schema plan
     else if strategy = ''replaceOrRemove'' then check_replace_or_remove sci D snapshot_schema patch_schema plan
     else if strategy = ''replace'' then check_snapshot_mode snapshot_schema patch_schema plan
     else check_patch_matches_snapshot snapshot_schema patch_schema [])))))))))"

section \<open>Collaborative entities\<close>

definition check_collaboration_storage :: "eobject \<Rightarrow> unit checked" where
  "check_collaboration_storage stored =
     res_bind (str_field stored ''kind'') (\<lambda>kind.
     let present = (\<lambda>key. truthy (opt_str stored key));
         required = (\<lambda>key. refuse_if (\<not> present key)) in
     if kind = ''scalar'' then
       res_bind (refuse_if (\<not> present ''container'' \<and> \<not> present ''containerTemplate'')) (\<lambda>_. required ''key'')
     else if kind \<in> {''text'', ''orderedList'', ''structuredList'', ''structuredMap'', ''structuredDocument''} then
       refuse_if (\<not> present ''container'' \<and> \<not> present ''containerTemplate'')
     else if kind = ''keyedSequence'' then
       res_bind (required ''identityPath'') (\<lambda>_. res_bind (required ''orderContainer'') (\<lambda>_.
       required ''itemContainerTemplate''))
     else if kind \<in> {''derivedIdentity'', ''derivedRevision''} then Inr ()
     else Inl Panicked)"

definition addressable_members :: "eobject \<Rightarrow> eobject option" where
  "addressable_members schema =
     (if \<not> has_type schema ''object'' \<or> other_members_schema schema \<noteq> None then None
      else object_at schema ''properties'')"

record presence =
  pr_required :: bool
  pr_required_in_parent :: bool

text \<open>\<open>collaboration_schema_at\<close>: the rest of the path, from a schema.\<close>

fun schema_along :: "eobject \<Rightarrow> string list \<Rightarrow> presence \<Rightarrow> node \<Rightarrow> (presence \<times> node) option walk" where
  "schema_along D [] found schema = walk_ok (Some (found, schema))"
| "schema_along D (segment # path) found schema =
     walk_bind (dereference_at D schema) (\<lambda>schema.
     if segment = ''*'' then
       (case array_items (snd schema) of
          None \<Rightarrow> walk_ok None
        | Some items \<Rightarrow> walk_bind (dereference D items) (schema_along D path found))
     else
       (case Option.bind (addressable_members (snd schema)) (\<lambda>properties. object_at properties segment) of
          None \<Rightarrow> walk_ok None
        | Some property \<Rightarrow>
            walk_bind (Some (read_string_array (map_of (snd schema) ''required''))) (\<lambda>required.
            let in_parent = (segment \<in> set required) in
            walk_bind (dereference D property) (schema_along D path
              \<lparr>pr_required = pr_required found \<and> in_parent, pr_required_in_parent = in_parent\<rparr>))))"

definition collaboration_schema_at :: "eobject \<Rightarrow> eobject \<Rightarrow> string \<Rightarrow> (presence \<times> node) option walk" where
  "collaboration_schema_at D origin field_path =
     walk_bind (dereference D origin)
       (schema_along D (split_on (CHR ''.'') field_path) \<lparr>pr_required = True, pr_required_in_parent = True\<rparr>)"

definition resolve_collaboration_schema_path :: "eobject \<Rightarrow> eobject \<Rightarrow> string \<Rightarrow> presence option walk" where
  "resolve_collaboration_schema_path D origin field_path =
     walk_bind (collaboration_schema_at D origin field_path) (\<lambda>found. walk_ok (map_option fst found))"

definition collaboration_path_presence :: "eobject \<Rightarrow> string \<Rightarrow> string \<Rightarrow> presence option walk" where
  "collaboration_path_presence D name path =
     walk_bind (Some (res_bind (entity_named D name) (ok_or Panicked))) (\<lambda>declared.
     walk_bind (Some (res_bind (entity_schema (snd declared)) (resolve_ref D))) (\<lambda>origin.
     resolve_collaboration_schema_path D origin path))"

text \<open>
  \<open>collect_collaboration_schema_paths\<close>, an \<open>IndexSet\<close>: the paths in the order they are found, each once. A schema that
  is reached again from itself gives paths without end.
\<close>

definition path_under :: "string \<Rightarrow> string \<Rightarrow> string" where
  "path_under base name = (if base = [] then name else base @ ''.'' @ name)"

partial_function (option) collect_collaboration_schema_paths ::
  "eobject \<Rightarrow> eobject \<Rightarrow> string \<Rightarrow> string list walk"
where
  "collect_collaboration_schema_paths D raw_schema base =
     walk_bind (dereference D raw_schema) (\<lambda>schema.
     case array_items (snd schema) of
       Some items \<Rightarrow>
         walk_bind (dereference D items) (\<lambda>item.
         if has_type (snd item) ''object''
         then walk_bind (collect_collaboration_schema_paths D (snd item) (base @ ''.*'')) (\<lambda>paths.
           walk_ok (index_set (base # paths)))
         else walk_ok [base])
     | None \<Rightarrow>
         (case addressable_members (snd schema) of
            Some properties \<Rightarrow>
              walk_bind (walk_collect (\<lambda>property.
                case e_object (snd property) of
                  None \<Rightarrow> walk_ok []
                | Some v \<Rightarrow> collect_collaboration_schema_paths D v (path_under base (fst property))) properties) (\<lambda>paths.
              walk_ok (index_set (concat paths)))
          | None \<Rightarrow> walk_ok [base]))"

declare collect_collaboration_schema_paths.simps [code]

section \<open>Fields of a collaborative entity\<close>

record field_view =
  fv_path :: string
  fv_raw :: eobject
  fv_kind :: string
  fv_codec :: string

definition field_views :: "eobject \<Rightarrow> field_view list checked" where
  "field_views raw =
     res_bind (field_entries raw) (res_collect (\<lambda>(path, field).
       res_bind (storage_kind_of field) (\<lambda>kind.
       res_bind (field_codec_of field) (\<lambda>codec.
       Inr \<lparr>fv_path = path, fv_raw = field, fv_kind = kind, fv_codec = codec\<rparr>))))"

definition check_value_schema :: "eobject \<Rightarrow> field_view \<Rightarrow> eobject \<Rightarrow> node \<Rightarrow> unit walk" where
  "check_value_schema D field schema field_schema =
     walk_bind (Some (schema_ref_name D schema)) (\<lambda>_.
     walk_bind
       (if fv_kind field = ''structuredList''
        then (case array_items (snd field_schema) of None \<Rightarrow> walk_refuse | Some items \<Rightarrow> dereference D items)
        else walk_ok field_schema) (\<lambda>declared.
     walk_bind (dereference D schema) (\<lambda>named.
     Some (refuse_if (\<not> (fst named \<noteq> None \<and> fst named = fst declared))))))"

definition sequence_identity :: "eobject \<Rightarrow> string checked" where
  "sequence_identity raw =
     res_bind (storage_setting raw ''identityVariable'') (\<lambda>variable.
     res_bind (storage_setting raw ''identityPath'') (\<lambda>path.
     ok_or Panicked (case variable of Some v \<Rightarrow> Some v | None \<Rightarrow> path)))"

definition container_keys :: "string list" where
  "container_keys =
     [''container'', ''containerTemplate'', ''metadataContainer'', ''metadataContainerTemplate'', ''orderContainer'',
      ''itemContainerTemplate'']"

definition check_container :: "eobject \<Rightarrow> string list \<Rightarrow> string \<Rightarrow> unit checked" where
  "check_container raw enclosing key =
     res_bind (storage_setting raw key) (\<lambda>setting.
     case setting of
       None \<Rightarrow> Inr ()
     | Some template \<Rightarrow>
         res_bind (if key = ''itemContainerTemplate'' then res_bind (sequence_identity raw) (\<lambda>own. Inr [own]) else Inr [])
           (\<lambda>own.
         refuse_if (\<not> list_all (\<lambda>variable. sublist (''{'' @ variable @ ''}'') template) (enclosing @ own))))"

definition check_keyed_sequence_containers :: "field_view list \<Rightarrow> unit checked" where
  "check_keyed_sequence_containers views =
     (let sequences = filter (\<lambda>field. fv_kind field = ''keyedSequence'') views in
      res_bind (res_collect (\<lambda>field.
        res_bind (res_collect (\<lambda>sequence. sequence_identity (fv_raw sequence))
          (filter (\<lambda>sequence. prefix (fv_path sequence @ ''.*.'') (fv_path field)) sequences)) (\<lambda>enclosing.
        res_collect (check_container (fv_raw field) enclosing) container_keys)) views) (\<lambda>_. Inr ()))"

text \<open>Each member of a keyed sequence's item is held in a container of its own.\<close>

definition check_sequence_items :: "eobject \<Rightarrow> eobject \<Rightarrow> field_view \<Rightarrow> unit walk" where
  "check_sequence_items D document_schema field =
     (if fv_kind field \<noteq> ''keyedSequence'' then walk_ok ()
      else walk_bind (collaboration_schema_at D document_schema (fv_path field)) (\<lambda>found.
        case Option.bind found (\<lambda>(_, sequence). array_items (snd sequence)) of
          None \<Rightarrow> walk_ok ()
        | Some items \<Rightarrow>
            walk_bind (dereference D items) (\<lambda>item.
            Some (refuse_if (\<not> has_type (snd item) ''object''
              \<or> map_of (snd item) ''additionalProperties'' \<noteq> Some (EBool False))))))"

definition check_field :: "eobject \<Rightarrow> eobject \<Rightarrow> field_view \<Rightarrow> unit walk" where
  "check_field D document_schema field =
     walk_bind (resolve_collaboration_schema_path D document_schema (fv_path field)) (\<lambda>resolved.
     walk_bind (Some (ok_or Refused resolved)) (\<lambda>found.
     walk_bind (Some (field_required (fv_raw field))) (\<lambda>required.
     walk_bind (Some (refuse_if (pr_required found \<noteq> required))) (\<lambda>_.
     walk_bind (Some (required_in_parent (fv_raw field))) (\<lambda>in_parent.
     walk_bind (Some (refuse_if (pr_required_in_parent found \<noteq> in_parent))) (\<lambda>_.
     walk_bind (Some (res_bind (storage_of (fv_raw field)) check_collaboration_storage)) (\<lambda>_.
     walk_bind (Some (res_bind (storage_of (fv_raw field)) (\<lambda>stored.
       refuse_if (fv_codec field = ''propertyText''
         \<and> (\<not> truthy (opt_str stored ''metadataContainer'') \<and> \<not> truthy (opt_str stored ''metadataContainerTemplate'')
            \<or> \<not> truthy (opt_str stored ''metadataKey'')))))) (\<lambda>_.
     walk_bind (Some (res_bind (field_value (fv_raw field)) (\<lambda>v.
       refuse_if (fv_codec field = ''structuredJson'' \<and> map_of v ''schema'' = None)))) (\<lambda>_.
     walk_bind (collaboration_schema_at D document_schema (fv_path field)) (\<lambda>at_path.
     walk_bind (Some (ok_or Panicked at_path)) (\<lambda>(_, field_schema).
     walk_bind (Some (value_schema_of (fv_raw field))) (\<lambda>schema.
     walk_bind (case schema of None \<Rightarrow> walk_ok () | Some s \<Rightarrow> check_value_schema D field s field_schema) (\<lambda>_.
     Some (refuse_if (has_type (snd field_schema) ''object'' \<and> fv_codec field \<noteq> ''structuredJson''
       \<and> (other_members_schema (snd field_schema) \<noteq> None \<or> record_values_schema (snd field_schema) \<noteq> None
          \<or> fv_codec field \<noteq> ''propertyText''))))))))))))))))"

definition path_covered :: "field_view list \<Rightarrow> string \<Rightarrow> bool" where
  "path_covered views required \<longleftrightarrow>
     list_ex (\<lambda>field. fv_path field = required) views
     \<or> list_ex (\<lambda>field. prefix (fv_path field @ ''.'') required \<and> fv_codec field \<in> {''propertyText'', ''structuredJson''}) views"

definition check_collaboration_entity :: "eobject \<Rightarrow> named \<Rightarrow> unit walk" where
  "check_collaboration_entity D collaborating =
     (case collaborating of (name, raw) \<Rightarrow>
     walk_bind (Some (res_bind (authoring_projection raw) (projection_named D))) (\<lambda>projected.
     walk_bind (Some (case projected of
         None \<Rightarrow> Inl Refused
       | Some p \<Rightarrow> res_bind (depends_on (snd p)) (\<lambda>names. refuse_if (name \<notin> set names)))) (\<lambda>_.
     walk_bind (Some (res_bind (import_mutation raw) (mutation_named D))) (\<lambda>mutating.
     walk_bind (Some (case mutating of
         None \<Rightarrow> Inl Refused
       | Some m \<Rightarrow> res_bind (touches_of (snd m)) (\<lambda>names. refuse_if (name \<notin> set names)))) (\<lambda>_.
     walk_bind (Some (res_bind (entity_named D name) (ok_or Panicked))) (\<lambda>declared.
     walk_bind (Some (res_bind (entity_schema (snd declared)) (resolve_ref D))) (\<lambda>schema.
     walk_bind (Some (refuse_if (other_members_schema schema \<noteq> None))) (\<lambda>_.
     walk_bind (collect_collaboration_schema_paths D schema []) (\<lambda>required_paths.
     walk_bind (Some (field_views raw)) (\<lambda>views.
     walk_bind (walk_each (check_sequence_items D schema) views) (\<lambda>_.
     walk_bind (walk_each (check_field D schema) views) (\<lambda>_.
     walk_bind (Some (check_keyed_sequence_containers views)) (\<lambda>_.
     Some (refuse_if (\<not> list_all (path_covered views) required_paths)))))))))))))))"

section \<open>Generated names\<close>

definition string_enum_values :: "eobject \<Rightarrow> string list option" where
  "string_enum_values schema =
     map_option (List.map_filter e_str) (Option.bind (map_of schema ''enum'') e_array)"

lemma size_array_items: "array_items schema = Some items \<Longrightarrow> size (EObject items) < size (EObject schema)"
  unfolding array_items_def by (rule size_object_at) (simp split: if_splits)

lemma size_record_values: "record_values_schema schema = Some v \<Longrightarrow> size (EObject v) < size (EObject schema)"
  unfolding record_values_schema_def by (rule size_object_at) (simp split: if_splits)

function property_enum_schema :: "eobject \<Rightarrow> eobject option" where
  "property_enum_schema schema =
     (if string_enum_values schema \<noteq> None then Some schema
      else case (case array_items schema of None \<Rightarrow> None | Some items \<Rightarrow> property_enum_schema items) of
        Some found \<Rightarrow> Some found
      | None \<Rightarrow> (case record_values_schema schema of None \<Rightarrow> None | Some v \<Rightarrow> property_enum_schema v))"
  by pat_completeness auto
termination
  by (relation "measure (\<lambda>schema. size (EObject schema))")
    (simp_all only: wf_measure in_measure size_array_items size_record_values)

declare property_enum_schema.simps [simp del]

definition variant_enum_owner :: "string \<Rightarrow> string \<Rightarrow> string" where
  "variant_enum_owner definition_name tag = pascal_identifier definition_name @ pascal_identifier tag"

text \<open>The definition of an enum and its name.\<close>

definition collect_rust_property_enums :: "eobject \<Rightarrow> (string \<times> string) list checked" where
  "collect_rust_property_enums D =
     res_bind (def_entries D) (\<lambda>ds. Inr (concat (map (\<lambda>(definition_name, schema).
       if \<not> has_type schema ''object'' then []
       else
         let owners =
               (case object_at schema ''properties'' of None \<Rightarrow> [] | Some properties \<Rightarrow> [(definition_name, properties)])
               @ List.map_filter (\<lambda>(tag, variant).
                   map_option (Pair (variant_enum_owner definition_name tag))
                     (Option.bind (e_object variant) (\<lambda>v. object_at v ''properties'')))
                 (case object_at schema ''oneOf'' of None \<Rightarrow> [] | Some variants \<Rightarrow> variants);
             others = (case record_values_schema schema of
                 Some v \<Rightarrow> Some (''value'', v)
               | None \<Rightarrow> map_option (Pair other_members_field) (other_members_schema schema)) in
         concat (map (\<lambda>(owner, properties).
           List.map_filter (\<lambda>(property, v).
             map_option (\<lambda>_. (definition_name, rust_property_enum_name owner property))
               (Option.bind (e_object v) property_enum_schema)) properties) owners)
         @ (case others of
              None \<Rightarrow> []
            | Some (name, v) \<Rightarrow>
                if property_enum_schema v = None then []
                else [(definition_name, rust_property_enum_name definition_name name)])) ds)))"

definition client_bindings :: "string list" where
  "client_bindings =
     [''AuthoringPeerBlock'', ''AuthoringPlan'', ''AuthoringState'', ''AuthoringStatePatch'',
      ''ClerkenwellCollaborationEntityPlan'', ''CollaborationExchangeMode'', ''CollaborationPlanTextFieldPath'',
      ''CollaborationReplicaDocument'', ''ClerkenwellProjectionCompositionPlan'', ''AuthoringPolicyKind'',
      ''CollaborationFieldPlan'', ''CollaborationStorageKind'', ''CollaborationValueCodec'', ''resolveCollaborationContainer'']"

definition import_bindings :: "string list" where
  "import_bindings =
     [''ActorKind'', ''AuthoringPeerBlock'', ''AuthoringState'', ''AuthoringStatePatch'', ''AuthoringStatePatchKind'',
      ''CollaborationExchangeMode'', ''DeclaredMemberError'', ''DeclaredMembers'', ''GeneratedAuthoringPolicyKind'',
      ''GeneratedCollaborationConflict'', ''GeneratedCollaborationEntitySpec'', ''GeneratedCollaborationFieldSpec'',
      ''GeneratedCollaborationStorageKind'', ''GeneratedCollaborationValueCodec'', ''GeneratedCommandSpec'',
      ''GeneratedEntityAuthoringSpec'', ''GeneratedMaterializationPlan'', ''GeneratedMutationSpec'',
      ''GeneratedProjectionSpec'', ''GeneratedRemoveMode'', ''GeneratedSnapshotMode'', ''GeneratedTransportValue'',
      ''GeneratedWriterConflict'', ''OtherMembers'', ''RecordConstraints'', ''RecordMembers'', ''SchemaConstraint'',
      ''SchemaConstraintValue'', ''Deserialize'', ''Serialize'', ''JsonValue'', ''BTreeMap'']"

definition fixed_names :: "string list" where
  "fixed_names =
     [''CollaborationDocument'', ''ProjectionName'', ''MutationName'', ''CommandName'', ''ENTITY_NAMES'', ''PROJECTION_NAMES'',
      ''MUTATION_NAMES'', ''COMMAND_NAMES'']"

definition entry_names :: "string \<Rightarrow> string list \<Rightarrow> string \<Rightarrow> string list" where
  "entry_names kind roles name =
     name_constant_identifier name kind # map (schema_constant_identifier name kind) roles @ [pascal_identifier name]"

text \<open>The names \<open>check_generated_output_names\<close> registers, in its order.\<close>

definition output_names :: "eobject \<Rightarrow> string list checked" where
  "output_names D =
     res_bind (declared_def_entries D) (\<lambda>ds.
     res_bind (collect_rust_property_enums D) (\<lambda>enums.
     res_bind (entities_of D) (\<lambda>es.
     res_bind (projections_of D) (\<lambda>ps.
     res_bind (mutations_of D) (\<lambda>ms.
     res_bind (commands_of D) (\<lambda>cs.
     Inr (concat (map (\<lambda>(name, schema). pascal_identifier name
         # (if record_values_schema schema = None then [] else [rust_record_constraints_name name])) ds)
       @ map snd (filter (\<lambda>(owner, _). owner \<notin> set shared_defs) enums)
       @ index_set (client_bindings @ import_bindings) @ fixed_names
       @ map (\<lambda>(name, _). name_constant_identifier name ''ENTITY'') es
       @ concat (map (\<lambda>(name, _). entry_names ''PROJECTION'' [''PARAMS'', ''SNAPSHOT''] name) ps)
       @ concat (map (\<lambda>(name, _). entry_names ''MUTATION'' [''PARAMS'', ''RESULT''] name) ms)
       @ concat (map (\<lambda>(name, _). entry_names ''COMMAND'' [''PARAMS'', ''RESULT''] name) cs))))))))"

definition register_name :: "string \<Rightarrow> string list \<Rightarrow> string list checked" where
  "register_name name registered = (if name \<in> set registered then Inl Refused else Inr (registered @ [name]))"

definition check_generated_output_names :: "eobject \<Rightarrow> unit checked" where
  "check_generated_output_names D =
     res_bind (output_names D) (\<lambda>names. res_bind (res_fold register_name names []) (\<lambda>_. Inr ()))"

section \<open>The semantic checks\<close>

definition operation_name_limit :: nat where
  "operation_name_limit = 128"

definition check_operation_name :: "string \<Rightarrow> string \<Rightarrow> unit checked" where
  "check_operation_name space name =
     (let operation = space @ ''.'' @ name in
      refuse_if (\<not> list_all (\<lambda>c. is_alphanumeric c \<or> c \<in> {CHR ''_'', CHR ''-'', CHR ''.''}) operation
        \<or> operation_name_limit < length operation))"

definition check_entity_schema_property :: "eobject \<Rightarrow> string \<Rightarrow> unit checked" where
  "check_entity_schema_property schema property =
     refuse_if (\<not> (has_type schema ''object''
       \<and> (case object_at schema ''properties'' of None \<Rightarrow> False | Some properties \<Rightarrow> property \<in> fst ` set properties)))"

definition check_entity :: "eobject \<Rightarrow> named \<Rightarrow> unit checked" where
  "check_entity D declared =
     (case declared of (name, raw) \<Rightarrow>
     res_bind (entity_schema raw) (\<lambda>schema_ref.
     res_bind (resolve_ref D schema_ref) (\<lambda>schema.
     res_bind (entity_id raw) (\<lambda>i.
     res_bind (check_entity_schema_property schema i) (\<lambda>_.
     res_bind (revision_of raw) (\<lambda>revised.
     res_bind (revision_kind raw) (\<lambda>revised_by.
     res_bind
       (if revised_by = ''contentHash''
        then res_bind (ok_or Panicked (opt_str revised ''field'')) (check_entity_schema_property schema)
        else refuse_if (map_of revised ''field'' \<noteq> None)) (\<lambda>_.
     res_bind (authoring_kind raw) (\<lambda>kind.
     res_bind (refuse_if (kind = ''collaborative'' \<and> revised_by \<noteq> ''replica'')) (\<lambda>_.
     res_bind (mutations_of D) (\<lambda>ms.
     res_bind (res_collect (\<lambda>(mutation, m). res_bind (touches_of m) (\<lambda>ts. Inr (mutation, ts))) ms) (\<lambda>touched.
     res_bind (planning_mutations raw) (\<lambda>planned.
     refuse_if (\<not> set planned \<subseteq> fst ` {(mutation, ts) \<in> set touched. name \<in> set ts}))))))))))))))"

definition check_collaborating :: "eobject \<Rightarrow> named \<Rightarrow> unit walk" where
  "check_collaborating D collaborating =
     walk_bind (Some (res_bind (entity_named D (fst collaborating)) (ok_or Refused))) (\<lambda>declared.
     walk_bind (Some (res_bind (revision_kind (snd declared)) (\<lambda>revised. res_bind (authoring_kind (snd declared)) (\<lambda>kind.
       refuse_if (revised \<noteq> ''replica'' \<or> kind \<noteq> ''collaborative''))))) (\<lambda>_.
     check_collaboration_entity D collaborating))"

definition check_touched :: "eobject \<Rightarrow> string \<Rightarrow> unit checked" where
  "check_touched D touched =
     res_bind (entity_names D) (\<lambda>names.
     res_bind (refuse_if (touched \<notin> set names)) (\<lambda>_.
     res_bind (entity_named D touched) (\<lambda>declared.
     case declared of
       None \<Rightarrow> Inr ()
     | Some e \<Rightarrow> res_bind (authoring_kind (snd e)) (\<lambda>kind. refuse_if (kind = ''readOnly'')))))"

definition check_projection :: "exponential \<Rightarrow> eobject \<Rightarrow> named \<Rightarrow> unit checked" where
  "check_projection sci D declared =
     (case declared of (name, raw) \<Rightarrow>
     res_bind (res_bind (params_of raw) (schema_ref_name D)) (\<lambda>_.
     res_bind (res_bind (snapshot_of raw) (schema_ref_name D)) (\<lambda>_.
     res_bind (res_bind (patch_of raw) (schema_ref_name D)) (\<lambda>_.
     res_bind (depends_on raw) (\<lambda>dependencies.
     res_bind (entity_names D) (\<lambda>names.
     res_bind (refuse_if (\<not> set dependencies \<subseteq> set names)) (\<lambda>_.
     check_materialization sci D raw)))))))"

definition check_changes :: "eobject \<Rightarrow> (eobject \<Rightarrow> string list checked) \<Rightarrow> named \<Rightarrow> unit checked" where
  "check_changes D touched declared =
     (case declared of (name, raw) \<Rightarrow>
     res_bind (res_bind (params_of raw) (schema_ref_name D)) (\<lambda>_.
     res_bind (res_bind (result_of raw) (schema_ref_name D)) (\<lambda>_.
     res_bind (touched raw) (\<lambda>names.
     res_bind (res_collect (check_touched D) names) (\<lambda>_. Inr ())))))"

text \<open>Each projection, mutation and command is an operation, whose input is an object.\<close>

definition check_operation :: "eobject \<Rightarrow> string \<Rightarrow> named \<Rightarrow> unit checked" where
  "check_operation D space declared =
     (case declared of (name, raw) \<Rightarrow>
     res_bind (check_operation_name space name) (\<lambda>_.
     res_bind (res_bind (params_of raw) (resolve_ref D)) (\<lambda>schema.
     refuse_if (\<not> has_type schema ''object''))))"

definition check_each :: "('a \<Rightarrow> unit checked) \<Rightarrow> 'a list \<Rightarrow> unit checked" where
  "check_each f xs = res_bind (res_collect f xs) (\<lambda>_. Inr ())"

text \<open>An entry of \<open>$defs\<close>: no earlier one generates its name, and it is a schema of the subset.\<close>

definition check_definition :: "exponential \<Rightarrow> eobject \<Rightarrow> eobject \<Rightarrow> nat \<Rightarrow> unit walk" where
  "check_definition sci D ds i =
     (if pascal_identifier (fst (ds ! i)) \<in> pascal_identifier ` fst ` set (take i ds) then walk_refuse
      else check_schema_node sci D (''$defs.'' @ fst (ds ! i)) (snd (ds ! i)))"

definition check_semantics :: "exponential \<Rightarrow> eobject \<Rightarrow> unit walk" where
  "check_semantics sci D =
     walk_bind (Some (projection_count D)) (\<lambda>count.
     walk_bind (Some (refuse_if (count = 0))) (\<lambda>_.
     walk_bind (Some (check_reference_chains D)) (\<lambda>_.
     walk_bind (Some (defs_of D)) (\<lambda>ds.
     walk_bind (walk_each (check_definition sci D ds) [0..<length ds]) (\<lambda>_.
     walk_bind (Some (entities_of D)) (\<lambda>es.
     walk_bind (Some (check_each (check_entity D) es)) (\<lambda>_.
     walk_bind (Some (collaboration_entities D)) (\<lambda>collaborating.
     walk_bind (walk_each (check_collaborating D) collaborating) (\<lambda>_.
     walk_bind (Some (check_each (\<lambda>(name, raw). res_bind (authoring_kind raw) (\<lambda>kind.
       refuse_if (kind = ''collaborative'' \<and> find_named name collaborating = None))) es)) (\<lambda>_.
     walk_bind (Some (projections_of D)) (\<lambda>ps.
     walk_bind (Some (check_each (check_projection sci D) ps)) (\<lambda>_.
     walk_bind (Some (mutations_of D)) (\<lambda>ms.
     walk_bind (Some (check_each (check_changes D touches_of) ms)) (\<lambda>_.
     walk_bind (Some (commands_of D)) (\<lambda>cs.
     walk_bind (Some (check_each (check_changes D command_touches) cs)) (\<lambda>_.
     walk_bind (Some (check_generated_output_names D)) (\<lambda>_.
     walk_bind (Some (refuse_if (\<not> distinct (map fst ps @ map fst ms @ map fst cs)))) (\<lambda>_.
     walk_bind (Some (namespace_of D)) (\<lambda>space.
     Some (check_each (check_operation D space) (ps @ ms @ cs)))))))))))))))))))))"

text \<open>\<open>Definition::from_json\<close>; \<open>meta\<close> judges a document by the meta-schema, as the \<open>jsonschema\<close> crate does.\<close>

definition definition_from_json :: "exponential \<Rightarrow> (json \<Rightarrow> bool) \<Rightarrow> ejson \<Rightarrow> eobject walk" where
  "definition_from_json sci meta document =
     (if \<not> meta (to_serde document) then walk_refuse
      else case e_object document of
        None \<Rightarrow> walk_refuse
      | Some m \<Rightarrow>
          walk_bind (Some (expand m)) (\<lambda>expanded.
          walk_bind (check_semantics sci expanded) (\<lambda>_. walk_ok expanded)))"

end
