(* ===== verification/Accepted.thy ===== *)
theory Accepted
  imports Validation
begin

text \<open>
  What holds of a definition the generator has expanded and accepted (\<open>crates/clerkenwell-codegen/src/expand.rs\<close>,
  \<open>validate.rs\<close>): the names it generates, its operations, the entities they change, and the authoring states.
\<close>

section \<open>Checks that pass\<close>

lemma ok_or_Inr [simp]: "ok_or e x = Inr a \<longleftrightarrow> x = Some a"
  by (cases x) simp_all

lemma check_each_ok: "check_each f xs = Inr u \<longleftrightarrow> (\<forall>x\<in>set xs. f x = Inr ())"
proof -
  have "res_collect f xs = Inr ys \<longleftrightarrow> ys = map (\<lambda>_. ()) xs \<and> (\<forall>x\<in>set xs. f x = Inr ())" for ys
    by (induction xs arbitrary: ys) (auto simp: res_bind_Inr_iff)
  then show ?thesis by (simp add: check_each_def res_bind_Inr_iff)
qed

lemma entries_of_names: "entries_of m = Inr es \<Longrightarrow> map fst es = map fst m"
  unfolding entries_of_def res_collect_Inr_iff
  by (induction rule: list_all2_induct) (auto simp: res_bind_Inr_iff)

lemma find_named_Some: "name \<in> fst ` set es \<Longrightarrow> \<exists>raw. find_named name es = Some (name, raw)"
  unfolding find_named_def by (induction es) auto

lemma entity_named_declared:
  assumes "entities_of D = Inr es" "entity_names D = Inr names" "name \<in> set names"
  shows "\<exists>raw. entity_named D name = Inr (Some (name, raw))"
proof -
  from assms(1,2) obtain m where "entries_of m = Inr es" "names = map fst m"
    by (auto simp: entities_of_def entity_names_def res_bind_Inr_iff)
  then have "names = map fst es" by (simp add: entries_of_names)
  then have "set names = fst ` set es" by simp
  with assms(3) find_named_Some[of name es] obtain raw where "find_named name es = Some (name, raw)" by blast
  with assms(1) show ?thesis by (simp add: entity_named_def)
qed

section \<open>Generated names\<close>

lemma register_names:
  "res_fold register_name names registered =
     (if distinct names \<and> set names \<inter> set registered = {} then Inr (registered @ names) else Inl Refused)"
  by (induction names arbitrary: registered) (auto simp: register_name_def)

section \<open>Operations\<close>

lemma semantics_ok:
  assumes "check_semantics sci D = walk_ok ()"
  obtains es ps ms cs space where "entities_of D = Inr es" "projections_of D = Inr ps" "mutations_of D = Inr ms"
    "commands_of D = Inr cs" "namespace_of D = Inr space"
    "check_each (check_projection sci D) ps = Inr ()" "check_each (check_changes D touches_of) ms = Inr ()"
    "check_each (check_changes D command_touches) cs = Inr ()" "check_generated_output_names D = Inr ()"
    "distinct (map fst ps @ map fst ms @ map fst cs)" "check_each (check_operation D space) (ps @ ms @ cs) = Inr ()"
proof -
  from assms have "\<exists>es ps ms cs space. entities_of D = Inr es \<and> projections_of D = Inr ps \<and> mutations_of D = Inr ms
    \<and> commands_of D = Inr cs \<and> namespace_of D = Inr space
    \<and> check_each (check_projection sci D) ps = Inr () \<and> check_each (check_changes D touches_of) ms = Inr ()
    \<and> check_each (check_changes D command_touches) cs = Inr () \<and> check_generated_output_names D = Inr ()
    \<and> distinct (map fst ps @ map fst ms @ map fst cs) \<and> check_each (check_operation D space) (ps @ ms @ cs) = Inr ()"
    unfolding check_semantics_def by (elim walk_bind_ok_iff[THEN iffD1, elim_format] exE conjE) simp
  with that show ?thesis by blast
qed

text \<open>
  (C17) The projections, mutations and commands of an accepted definition have names of their own; the operation
  each becomes, \<open><namespace>.<name>\<close>, is at most 128 letters, digits, \<open>_\<close>, \<open>-\<close> and \<open>.\<close>, and takes an object.
\<close>

theorem accepted_operations:
  assumes "check_semantics sci D = walk_ok ()"
    and "projections_of D = Inr ps" "mutations_of D = Inr ms" "commands_of D = Inr cs" "namespace_of D = Inr space"
  shows "distinct (map fst (ps @ ms @ cs)) \<and>
    (\<forall>(name, raw)\<in>set (ps @ ms @ cs).
       length (space @ ''.'' @ name) \<le> 128
       \<and> list_all (\<lambda>c. is_alphanumeric c \<or> c \<in> {CHR ''_'', CHR ''-'', CHR ''.''}) (space @ ''.'' @ name)
       \<and> (\<exists>reference schema. params_of raw = Inr reference \<and> resolve_ref D reference = Inr schema \<and> has_type schema ''object''))"
proof -
  from assms have named: "distinct (map fst ps @ map fst ms @ map fst cs)"
    and "check_each (check_operation D space) (ps @ ms @ cs) = Inr ()"
    by (elim semantics_ok, simp)+
  then have each: "\<forall>operation\<in>set (ps @ ms @ cs). check_operation D space operation = Inr ()"
    by (simp only: check_each_ok)
  have "length (space @ ''.'' @ name) \<le> 128
       \<and> list_all (\<lambda>c. is_alphanumeric c \<or> c \<in> {CHR ''_'', CHR ''-'', CHR ''.''}) (space @ ''.'' @ name)
       \<and> (\<exists>reference schema. params_of raw = Inr reference \<and> resolve_ref D reference = Inr schema \<and> has_type schema ''object'')"
    if "check_operation D space (name, raw) = Inr ()" for name raw
    using that by (auto simp: check_operation_def check_operation_name_def operation_name_limit_def res_bind_Inr_iff Let_def)
  with each have "\<forall>(name, raw)\<in>set (ps @ ms @ cs). length (space @ ''.'' @ name) \<le> 128
       \<and> list_all (\<lambda>c. is_alphanumeric c \<or> c \<in> {CHR ''_'', CHR ''-'', CHR ''.''}) (space @ ''.'' @ name)
       \<and> (\<exists>reference schema. params_of raw = Inr reference \<and> resolve_ref D reference = Inr schema \<and> has_type schema ''object'')"
    by blast
  with named show ?thesis by simp
qed

text \<open>The entities a change may touch: declared, and not read-only.\<close>

definition writable :: "eobject \<Rightarrow> string \<Rightarrow> bool" where
  "writable D name \<longleftrightarrow> (\<exists>raw kind. entity_named D name = Inr (Some (name, raw)) \<and> authoring_kind raw = Inr kind \<and> kind \<noteq> ''readOnly'')"

lemma check_touched_ok:
  assumes "entities_of D = Inr es" "check_touched D name = Inr ()"
  shows "writable D name"
proof -
  from assms(2) obtain names where names: "entity_names D = Inr names" "name \<in> set names"
    by (auto simp: check_touched_def res_bind_Inr_iff)
  from assms(1) names obtain raw where "entity_named D name = Inr (Some (name, raw))"
    using entity_named_declared by blast
  with assms(2) show ?thesis by (auto simp: check_touched_def writable_def res_bind_Inr_iff)
qed

lemma check_changes_ok:
  assumes "entities_of D = Inr es" "check_changes D touched (name, raw) = Inr ()"
  shows "\<exists>names. touched raw = Inr names \<and> (\<forall>n\<in>set names. writable D n)"
proof -
  from assms(2) obtain names where "touched raw = Inr names" "check_each (check_touched D) names = Inr ()"
    by (auto simp: check_changes_def res_bind_Inr_iff check_each_def)
  with check_touched_ok[OF assms(1)] show ?thesis by (auto simp: check_each_ok)
qed

text \<open>
  (C21) Every entity a mutation or a command of an accepted definition touches is declared and is not read-only, and
  every entity a projection depends on is declared.
\<close>

theorem accepted_effects:
  assumes "check_semantics sci D = walk_ok ()"
    and "projections_of D = Inr ps" "mutations_of D = Inr ms" "commands_of D = Inr cs"
  shows "(\<forall>(name, raw)\<in>set ms. \<exists>names. touches_of raw = Inr names \<and> (\<forall>n\<in>set names. writable D n))
    \<and> (\<forall>(name, raw)\<in>set cs. \<exists>names. command_touches raw = Inr names \<and> (\<forall>n\<in>set names. writable D n))
    \<and> (\<forall>(name, raw)\<in>set ps. \<exists>names. depends_on raw = Inr names
         \<and> (\<forall>n\<in>set names. \<exists>e. entity_named D n = Inr (Some (n, e))))"
proof -
  from assms obtain es where es: "entities_of D = Inr es"
    and each: "check_each (check_changes D touches_of) ms = Inr ()" "check_each (check_changes D command_touches) cs = Inr ()"
      "check_each (check_projection sci D) ps = Inr ()"
    by (auto elim!: semantics_ok)
  have "\<exists>names. depends_on raw = Inr names \<and> (\<forall>n\<in>set names. \<exists>e. entity_named D n = Inr (Some (n, e)))"
    if "check_projection sci D (name, raw) = Inr ()" for name raw
    using that by (auto simp: check_projection_def res_bind_Inr_iff intro: entity_named_declared[OF es] dest: subsetD)
  with each check_changes_ok[OF es] show ?thesis unfolding check_each_ok by blast
qed


section \<open>Authoring states\<close>

text \<open>
  What the definitions and projections of an expanded document say of a collaborative entity: a projection
  of its accepted state, and its parameters.
\<close>

definition state_declared :: "eobject \<Rightarrow> eobject \<Rightarrow> string \<Rightarrow> eobject \<Rightarrow> eobject \<Rightarrow> bool" where
  "state_declared ds ps name declared state \<longleftrightarrow>
     (\<exists>projected names. opt_str state ''projection'' = Some projected \<and> state_parameters declared state = Inr names
        \<and> map_of ds (name @ ''AuthoringParams'') = Some (parameters names)
        \<and> map_of ps projected = Some (authoring_projection_of name (name @ ''AuthoringParams'')))"

lemma state_declared_mono:
  "state_declared ds ps name declared state \<Longrightarrow> map_of ds \<subseteq>\<^sub>m map_of ds' \<Longrightarrow> map_of ps \<subseteq>\<^sub>m map_of ps' \<Longrightarrow>
     state_declared ds' ps' name declared state"
  unfolding state_declared_def map_le_def by (metis domI)

lemma map_le_insert: "key \<notin> fst ` set m \<Longrightarrow> map_of m \<subseteq>\<^sub>m (map_of m)(key \<mapsto> v)"
  by (auto simp: map_le_def dom_map_of_conv_image_fst)

lemma expand_entity_declares:
  assumes "expand_entity es (name, state) (ds, ps, expanded) = Inr (ds', ps', expanded')"
  shows "map_of ds \<subseteq>\<^sub>m map_of ds' \<and> map_of ps \<subseteq>\<^sub>m map_of ps'
    \<and> (\<forall>declared. Option.bind (map_of es name) e_object = Some declared \<longrightarrow> state_declared ds' ps' name declared state)"
proof (cases "Option.bind (map_of es name) e_object")
  case None
  with assms show ?thesis by (simp add: expand_entity_def)
next
  case (Some declared)
  let ?params = "name @ ''AuthoringParams''"
  from assms Some obtain projected names where projected: "opt_str state ''projection'' = Some projected"
    and fresh: "projected \<notin> fst ` set ps" "?params \<notin> fst ` set ds"
    and names: "state_parameters declared state = Inr names"
    and ds': "ds' = obj_insert ?params (parameters names) ds"
    and ps': "ps' = obj_insert projected (authoring_projection_of name ?params) ps"
    unfolding expand_entity_def str_field_def
    by (auto simp: res_bind_Inr_iff Let_def split: if_splits)
  with Some show ?thesis by (auto simp: map_le_insert state_declared_def map_of_obj_insert)
qed

lemma expand_entities_declare:
  "res_fold (expand_entity es) xs (ds, ps, expanded) = Inr (ds', ps', expanded') \<Longrightarrow>
     map_of ds \<subseteq>\<^sub>m map_of ds' \<and> map_of ps \<subseteq>\<^sub>m map_of ps'
     \<and> (\<forall>(name, state)\<in>set xs. \<forall>declared. Option.bind (map_of es name) e_object = Some declared \<longrightarrow>
          state_declared ds' ps' name declared state)"
proof (induction xs arbitrary: ds ps expanded)
  case Nil
  then show ?case by simp
next
  case (Cons x xs)
  obtain name state where x: "x = (name, state)" by fastforce
  from Cons.prems obtain ds1 ps1 expanded1 where first: "expand_entity es (name, state) (ds, ps, expanded) = Inr (ds1, ps1, expanded1)"
    and rest: "res_fold (expand_entity es) xs (ds1, ps1, expanded1) = Inr (ds', ps', expanded')"
    by (auto simp: x res_bind_Inr_iff)
  from expand_entity_declares[OF first] Cons.IH[OF rest] show ?case
    by (auto simp: x intro: map_le_trans state_declared_mono)
qed

lemma map_le_spread:
  "m \<subseteq>\<^sub>m map_of entries \<Longrightarrow> fst ` set other \<inter> dom m = {} \<Longrightarrow> m \<subseteq>\<^sub>m map_of (obj_spread entries other)"
proof (induction other arbitrary: entries)
  case Nil
  then show ?case by (simp add: obj_spread_def)
next
  case (Cons x other)
  obtain k v where x: "x = (k, v)" by fastforce
  from Cons.prems have "m \<subseteq>\<^sub>m map_of (obj_insert k v entries)" by (auto simp: x map_of_obj_insert map_le_def)
  from Cons.IH[OF this] Cons.prems(2) show ?case by (simp add: x obj_spread_def)
qed

lemma declare_shared_keeps:
  assumes "declare_shared ds = Inr ds'"
  shows "map_of ds \<subseteq>\<^sub>m map_of ds'"
proof -
  from assms have fresh: "name \<in> set shared_defs \<Longrightarrow> map_of ds name = None" for name
    by (auto simp: declare_shared_def map_of_eq_None_iff split: if_splits)
  have "map_of ds \<subseteq>\<^sub>m map_of (obj_spread ds [(''AuthoringState'', authoring_state_schema),
      (''AuthoringStatePatch'', authoring_state_patch_schema), (''AuthoringPeerBlock'', authoring_peer_block_schema),
      (''CollaborationExchangeMode'', collaboration_exchange_mode_schema)])"
    by (rule map_le_spread) (simp_all add: fresh shared_defs_def dom_def)
  with assms show ?thesis by (simp add: declare_shared_def split: if_splits)
qed

text \<open>
  (C18) Expanding a document leaves every section but \<open>$defs\<close> and \<open>projections\<close> as it was and every entry of
  those two; and it declares, for every collaborative entity the document declares, the projection of its accepted
  state under the name its collaboration section gives, with its parameters.
\<close>

theorem expansion_declares:
  assumes "expand document = Inr D"
  shows "(\<forall>key. key \<noteq> ''$defs'' \<and> key \<noteq> ''projections'' \<longrightarrow> map_of D key = map_of document key)
    \<and> map_of (section_of document ''$defs'') \<subseteq>\<^sub>m map_of (section_of D ''$defs'')
    \<and> map_of (section_of document ''projections'') \<subseteq>\<^sub>m map_of (section_of D ''projections'')
    \<and> (\<forall>(name, state)\<in>set (collaborative_of document). \<forall>declared.
         Option.bind (map_of (section_of document ''entities'') name) e_object = Some declared \<longrightarrow>
         state_declared (section_of D ''$defs'') (section_of D ''projections'') name declared state)"
proof -
  from assms obtain ds ds' ps' expanded where shared: "declare_shared (section_of document ''$defs'') = Inr ds"
    and fold: "res_fold (expand_entity (section_of document ''entities'')) (collaborative_of document)
      (ds, section_of document ''projections'', []) = Inr (ds', ps', expanded)"
    and D: "D = obj_insert ''projections'' (EObject ps') (obj_insert ''$defs'' (EObject ds') document)"
    by (auto simp: expand_def res_bind_Inr_iff)
  have sections: "section_of D ''$defs'' = ds'" "section_of D ''projections'' = ps'"
    unfolding D section_of_def map_of_obj_insert by simp_all
  from expand_entities_declare[OF fold] declare_shared_keeps[OF shared] show ?thesis
    unfolding sections by (auto simp: D map_of_obj_insert intro: map_le_trans)
qed

end
