(* ===== verification/Normalize.thy ===== *)
theory Normalize
  imports Validation
begin

text \<open>
  \<open>crates/clerkenwell-codegen/src/normalize.rs\<close>: the normalised document of a definition, which is the same however
  the source was ordered. The order of \<open>locale_compare\<close> (\<open>collate.rs\<close>, from the \<open>icu_collator\<close> crate) is an argument:
  \<open>le a b\<close> when \<open>a\<close> is not after \<open>b\<close>.
\<close>

section \<open>Sorting by an order that is an argument\<close>

text \<open>\<open>sort_by\<close>, a stable sort.\<close>

fun insert_by :: "('a \<Rightarrow> 'a \<Rightarrow> bool) \<Rightarrow> 'a \<Rightarrow> 'a list \<Rightarrow> 'a list" where
  "insert_by le x [] = [x]"
| "insert_by le x (y # ys) = (if le x y then x # y # ys else y # insert_by le x ys)"

definition sort_by :: "('a \<Rightarrow> 'a \<Rightarrow> bool) \<Rightarrow> 'a list \<Rightarrow> 'a list" where
  "sort_by le xs = foldr (insert_by le) xs []"

lemma sort_by_simps [simp]: "sort_by le [] = []" "sort_by le (x # xs) = insert_by le x (sort_by le xs)"
  by (simp_all add: sort_by_def)

lemma set_insert_by [simp]: "set (insert_by le x xs) = insert x (set xs)"
  by (induction xs) auto

lemma set_sort_by [simp]: "set (sort_by le xs) = set xs"
  by (induction xs) simp_all

lemma distinct_insert_by: "distinct (insert_by le x xs) \<longleftrightarrow> x \<notin> set xs \<and> distinct xs"
  by (induction xs) auto

lemma distinct_sort_by [simp]: "distinct (sort_by le xs) \<longleftrightarrow> distinct xs"
  by (induction xs) (simp_all add: distinct_insert_by)

text \<open>An order in which any two are comparable, as a collation promises.\<close>

definition collation :: "('a \<Rightarrow> 'a \<Rightarrow> bool) \<Rightarrow> bool" where
  "collation le \<longleftrightarrow> (\<forall>a b. le a b \<or> le b a) \<and> (\<forall>a b c. le a b \<longrightarrow> le b c \<longrightarrow> le a c)"

lemma sorted_insert_by: "collation le \<Longrightarrow> sorted_wrt le xs \<Longrightarrow> sorted_wrt le (insert_by le x xs)"
  by (induction xs) (auto simp: collation_def)

lemma sorted_sort_by: "collation le \<Longrightarrow> sorted_wrt le (sort_by le xs)"
  by (induction xs) (simp_all add: sorted_insert_by)

lemma sorted_unique:
  "sorted_wrt le xs \<Longrightarrow> sorted_wrt le ys \<Longrightarrow> distinct xs \<Longrightarrow> distinct ys \<Longrightarrow> set xs = set ys \<Longrightarrow>
     (\<And>a b. a \<in> set xs \<Longrightarrow> b \<in> set xs \<Longrightarrow> le a b \<Longrightarrow> le b a \<Longrightarrow> a = b) \<Longrightarrow> xs = ys"
proof (induction xs arbitrary: ys)
  case Nil
  then show ?case by simp
next
  case (Cons x xs)
  then obtain y ys' where ys: "ys = y # ys'" by (cases ys) auto
  have "x = y"
  proof (rule ccontr)
    assume "x \<noteq> y"
    with Cons.prems(5) ys have "x \<in> set ys'" "y \<in> set xs" by auto
    with Cons.prems(1,2) ys have "le y x" "le x y" by auto
    with Cons.prems(6) \<open>y \<in> set xs\<close> have "x = y" by (metis list.set_intros)
    with \<open>x \<noteq> y\<close> show False ..
  qed
  moreover from this Cons.prems(3-5) ys have "set xs = set ys'" by auto
  ultimately show ?case using Cons.IH[of ys'] Cons.prems ys by auto
qed

section \<open>The normalised document\<close>

type_synonym compare = "string \<Rightarrow> string \<Rightarrow> bool"

definition sorted_entries :: "compare \<Rightarrow> eobject \<Rightarrow> (string \<times> ejson) list" where
  "sorted_entries le entries = sort_by (\<lambda>l r. le (fst l) (fst r)) entries"

text \<open>\<open>{ [key]: name, ...value }\<close>\<close>

definition named_object :: "string \<Rightarrow> string \<Rightarrow> ejson \<Rightarrow> eobject" where
  "named_object key name v =
     (let keyed = obj_insert key (EString name) [] in
      case e_object v of None \<Rightarrow> keyed | Some m \<Rightarrow> obj_spread keyed m)"

lemma size_entry: "(k, v) \<in> set (sorted_entries le m) \<Longrightarrow> size v < size (EObject m)"
  unfolding sorted_entries_def by (auto dest: size_ejson_member)

function deep_sort :: "compare \<Rightarrow> ejson \<Rightarrow> ejson" where
  "deep_sort le (EArray xs) = EArray (map (deep_sort le) xs)"
| "deep_sort le (EObject m) = EObject (obj_of (map (\<lambda>(k, v). (k, deep_sort le v)) (sorted_entries le m)))"
| "deep_sort le ENull = ENull"
| "deep_sort le (EBool b) = EBool b"
| "deep_sort le (ENumber n) = ENumber n"
| "deep_sort le (EString s) = EString s"
  by pat_completeness auto
termination
  by (relation "measure (\<lambda>(le, v). size v)") (auto dest: size_entry simp: less_Suc_eq_le size_list_estimation')

definition named_entries :: "compare \<Rightarrow> eobject \<Rightarrow> ejson" where
  "named_entries le entries =
     EArray (map (\<lambda>(name, v). deep_sort le (EObject (named_object ''name'' name v))) (sorted_entries le entries))"

definition normalized_fields :: "compare \<Rightarrow> eobject \<Rightarrow> ejson" where
  "normalized_fields le entries =
     EArray (map (\<lambda>(path, field). deep_sort le (EObject (named_object ''path'' path field))) (sorted_entries le entries))"

definition normalized_collaborating :: "compare \<Rightarrow> string \<times> ejson \<Rightarrow> ejson checked" where
  "normalized_collaborating le collaborating =
     (case collaborating of (name, v) \<Rightarrow>
     res_bind (object_of v) (\<lambda>entity.
     res_bind (object_field entity ''fields'') (\<lambda>field_plans.
     Inr (deep_sort le (EObject (obj_insert ''fields'' (normalized_fields le field_plans)
       (named_object ''name'' name (EObject entity))))))))"

definition normalized_document :: "compare \<Rightarrow> eobject \<Rightarrow> ejson checked" where
  "normalized_document le D =
     res_bind (collaboration_of D) (\<lambda>collaboration.
     res_bind (object_field collaboration ''entities'') (\<lambda>collaborating.
     res_bind (res_collect (normalized_collaborating le) (sorted_entries le collaborating)) (\<lambda>collaborations.
     res_bind (number_field collaboration ''version'') (\<lambda>collaboration_version.
     res_bind (version_of D) (\<lambda>version.
     res_bind (namespace_of D) (\<lambda>space.
     res_bind (object_field D ''entities'') (\<lambda>es.
     res_bind (object_field D ''projections'') (\<lambda>ps.
     res_bind (object_field D ''mutations'') (\<lambda>ms.
     res_bind (defs_of D) (\<lambda>ds.
     let cs = (case Option.bind (map_of D ''commands'') e_object of None \<Rightarrow> [] | Some m \<Rightarrow> m) in
     Inr (deep_sort le (eobj [(''version'', ENumber version), (''namespace'', EString space),
       (''entities'', named_entries le es), (''projections'', named_entries le ps), (''mutations'', named_entries le ms),
       (''commands'', named_entries le cs),
       (''collaboration'', eobj [(''version'', ENumber collaboration_version), (''entities'', EArray collaborations)]),
       (''definitions'', named_entries le ds)]))))))))))))"

definition render_normalized_definition :: "exponential \<Rightarrow> compare \<Rightarrow> eobject \<Rightarrow> string checked" where
  "render_normalized_definition sci le D =
     res_bind (normalized_document le D) (\<lambda>v. Inr (stringify_pretty sci v @ [CHR 0x0A]))"


section \<open>The same document, however it is ordered\<close>

fun distinct_keys :: "ejson \<Rightarrow> bool" where
  "distinct_keys (EArray xs) = list_all distinct_keys xs"
| "distinct_keys (EObject m) = (distinct (map fst m) \<and> list_all (\<lambda>(k, v). distinct_keys v) m)"
| "distinct_keys v = True"

fun keys_in :: "ejson \<Rightarrow> string set" where
  "keys_in (EArray xs) = (\<Union>x\<in>set xs. keys_in x)"
| "keys_in (EObject m) = fst ` set m \<union> (\<Union>(k, v)\<in>set m. keys_in v)"
| "keys_in v = {}"

text \<open>Two values that differ in the order of their objects' members only, whose keys are among \<open>K\<close>.\<close>

definition alike :: "string set \<Rightarrow> ejson \<Rightarrow> ejson \<Rightarrow> bool" where
  "alike K v w \<longleftrightarrow> ejson_same v w \<and> distinct_keys v \<and> distinct_keys w \<and> keys_in v \<subseteq> K \<and> keys_in w \<subseteq> K"

text \<open>An order that tells the names in \<open>K\<close> apart.\<close>

definition tells_apart :: "compare \<Rightarrow> string set \<Rightarrow> bool" where
  "tells_apart le K \<longleftrightarrow> collation le \<and> (\<forall>a\<in>K. \<forall>b\<in>K. le a b \<longrightarrow> le b a \<longrightarrow> a = b)"

lemma ejson_same_entries:
  assumes "distinct (map fst m)" "distinct (map fst n)"
  shows "ejson_same (EObject m) (EObject n) \<longleftrightarrow> (\<forall>k. rel_option ejson_same (map_of m k) (map_of n k))"
proof
  assume same: "ejson_same (EObject m) (EObject n)"
  then have at: "\<exists>w. map_of n k = Some w \<and> ejson_same v w" if "map_of m k = Some v" for k v
    using map_of_SomeD[OF that] by (auto simp: list_all_iff split: option.splits)
  then have "fst ` set m \<subseteq> fst ` set n"
    by (simp flip: dom_map_of_conv_image_fst) (auto simp: dom_def)
  moreover have "card (fst ` set m) = card (fst ` set n)"
    using same assms by (simp flip: set_map add: distinct_card)
  ultimately have keys: "fst ` set m = fst ` set n" by (intro card_subset_eq) auto
  show "\<forall>k. rel_option ejson_same (map_of m k) (map_of n k)"
  proof
    fix k
    show "rel_option ejson_same (map_of m k) (map_of n k)"
    proof (cases "map_of m k")
      case None
      with keys have "map_of n k = None" by (simp add: map_of_eq_None_iff)
      with None show ?thesis by simp
    next
      case (Some v)
      with at obtain w where "map_of n k = Some w" "ejson_same v w" by blast
      with Some show ?thesis by simp
    qed
  qed
next
  assume rel: "\<forall>k. rel_option ejson_same (map_of m k) (map_of n k)"
  have at: "\<exists>w. map_of n k = Some w \<and> ejson_same v w" if "(k, v) \<in> set m" for k v
  proof -
    from that assms(1) have "map_of m k = Some v" by simp
    with rel[rule_format, of k] show ?thesis by (cases "map_of n k") simp_all
  qed
  have "map_of m k = None \<longleftrightarrow> map_of n k = None" for k
    using rel[rule_format, of k] by (cases "map_of m k"; cases "map_of n k") simp_all
  then have "fst ` set m = fst ` set n" by (auto simp: map_of_eq_None_iff set_eq_iff)
  then have "length m = length n" using assms by (metis distinct_card length_map set_map)
  with at show "ejson_same (EObject m) (EObject n)" by (fastforce simp: list_all_iff)
qed

lemma sort_by_map: "map f (sort_by (\<lambda>l r. le (f l) (f r)) xs) = sort_by le (map f xs)"
proof -
  have "map f (insert_by (\<lambda>l r. le (f l) (f r)) x ys) = insert_by le (f x) (map f ys)" for x ys
    by (induction ys) auto
  then show ?thesis by (induction xs) simp_all
qed

lemma sorted_entries_keys: "map fst (sorted_entries le m) = sort_by le (map fst m)"
  unfolding sorted_entries_def by (rule sort_by_map)

lemma sorted_entries_by_key:
  assumes "distinct (map fst m)"
  shows "sorted_entries le m = map (\<lambda>k. (k, the (map_of m k))) (sort_by le (map fst m))"
proof -
  have entries: "map (\<lambda>k. (k, the (map_of xs k))) (map fst xs) = xs" if "distinct (map fst xs)" for xs :: eobject
    unfolding map_map by (rule map_idI) (use that in auto)
  have "distinct (map fst (sorted_entries le m))" using assms by (simp add: sorted_entries_keys)
  moreover from this assms have "map_of (sorted_entries le m) = map_of m"
    by (intro map_of_inject_set[THEN iffD2]) (simp_all add: sorted_entries_def)
  ultimately show ?thesis by (metis entries sorted_entries_keys)
qed


lemma alike_objects:
  assumes "alike K (EObject m) (EObject n)"
  shows "rel_option (alike K) (map_of m k) (map_of n k)"
proof -
  from assms have "ejson_same (EObject m) (EObject n)" "distinct (map fst m)" "distinct (map fst n)"
    by (simp_all add: alike_def del: ejson_same.simps)
  then have "rel_option ejson_same (map_of m k) (map_of n k)" by (simp only: ejson_same_entries)
  moreover have "distinct_keys v \<and> keys_in v \<subseteq> K" if "map_of m k = Some v" for v
    using map_of_SomeD[OF that] assms by (auto simp: alike_def list_all_iff)
  moreover have "distinct_keys w \<and> keys_in w \<subseteq> K" if "map_of n k = Some w" for w
    using map_of_SomeD[OF that] assms by (auto simp: alike_def list_all_iff)
  ultimately show ?thesis by (cases "map_of m k"; cases "map_of n k") (auto simp: alike_def)
qed

lemma alike_keys:
  assumes "alike K (EObject m) (EObject n)"
  shows "distinct (map fst m)" "distinct (map fst n)" "fst ` set m = fst ` set n" "fst ` set m \<subseteq> K"
proof -
  show "distinct (map fst m)" "distinct (map fst n)" "fst ` set m \<subseteq> K" using assms by (auto simp: alike_def)
  have "map_of m k = None \<longleftrightarrow> map_of n k = None" for k
    using alike_objects[OF assms, of k] by (cases "map_of m k"; cases "map_of n k") simp_all
  then show "fst ` set m = fst ` set n" by (auto simp: map_of_eq_None_iff set_eq_iff)
qed

text \<open>Entries the same keys of which hold related values are sorted into related lists.\<close>

lemma sorted_entries_related:
  assumes "tells_apart le K" "distinct (map fst m)" "distinct (map fst n)" "fst ` set m \<subseteq> K"
    and related: "\<And>k. rel_option R (map_of m k) (map_of n k)"
  shows "list_all2 (\<lambda>(k, v) (l, w). k = l \<and> R v w) (sorted_entries le m) (sorted_entries le n)"
proof -
  have "map_of m k = None \<longleftrightarrow> map_of n k = None" for k
    using related[of k] by (cases "map_of m k"; cases "map_of n k") simp_all
  then have keys: "fst ` set m = fst ` set n" by (auto simp: map_of_eq_None_iff set_eq_iff)
  have "sort_by le (map fst m) = sort_by le (map fst n)"
  proof (rule sorted_unique[where le = le])
    from assms(1) show "sorted_wrt le (sort_by le (map fst m))" "sorted_wrt le (sort_by le (map fst n))"
      by (simp_all add: tells_apart_def sorted_sort_by)
    from assms(1,4) show "a = b" if "a \<in> set (sort_by le (map fst m))" "b \<in> set (sort_by le (map fst m))" "le a b" "le b a" for a b
      using that unfolding tells_apart_def by (metis set_map set_sort_by subsetD)
  qed (use keys assms(2,3) in simp_all)
  moreover have "R (the (map_of m k)) (the (map_of n k))" if "k \<in> fst ` set n" for k
    using that keys related[of k] by (cases "map_of m k"; cases "map_of n k") (auto simp: map_of_eq_None_iff)
  ultimately show ?thesis
    unfolding sorted_entries_by_key[OF assms(2)] sorted_entries_by_key[OF assms(3)]
    by (simp add: list_all2_map1 list_all2_map2 list_all2_same)
qed

lemmas alike_entries = sorted_entries_related[where R = "alike K" for K, OF _ alike_keys(1,2,4) alike_objects]

lemma alike_elements: "alike K (EArray xs) (EArray ys) \<longleftrightarrow> list_all2 (alike K) xs ys"
proof -
  have "alike K (EArray xs) (EArray ys) \<longleftrightarrow> list_all2 ejson_same xs ys \<and> list_all distinct_keys xs \<and> list_all distinct_keys ys
      \<and> list_all (\<lambda>x. keys_in x \<subseteq> K) xs \<and> list_all (\<lambda>y. keys_in y \<subseteq> K) ys"
    by (auto simp: alike_def list_all_iff)
  also have "\<dots> \<longleftrightarrow> list_all2 (alike K) xs ys"
    by (induction xs ys rule: list_induct2') (simp_all add: alike_def, blast)
  finally show ?thesis .
qed

lemma map_eq_all2: "list_all2 R xs ys \<Longrightarrow> (\<And>x y. x \<in> set xs \<Longrightarrow> R x y \<Longrightarrow> f x = g y) \<Longrightarrow> map f xs = map g ys"
  by (induction rule: list_all2_induct) simp_all

lemma deep_sort_object:
  assumes "tells_apart le K" "distinct (map fst m)" "distinct (map fst n)" "fst ` set m \<subseteq> K"
    and "\<And>k. rel_option (\<lambda>v w. deep_sort le v = deep_sort le w) (map_of m k) (map_of n k)"
  shows "deep_sort le (EObject m) = deep_sort le (EObject n)"
proof -
  have "map (\<lambda>(k, v). (k, deep_sort le v)) (sorted_entries le m) = map (\<lambda>(k, v). (k, deep_sort le v)) (sorted_entries le n)"
    by (rule map_eq_all2[OF sorted_entries_related[OF assms]]) auto
  then show ?thesis by simp
qed

lemma deep_sort_alike:
  assumes "tells_apart le K"
  shows "alike K v w \<Longrightarrow> deep_sort le v = deep_sort le w"
proof (induction v arbitrary: w rule: measure_induct_rule[of size])
  case (less v)
  show ?case
  proof (cases v)
    case (EArray xs)
    with less.prems obtain ys where w: "w = EArray ys" by (cases w) (auto simp: alike_def)
    from less.prems have "list_all2 (alike K) xs ys" by (simp add: EArray w alike_elements)
    moreover have "size x < size v" if "x \<in> set xs" for x
      using that by (simp add: EArray less_Suc_eq_le size_list_estimation')
    ultimately have "map (deep_sort le) xs = map (deep_sort le) ys"
      using less.IH by (intro map_eq_all2[of "alike K"]) blast+
    then show ?thesis by (simp add: EArray w)
  next
    case (EObject m)
    with less.prems obtain n where w: "w = EObject n" by (cases w) (auto simp: alike_def)
    have mn: "alike K (EObject m) (EObject n)" using less.prems by (simp add: EObject w)
    have smaller: "size x < size v" if "x \<in> set_option (map_of m k)" for k x
      using that size_ejson_member[of k x m] by (auto simp: EObject dest: map_of_SomeD)
    have "rel_option (\<lambda>v w. deep_sort le v = deep_sort le w) (map_of m k) (map_of n k)" for k
      using alike_objects[OF mn, of k]
      by (rule option.rel_mono_strong) (blast intro: less.IH smaller)
    from deep_sort_object[OF assms alike_keys(1,2,4)[OF mn] this] show ?thesis by (simp only: EObject w)
  qed (use less.prems in \<open>auto simp: alike_def\<close>)
qed


text \<open>Naming alike objects, and reading their members, gives what is alike.\<close>

lemma distinct_obj_insert: "distinct (map fst m) \<Longrightarrow> distinct (map fst (obj_insert key v m))"
proof -
  have placed: "distinct (takeWhile P ks @ key # dropWhile P ks)" if "distinct ks" "key \<notin> set ks" for P and ks :: "string list"
  proof -
    from that(1) have "distinct (takeWhile P ks @ dropWhile P ks)" by simp
    with that(2) show ?thesis by (auto simp del: takeWhile_dropWhile_id dest: set_takeWhileD set_dropWhileD)
  qed
  assume "distinct (map fst m)"
  then show ?thesis
    unfolding keys_of_insert using placed[of "map fst m"] by (simp del: set_map split: option.split)
qed

lemma spread_entries:
  "distinct (map fst entries) \<Longrightarrow> distinct (map fst other) \<Longrightarrow>
     distinct (map fst (obj_spread entries other)) \<and> map_of (obj_spread entries other) = map_of entries ++ map_of other"
proof (induction other arbitrary: entries)
  case Nil
  then show ?case by (simp add: obj_spread_def)
next
  case (Cons x other)
  obtain k v where x: "x = (k, v)" by fastforce
  have "map_of other k = None" using Cons.prems(2) by (simp add: x map_of_eq_None_iff)
  then have "(map_of entries)(k \<mapsto> v) ++ map_of other = map_of entries ++ (map_of other)(k \<mapsto> v)"
    by (auto simp: fun_eq_iff map_add_def split: option.split)
  moreover have "obj_spread entries (x # other) = obj_spread (obj_insert k v entries) other"
    by (simp add: x obj_spread_def)
  moreover have "distinct (map fst (obj_insert k v entries))" "distinct (map fst other)"
    using Cons.prems by (simp_all add: distinct_obj_insert)
  ultimately show ?case
    using Cons.IH[of "obj_insert k v entries"] by (simp only: map_of_obj_insert x map_of.simps fst_conv snd_conv)
qed

lemma alike_object:
  assumes "distinct (map fst m)" "distinct (map fst n)" "fst ` set m \<subseteq> K" "\<And>k. rel_option (alike K) (map_of m k) (map_of n k)"
  shows "alike K (EObject m) (EObject n)"
proof -
  have "rel_option ejson_same (map_of m k) (map_of n k)" for k
    using assms(4)[of k] by (rule option.rel_mono_strong) (simp add: alike_def)
  with assms(1,2) have "ejson_same (EObject m) (EObject n)" by (simp add: ejson_same_entries del: ejson_same.simps)
  moreover have "distinct_keys v \<and> keys_in v \<subseteq> K" if "(k, v) \<in> set m" for k v
    using assms(4)[of k] that assms(1) by (auto simp: option_rel_Some1 alike_def)
  moreover have "distinct_keys w \<and> keys_in w \<subseteq> K" if "(k, w) \<in> set n" for k w
    using assms(4)[of k] that assms(2) by (auto simp: option_rel_Some2 alike_def)
  moreover have "fst ` set n \<subseteq> K"
  proof -
    have "map_of m k = None \<longleftrightarrow> map_of n k = None" for k
      using assms(4)[of k] by (cases "map_of m k"; cases "map_of n k") simp_all
    then have "fst ` set m = fst ` set n" by (auto simp: map_of_eq_None_iff set_eq_iff)
    with assms(3) show ?thesis by simp
  qed
  ultimately show ?thesis using assms(1-3)
    by (auto simp: alike_def list_all_iff simp del: ejson_same.simps) blast+
qed

lemma alike_e_object: "alike K v w \<Longrightarrow> rel_option (\<lambda>m n. alike K (EObject m) (EObject n)) (e_object v) (e_object w)"
  by (cases v; cases w) (simp_all add: alike_def)

lemma alike_named_object:
  assumes "alike K v w" "key \<in> K"
  shows "alike K (EObject (named_object key name v)) (EObject (named_object key name w))"
proof -
  let ?keyed = "obj_insert key (EString name) []"
  have keyed: "distinct (map fst ?keyed)" "map_of ?keyed = [key \<mapsto> EString name]" "fst ` set ?keyed = {key}"
    by (simp_all add: distinct_obj_insert map_of_obj_insert keys_obj_insert)
  have "alike K (EString name) (EString name)" by (simp add: alike_def)
  show ?thesis
  proof (cases "e_object v")
    case None
    with alike_e_object[OF assms(1)] keyed assms(2) \<open>alike K (EString name) (EString name)\<close> show ?thesis
      by (intro alike_object) (auto simp: named_object_def)
  next
    case (Some m)
    with alike_e_object[OF assms(1)] obtain n where n: "e_object w = Some n" and mn: "alike K (EObject m) (EObject n)"
      by (auto simp: option_rel_Some1)
    note spread = spread_entries[OF keyed(1) alike_keys(1)[OF mn]] spread_entries[OF keyed(1) alike_keys(2)[OF mn]]
    have "fst ` set (obj_spread ?keyed m) \<subseteq> K"
      using spread(1) assms(2) alike_keys(4)[OF mn] by (auto simp: keyed simp flip: dom_map_of_conv_image_fst)
    moreover have "rel_option (alike K) (map_of (obj_spread ?keyed m) k) (map_of (obj_spread ?keyed n) k)" for k
      using alike_objects[OF mn, of k] \<open>alike K (EString name) (EString name)\<close>
      by (cases "map_of m k"; cases "map_of n k") (auto simp: spread keyed map_add_def)
    ultimately show ?thesis
      using spread by (intro alike_object) (simp_all add: named_object_def Some n)
  qed
qed

lemma alike_field: "alike K (EObject m) (EObject n) \<Longrightarrow>
    rel_sum (=) (\<lambda>m n. alike K (EObject m) (EObject n)) (object_field m key) (object_field n key)"
proof -
  assume "alike K (EObject m) (EObject n)"
  from alike_objects[OF this, of key] show ?thesis
  proof (cases rule: option.rel_cases)
    case (Some v w)
    from alike_e_object[OF this(3)] show ?thesis
      by (cases "e_object v"; cases "e_object w") (simp_all add: object_field_def Some)
  qed (simp add: object_field_def)
qed


lemma res_bind_alike:
  "rel_sum (=) R x y \<Longrightarrow> (\<And>a b. R a b \<Longrightarrow> f a = g b) \<Longrightarrow> res_bind x f = res_bind y g"
  by (cases x; cases y) simp_all

lemma res_bind_same: "x = y \<Longrightarrow> (\<And>a. f a = g a) \<Longrightarrow> res_bind x f = res_bind y g"
  by (cases y) simp_all

lemma res_collect_alike: "list_all2 (\<lambda>x y. f x = g y) xs ys \<Longrightarrow> res_collect f xs = res_collect g ys"
  by (induction rule: list_all2_induct) simp_all

lemma alike_atoms: "alike K v w \<Longrightarrow> e_f64 v = e_f64 w \<and> e_str v = e_str w"
  by (cases v; cases w) (simp_all add: alike_def)

lemma alike_fields:
  assumes "alike K (EObject m) (EObject n)"
  shows "number_field m key = number_field n key" "str_field m key = str_field n key"
  using alike_objects[OF assms, of key] unfolding number_field_def str_field_def opt_str_def
  by (cases "map_of m key"; cases "map_of n key"; auto dest: alike_atoms)+

lemma named_sorted_alike:
  assumes "tells_apart le K" "key \<in> K" "alike K (EObject m) (EObject n)"
  shows "map (\<lambda>(name, v). deep_sort le (EObject (named_object key name v))) (sorted_entries le m)
    = map (\<lambda>(name, v). deep_sort le (EObject (named_object key name v))) (sorted_entries le n)"
  by (rule map_eq_all2[OF alike_entries[OF assms(1,3,3,3,3)]])
    (auto simp del: deep_sort.simps intro: deep_sort_alike[OF assms(1)] alike_named_object assms(2))

lemma named_object_entries:
  assumes "distinct_keys v"
  shows "distinct (map fst (named_object key name v))"
  using assms by (cases v) (simp_all add: named_object_def distinct_obj_insert spread_entries)

lemma normalized_collaborating_alike:
  assumes le: "tells_apart le K" and K: "''name'' \<in> K" "''path'' \<in> K" "''fields'' \<in> K" and vw: "alike K v w"
  shows "normalized_collaborating le (name, v) = normalized_collaborating le (name, w)"
proof -
  have "deep_sort le (EObject (obj_insert ''fields'' (normalized_fields le fm) (named_object ''name'' name (EObject m))))
      = deep_sort le (EObject (obj_insert ''fields'' (normalized_fields le fn) (named_object ''name'' name (EObject n))))"
    if mn: "alike K (EObject m) (EObject n)" and "alike K (EObject fm) (EObject fn)" for m n fm fn
  proof (rule deep_sort_object[OF le])
    note named = alike_named_object[OF mn K(1), of name]
    have "normalized_fields le fm = normalized_fields le fn"
      using named_sorted_alike[OF le K(2) that(2)] by (simp add: normalized_fields_def)
    then show "rel_option (\<lambda>v w. deep_sort le v = deep_sort le w)
        (map_of (obj_insert ''fields'' (normalized_fields le fm) (named_object ''name'' name (EObject m))) k)
        (map_of (obj_insert ''fields'' (normalized_fields le fn) (named_object ''name'' name (EObject n))) k)" for k
      using alike_objects[OF named, of k] deep_sort_alike[OF le]
      by (cases "map_of (named_object ''name'' name (EObject m)) k"; cases "map_of (named_object ''name'' name (EObject n)) k")
        (simp_all add: map_of_obj_insert)
  qed (use alike_keys[OF alike_named_object[OF mn K(1), of name]] K(3) in \<open>simp_all add: distinct_obj_insert keys_obj_insert\<close>)
  with alike_e_object[OF vw] show ?thesis
    unfolding normalized_collaborating_def prod.case object_of_def
    by (cases "e_object v"; cases "e_object w") (auto simp del: deep_sort.simps intro!: res_bind_alike alike_field)
qed

text \<open>
  (C24) The file of the normalised document is the same for two documents that differ only in the
  order of their objects' members, for every collation that tells the names in them apart.
\<close>

theorem normal_form_ignores_order:
  assumes le: "tells_apart le K" and K: "''name'' \<in> K" "''path'' \<in> K" "''fields'' \<in> K"
    and DE: "alike K (EObject D) (EObject E)"
  shows "render_normalized_definition sci le D = render_normalized_definition sci le E"
proof -
  have entries: "named_entries le m = named_entries le n" if "alike K (EObject m) (EObject n)" for m n
    using named_sorted_alike[OF le K(1) that] by (simp add: named_entries_def)
  have collaborations: "res_collect (normalized_collaborating le) (sorted_entries le m)
      = res_collect (normalized_collaborating le) (sorted_entries le n)" if "alike K (EObject m) (EObject n)" for m n
    using alike_entries[OF le that that that that]
    by (intro res_collect_alike, elim list.rel_mono_strong) (auto intro: normalized_collaborating_alike[OF le K])
  have commands: "named_entries le (case Option.bind (map_of D ''commands'') e_object of None \<Rightarrow> [] | Some m \<Rightarrow> m)
      = named_entries le (case Option.bind (map_of E ''commands'') e_object of None \<Rightarrow> [] | Some m \<Rightarrow> m)"
    using alike_objects[OF DE, of "''commands''"]
  proof (cases rule: option.rel_cases)
    case (Some v w)
    from alike_e_object[OF this(3)] show ?thesis
      by (cases "e_object v"; cases "e_object w") (simp_all add: Some entries)
  qed simp
  have "normalized_document le D = normalized_document le E"
    unfolding normalized_document_def collaboration_of_def version_of_def namespace_of_def defs_of_def
    by (intro res_bind_alike[OF alike_field[where K = K]] res_bind_same collaborations alike_fields[where K = K])
      (simp_all add: DE entries commands del: deep_sort.simps)
  then show ?thesis by (simp add: render_normalized_definition_def)
qed

end
