(* ===== verification/Sampling.thy ===== *)
theory Sampling
  imports Accepted Normalize
begin

text \<open>
  The sample values of \<open>crates/clerkenwell-codegen/src/fixtures.rs\<close>, from \<open>sample_value\<close> to \<open>bounded_sample\<close>, and that a
  sample of an accepted schema is a value of it. Sampling follows references, so it may not end.
\<close>

section \<open>Trying one after another\<close>

definition walk_or :: "'a walk \<Rightarrow> 'a walk \<Rightarrow> 'a walk" where
  "walk_or m n = Option.bind m (\<lambda>r. if r = Inl Refused then n else Some r)"

text \<open>The first that is not refused, or the last refusal.\<close>

fun walk_first :: "('a \<Rightarrow> 'b walk) \<Rightarrow> 'a list \<Rightarrow> 'b walk" where
  "walk_first f [] = Some (Inl Panicked)"
| "walk_first f [x] = f x"
| "walk_first f (x # xs) = walk_or (f x) (walk_first f xs)"

lemma walk_or_mono [partial_function_mono]:
  assumes "mono_option m" "mono_option n"
  shows "mono_option (\<lambda>f. walk_or (m f) (n f))"
  unfolding walk_or_def
proof (rule bind_mono[OF assms(1)])
  fix r
  show "mono_option (\<lambda>f. if r = Inl Refused then n f else Some r)"
    by (cases "r = Inl Refused") (simp_all add: assms(2) option.const_mono)
qed

lemma walk_first_mono [partial_function_mono]:
  assumes "\<And>x. mono_option (\<lambda>f. g x f)"
  shows "mono_option (\<lambda>f. walk_first (\<lambda>x. g x f) xs)"
proof (induction "\<lambda>x :: 'a. undefined :: 'b walk" xs rule: walk_first.induct)
  case 1
  show ?case by (simp add: option.const_mono)
next
  case (2 x)
  show ?case by (simp add: assms)
next
  case (3 x y xs)
  show ?case unfolding walk_first.simps by (intro walk_or_mono assms 3)
qed

lemma walk_first_ok:
  "walk_first f xs = Some (Inr v) \<Longrightarrow> \<exists>x\<in>set xs. f x = Some (Inr v)"
  by (induction f xs rule: walk_first.induct) (auto simp: walk_or_def bind_eq_Some_conv split: if_splits)

section \<open>Samples\<close>

definition fixture_string_limit :: nat where
  "fixture_string_limit = 2 ^ 20"

definition bound_of :: "eobject \<Rightarrow> string \<Rightarrow> rat option" where
  "bound_of schema keyword = Option.bind (map_of schema keyword) e_f64"

text \<open>The branch of a string: \<open>as usize\<close> cuts the fraction off.\<close>

definition string_sample :: "eobject \<Rightarrow> string option \<Rightarrow> string option \<Rightarrow> string checked" where
  "string_sample schema ending key =
     (let sample = (case ending of
            None \<Rightarrow> ''fixture''
          | Some s \<Rightarrow> (case key of Some k \<Rightarrow> kebab_identifier k @ ''-'' @ s | None \<Rightarrow> s @ ''-value''));
          least = (case bound_of schema ''minLength'' of None \<Rightarrow> 0 | Some n \<Rightarrow> n) in
      if of_nat fixture_string_limit < least then Inl Refused
      else Inr (sample @ replicate (nat \<lfloor>least\<rfloor> - length sample) (CHR ''x'')))"

definition bounded_sample :: "eobject \<Rightarrow> bool \<Rightarrow> rat checked" where
  "bounded_sample schema integer =
     (let raised = (case bound_of schema ''minimum'' of
            None \<Rightarrow> 1
          | Some minimum \<Rightarrow> if 1 < minimum then if integer then of_int \<lceil>minimum\<rceil> else minimum else 1);
          sample = (case bound_of schema ''maximum'' of
            None \<Rightarrow> raised
          | Some maximum \<Rightarrow> if maximum < raised then if integer then of_int \<lfloor>maximum\<rfloor> else maximum else raised);
          held = (case bound_of schema ''minimum'' of None \<Rightarrow> True | Some limit \<Rightarrow> limit \<le> sample)
            \<and> (case bound_of schema ''maximum'' of None \<Rightarrow> True | Some limit \<Rightarrow> sample \<le> limit);
          representable = (\<not> integer \<or> - (2 ^ 63) \<le> sample \<and> sample < 2 ^ 63) in
      if \<not> held \<or> \<not> representable then Inl Refused else Inr sample)"

text \<open>A name no property has: dashes are added until there is none.\<close>

function fresh_member :: "eobject \<Rightarrow> string \<Rightarrow> string" where
  "fresh_member properties name =
     (if name \<in> fst ` set properties then fresh_member properties (name @ ''-'') else name)"
  by pat_completeness auto
termination
proof (relation "measure (\<lambda>(properties, name). card {k \<in> fst ` set properties. length name \<le> length k})")
  fix properties :: eobject and name
  assume "name \<in> fst ` set properties"
  moreover define held shorter where "held = {k \<in> fst ` set properties. length (name @ ''-'') \<le> length k}"
    and "shorter = {k \<in> fst ` set properties. length name \<le> length k}"
  ultimately have "name \<in> shorter" "name \<notin> held" "held \<subseteq> shorter" by auto
  then have "held \<subset> shorter" by auto
  moreover have "finite shorter" by (simp add: shorter_def)
  ultimately have "card held < card shorter" by (rule psubset_card_mono[rotated])
  then show "((properties, name @ ''-''), properties, name)
      \<in> measure (\<lambda>(properties, name). card {k \<in> fst ` set properties. length name \<le> length k})"
    by (simp add: held_def shorter_def)
qed simp

declare fresh_member.simps [simp del]

lemma fresh_member_new: "fresh_member properties name \<notin> fst ` set properties"
proof (induction properties name rule: fresh_member.induct)
  case (1 properties name)
  then show ?case
    by (cases "name \<in> fst ` set properties") (simp_all only: fresh_member.simps[of properties name] if_True if_False not_False_eq_True)
qed

text \<open>The member an open object's sample has and its schema does not declare: its name and the schema of its value.\<close>

definition undeclared_member :: "eobject \<Rightarrow> bool \<Rightarrow> (string \<times> eobject) option" where
  "undeclared_member schema extended =
     (if \<not> extended then None
      else case (object_at schema ''properties'', other_members_schema schema) of
        (Some properties, Some additional) \<Rightarrow> Some (fresh_member properties ''other-member'', additional)
      | _ \<Rightarrow> None)"

text \<open>The branch of an object, which samples what it holds with \<open>g\<close>: a property, a tagged variant, the members.\<close>

type_synonym sampler = "eobject \<Rightarrow> string option \<Rightarrow> string option \<Rightarrow> bool \<Rightarrow> ejson walk"

definition property_sample :: "sampler \<Rightarrow> string option \<Rightarrow> bool \<Rightarrow> string \<times> ejson \<Rightarrow> (string \<times> ejson) walk" where
  "property_sample g ending extended property =
     walk_bind (Some (object_of (snd property))) (\<lambda>declared.
     walk_bind (g declared ending (Some (fst property)) extended) (\<lambda>v. walk_ok (fst property, v)))"

definition properties_of :: "eobject \<Rightarrow> eobject" where
  "properties_of schema = (case object_at schema ''properties'' of None \<Rightarrow> [] | Some p \<Rightarrow> p)"

definition tagged_sample :: "sampler \<Rightarrow> eobject \<Rightarrow> eobject \<Rightarrow> string option \<Rightarrow> string option \<Rightarrow> bool \<Rightarrow> ejson walk" where
  "tagged_sample g schema variants ending key extended =
     walk_bind (Some (ok_or Panicked (if variants = [] then None else Some (hd variants)))) (\<lambda>variant.
     walk_bind (Some (ok_or Panicked (opt_str schema ''discriminator''))) (\<lambda>discriminator.
     walk_bind (Some (object_of (snd variant))) (\<lambda>declared.
     walk_bind (g declared ending key extended) (\<lambda>v.
     let tagged = obj_insert discriminator (EString (fst variant)) [] in
     walk_ok (EObject (case e_object v of None \<Rightarrow> tagged | Some members \<Rightarrow> obj_spread tagged members))))))"

definition members_sample :: "sampler \<Rightarrow> eobject \<Rightarrow> string option \<Rightarrow> bool \<Rightarrow> ejson walk" where
  "members_sample g schema ending extended =
     walk_bind (Some (read_string_array (map_of schema ''required''))) (\<lambda>required.
     walk_bind (walk_collect (property_sample g ending extended)
       (filter (\<lambda>property. fst property \<in> set required) (properties_of schema))) (\<lambda>members.
     case undeclared_member schema extended of
       None \<Rightarrow> walk_ok (EObject (obj_of members))
     | Some other \<Rightarrow>
         walk_bind (if has_type (snd other) ''json'' then walk_ok (EString ''other-value'')
           else g (snd other) ending (Some (fst other)) False) (\<lambda>v.
         walk_ok (EObject (obj_insert (fst other) v (obj_of members))))))"

lemma tagged_sample_mono [partial_function_mono]:
  assumes "\<And>s e k x. mono_option (\<lambda>f. g s e k x f)"
  shows "mono_option (\<lambda>f. tagged_sample (\<lambda>s e k x. g s e k x f) schema variants ending key extended)"
  unfolding tagged_sample_def Let_def by (intro walk_bind_mono assms option.const_mono)

lemma members_sample_mono [partial_function_mono]:
  assumes "\<And>s e k x. mono_option (\<lambda>f. g s e k x f)"
  shows "mono_option (\<lambda>f. members_sample (\<lambda>s e k x. g s e k x f) schema ending extended)"
  unfolding members_sample_def property_sample_def
proof (intro walk_bind_mono walk_collect_mono option.const_mono assms)
  fix members
  show "mono_option (\<lambda>f. case undeclared_member schema extended of
      None \<Rightarrow> walk_ok (EObject (obj_of members))
    | Some other \<Rightarrow>
        walk_bind (if has_type (snd other) ''json'' then walk_ok (EString ''other-value'')
          else g (snd other) ending (Some (fst other)) False f) (\<lambda>v.
        walk_ok (EObject (obj_insert (fst other) v (obj_of members)))))"
  proof (cases "undeclared_member schema extended")
    case None
    then show ?thesis by (simp add: option.const_mono)
  next
    case (Some other)
    then show ?thesis
      by (cases "has_type (snd other) ''json''") (simp_all add: walk_bind_mono assms option.const_mono)
  qed
qed

partial_function (option) sample_within ::
  "eobject \<Rightarrow> eobject \<Rightarrow> string option \<Rightarrow> string option \<Rightarrow> bool \<Rightarrow> ejson walk"
where
  "sample_within D schema ending key extended =
     (if map_of schema ''$ref'' \<noteq> None then
        walk_bind (Some (resolve_ref D schema)) (\<lambda>target. sample_within D target ending key extended)
      else case map_of schema ''const'' of Some constant \<Rightarrow> walk_ok constant
      | None \<Rightarrow>
      case Option.bind (map_of schema ''enum'') e_array of
        Some listed \<Rightarrow> (case find (value_meets_bounds schema) listed of None \<Rightarrow> walk_refuse | Some v \<Rightarrow> walk_ok v)
      | None \<Rightarrow>
      walk_bind (Some (primitive_union_types schema)) (\<lambda>union.
      case union of
        Some members \<Rightarrow>
          walk_first (\<lambda>member. sample_within D (obj_insert ''type'' (EString member) schema) ending key extended) members
      | None \<Rightarrow>
      case opt_str schema ''type'' of
        None \<Rightarrow> walk_refuse
      | Some kind \<Rightarrow>
          if kind = ''string'' then walk_bind (Some (string_sample schema ending key)) (\<lambda>s. walk_ok (EString s))
          else if kind = ''integer'' \<or> kind = ''number'' then
            walk_bind (Some (bounded_sample schema (kind = ''integer''))) (\<lambda>n. walk_ok (ENumber n))
          else if kind = ''boolean'' then walk_ok (EBool True)
          else if kind = ''json'' then walk_ok ENull
          else if kind = ''array'' then
            walk_bind (Some (ok_or Panicked (object_at schema ''items''))) (\<lambda>items.
            walk_bind (sample_within D items ending None extended) (\<lambda>v. walk_ok (EArray [v])))
          else if kind = ''object'' then
            (case object_at schema ''oneOf'' of
               Some variants \<Rightarrow>
                 tagged_sample (sample_within D) schema variants ending key extended
             | None \<Rightarrow> members_sample (sample_within D) schema ending extended)
          else walk_refuse))"

declare sample_within.simps [code]

definition sample_value :: "eobject \<Rightarrow> eobject \<Rightarrow> string option \<Rightarrow> string option \<Rightarrow> ejson walk" where
  "sample_value D schema ending key = sample_within D schema ending key True"

definition sample_schema_value :: "eobject \<Rightarrow> eobject \<Rightarrow> ejson walk" where
  "sample_schema_value D schema = sample_value D schema None None"

section \<open>The values of a schema\<close>

definition primitive_value :: "eobject \<Rightarrow> string \<Rightarrow> ejson \<Rightarrow> bool" where
  "primitive_value schema kind v \<longleftrightarrow>
     value_meets_bounds schema v \<and>
     (kind = ''string'' \<and> e_str v \<noteq> None \<or> kind = ''boolean'' \<and> e_bool v \<noteq> None \<or> kind = ''number'' \<and> e_f64 v \<noteq> None
      \<or> kind = ''integer'' \<and> is_integral v \<and> (case e_f64 v of None \<Rightarrow> False | Some n \<Rightarrow> - (2 ^ 63) \<le> n \<and> n < 2 ^ 63))"

text \<open>A schema that says what its values are by their type.\<close>

definition typed :: "eobject \<Rightarrow> bool" where
  "typed schema \<longleftrightarrow> map_of schema ''$ref'' = None \<and> map_of schema ''const'' = None
     \<and> Option.bind (map_of schema ''enum'') e_array = None"

inductive conforms :: "eobject \<Rightarrow> eobject \<Rightarrow> ejson \<Rightarrow> bool" for D where
  by_reference: "map_of schema ''$ref'' \<noteq> None \<Longrightarrow> resolve_ref D schema = Inr target \<Longrightarrow> conforms D target v \<Longrightarrow> conforms D schema v"
| by_constant: "map_of schema ''$ref'' = None \<Longrightarrow> map_of schema ''const'' = Some v \<Longrightarrow> conforms D schema v"
| by_enum: "map_of schema ''$ref'' = None \<Longrightarrow> map_of schema ''const'' = None \<Longrightarrow>
    Option.bind (map_of schema ''enum'') e_array = Some listed \<Longrightarrow> v \<in> set listed \<Longrightarrow> value_meets_bounds schema v \<Longrightarrow>
    conforms D schema v"
| by_union: "typed schema \<Longrightarrow> primitive_union_types schema = Inr (Some members) \<Longrightarrow> member \<in> set members \<Longrightarrow>
    primitive_value schema member v \<Longrightarrow> conforms D schema v"
| by_type: "typed schema \<Longrightarrow> opt_str schema ''type'' = Some kind \<Longrightarrow> primitive_value schema kind v \<Longrightarrow> conforms D schema v"
| any: "typed schema \<Longrightarrow> has_type schema ''json'' \<Longrightarrow> conforms D schema v"
| by_items: "typed schema \<Longrightarrow> has_type schema ''array'' \<Longrightarrow> object_at schema ''items'' = Some items \<Longrightarrow>
    (\<And>v. v \<in> set vs \<Longrightarrow> conforms D items v) \<Longrightarrow> conforms D schema (EArray vs)"
| by_tag: "typed schema \<Longrightarrow> has_type schema ''object'' \<Longrightarrow> object_at schema ''oneOf'' = Some variants \<Longrightarrow>
    opt_str schema ''discriminator'' = Some discriminator \<Longrightarrow> (tag, EObject variant) \<in> set variants \<Longrightarrow>
    map_of m discriminator = Some (EString tag) \<Longrightarrow> map_of untagged = (map_of m)(discriminator := None) \<Longrightarrow>
    conforms D variant (EObject untagged) \<Longrightarrow> conforms D schema (EObject m)"
| by_members: "typed schema \<Longrightarrow> has_type schema ''object'' \<Longrightarrow> object_at schema ''oneOf'' = None \<Longrightarrow>
    read_string_array (map_of schema ''required'') = Inr required \<Longrightarrow> set required \<subseteq> fst ` set m \<Longrightarrow>
    properties = (case object_at schema ''properties'' of None \<Rightarrow> [] | Some p \<Rightarrow> p) \<Longrightarrow>
    (\<And>k v. (k, v) \<in> set m \<Longrightarrow> k \<in> fst ` set properties \<Longrightarrow> \<exists>s. (k, EObject s) \<in> set properties \<and> conforms D s v) \<Longrightarrow>
    (\<And>k v. (k, v) \<in> set m \<Longrightarrow> k \<notin> fst ` set properties \<Longrightarrow>
       \<exists>s. object_at schema ''additionalProperties'' = Some s \<and> conforms D s v) \<Longrightarrow> conforms D schema (EObject m)"

section \<open>What is accepted of a schema\<close>

definition accepted_schema :: "eobject \<Rightarrow> ejson \<Rightarrow> bool" where
  "accepted_schema D node \<longleftrightarrow> (\<exists>sci where_at. check_schema_node sci D where_at node = walk_ok ())"

definition accepted_object :: "eobject \<Rightarrow> eobject \<Rightarrow> bool" where
  "accepted_object D schema \<longleftrightarrow>
     (\<forall>additional. object_at schema ''additionalProperties'' = Some additional \<longrightarrow> accepted_schema D (EObject additional)) \<and>
     (case object_at schema ''properties'' of
        None \<Rightarrow> map_of schema ''required'' = None
      | Some properties \<Rightarrow> list_all (\<lambda>property. accepted_schema D (snd property)) properties \<and>
          (\<forall>required. read_string_array (map_of schema ''required'') = Inr required \<longrightarrow> set required \<subseteq> fst ` set properties))"

lemma walk_is_ok: "walk_bind m f = Some (Inr b) \<Longrightarrow> (\<And>a. m = Some (Inr a) \<Longrightarrow> f a = Some (Inr b) \<Longrightarrow> P) \<Longrightarrow> P"
  by (auto simp: walk_bind_ok_iff)

lemma accepted_schemaI: "check_schema_node sci D where_at node = walk_ok () \<Longrightarrow> accepted_schema D node"
  unfolding accepted_schema_def by blast

lemma each_accepted:
  "list_all (\<lambda>x. check_schema_node sci D (f x) (snd x) = walk_ok ()) xs \<Longrightarrow> list_all (\<lambda>x. accepted_schema D (snd x)) xs"
  by (auto simp: list_all_iff accepted_schema_def)

lemma not_open: "object_at schema ''properties'' = None \<Longrightarrow> check_open_object sci D schema other = walk_refuse"
  by (simp add: check_open_object_def)

lemma object_at_held: "object_at schema key = Some m \<Longrightarrow> map_of schema key \<noteq> None"
  by (auto simp: object_at_def bind_eq_Some_conv)

lemma accepted_is_object: "accepted_schema D v \<Longrightarrow> \<exists>s. v = EObject s"
  by (cases v) (auto simp: accepted_schema_def check_schema_node.simps)

lemma accepted_typed:
  assumes "check_schema_node sci D where_at (EObject schema) = walk_ok ()" "map_of schema ''$ref'' = None"
  obtains (tagged) discriminator variants where "union_shape where_at schema = Inr (discriminator, variants)"
      "list_all (\<lambda>variant. variant_shape discriminator (fst variant) (snd variant) = Inr ()
         \<and> check_schema_node sci D (where_at @ ''.oneOf.'' @ fst variant) (snd variant) = walk_ok ()) variants"
  | (union) members where "primitive_union_types schema = Inr (Some members)" "check_validation_keywords schema members = Inr ()"
      "map_of schema ''oneOf'' = None" "enum_ok schema"
  | (single) kind where "primitive_union_types schema = Inr None" "opt_str schema ''type'' = Some kind"
      "check_validation_keywords schema [kind] = Inr ()" "map_of schema ''oneOf'' = None" "enum_ok schema"
      "kind = ''array'' \<Longrightarrow> \<exists>items. object_at schema ''items'' = Some items \<and> accepted_schema D (EObject items)"
      "kind = ''object'' \<Longrightarrow> accepted_object D schema"
proof (cases "map_of schema ''oneOf'' \<noteq> None \<or> map_of schema ''discriminator'' \<noteq> None")
  case True
  with assms show ?thesis
    by (auto simp: check_schema_node.simps[of sci D where_at] walk_each_ok_iff walk_bind_ok_iff list_all_iff
        split: if_splits sum.splits intro!: tagged)
next
  case False
  then have no_tags: "map_of schema ''oneOf'' = None" "map_of schema ''discriminator'' = None" by auto
  from assms no_tags have ok: "enum_ok schema"
    by (auto simp: check_schema_node.simps[of sci D where_at] split: if_splits)
  show ?thesis
  proof (cases "primitive_union_types schema")
    case (Inl e)
    with assms no_tags ok show ?thesis
      by (auto simp: check_schema_node.simps[of sci D where_at] split: if_splits)
  next
    case (Inr u)
    show ?thesis
    proof (cases u)
      case (Some members)
      with assms no_tags ok Inr have "check_validation_keywords schema members = Inr ()"
        by (simp add: check_schema_node.simps[of sci D where_at] walk_bind_ok_iff split: if_splits)
      with Inr Some no_tags ok show ?thesis by (intro union) auto
    next
      case None
      note body = assms no_tags ok Inr None check_schema_node.simps[of sci D where_at "EObject schema"]
      obtain kind where kind: "opt_str schema ''type'' = Some kind"
        using body by (cases "opt_str schema ''type''") (simp_all split: if_splits)
      have bounds: "check_validation_keywords schema [kind] = Inr ()"
        using body kind by (simp add: walk_bind_ok_iff split: if_splits)
      have items: "\<exists>items. object_at schema ''items'' = Some items \<and> accepted_schema D (EObject items)" if "kind = ''array''"
        using body kind[unfolded that]
        by (cases "object_at schema ''items''") (auto simp: walk_bind_ok_iff intro: accepted_schemaI split: if_splits)
      have members: "accepted_object D schema" if "kind = ''object''"
        using body kind[unfolded that] unfolding accepted_object_def
        by (cases "object_at schema ''properties''"; cases "object_at schema ''additionalProperties''")
          (auto simp: walk_bind_ok_iff walk_each_ok_iff not_open intro: accepted_schemaI each_accepted dest: object_at_held split: if_splits)
      show ?thesis
        by (rule that(3)[of kind]) (use Inr None kind bounds no_tags ok items members in auto)
    qed
  qed
qed

section \<open>A sample is a value of its schema\<close>

text \<open>The length a string needs is a whole number.\<close>

definition whole_length :: "eobject \<Rightarrow> bool" where
  "whole_length schema \<longleftrightarrow> (case bound_of schema ''minLength'' of None \<Rightarrow> True | Some n \<Rightarrow> of_int \<lfloor>n\<rfloor> = n \<and> 0 \<le> n)"

lemma keywords_whole_length: "check_validation_keywords schema types = Inr () \<Longrightarrow> whole_length schema"
  by (auto simp: check_validation_keywords_def Let_def res_bind_Inr_iff whole_length_def bound_of_def is_integral_def
      bind_eq_Some_conv split: option.splits)

lemma keywords_const:
  "check_validation_keywords schema [kind] = Inr () \<Longrightarrow> kind \<notin> set primitive_types \<Longrightarrow> map_of schema ''const'' = None"
  by (auto simp: check_validation_keywords_def check_const_def Let_def res_bind_Inr_iff split: option.splits)

lemma string_sample_value:
  assumes "whole_length schema" "string_sample schema ending key = Inr text"
  shows "primitive_value schema ''string'' (EString text)"
proof -
  define least where "least = (case bound_of schema ''minLength'' of None \<Rightarrow> 0 | Some n \<Rightarrow> n)"
  from assms(1) have whole: "of_int \<lfloor>least\<rfloor> = least" "0 \<le> least"
    by (auto simp: whole_length_def least_def split: option.splits)
  from assms(2) obtain sample where "text = sample @ replicate (nat \<lfloor>least\<rfloor> - length sample) (CHR ''x'')"
    by (auto simp: string_sample_def Let_def least_def split: if_splits)
  then have "nat \<lfloor>least\<rfloor> \<le> length text" by simp
  then have "int (nat \<lfloor>least\<rfloor>) \<le> int (length text)" by (simp only: of_nat_le_iff)
  moreover have "int (nat \<lfloor>least\<rfloor>) = \<lfloor>least\<rfloor>" using whole(2) by simp
  ultimately have "(of_int \<lfloor>least\<rfloor> :: rat) \<le> of_int (int (length text))" by (simp only: of_int_le_iff)
  then have "least \<le> of_nat (length text)" unfolding whole(1) by simp
  then show ?thesis
    by (auto simp: primitive_value_def value_meets_bounds_def Let_def least_def bound_of_def split: option.splits)
qed

lemma bounded_sample_value:
  assumes "bounded_sample schema integer = Inr n"
  shows "primitive_value schema (if integer then ''integer'' else ''number'') (ENumber n)"
proof -
  have "of_int \<lfloor>n\<rfloor> = n" if integer
    using assms that by (auto simp: bounded_sample_def Let_def split: if_splits option.splits)
  then show ?thesis using assms
    by (auto simp: bounded_sample_def Let_def primitive_value_def value_meets_bounds_def bound_of_def is_integral_def
        split: if_splits option.splits)
qed

lemma set_obj_insert: "x \<in> set (obj_insert key v m) \<Longrightarrow> x = (key, v) \<or> x \<in> set m \<and> fst x \<noteq> key"
  by (auto simp: obj_insert_def dest: set_takeWhileD set_dropWhileD split: if_splits option.splits)

lemma obj_of_members: "set (obj_of members) \<subseteq> set members \<and> distinct (map fst (obj_of members))"
proof (induction members rule: rev_induct)
  case Nil
  then show ?case by (simp add: obj_of_def obj_spread_def)
next
  case (snoc x xs)
  then show ?case
    by (cases x) (auto simp: obj_of_snoc distinct_obj_insert dest!: set_obj_insert)
qed

lemma object_conforms:
  assumes schema: "typed schema" "has_type schema ''object''" "object_at schema ''oneOf'' = None" "accepted_object D schema"
    and required: "read_string_array (map_of schema ''required'') = Inr required"
    and members: "list_all2 (\<lambda>property member. \<exists>s v. snd property = EObject s \<and> member = (fst property, v) \<and> conforms D s v)
      (filter (\<lambda>property. fst property \<in> set required) properties) members"
    and properties: "properties = (case object_at schema ''properties'' of None \<Rightarrow> [] | Some p \<Rightarrow> p)"
    and m: "set m \<subseteq> set members \<union> others" "fst ` set members \<subseteq> fst ` set m"
    and others: "\<And>k v. (k, v) \<in> others \<Longrightarrow> k \<notin> fst ` set properties \<and>
      (\<exists>s. object_at schema ''additionalProperties'' = Some s \<and> conforms D s v)"
  shows "conforms D schema (EObject m)"
proof -
  have from_property: "\<exists>s. (k, EObject s) \<in> set properties \<and> conforms D s v" if "(k, v) \<in> set members" for k v
  proof -
    from that obtain i where i: "i < length members" "members ! i = (k, v)" by (auto simp: in_set_conv_nth)
    let ?property = "filter (\<lambda>property. fst property \<in> set required) properties ! i"
    from list_all2_nthD2[OF members i(1)] i(2) obtain s where s: "snd ?property = EObject s" "fst ?property = k" "conforms D s v"
      by auto
    have "?property \<in> set properties"
      using nth_mem[of i "filter (\<lambda>property. fst property \<in> set required) properties"] i(1) list_all2_lengthD[OF members] by auto
    with s show ?thesis by (metis prod.collapse)
  qed
  have "set required \<subseteq> fst ` set properties"
  proof (cases "object_at schema ''properties''")
    case None
    with schema(4) have "map_of schema ''required'' = None" by (simp add: accepted_object_def)
    with required show ?thesis by (simp add: read_string_array_def)
  next
    case (Some p)
    with schema(4) required properties show ?thesis by (simp add: accepted_object_def)
  qed
  moreover have "fst ` set members = {k \<in> fst ` set properties. k \<in> set required}"
  proof -
    have "map fst members = map fst (filter (\<lambda>property. fst property \<in> set required) properties)"
      using members by (induction rule: list_all2_induct) auto
    then have "set (map fst members) = set (map fst (filter (\<lambda>property. fst property \<in> set required) properties))" by simp
    then show ?thesis by auto
  qed
  ultimately have "set required \<subseteq> fst ` set m" using m(2) by auto
  from by_members[OF schema(1-3) required this properties] show ?thesis
    using m(1) from_property others by (smt (verit) UnE subsetD imageI fst_conv)
qed

text \<open>What is shown of a sample, by induction on what is sampled: a schema accepted, or a union made one of its types.\<close>

definition samplable :: "eobject \<Rightarrow> eobject \<Rightarrow> bool" where
  "samplable D schema \<longleftrightarrow> accepted_schema D (EObject schema)
     \<or> typed schema \<and> whole_length schema \<and> (\<exists>kind\<in>set primitive_types. map_of schema ''type'' = Some (EString kind))"

definition sampled :: "eobject \<Rightarrow> eobject \<Rightarrow> ejson \<Rightarrow> bool" where
  "sampled D schema v \<longleftrightarrow> conforms D schema v
     \<and> (typed schema \<longrightarrow> (\<forall>kind\<in>set primitive_types. opt_str schema ''type'' = Some kind \<longrightarrow> primitive_value schema kind v))
     \<and> (typed schema \<longrightarrow> has_type schema ''object'' \<longrightarrow> object_at schema ''oneOf'' = None \<longrightarrow>
          (\<exists>m. v = EObject m \<and> distinct (map fst m) \<and> (object_at schema ''additionalProperties'' = None \<longrightarrow>
            fst ` set m \<subseteq> fst ` set (case object_at schema ''properties'' of None \<Rightarrow> [] | Some p \<Rightarrow> p))))"

lemma accepted_untagged:
  assumes "accepted_schema D (EObject schema)" "typed schema" "opt_str schema ''type'' = Some kind" "kind \<noteq> ''object''"
  shows "whole_length schema" "kind = ''array'' \<Longrightarrow> \<exists>items. object_at schema ''items'' = Some items \<and> accepted_schema D (EObject items)"
proof -
  from assms(1) obtain sci where_at where "check_schema_node sci D where_at (EObject schema) = walk_ok ()"
    by (auto simp: accepted_schema_def)
  moreover from assms(2) have "map_of schema ''$ref'' = None" by (simp add: typed_def)
  ultimately have "whole_length schema
    \<and> (kind = ''array'' \<longrightarrow> (\<exists>items. object_at schema ''items'' = Some items \<and> accepted_schema D (EObject items)))"
  proof (cases rule: accepted_typed)
    case (tagged discriminator variants)
    then have "has_type schema ''object''" by (auto simp: union_shape_def Let_def res_bind_Inr_iff)
    with assms(3,4) show ?thesis by (simp add: has_type_def)
  next
    case (union members)
    with assms(3) show ?thesis by (auto simp: primitive_union_types_def opt_str_def bind_eq_Some_conv split: ejson.splits option.splits)
  next
    case (single kind')
    with assms(3) show ?thesis by (auto dest: keywords_whole_length)
  qed
  then show "whole_length schema" "kind = ''array'' \<Longrightarrow> \<exists>items. object_at schema ''items'' = Some items \<and> accepted_schema D (EObject items)"
    by blast+
qed

lemma accepted_members:
  assumes "accepted_schema D (EObject schema)" "typed schema" "has_type schema ''object''" "object_at schema ''oneOf'' = None"
  shows "accepted_object D schema"
proof -
  from assms(1) obtain sci where_at where "check_schema_node sci D where_at (EObject schema) = walk_ok ()"
    by (auto simp: accepted_schema_def)
  moreover from assms(2) have "map_of schema ''$ref'' = None" by (simp add: typed_def)
  ultimately show ?thesis
  proof (cases rule: accepted_typed)
    case (tagged discriminator variants)
    with assms(4) show ?thesis by (auto simp: union_shape_def Let_def res_bind_Inr_iff)
  next
    case (union members)
    with assms(3) show ?thesis
      by (auto simp: primitive_union_types_def has_type_def opt_str_def bind_eq_Some_conv split: ejson.splits option.splits)
  next
    case (single kind)
    with assms(3) show ?thesis by (simp add: has_type_def)
  qed
qed

text \<open>A variant of a tagged union: an object, closed, that does not declare the tag.\<close>

lemma accepted_variants:
  assumes "accepted_schema D (EObject schema)" "typed schema" "object_at schema ''oneOf'' = Some variants"
    "opt_str schema ''discriminator'' = Some discriminator" "(tag, EObject variant) \<in> set variants"
  shows "accepted_schema D (EObject variant)" "typed variant" "has_type variant ''object''" "object_at variant ''oneOf'' = None"
    "object_at variant ''additionalProperties'' = None"
    "discriminator \<notin> fst ` set (case object_at variant ''properties'' of None \<Rightarrow> [] | Some p \<Rightarrow> p)"
proof -
  from assms(1) obtain sci where_at where checked: "check_schema_node sci D where_at (EObject schema) = walk_ok ()"
    by (auto simp: accepted_schema_def)
  from assms(2) have "map_of schema ''$ref'' = None" by (simp add: typed_def)
  with checked obtain discriminator' variants' where shape: "union_shape where_at schema = Inr (discriminator', variants')"
    and each: "list_all (\<lambda>variant. variant_shape discriminator' (fst variant) (snd variant) = Inr ()
         \<and> check_schema_node sci D (where_at @ ''.oneOf.'' @ fst variant) (snd variant) = walk_ok ()) variants'"
  proof (cases rule: accepted_typed)
    case (tagged discriminator variants)
    then show ?thesis by (rule that)
  qed (use object_at_held[OF assms(3)] in auto)
  from shape assms(3,4) have same: "discriminator' = discriminator" "variants' = variants" and at: "take 6 where_at = ''$defs.''"
    by (auto simp: union_shape_def Let_def res_bind_Inr_iff split: if_splits)
  with each assms(5) have node: "check_schema_node sci D (where_at @ ''.oneOf.'' @ tag) (EObject variant) = walk_ok ()"
    and variant: "variant_shape discriminator tag (EObject variant) = Inr ()" by (auto simp: list_all_iff)
  then show "accepted_schema D (EObject variant)" "has_type variant ''object''" "object_at variant ''additionalProperties'' = None"
    "discriminator \<notin> fst ` set (case object_at variant ''properties'' of None \<Rightarrow> [] | Some p \<Rightarrow> p)"
    by (auto simp: variant_shape_def res_bind_Inr_iff accepted_schema_def split: option.splits)
  from \<open>has_type variant ''object''\<close> have "''type'' \<in> fst ` set variant"
    by (auto simp: has_type_def opt_str_def bind_eq_Some_conv dest!: map_of_SomeD intro: rev_image_eqI)
  with node have "map_of variant ''$ref'' = None"
    by (auto simp: check_schema_node.simps list_all_iff split: if_splits)
  with node have "typed variant \<and> object_at variant ''oneOf'' = None"
  proof (cases rule: accepted_typed)
    case (tagged discriminator variants)
    with at show ?thesis by (auto simp: union_shape_def Let_def res_bind_Inr_iff split: if_splits)
  next
    case (union members)
    with \<open>has_type variant ''object''\<close> show ?thesis
      by (auto simp: primitive_union_types_def has_type_def opt_str_def bind_eq_Some_conv split: ejson.splits option.splits)
  next
    case (single kind)
    with \<open>has_type variant ''object''\<close> have "kind = ''object''" by (simp add: has_type_def)
    with single have "map_of variant ''const'' = None" using keywords_const[of variant kind] by (simp add: primitive_types_def)
    moreover have "map_of variant ''enum'' = None"
      using \<open>enum_ok variant\<close> \<open>has_type variant ''object''\<close> by (auto simp: enum_ok_def has_type_def split: option.splits)
    ultimately show ?thesis using single \<open>map_of variant ''$ref'' = None\<close> by (simp add: typed_def object_at_def)
  qed
  then show "typed variant" "object_at variant ''oneOf'' = None" by auto
qed

lemma sampled_primitive:
  assumes "samplable D schema" "typed schema" "opt_str schema ''type'' = Some kind" "kind \<in> set primitive_types"
    and "primitive_value schema kind v"
  shows "sampled D schema v"
proof -
  have "kind \<noteq> ''object''" using assms(4) by (auto simp: primitive_types_def)
  with assms show ?thesis by (auto simp: sampled_def has_type_def intro: by_type)
qed

lemma samplable_length:
  assumes "samplable D schema" "typed schema" "opt_str schema ''type'' = Some kind" "kind \<noteq> ''object''"
  shows "whole_length schema"
  using assms accepted_untagged(1)[of D schema kind] by (auto simp: samplable_def)

lemma samplable_accepted:
  assumes "samplable D schema" "typed schema \<Longrightarrow> opt_str schema ''type'' = Some kind \<and> kind \<notin> set primitive_types"
  shows "accepted_schema D (EObject schema)"
  using assms by (auto simp: samplable_def opt_str_def)

text \<open>Every declared schema is accepted.\<close>

definition accepted_defs :: "eobject \<Rightarrow> bool" where
  "accepted_defs D \<longleftrightarrow> (\<forall>name schema. def_of D name = Inr (Some schema) \<longrightarrow> accepted_schema D (EObject schema))"

lemma sampled_members:
  assumes accepted: "accepted_schema D (EObject schema)" and schema: "typed schema" "has_type schema ''object''"
      "object_at schema ''oneOf'' = None"
    and required: "read_string_array (map_of schema ''required'') = Inr required"
    and members: "list_all2 (\<lambda>property member. \<exists>s v. snd property = EObject s \<and> member = (fst property, v) \<and> conforms D s v)
      (filter (\<lambda>property. fst property \<in> set required)
        (case object_at schema ''properties'' of None \<Rightarrow> [] | Some p \<Rightarrow> p)) members"
    and m: "m = obj_of members
      \<or> (\<exists>name additional v. undeclared_member schema extended = Some (name, additional) \<and> conforms D additional v
           \<and> m = obj_insert name v (obj_of members))"
  shows "sampled D schema (EObject m)"
proof -
  define properties where "properties = (case object_at schema ''properties'' of None \<Rightarrow> [] | Some p \<Rightarrow> p)"
  have declared: "fst ` set members \<subseteq> fst ` set properties"
  proof -
    have "map fst members = map fst (filter (\<lambda>property. fst property \<in> set required) properties)"
      using members unfolding properties_def[symmetric] by (induction rule: list_all2_induct) auto
    then have "set (map fst members) = set (map fst (filter (\<lambda>property. fst property \<in> set required) properties))" by simp
    then show ?thesis by auto
  qed
  have keys: "fst ` set (obj_of members) = fst ` set members" using set_keys_obj_of[of members] by simp
  note object = object_conforms[OF schema accepted_members[OF accepted schema] required members[folded properties_def] properties_def]
  have "conforms D schema (EObject m) \<and> distinct (map fst m)
    \<and> (object_at schema ''additionalProperties'' = None \<longrightarrow> fst ` set m \<subseteq> fst ` set properties)"
    using m
  proof (elim disjE exE conjE)
    assume "m = obj_of members"
    with object[of m "{}"] obj_of_members[of members] declared keys show ?thesis by auto
  next
    fix name additional v
    assume other: "undeclared_member schema extended = Some (name, additional)" and v: "conforms D additional v"
      and m: "m = obj_insert name v (obj_of members)"
    from other have fresh: "name \<notin> fst ` set properties" and additional: "object_at schema ''additionalProperties'' = Some additional"
      using fresh_member_new
      by (auto simp: undeclared_member_def other_members_schema_def properties_def bind_eq_Some_conv split: if_splits option.splits)
    have "conforms D schema (EObject m)"
    proof (rule object[of m "{(name, v)}"])
      show "set m \<subseteq> set members \<union> {(name, v)}" using obj_of_members[of members] by (auto simp: m dest!: set_obj_insert)
      show "fst ` set members \<subseteq> fst ` set m" by (auto simp: m keys_obj_insert keys)
    qed (use fresh additional v in auto)
    moreover have "distinct (map fst m)" using obj_of_members[of members] by (simp add: m distinct_obj_insert)
    ultimately show ?thesis using additional by simp
  qed
  with schema show ?thesis by (auto simp: sampled_def properties_def has_type_def primitive_types_def)
qed

lemma sampled_tagged:
  assumes accepted: "accepted_schema D (EObject schema)" and schema: "typed schema" "has_type schema ''object''"
      "object_at schema ''oneOf'' = Some variants" "opt_str schema ''discriminator'' = Some discriminator"
    and variant: "(tag, EObject variant) \<in> set variants" "sampled D variant v"
  shows "sampled D schema (EObject (case e_object v of None \<Rightarrow> obj_insert discriminator (EString tag) []
    | Some members \<Rightarrow> obj_spread (obj_insert discriminator (EString tag) []) members))"
proof -
  note declared = accepted_variants[OF accepted schema(1,3,4) variant(1)]
  from variant(2) declared(2-5) obtain m where v: "v = EObject m" "conforms D variant (EObject m)" "distinct (map fst m)"
    and within: "fst ` set m \<subseteq> fst ` set (case object_at variant ''properties'' of None \<Rightarrow> [] | Some p \<Rightarrow> p)"
    unfolding sampled_def by blast
  from within declared(6) have keys: "discriminator \<notin> fst ` set m" by blast
  define tagged where "tagged = obj_insert discriminator (EString tag) []"
  have start: "map_of tagged = [discriminator \<mapsto> EString tag]" by (simp add: tagged_def map_of_obj_insert)
  have "distinct (map fst tagged)" by (simp add: tagged_def distinct_obj_insert)
  with v(3) have spread: "map_of (obj_spread tagged m) = [discriminator \<mapsto> EString tag] ++ map_of m"
    using spread_entries[of tagged m] by (simp add: start)
  moreover from keys have none: "map_of m discriminator = None" by (simp add: map_of_eq_None_iff)
  ultimately have at: "map_of (obj_spread tagged m) discriminator = Some (EString tag)"
    and rest: "map_of m = (map_of (obj_spread tagged m))(discriminator := None)"
    by (auto simp: map_add_def fun_eq_iff split: option.splits)
  from by_tag[OF schema variant(1) at rest v(2)] schema show ?thesis
    by (auto simp: sampled_def v(1) tagged_def has_type_def primitive_types_def)
qed

lemma member_typed:
  assumes "typed schema" "primitive_union_types schema = Inr (Some members)" "member \<in> set members" "whole_length schema"
  shows "samplable D (obj_insert ''type'' (EString member) schema)" "typed (obj_insert ''type'' (EString member) schema)"
    "primitive_value (obj_insert ''type'' (EString member) schema) kind v \<longleftrightarrow> primitive_value schema kind v"
    "opt_str (obj_insert ''type'' (EString member) schema) ''type'' = Some member" "member \<in> set primitive_types"
proof -
  show primitive: "member \<in> set primitive_types"
    using assms(2,3) by (auto simp: primitive_union_types_def split: option.splits ejson.splits if_splits)
  show typed: "typed (obj_insert ''type'' (EString member) schema)" using assms(1) by (simp add: typed_def map_of_obj_insert)
  show "samplable D (obj_insert ''type'' (EString member) schema)"
    using typed primitive assms(4) by (auto simp: samplable_def map_of_obj_insert whole_length_def bound_of_def)
  show "primitive_value (obj_insert ''type'' (EString member) schema) kind v \<longleftrightarrow> primitive_value schema kind v"
    by (simp add: primitive_value_def value_meets_bounds_def map_of_obj_insert)
  show "opt_str (obj_insert ''type'' (EString member) schema) ''type'' = Some member" by (simp add: opt_str_def map_of_obj_insert)
qed

lemma accepted_union:
  assumes "accepted_schema D (EObject schema)" "typed schema" "primitive_union_types schema = Inr (Some members)"
  shows "whole_length schema"
proof -
  from assms(1) obtain sci where_at where "check_schema_node sci D where_at (EObject schema) = walk_ok ()"
    by (auto simp: accepted_schema_def)
  moreover from assms(2) have "map_of schema ''$ref'' = None" by (simp add: typed_def)
  ultimately show ?thesis
  proof (cases rule: accepted_typed)
    case (tagged discriminator variants)
    then have "has_type schema ''object''" by (auto simp: union_shape_def Let_def res_bind_Inr_iff)
    with assms(3) show ?thesis
      by (auto simp: primitive_union_types_def has_type_def opt_str_def bind_eq_Some_conv split: ejson.splits option.splits)
  qed (auto dest: keywords_whole_length)
qed

lemma accepted_json:
  assumes "accepted_schema D (EObject schema)" "has_type schema ''json''"
  shows "typed schema"
proof -
  from assms(1) obtain sci where_at where node: "check_schema_node sci D where_at (EObject schema) = walk_ok ()"
    by (auto simp: accepted_schema_def)
  from assms(2) have "''type'' \<in> fst ` set schema"
    by (auto simp: has_type_def opt_str_def bind_eq_Some_conv dest!: map_of_SomeD intro: rev_image_eqI)
  with node have no_ref: "map_of schema ''$ref'' = None"
    by (auto simp: check_schema_node.simps list_all_iff split: if_splits)
  with node show ?thesis
  proof (cases rule: accepted_typed)
    case (tagged discriminator variants)
    with assms(2) show ?thesis by (auto simp: union_shape_def has_type_def Let_def res_bind_Inr_iff)
  next
    case (union members)
    with assms(2) show ?thesis
      by (auto simp: primitive_union_types_def has_type_def opt_str_def bind_eq_Some_conv split: ejson.splits option.splits)
  next
    case (single kind)
    with assms(2) have "kind = ''json''" by (simp add: has_type_def)
    with single have "map_of schema ''const'' = None" using keywords_const[of schema kind] by (simp add: primitive_types_def)
    moreover have "map_of schema ''enum'' = None"
      using \<open>enum_ok schema\<close> assms(2) by (auto simp: enum_ok_def has_type_def split: option.splits)
    ultimately show ?thesis using no_ref by (simp add: typed_def)
  qed
qed

lemma members_step:
  assumes IH: "\<And>s e k x w. g s e k x = Some (Inr w) \<Longrightarrow> samplable D s \<Longrightarrow> sampled D s w"
    and accepted: "accepted_schema D (EObject schema)" and schema: "typed schema" "has_type schema ''object''"
      "object_at schema ''oneOf'' = None"
    and sample: "members_sample g schema ending extended = Some (Inr v)"
  shows "sampled D schema v"
proof -
  from sample obtain required members where required: "read_string_array (map_of schema ''required'') = Inr required"
    and collected: "walk_collect (property_sample g ending extended) (filter (\<lambda>property. fst property \<in> set required) (properties_of schema)) = walk_ok members"
    and rest: "(case undeclared_member schema extended of
        None \<Rightarrow> walk_ok (EObject (obj_of members))
      | Some other \<Rightarrow>
          walk_bind (if has_type (snd other) ''json'' then walk_ok (EString ''other-value'')
            else g (snd other) ending (Some (fst other)) False) (\<lambda>v.
          walk_ok (EObject (obj_insert (fst other) v (obj_of members))))) = Some (Inr v)"
    unfolding members_sample_def by (elim walk_is_ok) simp
  have accepted_object: "accepted_object D schema" by (rule accepted_members[OF accepted schema])
  have members: "list_all2 (\<lambda>property member. \<exists>s v. snd property = EObject s \<and> member = (fst property, v) \<and> conforms D s v)
      (filter (\<lambda>property. fst property \<in> set required) (properties_of schema)) members"
    using collected[unfolded walk_collect_ok_iff]
  proof (rule list.rel_mono_strong)
    fix property member
    assume "property \<in> set (filter (\<lambda>property. fst property \<in> set required) (properties_of schema))" and "property_sample g ending extended property = walk_ok member"
    then obtain s w where s: "snd property = EObject s" "member = (fst property, w)"
        "g s ending (Some (fst property)) extended = Some (Inr w)" and "property \<in> set (properties_of schema)"
      by (auto simp: property_sample_def walk_bind_ok_iff object_of_def elim!: e_object.elims)
    moreover from this accepted_object have "samplable D s"
      by (auto simp: accepted_object_def properties_of_def samplable_def list_all_iff split: option.splits)
    ultimately show "\<exists>s v. snd property = EObject s \<and> member = (fst property, v) \<and> conforms D s v"
      using IH[of s ending "Some (fst property)" extended w] by (auto simp: sampled_def)
  qed
  show ?thesis
  proof (cases "undeclared_member schema extended")
    case None
    with rest sampled_members[OF accepted schema required members[unfolded properties_of_def]] show ?thesis by auto
  next
    case (Some other)
    then have "object_at schema ''additionalProperties'' = Some (snd other)"
      by (auto simp: undeclared_member_def other_members_schema_def bind_eq_Some_conv split: if_splits option.splits)
    with accepted_object have additional: "accepted_schema D (EObject (snd other))" by (simp add: accepted_object_def)
    from rest Some obtain w where v: "v = EObject (obj_insert (fst other) w (obj_of members))"
      and w: "(if has_type (snd other) ''json'' then walk_ok (EString ''other-value'')
        else g (snd other) ending (Some (fst other)) False) = Some (Inr w)"
      by (auto simp: walk_bind_ok_iff)
    have "conforms D (snd other) w"
    proof (cases "has_type (snd other) ''json''")
      case True
      with accepted_json[OF additional] show ?thesis by (intro any)
    next
      case False
      with w IH[of "snd other" ending "Some (fst other)" False w] additional show ?thesis
        by (simp add: samplable_def sampled_def)
    qed
    with Some have "\<exists>name additional w. undeclared_member schema extended = Some (name, additional) \<and> conforms D additional w
        \<and> obj_insert (fst other) w (obj_of members) = obj_insert name w (obj_of members)"
      by (cases other) auto
    with Some \<open>conforms D (snd other) w\<close> show ?thesis unfolding v
      by (intro sampled_members[OF accepted schema required members[unfolded properties_of_def], of _ extended] disjI2)
        (cases other, auto)
  qed
qed

lemma union_step:
  assumes "samplable D schema" "typed schema" and union: "primitive_union_types schema = Inr (Some members)" "member \<in> set members"
    and member: "samplable D (obj_insert ''type'' (EString member) schema) \<Longrightarrow> sampled D (obj_insert ''type'' (EString member) schema) v"
  shows "sampled D schema v"
proof -
  have accepted: "accepted_schema D (EObject schema)"
    using assms(1) union(1) by (auto simp: samplable_def primitive_union_types_def)
  note narrowed = member_typed[OF assms(2) union accepted_union[OF accepted assms(2) union(1)]]
  from member[OF narrowed(1)] narrowed have "primitive_value schema member v" by (simp add: sampled_def)
  with assms(2) union have "conforms D schema v" by (intro by_union)
  moreover have "opt_str schema ''type'' = None"
    using union(1) by (auto simp: primitive_union_types_def opt_str_def split: ejson.splits option.splits)
  ultimately show ?thesis by (simp add: sampled_def has_type_def)
qed

lemma items_step:
  assumes "samplable D schema" "typed schema" "opt_str schema ''type'' = Some ''array''" "object_at schema ''items'' = Some items"
    and "samplable D items \<Longrightarrow> sampled D items w"
  shows "sampled D schema (EArray [w])"
proof -
  have "accepted_schema D (EObject schema)"
    using samplable_accepted[OF assms(1)] assms(3) by (auto simp: primitive_types_def)
  from accepted_untagged(2)[OF this assms(2,3)] assms(4) have "samplable D items" by (auto simp: samplable_def)
  with assms(5) have "conforms D items w" by (simp add: sampled_def)
  with assms(2-4) have "conforms D schema (EArray [w])" by (intro by_items) (auto simp: has_type_def)
  with assms(3) show ?thesis by (simp add: sampled_def has_type_def primitive_types_def)
qed

lemma tagged_step:
  assumes IH: "\<And>s e k x w. g s e k x = Some (Inr w) \<Longrightarrow> samplable D s \<Longrightarrow> sampled D s w"
    and accepted: "accepted_schema D (EObject schema)" and schema: "typed schema" "has_type schema ''object''"
      "object_at schema ''oneOf'' = Some variants"
    and sample: "tagged_sample g schema variants ending key extended = Some (Inr v)"
  shows "sampled D schema v"
proof -
  from sample obtain discriminator first rest declared w where discriminator: "opt_str schema ''discriminator'' = Some discriminator"
      and first: "variants = first # rest" "snd first = EObject declared" and w: "g declared ending key extended = Some (Inr w)"
      and v: "v = EObject (case e_object w of None \<Rightarrow> obj_insert discriminator (EString (fst first)) []
        | Some members \<Rightarrow> obj_spread (obj_insert discriminator (EString (fst first)) []) members)"
    unfolding tagged_sample_def
    by (cases variants) (auto simp: walk_bind_ok_iff object_of_def Let_def elim!: e_object.elims)
  from first have variant: "(fst first, EObject declared) \<in> set variants" by (cases first) simp
  from accepted_variants(1)[OF accepted schema(1,3) discriminator variant] have "sampled D declared w"
    by (intro IH[OF w]) (simp add: samplable_def)
  with accepted schema discriminator variant show ?thesis unfolding v by (rule sampled_tagged)
qed

lemma primitive_step:
  assumes "samplable D schema" "typed schema" "opt_str schema ''type'' = Some kind" "kind \<in> set primitive_types"
    and v: "kind = ''string'' \<and> (\<exists>text. string_sample schema ending key = Inr text \<and> v = EString text)
      \<or> kind \<in> {''integer'', ''number''} \<and> (\<exists>n. bounded_sample schema (kind = ''integer'') = Inr n \<and> v = ENumber n)
      \<or> kind = ''boolean'' \<and> v = EBool True"
  shows "sampled D schema v"
proof -
  from assms(4) have "whole_length schema"
    using samplable_length[OF assms(1-3)] by (auto simp: primitive_types_def)
  with v have "primitive_value schema kind v"
    using string_sample_value[of schema ending key] bounded_sample_value[of schema True] bounded_sample_value[of schema False]
    by auto (simp add: primitive_value_def value_meets_bounds_def)
  with assms(1-4) show ?thesis by (rule sampled_primitive)
qed

lemma reference_step:
  assumes "accepted_defs D" "map_of schema ''$ref'' \<noteq> None" "resolve_ref D schema = Inr target"
    and "samplable D target \<Longrightarrow> sampled D target v"
  shows "sampled D schema v"
proof -
  have "samplable D target"
    using assms(1,3) by (auto simp: resolve_ref_def res_bind_Inr_iff samplable_def accepted_defs_def)
  with assms(4) have "conforms D target v" by (simp add: sampled_def)
  with assms(2,3) have "conforms D schema v" by (rule by_reference)
  moreover from assms(2) have "\<not> typed schema" by (simp add: typed_def)
  ultimately show ?thesis by (simp add: sampled_def)
qed

lemma listed_step:
  assumes "map_of schema ''$ref'' = None" "\<not> typed schema"
    and "map_of schema ''const'' = Some v \<or> map_of schema ''const'' = None
      \<and> find (value_meets_bounds schema) (the (Option.bind (map_of schema ''enum'') e_array)) = Some v"
  shows "sampled D schema v"
proof -
  from assms have "conforms D schema v" by (auto simp: typed_def find_Some_iff intro: by_constant by_enum)
  with assms(2) show ?thesis by (simp add: sampled_def)
qed

lemma samples_sampled:
  assumes "accepted_defs D"
  shows "sample_within D schema ending key extended = Some (Inr v) \<Longrightarrow> samplable D schema \<Longrightarrow> sampled D schema v"
proof -
  have "D' = D \<longrightarrow> (\<forall>v. r = Inr v \<longrightarrow> samplable D schema \<longrightarrow> sampled D schema v)"
    if "sample_within D' schema ending key extended = Some r" for D' schema ending key extended r
    apply (rule sample_within.raw_induct[OF _ that], intro impI allI, hypsubst_thin)
    subgoal premises step for f unused schema ending key extended r v
    proof -
      have IH: "sampled D s w" if "f D s e k x = Some (Inr w)" "samplable D s" for s e k x w
        using step(1)[OF that(1)] that(2) by blast
      note body = step(2) and samplable = step(3)
      consider "map_of schema ''$ref'' \<noteq> None" | "map_of schema ''$ref'' = None" "\<not> typed schema" | "typed schema"
        unfolding typed_def by blast
      then show ?thesis
      proof cases
        case 1
        with body obtain target where target: "resolve_ref D schema = Inr target" "f D target ending key extended = Some (Inr v)"
          by (auto simp: walk_bind_ok_iff)
        show ?thesis by (rule reference_step[OF assms 1 target(1) IH[OF target(2)]])
      next
        case 2
        show ?thesis
        proof (cases "map_of schema ''const''")
          case None
          with 2 obtain listed where listed: "Option.bind (map_of schema ''enum'') e_array = Some listed" by (auto simp: typed_def)
          with body 2 None have "(case find (value_meets_bounds schema) listed of None \<Rightarrow> walk_refuse | Some v \<Rightarrow> walk_ok v) = Some (Inr v)"
            by simp
          then have "find (value_meets_bounds schema) listed = Some v" by (simp split: option.splits)
          with None listed show ?thesis by (intro listed_step[OF 2]) simp
        next
          case (Some c)
          with body 2 have "c = v" by simp
          with Some show ?thesis by (intro listed_step[OF 2]) simp
        qed
      next
        case 3
        then have plain: "map_of schema ''$ref'' = None" "map_of schema ''const'' = None"
          "Option.bind (map_of schema ''enum'') e_array = None" by (simp_all add: typed_def)
        from body plain obtain u where u: "primitive_union_types schema = Inr u" by (auto simp: walk_bind_ok_iff)
        show ?thesis
        proof (cases u)
          case (Some members)
          with body plain u obtain member where member: "member \<in> set members"
            "f D (obj_insert ''type'' (EString member) schema) ending key extended = Some (Inr v)"
            by (auto dest: walk_first_ok)
          show ?thesis by (rule union_step[OF samplable 3 u[unfolded Some] member(1) IH[OF member(2)]])
        next
          case None
          note untyped = body plain u[unfolded None]
          obtain kind where kind: "opt_str schema ''type'' = Some kind"
            using untyped by (cases "opt_str schema ''type''") simp_all
          consider "kind \<in> set primitive_types" | "kind = ''json''" | "kind = ''array''" | "kind = ''object''"
            using untyped kind by (auto simp: primitive_types_def split: if_splits)
          then show ?thesis
          proof cases
            case 1
            then consider "kind = ''string''" | "kind = ''boolean''" | "kind = ''integer''" | "kind = ''number''"
              by (auto simp: primitive_types_def)
            then have "kind = ''string'' \<and> (\<exists>text. string_sample schema ending key = Inr text \<and> v = EString text)
              \<or> kind \<in> {''integer'', ''number''} \<and> (\<exists>n. bounded_sample schema (kind = ''integer'') = Inr n \<and> v = ENumber n)
              \<or> kind = ''boolean'' \<and> v = EBool True"
              by cases (use untyped kind in \<open>simp add: walk_bind_ok_iff; metis\<close>)+
            with samplable 3 kind 1 show ?thesis by (rule primitive_step)
          next
            case 2
            with kind 3 have "conforms D schema v" by (intro any) (simp_all add: has_type_def)
            with 2 kind show ?thesis by (simp add: sampled_def has_type_def primitive_types_def)
          next
            case array: 3
            with untyped kind obtain items w where items: "object_at schema ''items'' = Some items"
                "f D items ending None extended = Some (Inr w)" and v: "v = EArray [w]"
              by (auto simp: walk_bind_ok_iff)
            show ?thesis unfolding v by (rule items_step[OF samplable 3 kind[unfolded array] items(1) IH[OF items(2)]])
          next
            case 4
            then have object: "has_type schema ''object''" using kind by (simp add: has_type_def)
            have accepted: "accepted_schema D (EObject schema)"
              using samplable_accepted[OF samplable] kind 4 by (auto simp: primitive_types_def)
            show ?thesis
            proof (cases "object_at schema ''oneOf''")
              case None
              with untyped kind 4 have "members_sample (f D) schema ending extended = Some (Inr v)" by simp
              with IH accepted 3 object None show ?thesis by (rule members_step)
            next
              case (Some variants)
              with untyped kind 4 have "tagged_sample (f D) schema variants ending key extended = Some (Inr v)" by simp
              with IH accepted 3 object Some show ?thesis by (rule tagged_step)
            qed
          qed
        qed
      qed
    qed
    done
  then show "sample_within D schema ending key extended = Some (Inr v) \<Longrightarrow> samplable D schema \<Longrightarrow> sampled D schema v" by blast
qed

lemma semantics_defs:
  assumes "check_semantics sci D = walk_ok ()"
  shows "accepted_defs D"
  unfolding accepted_defs_def
proof (intro allI impI)
  fix name schema
  assume "def_of D name = Inr (Some schema)"
  then obtain ds where ds: "defs_of D = Inr ds" and at: "map_of ds name = Some (EObject schema)"
    by (auto simp: def_of_def res_bind_Inr_iff bind_eq_Some_conv elim!: e_object.elims)
  from assms ds have "walk_each (check_definition sci D ds) [0..<length ds] = walk_ok ()"
    unfolding check_semantics_def by (elim walk_is_ok) simp
  then have "check_definition sci D ds i = walk_ok ()" if "i < length ds" for i
    using that by (simp add: walk_each_ok_iff list_all_iff)
  moreover from map_of_SomeD[OF at] obtain i where "i < length ds" "ds ! i = (name, EObject schema)"
    by (auto simp: in_set_conv_nth)
  ultimately have "check_definition sci D ds i = walk_ok ()" "ds ! i = (name, EObject schema)" by blast+
  then show "accepted_schema D (EObject schema)"
    by (auto simp: check_definition_def accepted_schema_def split: if_splits)
qed

text \<open>
  (C35) Whatever is sampled of a declared schema of an accepted definition, for either corpus, is a value of the schema:
  its required members are there and are values of theirs, an open object's undeclared member is one, bounds are met, a
  variant carries its tag.
\<close>

theorem samples_conform:
  assumes "check_semantics sci D = walk_ok ()" "def_of D name = Inr (Some schema)" "sample_value D schema ending key = walk_ok v"
  shows "conforms D schema v"
proof -
  have defs: "accepted_defs D" by (rule semantics_defs[OF assms(1)])
  with assms(2) have "samplable D schema" by (auto simp: accepted_defs_def samplable_def)
  with samples_sampled[OF defs] assms(3) show ?thesis by (auto simp: sample_value_def sampled_def)
qed

text \<open>A list of lists of its own type, whose only finite values are empty or hold those, is accepted; its sample, a list of
  one, is never finished.\<close>

definition nest_schema :: eobject where
  "nest_schema = obj_of [(''type'', EString ''array''), (''items'', reference_to ''Nest'')]"

definition nest_definition :: eobject where
  "nest_definition = obj_of [(''$defs'', eobj [(''Nest'', EObject nest_schema)])]"

lemma nest_accepted: "check_schema_node sci nest_definition ''$defs.Nest'' (EObject nest_schema) = walk_ok ()"
  by code_simp

lemma nest_shape:
  "map_of nest_schema ''$ref'' = None" "map_of nest_schema ''const'' = None" "map_of nest_schema ''enum'' = None"
  "primitive_union_types nest_schema = Inr None" "opt_str nest_schema ''type'' = Some ''array''"
  "object_at nest_schema ''items'' = Some [(''$ref'', EString ''#/$defs/Nest'')]"
  "resolve_ref nest_definition [(''$ref'', EString ''#/$defs/Nest'')] = Inr nest_schema"
  by code_simp+

lemma nest_unsampled: "sample_schema_value nest_definition nest_schema = None"
proof -
  have "D = nest_definition \<longrightarrow> schema \<noteq> nest_schema \<and> schema \<noteq> [(''$ref'', EString ''#/$defs/Nest'')]"
    if "sample_within D schema ending key extended = Some r" for D schema ending key extended r
    apply (rule sample_within.raw_induct[OF _ that], intro impI, hypsubst_thin)
    subgoal premises step for f unused schema
    proof -
      have apart: "f nest_definition nest_schema e k x = None"
        "f nest_definition [(''$ref'', EString ''#/$defs/Nest'')] e k x = None" for e k x
        using step(1)[of nest_definition nest_schema e k x] step(1)[of nest_definition "[(''$ref'', EString ''#/$defs/Nest'')]" e k x]
        by fastforce+
      then have "schema \<noteq> nest_schema" using step(2) by (auto simp: nest_shape)
      moreover have "schema \<noteq> [(''$ref'', EString ''#/$defs/Nest'')]" using step(2) by (auto simp: nest_shape apart)
      ultimately show ?thesis ..
    qed
    done
  then have "sample_within nest_definition nest_schema None None True = None" by (metis not_Some_eq)
  then show ?thesis by (simp add: sample_schema_value_def sample_value_def)
qed

end
