(* ===== verification/Fixtures.thy ===== *)
theory Fixtures
  imports Sampling
begin

text \<open>
  \<open>crates/clerkenwell-codegen/src/fixtures.rs\<close>: the collaboration corpus, a sample document of every collaborative entity
  with its operations, and the contract corpus, a snapshot of every projection with a patch of each kind.
\<close>

section \<open>Values of fields\<close>

text \<open>\<open>set_fixture_path\<close> along the segments of a path.\<close>

fun set_fixture_segments :: "eobject \<Rightarrow> string list \<Rightarrow> ejson \<Rightarrow> eobject" where
  "set_fixture_segments fixture [] v = fixture"
| "set_fixture_segments fixture [segment] v = obj_insert segment v fixture"
| "set_fixture_segments fixture (segment # next # path) v =
     obj_insert segment (EObject (set_fixture_segments
       (case map_of fixture segment of Some (EObject m) \<Rightarrow> m | _ \<Rightarrow> []) (next # path) v)) fixture"

definition set_fixture_path :: "eobject \<Rightarrow> string \<Rightarrow> ejson \<Rightarrow> eobject" where
  "set_fixture_path fixture path v = set_fixture_segments fixture (split_on (CHR ''.'') path) v"

partial_function (option) resolve_fixture_schema_refs :: "eobject \<Rightarrow> eobject \<Rightarrow> eobject walk" where
  "resolve_fixture_schema_refs D schema =
     (if map_of schema ''$ref'' = None then walk_ok schema
      else walk_bind (Some (resolve_ref D schema)) (\<lambda>target. resolve_fixture_schema_refs D target))"

declare resolve_fixture_schema_refs.simps [code]

fun declared_along :: "eobject \<Rightarrow> string list \<Rightarrow> eobject \<Rightarrow> eobject option walk" where
  "declared_along D [] current = walk_ok (Some current)"
| "declared_along D (segment # path) current =
     (case (if segment = ''*'' then object_at current ''items''
        else Option.bind (object_at current ''properties'') (\<lambda>properties. object_at properties segment)) of
        None \<Rightarrow> walk_ok None
      | Some held \<Rightarrow> walk_bind (resolve_fixture_schema_refs D held) (declared_along D path))"

definition collaboration_field_declared_schema :: "eobject \<Rightarrow> string \<Rightarrow> string \<Rightarrow> eobject option walk" where
  "collaboration_field_declared_schema D entity_name path =
     walk_bind (Some (entity_named D entity_name)) (\<lambda>declared.
     case declared of
       None \<Rightarrow> walk_ok None
     | Some entity \<Rightarrow>
         walk_bind (Some (entity_schema (snd entity))) (\<lambda>schema.
         walk_bind (resolve_fixture_schema_refs D schema) (declared_along D (split_on (CHR ''.'') path))))"

definition declared_enum :: "eobject \<Rightarrow> string \<Rightarrow> string \<Rightarrow> ejson list option walk" where
  "declared_enum D entity_name path =
     walk_bind (collaboration_field_declared_schema D entity_name path) (\<lambda>declared.
     walk_ok (Option.bind declared (\<lambda>schema. Option.bind (map_of schema ''enum'') e_array)))"

definition open_map_fixture_sample :: "eobject \<Rightarrow> eobject \<Rightarrow> string \<Rightarrow> string \<Rightarrow> ejson walk" where
  "open_map_fixture_sample D schema path ending =
     (let stem = kebab_identifier path in
      walk_bind
        (case object_at schema ''additionalProperties'' of
           Some additional \<Rightarrow>
             if \<not> has_type additional ''json'' then sample_value D additional (Some ending) None
             else walk_ok (EString (stem @ ''-'' @ ending))
         | None \<Rightarrow> walk_ok (EString (stem @ ''-'' @ ending))) (\<lambda>entry.
      walk_ok (EObject (obj_insert (stem @ ''-key'') entry []))))"

definition named_value :: "string \<Rightarrow> string \<Rightarrow> ejson" where
  "named_value path ending = EString (kebab_identifier path @ ''-'' @ ending)"

definition structured_fixture_value :: "eobject \<Rightarrow> field_view \<Rightarrow> string \<Rightarrow> ejson walk" where
  "structured_fixture_value D field ending =
     walk_bind (Some (res_bind (value_schema_of (fv_raw field)) (ok_or Panicked))) (\<lambda>reference.
     walk_bind (Some (resolve_ref D reference)) (\<lambda>schema.
     walk_bind (sample_value D schema (Some ending) None) (\<lambda>sample.
     if fv_kind field \<noteq> ''structuredMap'' \<and> fv_kind field \<noteq> ''structuredDocument'' then walk_ok (EArray [sample])
     else if sample = EObject [] then open_map_fixture_sample D schema (fv_path field) ending
     else walk_ok sample)))"

definition collaboration_fixture_value :: "eobject \<Rightarrow> string \<Rightarrow> field_view \<Rightarrow> string \<Rightarrow> ejson walk" where
  "collaboration_fixture_value D entity_name field ending =
     (let path = fv_path field; codec = fv_codec field in
      if codec = ''integer'' then walk_ok (ENumber 1)
      else if codec \<in> {''number'', ''optionalNumber''} then walk_ok (ENumber (3 / 2))
      else if codec = ''boolean'' then walk_ok (EBool True)
      else if codec \<in> {''string'', ''optionalString''} then
        walk_bind (declared_enum D entity_name path) (\<lambda>listed.
        walk_ok (case listed of Some [] \<Rightarrow> ENull | Some (v # _) \<Rightarrow> v | None \<Rightarrow> named_value path ending))
      else if codec = ''propertyText'' then
        walk_ok (eobj [(''$mime'', EString ''text/markdown''), (''value'', EString (path @ '' '' @ ending))])
      else if codec = ''stringList'' then walk_ok (EArray [named_value path ending])
      else if codec = ''structuredJson'' then structured_fixture_value D field ending
      else if codec \<in> {''identity'', ''keyedSequence''} then walk_ok (named_value path ending)
      else Some (Inl Panicked))"

definition scalar_update_value :: "eobject \<Rightarrow> string \<Rightarrow> field_view \<Rightarrow> ejson walk" where
  "scalar_update_value D entity_name field =
     (let codec = fv_codec field in
      if codec = ''integer'' then walk_ok (ENumber 2)
      else if codec \<in> {''number'', ''optionalNumber''} then walk_ok (ENumber (5 / 2))
      else if codec = ''boolean'' then walk_ok (EBool False)
      else
        walk_bind (declared_enum D entity_name (fv_path field)) (\<lambda>listed.
        walk_ok (case listed of Some (_ # v # _) \<Rightarrow> v | Some [v] \<Rightarrow> v | Some [] \<Rightarrow> ENull | None \<Rightarrow> EString ''updated-value'')))"

section \<open>Keyed sequences\<close>

definition direct_child_sequences :: "field_view list \<Rightarrow> string option \<Rightarrow> field_view list" where
  "direct_child_sequences views parent =
     filter (\<lambda>field. fv_kind field = ''keyedSequence'' \<and>
       (case parent of
          None \<Rightarrow> \<not> contains_str ''.*.'' (fv_path field)
        | Some base \<Rightarrow> prefix (base @ ''.*.'') (fv_path field)
            \<and> \<not> contains_str ''.*.'' (drop (length (base @ ''.*.'')) (fv_path field)))) views"

definition direct_item_fields :: "field_view list \<Rightarrow> string \<Rightarrow> field_view list" where
  "direct_item_fields views sequence_path =
     filter (\<lambda>field. fv_kind field \<noteq> ''keyedSequence'' \<and> prefix (sequence_path @ ''.*.'') (fv_path field)
       \<and> \<not> contains_str ''.*.'' (drop (length (sequence_path @ ''.*.'')) (fv_path field))) views"

definition set_each :: "(field_view \<Rightarrow> ejson walk) \<Rightarrow> nat \<Rightarrow> field_view list \<Rightarrow> eobject \<Rightarrow> eobject walk" where
  "set_each g stripped views fixture =
     walk_bind (walk_collect (\<lambda>field. walk_bind (g field) (\<lambda>v. walk_ok (drop stripped (fv_path field), v))) views) (\<lambda>members.
     walk_ok (foldl (\<lambda>m (path, v). set_fixture_path m path v) fixture members))"

lemma set_each_cong [fundef_cong]:
  "views = views' \<Longrightarrow> (\<And>field. field \<in> set views' \<Longrightarrow> g field = g' field) \<Longrightarrow> set_each g stripped views start = set_each g' stripped views' start"
  unfolding set_each_def by (simp cong: walk_collect_cong)

definition fv_derived :: "field_view \<Rightarrow> bool" where
  "fv_derived field \<longleftrightarrow> fv_kind field \<in> {''derivedIdentity'', ''derivedRevision''}"

lemma child_sequence_longer:
  assumes "child \<in> set (direct_child_sequences views (Some (fv_path sequence)))"
  shows "sum_list (map (length \<circ> fv_path) views) - length (fv_path child)
    < sum_list (map (length \<circ> fv_path) views) - length (fv_path sequence)"
proof -
  from assms have held: "child \<in> set views" "prefix (fv_path sequence @ ''.*.'') (fv_path child)"
    by (auto simp: direct_child_sequences_def)
  from held(2) have "length (fv_path sequence) < length (fv_path child)" by (auto dest: prefix_length_le)
  moreover from held(1) have "length (fv_path child) \<le> sum_list (map (length \<circ> fv_path) views)"
    by (intro member_le_sum_list) auto
  ultimately show ?thesis by simp
qed

function fixture_sequence_items :: "eobject \<Rightarrow> string \<Rightarrow> field_view list \<Rightarrow> field_view \<Rightarrow> ejson list walk" where
  "fixture_sequence_items D entity_name views sequence =
     walk_bind (Some (res_bind (storage_setting (fv_raw sequence) ''identityPath'') (ok_or Panicked))) (\<lambda>identity_path.
     let stripped = length (fv_path sequence @ ''.*.'') in
     walk_collect (\<lambda>ending.
       let item = set_fixture_path [] identity_path (named_value entity_name ending) in
       walk_bind (set_each (\<lambda>field. collaboration_fixture_value D entity_name field ending) stripped
         (filter (\<lambda>field. \<not> fv_derived field) (direct_item_fields views (fv_path sequence))) item) (\<lambda>item.
       walk_bind (set_each (\<lambda>child. walk_bind (fixture_sequence_items D entity_name views child) (\<lambda>items. walk_ok (EArray items))) stripped
         (direct_child_sequences views (Some (fv_path sequence))) item) (\<lambda>item.
       walk_ok (EObject item)))) [''one'', ''two''])"
  by pat_completeness auto

termination
  by (relation "measure (\<lambda>(D, entity_name, views, sequence). sum_list (map (length \<circ> fv_path) views) - length (fv_path sequence))")
    (simp_all only: wf_measure in_measure prod.case child_sequence_longer)

declare fixture_sequence_items.simps [simp del]

section \<open>The collaboration corpus\<close>

lemma rsplit_once_shorter: "rsplit_once c s = Some (before, after) \<Longrightarrow> length before < length s"
proof -
  assume "rsplit_once c s = Some (before, after)"
  then have c: "c \<in> set s" and before: "length before = length (dropWhile (\<lambda>x. x \<noteq> c) (rev s)) - 1"
    by (auto simp: rsplit_once_def split: if_splits)
  from c have "0 < length s" by (cases s) simp_all
  moreover have "length (dropWhile (\<lambda>x. x \<noteq> c) (rev s)) \<le> length s" using length_dropWhile_le[of _ "rev s"] by simp
  ultimately show ?thesis unfolding before by linarith
qed

text \<open>\<open>optional_group\<close>, from the path it has come to.\<close>

function optional_group :: "eobject \<Rightarrow> string \<Rightarrow> string \<Rightarrow> string option walk" where
  "optional_group D entity_name path =
     (case rsplit_once (CHR ''.'') path of
        None \<Rightarrow> walk_ok None
      | Some (parent, _) \<Rightarrow>
          if parent \<noteq> [] \<and> last parent = CHR ''*'' then walk_ok None
          else
            walk_bind (collaboration_path_presence D entity_name parent) (\<lambda>found.
            walk_bind (Some (ok_or Panicked found)) (\<lambda>presence.
            if \<not> pr_required_in_parent presence then walk_ok (Some parent) else optional_group D entity_name parent)))"
  by pat_completeness auto

termination
  by (relation "measure (\<lambda>(D, entity_name, path). length path)") (auto dest: rsplit_once_shorter)

declare optional_group.simps [simp del]

text \<open>The scalar whose changes must be explicit, the first.\<close>

fun explicit_scalar :: "field_view list \<Rightarrow> field_view option checked" where
  "explicit_scalar [] = Inr None"
| "explicit_scalar (field # views) =
     (if fv_kind field \<noteq> ''scalar'' then explicit_scalar views
      else res_bind (str_field (fv_raw field) ''conflict'') (\<lambda>conflict.
        if conflict = ''explicit'' then Inr (Some field) else explicit_scalar views))"

definition fixture_document :: "eobject \<Rightarrow> string \<Rightarrow> field_view list \<Rightarrow> eobject walk" where
  "fixture_document D entity_name views =
     walk_bind (set_each (\<lambda>field. collaboration_fixture_value D entity_name field ''value'') 0
       (filter (\<lambda>field. \<not> (contains_str ''.*.'' (fv_path field) \<or> fv_derived field \<or> fv_kind field = ''keyedSequence'')) views) [])
       (\<lambda>document.
     set_each (\<lambda>sequence. walk_bind (fixture_sequence_items D entity_name views sequence) (\<lambda>items. walk_ok (EArray items))) 0
       (direct_child_sequences views None) document)"

definition fixture_optional_paths :: "eobject \<Rightarrow> string \<Rightarrow> field_view list \<Rightarrow> string list walk" where
  "fixture_optional_paths D entity_name views =
     walk_bind (walk_collect (\<lambda>field.
       walk_bind (Some (required_in_parent (fv_raw field))) (\<lambda>in_parent.
       if \<not> in_parent then walk_ok (Some (fv_path field))
       else walk_bind (Some (field_required (fv_raw field))) (\<lambda>required.
         if \<not> required then optional_group D entity_name (fv_path field) else walk_ok None)))
       (filter (\<lambda>field. \<not> fv_derived field) views)) (\<lambda>paths.
     walk_ok (index_set (List.map_filter id paths)))"

definition sequence_operation :: "field_view list \<Rightarrow> string \<Rightarrow> ejson \<Rightarrow> ejson" where
  "sequence_operation sequences key v =
     EArray (map (\<lambda>field. eobj [(''path'', EString (fv_path field)), (key, v)]) sequences)"

definition invalid_sequence :: "field_view list \<Rightarrow> string \<Rightarrow> ejson" where
  "invalid_sequence sequences kind =
     EObject (obj_insert_some ''sequencePath'' (if sequences = [] then None else Some (EString (fv_path (hd sequences))))
       (obj_of [(''kind'', EString kind)]))"

definition collaboration_entity_fixture :: "eobject \<Rightarrow> string \<times> eobject \<Rightarrow> eobject walk" where
  "collaboration_entity_fixture D entity =
     walk_bind (Some (field_views (snd entity))) (\<lambda>views.
     let sequences = filter (\<lambda>field. fv_kind field = ''keyedSequence'') views in
     walk_bind (fixture_document D (fst entity) views) (\<lambda>document.
     walk_bind (fixture_optional_paths D (fst entity) views) (\<lambda>optional_paths.
     walk_bind (Some (explicit_scalar views)) (\<lambda>explicit.
     walk_bind (case explicit of Some field \<Rightarrow> scalar_update_value D (fst entity) field | None \<Rightarrow> walk_ok (EString ''updated-value'')) (\<lambda>updated.
     walk_bind (Some (number_field (snd entity) ''schemaVersion'')) (\<lambda>schema_version.
     let scalar = obj_insert ''value'' updated (obj_insert_some ''path'' (map_option (\<lambda>field. EString (fv_path field)) explicit) []);
         paths = EArray (map EString optional_paths) in
     walk_ok (obj_of [(''entity'', EString (fst entity)), (''schemaVersion'', ENumber schema_version),
       (''wireDocument'', EObject document),
       (''operations'', eobj [(''scalar'', EObject scalar),
         (''reorder'', sequence_operation sequences ''order'' (EArray [ENumber 1, ENumber 0])),
         (''delete'', sequence_operation sequences ''index'' (ENumber 0)),
         (''optionalPresent'', paths), (''optionalAbsent'', paths)]),
       (''invalid'', EArray [invalid_sequence sequences ''missingIdentity'', invalid_sequence sequences ''duplicateIdentity'',
         eobj [(''kind'', EString ''unsupportedSchemaVersion''), (''schemaVersion'', ENumber (schema_version + 1))]])])))))))"

definition render_collaboration_fixtures :: "exponential \<Rightarrow> eobject \<Rightarrow> string walk" where
  "render_collaboration_fixtures sci D =
     walk_bind (Some (collaboration_of D)) (\<lambda>collaboration.
     walk_bind (Some (collaboration_entities D)) (\<lambda>entities.
     walk_bind (walk_collect (collaboration_entity_fixture D) entities) (\<lambda>fixtures.
     walk_bind (Some (number_field collaboration ''version'')) (\<lambda>version.
     walk_ok (stringify_pretty sci (eobj [(''collaborationDefinitionVersion'', ENumber version),
       (''entities'', EArray (map EObject fixtures))]) @ [CHR 0x0A])))))"

section \<open>The contract corpus\<close>

definition first_object_item :: "ejson option \<Rightarrow> eobject option" where
  "first_object_item collection =
     Option.bind (Option.bind collection e_array) (\<lambda>items. if items = [] then None else e_object (hd items))"

definition empty_output :: "eobject \<Rightarrow> eobject checked" where
  "empty_output plan =
     res_bind (str_field plan ''sequenceField'') (\<lambda>sequence_field.
     res_bind (str_field plan ''textField'') (\<lambda>text_field.
     Inr (obj_of [(sequence_field, ENumber 0), (text_field, EString [])])))"

definition object_or_empty :: "ejson \<Rightarrow> eobject" where
  "object_or_empty v = (case e_object v of None \<Rightarrow> [] | Some m \<Rightarrow> m)"

definition prepare_fixture_snapshot :: "ejson \<Rightarrow> eobject \<Rightarrow> ejson checked" where
  "prepare_fixture_snapshot whole plan =
     res_bind (strategy_of plan) (\<lambda>strategy.
     if strategy \<noteq> ''keyedCollection'' \<and> strategy \<noteq> ''sequencedText'' then Inr whole
     else
       let snapshot = object_or_empty whole in
       res_bind (str_field plan ''collectionField'') (\<lambda>collection_field.
       res_bind (str_field plan ''itemIdentityField'') (\<lambda>identity_field.
       let item = obj_insert identity_field (EString ''fixture-id'')
             (case first_object_item (map_of snapshot collection_field) of None \<Rightarrow> [] | Some m \<Rightarrow> m) in
       res_bind
         (if strategy = ''sequencedText''
          then res_bind (str_field plan ''snapshotOutputField'') (\<lambda>output_field.
            res_bind (empty_output plan) (\<lambda>output. Inr (obj_insert output_field (EObject output) item)))
          else Inr item) (\<lambda>item.
       Inr (EObject (obj_insert collection_field (EArray [EObject item]) snapshot))))))"

definition patch_for_snapshot :: "eobject \<Rightarrow> eobject \<Rightarrow> eobject checked" where
  "patch_for_snapshot plan snapshot =
     (let patch = obj_of [(''kind'', EString ''replace'')] in
      if opt_str plan ''snapshotMode'' = Some ''field''
      then res_bind (str_field plan ''snapshotField'') (\<lambda>field. Inr (obj_insert field (EObject snapshot) patch))
      else res_bind (opt_strs_field plan ''snapshotOmitFields'') (\<lambda>omitted.
        Inr (obj_spread patch (filter (\<lambda>(field, _). field \<notin> set (case omitted of None \<Rightarrow> [] | Some names \<Rightarrow> names)) snapshot))))"

text \<open>One patch of a kind and the snapshot that follows, for each strategy.\<close>

definition keyed_case :: "eobject \<Rightarrow> string \<Rightarrow> eobject \<Rightarrow> (eobject \<times> ejson) checked" where
  "keyed_case plan kind snapshot =
     (let patch = obj_of [(''kind'', EString kind)] in
      res_bind (str_field plan ''collectionField'') (\<lambda>collection_field.
      res_bind (case first_object_item (map_of snapshot collection_field) of
          Some item \<Rightarrow> Inr item
        | None \<Rightarrow> res_bind (str_field plan ''itemIdentityField'') (\<lambda>field. Inr (obj_of [(field, EString ''fixture-id'')]))) (\<lambda>item.
      let keyed_snapshot = obj_insert collection_field (EArray [EObject item]) snapshot in
      if kind = ''reset'' then Inr (obj_insert collection_field (EArray [EObject item]) patch, EObject keyed_snapshot)
      else if kind = ''upsert'' then
        res_bind (str_field plan ''itemField'') (\<lambda>field. Inr (obj_insert field (EObject item) patch, EObject keyed_snapshot))
      else if kind = ''remove'' then
        res_bind (str_field plan ''patchIdentityField'') (\<lambda>field.
        Inr (obj_insert field (EString ''fixture-id'') patch, EObject (obj_insert collection_field (EArray []) keyed_snapshot)))
      else Inl Refused)))"

definition sequenced_case :: "eobject \<Rightarrow> string \<Rightarrow> eobject \<Rightarrow> (eobject \<times> ejson) checked" where
  "sequenced_case plan kind snapshot =
     (let patch = obj_of [(''kind'', EString kind)] in
      res_bind (str_field plan ''collectionField'') (\<lambda>collection_field.
      res_bind (str_field plan ''itemIdentityField'') (\<lambda>identity_field.
      res_bind (str_field plan ''snapshotOutputField'') (\<lambda>output_field.
      res_bind (str_field plan ''sequenceField'') (\<lambda>sequence_field.
      res_bind (str_field plan ''textField'') (\<lambda>text_field.
      res_bind (case first_object_item (map_of snapshot collection_field) of
          Some item \<Rightarrow> Inr item
        | None \<Rightarrow> res_bind (empty_output plan) (\<lambda>output.
            Inr (obj_of [(identity_field, EString ''fixture-id''), (output_field, EObject output)]))) (\<lambda>item.
      let stream_snapshot = obj_insert collection_field (EArray [EObject item]) snapshot in
      if kind = ''reset'' then Inr (obj_spread patch stream_snapshot, EObject stream_snapshot)
      else if kind = ''output'' then
        let current = Option.bind (map_of item output_field) e_object;
            sequence = (case Option.bind current (\<lambda>output. Option.bind (map_of output sequence_field) e_f64) of
              None \<Rightarrow> 1 | Some n \<Rightarrow> n + 1);
            written = (case Option.bind current (\<lambda>output. opt_str output text_field) of None \<Rightarrow> [] | Some t \<Rightarrow> t) in
        res_bind (str_field plan ''patchIdentityField'') (\<lambda>patch_identity_field.
        res_bind (str_field plan ''deltaTextField'') (\<lambda>delta_text_field.
        res_bind (str_field plan ''patchOutputField'') (\<lambda>patch_output_field.
        let delta = obj_of [(sequence_field, ENumber sequence), (delta_text_field, EString ''fixture'')];
            output = obj_of [(sequence_field, ENumber sequence), (text_field, EString (written @ ''fixture''))] in
        Inr (obj_insert patch_output_field (EObject delta)
            (obj_insert_some patch_identity_field (map_of item identity_field) patch),
          EObject (obj_insert collection_field (EArray [EObject (obj_insert output_field (EObject output) item)]) stream_snapshot)))))
      else Inl Refused)))))))"

definition replace_or_remove_case :: "eobject \<Rightarrow> string \<Rightarrow> eobject \<Rightarrow> ejson \<Rightarrow> (eobject \<times> ejson) checked" where
  "replace_or_remove_case plan kind snapshot sampled_changes =
     (let patch = obj_of [(''kind'', EString kind)] in
      if kind = ''update'' then
        res_bind (str_field plan ''updateField'') (\<lambda>update_field.
        let changes = obj_of (map (\<lambda>(key, v). (key, if e_array v \<noteq> None then EArray [] else v)) (object_or_empty sampled_changes)) in
        res_bind (str_field plan ''updatesField'') (\<lambda>updates_field.
        let target = (case Option.bind (map_of snapshot update_field) e_object of None \<Rightarrow> [] | Some m \<Rightarrow> m) in
        Inr (obj_insert updates_field (EObject changes) patch,
          EObject (obj_insert update_field (EObject (obj_spread target changes)) snapshot))))
      else if kind = ''replace'' then res_bind (patch_for_snapshot plan snapshot) (\<lambda>patch. Inr (patch, EObject snapshot))
      else if opt_str plan ''removeMode'' = Some ''nullSnapshot'' then Inr (patch, ENull)
      else res_bind (str_field plan ''removeField'') (\<lambda>field. Inr (patch, EObject (obj_insert field ENull snapshot))))"

definition projection_fixture_case :: "eobject \<Rightarrow> string \<Rightarrow> ejson \<Rightarrow> ejson \<Rightarrow> (eobject \<times> ejson) checked" where
  "projection_fixture_case plan kind sampled_snapshot sampled_changes =
     (let snapshot = object_or_empty sampled_snapshot in
      res_bind (strategy_of plan) (\<lambda>strategy.
      if strategy = ''keyedCollection'' then keyed_case plan kind snapshot
      else if strategy = ''sequencedText'' then sequenced_case plan kind snapshot
      else if strategy = ''replaceOrRemove'' then replace_or_remove_case plan kind snapshot sampled_changes
      else if strategy = ''replace'' then res_bind (patch_for_snapshot plan snapshot) (\<lambda>patch. Inr (patch, EObject snapshot))
      else if strategy = ''reset'' then Inr (obj_spread (obj_of [(''kind'', EString kind)]) snapshot, EObject snapshot)
      else Inl Panicked))"

definition sampled_changes_of :: "eobject \<Rightarrow> eobject \<Rightarrow> eobject \<Rightarrow> ejson walk" where
  "sampled_changes_of D plan patch_schema =
     walk_bind (Some (strategy_of plan)) (\<lambda>strategy.
     case opt_str plan ''updatesField'' of
       None \<Rightarrow> walk_ok (EObject [])
     | Some field \<Rightarrow>
         if strategy = ''replaceOrRemove'' \<and> field \<noteq> []
         then walk_bind (Some (contract_property patch_schema field)) (sample_schema_value D)
         else walk_ok (EObject []))"

definition projection_fixture :: "eobject \<Rightarrow> string \<times> eobject \<Rightarrow> ejson walk" where
  "projection_fixture D projection =
     walk_bind (Some (res_bind (snapshot_of (snd projection)) (resolve_ref D))) (\<lambda>snapshot_schema.
     walk_bind (Some (res_bind (patch_of (snd projection)) (resolve_ref D))) (\<lambda>patch_schema.
     walk_bind (Some (materialization_of (snd projection))) (\<lambda>plan.
     walk_bind (sample_schema_value D snapshot_schema) (\<lambda>whole.
     walk_bind (Some (prepare_fixture_snapshot whole plan)) (\<lambda>snapshot.
     walk_bind (Some (contract_property patch_schema ''kind'')) (\<lambda>kind_schema.
     walk_bind (Some (read_string_array (map_of kind_schema ''enum''))) (\<lambda>kinds.
     walk_bind (walk_collect (\<lambda>kind.
       walk_bind (sampled_changes_of D plan patch_schema) (\<lambda>changes.
       walk_bind (Some (projection_fixture_case plan kind snapshot changes)) (\<lambda>made.
       walk_ok (eobj [(''kind'', EString kind),
         (''patch'', eobj [(''projection'', EString (fst projection)), (''value'', EObject (fst made))]),
         (''expectedSnapshot'', snd made)])))) kinds) (\<lambda>cases.
     walk_bind (Some (strategy_of plan)) (\<lambda>strategy.
     walk_ok (eobj [(''projection'', EString (fst projection)), (''strategy'', EString strategy),
       (''snapshot'', eobj [(''projection'', EString (fst projection)), (''value'', snapshot)]),
       (''cases'', EArray cases)]))))))))))"

definition render_contract_fixtures :: "exponential \<Rightarrow> eobject \<Rightarrow> string walk" where
  "render_contract_fixtures sci D =
     walk_bind (Some (projections_of D)) (\<lambda>projections.
     walk_bind (walk_collect (projection_fixture D) projections) (\<lambda>fixtures.
     walk_ok (stringify_pretty sci (eobj [(''version'', ENumber 1), (''projections'', EArray fixtures)]) @ [CHR 0x0A])))"

end
