(* ===== verification/Ending.thy ===== *)
theory Ending
  imports Validation
begin

text \<open>
  That the checks of \<open>crates/clerkenwell-codegen/src/validate.rs\<close> end. Schemas may refer to themselves. \<open>admits\<close>
  ends since it compares the parts of finitely many schemas and assumes a pair it has met;
  \<open>check_schema_node\<close> since it goes down one schema; following a path since the path does. What collects a
  collaborative entity's paths goes round a schema that contains itself without end.
\<close>

section \<open>The parts of a value\<close>

fun parts :: "ejson \<Rightarrow> ejson set" where
  "parts (EArray xs) = insert (EArray xs) (\<Union>x\<in>set xs. parts x)"
| "parts (EObject m) = insert (EObject m) (\<Union>(k, v)\<in>set m. parts v)"
| "parts v = {v}"

lemma part_self [simp]: "v \<in> parts v"
  by (cases v) simp_all

lemma finite_parts [simp]: "finite (parts v)"
  by (induction v) auto

lemma part_trans: "a \<in> parts b \<Longrightarrow> b \<in> parts c \<Longrightarrow> a \<in> parts c"
  by (induction c) fastforce+

lemma part_member: "map_of m key = Some v \<Longrightarrow> v \<in> parts (EObject m)"
  using part_self by (fastforce dest: map_of_SomeD)

lemma part_object_at: "object_at m key = Some n \<Longrightarrow> EObject n \<in> parts (EObject m)"
  unfolding object_at_def by (auto simp: bind_eq_Some_conv elim!: e_object.elims dest!: part_member)

text \<open>The schemas a comparison can come to, from two: their parts, and the parts of the definitions.\<close>

definition schemas_met :: "eobject \<Rightarrow> eobject set \<Rightarrow> eobject set" where
  "schemas_met D starts =
     {s. \<exists>start \<in> starts \<union> (case defs_of D of Inl _ \<Rightarrow> {} | Inr ds \<Rightarrow> {ds}). EObject s \<in> parts (EObject start)}"

lemma finite_schemas_met: "finite starts \<Longrightarrow> finite (schemas_met D starts)"
proof -
  assume "finite starts"
  then have "finite (\<Union>start \<in> starts \<union> (case defs_of D of Inl _ \<Rightarrow> {} | Inr ds \<Rightarrow> {ds}). parts (EObject start))"
    by (intro finite_UN_I) (auto split: sum.split)
  then have "finite (EObject -` (\<Union>start \<in> starts \<union> (case defs_of D of Inl _ \<Rightarrow> {} | Inr ds \<Rightarrow> {ds}). parts (EObject start)))"
    by (rule finite_vimageI) (simp add: inj_def)
  moreover have "schemas_met D starts \<subseteq> \<dots>" unfolding schemas_met_def by blast
  ultimately show ?thesis by (rule finite_subset[rotated])
qed

lemma schemas_met_start: "s \<in> starts \<Longrightarrow> s \<in> schemas_met D starts"
  unfolding schemas_met_def using part_self by blast

lemma schemas_met_at: "s \<in> schemas_met D starts \<Longrightarrow> object_at s key = Some n \<Longrightarrow> n \<in> schemas_met D starts"
  unfolding schemas_met_def by (blast intro: part_trans part_object_at)

lemma schemas_met_ref: "resolve_ref D s = Inr target \<Longrightarrow> target \<in> schemas_met D starts"
proof -
  assume found: "resolve_ref D s = Inr target"
  then obtain name where "schema_ref_name D s = Inr name" by (auto simp: resolve_ref_def res_bind_Inr_iff)
  then obtain ds where "defs_of D = Inr ds" "def_of D name = Inr (Some target)"
    using found by (elim named_reference) simp
  then have "defs_of D = Inr ds" "EObject target \<in> parts (EObject ds)"
    by (auto simp: def_of_def bind_eq_Some_conv elim!: e_object.elims dest!: part_member)
  then show ?thesis by (auto simp: schemas_met_def)
qed

text \<open>Following references ends at a schema that is none.\<close>

lemma dereference_at_ok:
  assumes "dereference_at D n = walk_ok n'"
  shows "\<not> is_reference (snd n')" "snd n \<in> schemas_met D starts \<Longrightarrow> snd n' \<in> schemas_met D starts"
proof -
  have "\<forall>n'. r = Inr n' \<longrightarrow> \<not> is_reference (snd n')
      \<and> (snd n \<in> schemas_met D starts \<longrightarrow> snd n' \<in> schemas_met D starts)"
    if "dereference_at D n = Some r" for n r
  proof (rule dereference_at.raw_induct[OF _ that])
    fix follow D n r
    assume 1: "\<And>D n r. follow D n = Some r \<Longrightarrow> \<forall>n'. r = Inr n' \<longrightarrow> \<not> is_reference (snd n')
        \<and> (snd n \<in> schemas_met D starts \<longrightarrow> snd n' \<in> schemas_met D starts)"
      "(if is_reference (snd n) then walk_bind (Some (schema_ref_name D (snd n))) (\<lambda>name.
          walk_bind (Some (resolve_ref D (snd n))) (\<lambda>target. follow D (Some name, target)))
        else walk_ok n) = Some r"
    show "\<forall>n'. r = Inr n' \<longrightarrow> \<not> is_reference (snd n')
        \<and> (snd n \<in> schemas_met D starts \<longrightarrow> snd n' \<in> schemas_met D starts)"
    proof (cases "is_reference (snd n)")
      case True
      show ?thesis
      proof (intro allI impI)
        fix n' assume "r = Inr n'"
        with 1(2) True obtain name target where "resolve_ref D (snd n) = Inr target" "follow D (Some name, target) = walk_ok n'"
          by (auto simp: walk_bind_ok_iff)
        with 1(1)[of D "(Some name, target)" "Inr n'"] show "\<not> is_reference (snd n')
            \<and> (snd n \<in> schemas_met D starts \<longrightarrow> snd n' \<in> schemas_met D starts)"
          by (simp add: schemas_met_ref)
      qed
    next
      case False
      with 1(2) show ?thesis by auto
    qed
  qed
  from this[OF assms] show "\<not> is_reference (snd n')" "snd n \<in> schemas_met D starts \<Longrightarrow> snd n' \<in> schemas_met D starts"
    by simp_all
qed


section \<open>Comparing schemas\<close>

lemma is_reference_opt_str: "is_reference s \<longleftrightarrow> opt_str s ''$ref'' \<noteq> None"
  by (auto simp: is_reference_def opt_str_def bind_eq_Some_conv elim!: e_str.elims)

lemma record_values_at: "record_values_schema s = Some v \<Longrightarrow> object_at s ''additionalProperties'' = Some v"
  by (simp add: record_values_schema_def split: if_splits)

lemma admits_here_Compare:
  assumes "admits_here values member = Inr (Compare v m)"
  shows "\<exists>key. object_at values key = Some v" "\<exists>key. object_at member key = Some m"
proof -
  from assms obtain mt where mt: "schema_types member = Inr (Some mt)"
    unfolding admits_here_def by (cases "schema_types member") (simp_all split: option.split_asm)
  with assms obtain vt where vt: "schema_types values = Inr (Some vt)"
    unfolding admits_here_def by (cases "schema_types values") (simp_all split: option.split_asm)
  with assms mt have "object_at values ''items'' = Some v \<and> object_at member ''items'' = Some m
      \<or> record_values_schema values = Some v \<and> record_values_schema member = Some m"
    unfolding admits_here_def by (simp split: option.split_asm if_split_asm)
  then show "\<exists>key. object_at values key = Some v" "\<exists>key. object_at member key = Some m"
    by (blast dest: record_values_at)+
qed

text \<open>The pairs of schemas a comparison has yet to assume.\<close>

abbreviation unmet :: "exponential \<Rightarrow> eobject set \<Rightarrow> (string \<times> string) list \<Rightarrow> nat" where
  "unmet sci met assumed \<equiv> card ((\<lambda>s. stringify sci (EObject s)) ` met \<times> (\<lambda>s. stringify sci (EObject s)) ` met - set assumed)"

lemma unmet_less:
  assumes "finite met" "v \<in> met" "m \<in> met" "(stringify sci (EObject v), stringify sci (EObject m)) \<notin> set assumed"
  shows "unmet sci met ((stringify sci (EObject v), stringify sci (EObject m)) # assumed) < unmet sci met assumed"
  using assms by (intro psubset_card_mono) auto

lemma admits_ends_within:
  assumes "check_reference_chains D = Inr ()" "finite starts"
  shows "vals \<in> schemas_met D starts \<Longrightarrow> member \<in> schemas_met D starts \<Longrightarrow> \<exists>r. admits sci D vals member assumed = Some r"
proof (induction "(unmet sci (schemas_met D starts) assumed, size (EObject vals) + size (EObject member))"
    arbitrary: vals member assumed rule: wf_induct_rule[OF wf_lex_prod[OF wf_less_than wf_less_than]])
  case (1 vals member assumed)
  have finite: "finite (schemas_met D starts)" using assms(2) by (rule finite_schemas_met)
  have deref: "\<exists>r. dereference D s = Some r" for s using assms(1) by (rule references_end)
  show ?case
  proof (cases "opt_str vals ''$ref'' \<noteq> None \<or> opt_str member ''$ref'' \<noteq> None")
    case True
    have "\<exists>r. admits sci D (snd v) (snd m) ((stringify sci (EObject vals), stringify sci (EObject member)) # assumed) = Some r"
      if "dereference D vals = walk_ok v" "dereference D member = walk_ok m"
        "(stringify sci (EObject vals), stringify sci (EObject member)) \<notin> set assumed" for v m
    proof (rule 1(1))
      from that(1,2) 1(2,3) show "snd v \<in> schemas_met D starts" "snd m \<in> schemas_met D starts"
        by (auto simp: dereference_def dest!: dereference_at_ok(2)[where starts = starts])
      from unmet_less[OF finite 1(2,3) that(3)]
      show "((unmet sci (schemas_met D starts) ((stringify sci (EObject vals), stringify sci (EObject member)) # assumed),
          size (EObject (snd v)) + size (EObject (snd m))),
          unmet sci (schemas_met D starts) assumed, size (EObject vals) + size (EObject member))
          \<in> less_than <*lex*> less_than" by (simp only: in_lex_prod less_than_iff simp_thms)
    qed
    with True show ?thesis
      by (subst admits.simps) (auto intro!: walk_bind_ends deref)
  next
    case False
    have "\<exists>r. admits sci D v m assumed = Some r" if "admits_here vals member = Inr (Compare v m)" for v m
    proof (rule 1(1))
      from admits_here_Compare[OF that] obtain k l where at: "object_at vals k = Some v" "object_at member l = Some m" by blast
      with 1(2,3) show "v \<in> schemas_met D starts" "m \<in> schemas_met D starts" by (auto intro: schemas_met_at)
      from at[THEN size_object_at]
      show "((unmet sci (schemas_met D starts) assumed, size (EObject v) + size (EObject m)),
          unmet sci (schemas_met D starts) assumed, size (EObject vals) + size (EObject member))
          \<in> less_than <*lex*> less_than" by simp
    qed
    with False show ?thesis
      by (subst admits.simps) (auto intro!: walk_bind_ends split: admission.splits)
  qed
qed

lemma admits_ends: "check_reference_chains D = Inr () \<Longrightarrow> \<exists>r. admits sci D vals member assumed = Some r"
  by (rule admits_ends_within[where starts = "{vals, member}"]) (auto intro: schemas_met_start)


section \<open>Checking schemas\<close>

lemma Some_ends: "\<exists>r. Some x = Some r" by simp

lemma if_ends: "(b \<Longrightarrow> \<exists>r. m = Some r) \<Longrightarrow> (\<not> b \<Longrightarrow> \<exists>r. n = Some r) \<Longrightarrow> \<exists>r. (if b then m else n) = Some r"
  by simp

lemma option_ends:
  "(x = None \<Longrightarrow> \<exists>r. m = Some r) \<Longrightarrow> (\<And>a. x = Some a \<Longrightarrow> \<exists>r. f a = Some r) \<Longrightarrow>
     \<exists>r. (case x of None \<Rightarrow> m | Some a \<Rightarrow> f a) = Some r"
  by (cases x) simp_all

lemma sum_ends:
  "(\<And>e. x = Inl e \<Longrightarrow> \<exists>r. g e = Some r) \<Longrightarrow> (\<And>a. x = Inr a \<Longrightarrow> \<exists>r. f a = Some r) \<Longrightarrow>
     \<exists>r. (case x of Inl e \<Rightarrow> g e | Inr a \<Rightarrow> f a) = Some r"
  by (cases x) simp_all

lemma prod_ends: "(\<And>a b. x = (a, b) \<Longrightarrow> \<exists>r. f a b = Some r) \<Longrightarrow> \<exists>r. (case x of (a, b) \<Rightarrow> f a b) = Some r"
  by (cases x) simp

lemmas ends = if_ends option_ends sum_ends prod_ends walk_bind_ends walk_each_ends walk_collect_ends Some_ends

lemma check_open_object_ends:
  "check_reference_chains D = Inr () \<Longrightarrow> \<exists>r. check_open_object sci D schema other = Some r"
  unfolding check_open_object_def
  by (intro ends admits_ends)

lemma check_schema_node_ends:
  assumes chains: "check_reference_chains D = Inr ()"
  shows "\<exists>r. check_schema_node sci D where_at v = Some r"
proof (induction v arbitrary: where_at rule: measure_induct_rule[of size])
  case (less v)
  show ?case
  proof (cases "e_object v")
    case None
    then show ?thesis by (subst check_schema_node.simps) simp
  next
    case (Some schema)
    then have v: "v = EObject schema" by (cases v) simp_all
    have at: "\<exists>r. check_schema_node sci D c (EObject m) = Some r" if "object_at schema key = Some m" for c key m
      using size_object_at[OF that] less unfolding v by blast
    have member: "\<exists>r. check_schema_node sci D c (snd w) = Some r" if "object_at schema key = Some m" "w \<in> set m" for c key m w
      using size_object_at[OF that(1)] size_ejson_member[of "fst w" "snd w" m] that(2) less[of "snd w" c]
      unfolding v by simp
    have variant: "\<exists>r. check_schema_node sci D c (snd w) = Some r"
      if "union_shape where_at schema = Inr (d, vs)" "w \<in> set vs" for c d vs w
      using size_union_shape[OF that(1)] size_ejson_member[of "fst w" "snd w" vs] that(2) less[of "snd w" c]
      unfolding v by simp
    show ?thesis
      by (subst check_schema_node.simps, simp only: Some option.case)
        (intro ends references_end[OF chains] check_open_object_ends[OF chains] at member variant; hypsubst?; assumption)
  qed
qed


section \<open>Checking a definition\<close>

lemma schema_along_ends:
  assumes chains: "check_reference_chains D = Inr ()"
  shows "\<exists>r. schema_along D path found n = Some r"
proof (induction path arbitrary: found n)
  case Nil
  show ?case by simp
next
  case (Cons segment path)
  show ?case
    by (cases n, simp only: schema_along.simps Let_def)
      (intro ends references_end[OF chains] references_end_at[OF chains] Cons)
qed

lemmas collaboration_ends = ends references_end schema_along_ends

lemma collaboration_schema_at_ends:
  "check_reference_chains D = Inr () \<Longrightarrow> \<exists>r. collaboration_schema_at D origin path = Some r"
  unfolding collaboration_schema_at_def by (intro collaboration_ends)

lemma check_sequence_items_ends:
  "check_reference_chains D = Inr () \<Longrightarrow> \<exists>r. check_sequence_items D schema field = Some r"
  unfolding check_sequence_items_def by (intro collaboration_ends collaboration_schema_at_ends)

lemma check_field_ends: "check_reference_chains D = Inr () \<Longrightarrow> \<exists>r. check_field D schema field = Some r"
  unfolding check_field_def resolve_collaboration_schema_path_def check_value_schema_def
  by (intro collaboration_ends collaboration_schema_at_ends)

text \<open>
  The schemas held in a schema, whose paths are collected under its own; and an entity whose schema holds,
  however deep, no schema that holds itself.
\<close>

inductive holds :: "eobject \<Rightarrow> eobject \<Rightarrow> eobject \<Rightarrow> bool" for D where
  item: "dereference D s = walk_ok n \<Longrightarrow> array_items (snd n) = Some items \<Longrightarrow> dereference D items = walk_ok held \<Longrightarrow>
    has_type (snd held) ''object'' \<Longrightarrow> holds D (snd held) s"
| member: "dereference D s = walk_ok n \<Longrightarrow> array_items (snd n) = None \<Longrightarrow> addressable_members (snd n) = Some properties \<Longrightarrow>
    property \<in> set properties \<Longrightarrow> e_object (snd property) = Some held \<Longrightarrow> holds D held s"

definition bounded_depth :: "eobject \<Rightarrow> named \<Rightarrow> bool" where
  "bounded_depth D collaborating \<longleftrightarrow>
     (\<forall>name raw schema. entity_named D (fst collaborating) = Inr (Some (name, raw)) \<longrightarrow>
        res_bind (entity_schema raw) (resolve_ref D) = Inr schema \<longrightarrow> Wellfounded.accp (holds D) schema)"

lemma collect_ends:
  assumes chains: "check_reference_chains D = Inr ()"
  shows "Wellfounded.accp (holds D) schema \<Longrightarrow> \<exists>r. collect_collaboration_schema_paths D schema base = Some r"
proof (induction arbitrary: base rule: accp.induct)
  case (accI schema)
  show ?case
    by (subst collect_collaboration_schema_paths.simps)
      (intro ends references_end[OF chains] accI(2) item member; assumption)
qed

lemma check_collaboration_entity_ends:
  assumes "check_reference_chains D = Inr ()" "bounded_depth D collaborating"
  shows "\<exists>r. check_collaboration_entity D collaborating = Some r"
proof -
  have "\<exists>r. collect_collaboration_schema_paths D schema [] = Some r"
    if "Some (res_bind (entity_named D name) (ok_or Panicked)) = walk_ok declared"
      "Some (res_bind (entity_schema (snd declared)) (resolve_ref D)) = walk_ok schema"
      "collaborating = (name, raw)" for name raw declared schema
    using assms that by (cases declared) (auto simp: bounded_depth_def res_bind_Inr_iff intro: collect_ends)
  then show ?thesis unfolding check_collaboration_entity_def
    by (intro ends check_sequence_items_ends[OF assms(1)] check_field_ends[OF assms(1)])
qed


lemma check_collaborating_ends:
  "check_reference_chains D = Inr () \<Longrightarrow> bounded_depth D collaborating \<Longrightarrow> \<exists>r. check_collaborating D collaborating = Some r"
  unfolding check_collaborating_def by (intro ends check_collaboration_entity_ends)

lemma check_definition_ends: "check_reference_chains D = Inr () \<Longrightarrow> \<exists>r. check_definition sci D ds i = Some r"
  unfolding check_definition_def by (intro ends check_schema_node_ends)

text \<open>
  (C16) \<open>check_semantics\<close> judges every document in which no collaborative entity's schema holds a schema that holds
  itself: it accepts, refuses or panics, whatever other references its schemas make, to themselves or in a ring.
  The chains of references are checked first, so following them ends, and the comparison of schemas
  assumes a pair it has met.
\<close>

theorem checks_end:
  assumes "\<And>es e. collaboration_entities D = Inr es \<Longrightarrow> e \<in> set es \<Longrightarrow> bounded_depth D e"
  shows "\<exists>r. check_semantics sci D = Some r"
  unfolding check_semantics_def by (intro ends check_definition_ends check_collaborating_ends assms; simp)

end
