(* ===== verification/Outputs.thy ===== *)
theory Outputs
  imports Accepted
begin

text \<open>
  The names the generated code declares and imports, as far as \<open>check_generated_output_names\<close> of
  \<open>crates/clerkenwell-codegen/src/validate.rs\<close> registers them: which part of a definition generates which
  name, stated rule by rule, and that a definition is accepted exactly when no two parts generate one name.
\<close>

section \<open>What generates a name\<close>

text \<open>
  The parts are numbered in the order the definition lists them: a \<open>$defs\<close> entry, an enum by the entry and
  the property (of the entry or of a variant of it) or by the values of its other members, what the bindings
  import, the dispatch types and name lists, and the constants and type of each entity and operation.
\<close>

datatype enum_place = OwnProperty nat | VariantProperty nat nat | OtherValues

datatype operation_sort = AProjection | AMutation | ACommand

datatype operation_role = NameRole | ParamsRole | AnswerRole | TypeRole

datatype origin =
    TypeOf nat
  | ConstraintsOf nat
  | EnumAt nat enum_place
  | Imported string
  | Shared string
  | EntityConstant nat
  | OperationAt operation_sort nat operation_role

fun operations_of :: "operation_sort \<Rightarrow> eobject \<Rightarrow> named list checked" where
  "operations_of AProjection D = projections_of D"
| "operations_of AMutation D = mutations_of D"
| "operations_of ACommand D = commands_of D"

fun operation_name :: "operation_sort \<Rightarrow> operation_role \<Rightarrow> string \<Rightarrow> string" where
  "operation_name _ TypeRole name = pascal_identifier name"
| "operation_name AProjection NameRole name = constant_name name @ ''_PROJECTION''"
| "operation_name AProjection ParamsRole name = constant_name name @ ''_PROJECTION_PARAMS_SCHEMA''"
| "operation_name AProjection AnswerRole name = constant_name name @ ''_PROJECTION_SNAPSHOT_SCHEMA''"
| "operation_name AMutation NameRole name = constant_name name @ ''_MUTATION''"
| "operation_name AMutation ParamsRole name = constant_name name @ ''_MUTATION_PARAMS_SCHEMA''"
| "operation_name AMutation AnswerRole name = constant_name name @ ''_MUTATION_RESULT_SCHEMA''"
| "operation_name ACommand NameRole name = constant_name name @ ''_COMMAND''"
| "operation_name ACommand ParamsRole name = constant_name name @ ''_COMMAND_PARAMS_SCHEMA''"
| "operation_name ACommand AnswerRole name = constant_name name @ ''_COMMAND_RESULT_SCHEMA''"

text \<open>A schema that is a string enum, or holds one in its items or its values.\<close>

inductive holds_enum :: "eobject \<Rightarrow> bool" where
  "string_enum_values schema = Some values \<Longrightarrow> holds_enum schema"
| "array_items schema = Some items \<Longrightarrow> holds_enum items \<Longrightarrow> holds_enum schema"
| "record_values_schema schema = Some v \<Longrightarrow> holds_enum v \<Longrightarrow> holds_enum schema"

inductive enum_named :: "string \<Rightarrow> eobject \<Rightarrow> enum_place \<Rightarrow> string \<Rightarrow> bool" for entry schema where
  "has_type schema ''object'' \<Longrightarrow> object_at schema ''properties'' = Some properties \<Longrightarrow>
   j < length properties \<Longrightarrow> properties ! j = (property, EObject v) \<Longrightarrow> holds_enum v \<Longrightarrow>
   enum_named entry schema (OwnProperty j) (pascal_identifier entry @ pascal_identifier property)"
| "has_type schema ''object'' \<Longrightarrow> object_at schema ''oneOf'' = Some variants \<Longrightarrow>
   k < length variants \<Longrightarrow> variants ! k = (tag, EObject variant) \<Longrightarrow>
   object_at variant ''properties'' = Some properties \<Longrightarrow>
   j < length properties \<Longrightarrow> properties ! j = (property, EObject v) \<Longrightarrow> holds_enum v \<Longrightarrow>
   enum_named entry schema (VariantProperty k j)
     (pascal_identifier (pascal_identifier entry @ pascal_identifier tag) @ pascal_identifier property)"
| "has_type schema ''object'' \<Longrightarrow> record_values_schema schema = Some v \<Longrightarrow> holds_enum v \<Longrightarrow>
   enum_named entry schema OtherValues (pascal_identifier entry @ ''Value'')"
| "has_type schema ''object'' \<Longrightarrow> record_values_schema schema = None \<Longrightarrow> other_members_schema schema = Some v \<Longrightarrow>
   holds_enum v \<Longrightarrow> enum_named entry schema OtherValues (pascal_identifier entry @ ''OtherMembers'')"

inductive generates :: "eobject \<Rightarrow> origin \<Rightarrow> string \<Rightarrow> bool" for D where
  "declared_def_entries D = Inr ds \<Longrightarrow> n < length ds \<Longrightarrow> ds ! n = (name, schema) \<Longrightarrow>
   generates D (TypeOf n) (pascal_identifier name)"
| "declared_def_entries D = Inr ds \<Longrightarrow> n < length ds \<Longrightarrow> ds ! n = (name, schema) \<Longrightarrow>
   record_values_schema schema = Some v \<Longrightarrow>
   generates D (ConstraintsOf n) (pascal_identifier name @ ''Constraints'')"
| "declared_def_entries D = Inr ds \<Longrightarrow> n < length ds \<Longrightarrow> ds ! n = (name, schema) \<Longrightarrow>
   enum_named name schema place generated \<Longrightarrow> generates D (EnumAt n place) generated"
| "name \<in> set client_bindings \<or> name \<in> set import_bindings \<Longrightarrow> generates D (Imported name) name"
| "name \<in> {''CollaborationDocument'', ''ProjectionName'', ''MutationName'', ''CommandName'', ''ENTITY_NAMES'',
     ''PROJECTION_NAMES'', ''MUTATION_NAMES'', ''COMMAND_NAMES''} \<Longrightarrow> generates D (Shared name) name"
| "entities_of D = Inr es \<Longrightarrow> n < length es \<Longrightarrow> es ! n = (name, raw) \<Longrightarrow>
   generates D (EntityConstant n) (constant_name name @ ''_ENTITY'')"
| "operations_of operation D = Inr ops \<Longrightarrow> n < length ops \<Longrightarrow> ops ! n = (name, raw) \<Longrightarrow>
   generates D (OperationAt operation n role) (operation_name operation role name)"

text \<open>The sections the names come from can be read.\<close>

definition sections_read :: "eobject \<Rightarrow> bool" where
  "sections_read D \<longleftrightarrow> (\<exists>ds es. def_entries D = Inr ds \<and> entities_of D = Inr es)
     \<and> (\<forall>operation. \<exists>ops. operations_of operation D = Inr ops)"

section \<open>The registered names, with what generates them\<close>

lemma accepted_names:
  "check_generated_output_names D = Inr () \<longleftrightarrow> (\<exists>names. output_names D = Inr names \<and> distinct names)"
  by (auto simp: check_generated_output_names_def res_bind_Inr_iff register_names split: if_splits)

lemma output_names_read: "output_names D = Inr names \<Longrightarrow> sections_read D"
proof -
  assume "output_names D = Inr names"
  then have "\<exists>all es ps ms cs. def_entries D = Inr all \<and> entities_of D = Inr es \<and> projections_of D = Inr ps
      \<and> mutations_of D = Inr ms \<and> commands_of D = Inr cs"
    by (auto simp: output_names_def declared_def_entries_def res_bind_Inr_iff)
  moreover from this have "\<exists>ops. operations_of operation D = Inr ops" for operation by (cases operation) auto
  ultimately show ?thesis unfolding sections_read_def by blast
qed

text \<open>What each entry of a list contributes, the entries numbered.\<close>

definition numbered :: "(nat \<Rightarrow> 'a \<Rightarrow> 'b list) \<Rightarrow> 'a list \<Rightarrow> 'b list" where
  "numbered f xs = concat (map (\<lambda>(k, x). f k x) (List.enumerate 0 xs))"

lemma in_numbered: "y \<in> set (numbered f xs) \<longleftrightarrow> (\<exists>k<length xs. y \<in> set (f k (xs ! k)))"
  by (force simp: numbered_def in_set_enumerate_eq)

lemma map_numbered:
  assumes "\<And>k x. map h (f k x) = g x"
  shows "map h (numbered f xs) = concat (map g xs)"
proof -
  have "map h (concat (map (\<lambda>(k, x). f k x) (List.enumerate n xs))) = concat (map g xs)" for n
    by (induction xs arbitrary: n) (simp_all add: assms)
  then show ?thesis by (simp add: numbered_def)
qed

lemma distinct_numbered:
  assumes "\<And>k x. distinct (map fst (f k x))" and "\<And>k x y. y \<in> set (f k x) \<Longrightarrow> place (fst y) = (k :: nat)"
  shows "distinct (map fst (numbered f xs))"
proof -
  have "distinct (map fst (concat (map (\<lambda>(k, x). f k x) (List.enumerate n xs))))" for n
  proof (induction xs arbitrary: n)
    case (Cons x xs)
    have "place (fst y) = n" "place (fst z) \<noteq> n" if "y \<in> set (f n x)" "(k, w) \<in> set (List.enumerate (Suc n) xs)" "z \<in> set (f k w)"
      for y k w z using that assms(2) by (auto simp: in_set_enumerate_eq)
    then have "fst ` set (f n x) \<inter> fst ` set (concat (map (\<lambda>(k, x). f k x) (List.enumerate (Suc n) xs))) = {}"
      by fastforce
    then show ?case using Cons[of "Suc n"] assms(1) by simp
  qed simp
  then show ?thesis by (simp add: numbered_def)
qed

text \<open>A list of names whose origins differ has no name twice exactly when no two origins share one.\<close>

lemma distinct_names_iff:
  assumes "distinct (map fst L)"
  shows "distinct (map snd L) \<longleftrightarrow> (\<forall>a b name. (a, name) \<in> set L \<and> (b, name) \<in> set L \<longrightarrow> a = b)"
  using assms unfolding distinct_map inj_on_def by fastforce

lemma holds_enum_iff: "property_enum_schema schema \<noteq> None \<longleftrightarrow> holds_enum schema"
proof
  show "property_enum_schema schema \<noteq> None \<Longrightarrow> holds_enum schema"
  proof (induction schema rule: property_enum_schema.induct)
    case (1 schema)
    then consider vs where "string_enum_values schema = Some vs"
      | items where "string_enum_values schema = None" "array_items schema = Some items"
          "property_enum_schema items \<noteq> None"
      | v where "string_enum_values schema = None" "record_values_schema schema = Some v"
          "(case array_items schema of None \<Rightarrow> None | Some items \<Rightarrow> property_enum_schema items) = None"
          "property_enum_schema v \<noteq> None"
      using property_enum_schema.simps[of schema] by (auto split: option.splits if_splits)
    then show ?case using 1 by cases (auto intro: holds_enum.intros)
  qed
  show "holds_enum schema \<Longrightarrow> property_enum_schema schema \<noteq> None"
  proof (induction rule: holds_enum.induct)
    case (1 schema vs)
    then show ?case by (subst property_enum_schema.simps) simp
  next
    case (2 schema items)
    then show ?case by (subst property_enum_schema.simps) (auto split: option.splits)
  next
    case (3 schema v)
    then show ?case by (subst property_enum_schema.simps) (auto split: option.splits)
  qed
qed

definition property_enums :: "string \<Rightarrow> (nat \<Rightarrow> enum_place) \<Rightarrow> eobject \<Rightarrow> (enum_place \<times> string) list" where
  "property_enums owner place = numbered (\<lambda>j (property, v).
     if Option.bind (e_object v) property_enum_schema = None then []
     else [(place j, rust_property_enum_name owner property)])"

definition other_enums :: "string \<Rightarrow> eobject \<Rightarrow> (enum_place \<times> string) list" where
  "other_enums entry schema =
     (case (case record_values_schema schema of
         Some v \<Rightarrow> Some (''value'', v)
       | None \<Rightarrow> map_option (Pair other_members_field) (other_members_schema schema)) of
        None \<Rightarrow> []
      | Some (name, v) \<Rightarrow>
          if property_enum_schema v = None then [] else [(OtherValues, rust_property_enum_name entry name)])"

definition variant_enums :: "string \<Rightarrow> nat \<Rightarrow> string \<times> ejson \<Rightarrow> (enum_place \<times> string) list" where
  "variant_enums entry k = (\<lambda>(tag, variant).
     case Option.bind (e_object variant) (\<lambda>v. object_at v ''properties'') of
       None \<Rightarrow> []
     | Some properties \<Rightarrow> property_enums (variant_enum_owner entry tag) (VariantProperty k) properties)"

definition entry_enums :: "string \<Rightarrow> eobject \<Rightarrow> (enum_place \<times> string) list" where
  "entry_enums entry schema =
     (if \<not> has_type schema ''object'' then []
      else (case object_at schema ''properties'' of None \<Rightarrow> [] | Some properties \<Rightarrow> property_enums entry OwnProperty properties)
        @ numbered (variant_enums entry)
          (case object_at schema ''oneOf'' of None \<Rightarrow> [] | Some variants \<Rightarrow> variants)
        @ other_enums entry schema)"

fun place_index :: "enum_place \<Rightarrow> nat" where
  "place_index (OwnProperty j) = j"
| "place_index (VariantProperty k j) = j"
| "place_index OtherValues = 0"

fun variant_index :: "enum_place \<Rightarrow> nat" where
  "variant_index (VariantProperty k j) = k"
| "variant_index _ = 0"

lemma e_object_Some: "e_object v = Some m \<longleftrightarrow> v = EObject m"
  by (cases v) auto

lemma spelt_fields: "pascal_identifier ''value'' = ''Value''" "pascal_identifier ''other_members'' = ''OtherMembers''"
  by code_simp+

lemma enum_of_iff: "Option.bind (e_object v) property_enum_schema \<noteq> None \<longleftrightarrow> (\<exists>m. v = EObject m \<and> holds_enum m)"
  by (cases "e_object v") (auto simp: e_object_Some simp flip: holds_enum_iff)

lemma in_property_enums:
  "(p, name) \<in> set (property_enums owner place properties) \<longleftrightarrow>
   (\<exists>j<length properties. \<exists>property v. properties ! j = (property, EObject v) \<and> holds_enum v
      \<and> p = place j \<and> name = pascal_identifier owner @ pascal_identifier property)"
proof -
  have "(p, name) \<in> set (case entry of (property, v) \<Rightarrow>
       if Option.bind (e_object v) property_enum_schema = None then []
       else [(place j, rust_property_enum_name owner property)]) \<longleftrightarrow>
     (\<exists>property v. entry = (property, EObject v) \<and> holds_enum v
       \<and> p = place j \<and> name = pascal_identifier owner @ pascal_identifier property)" for entry j
    using enum_of_iff[of "snd entry"] by (cases entry) (auto simp: rust_property_enum_name_def)
  then show ?thesis by (simp only: property_enums_def in_numbered)
qed

lemma distinct_property_enums:
  "(\<And>j. place_index (place j) = j) \<Longrightarrow> distinct (map fst (property_enums owner place properties))"
  unfolding property_enums_def by (rule distinct_numbered[where place = place_index]) (auto split: if_splits)

lemma Some_eq: "Some a = b \<Longrightarrow> b = Some a"
  by simp

lemma in_variant_enums:
  "(p, name) \<in> set (variant_enums entry k tagged) \<longleftrightarrow>
   (\<exists>tag variant properties. tagged = (tag, EObject variant) \<and> object_at variant ''properties'' = Some properties
      \<and> (p, name) \<in> set (property_enums (variant_enum_owner entry tag) (VariantProperty k) properties))"
  by (cases tagged; cases "snd tagged") (auto simp: variant_enums_def split: option.splits dest!: Some_eq)

lemma in_other_enums:
  assumes "has_type schema ''object''"
  shows "(p, name) \<in> set (other_enums entry schema) \<longleftrightarrow>
    p = OtherValues \<and> enum_named entry schema OtherValues name"
proof (cases "record_values_schema schema")
  case None
  then show ?thesis using assms
    by (cases "other_members_schema schema")
      (auto simp: other_enums_def rust_property_enum_name_def other_members_field_def spelt_fields
        enum_named.simps simp flip: holds_enum_iff)
next
  case (Some v)
  then show ?thesis using assms
    by (auto simp: other_enums_def rust_property_enum_name_def spelt_fields enum_named.simps simp flip: holds_enum_iff)
qed

inductive_cases enum_namedE: "enum_named entry schema p name"

lemma entry_enums_named:
  assumes "(p, name) \<in> set (entry_enums entry schema)"
  shows "enum_named entry schema p name"
proof -
  have shaped: "has_type schema ''object''" using assms by (auto simp: entry_enums_def split: if_splits)
  consider properties where "object_at schema ''properties'' = Some properties"
        "(p, name) \<in> set (property_enums entry OwnProperty properties)"
    | variants k tag variant properties where "object_at schema ''oneOf'' = Some variants" "k < length variants"
        "variants ! k = (tag, EObject variant)" "object_at variant ''properties'' = Some properties"
        "(p, name) \<in> set (property_enums (variant_enum_owner entry tag) (VariantProperty k) properties)"
    | "(p, name) \<in> set (other_enums entry schema)"
    using assms shaped
    by (auto simp: entry_enums_def in_numbered in_variant_enums split: option.splits dest!: Some_eq)
  then show ?thesis
  proof cases
    case 1
    then show ?thesis using shaped by (auto simp: in_property_enums intro: enum_named.intros(1))
  next
    case 2
    then show ?thesis using shaped
      by (auto simp: in_property_enums variant_enum_owner_def intro: enum_named.intros(2))
  next
    case 3
    then show ?thesis by (simp add: in_other_enums[OF shaped])
  qed
qed

lemma enum_named_listed: "enum_named entry schema p name \<Longrightarrow> (p, name) \<in> set (entry_enums entry schema)"
proof (induction rule: enum_named.induct)
  case (1 properties j property v)
  then have "(OwnProperty j, pascal_identifier entry @ pascal_identifier property)
      \<in> set (property_enums entry OwnProperty properties)"
    by (auto simp: in_property_enums)
  with 1 show ?case by (simp add: entry_enums_def)
next
  case (2 variants k tag variant properties j property v)
  then have "(VariantProperty k j, pascal_identifier (pascal_identifier entry @ pascal_identifier tag) @ pascal_identifier property)
      \<in> set (property_enums (variant_enum_owner entry tag) (VariantProperty k) properties)"
    by (auto simp: in_property_enums variant_enum_owner_def)
  with 2 have "(VariantProperty k j, pascal_identifier (pascal_identifier entry @ pascal_identifier tag) @ pascal_identifier property)
      \<in> set (variant_enums entry k (variants ! k))"
    by (simp add: in_variant_enums)
  with 2 show ?case by (auto simp: entry_enums_def in_numbered)
next
  case (3 v)
  then show ?case using in_other_enums[OF 3(1)] enum_named.intros(3)[OF 3] by (simp add: entry_enums_def)
next
  case (4 v)
  then show ?case using in_other_enums[OF 4(1)] enum_named.intros(4)[OF 4] by (simp add: entry_enums_def)
qed

lemma in_entry_enums: "(p, name) \<in> set (entry_enums entry schema) \<longleftrightarrow> enum_named entry schema p name"
  using entry_enums_named enum_named_listed by blast

lemma distinct_other_enums: "distinct (map fst (other_enums entry schema))"
  by (auto simp: other_enums_def split: option.splits prod.splits)

lemma distinct_entry_enums: "distinct (map fst (entry_enums entry schema))"
proof -
  have kind: "\<exists>j. fst y = VariantProperty k j" if "y \<in> set (variant_enums entry k x)" for y k x
  proof -
    from that obtain p name where "y = (p, name)" "(p, name) \<in> set (variant_enums entry k x)" by (metis prod.collapse)
    then show ?thesis by (auto simp: in_variant_enums in_property_enums)
  qed
  have "distinct (map fst (numbered (variant_enums entry) variants))" for variants
  proof (rule distinct_numbered[where place = variant_index])
    show "distinct (map fst (variant_enums entry k x))" for k x
      by (cases x) (simp add: variant_enums_def distinct_property_enums split: option.split)
  qed (use kind in fastforce)
  moreover have "\<exists>k j. fst y = VariantProperty k j" if "y \<in> set (numbered (variant_enums entry) variants)" for y variants
    using that unfolding in_numbered by (auto dest: kind)
  moreover have "\<exists>j. fst y = OwnProperty j" if "y \<in> set (property_enums entry OwnProperty ps)" for y ps
    using that in_property_enums[of "fst y" "snd y" entry OwnProperty ps] by auto
  moreover have "fst y = OtherValues" if "y \<in> set (other_enums entry schema)" for y
    using that by (auto simp: other_enums_def split: option.splits prod.splits if_splits)
  ultimately show ?thesis
    unfolding entry_enums_def
    by (auto simp: distinct_property_enums distinct_other_enums split: option.splits) fastforce+
qed

text \<open>What the check registers, each name with the part that generates it.\<close>

definition entry_parts :: "nat \<Rightarrow> named \<Rightarrow> (origin \<times> string) list" where
  "entry_parts n = (\<lambda>(name, schema). (TypeOf n, pascal_identifier name)
     # (if record_values_schema schema = None then [] else [(ConstraintsOf n, rust_record_constraints_name name)]))"

definition enum_parts :: "nat \<Rightarrow> named \<Rightarrow> (origin \<times> string) list" where
  "enum_parts n = (\<lambda>(name, schema). map (map_prod (EnumAt n) id) (entry_enums name schema))"

definition operation_parts :: "operation_sort \<Rightarrow> nat \<Rightarrow> named \<Rightarrow> (origin \<times> string) list" where
  "operation_parts operation n = (\<lambda>(name, raw).
     map (\<lambda>role. (OperationAt operation n role, operation_name operation role name))
       [NameRole, ParamsRole, AnswerRole, TypeRole])"

definition parts :: "named list \<Rightarrow> named list \<Rightarrow> named list \<Rightarrow> named list \<Rightarrow> named list \<Rightarrow> (origin \<times> string) list" where
  "parts ds es ps ms cs =
     numbered entry_parts ds @ numbered enum_parts ds
     @ map (\<lambda>n. (Imported n, n)) (index_set (client_bindings @ import_bindings)) @ map (\<lambda>n. (Shared n, n)) fixed_names
     @ numbered (\<lambda>n (name, raw). [(EntityConstant n, constant_name name @ ''_ENTITY'')]) es
     @ numbered (operation_parts AProjection) ps @ numbered (operation_parts AMutation) ms
     @ numbered (operation_parts ACommand) cs"

fun part_index :: "origin \<Rightarrow> nat" where
  "part_index (TypeOf n) = n"
| "part_index (ConstraintsOf n) = n"
| "part_index (EnumAt n place) = n"
| "part_index (EntityConstant n) = n"
| "part_index (OperationAt operation n role) = n"
| "part_index _ = 0"

fun part_kind :: "origin \<Rightarrow> nat" where
  "part_kind (TypeOf n) = 0"
| "part_kind (ConstraintsOf n) = 0"
| "part_kind (EnumAt n place) = 1"
| "part_kind (Imported name) = 2"
| "part_kind (Shared name) = 3"
| "part_kind (EntityConstant n) = 4"
| "part_kind (OperationAt AProjection n role) = 5"
| "part_kind (OperationAt AMutation n role) = 6"
| "part_kind (OperationAt ACommand n role) = 7"

text \<open>Parts of different kinds are different, those of one kind by their number.\<close>

lemma distinct_kinds:
  assumes "distinct (map fst xs)" "distinct (map fst ys)"
    and "\<And>x. x \<in> set xs \<Longrightarrow> part_kind (fst x) \<le> k" and "\<And>y. y \<in> set ys \<Longrightarrow> k < part_kind (fst y)"
  shows "distinct (map fst (xs @ ys))"
  using assms by (fastforce simp: distinct_map inj_on_def)

lemma part_kinds:
  "y \<in> set (numbered entry_parts ds) \<Longrightarrow> part_kind (fst y) = 0"
  "y \<in> set (numbered enum_parts ds) \<Longrightarrow> part_kind (fst y) = 1"
  "y \<in> set (numbered (\<lambda>n (name, raw). [(EntityConstant n, g name)]) es) \<Longrightarrow> part_kind (fst y) = 4"
  "y \<in> set (numbered (operation_parts AProjection) ps) \<Longrightarrow> part_kind (fst y) = 5"
  "y \<in> set (numbered (operation_parts AMutation) ps) \<Longrightarrow> part_kind (fst y) = 6"
  "y \<in> set (numbered (operation_parts ACommand) ps) \<Longrightarrow> part_kind (fst y) = 7"
  by (auto simp: in_numbered entry_parts_def enum_parts_def operation_parts_def split: prod.splits if_splits)

lemma distinct_parts_of:
  "distinct (map fst (numbered entry_parts ds))" "distinct (map fst (numbered enum_parts ds))"
  "distinct (map fst (numbered (\<lambda>n (name, raw). [(EntityConstant n, g name)]) es))"
  "distinct (map fst (numbered (operation_parts operation) ps))"
proof -
  have enums: "distinct (map fst (enum_parts n d))" for n d
  proof (cases d)
    case (Pair name schema)
    have "map fst (enum_parts n d) = map (EnumAt n) (map fst (entry_enums name schema))"
      by (simp add: enum_parts_def Pair)
    moreover have "inj (EnumAt n)" by (simp add: inj_def)
    ultimately show ?thesis
      using distinct_entry_enums[of name schema] by (simp only: distinct_map) (auto intro: inj_on_subset)
  qed
  show "distinct (map fst (numbered entry_parts ds))"
    by (rule distinct_numbered[where place = part_index]) (auto simp: entry_parts_def split: prod.splits if_splits)
  show "distinct (map fst (numbered enum_parts ds))"
    by (rule distinct_numbered[where place = part_index]) (use enums in \<open>auto simp: enum_parts_def split: prod.splits\<close>)
  show "distinct (map fst (numbered (\<lambda>n (name, raw). [(EntityConstant n, g name)]) es))"
    by (rule distinct_numbered[where place = part_index]) (auto split: prod.splits)
  show "distinct (map fst (numbered (operation_parts operation) ps))"
    by (rule distinct_numbered[where place = part_index]) (auto simp: operation_parts_def split: prod.splits)
qed

lemma distinct_parts: "distinct (map fst (parts ds es ps ms cs))"
proof -
  let ?entities = "numbered (\<lambda>n (name, raw). [(EntityConstant n, constant_name name @ ''_ENTITY'')]) es"
  have imported: "distinct (map fst (map (\<lambda>n. (Imported n, n)) (index_set xs)))" for xs
    by (simp add: distinct_map inj_on_def comp_def)
  have shared: "distinct (map fst (map (\<lambda>n. (Shared n, n)) fixed_names))"
    by (simp add: fixed_names_def)
  have "distinct (map fst (numbered (operation_parts AMutation) ms @ numbered (operation_parts ACommand) cs))"
    by (rule distinct_kinds[where k = 6]) (auto simp: distinct_parts_of dest!: part_kinds)
  then have "distinct (map fst (numbered (operation_parts AProjection) ps @ numbered (operation_parts AMutation) ms
      @ numbered (operation_parts ACommand) cs))"
    by (rule distinct_kinds[where k = 5, OF distinct_parts_of(4)]) (auto dest!: part_kinds)
  then have "distinct (map fst (?entities @ numbered (operation_parts AProjection) ps
      @ numbered (operation_parts AMutation) ms @ numbered (operation_parts ACommand) cs))"
    by (rule distinct_kinds[where k = 4, OF distinct_parts_of(3)]) (auto dest!: part_kinds)
  then have "distinct (map fst (map (\<lambda>n. (Shared n, n)) fixed_names @ ?entities
      @ numbered (operation_parts AProjection) ps @ numbered (operation_parts AMutation) ms
      @ numbered (operation_parts ACommand) cs))"
    by (rule distinct_kinds[where k = 3, OF shared]) (auto dest!: part_kinds)
  then have "distinct (map fst (map (\<lambda>n. (Imported n, n)) (index_set xs) @ map (\<lambda>n. (Shared n, n)) fixed_names
      @ ?entities @ numbered (operation_parts AProjection) ps @ numbered (operation_parts AMutation) ms
      @ numbered (operation_parts ACommand) cs))" for xs
    by (rule distinct_kinds[where k = 2, OF imported]) (auto dest!: part_kinds)
  then have "distinct (map fst (numbered enum_parts ds @ map (\<lambda>n. (Imported n, n)) (index_set xs)
      @ map (\<lambda>n. (Shared n, n)) fixed_names @ ?entities @ numbered (operation_parts AProjection) ps
      @ numbered (operation_parts AMutation) ms @ numbered (operation_parts ACommand) cs))" for xs
    by (rule distinct_kinds[where k = 1, OF distinct_parts_of(2)]) (auto dest!: part_kinds)
  then show ?thesis
    unfolding parts_def by (rule distinct_kinds[where k = 0, OF distinct_parts_of(1)]) (auto dest!: part_kinds)
qed

lemma map_filter_concat: "List.map_filter f xs = concat (map (\<lambda>x. case f x of None \<Rightarrow> [] | Some y \<Rightarrow> [y]) xs)"
  by (induction xs) (auto simp: map_filter_simps split: option.splits)

lemma snd_property_enums:
  "map (\<lambda>e. (d, snd e)) (property_enums owner place properties) = List.map_filter (\<lambda>(property, v).
     map_option (\<lambda>_. (d, rust_property_enum_name owner property)) (Option.bind (e_object v) property_enum_schema)) properties"
  unfolding property_enums_def map_filter_concat
  by (rule map_numbered) (auto split: prod.splits option.splits)

text \<open>The enums the generator collects are those of the entries, in its order.\<close>

lemma collected_enums:
  assumes "def_entries D = Inr ds"
  shows "collect_rust_property_enums D =
    Inr (concat (map (\<lambda>(name, schema). map (\<lambda>e. (name, snd e)) (entry_enums name schema)) ds))"
proof -
  have others: "(case (case record_values_schema schema of
        Some v \<Rightarrow> Some (''value'', v)
      | None \<Rightarrow> map_option (Pair other_members_field) (other_members_schema schema)) of
       None \<Rightarrow> []
     | Some (field, v) \<Rightarrow> if property_enum_schema v = None then [] else [(name, rust_property_enum_name name field)])
    = map (\<lambda>e. (name, snd e)) (other_enums name schema)" for name schema
    by (simp add: other_enums_def split: option.splits)
  have variants: "concat (map (\<lambda>(owner, properties). List.map_filter (\<lambda>(property, v).
       map_option (\<lambda>_. (name, rust_property_enum_name owner property)) (Option.bind (e_object v) property_enum_schema))
         properties)
      (List.map_filter (\<lambda>(tag, variant). map_option (Pair (variant_enum_owner name tag))
         (Option.bind (e_object variant) (\<lambda>v. object_at v ''properties''))) tagged))
    = map (\<lambda>e. (name, snd e)) (numbered (variant_enums name) tagged)" for name tagged
  proof -
    have each: "map (\<lambda>e. (name, snd e)) (variant_enums name k x) = (case x of (tag, variant) \<Rightarrow>
        case Option.bind (e_object variant) (\<lambda>v. object_at v ''properties'') of None \<Rightarrow> []
        | Some properties \<Rightarrow> List.map_filter (\<lambda>(property, v).
            map_option (\<lambda>_. (name, rust_property_enum_name (variant_enum_owner name tag) property))
              (Option.bind (e_object v) property_enum_schema)) properties)" for k x
      by (cases x) (simp add: variant_enums_def snd_property_enums split: option.splits)
    show ?thesis
      unfolding map_numbered[of "\<lambda>e. (name, snd e)", OF each]
      by (induction tagged) (auto simp: map_filter_simps split: option.splits)
  qed
  show ?thesis
    unfolding collect_rust_property_enums_def assms res_bind_simps
    by (rule arg_cong[where f = Inr], rule arg_cong[where f = concat], rule map_cong[OF refl])
      (auto simp: entry_enums_def Let_def others variants snd_property_enums split: option.splits)
qed

lemma kept_enums:
  "map snd (filter (\<lambda>(owner, _). owner \<notin> S)
      (concat (map (\<lambda>(name, schema). map (\<lambda>e. (name, snd e)) (entry_enums name schema)) ds)))
   = map snd (numbered enum_parts (filter (\<lambda>d. fst d \<notin> S) ds))"
proof -
  have each: "map snd (enum_parts n d) = (case d of (name, schema) \<Rightarrow> map snd (entry_enums name schema))" for n d
    by (cases d) (simp add: enum_parts_def)
  have "filter (\<lambda>(owner, _). owner \<notin> S) (map (\<lambda>e. (name, snd e)) es)
      = (if name \<in> S then [] else map (\<lambda>e. (name, snd e)) es)" for name and es :: "(enum_place \<times> string) list"
    by (induction es) auto
  then show ?thesis
    unfolding map_numbered[of snd, OF each] by (induction ds) (auto simp: comp_def)
qed

lemma operation_parts_names:
  "map snd (operation_parts AProjection n d) = entry_names ''PROJECTION'' [''PARAMS'', ''SNAPSHOT''] (fst d)"
  "map snd (operation_parts AMutation n d) = entry_names ''MUTATION'' [''PARAMS'', ''RESULT''] (fst d)"
  "map snd (operation_parts ACommand n d) = entry_names ''COMMAND'' [''PARAMS'', ''RESULT''] (fst d)"
  by (cases d; simp add: operation_parts_def entry_names_def name_constant_identifier_def schema_constant_identifier_def)+

lemma map_snd_parts:
  "map snd (parts ds es ps ms cs) =
     concat (map (\<lambda>(name, schema). pascal_identifier name
       # (if record_values_schema schema = None then [] else [rust_record_constraints_name name])) ds)
     @ map snd (numbered enum_parts ds) @ index_set (client_bindings @ import_bindings) @ fixed_names
     @ map (\<lambda>(name, _). name_constant_identifier name ''ENTITY'') es
     @ concat (map (\<lambda>(name, _). entry_names ''PROJECTION'' [''PARAMS'', ''SNAPSHOT''] name) ps)
     @ concat (map (\<lambda>(name, _). entry_names ''MUTATION'' [''PARAMS'', ''RESULT''] name) ms)
     @ concat (map (\<lambda>(name, _). entry_names ''COMMAND'' [''PARAMS'', ''RESULT''] name) cs)"
proof -
  have entries: "map snd (entry_parts n d) = (case d of (name, schema) \<Rightarrow> pascal_identifier name
       # (if record_values_schema schema = None then [] else [rust_record_constraints_name name]))" for n d
    by (cases d) (simp add: entry_parts_def)
  have entity: "map snd (case d of (name, raw) \<Rightarrow> [(EntityConstant n, constant_name name @ ''_ENTITY'')])
      = [case d of (name, _) \<Rightarrow> name_constant_identifier name ''ENTITY'']" for n and d :: named
    by (cases d) (simp add: name_constant_identifier_def)
  have singles: "concat (map (\<lambda>x. [h x]) xs) = map h xs" for h :: "named \<Rightarrow> string" and xs
    by (induction xs) auto
  show ?thesis
    unfolding parts_def map_append map_numbered[of snd, OF entries] map_numbered[of snd, OF entity]
      map_numbered[of snd, OF operation_parts_names(1)] map_numbered[of snd, OF operation_parts_names(2)]
      map_numbered[of snd, OF operation_parts_names(3)] singles
    by (simp add: comp_def case_prod_beta')
qed

lemma output_names_parts:
  assumes "def_entries D = Inr all" "entities_of D = Inr es" "projections_of D = Inr ps" "mutations_of D = Inr ms"
    "commands_of D = Inr cs"
  shows "output_names D = Inr (map snd (parts (filter (\<lambda>d. fst d \<notin> set shared_defs) all) es ps ms cs))"
  unfolding output_names_def map_snd_parts
  by (simp add: assms declared_def_entries_def collected_enums[OF assms(1)] kept_enums)

lemma in_parts:
  "(origin, name) \<in> set (numbered entry_parts ds) \<longleftrightarrow>
     (\<exists>n entry schema. n < length ds \<and> ds ! n = (entry, schema) \<and>
       (origin = TypeOf n \<and> name = pascal_identifier entry
        \<or> (\<exists>v. record_values_schema schema = Some v) \<and> origin = ConstraintsOf n
           \<and> name = pascal_identifier entry @ ''Constraints''))"
  "(origin, name) \<in> set (numbered enum_parts ds) \<longleftrightarrow>
     (\<exists>n entry schema place. n < length ds \<and> ds ! n = (entry, schema) \<and> origin = EnumAt n place
       \<and> enum_named entry schema place name)"
  "(origin, name) \<in> set (numbered (\<lambda>n (entry, raw). [(EntityConstant n, g entry)]) es) \<longleftrightarrow>
     (\<exists>n entry raw. n < length es \<and> es ! n = (entry, raw) \<and> origin = EntityConstant n \<and> name = g entry)"
  "(origin, name) \<in> set (numbered (operation_parts operation) ps) \<longleftrightarrow>
     (\<exists>n entry raw role. n < length ps \<and> ps ! n = (entry, raw) \<and> origin = OperationAt operation n role
       \<and> name = operation_name operation role entry)"
proof -
  have "(origin, name) \<in> set (entry_parts n d) \<longleftrightarrow> (\<exists>entry schema. d = (entry, schema) \<and>
      (origin = TypeOf n \<and> name = pascal_identifier entry
        \<or> (\<exists>v. record_values_schema schema = Some v) \<and> origin = ConstraintsOf n
           \<and> name = pascal_identifier entry @ ''Constraints''))" for n d
    by (cases d) (auto simp: entry_parts_def rust_record_constraints_name_def)
  then show "(origin, name) \<in> set (numbered entry_parts ds) \<longleftrightarrow>
     (\<exists>n entry schema. n < length ds \<and> ds ! n = (entry, schema) \<and>
       (origin = TypeOf n \<and> name = pascal_identifier entry
        \<or> (\<exists>v. record_values_schema schema = Some v) \<and> origin = ConstraintsOf n
           \<and> name = pascal_identifier entry @ ''Constraints''))"
    by (simp add: in_numbered)
  have "(origin, name) \<in> set (enum_parts n d) \<longleftrightarrow> (\<exists>entry schema place. d = (entry, schema) \<and> origin = EnumAt n place
      \<and> enum_named entry schema place name)" for n d
    by (cases d) (force simp: enum_parts_def simp flip: in_entry_enums)
  then show "(origin, name) \<in> set (numbered enum_parts ds) \<longleftrightarrow>
     (\<exists>n entry schema place. n < length ds \<and> ds ! n = (entry, schema) \<and> origin = EnumAt n place
       \<and> enum_named entry schema place name)"
    by (simp add: in_numbered)
  have entity: "(origin, name) \<in> set (case d of (entry, raw) \<Rightarrow> [(EntityConstant n, g entry)]) \<longleftrightarrow>
      (\<exists>entry raw. d = (entry, raw) \<and> origin = EntityConstant n \<and> name = g entry)" for n d
    by (cases d) auto
  show "(origin, name) \<in> set (numbered (\<lambda>n (entry, raw). [(EntityConstant n, g entry)]) es) \<longleftrightarrow>
     (\<exists>n entry raw. n < length es \<and> es ! n = (entry, raw) \<and> origin = EntityConstant n \<and> name = g entry)"
    by (simp only: in_numbered entity) blast
  have "role \<in> set [NameRole, ParamsRole, AnswerRole, TypeRole]" for role by (cases role) simp_all
  then have "(origin, name) \<in> set (operation_parts operation n d) \<longleftrightarrow> (\<exists>entry raw role. d = (entry, raw)
      \<and> origin = OperationAt operation n role \<and> name = operation_name operation role entry)" for n d
    unfolding operation_parts_def by (cases d) (simp only: prod.case set_map, blast)
  then show "(origin, name) \<in> set (numbered (operation_parts operation) ps) \<longleftrightarrow>
     (\<exists>n entry raw role. n < length ps \<and> ps ! n = (entry, raw) \<and> origin = OperationAt operation n role
       \<and> name = operation_name operation role entry)"
    by (simp add: in_numbered)
qed

lemma generates_part:
  assumes "def_entries D = Inr all" "entities_of D = Inr es" "projections_of D = Inr ps" "mutations_of D = Inr ms"
    "commands_of D = Inr cs"
  shows "generates D origin name \<longleftrightarrow>
    (origin, name) \<in> set (parts (filter (\<lambda>d. fst d \<notin> set shared_defs) all) es ps ms cs)"
proof -
  let ?ds = "filter (\<lambda>d. fst d \<notin> set shared_defs) all"
  have ds: "declared_def_entries D = Inr ?ds" by (simp add: declared_def_entries_def assms(1))
  have ops: "(\<exists>operation n entry raw role ops. operations_of operation D = Inr ops \<and> n < length ops \<and> ops ! n = (entry, raw)
        \<and> origin = OperationAt operation n role \<and> name = operation_name operation role entry) \<longleftrightarrow>
      (origin, name) \<in> set (numbered (operation_parts AProjection) ps)
      \<or> (origin, name) \<in> set (numbered (operation_parts AMutation) ms)
      \<or> (origin, name) \<in> set (numbered (operation_parts ACommand) cs)" (is "?left \<longleftrightarrow> _")
  proof -
    have "?left \<longleftrightarrow> (\<exists>operation n entry raw role. n < length (sum.projr (operations_of operation D))
        \<and> sum.projr (operations_of operation D) ! n = (entry, raw)
        \<and> origin = OperationAt operation n role \<and> name = operation_name operation role entry)"
    proof -
      have "\<exists>ops. operations_of operation D = Inr ops" for operation using assms by (cases operation) auto
      then show ?thesis by (metis sum.sel(2))
    qed
    moreover have "(\<exists>operation. P operation) \<longleftrightarrow> P AProjection \<or> P AMutation \<or> P ACommand" for P
      by (metis operation_sort.exhaust)
    ultimately show ?thesis unfolding in_parts using assms by simp
  qed
  have "generates D origin name \<longleftrightarrow>
      (origin, name) \<in> set (numbered entry_parts ?ds) \<or> (origin, name) \<in> set (numbered enum_parts ?ds)
      \<or> (\<exists>n. (n \<in> set client_bindings \<or> n \<in> set import_bindings) \<and> origin = Imported n \<and> name = n)
      \<or> (\<exists>n\<in>set fixed_names. origin = Shared n \<and> name = n)
      \<or> (origin, name) \<in> set (numbered (\<lambda>n (entry, raw). [(EntityConstant n, constant_name entry @ ''_ENTITY'')]) es)
      \<or> (\<exists>operation n entry raw role ops. operations_of operation D = Inr ops \<and> n < length ops \<and> ops ! n = (entry, raw)
        \<and> origin = OperationAt operation n role \<and> name = operation_name operation role entry)"
    (is "_ \<longleftrightarrow> ?right")
  proof
    assume "generates D origin name"
    then show ?right
    proof cases
      case (1 entries n entry schema)
      then show ?thesis using ds by (auto simp: in_parts(1))
    next
      case (2 entries n entry schema v)
      then show ?thesis using ds by (auto simp: in_parts(1))
    next
      case (3 entries n entry schema place)
      then show ?thesis using ds by (auto simp: in_parts(2))
    next
      case (6 entities n entry raw)
      then show ?thesis using assms(2) by (auto simp: in_parts(3))
    qed (auto simp: fixed_names_def)
  next
    have "generates D (Shared n) n" if "n \<in> set fixed_names" for n
      using that by (intro generates.intros(5)) (simp add: fixed_names_def)
    then show "?right \<Longrightarrow> generates D origin name"
      using generates.intros(1,2,3)[OF ds] generates.intros(4) generates.intros(6)[OF assms(2)] generates.intros(7)
      unfolding in_parts by (elim disjE exE bexE conjE) simp_all
  qed
  then show ?thesis unfolding ops parts_def by auto
qed

text \<open>
  (C19) \<open>check_generated_output_names\<close> accepts a definition exactly when its sections can be read and no two parts
  of it generate the same name: the types and constraints of its \<open>$defs\<close> entries, the enums in their
  properties, variants and values, the bindings' imports, the dispatch types and name lists, and the
  constants and type of every entity and operation, each named as \<open>generates\<close> says. These are the names
  the check registers; four types of the generated Rust, \<open>ProjectionTransportSnapshot\<close>, \<open>Patch\<close>,
  \<open>MutationResult\<close> and \<open>CommandResult\<close>, are not among them, and a definition may collide with those.
\<close>

theorem registered_names_distinct:
  "check_generated_output_names D = Inr () \<longleftrightarrow>
   sections_read D \<and> (\<forall>a b name. generates D a name \<and> generates D b name \<longrightarrow> a = b)"
proof (cases "sections_read D")
  case True
  then obtain all es ps ms cs where read: "def_entries D = Inr all" "entities_of D = Inr es" "projections_of D = Inr ps"
      "mutations_of D = Inr ms" "commands_of D = Inr cs"
    unfolding sections_read_def by (metis operations_of.simps)
  show ?thesis
    using True distinct_names_iff[OF distinct_parts]
    by (simp add: accepted_names output_names_parts[OF read] generates_part[OF read])
next
  case False
  then show ?thesis by (auto simp: accepted_names dest: output_names_read)
qed

end
