(* ===== verification/CodegenSamples.thy ===== *)
theory CodegenSamples
  imports Ending Outputs Sampling
begin

text \<open>
  Definitions on which the generator's checks are evaluated: a collaborative note, and a collaborative tree
  whose schema holds itself.
\<close>

definition text_field :: "string \<Rightarrow> ejson" where
  "text_field name =
     eobj [(''required'', EBool True),
       (''storage'', eobj [(''kind'', EString ''scalar''), (''container'', EString ''note''), (''key'', EString name)]),
       (''value'', eobj [(''codec'', EString ''string'')])]"

definition derived_field :: "string \<Rightarrow> ejson" where
  "derived_field kind =
     eobj [(''required'', EBool True), (''storage'', eobj [(''kind'', EString kind)]), (''value'', eobj [(''codec'', EString ''string'')])]"

text \<open>A definition of one collaborative entity, its schema and its fields; what it shares with its mutation.\<close>

definition sample_definition :: "ejson \<Rightarrow> ejson \<Rightarrow> eobject" where
  "sample_definition schema field_plan =
     obj_of [(''version'', ENumber 1), (''namespace'', EString ''notes''),
       (''$defs'', eobj [(''Note'', schema), (''ImportParams'', parameters [''update'']), (''ImportResult'', parameters [''etag''])]),
       (''entities'', eobj [(''Note'', eobj [(''schema'', reference_to ''Note''), (''id'', EString ''id''),
         (''revision'', eobj [(''kind'', EString ''replica'')]),
         (''authoring'', eobj [(''kind'', EString ''collaborative''), (''planningMutations'', EArray [EString ''importNote''])])])]),
       (''projections'', eobj []),
       (''mutations'', eobj [(''importNote'', eobj [(''params'', reference_to ''ImportParams''), (''result'', reference_to ''ImportResult''),
         (''touches'', EArray [EString ''Note''])])]),
       (''collaboration'', eobj [(''entities'', eobj [(''Note'', eobj [
         (''authoringState'', eobj [(''projection'', EString ''noteState''), (''importMutation'', EString ''importNote'')]),
         (''fields'', field_plan)])])])]"

definition note_schema :: ejson where
  "note_schema = parameters [''id'', ''title'']"

definition note_definition :: eobject where
  "note_definition = sample_definition note_schema (eobj [(''id'', derived_field ''derivedIdentity''), (''title'', text_field ''title'')])"

definition tree_schema :: ejson where
  "tree_schema =
     eobj [(''type'', EString ''object''), (''additionalProperties'', EBool False), (''required'', EArray [EString ''id'', EString ''children'']),
       (''properties'', eobj [(''id'', string_schema),
         (''children'', eobj [(''type'', EString ''array''), (''items'', reference_to ''Note'')])])]"

definition tree_definition :: eobject where
  "tree_definition = sample_definition tree_schema (eobj [(''id'', derived_field ''derivedIdentity'')])"

definition as_written :: exponential where
  "as_written v = (dec (nat \<lfloor>v\<rfloor>), int (length (dec (nat \<lfloor>v\<rfloor>))) - 1)"

definition right :: "stop + 'a list \<Rightarrow> 'a list" where
  "right x = (case x of Inl _ \<Rightarrow> [] | Inr xs \<Rightarrow> xs)"

definition note_expanded :: eobject where
  "note_expanded = right (expand note_definition)"

definition tree_expanded :: eobject where
  "tree_expanded = right (expand tree_definition)"

definition note_defs :: eobject where "note_defs = right (defs_of note_expanded)"
definition note_entries :: "named list" where "note_entries = right (entities_of note_expanded)"
definition note_collaborating :: "named list" where "note_collaborating = right (collaboration_entities note_expanded)"
definition note_projections :: "named list" where "note_projections = right (projections_of note_expanded)"
definition note_mutations :: "named list" where "note_mutations = right (mutations_of note_expanded)"
definition note_commands :: "named list" where "note_commands = right (commands_of note_expanded)"

section \<open>The note is accepted\<close>

lemma note_expands: "expand note_definition = Inr note_expanded" by code_simp
lemma note_counted: "projection_count note_expanded = Inr 1" by code_simp
lemma note_chains: "check_reference_chains note_expanded = Inr ()" by code_simp
lemma note_namespace: "namespace_of note_expanded = Inr ''notes''" by code_simp

lemma note_sections:
  "defs_of note_expanded = Inr note_defs"
  "entities_of note_expanded = Inr note_entries"
  "collaboration_entities note_expanded = Inr note_collaborating"
  "projections_of note_expanded = Inr note_projections"
  "mutations_of note_expanded = Inr note_mutations"
  "commands_of note_expanded = Inr note_commands"
  by code_simp+

lemma note_schemas:
  "walk_each (check_definition sci note_expanded note_defs) [0..<length note_defs] = walk_ok ()"
  by code_simp

lemma note_entities: "check_each (check_entity note_expanded) note_entries = Inr ()"
  by code_simp

lemma note_collaborates:
  "walk_each (check_collaborating note_expanded) note_collaborating = walk_ok ()"
  "check_each (\<lambda>(name, raw). res_bind (authoring_kind raw) (\<lambda>kind.
     refuse_if (kind = ''collaborative'' \<and> find_named name note_collaborating = None)))
     note_entries = Inr ()"
  by code_simp+

lemma note_operations:
  "check_each (check_projection sci note_expanded) note_projections = Inr ()"
  "check_each (check_changes note_expanded touches_of) note_mutations = Inr ()"
  "check_each (check_changes note_expanded command_touches) note_commands = Inr ()"
  "refuse_if (\<not> distinct (map fst note_projections @ map fst note_mutations
     @ map fst note_commands)) = Inr ()"
  "check_each (check_operation note_expanded ''notes'') (note_projections @ note_mutations
     @ note_commands) = Inr ()"
  by code_simp+

lemma note_names: "check_generated_output_names note_expanded = Inr ()"
  by code_simp

lemma note_accepted: "check_semantics sci note_expanded = walk_ok ()"
  unfolding check_semantics_def
  by (simp only: note_counted note_chains note_namespace note_sections note_schemas note_entities note_collaborates
      note_operations note_names walk_bind_simps) (simp add: refuse_if_def)


definition object_in :: "ejson \<Rightarrow> eobject" where
  "object_in v = (case e_object v of None \<Rightarrow> [] | Some m \<Rightarrow> m)"

theorem registered_names_distinct_witness:
  "sections_read note_expanded \<and> generates note_expanded (EntityConstant 0) ''NOTE_ENTITY''
   \<and> \<not> generates note_expanded (TypeOf 0) ''NOTE_ENTITY''"
proof -
  have "0 < length note_entries" "note_entries ! 0 = (''Note'', snd (note_entries ! 0))"
    "constant_name ''Note'' @ ''_ENTITY'' = ''NOTE_ENTITY''"
    by code_simp+
  with generates.intros(6)[OF note_sections(2), of 0 "''Note''"]
  have "generates note_expanded (EntityConstant 0) ''NOTE_ENTITY''" by metis
  with registered_names_distinct[of note_expanded] note_names show ?thesis by blast
qed

definition sampled_note :: ejson where
  "sampled_note = eobj [(''id'', EString ''id-one''), (''title'', EString ''title-one'')]"

lemma note_fixture:
  "map_of (object_in note_schema) ''$ref'' = None" "map_of (object_in note_schema) ''const'' = None"
  "map_of (object_in note_schema) ''enum'' = None" "primitive_union_types (object_in note_schema) = Inr None"
  "opt_str (object_in note_schema) ''type'' = Some ''object''" "object_at (object_in note_schema) ''oneOf'' = None"
  "read_string_array (map_of (object_in note_schema) ''required'') = Inr [''id'', ''title'']"
  "properties_of (object_in note_schema) = [(''id'', EObject (object_in string_schema)), (''title'', EObject (object_in string_schema))]"
  "undeclared_member (object_in note_schema) True = None"
  "map_of (object_in string_schema) ''$ref'' = None" "map_of (object_in string_schema) ''const'' = None"
  "map_of (object_in string_schema) ''enum'' = None" "primitive_union_types (object_in string_schema) = Inr None"
  "opt_str (object_in string_schema) ''type'' = Some ''string''"
  "bound_of (object_in string_schema) ''minLength'' = None"
  "kebab_identifier ''id'' = ''id''" "kebab_identifier ''title'' = ''title''"
  "EObject (obj_of [(''id'', EString ''id-one''), (''title'', EString ''title-one'')]) = sampled_note"
  by code_simp+

theorem samples_conform_witness:
  "sample_value note_expanded (object_in note_schema) (Some ''one'') None = walk_ok sampled_note
   \<and> conforms note_expanded (object_in note_schema) sampled_note"
proof -
  have declared: "def_of note_expanded ''Note'' = Inr (Some (object_in note_schema))" by code_simp
  have member: "sample_within note_expanded (object_in string_schema) (Some ''one'') (Some ''id'') True = walk_ok (EString ''id-one'')"
    "sample_within note_expanded (object_in string_schema) (Some ''one'') (Some ''title'') True = walk_ok (EString ''title-one'')"
    by (subst sample_within.simps; simp add: note_fixture string_sample_def)+
  have "members_sample (sample_within note_expanded) (object_in note_schema) (Some ''one'') True = walk_ok sampled_note"
    unfolding members_sample_def property_sample_def by (simp add: note_fixture member object_of_def)
  then have "sample_value note_expanded (object_in note_schema) (Some ''one'') None = walk_ok sampled_note"
    unfolding sample_value_def by (subst sample_within.simps) (simp add: note_fixture)
  with samples_conform[OF note_accepted declared this] show ?thesis by simp
qed

theorem accepted_operations_witness:
  "projections_of note_expanded = Inr note_projections \<and> mutations_of note_expanded = Inr note_mutations
     \<and> distinct (map fst (note_projections @ note_mutations @ note_commands))"
  using accepted_operations[OF note_accepted, of note_projections note_mutations note_commands "''notes''"]
  by (simp add: note_sections note_namespace)

lemma note_importing:
  "note_mutations = [(''importNote'', snd (hd note_mutations))]" "touches_of (snd (hd note_mutations)) = Inr [''Note'']"
  by code_simp+

theorem accepted_effects_witness:
  "mutations_of note_expanded = Inr note_mutations \<and> touches_of (snd (hd note_mutations)) = Inr [''Note'']
     \<and> writable note_expanded ''Note''"
proof -
  have "(''importNote'', snd (hd note_mutations)) \<in> set note_mutations"
    by (subst (2) note_importing(1)) simp
  with accepted_effects[OF note_accepted, of note_projections note_mutations note_commands] note_importing(2)
  show ?thesis by (fastforce simp: note_sections)
qed

theorem expansion_declares_witness:
  "expand note_definition = Inr note_expanded
     \<and> map_of (section_of note_definition ''$defs'') \<subseteq>\<^sub>m map_of (section_of note_expanded ''$defs'')"
  using expansion_declares[OF note_expands] note_expands by simp

text \<open>Its entity's members are strings, which hold nothing.\<close>

abbreviation plain :: eobject where "plain \<equiv> object_in string_schema"

lemma note_shape:
  "entity_named note_expanded ''Note'' = Inr (Some (''Note'', snd (hd note_entries)))"
  "res_bind (entity_schema (snd (hd note_entries))) (resolve_ref note_expanded) = Inr (object_in note_schema)"
  "dereference note_expanded (object_in note_schema) = walk_ok (None, object_in note_schema)"
  "array_items (object_in note_schema) = None"
  "addressable_members (object_in note_schema) = Some [(''id'', EObject plain), (''title'', EObject plain)]"
  "dereference note_expanded plain = walk_ok (None, plain)"
  "array_items plain = None" "addressable_members plain = None"
  by code_simp+

lemma note_bounded: "bounded_depth note_expanded (''Note'', raw)"
proof -
  have "\<not> holds note_expanded held plain" for held
    by (simp add: holds.simps note_shape)
  then have plain: "Wellfounded.accp (holds note_expanded) plain" by (blast intro: accpI)
  have "held = plain" if "holds note_expanded held (object_in note_schema)" for held
    using that by (auto simp: holds.simps note_shape)
  with plain have "Wellfounded.accp (holds note_expanded) (object_in note_schema)" by (blast intro: accpI)
  then show ?thesis by (simp add: bounded_depth_def note_shape)
qed

theorem checks_end_witness:
  "collaboration_entities note_expanded = Inr [(''Note'', snd (hd note_collaborating))]
     \<and> bounded_depth note_expanded (''Note'', snd (hd note_collaborating))
     \<and> (\<exists>r. check_semantics as_written note_expanded = Some r)"
proof -
  have es: "collaboration_entities note_expanded = Inr [(''Note'', snd (hd note_collaborating))]" by code_simp
  then have "\<exists>r. check_semantics as_written note_expanded = Some r"
    by (intro checks_end) (auto simp: note_bounded)
  with es show ?thesis by (simp add: note_bounded)
qed

section \<open>The tree is never judged\<close>

definition tree_children :: ejson where
  "tree_children = eobj [(''type'', EString ''array''), (''items'', reference_to ''Note'')]"

abbreviation tree :: eobject where "tree \<equiv> object_in tree_schema"
abbreviation children :: eobject where "children \<equiv> object_in tree_children"

lemma tree_dereferenced:
  "dereference tree_expanded tree = walk_ok (None, tree)"
  "dereference tree_expanded children = walk_ok (None, children)"
  "dereference tree_expanded plain = walk_ok (None, plain)"
  "dereference tree_expanded (object_in (reference_to ''Note'')) = walk_ok (Some ''Note'', tree)"
  by code_simp+

lemma tree_shape:
  "array_items tree = None" "addressable_members tree = Some [(''id'', EObject plain), (''children'', EObject children)]"
  "array_items children = Some (object_in (reference_to ''Note''))" "has_type tree ''object''"
  "array_items plain = None" "addressable_members plain = None"
  "tree \<noteq> children" "tree \<noteq> plain" "children \<noteq> plain"
  by code_simp+

lemma tree_uncollected: "collect_collaboration_schema_paths tree_expanded tree base = None"
proof -
  have "D = tree_expanded \<longrightarrow> schema \<noteq> tree \<and> schema \<noteq> children \<and> (schema = plain \<longrightarrow> r = Inr [base])"
    if "collect_collaboration_schema_paths D schema base = Some r" for D schema base r
  proof (rule collect_collaboration_schema_paths.raw_induct[OF _ that], intro impI, hypsubst_thin)
    fix f :: "eobject \<Rightarrow> eobject \<Rightarrow> string \<Rightarrow> string list walk" and base r and schema :: eobject
    let ?D = tree_expanded
    assume IH: "\<And>D schema base r. f D schema base = Some r \<Longrightarrow>
        D = ?D \<longrightarrow> schema \<noteq> tree \<and> schema \<noteq> children \<and> (schema = plain \<longrightarrow> r = Inr [base])"
    have apart: "f ?D tree b = None" "f ?D children b = None" for b
      using IH[of ?D tree b] IH[of ?D children b] by fastforce+
    have "f ?D plain b = None \<or> f ?D plain b = walk_ok [b]" for b
      using IH[of ?D plain b] by (cases "f ?D plain b") auto
    from this[of "path_under base ''id''"] have members: "walk_collect (\<lambda>property. case e_object (snd property) of None \<Rightarrow> walk_ok []
        | Some v \<Rightarrow> f ?D v (path_under base (fst property))) [(''id'', EObject plain), (''children'', EObject children)] = None"
      by (auto simp: apart)
    assume "walk_bind (dereference ?D schema) (\<lambda>schema. case array_items (snd schema) of
        None \<Rightarrow> (case addressable_members (snd schema) of
            None \<Rightarrow> walk_ok [base]
          | Some properties \<Rightarrow> walk_bind (walk_collect (\<lambda>property. case e_object (snd property) of None \<Rightarrow> walk_ok []
              | Some v \<Rightarrow> f ?D v (path_under base (fst property))) properties) (\<lambda>paths. walk_ok (index_set (concat paths))))
      | Some items \<Rightarrow> walk_bind (dereference ?D items) (\<lambda>item. if has_type (snd item) ''object''
          then walk_bind (f ?D (snd item) (base @ ''.*'')) (\<lambda>paths. walk_ok (index_set (base # paths)))
          else walk_ok [base])) = Some r"
    then show "schema \<noteq> tree \<and> schema \<noteq> children \<and> (schema = plain \<longrightarrow> r = Inr [base])"
      by (auto simp only: tree_dereferenced tree_shape walk_bind_simps option.case prod.sel if_True members apart)
  qed
  then show ?thesis by (cases "collect_collaboration_schema_paths tree_expanded tree base") auto
qed


definition tree_defs :: eobject where "tree_defs = right (defs_of tree_expanded)"
definition tree_entries :: "named list" where "tree_entries = right (entities_of tree_expanded)"
definition tree_collaborating :: eobject where "tree_collaborating = snd (hd (right (collaboration_entities tree_expanded)))"
definition tree_entity :: eobject where "tree_entity = snd (hd tree_entries)"
definition tree_projected :: eobject where "tree_projected = snd (hd (right (projections_of tree_expanded)))"
definition tree_importing :: eobject where "tree_importing = snd (hd (right (mutations_of tree_expanded)))"

lemma tree_reached:
  "projection_count tree_expanded = Inr 1"
  "check_reference_chains tree_expanded = Inr ()"
  "defs_of tree_expanded = Inr tree_defs"
  "walk_each (check_definition sci tree_expanded tree_defs) [0..<length tree_defs] = walk_ok ()"
  "entities_of tree_expanded = Inr tree_entries"
  "check_each (check_entity tree_expanded) tree_entries = Inr ()"
  "collaboration_entities tree_expanded = Inr [(''Note'', tree_collaborating)]"
  by code_simp+

lemma tree_entity_reached:
  "entity_named tree_expanded ''Note'' = Inr (Some (''Note'', tree_entity))"
  "revision_kind tree_entity = Inr ''replica''"
  "authoring_kind tree_entity = Inr ''collaborative''"
  "res_bind (authoring_projection tree_collaborating) (projection_named tree_expanded) = Inr (Some (''noteState'', tree_projected))"
  "depends_on tree_projected = Inr [''Note'']"
  "res_bind (import_mutation tree_collaborating) (mutation_named tree_expanded) = Inr (Some (''importNote'', tree_importing))"
  "touches_of tree_importing = Inr [''Note'']"
  "res_bind (entity_schema tree_entity) (resolve_ref tree_expanded) = Inr tree"
  "other_members_schema tree = None"
  by code_simp+

lemma walk_each_None: "f x = None \<Longrightarrow> walk_each f [x] = None"
  by (simp add: walk_each_def)

lemma tree_uncollaborating: "check_collaborating tree_expanded (''Note'', tree_collaborating) = None"
  unfolding check_collaborating_def check_collaboration_entity_def
  by (simp add: tree_entity_reached tree_uncollected refuse_if_def)

text \<open>
  (C25) A definition whose collaborative entity is a tree, its children trees: it passes every check before its own,
  and \<open>check_collaboration_entity\<close> then goes round the entity's schema without end.
\<close>

theorem tree_unjudged: "check_semantics sci tree_expanded = None"
  unfolding check_semantics_def
  by (simp add: tree_reached tree_uncollaborating walk_each_None refuse_if_def)


end
