(* ===== verification/Layout.thy ===== *)
theory Layout
  imports Ecma
begin

text \<open>
  \<open>crates/clerkenwell-codegen/src/layout.rs\<close>: rustfmt's layout of the expressions the generated Rust is made of. A width
  is a number of characters; subtracting from it may fail, \<open>checked_sub\<close>.
\<close>

section \<open>Expressions\<close>

definition max_width :: nat where "max_width = 100"
definition tab :: nat where "tab = 4"
definition array_width :: nat where "array_width = 60"
definition fn_call_width :: nat where "fn_call_width = 60"
definition struct_lit_width :: nat where "struct_lit_width = 18"
definition short_array_element_width :: nat where "short_array_element_width = 10"

datatype rexpr =
    Atom string
  | Ref rexpr
  | ArrayOf "rexpr list"
  | Call string "rexpr list"
  | TupleOf "rexpr list"
  | StructOf string "(string \<times> rexpr) list"

definition slice_of :: "rexpr list \<Rightarrow> rexpr" where
  "slice_of items = Ref (ArrayOf items)"

definition option_of :: "rexpr option \<Rightarrow> rexpr" where
  "option_of v = (case v of Some e \<Rightarrow> Call ''Some'' [e] | None \<Rightarrow> Atom ''None'')"

fun is_atom :: "rexpr \<Rightarrow> bool" where
  "is_atom (Atom _) = True"
| "is_atom _ = False"

fun is_overflowable :: "rexpr \<Rightarrow> bool" where
  "is_overflowable (Atom _) = False"
| "is_overflowable (Ref inner) = is_overflowable inner"
| "is_overflowable _ = True"

record shape =
  sh_indent :: nat
  sh_width :: nat

definition nested :: "shape \<Rightarrow> shape" where
  "nested shape = (let indent = sh_indent shape + tab in \<lparr>sh_indent = indent, sh_width = max_width - (indent + 1)\<rparr>)"

definition checked_sub :: "nat \<Rightarrow> nat \<Rightarrow> nat option" where
  "checked_sub a b = (if b \<le> a then Some (a - b) else None)"

definition spaces :: "nat \<Rightarrow> string" where
  "spaces count = replicate count (CHR '' '')"

definition newline :: string where
  "newline = [CHR 0x0A]"

definition is_single_line :: "string \<Rightarrow> bool" where
  "is_single_line text \<longleftrightarrow> CHR 0x0A \<notin> set text"

section \<open>rustfmt's layout\<close>

text \<open>An item of a list and how it is laid out in a shape.\<close>

record laid =
  ld_expr :: rexpr
  ld_rewrite :: "shape \<Rightarrow> string option"

definition one_line :: "shape \<Rightarrow> laid \<Rightarrow> string option" where
  "one_line shape item =
     (case ld_rewrite item shape of None \<Rightarrow> None | Some text \<Rightarrow> if is_single_line text then Some text else None)"

definition vertical :: "string \<Rightarrow> string \<Rightarrow> laid list \<Rightarrow> shape \<Rightarrow> string option" where
  "vertical opening closing items shape =
     map_option (\<lambda>texts. opening @ newline
         @ concat (map (\<lambda>text. spaces (sh_indent (nested shape)) @ text @ '','' @ newline) texts)
         @ spaces (sh_indent shape) @ closing)
       (those (map (\<lambda>item. ld_rewrite item (nested shape)) items))"

text \<open>The lines of \<open>mixed\<close>: those filled, the one being filled, and whether the list has wrapped.\<close>

fun mixed_lines :: "nat \<Rightarrow> string list \<Rightarrow> string list \<Rightarrow> string \<Rightarrow> bool \<Rightarrow> string list" where
  "mixed_lines available [] filled line wrapped = filled @ [line]"
| "mixed_lines available (item # items) filled line wrapped =
     (let item_width = length item + (if items \<noteq> [] \<or> wrapped then 1 else 0) in
      if line \<noteq> [] \<and> length line + 1 + item_width > available
      then mixed_lines available items (filled @ [line]) (item @ '','') True
      else mixed_lines available items filled ((if line = [] then [] else line @ '' '') @ item @ '','') wrapped)"

definition mixed :: "string \<Rightarrow> string \<Rightarrow> string list \<Rightarrow> shape \<Rightarrow> string" where
  "mixed opening closing items shape =
     opening @ newline
       @ concat (map (\<lambda>line. spaces (sh_indent (nested shape)) @ line @ newline)
           (mixed_lines (sh_width (nested shape)) items [] [] False))
       @ spaces (sh_indent shape) @ closing"

definition rewrite_list :: "string \<Rightarrow> string \<Rightarrow> laid list \<Rightarrow> shape \<Rightarrow> nat \<Rightarrow> string option" where
  "rewrite_list opening closing items shape item_max_width =
     Option.bind (checked_sub (sh_width shape) (length opening + length closing)) (\<lambda>one_line_width.
     let inline = \<lparr>sh_indent = sh_indent shape, sh_width = one_line_width\<rparr> in
     if items = [] then Some (opening @ closing)
     else if length items = 1 then
       let item = hd items in
       (case one_line inline item of
          Some single \<Rightarrow> Some (opening @ single @ closing)
        | None \<Rightarrow>
            (case (if is_overflowable (ld_expr item) then ld_rewrite item inline else None) of
               Some overflowed \<Rightarrow> Some (opening @ overflowed @ closing)
             | None \<Rightarrow> vertical opening closing items shape))
     else
       (case those (map (one_line inline) items) of
          None \<Rightarrow> vertical opening closing items shape
        | Some singles \<Rightarrow>
            let total = sum_list (map length singles) + 2 * (length singles - 1) in
            if total \<le> min one_line_width item_max_width
            then Some (opening @ join '', '' singles @ closing)
            else if list_all (\<lambda>item. is_atom (ld_expr item)) items
              \<and> list_all (\<lambda>text. length text \<le> short_array_element_width) singles
            then Some (mixed opening closing singles shape)
            else vertical opening closing items shape))"

definition rewrite_field :: "string \<Rightarrow> laid \<Rightarrow> nat \<Rightarrow> string option" where
  "rewrite_field field v indent =
     Option.bind (checked_sub max_width (indent + length field + 2 + 1)) (\<lambda>same_line.
     case ld_rewrite v \<lparr>sh_indent = indent, sh_width = same_line\<rparr> of
       Some text \<Rightarrow> Some (field @ '': '' @ text)
     | None \<Rightarrow>
         Option.bind (checked_sub max_width (indent + tab)) (\<lambda>next_line.
         map_option (\<lambda>text. field @ '':'' @ newline @ spaces (indent + tab) @ text)
           (ld_rewrite v \<lparr>sh_indent = indent + tab, sh_width = next_line\<rparr>)))"

definition rewrite_struct :: "string \<Rightarrow> (string \<times> laid) list \<Rightarrow> shape \<Rightarrow> string option" where
  "rewrite_struct name members shape =
     (let opening = name @ '' {'' in
      if length opening > sh_width shape then None
      else
        let horizontal = map_option (join '', '')
              (those (map (\<lambda>(field, v). map_option (\<lambda>text. field @ '': '' @ text)
                 (one_line \<lparr>sh_indent = sh_indent shape, sh_width = max_width\<rparr> v)) members)) in
        case (case horizontal of
                None \<Rightarrow> None
              | Some body \<Rightarrow>
                  if length body \<le> struct_lit_width \<and> length body + length opening + 2 \<le> sh_width shape
                  then Some (opening @ '' '' @ body @ '' }'') else None) of
          Some text \<Rightarrow> Some text
        | None \<Rightarrow>
            map_option (\<lambda>texts. opening @ newline
                @ concat (map (\<lambda>text. spaces (sh_indent shape + tab) @ text @ '','' @ newline) texts)
                @ spaces (sh_indent shape) @ ''}'')
              (those (map (\<lambda>(field, v). rewrite_field field v (sh_indent shape + tab)) members)))"

fun rewrite :: "rexpr \<Rightarrow> shape \<Rightarrow> string option" where
  "rewrite (Atom text) = (\<lambda>shape. if length text \<le> sh_width shape then Some text else None)"
| "rewrite (Ref inner) = (\<lambda>shape.
     Option.bind (checked_sub (sh_width shape) 1) (\<lambda>left.
     map_option (\<lambda>text. ''&'' @ text) (rewrite inner \<lparr>sh_indent = sh_indent shape, sh_width = left\<rparr>)))"
| "rewrite (ArrayOf items) = (\<lambda>shape. rewrite_list ''['' '']''
     (map (\<lambda>e. \<lparr>ld_expr = e, ld_rewrite = rewrite e\<rparr>) items) shape array_width)"
| "rewrite (TupleOf items) = (\<lambda>shape. rewrite_list ''('' '')''
     (map (\<lambda>e. \<lparr>ld_expr = e, ld_rewrite = rewrite e\<rparr>) items) shape fn_call_width)"
| "rewrite (Call callee arguments) = (\<lambda>shape. rewrite_list (callee @ ''('') '')''
     (map (\<lambda>e. \<lparr>ld_expr = e, ld_rewrite = rewrite e\<rparr>) arguments) shape fn_call_width)"
| "rewrite (StructOf name members) = rewrite_struct name
     (map (\<lambda>(field, e). (field, \<lparr>ld_expr = e, ld_rewrite = rewrite e\<rparr>)) members)"

section \<open>Items\<close>

definition newlines :: "string \<Rightarrow> nat" where
  "newlines text = length (filter (\<lambda>c. c = CHR 0x0A) text)"

definition first_line :: "string \<Rightarrow> string" where
  "first_line text = takeWhile (\<lambda>c. c \<noteq> CHR 0x0A) text"

definition first_line_ends_with :: "string \<Rightarrow> char \<Rightarrow> bool" where
  "first_line_ends_with text c \<longleftrightarrow> first_line text \<noteq> [] \<and> last (first_line text) = c"

definition prefer_next_line :: "string \<Rightarrow> string \<Rightarrow> bool" where
  "prefer_next_line same_line next_line \<longleftrightarrow>
     is_single_line next_line \<or> newlines same_line > newlines next_line + 1
     \<or> list_ex (\<lambda>c. first_line_ends_with same_line c \<and> \<not> first_line_ends_with next_line c) [CHR ''('', CHR ''{'', CHR ''['']"

definition rustfmt_item :: "nat \<Rightarrow> string \<Rightarrow> rexpr \<Rightarrow> string option" where
  "rustfmt_item indent left v =
     (let lead = spaces indent;
          same_line = Option.bind (checked_sub max_width (indent + length left + 2))
            (\<lambda>available. rewrite v \<lparr>sh_indent = indent, sh_width = available\<rparr>);
          next_line = Option.bind (checked_sub max_width (indent + tab + 1))
            (\<lambda>available. rewrite v \<lparr>sh_indent = indent + tab, sh_width = available\<rparr>);
          below = (\<lambda>text. newline @ spaces (indent + tab) @ text);
          chosen = (case same_line of
              Some same \<Rightarrow>
                if is_single_line same then Some ('' '' @ same)
                else (case next_line of
                    Some other \<Rightarrow> Some (if prefer_next_line same other then below other else '' '' @ same)
                  | None \<Rightarrow> Some ('' '' @ same))
            | None \<Rightarrow> map_option below next_line) in
      map_option (\<lambda>text. lead @ left @ text @ '';'') chosen)"

fun is_struct :: "rexpr \<Rightarrow> bool" where
  "is_struct (StructOf _ _) = True"
| "is_struct _ = False"

text \<open>The plain layout.\<close>

fun written :: "rexpr \<Rightarrow> nat \<Rightarrow> string" where
  "written (Atom text) indent = text"
| "written (Ref inner) indent = ''&'' @ written inner indent"
| "written (ArrayOf items) indent =
     (if list_ex is_struct items
      then ''['' @ newline
        @ concat (map (\<lambda>e. spaces (indent + tab) @ written e (indent + tab) @ '','' @ newline) items)
        @ spaces indent @ '']''
      else ''['' @ join '', '' (map (\<lambda>e. written e indent) items) @ '']'')"
| "written (TupleOf items) indent = ''('' @ join '', '' (map (\<lambda>e. written e indent) items) @ '')''"
| "written (Call callee arguments) indent = callee @ ''('' @ join '', '' (map (\<lambda>e. written e indent) arguments) @ '')''"
| "written (StructOf name members) indent =
     name @ '' {'' @ newline
       @ concat (map (\<lambda>(field, e). spaces (indent + tab) @ field @ '': '' @ written e (indent + tab) @ '','' @ newline) members)
       @ spaces indent @ ''}''"

definition fits :: "string \<Rightarrow> bool" where
  "fits line \<longleftrightarrow> length line \<le> max_width"

definition fits_attribute :: "string \<Rightarrow> bool" where
  "fits_attribute line \<longleftrightarrow> length line < max_width"

definition item_at :: "nat \<Rightarrow> string \<Rightarrow> rexpr \<Rightarrow> string" where
  "item_at indent left v =
     (case rustfmt_item indent left v of
        Some text \<Rightarrow> text
      | None \<Rightarrow>
          spaces indent @ left
            @ (if is_struct v then newline @ spaces (indent + tab) @ written v (indent + tab) else '' '' @ written v indent)
            @ '';'')"

definition item_of :: "string \<Rightarrow> rexpr \<Rightarrow> string" where
  "item_of left v = item_at 0 left v"

definition declared_line :: "string \<Rightarrow> string \<Rightarrow> string \<Rightarrow> string" where
  "declared_line indent head v =
     (let line = indent @ head @ '' '' @ v @ '','' in
      if fits line then line else indent @ head @ newline @ indent @ spaces tab @ v @ '','')"

text \<open>\<open>trim_start\<close> drops white space; \<open>opening\<close> is indented with spaces.\<close>

definition wrap_last_argument :: "string \<Rightarrow> string \<Rightarrow> string \<Rightarrow> string" where
  "wrap_last_argument opening argument closing =
     (let line = opening @ argument @ closing in
      if fits line then line
      else
        let indent = takeWhile (\<lambda>c. c \<in> {CHR '' '', CHR 0x09, CHR 0x0A, CHR 0x0B, CHR 0x0C, CHR 0x0D, CHR 0x85, CHR 0xA0}) opening in
        opening @ newline @ indent @ spaces tab @ argument @ '','' @ newline @ indent @ closing)"


section \<open>What Rust text is an expression\<close>

text \<open>
  The grammar a layout has to keep to: \<open>lays e text\<close> says that \<open>text\<close> is the Rust of \<open>e\<close>. Atoms, callees, names and
  fields are spelt as they are; the elements of a list stand in their order between its brackets, a comma
  between any two, with blanks and line ends around them and, where the layout likes, a comma after the last.
  A tuple of one element needs that comma to be one, so the grammar has no tuple of one element.
\<close>

definition white :: "string \<Rightarrow> bool" where
  "white text \<longleftrightarrow> set text \<subseteq> {CHR '' '', CHR 0x0A}"

inductive listing :: "string list \<Rightarrow> string \<Rightarrow> bool" where
  listing_Nil: "white a \<Longrightarrow> listing [] a"
| listing_last: "white a \<Longrightarrow> white b \<Longrightarrow> listing [t] (a @ t @ b)"
| listing_comma: "white a \<Longrightarrow> white b \<Longrightarrow> listing ts rest \<Longrightarrow> listing (t # ts) (a @ t @ b @ '','' @ rest)"

inductive lays :: "rexpr \<Rightarrow> string \<Rightarrow> bool" where
  "lays (Atom text) text"
| "lays e t \<Longrightarrow> lays (Ref e) (''&'' @ t)"
| "list_all2 lays es ts \<Longrightarrow> listing ts body \<Longrightarrow> lays (ArrayOf es) (''['' @ body @ '']'')"
| "list_all2 lays es ts \<Longrightarrow> listing ts body \<Longrightarrow> length es \<noteq> 1 \<Longrightarrow> lays (TupleOf es) (''('' @ body @ '')'')"
| "list_all2 lays es ts \<Longrightarrow> listing ts body \<Longrightarrow> lays (Call callee es) (callee @ ''('' @ body @ '')'')"
| "list_all2 (\<lambda>m t. \<exists>gap v. white gap \<and> lays (snd m) v \<and> t = fst m @ '':'' @ gap @ v) members ts \<Longrightarrow>
   listing ts body \<Longrightarrow> white gap \<Longrightarrow> lays (StructOf name members) (name @ gap @ ''{'' @ body @ ''}'')"

fun no_single_tuples :: "rexpr \<Rightarrow> bool" where
  "no_single_tuples (Atom _) \<longleftrightarrow> True"
| "no_single_tuples (Ref e) \<longleftrightarrow> no_single_tuples e"
| "no_single_tuples (ArrayOf es) \<longleftrightarrow> list_all no_single_tuples es"
| "no_single_tuples (TupleOf es) \<longleftrightarrow> length es \<noteq> 1 \<and> list_all no_single_tuples es"
| "no_single_tuples (Call _ es) \<longleftrightarrow> list_all no_single_tuples es"
| "no_single_tuples (StructOf _ members) \<longleftrightarrow> list_all (\<lambda>m. no_single_tuples (snd m)) members"

lemma white_simps [simp]:
  "white []" "white (a @ b) \<longleftrightarrow> white a \<and> white b" "white (c # a) \<longleftrightarrow> c \<in> {CHR '' '', CHR 0x0A} \<and> white a"
  "white (spaces n)" "white newline"
  by (auto simp: white_def spaces_def newline_def)

lemma listing_before: "listing ts text \<Longrightarrow> white a \<Longrightarrow> listing ts (a @ text)"
proof (induction rule: listing.induct)
  case (listing_Nil b)
  then show ?case by (simp add: listing.intros)
next
  case (listing_last b c t)
  then show ?case using listing.listing_last[of "a @ b" c t] by simp
next
  case (listing_comma b c ts rest t)
  then show ?case using listing.listing_comma[of "a @ b" c ts rest t] by simp
qed

lemma listing_after: "listing ts text \<Longrightarrow> white b \<Longrightarrow> listing ts (text @ b)"
proof (induction rule: listing.induct)
  case (listing_last a c t)
  then show ?case using listing.listing_last[of a "c @ b" t] by simp
next
  case (listing_comma a c ts rest t)
  then show ?case using listing.listing_comma[of a c ts "rest @ b" t] by simp
qed (simp add: listing.intros)

lemma listing_item: "white a \<Longrightarrow> listing ts rest \<Longrightarrow> listing (t # ts) (a @ t @ '','' @ rest)"
  using listing_comma[of a "[]" ts rest t] by simp

section \<open>Every layout keeps to it\<close>

lemma listing_join: "listing ts (join '', '' ts)"
proof (induction ts)
  case (Cons t ts)
  show ?case
  proof (cases ts)
    case Nil
    then show ?thesis using listing_last[of "[]" "[]" t] by simp
  next
    case rest: (Cons u us)
    have "listing ts ('' '' @ join '', '' ts)" using Cons by (rule listing_before) simp
    then show ?thesis using listing_item[of "[]" ts _ t] rest by simp
  qed
qed (simp add: listing_Nil)

lemma listing_lines:
  assumes "white a" "white b"
  shows "listing ts (newline @ concat (map (\<lambda>t. a @ t @ '','' @ newline) ts) @ b)"
proof (induction ts)
  case (Cons t ts)
  then show ?case using listing_item[of "newline @ a" ts _ t] assms(1) by simp
qed (simp add: listing_Nil assms(2))

lemma mixed_lines_listing:
  assumes "white a"
  shows "\<exists>rest. concat (map (\<lambda>l. a @ l @ newline) (mixed_lines n items filled line wrapped))
      = concat (map (\<lambda>l. a @ l @ newline) filled) @ a @ line @ rest \<and> listing items rest"
proof (induction n items filled line wrapped rule: mixed_lines.induct)
  case (1 n filled line wrapped)
  then show ?case by (simp add: listing_Nil)
next
  case (2 n item items filled line wrapped)
  let ?wide = "line \<noteq> [] \<and> length line + 1 + (length item + (if items \<noteq> [] \<or> wrapped then 1 else 0)) > n"
  show ?case
  proof (cases ?wide)
    case True
    then obtain rest where "concat (map (\<lambda>l. a @ l @ newline) (mixed_lines n (item # items) filled line wrapped))
        = concat (map (\<lambda>l. a @ l @ newline) filled) @ a @ line @ newline @ a @ item @ '','' @ rest"
        "listing items rest"
      using 2(1)[OF refl] by (auto simp: Let_def)
    moreover from this(2) have "listing (item # items) ((newline @ a) @ item @ '','' @ rest)"
      by (intro listing_item) (simp_all add: assms)
    ultimately show ?thesis by simp
  next
    case False
    then obtain rest where "concat (map (\<lambda>l. a @ l @ newline) (mixed_lines n (item # items) filled line wrapped))
        = concat (map (\<lambda>l. a @ l @ newline) filled) @ a @ (if line = [] then [] else line @ '' '') @ item @ '','' @ rest"
        "listing items rest"
      using 2(2)[OF refl] by (auto simp: Let_def)
    moreover from this(2) have "listing (item # items) ((if line = [] then [] else '' '') @ item @ '','' @ rest)"
      by (intro listing_item) simp_all
    ultimately show ?thesis by (auto split: if_splits)
  qed
qed

lemma listing_mixed:
  "\<exists>body. mixed opening closing items shape = opening @ body @ closing \<and> listing items body"
proof -
  obtain rest where "concat (map (\<lambda>l. spaces (sh_indent (nested shape)) @ l @ newline)
      (mixed_lines (sh_width (nested shape)) items [] [] False)) = spaces (sh_indent (nested shape)) @ rest"
      "listing items rest"
    using mixed_lines_listing[of "spaces (sh_indent (nested shape))" "sh_width (nested shape)" items "[]" "[]" False]
    by auto
  moreover from this(2) have "listing items ((newline @ spaces (sh_indent (nested shape))) @ rest @ spaces (sh_indent shape))"
    by (intro listing_before listing_after) simp_all
  ultimately show ?thesis unfolding mixed_def by auto
qed

text \<open>An item whose every layout is its text.\<close>

definition keeps :: "laid \<Rightarrow> bool" where
  "keeps item \<longleftrightarrow> (\<forall>shape text. ld_rewrite item shape = Some text \<longrightarrow> lays (ld_expr item) text)"

lemma one_line_keeps: "keeps item \<Longrightarrow> one_line shape item = Some text \<Longrightarrow> lays (ld_expr item) text"
  by (auto simp: keeps_def one_line_def split: option.splits if_splits)

lemma those_map_iff: "those (map f xs) = Some ys \<longleftrightarrow> list_all2 (\<lambda>x y. f x = Some y) xs ys"
  by (induction xs arbitrary: ys) (auto simp: list_all2_Cons1 split: option.splits)

lemma laid_texts:
  assumes "those (map f items) = Some texts"
    and "\<And>item text. item \<in> set items \<Longrightarrow> f item = Some text \<Longrightarrow> lays (ld_expr item) text"
  shows "list_all2 lays (map ld_expr items) texts"
  using assms unfolding those_map_iff by (auto simp: list_all2_conv_all_nth)

text \<open>A bracketed list of some items.\<close>

definition bracketed :: "string \<Rightarrow> string \<Rightarrow> rexpr list \<Rightarrow> string \<Rightarrow> bool" where
  "bracketed opening closing es text \<longleftrightarrow>
     (\<exists>ts body. list_all2 lays es ts \<and> listing ts body \<and> text = opening @ body @ closing)"

lemma bracketedI: "list_all2 lays es ts \<Longrightarrow> listing ts body \<Longrightarrow> bracketed opening closing es (opening @ body @ closing)"
  by (auto simp: bracketed_def)

lemma vertical_keeps:
  assumes "\<And>item. item \<in> set items \<Longrightarrow> keeps item" "vertical opening closing items shape = Some text"
  shows "bracketed opening closing (map ld_expr items) text"
proof -
  from assms(2) obtain texts where texts: "those (map (\<lambda>item. ld_rewrite item (nested shape)) items) = Some texts"
    and whole: "text = opening @ (newline
         @ concat (map (\<lambda>text. spaces (sh_indent (nested shape)) @ text @ '','' @ newline) texts)
         @ spaces (sh_indent shape)) @ closing"
    by (auto simp: vertical_def)
  have "list_all2 lays (map ld_expr items) texts"
    by (rule laid_texts[OF texts]) (use assms(1) in \<open>auto simp: keeps_def\<close>)
  then show ?thesis unfolding whole by (rule bracketedI) (rule listing_lines, simp_all)
qed

lemma single_keeps: "lays (ld_expr item) t \<Longrightarrow> bracketed opening closing [ld_expr item] (opening @ t @ closing)"
  using bracketedI[of "[ld_expr item]" "[t]" t "opening" "closing"] listing_last[of "[]" "[]" t] by simp

lemma rewrite_list_keeps:
  assumes items: "\<And>item. item \<in> set items \<Longrightarrow> keeps item"
    and "rewrite_list opening closing items shape w = Some text"
  shows "bracketed opening closing (map ld_expr items) text"
proof -
  from assms(2) obtain available where rest: "(let inline = \<lparr>sh_indent = sh_indent shape, sh_width = available\<rparr> in
     if items = [] then Some (opening @ closing)
     else if length items = 1 then
       let item = hd items in
       (case one_line inline item of
          Some single \<Rightarrow> Some (opening @ single @ closing)
        | None \<Rightarrow>
            (case (if is_overflowable (ld_expr item) then ld_rewrite item inline else None) of
               Some overflowed \<Rightarrow> Some (opening @ overflowed @ closing)
             | None \<Rightarrow> vertical opening closing items shape))
     else
       (case those (map (one_line inline) items) of
          None \<Rightarrow> vertical opening closing items shape
        | Some singles \<Rightarrow>
            let total = sum_list (map length singles) + 2 * (length singles - 1) in
            if total \<le> min available w
            then Some (opening @ join '', '' singles @ closing)
            else if list_all (\<lambda>item. is_atom (ld_expr item)) items
              \<and> list_all (\<lambda>text. length text \<le> short_array_element_width) singles
            then Some (mixed opening closing singles shape)
            else vertical opening closing items shape)) = Some text"
    unfolding rewrite_list_def by (auto simp: bind_eq_Some_conv)
  let ?inline = "\<lparr>sh_indent = sh_indent shape, sh_width = available\<rparr>"
  have vertical: "?thesis" if "vertical opening closing items shape = Some text"
    using items that by (rule vertical_keeps)
  consider "items = []" | item where "items = [item]" | "items \<noteq> []" "length items \<noteq> 1" by (cases items) auto
  then show ?thesis
  proof cases
    case 1
    then show ?thesis using rest bracketedI[of "[]" "[]" "[]" "opening" "closing"] by (simp add: listing_Nil)
  next
    case (2 item)
    have "keeps item" using items 2 by simp
    then have "lays (ld_expr item) t" if "one_line ?inline item = Some t \<or> ld_rewrite item ?inline = Some t" for t
      using that one_line_keeps by (auto simp: keeps_def)
    note single = single_keeps[OF this]
    from rest 2 vertical show ?thesis
      by (auto simp: Let_def intro: single split: option.splits if_splits)
  next
    case 3
    have texts: "list_all2 lays (map ld_expr items) ts" if "those (map (one_line ?inline) items) = Some ts" for ts
      by (rule laid_texts[OF that]) (use items one_line_keeps in blast)
    have mixed: "bracketed opening closing (map ld_expr items) (mixed opening closing ts shape)"
      if "those (map (one_line ?inline) items) = Some ts" for ts
      using listing_mixed[of "opening" "closing" ts shape] texts[OF that] by (auto simp: bracketed_def)
    have joined: "bracketed opening closing (map ld_expr items) (opening @ join '', '' ts @ closing)"
      if "those (map (one_line ?inline) items) = Some ts" for ts
      using texts[OF that] listing_join by (rule bracketedI)
    from 3 rest vertical show ?thesis
      by (auto simp: Let_def intro: mixed joined split: option.splits if_splits)
  qed
qed

lemma laid_keeps: "keeps \<lparr>ld_expr = e, ld_rewrite = f\<rparr> \<longleftrightarrow> (\<forall>shape text. f shape = Some text \<longrightarrow> lays e text)"
  by (simp add: keeps_def)

text \<open>A field of a struct and its text.\<close>

definition field_laid :: "string \<times> rexpr \<Rightarrow> string \<Rightarrow> bool" where
  "field_laid m t \<longleftrightarrow> (\<exists>gap v. white gap \<and> lays (snd m) v \<and> t = fst m @ '':'' @ gap @ v)"

lemma field_laidI: "white gap \<Longrightarrow> lays e v \<Longrightarrow> field_laid (field, e) (field @ '':'' @ gap @ v)"
  by (auto simp: field_laid_def)

lemma lays_struct:
  "list_all2 field_laid members ts \<Longrightarrow> listing ts body \<Longrightarrow> white gap \<Longrightarrow> lays (StructOf name members) (name @ gap @ ''{'' @ body @ ''}'')"
  unfolding field_laid_def by (rule lays.intros(6))

lemma rewrite_field_keeps:
  assumes "keeps v" "rewrite_field field v indent = Some text"
  shows "field_laid (field, ld_expr v) text"
  using assms field_laidI[of "'' ''" "ld_expr v" _ field] field_laidI[of "newline @ spaces (indent + tab)" "ld_expr v" _ field]
  by (auto simp: rewrite_field_def keeps_def bind_eq_Some_conv split: option.splits)

lemma rewrite_struct_keeps:
  assumes members: "\<And>field v. (field, v) \<in> set members \<Longrightarrow> keeps v" and "rewrite_struct name members shape = Some text"
  shows "lays (StructOf name (map (map_prod id ld_expr) members)) text"
proof -
  have texts: "list_all2 field_laid (map (map_prod id ld_expr) members) ts"
    if "those (map f members) = Some ts"
      and each: "\<And>field v text. keeps v \<Longrightarrow> f (field, v) = Some text \<Longrightarrow> field_laid (field, ld_expr v) text" for f ts
  proof -
    have "field_laid (map_prod id ld_expr m) t" if "m \<in> set members" "f m = Some t" for m t
    proof (cases m)
      case (Pair field v)
      then show ?thesis using that each[of v field t] members[of field v] by simp
    qed
    then show ?thesis using that(1) unfolding those_map_iff by (auto simp: list_all2_conv_all_nth)
  qed
  have horizontal: "lays (StructOf name (map (map_prod id ld_expr) members)) (name @ '' { '' @ join '', '' ts @ '' }'')"
    if "those (map (\<lambda>(field, v). map_option (\<lambda>text. field @ '': '' @ text)
       (one_line \<lparr>sh_indent = sh_indent shape, sh_width = max_width\<rparr> v)) members) = Some ts" for ts
  proof -
    have laid: "list_all2 field_laid (map (map_prod id ld_expr) members) ts"
      using that by (rule texts) (auto dest!: one_line_keeps field_laidI[of "'' ''", rotated])
    have "listing ts ('' '' @ join '', '' ts @ '' '')"
      by (intro listing_before listing_after listing_join) simp_all
    from lays_struct[OF laid this, of "'' ''" name] show ?thesis by simp
  qed
  have vertical: "lays (StructOf name (map (map_prod id ld_expr) members))
      (name @ '' {'' @ newline @ concat (map (\<lambda>text. spaces (sh_indent shape + tab) @ text @ '','' @ newline) ts)
        @ spaces (sh_indent shape) @ ''}'')"
    if "those (map (\<lambda>(field, v). rewrite_field field v (sh_indent shape + tab)) members) = Some ts" for ts
  proof -
    have laid: "list_all2 field_laid (map (map_prod id ld_expr) members) ts"
      using that by (rule texts) (auto dest: rewrite_field_keeps)
    from lays_struct[OF laid listing_lines[of "spaces (sh_indent shape + tab)" "spaces (sh_indent shape)" ts], of "'' ''" name]
    show ?thesis by simp
  qed
  from assms(2) show ?thesis
    unfolding rewrite_struct_def Let_def
    using horizontal vertical by (auto split: if_splits option.splits)
qed

lemma rewrite_lays: "no_single_tuples e \<Longrightarrow> rewrite e shape = Some t \<Longrightarrow> lays e t"
proof (induction e arbitrary: shape t)
  case (Atom a)
  then show ?case by (auto intro: lays.intros split: if_splits)
next
  case (Ref inner)
  then show ?case by (auto simp: bind_eq_Some_conv intro: lays.intros(2)[simplified])
next
  case (ArrayOf items)
  then have "bracketed ''['' '']'' (map ld_expr (map (\<lambda>e. \<lparr>ld_expr = e, ld_rewrite = rewrite e\<rparr>) items)) t"
    by (intro rewrite_list_keeps) (auto simp: laid_keeps list_all_iff)
  then show ?case using lays.intros(3) by (auto simp: comp_def bracketed_def)
next
  case (TupleOf items)
  then have "bracketed ''('' '')'' (map ld_expr (map (\<lambda>e. \<lparr>ld_expr = e, ld_rewrite = rewrite e\<rparr>) items)) t"
    by (intro rewrite_list_keeps) (auto simp: laid_keeps list_all_iff)
  then show ?case using lays.intros(4) TupleOf.prems(1) by (auto simp: comp_def bracketed_def)
next
  case (Call callee items)
  then have "bracketed (callee @ ''('') '')'' (map ld_expr (map (\<lambda>e. \<lparr>ld_expr = e, ld_rewrite = rewrite e\<rparr>) items)) t"
    by (intro rewrite_list_keeps) (auto simp: laid_keeps list_all_iff)
  then show ?case using lays.intros(5) by (auto simp: comp_def bracketed_def)
next
  case (StructOf name members)
  have "keeps v" if "(field, v) \<in> set (map (\<lambda>(field, e). (field, \<lparr>ld_expr = e, ld_rewrite = rewrite e\<rparr>)) members)" for field v
    using that StructOf.IH StructOf.prems(1) by (fastforce simp: laid_keeps list_all_iff)
  then have "lays (StructOf name (map (map_prod id ld_expr)
      (map (\<lambda>(field, e). (field, \<lparr>ld_expr = e, ld_rewrite = rewrite e\<rparr>)) members))) t"
    using StructOf.prems(2)[unfolded rewrite.simps] by (rule rewrite_struct_keeps)
  then show ?case by (simp add: comp_def case_prod_unfold)
qed

lemma written_lays: "no_single_tuples e \<Longrightarrow> lays e (written e indent)"
proof (induction e arbitrary: indent)
  case (ArrayOf items)
  then have laid: "list_all2 lays items (map (\<lambda>e. written e i) items)" for i
    by (auto simp: list_all_iff list_all2_conv_all_nth)
  show ?case
  proof (cases "list_ex is_struct items")
    case True
    have "listing (map (\<lambda>e. written e (indent + tab)) items) (newline
        @ concat (map (\<lambda>t. spaces (indent + tab) @ t @ '','' @ newline) (map (\<lambda>e. written e (indent + tab)) items)) @ spaces indent)"
      by (rule listing_lines) simp_all
    from lays.intros(3)[OF laid this] True show ?thesis by (simp add: comp_def)
  next
    case False
    with lays.intros(3)[OF laid listing_join] show ?thesis by simp
  qed
next
  case (TupleOf items)
  then have "list_all2 lays items (map (\<lambda>e. written e indent) items)"
    by (auto simp: list_all_iff list_all2_conv_all_nth)
  from lays.intros(4)[OF this listing_join] TupleOf.prems show ?case by simp
next
  case (Call callee items)
  then have "list_all2 lays items (map (\<lambda>e. written e indent) items)"
    by (auto simp: list_all_iff list_all2_conv_all_nth)
  from lays.intros(5)[OF this listing_join] show ?case by simp
next
  case (StructOf name members)
  define texts where "texts = map (\<lambda>(field, e). field @ '': '' @ written e (indent + tab)) members"
  have "field_laid m (case m of (field, e) \<Rightarrow> field @ '': '' @ written e (indent + tab))" if "m \<in> set members" for m
    using StructOf that field_laidI[of "'' ''"] by (cases m) (fastforce simp: list_all_iff)
  then have laid: "list_all2 field_laid members texts"
    by (auto simp: texts_def list_all2_conv_all_nth)
  from lays_struct[OF laid listing_lines[of "spaces (indent + tab)" "spaces indent" texts], of "'' ''" name]
  show ?case by (simp add: texts_def comp_def case_prod_unfold)
qed (auto intro: lays.intros(1) lays.intros(2)[simplified])

text \<open>
  (C22) However an item of the generated Rust is laid out, as rustfmt would in any of its layouts or plainly where
  rustfmt gives up, it is its indentation, its left side, a gap, a text that is the Rust of the expression
  itself, with every atom as it is, every element and field in its place and the commas between them, and a
  semicolon. The expression holds no tuple of one element, which the generator makes none of and whose
  one-line layout would not be a tuple.
\<close>

theorem layout_keeps_code:
  assumes "no_single_tuples v"
  shows "\<exists>gap code. item_at indent left v = spaces indent @ left @ gap @ code @ '';''
    \<and> white gap \<and> gap \<noteq> [] \<and> lays v code"
proof -
  have below: "\<exists>gap code. spaces indent @ left @ newline @ spaces n @ t @ '';'' = spaces indent @ left @ gap @ code @ '';''
      \<and> white gap \<and> gap \<noteq> [] \<and> lays v code" if "lays v t" for n t
    using that by (intro exI[of _ "newline @ spaces n"] exI[of _ t]) (simp add: newline_def)
  have beside: "\<exists>gap code. spaces indent @ left @ '' '' @ t @ '';'' = spaces indent @ left @ gap @ code @ '';''
      \<and> white gap \<and> gap \<noteq> [] \<and> lays v code" if "lays v t" for t
    using that by (intro exI[of _ "'' ''"] exI[of _ t]) simp
  have "\<exists>t. lays v t \<and> (laid = spaces indent @ left @ newline @ spaces (indent + tab) @ t @ '';''
      \<or> laid = spaces indent @ left @ '' '' @ t @ '';'')" if "rustfmt_item indent left v = Some laid" for laid
  proof -
    from that consider t w where "rewrite v w = Some t" "laid = spaces indent @ left @ newline @ spaces (indent + tab) @ t @ '';''"
      | t w where "rewrite v w = Some t" "laid = spaces indent @ left @ '' '' @ t @ '';''"
      unfolding rustfmt_item_def Let_def
      by (auto simp: bind_eq_Some_conv split: option.splits if_splits)
    then show ?thesis by cases (use rewrite_lays[OF assms] in blast)+
  qed
  then show ?thesis
    using below beside written_lays[OF assms] by (cases "rustfmt_item indent left v") (auto simp: item_at_def)
qed

text \<open>Two items in a slice laid out on lines of their own.\<close>

definition sample_item :: rexpr where
  "sample_item = slice_of [StructOf ''Field'' [(''name'', Atom ''\"title, or so\"''), (''kinds'', slice_of [Atom ''A'', Atom ''B''])],
     TupleOf [Atom ''X'', Call ''Some'' [Atom ''1'']]]"

theorem layout_keeps_code_witness:
  "\<exists>gap code. item_at 0 ''const FIELDS: &[Field] ='' sample_item = ''const FIELDS: &[Field] ='' @ gap @ code @ '';''
    \<and> white gap \<and> gap \<noteq> [] \<and> lays sample_item code"
proof -
  have "no_single_tuples sample_item" by code_simp
  from layout_keeps_code[OF this, of 0 "''const FIELDS: &[Field] =''"] show ?thesis
    by (simp only: spaces_def replicate.simps append.simps)
qed


text \<open>A struct on one line may be a column wider than the width it is laid out in.\<close>

lemma struct_overflows:
  "rewrite (StructOf ''A'' [(''b'', Atom ''c'')]) \<lparr>sh_indent = 0, sh_width = 9\<rparr> = Some ''A { b: c }''"
  by code_simp

end
