(* ===== verification/Documented.thy ===== *)
theory Documented
  imports Ending
begin

text \<open>
  \<open>crates/clerkenwell-codegen/src/json_schema.rs\<close>: the JSON Schema documents a definition's schemas denote.
\<close>

section \<open>Conversion\<close>

text \<open>Two conversions, neither of which reads what the other gives.\<close>

definition res_both :: "'a checked \<Rightarrow> 'b checked \<Rightarrow> ('a \<Rightarrow> 'b \<Rightarrow> 'c checked) \<Rightarrow> 'c checked" where
  "res_both x y f = res_bind x (\<lambda>a. res_bind y (f a))"

lemma res_both_cong [fundef_cong]: "x = x' \<Longrightarrow> y = y' \<Longrightarrow> f = f' \<Longrightarrow> res_both x y f = res_both x' y' f'"
  by simp

lemma member_size:
  assumes "x \<in> set m" "e_object (snd x) = Some n"
  shows "size (EObject n) < size (EObject m)"
proof -
  from assms(2) have "size (EObject n) = size (snd x)" by (cases "snd x") simp_all
  with size_ejson_member[of "fst x" "snd x" m] assms(1) show ?thesis by simp
qed

lemma object_member_size: "x \<in> set m \<Longrightarrow> object_of (snd x) = Inr n \<Longrightarrow> size (EObject n) < size (EObject m)"
  by (rule member_size) (auto simp: object_of_def ok_or_def split: option.splits)

lemma held_size:
  "x \<in> set schema \<Longrightarrow> e_object (snd x) = Some m \<Longrightarrow> y \<in> set m \<Longrightarrow> object_of (snd y) = Inr n \<Longrightarrow> size (EObject n) < size (EObject schema)"
  by (rule less_trans[OF object_member_size member_size])

lemma held_member_size:
  "x \<in> set schema \<Longrightarrow> e_object (snd x) = Some m \<Longrightarrow> y \<in> set m \<Longrightarrow> object_of (snd y) = Inr n \<Longrightarrow>
     object_at n key = Some p \<Longrightarrow> z \<in> set p \<Longrightarrow> object_of (snd z) = Inr q \<Longrightarrow> size (EObject q) < size (EObject schema)"
  by (rule less_trans[OF less_trans[OF object_member_size size_object_at] held_size])

function json_schema :: "eobject \<Rightarrow> eobject checked" where
  "json_schema schema =
     res_fold (\<lambda>member converted.
       if fst member = ''type'' \<and> snd member = EString ''json'' \<or> fst member = ''discriminator'' then Inr converted
       else case e_object (snd member) of
         None \<Rightarrow> Inr (obj_insert (fst member) (snd member) converted)
       | Some m \<Rightarrow>
           if fst member = ''properties'' then
             res_bind (res_collect (\<lambda>property.
               res_bind (object_of (snd property)) (\<lambda>s.
               res_bind (json_schema s) (\<lambda>j. Inr (fst property, EObject j)))) m) (\<lambda>properties.
             Inr (obj_insert (fst member) (EObject (obj_of properties)) converted))
           else if fst member = ''additionalProperties'' \<or> fst member = ''items'' then
             res_bind (json_schema m) (\<lambda>j. Inr (obj_insert (fst member) (EObject j) converted))
           else if fst member = ''oneOf'' then
             res_bind (ok_or Panicked (opt_str schema ''discriminator'')) (\<lambda>discriminator.
             res_bind (res_collect (\<lambda>variant.
               res_bind (object_of (snd variant)) (\<lambda>declared.
               res_both (case object_at declared ''properties'' of
                   None \<Rightarrow> Inr []
                 | Some properties \<Rightarrow>
                     res_collect (\<lambda>property.
                       res_bind (object_of (snd property)) (\<lambda>s.
                       res_bind (json_schema s) (\<lambda>j. Inr (fst property, EObject j)))) properties)
                 (json_schema declared) (\<lambda>properties tagged.
               Inr (EObject (obj_insert ''required''
                 (EArray (EString discriminator # (case Option.bind (map_of declared ''required'') e_array of None \<Rightarrow> [] | Some xs \<Rightarrow> xs)))
                 (obj_insert ''properties'' (EObject (obj_spread
                   (obj_of [(discriminator, eobj [(''const'', EString (fst variant))])]) (obj_of properties))) tagged)))))) m) (\<lambda>variants.
             Inr (obj_insert (fst member) (EArray variants) converted)))
           else Inr (obj_insert (fst member) (snd member) converted)) schema []"
  by pat_completeness auto
termination
proof (relation "measure (\<lambda>schema. size (EObject schema))"; (simp only: wf_measure in_measure)?)
qed (rule member_size held_size held_member_size; assumption)+

declare json_schema.simps [simp del]

section \<open>The definitions a document names\<close>

text \<open>\<open>subschemas\<close>\<close>

definition subschemas :: "eobject \<Rightarrow> eobject list" where
  "subschemas schema =
     List.map_filter e_object
       (List.map_filter (map_of schema) [''additionalProperties'', ''items'']
        @ concat (map (map snd) (List.map_filter (object_at schema) [''properties'', ''oneOf''])))"

lemma subschemas_size: "s \<in> set (subschemas schema) \<Longrightarrow> size (EObject s) < size (EObject schema)"
proof -
  have held: "size (EObject n) < size (EObject m)" if "object_at m key = Some l" "x \<in> set l" "e_object (snd x) = Some n" for m n l key x
    using size_object_at[OF that(1)] member_size[OF that(2,3)] by (rule less_trans[rotated])
  assume "s \<in> set (subschemas schema)"
  then consider key v where "map_of schema key = Some v" "e_object v = Some s"
    | key m x where "object_at schema key = Some m" "x \<in> set m" "e_object (snd x) = Some s"
    unfolding subschemas_def by (auto simp: map_filter_def split: if_splits)
  then show ?thesis
  proof cases
    case 1
    then have "object_at schema key = Some s" by (simp add: object_at_def)
    then show ?thesis by (rule size_object_at)
  next
    case 2
    then show ?thesis by (rule held)
  qed
qed

function references_in :: "eobject \<Rightarrow> string list" where
  "references_in schema =
     (case local_reference_name (map_of schema ''$ref'') of None \<Rightarrow> [] | Some name \<Rightarrow> [name])
       @ concat (map references_in (subschemas schema))"
  by pat_completeness auto
termination
  by (relation "measure (\<lambda>schema. size (EObject schema))") (simp_all only: wf_measure in_measure subschemas_size)

declare references_in.simps [simp del]

definition def_at :: "eobject \<Rightarrow> string \<Rightarrow> eobject checked" where
  "def_at D name = res_bind (def_of D name) (ok_or Panicked)"

text \<open>The names reached, and the schemas whose references are yet to be followed, the next first.\<close>

definition reach_name :: "eobject \<Rightarrow> string \<Rightarrow> string list \<times> eobject list \<Rightarrow> (string list \<times> eobject list) checked" where
  "reach_name D name found =
     (case found of (reached, pending) \<Rightarrow>
      if name \<in> set reached then Inr (reached, pending)
      else res_bind (def_at D name) (\<lambda>schema. Inr (reached @ [name], schema # pending)))"

definition declared_names :: "eobject \<Rightarrow> string set" where
  "declared_names D = fst ` set (case defs_of D of Inl _ \<Rightarrow> [] | Inr ds \<Rightarrow> ds)"

lemma finite_declared_names [simp]: "finite (declared_names D)"
  unfolding declared_names_def by (rule finite_imageI) (rule finite_set)

abbreviation unreached :: "eobject \<Rightarrow> string list \<Rightarrow> nat" where
  "unreached D reached \<equiv> card (declared_names D - set reached)"

lemma def_at_named: "def_at D name = Inr schema \<Longrightarrow> name \<in> declared_names D"
  by (auto simp: declared_names_def def_at_def def_of_def res_bind_Inr_iff ok_or_def bind_eq_Some_conv split: option.splits
      dest!: map_of_SomeD) force

lemma reach_name_less:
  assumes "reach_name D name (reached, pending) = Inr (reached', pending')"
  shows "reached' = reached \<and> pending' = pending \<or> unreached D reached' < unreached D reached"
proof (cases "name \<in> set reached")
  case True
  with assms show ?thesis by (simp add: reach_name_def)
next
  case False
  with assms have "name \<in> declared_names D" "reached' = reached @ [name]"
    by (auto simp: reach_name_def res_bind_Inr_iff dest: def_at_named)
  with False have "unreached D reached' < unreached D reached" by (intro psubset_card_mono) auto
  then show ?thesis ..
qed

lemma reach_names_less:
  "res_fold (reach_name D) names (reached, pending) = Inr (reached', pending') \<Longrightarrow>
     reached' = reached \<and> pending' = pending \<or> unreached D reached' < unreached D reached"
proof (induction names arbitrary: reached pending)
  case Nil
  then show ?case by simp
next
  case (Cons name names)
  then obtain reached1 pending1 where first: "reach_name D name (reached, pending) = Inr (reached1, pending1)"
    and rest: "res_fold (reach_name D) names (reached1, pending1) = Inr (reached', pending')"
    by (auto simp: res_bind_Inr_iff)
  from reach_name_less[OF first] Cons.IH[OF rest] show ?case by auto
qed

function reach :: "eobject \<Rightarrow> string list \<Rightarrow> eobject list \<Rightarrow> string list checked" where
  "reach D reached [] = Inr reached"
| "reach D reached (schema # pending) =
     res_bind (res_fold (reach_name D) (references_in schema) (reached, pending))
       (\<lambda>found. reach D (fst found) (snd found))"
  by pat_completeness auto
termination
  by (relation "(\<lambda>(D, reached, pending). unreached D reached) <*mlex*> measure (\<lambda>(D, reached, pending). length pending)")
    (auto simp: wf_mlex mlex_iff dest!: reach_names_less)

declare reach.simps [simp del]

definition schema_document :: "eobject \<Rightarrow> eobject \<Rightarrow> ejson checked" where
  "schema_document D reference =
     res_bind (ok_or Panicked (local_reference_name (map_of reference ''$ref''))) (\<lambda>name.
     res_bind (def_at D name) (\<lambda>origin.
     res_bind (reach D [] [origin]) (\<lambda>reached.
     res_bind (def_entries D) (\<lambda>ds.
     res_bind (res_collect (\<lambda>(n, schema). res_bind (json_schema schema) (\<lambda>j. Inr (n, EObject j)))
       (filter (\<lambda>(n, _). n \<in> set reached) ds)) (\<lambda>converted.
     res_bind (json_schema origin) (\<lambda>document.
     Inr (EObject (if converted = [] then document
       else obj_insert ''$defs'' (EObject (obj_of converted)) document))))))))"

section \<open>What a document holds\<close>

text \<open>The names a schema reaches, through the schemas they name.\<close>

inductive reaches :: "eobject \<Rightarrow> eobject \<Rightarrow> string \<Rightarrow> bool" for D origin where
  named: "n \<in> set (references_in origin) \<Longrightarrow> reaches D origin n"
| through: "reaches D origin m \<Longrightarrow> def_at D m = Inr s \<Longrightarrow> n \<in> set (references_in s) \<Longrightarrow> reaches D origin n"

definition names_an_entry :: "eobject \<Rightarrow> string \<Rightarrow> bool" where
  "names_an_entry D name = (case def_at D name of Inl _ \<Rightarrow> False | Inr _ \<Rightarrow> True)"

text \<open>Every reference a declared schema makes is resolved.\<close>

definition resolved_references :: "eobject \<Rightarrow> bool" where
  "resolved_references D =
     list_all (\<lambda>(n, _). case def_at D n of Inl _ \<Rightarrow> True | Inr s \<Rightarrow> list_all (names_an_entry D) (references_in s))
       (case defs_of D of Inl _ \<Rightarrow> [] | Inr ds \<Rightarrow> ds)"

lemma resolvedD: "resolved_references D \<Longrightarrow> def_at D n = Inr s \<Longrightarrow> list_all (names_an_entry D) (references_in s)"
  using def_at_named[of D n s] by (fastforce simp: resolved_references_def declared_names_def list_all_iff)

lemma reach_names:
  assumes "list_all (names_an_entry D) names" "distinct R"
  shows "\<exists>R' P'. res_fold (reach_name D) names (R, P) = Inr (R', P') \<and> distinct R' \<and> set R' = set R \<union> set names \<and>
    set P \<subseteq> set P' \<and> (\<forall>s\<in>set P'. s \<in> set P \<or> (\<exists>n\<in>set names. def_at D n = Inr s)) \<and>
    (\<forall>n\<in>set R' - set R. \<exists>s\<in>set P'. def_at D n = Inr s)"
  using assms
proof (induction names arbitrary: R P)
  case Nil
  then show ?case by simp
next
  case (Cons name names)
  then obtain s where s: "def_at D name = Inr s" by (auto simp: names_an_entry_def split: sum.splits)
  show ?case
  proof (cases "name \<in> set R")
    case True
    then have "reach_name D name (R, P) = Inr (R, P)" by (simp add: reach_name_def)
    with Cons.IH[of R P] Cons.prems True show ?thesis by (fastforce simp: insert_absorb)
  next
    case False
    with s have "reach_name D name (R, P) = Inr (R @ [name], s # P)" by (simp add: reach_name_def)
    moreover obtain R' P' where "res_fold (reach_name D) names (R @ [name], s # P) = Inr (R', P')" "distinct R'"
      "set R' = set (R @ [name]) \<union> set names" "set (s # P) \<subseteq> set P'"
      "\<forall>t\<in>set P'. t \<in> set (s # P) \<or> (\<exists>n\<in>set names. def_at D n = Inr t)"
      "\<forall>n\<in>set R' - set (R @ [name]). \<exists>t\<in>set P'. def_at D n = Inr t"
      using Cons.IH[of "R @ [name]" "s # P"] Cons.prems False by auto
    ultimately show ?thesis using s by (intro exI[of _ R'] exI[of _ P']) auto
  qed
qed

text \<open>What holds whenever a schema is taken: every name reached is reachable, every schema pending is the origin's
  or a reachable name's, and one of those is pending or has its references reached.\<close>

definition reaching :: "eobject \<Rightarrow> eobject \<Rightarrow> string list \<Rightarrow> eobject list \<Rightarrow> bool" where
  "reaching D origin R P \<longleftrightarrow> distinct R \<and> (\<forall>n\<in>set R. reaches D origin n) \<and>
     (\<forall>s\<in>set P. s = origin \<or> (\<exists>n. reaches D origin n \<and> def_at D n = Inr s)) \<and>
     (\<forall>s. s = origin \<or> (\<exists>n\<in>set R. def_at D n = Inr s) \<longrightarrow> s \<in> set P \<or> set (references_in s) \<subseteq> set R)"

lemma reaching_step:
  assumes "reaching D origin R (schema # P)" "set R' = set R \<union> set (references_in schema)" "distinct R'"
    "set P \<subseteq> set P'" "\<forall>s\<in>set P'. s \<in> set P \<or> (\<exists>n\<in>set (references_in schema). def_at D n = Inr s)"
    "\<forall>n\<in>set R' - set R. \<exists>s\<in>set P'. def_at D n = Inr s"
  shows "reaching D origin R' P'"
proof -
  have referenced: "reaches D origin n" if "n \<in> set (references_in schema)" for n
    using assms(1) that by (auto simp: reaching_def intro: reaches.intros)
  have kept: "s \<in> set P' \<or> set (references_in s) \<subseteq> set R'" if "s = origin \<or> (\<exists>n\<in>set R'. def_at D n = Inr s)" for s
  proof (cases "s = origin \<or> (\<exists>n\<in>set R. def_at D n = Inr s)")
    case True
    with assms(1) have "s \<in> set (schema # P) \<or> set (references_in s) \<subseteq> set R" unfolding reaching_def by blast
    with assms(2,4) show ?thesis by auto
  next
    case False
    with that obtain n where n: "n \<in> set R'" "n \<notin> set R" "def_at D n = Inr s" by blast
    with assms(6) obtain t where "t \<in> set P'" "def_at D n = Inr t" by blast
    with n show ?thesis by simp
  qed
  show ?thesis unfolding reaching_def
  proof (intro conjI)
    show "\<forall>n\<in>set R'. reaches D origin n" using assms(1,2) referenced by (auto simp: reaching_def)
    show "\<forall>s\<in>set P'. s = origin \<or> (\<exists>n. reaches D origin n \<and> def_at D n = Inr s)"
      using assms(1,5) referenced by (fastforce simp: reaching_def)
  qed (use assms(3) kept in auto)
qed

lemma reaching_all:
  assumes "reaching D origin R []" "reaches D origin n"
  shows "n \<in> set R"
  using assms(2)
proof induction
  case (named n)
  from assms(1) have "set (references_in origin) \<subseteq> set R" unfolding reaching_def by simp
  with named show ?case by blast
next
  case (through m s n)
  from assms(1) through.IH through.hyps(2) have "set (references_in s) \<subseteq> set R" unfolding reaching_def by auto
  with through.hyps(3) show ?case by blast
qed

lemma reaching_taken:
  assumes "resolved_references D" "list_all (names_an_entry D) (references_in origin)" "reaching D origin R (schema # P)"
  shows "list_all (names_an_entry D) (references_in schema)"
proof -
  from assms(3) consider "schema = origin" | n where "def_at D n = Inr schema" by (auto simp: reaching_def)
  then show ?thesis using assms(1,2) by cases (auto dest: resolvedD)
qed

lemma reach_reaches:
  assumes "resolved_references D" "list_all (names_an_entry D) (references_in origin)" "reaching D origin R P"
  shows "\<exists>reached. reach D R P = Inr reached \<and> distinct reached \<and> (\<forall>n. n \<in> set reached \<longleftrightarrow> reaches D origin n)"
  using assms
proof (induction D R P rule: reach.induct)
  case (1 D R)
  have "distinct R" "\<And>n. n \<in> set R \<Longrightarrow> reaches D origin n" using 1(3) by (auto simp: reaching_def)
  with 1(3) show ?case by (auto simp: reach.simps intro: reaching_all)
next
  case (2 D R schema P)
  have "distinct R" using 2(4) by (simp add: reaching_def)
  then obtain R' P' where
    found: "res_fold (reach_name D) (references_in schema) (R, P) = Inr (R', P')" and
    step: "distinct R'" "set R' = set R \<union> set (references_in schema)" "set P \<subseteq> set P'"
      "\<forall>s\<in>set P'. s \<in> set P \<or> (\<exists>n\<in>set (references_in schema). def_at D n = Inr s)"
      "\<forall>n\<in>set R' - set R. \<exists>s\<in>set P'. def_at D n = Inr s"
    using reach_names[OF reaching_taken[OF 2(2-4)], of R P] by blast
  have "reaching D origin R' P'" using reaching_step[OF 2(4) step(2,1,3-5)] .
  with 2(1)[of "(R', P')"] found 2(2,3) show ?case by (simp add: reach.simps)
qed

lemma reaching_start: "reaching D origin [] [origin]"
  by (simp add: reaching_def)

lemma names_of_collected:
  "res_collect (\<lambda>(n, schema). res_bind (json_schema schema) (\<lambda>j. Inr (n, EObject j))) xs = Inr ys \<Longrightarrow> map fst ys = map fst xs"
  by (induction xs arbitrary: ys) (auto simp: res_bind_Inr_iff)

lemma def_at_entry:
  assumes "def_entries D = Inr ds" "def_at D n = Inr s"
  shows "n \<in> fst ` set ds"
proof -
  from assms(1) obtain m where m: "defs_of D = Inr m" "entries_of m = Inr ds"
    by (auto simp: def_entries_def res_bind_Inr_iff)
  from m(2) have "map fst ds = map fst m"
    unfolding entries_of_def by (induction m arbitrary: ds) (auto simp: res_bind_Inr_iff)
  then have "set (map fst ds) = set (map fst m)" by (rule arg_cong)
  with m(1) have "declared_names D = fst ` set ds" by (simp add: declared_names_def)
  with def_at_named[OF assms(2)] show ?thesis by simp
qed

text \<open>(C23) The document of a schema holds under \<open>$defs\<close> an entry for every name the schema reaches through
  references, however they turn back on each other, and for no other name.\<close>

theorem schema_documents_are_closed:
  assumes resolved: "resolved_references D"
    and origin: "local_reference_name (map_of reference ''$ref'') = Some name" "def_at D name = Inr origin"
    and named: "list_all (names_an_entry D) (references_in origin)"
    and document: "schema_document D reference = Inr document"
    and some: "reaches D origin n"
  shows "\<exists>members held. document = EObject members \<and> map_of members ''$defs'' = Some (EObject held) \<and>
    (\<forall>n. n \<in> fst ` set held \<longleftrightarrow> reaches D origin n)"
proof -
  from reach_reaches[OF resolved named reaching_start] obtain reached where
    reached: "reach D [] [origin] = Inr reached" "\<And>n. n \<in> set reached \<longleftrightarrow> reaches D origin n" by blast
  with document origin obtain ds converted origin' where ds: "def_entries D = Inr ds"
    and converted: "res_collect (\<lambda>(n, schema). res_bind (json_schema schema) (\<lambda>j. Inr (n, EObject j)))
      (filter (\<lambda>(n, _). n \<in> set reached) ds) = Inr converted"
    and made: "document = EObject (if converted = [] then origin' else obj_insert ''$defs'' (EObject (obj_of converted)) origin')"
    unfolding schema_document_def by (auto simp: res_bind_Inr_iff)
  have entry: "m \<in> fst ` set ds" if "m \<in> set reached" for m
  proof -
    from that reached(2) have "reaches D origin m" by simp
    then have "names_an_entry D m"
      by cases (use named in \<open>auto simp: list_all_iff dest: resolvedD[OF resolved]\<close>)
    then show ?thesis using def_at_entry[OF ds] by (auto simp: names_an_entry_def split: sum.splits)
  qed
  have keys: "m \<in> fst ` set converted \<longleftrightarrow> reaches D origin m" for m
  proof -
    have "set (map fst converted) = {n \<in> fst ` set ds. n \<in> set reached}"
      unfolding names_of_collected[OF converted] by force
    with entry[of m] reached(2)[of m] show ?thesis by auto
  qed
  then have "converted \<noteq> []" using some by auto
  moreover have "fst ` set (obj_of converted) = fst ` set converted" using set_keys_obj_of[of converted] by simp
  ultimately show ?thesis using made keys by (simp add: map_of_obj_insert)
qed

text \<open>The checks of a tagged union return before they ask which keywords a schema of its type may have, so one
  whose \<open>items\<close> references no definition is accepted; following its references fails.\<close>

definition union_with_items :: ejson where
  "union_with_items =
     eobj [(''type'', EString ''object''), (''discriminator'', EString ''kind''),
       (''oneOf'', eobj [(''only'', eobj [(''type'', EString ''object''), (''properties'', eobj []),
         (''additionalProperties'', EBool False)])]),
       (''items'', eobj [(''$ref'', EString ''#/$defs/Missing'')])]"

lemma items_beside_a_union:
  "check_schema_node sci (obj_of [(''$defs'', eobj [(''Union'', union_with_items)])]) ''$defs.Union'' union_with_items = walk_ok ()"
  "schema_document (obj_of [(''$defs'', eobj [(''Union'', union_with_items)])]) [(''$ref'', EString ''#/$defs/Union'')] = Inl Panicked"
  by code_simp+

end
