(* ===== verification/GeneratedSamples.thy ===== *)
theory GeneratedSamples
  imports Normalize Layout Documented
begin

text \<open>
  Definitions on which what is read off a definition is evaluated: one written twice in different orders, and one
  whose schemas name each other.
\<close>

section \<open>One definition in two orders\<close>

definition ordered_sections :: "ejson \<Rightarrow> ejson \<Rightarrow> eobject" where
  "ordered_sections declared schemas =
     obj_of [(''version'', ENumber 1), (''namespace'', EString ''notes''), (''$defs'', schemas), (''entities'', declared),
       (''projections'', eobj []), (''mutations'', eobj []),
       (''collaboration'', eobj [(''version'', ENumber 1), (''entities'', eobj [(''Note'', eobj [(''fields'', eobj [])])])])]"

definition one_order :: eobject where
  "one_order = ordered_sections
     (eobj [(''Note'', eobj [(''id'', EString ''id''), (''schema'', reference_to ''Note'')]), (''Board'', eobj [])])
     (eobj [(''Note'', string_schema), (''Board'', string_schema)])"

definition other_order :: eobject where
  "other_order = rev (ordered_sections
     (eobj [(''Board'', eobj []), (''Note'', eobj [(''schema'', reference_to ''Note''), (''id'', EString ''id'')])])
     (eobj [(''Board'', string_schema), (''Note'', string_schema)]))"

lemma orders_alike: "alike UNIV (EObject one_order) (EObject other_order)"
proof -
  have "ejson_same (EObject one_order) (EObject other_order)" by code_simp
  moreover have "distinct_keys (EObject one_order)" by code_simp
  moreover have "distinct_keys (EObject other_order)" by code_simp
  ultimately show ?thesis by (simp add: alike_def)
qed

lemma strings_collate: "tells_apart ((\<le>) :: compare) UNIV"
  by (auto simp: tells_apart_def collation_def)

lemma one_order_normalised: "map_sum id (\<lambda>_. ()) (normalized_document (\<le>) one_order) = Inr ()"
  by code_simp

theorem normal_form_ignores_order_witness:
  "one_order \<noteq> other_order \<and> map_sum id (\<lambda>_. ()) (normalized_document (\<le>) one_order) = Inr ()
     \<and> render_normalized_definition (\<lambda>_. ([], 0)) (\<le>) one_order = render_normalized_definition (\<lambda>_. ([], 0)) (\<le>) other_order"
proof (intro conjI)
  show "one_order \<noteq> other_order" by code_simp
  show "map_sum id (\<lambda>_. ()) (normalized_document (\<le>) one_order) = Inr ()" by (rule one_order_normalised)
  show "render_normalized_definition (\<lambda>_. ([], 0)) (\<le>) one_order = render_normalized_definition (\<lambda>_. ([], 0)) (\<le>) other_order"
    by (rule normal_form_ignores_order[OF strings_collate _ _ _ orders_alike]) simp_all
qed

section \<open>Schemas that name each other\<close>

definition linked :: eobject where
  "linked = obj_of [(''$defs'', eobj [
     (''Root'', eobj [(''type'', EString ''array''), (''items'', reference_to ''Left'')]),
     (''Left'', eobj [(''type'', EString ''array''), (''items'', reference_to ''Right'')]),
     (''Right'', eobj [(''type'', EString ''array''), (''items'', reference_to ''Left'')]),
     (''Alone'', string_schema)])]"

definition linked_root :: eobject where
  "linked_root = obj_of [(''type'', EString ''array''), (''items'', reference_to ''Left'')]"

definition root_reference :: eobject where
  "root_reference = [(''$ref'', EString ''#/$defs/Root'')]"

definition linked_document :: ejson where
  "linked_document = (case schema_document linked root_reference of Inl _ \<Rightarrow> ENull | Inr document \<Rightarrow> document)"

lemma linked_evaluated:
  "resolved_references linked"
  "local_reference_name (map_of root_reference ''$ref'') = Some ''Root''"
  "def_at linked ''Root'' = Inr linked_root"
  "list_all (names_an_entry linked) (references_in linked_root)"
  "schema_document linked root_reference = Inr linked_document"
  "references_in linked_root = [''Left'']"
  by code_simp+

theorem schema_documents_are_closed_witness:
  "\<exists>members held. linked_document = EObject members \<and> map_of members ''$defs'' = Some (EObject held) \<and>
     (\<forall>n. n \<in> fst ` set held \<longleftrightarrow> reaches linked linked_root n)"
proof -
  have "reaches linked linked_root ''Left''" by (rule named) (simp add: linked_evaluated)
  then show ?thesis by (rule schema_documents_are_closed[OF linked_evaluated(1-5)])
qed

end
