(* ===== verification/Spec2Isabelle.thy ===== *)
theory Spec2Isabelle
  imports Documents SessionSamples Contributed Fixtures CodegenSamples GeneratedSamples
begin

text \<open>
  Clerkenwell, a library for applications in which people and agents edit the same documents: the
  collaboration core, from the fields of a document to the answers of a server, and the generator's reading of the
  definitions an application is made from.

  \<^bold>\<open>The program.\<close> A store (\<open>crates/clerkenwell-store\<close>) keeps each document as an envelope: a checkpoint, the
  operations retained since, the principal each peer is bound to. Replicas (\<open>crates/clerkenwell-doc\<close>) read and
  write the fields of a document over a Loro document, as the plan (\<open>crates/clerkenwell-schema\<close>) of its entity
  says, and judge concurrent changes by each field's conflict policy. An import is judged, merged, committed by a
  compare-and-swap, and retried when another service won; every change is announced (\<open>crates/clerkenwell-events\<close>).
  The session (\<open>crates/clerkenwell-session\<close>) serves projections to one connection: subscriptions, their revisions,
  patches and snapshots, mutations and commands. The server (\<open>crates/clerkenwell-axum\<close>) frames requests as JSON-RPC
  and brings every connection the same publications in one order. The operations (\<open>crates/clerkenwell-ops\<close>) offer
  documents, recovery and the registry's entries to agents, each under a description of its effect and refusals. What is
  specific to an application, the plans among it, is generated from a definition (\<open>crates/clerkenwell-codegen\<close>), which the
  generator expands and checks before it writes any code.

  \<^bold>\<open>The theories, in the order of the code.\<close>

  \<^item> \<open>Prelude\<close>, \<open>Json\<close>: results as sums, actions on a state, ordered maps, decimal numbers, saturating words,
    \<open>serde_json\<close> values; the intro rules \<open>moves\<close> that every component's frame proofs use.
  \<^item> \<open>Events\<close> (\<open>clerkenwell-events/src/lib.rs\<close>), \<open>Schema\<close> (\<open>clerkenwell-schema/src/lib.rs\<close>, \<open>authoring.rs\<close>).
  \<^item> \<open>Loro\<close>, \<open>Substrate\<close>, \<open>Writing\<close> (\<open>clerkenwell-doc/src/substrate.rs\<close>), \<open>Policy\<close> (\<open>policy.rs\<close>), \<open>Replica\<close>
    (\<open>lib.rs\<close>). The Loro crate, base64 and the diff crate are the record \<open>loro\<close>, an argument of everything that
    uses them, with the laws the code relies on as named hypotheses (\<open>list_law\<close>, \<open>diff_law\<close>, \<open>b64_law\<close>).
  \<^item> \<open>StoreError\<close>, \<open>Versions\<close>, \<open>Peers\<close>, \<open>Envelope\<close>, \<open>Residency\<close> (the files of the same names of the store), \<open>Storage\<close>
    (the port, the in-memory port of \<open>examples/notes/src/storage.rs\<close>, and a port other services write to between
    two calls), \<open>Service\<close>, \<open>Import\<close>, \<open>Recovery\<close> (\<open>clerkenwell-store/src/lib.rs\<close>). A service is the record \<open>service\<close>;
    an operation is an action on a \<open>world\<close>: the storage, what the service holds in memory, the feed, the clock.
    Hashing, the keyed code, the envelope's serialisation and fresh identifiers are the record \<open>ext\<close>.
  \<^item> \<open>Coherence\<close>, \<open>Serving\<close>, \<open>Accepting\<close>, \<open>Effects\<close>, \<open>Removal\<close>, \<open>Documents\<close>: the properties of the store and of documents.
  \<^item> \<open>Transport\<close>, \<open>Registry\<close>, \<open>Subscriptions\<close>, \<open>Authoring\<close>, \<open>Server\<close> (the files of \<open>clerkenwell-session/src\<close>).
    \<open>Tasks\<close> models an \<open>async fn\<close>: a task is over or takes a step on the shared state, one step for each call of the
    host and each closure given to \<open>with_subscriptions\<close>, and other tasks may step in between.
  \<^item> \<open>Sessions\<close>, \<open>Delivering\<close>: the properties of a connection.
  \<^item> \<open>Rpc\<close>, \<open>Sockets\<close> (\<open>clerkenwell-axum/src/lib.rs\<close>): the framing, then the server's state with one function for
    each turn of a connection, of a command and of the shutdown.
  \<^item> \<open>Ledger\<close>: what the server promises, abstractly: numbered entries, desks with tickets to answer, jobs.
    \<open>Answering\<close>: the server's step relation and the simulation that it refines the ledger.
  \<^item> \<open>Operations\<close> (the files of \<open>clerkenwell-ops/src\<close>): refusals, descriptions, and the document, recovery and generated
    operations as actions on the application's stores or on the server. \<open>Refusing\<close>: \<open>refuses\<close>, which follows the errors
    of an action along its binds, from the port up to the edit. \<open>Contributed\<close>: what the operations keep of their descriptions.
  \<^item> \<open>Ecma\<close> (\<open>json.rs\<close> of \<open>clerkenwell-codegen/src\<close>, as all that follow): JSON values as ECMAScript orders and writes them.
    \<open>Names\<close> (\<open>names.rs\<close>), \<open>Definitions\<close> (\<open>definition.rs\<close>, \<open>schema.rs\<close>, \<open>error.rs\<close>): the names generated and what a definition
    gives; reading one fails as \<open>Refused\<close>, an error, or \<open>Panicked\<close>. \<open>Expanding\<close> (\<open>expand.rs\<close>): what is declared for
    collaborative entities. \<open>References\<close>, \<open>Schemas\<close>, \<open>Validation\<close> (\<open>validate.rs\<close>): the semantic checks, which may not
    end, as \<open>walk\<close>s. \<open>Ending\<close>: when they end; \<open>Accepted\<close>: what holds of a definition they accept;
    \<open>Outputs\<close>: which part of one registers which generated name.
  \<^item> \<open>Normalize\<close> (\<open>normalize.rs\<close>), \<open>Documented\<close> (\<open>json_schema.rs\<close>), \<open>Layout\<close> (\<open>layout.rs\<close>): the normal form of a definition,
    the JSON Schema documents of its schemas, and how the Rust written for it is laid out. \<open>Sampling\<close>, \<open>Fixtures\<close>
    (\<open>fixtures.rs\<close>): sample values of schemas, and the two corpora the bindings are tested against, made of them.
  \<^item> \<open>Samples\<close>, \<open>SessionSamples\<close>, \<open>CodegenSamples\<close>, \<open>GeneratedSamples\<close>: concrete instances the properties are applied to.

  \<^bold>\<open>What is shown.\<close> Of documents: the conflicting paths are exactly those the policies refuse; lists are written
  to what was wanted; values set at a path are read back and every other path reads as before. Of the store: a read is
  what decoding the stored bytes gives at that moment, whether served from memory or not and whoever else writes;
  an accepted import passed every judgement; validation accepts exactly the envelopes its specification describes and
  every commit builds one; no two commits over one version are accepted; deletion ends; a refused import changes no
  document and is audited once; counters of residency are exact. Of a connection: its client stays in step with it
  however its handlers interleave; a change reaches the subscriptions it affects once each; refusals are addressed and
  change nothing, but for a command that ran and whose result does not encode. Of the server: it refines the ledger, so no answer is lost, also across lag, counts and
  permits are exact, and a shutdown closes a connection only after its last answer. Of the operations: they refuse with the codes
  they declare, queries change nothing that is stored, and each touches one store. Of the generator: its checks end unless a
  collaborative entity is a tree; what they accept has distinct names, resolved effects and well-shaped operations; expansion
  keeps what a definition declares; which generated names Rust accepts is told exactly, and a definition is accepted exactly when no two of its
  parts register one name; a definition's normal form does not depend on the order it is written in; schema documents
  hold what they reference; every layout of an item is the Rust of its expression by a grammar of its own; what the
  fixtures sample of a schema is a value of it.

  \<^bold>\<open>Interfaces.\<close> Locales state what one part relies on of another and are interpreted on the model's definitions: the
  storage port and its invariant, the calls a service makes and the coherence they keep, and \<open>session_law\<close>, the
  relation every step of every handler keeps.

  \<^bold>\<open>Choices.\<close> Sequences, generations, revisions, tickets and publication numbers are 64-bit words; where a property
  needs that none has run out, it says so (\<open>roomy\<close>, \<open>server_roomy\<close>). Loops the code bounds by a policy are recursion on
  the attempts left; loops that only end when other writers pause are \<open>partial_function (option)\<close>, and that they
  return is proved for every finite schedule of other writers. Recursion over documents is bounded by the depth of the
  plan, a measure proved to decrease. \<open>ses_sent\<close> and \<open>cn_sent\<close> are histories of what was made for a client, which no
  code reads. A broadcast receiver that is more than the channel's capacity behind has lagged; the capacity is an
  argument. A panic of the application is the outcome the code catches it as, except for one in
  the encoding of what it publishes, under the lock of the publications, which is not modelled; the in-memory port's
  version counter fails at the end of \<open>u64\<close>, where the code would panic or wrap.

  \<^bold>\<open>Not modelled.\<close> Messages of errors, which no code reads; the HTTP router, the WebSocket upgrade and the sending of
  frames; the generator's templates of Rust and TypeScript (\<open>rust.rs\<close>, \<open>typescript.rs\<close>, \<open>replica.rs\<close>), its configuration, its imports of schema files, and the notebook it generates; \<open>serde_json\<close>'s parser, the
  meta-schema, and the locale's collation, which are arguments; serde adapters of generated types; the conformance harness, the examples' applications, the release tools, the TypeScript client.
\<close>

end
